(* ===== verification/Prelude.thy ===== *)
theory Prelude
  imports Main "HOL-Library.Word" "HOL-Library.Monad_Syntax"
begin

text \<open>
  Shared vocabulary of the development.

  A C function whose execution may end in a failed \<^verbatim>\<open>assert()\<close>, a dereference of a null
  pointer or an access outside an object is modelled by a function into \<open>'a option\<close>:
  \<open>None\<close> is the abnormal end, \<open>Some r\<close> a normal return. Status codes, which the program
  returns as C integers, stay integers (theory Status_Codes).
\<close>

unbundle bit_operations_syntax

type_synonym byte = "8 word"

text \<open>A limit of \<^verbatim>\<open>src/src/base/parms.h\<close> that several components use.\<close>

abbreviation MAX_MAX_TRIES :: nat where "MAX_MAX_TRIES \<equiv> 15"

named_theorems byte_simps \<open>rewriting of bytes and their integer values\<close>
named_theorems mem_simps \<open>reads and writes of byte arrays\<close>

section \<open>Assertions\<close>

text \<open>\<^verbatim>\<open>assert(b)\<close>: the program stops unless \<open>b\<close> holds.\<close>

definition c_assert :: "bool \<Rightarrow> unit option" where
  "c_assert b = (if b then Some () else None)"

lemma c_assert_simps [simp]:
  "c_assert True = Some ()"
  "c_assert False = None"
  by (simp_all add: c_assert_def)

lemma c_assert_bind_Some:
  "(c_assert b \<bind> f = Some x) \<longleftrightarrow> b \<and> f () = Some x"
  by (cases b) simp_all

lemma c_assert_bind_None:
  "(c_assert b \<bind> f = None) \<longleftrightarrow> \<not> b \<or> f () = None"
  by (cases b) simp_all

section \<open>Byte arrays\<close>

text \<open>\<^verbatim>\<open>memcpy(dst + off, src, length src)\<close> on the array \<open>xs\<close>.\<close>

definition mem_write :: "'a list \<Rightarrow> nat \<Rightarrow> 'a list \<Rightarrow> 'a list" where
  "mem_write xs off ys = take off xs @ ys @ drop (off + length ys) xs"

lemma length_mem_write [mem_simps]:
  "off + length ys \<le> length xs \<Longrightarrow> length (mem_write xs off ys) = length xs"
  by (simp add: mem_write_def)

lemma mem_write_Nil [mem_simps]: "mem_write xs off [] = xs"
  by (simp add: mem_write_def)

lemma take_mem_write_end [mem_simps]:
  "off \<le> length xs \<Longrightarrow> take (off + length ys) (mem_write xs off ys) = take off xs @ ys"
  by (simp add: mem_write_def)

lemma take_mem_write_before [mem_simps]:
  "n \<le> off \<Longrightarrow> off \<le> length xs \<Longrightarrow> take n (mem_write xs off ys) = take n xs"
  by (simp add: mem_write_def min_absorb1)

lemma nth_mem_write:
  "off + length ys \<le> length xs \<Longrightarrow> i < length xs \<Longrightarrow>
   mem_write xs off ys ! i =
     (if off \<le> i \<and> i < off + length ys then ys ! (i - off) else xs ! i)"
  by (auto simp: mem_write_def nth_append)

lemma mem_write_0_all: "length ys = length xs \<Longrightarrow> mem_write xs 0 ys = ys"
  by (simp add: mem_write_def)

lemma mem_write_prefix:
  "off = length pre \<Longrightarrow> mem_write (pre @ zs) off ys = pre @ ys @ drop (length ys) zs"
  by (simp add: mem_write_def)

section \<open>Bytes\<close>

lemma unat_byte_less [simp]: "unat (b :: byte) < 256"
  using unsigned_less [of b] by simp

lemma uint_byte_range [simp]: "0 \<le> uint (b :: byte)" "uint (b :: byte) < 256"
  using unsigned_less [of b] by simp_all

lemma unat_of_nat_byte [byte_simps]: "n < 256 \<Longrightarrow> unat (of_nat n :: byte) = n"
  by (simp add: unat_of_nat)

lemma unat_and_7f [byte_simps]: "unat (b AND 0x7f :: byte) = unat b mod 128"
proof -
  have "unat (b AND 0x7f) = unat b AND 127"
    by (simp add: unsigned_and_eq)
  also have "\<dots> = take_bit 7 (unat b)"
    unfolding take_bit_eq_mask mask_eq_exp_minus_1 by simp
  also have "\<dots> = unat b mod 2 ^ 7"
    by (rule take_bit_eq_mod)
  finally show ?thesis by simp
qed

text \<open>Two bytes as a big-endian 16 bit value, C's \<^verbatim>\<open>hi << 8 | lo\<close> on \<^verbatim>\<open>int\<close> operands.\<close>

definition hi_lo :: "byte \<Rightarrow> byte \<Rightarrow> nat" where
  "hi_lo hi lo = unat hi * 256 + unat lo"

text \<open>C's \<^verbatim>\<open>(v >> 8) & 0xff\<close>, \<^verbatim>\<open>(v >> 16) & 0xff\<close> and \<^verbatim>\<open>v & 0xff\<close> on a nonnegative \<^verbatim>\<open>int\<close>.\<close>

definition byte_of :: "nat \<Rightarrow> byte" where "byte_of v = of_nat (v mod 256)"
definition byte_of_shr8 :: "nat \<Rightarrow> byte" where "byte_of_shr8 v = of_nat (v div 256 mod 256)"
definition byte_of_shr16 :: "nat \<Rightarrow> byte" where "byte_of_shr16 v = of_nat (v div 65536 mod 256)"

lemma unat_byte_of [byte_simps]: "unat (byte_of v) = v mod 256"
  by (simp add: byte_of_def unat_of_nat_byte)

lemma unat_byte_of_shr8 [byte_simps]: "unat (byte_of_shr8 v) = v div 256 mod 256"
  by (simp add: byte_of_shr8_def unat_of_nat_byte)

lemma unat_byte_of_shr16 [byte_simps]: "unat (byte_of_shr16 v) = v div 65536 mod 256"
  by (simp add: byte_of_shr16_def unat_of_nat_byte)

lemma hi_lo_less: "hi_lo hi lo < 65536"
proof -
  have "unat hi \<le> 255" "unat lo \<le> 255"
    using unat_byte_less [of hi] unat_byte_less [of lo] by linarith+
  then show ?thesis by (simp add: hi_lo_def)
qed

lemma hi_lo_split: "v < 65536 \<Longrightarrow> hi_lo (byte_of_shr8 v) (byte_of v) = v"
  by (simp add: hi_lo_def byte_simps)

section \<open>Exclusive or over a list\<close>

fun xor_all :: "byte list \<Rightarrow> byte" where
  "xor_all [] = 0"
| "xor_all (b # bs) = b XOR xor_all bs"

lemma xor_all_append [simp]: "xor_all (xs @ ys) = xor_all xs XOR xor_all ys"
  by (induction xs) (simp_all add: xor.assoc)

lemma foldl_xor: "foldl (XOR) a bs = a XOR xor_all bs"
  by (induction bs arbitrary: a) (simp_all add: xor.assoc)

section \<open>Lists\<close>

lemma take_Suc_nth: "n < length xs \<Longrightarrow> take (Suc n) xs = take n xs @ [xs ! n]"
  by (simp add: take_Suc_conv_app_nth)

lemma nth_take_drop: "i < n \<Longrightarrow> m + i < length xs \<Longrightarrow> take n (drop m xs) ! i = xs ! (m + i)"
  by simp

end
