(* ===== verification/Status_Codes.thy ===== *)
theory Status_Codes
  imports Prelude
begin

text \<open>
  Status codes: \<^verbatim>\<open>src/src/public/ddcutil_status_codes.h\<close>, the ranges of
  \<^verbatim>\<open>src/src/base/status_code_mgt.h\<close> and the modulation functions of
  \<^verbatim>\<open>src/src/base/status_code_mgt.c\<close>. A status code is a C \<^verbatim>\<open>int\<close>: 0 for success, a
  negated Linux errno, or a negative DDC specific code. All values of interest are far
  inside the range of \<^verbatim>\<open>int\<close>, so they are integers here.
\<close>

section \<open>The codes\<close>

abbreviation RCRANGE_DDC_START :: int where "RCRANGE_DDC_START \<equiv> 3000"

abbreviation DDCRC_OK :: int where "DDCRC_OK \<equiv> 0"
abbreviation DDCRC_DDC_DATA :: int where "DDCRC_DDC_DATA \<equiv> -3001"
abbreviation DDCRC_NULL_RESPONSE :: int where "DDCRC_NULL_RESPONSE \<equiv> -3002"
abbreviation DDCRC_MULTI_PART_READ_FRAGMENT :: int where "DDCRC_MULTI_PART_READ_FRAGMENT \<equiv> -3003"
abbreviation DDCRC_ALL_TRIES_ZERO :: int where "DDCRC_ALL_TRIES_ZERO \<equiv> -3004"
abbreviation DDCRC_REPORTED_UNSUPPORTED :: int where "DDCRC_REPORTED_UNSUPPORTED \<equiv> -3005"
abbreviation DDCRC_READ_ALL_ZERO :: int where "DDCRC_READ_ALL_ZERO \<equiv> -3006"
abbreviation DDCRC_RETRIES :: int where "DDCRC_RETRIES \<equiv> -3007"
abbreviation DDCRC_EDID :: int where "DDCRC_EDID \<equiv> -3008"
abbreviation DDCRC_READ_EDID :: int where "DDCRC_READ_EDID \<equiv> -3009"
abbreviation DDCRC_INVALID_EDID :: int where "DDCRC_INVALID_EDID \<equiv> -3010"
abbreviation DDCRC_ALL_RESPONSES_NULL :: int where "DDCRC_ALL_RESPONSES_NULL \<equiv> -3011"
abbreviation DDCRC_DETERMINED_UNSUPPORTED :: int where "DDCRC_DETERMINED_UNSUPPORTED \<equiv> -3012"
abbreviation DDCRC_ARG :: int where "DDCRC_ARG \<equiv> -3013"
abbreviation DDCRC_INVALID_OPERATION :: int where "DDCRC_INVALID_OPERATION \<equiv> -3014"
abbreviation DDCRC_INTERNAL_ERROR :: int where "DDCRC_INTERNAL_ERROR \<equiv> -3021"
abbreviation DDCRC_LOCKED :: int where "DDCRC_LOCKED \<equiv> -3025"
abbreviation DDCRC_ALREADY_OPEN :: int where "DDCRC_ALREADY_OPEN \<equiv> -3026"
abbreviation DDCRC_DISCONNECTED :: int where "DDCRC_DISCONNECTED \<equiv> -3029"

text \<open>Linux \<^verbatim>\<open>errno\<close> values the program distinguishes.\<close>

abbreviation EIO :: int where "EIO \<equiv> 5"
abbreviation ENXIO :: int where "ENXIO \<equiv> 6"
abbreviation EBADF :: int where "EBADF \<equiv> 9"
abbreviation EBUSY :: int where "EBUSY \<equiv> 16"
abbreviation EINVAL :: int where "EINVAL \<equiv> 22"

section \<open>Ranges and modulation\<close>

datatype Retcode_Range_Id = RR_ERRNO | RR_ADL | RR_DDC

record Retcode_Range_Table_Entry =
  rr_id :: Retcode_Range_Id
  rr_base :: int
  rr_max :: int

definition retcode_range_table :: "Retcode_Range_Table_Entry list" where
  "retcode_range_table =
     [\<lparr>rr_id = RR_ERRNO, rr_base = 0, rr_max = 1999\<rparr>,
      \<lparr>rr_id = RR_ADL, rr_base = 2000, rr_max = 2999\<rparr>,
      \<lparr>rr_id = RR_DDC, rr_base = RCRANGE_DDC_START, rr_max = 3999\<rparr>]"

fun range_index :: "Retcode_Range_Id \<Rightarrow> nat" where
  "range_index RR_ERRNO = 0"
| "range_index RR_ADL = 1"
| "range_index RR_DDC = 2"

text \<open>Every entry of the table stands at the index of its id, which the C code asserts.\<close>

definition validate_retcode_range_table :: "bool" where
  "validate_retcode_range_table =
     list_all (\<lambda>ndx. range_index (rr_id (retcode_range_table ! ndx)) = ndx)
       [0..<length retcode_range_table]"

text \<open>Only ADL codes are modulated; any other range fails the assertion.\<close>

definition modulate_rc :: "int \<Rightarrow> Retcode_Range_Id \<Rightarrow> int option" where
  "modulate_rc rc range_id = do {
     c_assert (range_id = RR_ADL);
     let base = rr_base (retcode_range_table ! range_index range_id);
     Some (if rc \<noteq> 0 then (if rc < 0 then rc - base else rc + base) else rc)
   }"

definition demodulate_rc :: "int \<Rightarrow> Retcode_Range_Id \<Rightarrow> int option" where
  "demodulate_rc rc range_id = do {
     c_assert (range_id = RR_ADL);
     let base = rr_base (retcode_range_table ! range_index range_id);
     Some (if rc \<noteq> 0 then (if rc < 0 then rc + base else rc - base) else rc)
   }"

text \<open>The first range that holds \<^verbatim>\<open>abs(rc)\<close>; the C code asserts that there is one.\<close>

fun find_range :: "int \<Rightarrow> Retcode_Range_Table_Entry list \<Rightarrow> Retcode_Range_Id option" where
  "find_range abs_rc [] = None"
| "find_range abs_rc (e # es) =
     (if abs_rc \<ge> rr_base e \<and> abs_rc \<le> rr_max e then Some (rr_id e) else find_range abs_rc es)"

definition get_modulation :: "int \<Rightarrow> Retcode_Range_Id option" where
  "get_modulation rc = find_range \<bar>rc\<bar> retcode_range_table"

lemma retcode_range_table_valid: "validate_retcode_range_table"
  by (simp add: validate_retcode_range_table_def retcode_range_table_def upt_rec)

lemma get_modulation_eq:
  "get_modulation rc =
     (if \<bar>rc\<bar> \<le> 1999 then Some RR_ERRNO
      else if \<bar>rc\<bar> \<le> 2999 then Some RR_ADL
      else if \<bar>rc\<bar> \<le> 3999 then Some RR_DDC else None)"
  by (simp add: get_modulation_def retcode_range_table_def)

lemma demodulate_modulate:
  "modulate_rc rc RR_ADL = Some m \<Longrightarrow> demodulate_rc m RR_ADL = Some rc"
  by (auto simp: modulate_rc_def demodulate_rc_def retcode_range_table_def split: if_splits)

lemma modulate_rc_range:
  assumes "modulate_rc rc RR_ADL = Some m" and "rc \<noteq> 0" and "\<bar>rc\<bar> \<le> 999"
  shows "get_modulation m = Some RR_ADL"
  using assms
  by (auto simp: modulate_rc_def retcode_range_table_def get_modulation_eq split: if_splits)

end
