(* ===== verification/Byte_Buffer.thy ===== *)
theory Byte_Buffer
  imports Prelude
begin

text \<open>
  The \<^verbatim>\<open>Buffer\<close> type of \<^verbatim>\<open>src/src/util/data_structures.c\<close> (lines 33-352): a byte
  array with a logical length. \<open>buf_bytes\<close> is the whole allocated array; \<^verbatim>\<open>buffer_new\<close>
  allocates 16 bytes more than \<open>buffer_size\<close>. Sizes, lengths and offsets are \<open>nat\<close>:
  every caller passes nonnegative values. The C assertions are the \<open>c_assert\<close> steps; a
  \<^verbatim>\<open>memcpy\<close> or store that leaves the allocated array is \<open>None\<close> as well. The contents of
  the bytes that \<^verbatim>\<open>realloc\<close> adds are not defined by C: they are the parameter \<open>junk\<close>.
\<close>

section \<open>State\<close>

record Buffer =
  buf_bytes :: "byte list"
  buffer_size :: nat
  buf_len :: nat
  size_increment :: nat

text \<open>The bytes a reader of the buffer sees.\<close>

definition contents :: "Buffer \<Rightarrow> byte list" where
  "contents b = take (buf_len b) (buf_bytes b)"

definition buffer_ok :: "Buffer \<Rightarrow> bool" where
  "buffer_ok b \<longleftrightarrow> buf_len b \<le> buffer_size b \<and> buffer_size b \<le> length (buf_bytes b)"

section \<open>Operations\<close>

definition buffer_new :: "nat \<Rightarrow> Buffer" where
  "buffer_new sz =
     (let hacked_size = sz + 16
      in \<lparr>buf_bytes = replicate hacked_size 0, buffer_size = sz, buf_len = 0,
          size_increment = 0\<rparr>)"

definition buffer_set_size_increment :: "Buffer \<Rightarrow> nat \<Rightarrow> Buffer" where
  "buffer_set_size_increment buf incr = buf\<lparr>size_increment := incr\<rparr>"

definition buffer_length :: "Buffer \<Rightarrow> nat" where
  "buffer_length b = buf_len b"

definition buffer_set_length :: "Buffer \<Rightarrow> nat \<Rightarrow> Buffer option" where
  "buffer_set_length b bytect = do {
     c_assert (bytect \<le> buffer_size b);
     Some (b\<lparr>buf_len := bytect\<rparr>)
   }"

text \<open>\<open>memcpy\<close> into the array of a buffer, \<open>None\<close> when it leaves the allocation.\<close>

definition buf_memcpy :: "Buffer \<Rightarrow> nat \<Rightarrow> byte list \<Rightarrow> Buffer option" where
  "buf_memcpy b off ys = do {
     c_assert (off + length ys \<le> length (buf_bytes b));
     Some (b\<lparr>buf_bytes := mem_write (buf_bytes b) off ys\<rparr>)
   }"

text \<open>
  \<^verbatim>\<open>buffer_put\<close> copies to the start of the array, but adds the count to the length.
\<close>

definition buffer_put :: "Buffer \<Rightarrow> byte list \<Rightarrow> Buffer option" where
  "buffer_put b ys = do {
     c_assert (length ys \<le> buffer_size b);
     b \<leftarrow> buf_memcpy b 0 ys;
     Some (b\<lparr>buf_len := buf_len b + length ys\<rparr>)
   }"

definition buffer_new_with_value :: "byte list \<Rightarrow> Buffer option" where
  "buffer_new_with_value ys = buffer_put (buffer_new (length ys)) ys"

definition buffer_dup :: "Buffer \<Rightarrow> Buffer option" where
  "buffer_dup src = buffer_new_with_value (take (buf_len src) (buf_bytes src))"

definition buffer_set_byte :: "Buffer \<Rightarrow> nat \<Rightarrow> byte \<Rightarrow> Buffer option" where
  "buffer_set_byte b off v = do {
     c_assert (off < buffer_size b);
     buf_memcpy b off [v]
   }"

definition buffer_set_bytes :: "Buffer \<Rightarrow> nat \<Rightarrow> byte list \<Rightarrow> Buffer option" where
  "buffer_set_bytes b off ys = do {
     c_assert (off + length ys \<le> buffer_size b);
     buf_memcpy b off ys
   }"

text \<open>\<^verbatim>\<open>realloc\<close> to the new size: the old bytes that fit are kept.\<close>

definition buffer_extend :: "(nat \<Rightarrow> byte) \<Rightarrow> Buffer \<Rightarrow> nat \<Rightarrow> Buffer" where
  "buffer_extend junk b addl_size =
     (let new_size = buffer_size b + addl_size;
          old = take new_size (buf_bytes b)
      in b\<lparr>buf_bytes := old @ map junk [length old..<new_size], buffer_size := new_size\<rparr>)"

text \<open>The resize step of \<^verbatim>\<open>buffer_append\<close>, then the append.\<close>

definition buffer_make_room :: "(nat \<Rightarrow> byte) \<Rightarrow> Buffer \<Rightarrow> nat \<Rightarrow> Buffer" where
  "buffer_make_room junk b required_size =
     (if required_size > buffer_size b \<and> size_increment b > 0
      then let new_size = max required_size (buffer_size b + size_increment b)
           in buffer_extend junk b (new_size - buffer_size b)
      else b)"

definition buffer_append :: "(nat \<Rightarrow> byte) \<Rightarrow> Buffer \<Rightarrow> byte list \<Rightarrow> Buffer option" where
  "buffer_append junk b ys = do {
     let b = buffer_make_room junk b (buf_len b + 2 + length ys);
     c_assert (buf_len b + 2 + length ys \<le> buffer_size b);
     b \<leftarrow> buf_memcpy b (buf_len b) ys;
     Some (b\<lparr>buf_len := buf_len b + length ys\<rparr>)
   }"

text \<open>A C string is its characters, none of them 0, followed by a 0 byte.\<close>

definition buffer_strcat :: "(nat \<Rightarrow> byte) \<Rightarrow> Buffer \<Rightarrow> byte list \<Rightarrow> Buffer option" where
  "buffer_strcat junk b str =
     (if buf_len b = 0 then buffer_append junk b (str @ [0])
      else do {
        c_assert (buf_bytes b ! (buf_len b - 1) = 0);
        b \<leftarrow> buffer_set_length b (buf_len b - 1);
        buffer_append junk b (str @ [0])
      })"

definition buffer_add :: "Buffer \<Rightarrow> byte \<Rightarrow> Buffer option" where
  "buffer_add b v = do {
     c_assert (buf_len b + 1 \<le> buffer_size b);
     b \<leftarrow> buf_memcpy b (buf_len b) [v];
     Some (b\<lparr>buf_len := buf_len b + 1\<rparr>)
   }"

text \<open>A null pointer is \<open>None\<close>.\<close>

fun buffer_eq :: "Buffer option \<Rightarrow> Buffer option \<Rightarrow> bool" where
  "buffer_eq None None = True"
| "buffer_eq (Some b1) (Some b2) =
     (buf_len b1 = buf_len b2 \<and>
      take (buf_len b1) (buf_bytes b1) = take (buf_len b1) (buf_bytes b2))"
| "buffer_eq _ _ = False"

section \<open>Invariant and contents\<close>

lemmas buffer_op_defs =
  buffer_set_length_def buf_memcpy_def buffer_put_def buffer_set_byte_def
  buffer_set_bytes_def buffer_add_def c_assert_bind_Some

lemma buffer_okD:
  "buffer_ok b \<Longrightarrow> buf_len b \<le> buffer_size b"
  "buffer_ok b \<Longrightarrow> buffer_size b \<le> length (buf_bytes b)"
  "buffer_ok b \<Longrightarrow> buf_len b \<le> length (buf_bytes b)"
  by (simp_all add: buffer_ok_def)

lemma buffer_new_ok [simp]: "buffer_ok (buffer_new n)"
  by (simp add: buffer_ok_def buffer_new_def)

lemma buffer_new_fields [simp]:
  "buf_len (buffer_new n) = 0"
  "buffer_size (buffer_new n) = n"
  "size_increment (buffer_new n) = 0"
  "contents (buffer_new n) = []"
  "length (buf_bytes (buffer_new n)) = n + 16"
  by (simp_all add: buffer_new_def contents_def)

lemma length_contents: "buffer_ok b \<Longrightarrow> length (contents b) = buf_len b"
  by (simp add: contents_def buffer_ok_def)

lemma buffer_set_length_Some:
  "buffer_set_length b n = Some b' \<longleftrightarrow> n \<le> buffer_size b \<and> b' = b\<lparr>buf_len := n\<rparr>"
  by (auto simp: buffer_op_defs)

lemma buffer_set_bytes_Some:
  "buffer_ok b \<Longrightarrow> buffer_set_bytes b off ys = Some b' \<longleftrightarrow>
   off + length ys \<le> buffer_size b \<and> b' = b\<lparr>buf_bytes := mem_write (buf_bytes b) off ys\<rparr>"
  by (auto simp: buffer_op_defs buffer_ok_def)

lemma buffer_set_byte_eq:
  "buffer_set_byte b off v = buffer_set_bytes b off [v]"
  by (cases "off < buffer_size b") (auto simp: buffer_set_byte_def buffer_set_bytes_def)

lemma buffer_ok_write:
  "buffer_ok b \<Longrightarrow> off + length ys \<le> buffer_size b \<Longrightarrow>
   buffer_ok (b\<lparr>buf_bytes := mem_write (buf_bytes b) off ys\<rparr>)"
  by (simp add: buffer_ok_def mem_simps)

lemma buffer_extend_ok:
  "buffer_ok b \<Longrightarrow> buffer_ok (buffer_extend junk b n)"
  by (simp add: buffer_ok_def buffer_extend_def Let_def)

lemma contents_extend:
  "buffer_ok b \<Longrightarrow> contents (buffer_extend junk b n) = contents b"
  by (simp add: buffer_ok_def buffer_extend_def Let_def contents_def)

lemma buffer_extend_fields [simp]:
  "buf_len (buffer_extend junk b n) = buf_len b"
  "size_increment (buffer_extend junk b n) = size_increment b"
  "buffer_size (buffer_extend junk b n) = buffer_size b + n"
  by (simp_all add: buffer_extend_def Let_def)

text \<open>Appending within the size of the buffer.\<close>

lemma append_raw:
  assumes "buffer_ok b" and "buf_len b + length ys \<le> buffer_size b"
  shows "buf_memcpy b (buf_len b) ys = Some (b\<lparr>buf_bytes := mem_write (buf_bytes b) (buf_len b) ys\<rparr>)"
    and "contents (b\<lparr>buf_bytes := mem_write (buf_bytes b) (buf_len b) ys,
                     buf_len := buf_len b + length ys\<rparr>) = contents b @ ys"
    and "buffer_ok (b\<lparr>buf_bytes := mem_write (buf_bytes b) (buf_len b) ys,
                     buf_len := buf_len b + length ys\<rparr>)"
  using assms
  by (simp_all add: buf_memcpy_def c_assert_def contents_def buffer_ok_def mem_simps)

text \<open>
  The condition under which \<^verbatim>\<open>buffer_append\<close> meets its assertion: the buffer may grow, or
  two bytes more than the new length fit.
\<close>

definition append_fits :: "Buffer \<Rightarrow> nat \<Rightarrow> bool" where
  "append_fits b n \<longleftrightarrow> size_increment b > 0 \<or> buf_len b + 2 + n \<le> buffer_size b"

lemma buffer_append_spec:
  assumes ok: "buffer_ok b" and fits: "append_fits b (length ys)"
  obtains b' where "buffer_append junk b ys = Some b'" and "buffer_ok b'"
    and "contents b' = contents b @ ys" and "size_increment b' = size_increment b"
    and "buffer_size b \<le> buffer_size b'"
proof -
  let ?req = "buf_len b + 2 + length ys"
  define b1 where "b1 = buffer_make_room junk b ?req"
  have ok1: "buffer_ok b1"
    using ok by (simp add: b1_def buffer_make_room_def buffer_extend_ok)
  have len1: "buf_len b1 = buf_len b" and con1: "contents b1 = contents b"
    and inc1: "size_increment b1 = size_increment b"
    using ok by (simp_all add: b1_def buffer_make_room_def contents_extend)
  have le1: "buffer_size b \<le> buffer_size b1"
    by (auto simp: b1_def buffer_make_room_def max_def)
  have room: "?req \<le> buffer_size b1"
    using fits by (auto simp: b1_def buffer_make_room_def append_fits_def)
  have small: "buf_len b1 + length ys \<le> buffer_size b1"
    using room len1 by simp
  let ?b = "b1\<lparr>buf_bytes := mem_write (buf_bytes b1) (buf_len b1) ys,
               buf_len := buf_len b1 + length ys\<rparr>"
  have "buffer_append junk b ys = Some ?b"
    unfolding buffer_append_def Let_def b1_def [symmetric]
    using room len1 append_raw(1) [OF ok1 small] by simp
  moreover note append_raw(2,3) [OF ok1 small]
  ultimately show ?thesis
    using that [of ?b] con1 inc1 le1 by simp
qed

lemma buffer_append_None:
  assumes "\<not> append_fits b (length ys)"
  shows "buffer_append junk b ys = None"
  using assms by (simp add: buffer_append_def buffer_make_room_def append_fits_def Let_def)

lemma buffer_add_spec:
  assumes ok: "buffer_ok b" and room: "buf_len b < buffer_size b"
  obtains b' where "buffer_add b v = Some b'" and "buffer_ok b'"
    and "contents b' = contents b @ [v]" and "buffer_size b' = buffer_size b"
proof -
  have small: "buf_len b + length [v] \<le> buffer_size b" using room by simp
  show ?thesis
    using that append_raw [OF ok small] room by (simp add: buffer_add_def)
qed

lemma buffer_put_empty:
  assumes "buffer_ok b" and "buf_len b = 0" and "length ys \<le> buffer_size b"
  obtains b' where "buffer_put b ys = Some b'" and "buffer_ok b'" and "contents b' = ys"
  using assms that append_raw [of b ys]
  by (simp add: buffer_put_def contents_def)

lemma buffer_new_with_value_spec:
  obtains b where "buffer_new_with_value ys = Some b" and "buffer_ok b" and "contents b = ys"
    and "size_increment b = 0"
proof -
  let ?b = "buffer_new (length ys)"
  from append_raw [of ?b ys] show ?thesis
    using that by (simp add: buffer_new_with_value_def buffer_put_def)
qed

lemma buffer_dup_spec:
  assumes "buffer_ok b"
  obtains b' where "buffer_dup b = Some b'" and "buffer_ok b'" and "contents b' = contents b"
  by (metis buffer_new_with_value_spec buffer_dup_def contents_def)

lemma buffer_eq_contents:
  "buffer_ok b1 \<Longrightarrow> buffer_ok b2 \<Longrightarrow>
   buffer_eq (Some b1) (Some b2) \<longleftrightarrow> contents b1 = contents b2"
  by (metis buffer_eq.simps(2) contents_def length_contents)

text \<open>A string buffer holds a C string; \<^verbatim>\<open>buffer_strcat\<close> concatenates.\<close>

lemma buffer_strcat_first:
  assumes "buffer_ok b" and "buf_len b = 0" and "append_fits b (length str + 1)"
  obtains b' where "buffer_strcat junk b str = Some b'" and "buffer_ok b'"
    and "contents b' = str @ [0]"
proof -
  from assms have "append_fits b (length (str @ [0]))" by simp
  from buffer_append_spec [OF assms(1) this] obtain b' where
    "buffer_append junk b (str @ [0]) = Some b'" "buffer_ok b'"
    "contents b' = contents b @ str @ [0]" by metis
  with assms(2) show ?thesis
    using that by (simp add: buffer_strcat_def contents_def)
qed

lemma buffer_strcat_next:
  assumes ok: "buffer_ok b" and con: "contents b = s @ [0]"
    and fits: "append_fits b (length str)"
  obtains b' where "buffer_strcat junk b str = Some b'" and "buffer_ok b'"
    and "contents b' = s @ str @ [0]"
proof -
  have len: "buf_len b = Suc (length s)"
    using length_contents [OF ok] con by simp
  have last: "buf_bytes b ! length s = 0"
  proof -
    have "buf_bytes b ! length s = contents b ! length s"
      by (simp add: contents_def len)
    then show ?thesis by (simp add: con)
  qed
  let ?b1 = "b\<lparr>buf_len := length s\<rparr>"
  have ok1: "buffer_ok ?b1" using ok len by (simp add: buffer_ok_def)
  have con1: "contents ?b1 = s"
  proof -
    have "contents ?b1 = take (length s) (contents b)"
      by (simp add: contents_def len)
    then show ?thesis by (simp add: con)
  qed
  have "append_fits ?b1 (length (str @ [0]))"
    using fits len by (auto simp: append_fits_def)
  from buffer_append_spec [OF ok1 this, of junk] obtain b' where
    "buffer_append junk ?b1 (str @ [0]) = Some b'" "buffer_ok b'"
    "contents b' = contents ?b1 @ str @ [0]" by metis
  moreover have "buffer_set_length b (length s) = Some ?b1"
    using ok len by (simp add: buffer_set_length_Some buffer_ok_def)
  ultimately show ?thesis
    using that con1 last len by (simp add: buffer_strcat_def)
qed

text \<open>
  \<^verbatim>\<open>buffer_put\<close> on a buffer that already holds bytes overwrites them from the start and
  still adds the count: the length is the sum, not the count its comment announces.
\<close>

lemma buffer_put_nonempty_length:
  "buffer_put b ys = Some b' \<Longrightarrow> buf_len b' = buf_len b + length ys"
  by (auto simp: buffer_op_defs)

text \<open>A buffer filled from the front: \<open>pre\<close> is written, the rest is still 0.\<close>

definition filled :: "byte list \<Rightarrow> nat \<Rightarrow> nat \<Rightarrow> nat \<Rightarrow> Buffer" where
  "filled pre k sz l =
     \<lparr>buf_bytes = pre @ replicate k 0, buffer_size = sz, buf_len = l, size_increment = 0\<rparr>"

lemma filled_write:
  assumes "off = length pre" and "off + length ys \<le> sz" and "length ys \<le> k"
  shows "buffer_set_bytes (filled pre k sz l) off ys =
         Some (filled (pre @ ys) (k - length ys) sz l)"
  using assms by (simp add: filled_def buffer_set_bytes_def buf_memcpy_def mem_write_prefix)

lemma filled_new: "buffer_new n = filled [] (n + 16) n 0"
  by (simp add: filled_def buffer_new_def)

lemma filled_set_length:
  "n \<le> sz \<Longrightarrow> buffer_set_length (filled pre k sz l) n = Some (filled pre k sz n)"
  by (simp add: filled_def buffer_set_length_def)

lemma filled_bytes [simp]: "buf_bytes (filled pre k sz l) = pre @ replicate k 0"
  by (simp add: filled_def)

section \<open>Property\<close>

text \<open>C7 (buffer_append_refines): on a well-formed buffer, appending is list append of the contents and keeps the buffer well formed; it stops at its assertion exactly when the buffer may not grow and has fewer than two spare bytes after the new data.\<close>

theorem buffer_append_refines:
  assumes "buffer_ok b"
  shows "case buffer_append junk b ys of
      None \<Rightarrow> size_increment b = 0 \<and> buffer_size b < buf_len b + 2 + length ys
    | Some b' \<Rightarrow> (0 < size_increment b \<or> buf_len b + 2 + length ys \<le> buffer_size b) \<and>
        buffer_ok b' \<and> contents b' = contents b @ ys \<and> buffer_size b \<le> buffer_size b'"
proof (cases "append_fits b (length ys)")
  case True
  from buffer_append_spec [OF assms True, of junk] obtain b' where
    "buffer_append junk b ys = Some b'" "buffer_ok b'" "contents b' = contents b @ ys"
    "buffer_size b \<le> buffer_size b'" by metis
  with True show ?thesis by (auto simp: append_fits_def)
next
  case False
  with buffer_append_None [OF this, of junk] show ?thesis by (auto simp: append_fits_def)
qed

theorem buffer_append_refines_witness:
  "case buffer_append (\<lambda>_. 0) ((buffer_new 4)\<lparr>size_increment := 8\<rparr>) [1, 2, 3] of
      None \<Rightarrow> size_increment ((buffer_new 4)\<lparr>size_increment := 8\<rparr>) = 0 \<and>
        buffer_size ((buffer_new 4)\<lparr>size_increment := 8\<rparr>)
          < buf_len ((buffer_new 4)\<lparr>size_increment := 8\<rparr>) + 2 + length [1, 2, 3 :: byte]
    | Some b' \<Rightarrow> (0 < size_increment ((buffer_new 4)\<lparr>size_increment := 8\<rparr>) \<or>
          buf_len ((buffer_new 4)\<lparr>size_increment := 8\<rparr>) + 2 + length [1, 2, 3 :: byte]
            \<le> buffer_size ((buffer_new 4)\<lparr>size_increment := 8\<rparr>)) \<and>
        buffer_ok b' \<and> contents b' = contents ((buffer_new 4)\<lparr>size_increment := 8\<rparr>) @ [1, 2, 3] \<and>
        buffer_size ((buffer_new 4)\<lparr>size_increment := 8\<rparr>) \<le> buffer_size b'"
  by (rule buffer_append_refines) (simp add: buffer_ok_def buffer_new_def)

end
