(* ===== verification/Hex_Strings.thy ===== *)
theory Hex_Strings
  imports Prelude
begin

text \<open>
  Hex parsing of \<^verbatim>\<open>src/src/util/string_util.c\<close>. A C string is the list of its
  characters before the terminating 0. A parser that fills a byte through a pointer and
  returns whether it did is a function into \<open>byte option\<close>.

  \<^verbatim>\<open>strtol(s, &endptr, 16)\<close> is modelled as the C standard describes it: white space, an
  optional sign, an optional \<^verbatim>\<open>0x\<close> that a hex digit follows, then hex digits. It is only
  called on strings of two characters, so no range error arises.
\<close>

section \<open>Characters\<close>

definition c_isspace :: "char \<Rightarrow> bool" where
  "c_isspace c \<longleftrightarrow> c \<in> {CHR '' '', CHR 0x09, CHR 0x0A, CHR 0x0B, CHR 0x0C, CHR 0x0D}"

definition c_toupper :: "char \<Rightarrow> char" where
  "c_toupper c = (if 97 \<le> (of_char c :: nat) \<and> (of_char c :: nat) \<le> 122
                  then char_of ((of_char c :: nat) - 32) else c)"

definition hex_digit :: "char \<Rightarrow> nat option" where
  "hex_digit c =
     (let n = (of_char c :: nat)
      in if 48 \<le> n \<and> n \<le> 57 then Some (n - 48)
         else if 65 \<le> n \<and> n \<le> 70 then Some (n - 55)
         else if 97 \<le> n \<and> n \<le> 102 then Some (n - 87)
         else None)"

definition is_hex :: "char \<Rightarrow> bool" where
  "is_hex c \<longleftrightarrow> hex_digit c \<noteq> None"

definition hex_val :: "char \<Rightarrow> nat" where
  "hex_val c = (case hex_digit c of Some v \<Rightarrow> v | None \<Rightarrow> 0)"

lemma hex_val_less: "hex_val c < 16"
  by (auto simp: hex_val_def hex_digit_def Let_def split: option.splits if_splits)

section \<open>strtol in base 16\<close>

text \<open>The digits: their value and how many there are.\<close>

fun scan_hex :: "string \<Rightarrow> nat \<Rightarrow> nat \<Rightarrow> nat \<times> nat" where
  "scan_hex [] acc ct = (acc, ct)"
| "scan_hex (c # cs) acc ct =
     (case hex_digit c of Some d \<Rightarrow> scan_hex cs (acc * 16 + d) (Suc ct) | None \<Rightarrow> (acc, ct))"

definition skip_0x :: "string \<Rightarrow> string \<times> nat" where
  "skip_0x s =
     (case s of
        z # x # d # rest \<Rightarrow>
          if z = CHR ''0'' \<and> (x = CHR ''x'' \<or> x = CHR ''X'') \<and> is_hex d then (d # rest, 2) else (s, 0)
      | _ \<Rightarrow> (s, 0))"

text \<open>The value and the offset that \<^verbatim>\<open>endptr\<close> receives, 0 when there is no digit.\<close>

definition strtol16 :: "string \<Rightarrow> int \<times> nat" where
  "strtol16 s =
     (let ws = takeWhile c_isspace s;
          s1 = drop (length ws) s;
          signed = (s1 \<noteq> [] \<and> (hd s1 = CHR ''+'' \<or> hd s1 = CHR ''-''));
          neg = (signed \<and> hd s1 = CHR ''-'');
          s2 = (if signed then tl s1 else s1);
          (s3, pre) = skip_0x s2;
          (v, ct) = scan_hex s3 0 0
      in if ct = 0 then (0, 0)
         else ((if neg then - int v else int v),
               length ws + (if signed then 1 else 0) + pre + ct))"

section \<open>The parsers\<close>

definition hhs_to_byte_in_buf :: "string \<Rightarrow> byte option" where
  "hhs_to_byte_in_buf s =
     (if length s \<noteq> 2 then None
      else let (longtemp, endofs) = strtol16 s
           in if endofs \<noteq> 2 then None else Some (of_int longtemp))"

definition hhc_to_byte_in_buf :: "char \<Rightarrow> char \<Rightarrow> byte option" where
  "hhc_to_byte_in_buf c0 c1 = hhs_to_byte_in_buf (takeWhile (\<lambda>c. c \<noteq> CHR 0x00) [c0, c1])"

definition strdup_uc :: "string \<Rightarrow> string" where
  "strdup_uc s = map c_toupper s"

definition any_one_byte_hex_string_to_byte_in_buf :: "string \<Rightarrow> byte option" where
  "any_one_byte_hex_string_to_byte_in_buf s =
     (let suc = strdup_uc s;
          suc = (if take 2 suc = ''0X'' then drop 2 suc
                 else if take 1 suc = ''X'' then drop 1 suc
                 else if suc \<noteq> [] \<and> last suc = CHR ''H'' then butlast suc
                 else suc)
      in hhs_to_byte_in_buf suc)"

text \<open>
  \<^verbatim>\<open>hhs_to_byte_array\<close>: the byte array, or \<open>None\<close> for the return value -1. The loop
  takes two characters at a time; the length is even.
\<close>

fun hex_pairs :: "string \<Rightarrow> byte list option" where
  "hex_pairs (h0 # h1 # rest) =
     (if is_hex (c_toupper h0) \<and> is_hex (c_toupper h1)
      then do {
        bs \<leftarrow> hex_pairs rest;
        Some (of_nat (hex_val (c_toupper h0) * 16 + hex_val (c_toupper h1)) # bs)
      }
      else None)"
| "hex_pairs _ = Some []"

definition hhs_to_byte_array :: "string \<Rightarrow> byte list option" where
  "hhs_to_byte_array hhs = (if length hhs mod 2 \<noteq> 0 then None else hex_pairs hhs)"

text \<open>
  \<^verbatim>\<open>hhs4_to_uint16\<close>: the flag it returns and the value it stores. \<^verbatim>\<open>ok = true\<close> stands
  outside the inner \<^verbatim>\<open>if\<close>.
\<close>

definition hhs4_to_uint16 :: "string \<Rightarrow> bool \<times> nat" where
  "hhs4_to_uint16 hhs4 =
     (if length hhs4 = 4
      then (True,
            case (hhc_to_byte_in_buf (hhs4 ! 0) (hhs4 ! 1), hhc_to_byte_in_buf (hhs4 ! 2) (hhs4 ! 3)) of
              (Some hi_byte, Some lo_byte) \<Rightarrow> hi_lo hi_byte lo_byte
            | _ \<Rightarrow> 0)
      else (False, 0))"

section \<open>What the parsers accept\<close>

text \<open>The digits \<^verbatim>\<open>printf\<close> writes for \<^verbatim>\<open>%02x\<close>.\<close>

definition hex_char :: "nat \<Rightarrow> char" where
  "hex_char n = (if n < 10 then char_of (48 + n) else char_of (87 + n))"

definition byte_to_hex :: "byte \<Rightarrow> string" where
  "byte_to_hex b = [hex_char (unat b div 16), hex_char (unat b mod 16)]"

lemma hex_digit_hex_char: "n < 16 \<Longrightarrow> hex_digit (hex_char n) = Some n"
  by (auto simp: hex_digit_def hex_char_def Let_def of_char_of)

lemma hex_not_special:
  assumes "hex_digit c = Some d"
  shows "\<not> c_isspace c" and "c \<noteq> CHR ''+''" and "c \<noteq> CHR ''-''" and "c \<noteq> CHR ''x''"
    and "c \<noteq> CHR ''X''" and "c \<noteq> CHR 0x00"
  using assms by (auto simp: c_isspace_def hex_digit_def split: if_splits)

lemma skip_0x_short: "length s \<le> 2 \<Longrightarrow> skip_0x s = (s, 0)"
  by (auto simp: skip_0x_def split: list.splits)

lemma strtol16_two_digits:
  assumes "hex_digit a = Some x" and "hex_digit b = Some y"
  shows "strtol16 [a, b] = (int (x * 16 + y), 2)"
  using assms hex_not_special [OF assms(1)]
  by (simp add: strtol16_def skip_0x_short)

lemma hhs_two_digits:
  assumes "hex_digit a = Some x" and "hex_digit b = Some y"
  shows "hhs_to_byte_in_buf [a, b] = Some (of_nat (x * 16 + y))"
  using strtol16_two_digits [OF assms] by (simp add: hhs_to_byte_in_buf_def)

lemma hhc_two_digits:
  assumes "hex_digit a = Some x" and "hex_digit b = Some y"
  shows "hhc_to_byte_in_buf a b = Some (of_nat (x * 16 + y))"
  using hhs_two_digits [OF assms] hex_not_special(6) [OF assms(1)] hex_not_special(6) [OF assms(2)]
  by (simp add: hhc_to_byte_in_buf_def)

lemma hhs_roundtrip: "hhs_to_byte_in_buf (byte_to_hex b) = Some b"
proof -
  have "unat b div 16 < 16" using unat_byte_less [of b] by linarith
  then have "hhs_to_byte_in_buf (byte_to_hex b)
      = Some (of_nat (unat b div 16 * 16 + unat b mod 16))"
    unfolding byte_to_hex_def by (intro hhs_two_digits hex_digit_hex_char) simp_all
  then show ?thesis by simp
qed

text \<open>
  A second character that is no hex digit, and a first that is neither a digit, white
  space nor a sign, are refused; a first character that is white space or a sign is not.
\<close>

lemma hhs_second_not_hex:
  assumes "hex_digit b = None"
  shows "hhs_to_byte_in_buf [a, b] = None"
  using assms
  by (auto simp: hhs_to_byte_in_buf_def strtol16_def skip_0x_short Let_def
      split: option.splits prod.splits if_splits)

lemma hhs_first_sign_or_space:
  assumes "hex_digit b = Some y"
  shows "c_isspace a \<Longrightarrow> hhs_to_byte_in_buf [a, b] = Some (of_nat y)"
    and "hhs_to_byte_in_buf [CHR ''+'', b] = Some (of_nat y)"
    and "hhs_to_byte_in_buf [CHR ''-'', b] = Some (- of_nat y)"
  using assms hex_not_special [OF assms]
  by (auto simp: hhs_to_byte_in_buf_def strtol16_def skip_0x_short Let_def c_isspace_def hex_digit_def)

lemma hhs_first_other:
  assumes "hex_digit a = None" and "\<not> c_isspace a" and "a \<noteq> CHR ''+''" and "a \<noteq> CHR ''-''"
  shows "hhs_to_byte_in_buf [a, b] = None"
  using assms by (simp add: hhs_to_byte_in_buf_def strtol16_def skip_0x_short)

lemma hhs_Some_cases:
  assumes "hhs_to_byte_in_buf s = Some v"
  obtains a b y where "s = [a, b]" and "hex_digit b = Some y"
    and "hex_digit a \<noteq> None \<or> c_isspace a \<or> a = CHR ''+'' \<or> a = CHR ''-''"
proof -
  from assms have "length s = 2" by (simp add: hhs_to_byte_in_buf_def split: if_splits)
  then obtain a b where s: "s = [a, b]" by (auto simp: numeral_2_eq_2 length_Suc_conv)
  have "hex_digit b \<noteq> None" using assms s hhs_second_not_hex by force
  moreover have "hex_digit a \<noteq> None \<or> c_isspace a \<or> a = CHR ''+'' \<or> a = CHR ''-''"
    using assms s hhs_first_other by force
  ultimately show ?thesis using that s by blast
qed

lemma hhs_wrong_length: "length s \<noteq> 2 \<Longrightarrow> hhs_to_byte_in_buf s = None"
  by (simp add: hhs_to_byte_in_buf_def)

text \<open>The lenient parser ignores the prefixes 0x, x and the suffix h.\<close>

lemma c_toupper_hex: "hex_digit (c_toupper c) = hex_digit c"
  by (auto simp: c_toupper_def hex_digit_def Let_def of_char_of)

text \<open>Writing bytes in hex and reading the string back.\<close>

lemma hex_pairs_roundtrip: "hex_pairs (concat (map byte_to_hex bs)) = Some bs"
proof (induction bs)
  case Nil
  then show ?case by simp
next
  case (Cons b bs)
  have lt: "unat b div 16 < 16" "unat b mod 16 < 16"
    using unat_byte_less [of b] by linarith+
  have "(of_nat (unat b div 16 * 16 + unat b mod 16) :: byte) = b"
    by simp
  with Cons lt show ?case
    by (simp add: byte_to_hex_def is_hex_def hex_val_def c_toupper_hex hex_digit_hex_char
        del: of_nat_add of_nat_mult)
qed

lemma hhs_to_byte_array_roundtrip:
  "hhs_to_byte_array (concat (map byte_to_hex bs)) = Some bs"
proof -
  have "length (concat (map byte_to_hex bs)) = 2 * length bs"
    by (induction bs) (simp_all add: byte_to_hex_def)
  then show ?thesis
    by (simp add: hhs_to_byte_array_def hex_pairs_roundtrip)
qed

section \<open>Property\<close>

text \<open>The two digit parser accepts a string exactly when it has two characters, the second is a hex digit and the first is a hex digit, white space or a sign; with a minus sign the value is negated modulo 256, so that the string -1 is read as ff.\<close>

theorem hhs_accepts_exactly:
  "(hhs_to_byte_in_buf s \<noteq> None \<longleftrightarrow>
     (case s of
        [a, b] \<Rightarrow> is_hex b \<and> (is_hex a \<or> c_isspace a \<or> a = CHR ''+'' \<or> a = CHR ''-'')
      | _ \<Rightarrow> False)) \<and>
   hhs_to_byte_in_buf ''-1'' = Some 0xff"
proof
  show "hhs_to_byte_in_buf ''-1'' = Some 0xff"
    using hhs_first_sign_or_space(3) [of "CHR ''1''" 1] by (simp add: hex_digit_def)
  show "hhs_to_byte_in_buf s \<noteq> None \<longleftrightarrow>
     (case s of
        [a, b] \<Rightarrow> is_hex b \<and> (is_hex a \<or> c_isspace a \<or> a = CHR ''+'' \<or> a = CHR ''-'')
      | _ \<Rightarrow> False)" (is "_ \<longleftrightarrow> ?ok")
  proof
    assume "hhs_to_byte_in_buf s \<noteq> None"
    then obtain v where "hhs_to_byte_in_buf s = Some v" by blast
    then show ?ok by (rule hhs_Some_cases) (auto simp: is_hex_def)
  next
    assume ?ok
    then obtain a b y where s: "s = [a, b]" and b: "hex_digit b = Some y"
      and a: "is_hex a \<or> c_isspace a \<or> a = CHR ''+'' \<or> a = CHR ''-''"
      by (auto simp: is_hex_def split: list.splits)
    show "hhs_to_byte_in_buf s \<noteq> None"
      using a hhs_first_sign_or_space [OF b] hhs_two_digits [OF _ b]
      unfolding s is_hex_def by auto
  qed
qed

end
