(* ===== verification/Byte_Sets.thy ===== *)
theory Byte_Sets
  imports Byte_Buffer Hex_Strings "HOL-Library.Multiset"
begin

text \<open>
  The byte collections of \<^verbatim>\<open>src/src/util/data_structures.c\<close>: \<^verbatim>\<open>Byte_Value_Array\<close> (a
  growing byte array, a list here), \<^verbatim>\<open>Bit_Set_256\<close> (32 bytes of flags) and
  \<^verbatim>\<open>Bit_Set_32\<close>, and the parser of hex lists, \<^verbatim>\<open>store_bytehex_list\<close>, which fills any
  collection through an appender function. The locale \<open>byte_collection\<close> is that
  appender interface; the two appenders of the code interpret it.
\<close>

section \<open>Byte value arrays\<close>

type_synonym Byte_Value_Array = "byte list"

definition bva_create :: Byte_Value_Array where "bva_create = []"

definition bva_append :: "Byte_Value_Array \<Rightarrow> byte \<Rightarrow> Byte_Value_Array" where
  "bva_append bva item = bva @ [item]"

definition bva_length :: "Byte_Value_Array \<Rightarrow> nat" where "bva_length bva = length bva"

definition bva_get :: "Byte_Value_Array \<Rightarrow> nat \<Rightarrow> byte option" where
  "bva_get bva ndx = do { c_assert (ndx < length bva); Some (bva ! ndx) }"

fun bva_contains :: "Byte_Value_Array \<Rightarrow> byte \<Rightarrow> bool" where
  "bva_contains [] item = False"
| "bva_contains (v # vs) item = (if v = item then True else bva_contains vs item)"

fun bva_filter_loop :: "Byte_Value_Array \<Rightarrow> (byte \<Rightarrow> bool) \<Rightarrow> Byte_Value_Array \<Rightarrow> Byte_Value_Array" where
  "bva_filter_loop [] f result = result"
| "bva_filter_loop (v # vs) f result =
     bva_filter_loop vs f (if f v then bva_append result v else result)"

definition bva_filter :: "Byte_Value_Array \<Rightarrow> (byte \<Rightarrow> bool) \<Rightarrow> Byte_Value_Array" where
  "bva_filter bva filter_func = bva_filter_loop bva filter_func bva_create"

text \<open>\<^verbatim>\<open>qsort\<close> with the unsigned comparison of \<^verbatim>\<open>bva_comp_func\<close>.\<close>

definition bva_comp_func :: "byte \<Rightarrow> byte \<Rightarrow> int" where
  "bva_comp_func v1 v2 = (if unat v1 < unat v2 then -1 else if unat v1 > unat v2 then 1 else 0)"

definition bva_sort :: "Byte_Value_Array \<Rightarrow> Byte_Value_Array" where
  "bva_sort bva = sort_key unat bva"

text \<open>A null array counts as empty.\<close>

definition bva_sorted_eq :: "Byte_Value_Array option \<Rightarrow> Byte_Value_Array option \<Rightarrow> bool" where
  "bva_sorted_eq bva1 bva2 =
     (let l1 = (case bva1 of None \<Rightarrow> [] | Some b \<Rightarrow> b);
          l2 = (case bva2 of None \<Rightarrow> [] | Some b \<Rightarrow> b)
      in if length l1 \<noteq> length l2 then False
         else list_all (\<lambda>ndx. l1 ! ndx = l2 ! ndx) [0..<length l1])"

lemma bva_contains_iff [simp]: "bva_contains bva v \<longleftrightarrow> v \<in> set bva"
  by (induction bva) auto

lemma bva_filter_eq: "bva_filter bva f = filter f bva"
proof -
  have "bva_filter_loop vs f acc = acc @ filter f vs" for vs acc
    by (induction vs arbitrary: acc) (simp_all add: bva_append_def)
  then show ?thesis by (simp add: bva_filter_def bva_create_def)
qed

lemma bva_sort_ordered:
  "sorted_wrt (\<lambda>a b. bva_comp_func a b \<le> 0) (bva_sort bva)" "mset (bva_sort bva) = mset bva"
proof -
  have "sorted (map unat (bva_sort bva))" by (simp add: bva_sort_def)
  then have "sorted_wrt (\<lambda>a b. unat a \<le> unat b) (bva_sort bva)"
    by (simp add: sorted_map)
  then show "sorted_wrt (\<lambda>a b. bva_comp_func a b \<le> 0) (bva_sort bva)"
    by (rule sorted_wrt_mono_rel [rotated]) (simp add: bva_comp_func_def)
qed (simp add: bva_sort_def)

lemma bva_sort_canonical:
  "bva_sort a = bva_sort b \<longleftrightarrow> mset a = mset b"
proof
  have map_sort: "map unat (bva_sort c) = sort (map unat c)" for c
    by (rule properties_for_sort [symmetric]) (simp_all add: bva_sort_def)
  assume "mset a = mset b"
  then have "map unat (bva_sort a) = map unat (bva_sort b)"
    unfolding map_sort by (intro properties_for_sort) simp_all
  then show "bva_sort a = bva_sort b"
    by (rule map_injective) (simp add: inj_def word_unat_eq_iff)
next
  assume "bva_sort a = bva_sort b"
  then show "mset a = mset b" by (metis bva_sort_ordered(2))
qed

lemma bva_sorted_eq_iff: "bva_sorted_eq (Some a) (Some b) \<longleftrightarrow> a = b"
  by (auto simp: bva_sorted_eq_def list_all_iff intro: nth_equalityI)

section \<open>Sets of 256 flags\<close>

record Bit_Set_256 =
  bs_bytes :: "byte list"

definition EMPTY_BIT_SET_256 :: Bit_Set_256 where
  "EMPTY_BIT_SET_256 = \<lparr>bs_bytes = replicate 32 0\<rparr>"

definition bs256_insert :: "Bit_Set_256 \<Rightarrow> byte \<Rightarrow> Bit_Set_256" where
  "bs256_insert bitset bitno =
     (let bytendx = unat (drop_bit 3 bitno);
          shiftct = unat (bitno AND 7);
          flagbit = push_bit shiftct (1 :: byte)
      in bitset\<lparr>bs_bytes := (bs_bytes bitset)[bytendx := (bs_bytes bitset ! bytendx) OR flagbit]\<rparr>)"

definition bs256_remove :: "Bit_Set_256 \<Rightarrow> byte \<Rightarrow> Bit_Set_256" where
  "bs256_remove bitset bitno =
     (let bytendx = unat (drop_bit 3 bitno);
          shiftct = unat (bitno AND 7);
          flagbit = push_bit shiftct (1 :: byte)
      in bitset\<lparr>bs_bytes := (bs_bytes bitset)[bytendx := (bs_bytes bitset ! bytendx) AND NOT flagbit]\<rparr>)"

definition bs256_contains :: "Bit_Set_256 \<Rightarrow> byte \<Rightarrow> bool" where
  "bs256_contains bitset bitno =
     (let flagndx = unat (drop_bit 3 bitno);
          shiftct = unat (bitno AND 7);
          flagbit = push_bit shiftct (1 :: byte)
      in (bs_bytes bitset ! flagndx) AND flagbit \<noteq> 0)"

text \<open>The loops over all bit numbers, 0 to 255, with a \<^verbatim>\<open>break\<close> at the first hit.\<close>

definition bs256_first_bit_set :: "Bit_Set_256 \<Rightarrow> int" where
  "bs256_first_bit_set bitset =
     (case find (\<lambda>ndx. bs256_contains bitset (of_nat ndx)) [0..<256] of
        Some ndx \<Rightarrow> int ndx | None \<Rightarrow> -1)"

definition bs256_eq :: "Bit_Set_256 \<Rightarrow> Bit_Set_256 \<Rightarrow> bool" where
  "bs256_eq set1 set2 \<longleftrightarrow> take 32 (bs_bytes set1) = take 32 (bs_bytes set2)"

definition bs256_or :: "Bit_Set_256 \<Rightarrow> Bit_Set_256 \<Rightarrow> Bit_Set_256" where
  "bs256_or set1 set2 =
     \<lparr>bs_bytes = map (\<lambda>ndx. (bs_bytes set1 ! ndx) OR (bs_bytes set2 ! ndx)) [0..<32]\<rparr>"

definition bs256_and :: "Bit_Set_256 \<Rightarrow> Bit_Set_256 \<Rightarrow> Bit_Set_256" where
  "bs256_and set1 set2 =
     \<lparr>bs_bytes = map (\<lambda>ndx. (bs_bytes set1 ! ndx) AND (bs_bytes set2 ! ndx)) [0..<32]\<rparr>"

definition bs256_and_not :: "Bit_Set_256 \<Rightarrow> Bit_Set_256 \<Rightarrow> Bit_Set_256" where
  "bs256_and_not set1 set2 =
     \<lparr>bs_bytes = map (\<lambda>ndx. (bs_bytes set1 ! ndx) AND NOT (bs_bytes set2 ! ndx)) [0..<32]\<rparr>"

definition bs256_count :: "Bit_Set_256 \<Rightarrow> nat" where
  "bs256_count bbset =
     (\<Sum>flagndx\<leftarrow>[0..<32]. \<Sum>bitndx\<leftarrow>[0..<8].
        (let flagbit = drop_bit bitndx (0x80 :: byte)
         in if (bs_bytes bbset ! flagndx) AND flagbit \<noteq> 0 then 1 else 0))"

text \<open>The flag numbers that are set, in the order the loop meets them.\<close>

definition bs256_to_bytes :: "Bit_Set_256 \<Rightarrow> nat \<Rightarrow> byte list option" where
  "bs256_to_bytes flags buflen = do {
     c_assert (buflen \<ge> bs256_count flags);
     Some (filter (bs256_contains flags) (map of_nat [0..<256]))
   }"

fun bs256_fill_buffer :: "Bit_Set_256 \<Rightarrow> nat list \<Rightarrow> Buffer \<Rightarrow> Buffer option" where
  "bs256_fill_buffer flags [] buf = Some buf"
| "bs256_fill_buffer flags (flagno # rest) buf =
     (if bs256_contains flags (of_nat flagno)
      then do { buf \<leftarrow> buffer_add buf (of_nat flagno); bs256_fill_buffer flags rest buf }
      else bs256_fill_buffer flags rest buf)"

definition bs256_to_buffer :: "Bit_Set_256 \<Rightarrow> Buffer option" where
  "bs256_to_buffer flags = bs256_fill_buffer flags [0..<256] (buffer_new (bs256_count flags))"

record Bit_Set_256_Iterator =
  bbflags :: Bit_Set_256
  lastpos :: int

definition bs256_iter_new :: "Bit_Set_256 \<Rightarrow> Bit_Set_256_Iterator" where
  "bs256_iter_new flags = \<lparr>bbflags = flags, lastpos = -1\<rparr>"

definition bs256_iter_reset :: "Bit_Set_256_Iterator \<Rightarrow> Bit_Set_256_Iterator" where
  "bs256_iter_reset it = it\<lparr>lastpos := -1\<rparr>"

definition bs256_iter_next :: "Bit_Set_256_Iterator \<Rightarrow> int \<times> Bit_Set_256_Iterator" where
  "bs256_iter_next it =
     (case find (\<lambda>ndx. bs256_contains (bbflags it) (of_nat ndx)) [nat (lastpos it + 1)..<256] of
        Some ndx \<Rightarrow> (int ndx, it\<lparr>lastpos := int ndx\<rparr>)
      | None \<Rightarrow> (-1, it))"

definition bs256_from_bva :: "Byte_Value_Array \<Rightarrow> Bit_Set_256" where
  "bs256_from_bva bva = foldl bs256_insert EMPTY_BIT_SET_256 bva"

definition bva_to_bs256 :: "Byte_Value_Array \<Rightarrow> Bit_Set_256" where
  "bva_to_bs256 bva = foldl bs256_insert EMPTY_BIT_SET_256 bva"

definition bva_bs256_same_values :: "Byte_Value_Array \<Rightarrow> Bit_Set_256 \<Rightarrow> bool" where
  "bva_bs256_same_values bva flags =
     list_all (\<lambda>item. bva_contains bva (of_nat item) = bs256_contains flags (of_nat item)) [0..<256]"

section \<open>The flags as a set\<close>

definition bs256_ok :: "Bit_Set_256 \<Rightarrow> bool" where
  "bs256_ok s \<longleftrightarrow> length (bs_bytes s) = 32"

definition bs256_set :: "Bit_Set_256 \<Rightarrow> byte set" where
  "bs256_set s = {b. bs256_contains s b}"

lemma unat_and_7: "unat (b AND 7 :: byte) = unat b mod 8"
proof -
  have "unat (b AND 7) = unat b AND 7"
    by (simp add: unsigned_and_eq)
  also have "\<dots> = take_bit 3 (unat b)"
    unfolding take_bit_eq_mask mask_eq_exp_minus_1 by simp
  also have "\<dots> = unat b mod 2 ^ 3"
    by (rule take_bit_eq_mod)
  finally show ?thesis by simp
qed

lemma unat_shr_3: "unat (drop_bit 3 b :: byte) = unat b div 8"
  by (simp add: drop_bit_eq_div unat_div)

lemma byte_index_less: "unat (b :: byte) div 8 < 32"
  using unat_byte_less [of b] by linarith

lemma and_flag_nonzero: "k < 8 \<Longrightarrow> ((w :: byte) AND 2 ^ k \<noteq> 0) = bit w k"
proof -
  assume k: "k < 8"
  have flag: "bit (2 ^ k :: byte) j \<longleftrightarrow> j = k" if "j < 8" for j
    using k that by (auto simp: bit_exp_iff)
  show ?thesis
  proof
    assume "w AND 2 ^ k \<noteq> 0"
    then obtain j where j: "bit (w AND 2 ^ k) j"
      by (auto simp: bit_eq_iff)
    then have "j < 8" using bit_imp_le_length [of "w AND 2 ^ k" j] by simp
    with j flag show "bit w k" by (auto simp: bit_and_iff)
  next
    assume "bit w k"
    with flag [OF k] have "bit (w AND 2 ^ k) k" by (simp add: bit_and_iff)
    then show "w AND 2 ^ k \<noteq> 0" by auto
  qed
qed

lemma bs256_contains_bit:
  "bs256_contains s b \<longleftrightarrow> bit (bs_bytes s ! (unat b div 8)) (unat b mod 8)"
  by (simp add: bs256_contains_def unat_and_7 unat_shr_3 and_flag_nonzero Let_def)

lemma bit_or_flag:
  "k < 8 \<Longrightarrow> j < 8 \<Longrightarrow> bit ((w :: byte) OR 2 ^ k) j \<longleftrightarrow> bit w j \<or> j = k"
  by (auto simp: bit_or_iff bit_exp_iff)

lemma bit_clear_flag:
  "k < 8 \<Longrightarrow> j < 8 \<Longrightarrow> bit ((w :: byte) AND NOT (2 ^ k)) j \<longleftrightarrow> bit w j \<and> j \<noteq> k"
  by (auto simp: bit_and_iff bit_not_iff bit_exp_iff)

lemma byte_eq_divmod:
  "(a :: byte) = b \<longleftrightarrow> unat a div 8 = unat b div 8 \<and> unat a mod 8 = unat b mod 8"
  by (metis div_mult_mod_eq word_unat_eq_iff)

lemma bs256_ok_ops [simp]:
  "bs256_ok EMPTY_BIT_SET_256"
  "bs256_ok s \<Longrightarrow> bs256_ok (bs256_insert s b)"
  "bs256_ok s \<Longrightarrow> bs256_ok (bs256_remove s b)"
  "bs256_ok (bs256_or s t)"
  "bs256_ok (bs256_and s t)"
  "bs256_ok (bs256_and_not s t)"
  by (simp_all add: bs256_ok_def EMPTY_BIT_SET_256_def bs256_insert_def bs256_remove_def
      bs256_or_def bs256_and_def bs256_and_not_def Let_def)

lemma bs256_contains_empty [simp]: "\<not> bs256_contains EMPTY_BIT_SET_256 b"
  using byte_index_less [of b] by (simp add: bs256_contains_bit EMPTY_BIT_SET_256_def)

lemma bs256_contains_insert:
  "bs256_ok s \<Longrightarrow> bs256_contains (bs256_insert s a) b \<longleftrightarrow> b = a \<or> bs256_contains s b"
  using byte_index_less [of a] byte_index_less [of b]
  by (auto simp: bs256_contains_bit bs256_insert_def Let_def unat_and_7 unat_shr_3 bs256_ok_def
      nth_list_update bit_or_flag byte_eq_divmod [of b a])

lemma bs256_contains_remove:
  "bs256_ok s \<Longrightarrow> bs256_contains (bs256_remove s a) b \<longleftrightarrow> b \<noteq> a \<and> bs256_contains s b"
  using byte_index_less [of a] byte_index_less [of b]
  by (auto simp: bs256_contains_bit bs256_remove_def Let_def unat_and_7 unat_shr_3 bs256_ok_def
      nth_list_update bit_clear_flag byte_eq_divmod [of b a])

lemma bs256_contains_bool:
  "bs256_contains (bs256_or s t) b \<longleftrightarrow> bs256_contains s b \<or> bs256_contains t b"
  "bs256_contains (bs256_and s t) b \<longleftrightarrow> bs256_contains s b \<and> bs256_contains t b"
  "bs256_contains (bs256_and_not s t) b \<longleftrightarrow> bs256_contains s b \<and> \<not> bs256_contains t b"
  using byte_index_less [of b]
  by (simp_all add: bs256_contains_bit bs256_or_def bs256_and_def bs256_and_not_def
      bit_or_iff bit_and_iff bit_not_iff)

lemma bs256_set_ops:
  "bs256_set EMPTY_BIT_SET_256 = {}"
  "bs256_ok s \<Longrightarrow> bs256_set (bs256_insert s b) = insert b (bs256_set s)"
  "bs256_ok s \<Longrightarrow> bs256_set (bs256_remove s b) = bs256_set s - {b}"
  "bs256_set (bs256_or s t) = bs256_set s \<union> bs256_set t"
  "bs256_set (bs256_and s t) = bs256_set s \<inter> bs256_set t"
  "bs256_set (bs256_and_not s t) = bs256_set s - bs256_set t"
  by (auto simp: bs256_set_def bs256_contains_insert bs256_contains_remove bs256_contains_bool)

text \<open>Two sets with the same elements have the same bytes.\<close>

lemma bs256_eq_iff:
  assumes "bs256_ok s" and "bs256_ok t"
  shows "bs256_eq s t \<longleftrightarrow> bs256_set s = bs256_set t"
proof
  assume "bs256_eq s t"
  with assms show "bs256_set s = bs256_set t"
    by (simp add: bs256_eq_def bs256_ok_def bs256_set_def bs256_contains_bit)
next
  assume eq: "bs256_set s = bs256_set t"
  have "bs_bytes s ! i = bs_bytes t ! i" if i: "i < 32" for i
  proof (rule bit_word_eqI)
    fix k assume k: "k < LENGTH(8)"
    let ?b = "of_nat (i * 8 + k) :: byte"
    have u: "unat ?b = i * 8 + k" using i k by (intro unat_of_nat_byte) simp
    from eq have "bs256_contains s ?b = bs256_contains t ?b"
      by (auto simp: bs256_set_def)
    then show "bit (bs_bytes s ! i) k = bit (bs_bytes t ! i) k"
      using k by (simp add: bs256_contains_bit u del: of_nat_add of_nat_mult)
  qed
  then show "bs256_eq s t"
    using assms by (simp add: bs256_eq_def bs256_ok_def list_eq_iff_nth_eq)
qed

text \<open>The enumeration of all bytes.\<close>

lemma set_all_bytes: "set (map of_nat [0..<256] :: byte list) = UNIV"
proof -
  have "b \<in> set (map of_nat [0..<256])" for b :: byte
    by (rule image_eqI [where x = "unat b", THEN set_map [THEN equalityD2, THEN subsetD]]) simp_all
  then show ?thesis by blast
qed

lemma distinct_all_bytes: "distinct (map of_nat [0..<256] :: byte list)"
  by (auto simp: distinct_map inj_on_def intro: unat_of_nat_byte dest: arg_cong [where f = unat])
    (metis unat_of_nat_byte)

section \<open>Counting and enumerating\<close>

lemma shr_0x80: "j < 8 \<Longrightarrow> drop_bit j (0x80 :: byte) = 2 ^ (7 - j)"
proof -
  assume "j < 8"
  then have "j = 0 \<or> j = 1 \<or> j = 2 \<or> j = 3 \<or> j = 4 \<or> j = 5 \<or> j = 6 \<or> j = 7" by arith
  then show ?thesis by (elim disjE) simp_all
qed

lemma flags_of_byte_count:
  "(\<Sum>bitndx\<leftarrow>[0..<8]. let flagbit = drop_bit bitndx (0x80 :: byte)
      in if w AND flagbit \<noteq> 0 then 1 else 0) = card {k. k < 8 \<and> bit w k}"
proof -
  have "(\<Sum>bitndx\<leftarrow>[0..<8]. let flagbit = drop_bit bitndx (0x80 :: byte)
      in if w AND flagbit \<noteq> 0 then 1 else 0) = (\<Sum>j\<in>{0..<8}. if bit w (7 - j) then 1 else (0 :: nat))"
    unfolding interv_sum_list_conv_sum_set_nat
    by (rule sum.cong) (auto simp: Let_def shr_0x80 and_flag_nonzero)
  also have "\<dots> = (\<Sum>k\<in>{0..<8}. if bit w k then 1 else 0)"
    by (rule sum.reindex_bij_witness [of _ "\<lambda>k. 7 - k" "\<lambda>j. 7 - j"]) auto
  also have "\<dots> = card {k \<in> {0..<8}. bit w k}"
    by (simp add: sum.If_cases Int_def)
  also have "{k \<in> {0..<8}. bit w k} = {k. k < 8 \<and> bit w k}" by auto
  finally show ?thesis .
qed

lemma bs256_count_card: "bs256_count s = card (bs256_set s)"
proof -
  let ?pairs = "SIGMA i : {0..<32}. {k. k < 8 \<and> bit (bs_bytes s ! i) k}"
  have "bs256_count s = (\<Sum>i\<in>{0..<32}. card {k. k < 8 \<and> bit (bs_bytes s ! i) k})"
    by (simp only: bs256_count_def flags_of_byte_count) (simp add: interv_sum_list_conv_sum_set_nat)
  also have "\<dots> = card ?pairs"
    by (rule card_SigmaI [symmetric]) auto
  also have "\<dots> = card (bs256_set s)"
  proof (rule bij_betw_same_card)
    show "bij_betw (\<lambda>(i, k). of_nat (i * 8 + k)) ?pairs (bs256_set s)"
    proof (rule bij_betw_byWitness [where f' = "\<lambda>b. (unat b div 8, unat b mod 8)"])
      have u: "unat (of_nat (i * 8 + k) :: byte) = i * 8 + k" if "i < 32" "k < 8" for i k
        using that by (intro unat_of_nat_byte) simp
      show "\<forall>a\<in>?pairs. (\<lambda>b :: byte. (unat b div 8, unat b mod 8)) (case a of (i, k) \<Rightarrow> of_nat (i * 8 + k)) = a"
        by (auto simp: u simp del: of_nat_add of_nat_mult)
      show "\<forall>b\<in>bs256_set s. (case (unat b div 8, unat b mod 8) of (i, k) \<Rightarrow> of_nat (i * 8 + k)) = b"
        by (simp del: of_nat_add of_nat_mult)
      show "(\<lambda>(i, k). of_nat (i * 8 + k)) ` ?pairs \<subseteq> bs256_set s"
        by (auto simp: bs256_set_def bs256_contains_bit u simp del: of_nat_add of_nat_mult)
      show "(\<lambda>b. (unat b div 8, unat b mod 8)) ` bs256_set s \<subseteq> ?pairs"
        using byte_index_less by (auto simp: bs256_set_def bs256_contains_bit)
    qed
  qed
  finally show ?thesis .
qed

lemma filter_all_bytes:
  "set (filter (bs256_contains s) (map of_nat [0..<256])) = bs256_set s"
  "distinct (filter (bs256_contains s) (map of_nat [0..<256]))"
  "sorted (map unat (filter (bs256_contains s) (map of_nat [0..<256])))"
proof -
  show "set (filter (bs256_contains s) (map of_nat [0..<256])) = bs256_set s"
    using set_all_bytes by (auto simp: bs256_set_def)
  show "distinct (filter (bs256_contains s) (map of_nat [0..<256]))"
    by (rule distinct_filter [OF distinct_all_bytes])
  have "map unat (map of_nat [0..<256] :: byte list) = [0..<256]"
    by (rule nth_equalityI) (simp_all add: unat_of_nat_byte)
  then have "sorted (map unat (map of_nat [0..<256] :: byte list))"
    by (metis sorted_upt)
  then show "sorted (map unat (filter (bs256_contains s) (map of_nat [0..<256])))"
    by (rule sorted_filter)
qed

lemma bs256_to_bytes_spec:
  assumes "bs256_count s \<le> buflen"
  obtains bs where "bs256_to_bytes s buflen = Some bs" and "set bs = bs256_set s"
    and "distinct bs" and "sorted (map unat bs)" and "length bs = bs256_count s"
proof -
  let ?bs = "filter (bs256_contains s) (map of_nat [0..<256])"
  have "bs256_to_bytes s buflen = Some ?bs" using assms by (simp add: bs256_to_bytes_def)
  moreover have "length ?bs = bs256_count s"
    using filter_all_bytes [of s] by (metis bs256_count_card distinct_card)
  ultimately show ?thesis using that filter_all_bytes [of s] by blast
qed

lemma bs256_fill_buffer_spec:
  assumes "buffer_ok b"
    and "buf_len b + length (filter (\<lambda>n. bs256_contains s (of_nat n)) ns) \<le> buffer_size b"
  shows "\<exists>b'. bs256_fill_buffer s ns b = Some b' \<and> buffer_ok b' \<and>
    contents b' = contents b @ filter (bs256_contains s) (map of_nat ns)"
  using assms
proof (induction ns arbitrary: b)
  case Nil
  then show ?case by simp
next
  case (Cons n ns)
  show ?case
  proof (cases "bs256_contains s (of_nat n)")
    case True
    with Cons.prems have "buf_len b < buffer_size b" by simp
    from buffer_add_spec [OF Cons.prems(1) this, of "of_nat n"] obtain b1 where
      b1: "buffer_add b (of_nat n) = Some b1" "buffer_ok b1" "contents b1 = contents b @ [of_nat n]"
        "buffer_size b1 = buffer_size b" .
    then have "buf_len b1 = Suc (buf_len b)"
      using length_contents Cons.prems(1) by (metis length_append_singleton)
    with Cons.prems True b1 have "\<exists>b'. bs256_fill_buffer s ns b1 = Some b' \<and> buffer_ok b' \<and>
        contents b' = contents b1 @ filter (bs256_contains s) (map of_nat ns)"
      by (intro Cons.IH) simp_all
    with True b1 show ?thesis by auto
  next
    case False
    with Cons show ?thesis by simp
  qed
qed

lemma bs256_to_buffer_spec:
  obtains b where "bs256_to_buffer s = Some b" and "buffer_ok b"
    and "contents b = filter (bs256_contains s) (map of_nat [0..<256])"
proof -
  have "length (filter (\<lambda>n. bs256_contains s (of_nat n)) [0..<256]) =
      length (filter (bs256_contains s) (map of_nat [0..<256]))"
    by (simp add: filter_map o_def)
  also have "\<dots> = bs256_count s"
    using filter_all_bytes [of s] by (metis bs256_count_card distinct_card)
  finally show ?thesis
    using that bs256_fill_buffer_spec [of "buffer_new (bs256_count s)" s "[0..<256]"]
    by (auto simp: bs256_to_buffer_def)
qed

text \<open>The first set bit, and the iterator: each call returns the next element in order.\<close>

lemma find_upt_Some:
  "find P [m..<n] = Some k \<longleftrightarrow> m \<le> k \<and> k < n \<and> P k \<and> (\<forall>j. m \<le> j \<and> j < k \<longrightarrow> \<not> P j)"
proof
  assume "find P [m..<n] = Some k"
  then obtain i where i: "i < length [m..<n]" "P ([m..<n] ! i)" "k = [m..<n] ! i"
    "\<forall>j<i. \<not> P ([m..<n] ! j)"
    by (auto simp: find_Some_iff)
  then have "k = m + i" "m + i < n" by (simp_all add: less_diff_conv add.commute)
  moreover have "\<not> P j" if "m \<le> j" "j < k" for j
    using i(4) that \<open>k = m + i\<close> \<open>m + i < n\<close>
    by (auto dest!: spec [where x = "j - m"])
  ultimately show "m \<le> k \<and> k < n \<and> P k \<and> (\<forall>j. m \<le> j \<and> j < k \<longrightarrow> \<not> P j)"
    using i by simp
next
  assume k: "m \<le> k \<and> k < n \<and> P k \<and> (\<forall>j. m \<le> j \<and> j < k \<longrightarrow> \<not> P j)"
  then show "find P [m..<n] = Some k"
    by (auto simp: find_Some_iff intro!: exI [where x = "k - m"])
qed

lemma find_upt_None: "find P [m..<n] = None \<longleftrightarrow> (\<forall>k. m \<le> k \<and> k < n \<longrightarrow> \<not> P k)"
  by (auto simp: find_None_iff)

lemma bs256_contains_ex: "b \<in> bs256_set s \<longleftrightarrow> bs256_contains s (of_nat (unat b))"
  by (simp add: bs256_set_def)

lemma bs256_first_bit_set_None: "bs256_first_bit_set s = -1 \<longleftrightarrow> bs256_set s = {}"
proof -
  have "bs256_first_bit_set s = -1 \<longleftrightarrow> (\<forall>k<256. \<not> bs256_contains s (of_nat k))"
    by (auto simp: bs256_first_bit_set_def find_upt_None split: option.splits) (auto simp: find_upt_Some)
  also have "\<dots> \<longleftrightarrow> bs256_set s = {}"
    using bs256_contains_ex [of _ s] unat_byte_less by (fastforce simp: bs256_set_def)
  finally show ?thesis .
qed

lemma bs256_first_bit_set_Some:
  assumes "bs256_first_bit_set s = int k"
  shows "of_nat k \<in> bs256_set s" and "b \<in> bs256_set s \<Longrightarrow> k \<le> unat b"
proof -
  from assms have k: "k < 256" "bs256_contains s (of_nat k)"
    "\<And>j. j < k \<Longrightarrow> \<not> bs256_contains s (of_nat j)"
    by (auto simp: bs256_first_bit_set_def find_upt_Some split: option.splits)
  show "of_nat k \<in> bs256_set s" using k by (simp add: bs256_set_def)
  show "k \<le> unat b" if "b \<in> bs256_set s"
    using k(3) [of "unat b"] that by (force simp: bs256_set_def not_less)
qed

text \<open>Calling the iterator until it returns -1 (at most 257 calls).\<close>

fun bs256_iter_all :: "nat \<Rightarrow> Bit_Set_256_Iterator \<Rightarrow> int list" where
  "bs256_iter_all 0 it = []"
| "bs256_iter_all (Suc fuel) it =
     (let (r, it') = bs256_iter_next it in if r = -1 then [] else r # bs256_iter_all fuel it')"

lemma filter_upt_first:
  assumes "find P [m..<n] = Some k"
  shows "filter P [m..<n] = k # filter P [Suc k..<n]"
proof -
  from assms have k: "m \<le> k" "k < n" "P k" "\<And>j. m \<le> j \<Longrightarrow> j < k \<Longrightarrow> \<not> P j"
    by (auto simp: find_upt_Some)
  then have "[m..<n] = [m..<k] @ k # [Suc k..<n]"
    by (metis upt_add_eq_append [of m k "n - k"] upt_conv_Cons add_diff_inverse_nat less_imp_le not_less)
  moreover have "filter P [m..<k] = []"
    using k(4) by (auto simp: filter_empty_conv)
  ultimately show ?thesis using k(3) by simp
qed

lemma bs256_iter_all_eq:
  assumes "-1 \<le> lastpos it" and "256 - nat (lastpos it + 1) < fuel"
  shows "bs256_iter_all fuel it =
    map int (filter (\<lambda>n. bs256_contains (bbflags it) (of_nat n)) [nat (lastpos it + 1)..<256])"
  using assms
proof (induction fuel arbitrary: it)
  case 0
  then show ?case by simp
next
  case (Suc fuel)
  let ?P = "\<lambda>n. bs256_contains (bbflags it) (of_nat n)"
  show ?case
  proof (cases "find ?P [nat (lastpos it + 1)..<256]")
    case None
    then have "filter ?P [nat (lastpos it + 1)..<256] = []"
      by (auto simp: find_upt_None filter_empty_conv)
    with None show ?thesis by (simp add: bs256_iter_next_def)
  next
    case (Some k)
    then have k: "nat (lastpos it + 1) \<le> k" "k < 256" by (auto simp: find_upt_Some)
    have "bs256_iter_all fuel (it\<lparr>lastpos := int k\<rparr>) = map int (filter ?P [Suc k..<256])"
      using Suc.IH [of "it\<lparr>lastpos := int k\<rparr>"] Suc.prems k by (simp add: nat_add_distrib)
    with Some filter_upt_first [OF Some] show ?thesis
      by (simp add: bs256_iter_next_def)
  qed
qed

section \<open>Sets of 32 flags\<close>

type_synonym Bit_Set_32 = "32 word"

definition EMPTY_BIT_SET_32 :: Bit_Set_32 where "EMPTY_BIT_SET_32 = 0"

definition BIT_SET_32_MAX :: nat where "BIT_SET_32_MAX = 32"

text \<open>\<^verbatim>\<open>flagbit\<close> is an \<^verbatim>\<open>unsigned char\<close>: 0x80 shifted right.\<close>

definition bs32_count :: "Bit_Set_32 \<Rightarrow> nat" where
  "bs32_count bbset =
     (\<Sum>bitndx\<leftarrow>[0..<32].
        (let flagbit = drop_bit bitndx (0x80 :: byte)
         in if bbset AND ucast flagbit \<noteq> 0 then 1 else 0))"

definition bs32_contains :: "Bit_Set_32 \<Rightarrow> nat \<Rightarrow> bool option" where
  "bs32_contains flags val = do {
     c_assert (val < BIT_SET_32_MAX);
     Some (flags AND push_bit val 1 \<noteq> 0)
   }"

text \<open>A shift by 32 or more is undefined.\<close>

definition bs32_insert :: "Bit_Set_32 \<Rightarrow> nat \<Rightarrow> Bit_Set_32 option" where
  "bs32_insert flags val = do {
     c_assert (val < 32);
     Some (flags OR push_bit val 1)
   }"

fun bs32_bitstring_loop :: "nat \<Rightarrow> Bit_Set_32 \<Rightarrow> string \<Rightarrow> string" where
  "bs32_bitstring_loop 0 val acc = acc"
| "bs32_bitstring_loop (Suc n) val acc =
     bs32_bitstring_loop n (drop_bit 1 val) ((if val AND 1 \<noteq> 0 then CHR ''1'' else CHR ''0'') # acc)"

definition bs32_to_bitstring :: "Bit_Set_32 \<Rightarrow> string" where
  "bs32_to_bitstring val = bs32_bitstring_loop BIT_SET_32_MAX val []"

lemma and_flag32_nonzero: "k < 32 \<Longrightarrow> ((w :: Bit_Set_32) AND 2 ^ k \<noteq> 0) = bit w k"
proof -
  assume k: "k < 32"
  have flag: "bit (2 ^ k :: Bit_Set_32) j \<longleftrightarrow> j = k" if "j < 32" for j
    using k that by (auto simp: bit_exp_iff)
  show ?thesis
  proof
    assume "w AND 2 ^ k \<noteq> 0"
    then obtain j where j: "bit (w AND 2 ^ k) j" by (auto simp: bit_eq_iff)
    then have "j < 32" using bit_imp_le_length [of "w AND 2 ^ k" j] by simp
    with j flag show "bit w k" by (auto simp: bit_and_iff)
  next
    assume "bit w k"
    with flag [OF k] have "bit (w AND 2 ^ k) k" by (simp add: bit_and_iff)
    then show "w AND 2 ^ k \<noteq> 0" by auto
  qed
qed

lemma bs32_contains_Some: "bs32_contains s v = Some r \<longleftrightarrow> v < 32 \<and> r = bit s v"
  by (cases "v < 32") (auto simp: bs32_contains_def BIT_SET_32_MAX_def and_flag32_nonzero [symmetric])

lemma bs32_contains_insert:
  assumes "bs32_insert s v = Some s'" and "u < 32"
  shows "bs32_contains s' u = Some (u = v \<or> bit s u)"
  using assms
  by (auto simp: bs32_insert_def c_assert_bind_Some bs32_contains_Some bit_or_iff bit_exp_iff)

text \<open>
  \<^verbatim>\<open>bs32_count\<close> sees the low eight flags only: the shifted byte is 0 from the ninth
  iteration on. A set with a flag above 7 is counted too small.
\<close>

lemma bs32_count_low_byte: "bs32_count s = card {k. k < 8 \<and> bit s k}"
proof -
  have hi: "drop_bit j (0x80 :: byte) = 0" if "8 \<le> j" for j
    by (rule bit_word_eqI) (use that in \<open>auto simp: bit_drop_bit_eq dest: bit_imp_le_length\<close>)
  have lo: "ucast (drop_bit j (0x80 :: byte)) = (2 ^ (7 - j) :: Bit_Set_32)" if "j < 8" for j
  proof -
    from that have "j = 0 \<or> j = 1 \<or> j = 2 \<or> j = 3 \<or> j = 4 \<or> j = 5 \<or> j = 6 \<or> j = 7" by arith
    then show ?thesis by (elim disjE) simp_all
  qed
  let ?f = "\<lambda>j. if s AND ucast (drop_bit j (0x80 :: byte)) \<noteq> 0 then 1 else (0 :: nat)"
  have "bs32_count s = (\<Sum>j\<in>{0..<32}. ?f j)"
    by (simp add: bs32_count_def Let_def interv_sum_list_conv_sum_set_nat)
  also have "\<dots> = (\<Sum>j\<in>{0..<8}. ?f j)"
    by (rule sum.mono_neutral_right) (auto simp: hi)
  also have "\<dots> = (\<Sum>j\<in>{0..<8}. if bit s (7 - j) then 1 else 0)"
    by (rule sum.cong) (auto simp: lo and_flag32_nonzero)
  also have "\<dots> = (\<Sum>k\<in>{0..<8}. if bit s k then 1 else 0)"
    by (rule sum.reindex_bij_witness [of _ "\<lambda>k. 7 - k" "\<lambda>j. 7 - j"]) auto
  also have "\<dots> = card {k \<in> {0..<8}. bit s k}"
    by (simp add: sum.If_cases Int_def)
  also have "{k \<in> {0..<8}. bit s k} = {k. k < 8 \<and> bit s k}" by auto
  finally show ?thesis .
qed

section \<open>The appender interface\<close>

text \<open>
  A collection that can be filled byte by byte: the contract of the code's
  \<^verbatim>\<open>Byte_Appender\<close> functions. \<open>member\<close> is what the collection's reader sees.
\<close>

locale byte_collection =
  fixes empty :: 's
    and appender :: "'s \<Rightarrow> byte \<Rightarrow> 's"
    and member :: "'s \<Rightarrow> byte \<Rightarrow> bool"
    and invar :: "'s \<Rightarrow> bool"
  assumes invar_empty: "invar empty"
    and member_empty: "\<not> member empty b"
    and invar_appender: "invar s \<Longrightarrow> invar (appender s v)"
    and member_appender: "invar s \<Longrightarrow> member (appender s v) b \<longleftrightarrow> b = v \<or> member s b"
begin

lemma invar_foldl: "invar s \<Longrightarrow> invar (foldl appender s vs)"
  by (induction vs arbitrary: s) (simp_all add: invar_appender)

lemma member_foldl: "invar s \<Longrightarrow> member (foldl appender s vs) b \<longleftrightarrow> b \<in> set vs \<or> member s b"
  by (induction vs arbitrary: s) (auto simp: invar_appender member_appender)

lemma member_foldl_empty: "member (foldl appender empty vs) b \<longleftrightarrow> b \<in> set vs"
  by (simp add: member_foldl invar_empty member_empty)

end

definition bva_appender :: "Byte_Value_Array \<Rightarrow> byte \<Rightarrow> Byte_Value_Array" where
  "bva_appender data_struct val = bva_append data_struct val"

definition bs256_appender :: "Bit_Set_256 \<Rightarrow> byte \<Rightarrow> Bit_Set_256" where
  "bs256_appender data_struct val = bs256_insert data_struct val"

interpretation bva: byte_collection bva_create bva_appender bva_contains "\<lambda>_. True"
  by unfold_locales (auto simp: bva_create_def bva_appender_def bva_append_def)

interpretation bs256: byte_collection EMPTY_BIT_SET_256 bs256_appender bs256_contains bs256_ok
  by unfold_locales (auto simp: bs256_appender_def bs256_contains_insert)

section \<open>Lists of hex bytes\<close>

text \<open>
  \<^verbatim>\<open>strtok(buf, " ")\<close>, called until it returns null: the maximal runs of other
  characters. The copy of the input ends at its first 0 byte.
\<close>

fun strtok_all :: "string \<Rightarrow> string \<Rightarrow> string list" where
  "strtok_all [] tok = (if tok = [] then [] else [rev tok])"
| "strtok_all (c # cs) tok =
     (if c = CHR '' ''
      then (if tok = [] then strtok_all cs [] else rev tok # strtok_all cs [])
      else strtok_all cs (c # tok))"

definition bytehex_tokens :: "string \<Rightarrow> string list" where
  "bytehex_tokens s = strtok_all (takeWhile (\<lambda>c. c \<noteq> CHR 0x00) s) []"

text \<open>A token of two characters, or of one, which gets a leading 0.\<close>

definition bytehex_token_value :: "string \<Rightarrow> byte option" where
  "bytehex_token_value tok =
     (if length tok = 2 then hhc_to_byte_in_buf (tok ! 0) (tok ! 1)
      else if length tok = 1 then hhc_to_byte_in_buf (CHR ''0'') (tok ! 0)
      else None)"

fun store_tokens :: "string list \<Rightarrow> 's \<Rightarrow> ('s \<Rightarrow> byte \<Rightarrow> 's) \<Rightarrow> bool \<Rightarrow> bool \<times> 's" where
  "store_tokens [] data_struct appender ok = (ok, data_struct)"
| "store_tokens (tok # toks) data_struct appender ok =
     (case bytehex_token_value tok of
        None \<Rightarrow> store_tokens toks data_struct appender False
      | Some v \<Rightarrow> store_tokens toks (appender data_struct v) appender ok)"

definition store_bytehex_list :: "string \<Rightarrow> 's \<Rightarrow> ('s \<Rightarrow> byte \<Rightarrow> 's) \<Rightarrow> bool \<times> 's" where
  "store_bytehex_list s data_struct appender =
     store_tokens (bytehex_tokens s) data_struct appender True"

definition bva_store_bytehex_list :: "Byte_Value_Array \<Rightarrow> string \<Rightarrow> bool \<times> Byte_Value_Array" where
  "bva_store_bytehex_list bva s = store_bytehex_list s bva bva_appender"

definition bs256_store_bytehex_list :: "Bit_Set_256 \<Rightarrow> string \<Rightarrow> bool \<times> Bit_Set_256" where
  "bs256_store_bytehex_list bitset s = store_bytehex_list s bitset bs256_appender"

text \<open>The values of the well-formed tokens, in order; bad tokens are skipped.\<close>

definition good_values :: "string \<Rightarrow> byte list" where
  "good_values s = List.map_filter bytehex_token_value (bytehex_tokens s)"

lemma store_tokens_eq:
  "store_tokens toks d app ok =
     (ok \<and> (\<forall>t\<in>set toks. bytehex_token_value t \<noteq> None),
      foldl app d (List.map_filter bytehex_token_value toks))"
  by (induction toks arbitrary: d ok) (auto simp: map_filter_simps split: option.splits)

lemma store_bytehex_list_eq:
  "store_bytehex_list s d app =
     ((\<forall>t\<in>set (bytehex_tokens s). bytehex_token_value t \<noteq> None), foldl app d (good_values s))"
  by (simp add: store_bytehex_list_def store_tokens_eq good_values_def)

context byte_collection
begin

lemma store_list_member:
  "member (snd (store_bytehex_list s empty appender)) b \<longleftrightarrow> b \<in> set (good_values s)"
  by (simp add: store_bytehex_list_eq member_foldl_empty)

lemma store_list_invar: "invar (snd (store_bytehex_list s empty appender))"
  by (simp add: store_bytehex_list_eq invar_foldl invar_empty)

end

text \<open>The two collections agree, whatever the input.\<close>

lemma store_same_members:
  "bva_contains (snd (bva_store_bytehex_list bva_create s)) b \<longleftrightarrow>
   bs256_contains (snd (bs256_store_bytehex_list EMPTY_BIT_SET_256 s)) b"
  unfolding bva_store_bytehex_list_def bs256_store_bytehex_list_def
  by (simp only: bva.store_list_member bs256.store_list_member)

lemma bva_bs256_same_values_iff:
  "bva_bs256_same_values bva s \<longleftrightarrow> set bva = bs256_set s"
proof -
  have "bva_bs256_same_values bva s \<longleftrightarrow>
      (\<forall>b\<in>set (map of_nat [0..<256] :: byte list). bva_contains bva b = bs256_contains s b)"
    by (simp add: bva_bs256_same_values_def list_all_iff)
  then show ?thesis unfolding set_all_bytes by (auto simp: bs256_set_def)
qed

lemma bs256_from_bva_set: "bs256_set (bs256_from_bva bva) = set bva"
proof -
  have "bs256_from_bva bva = foldl bs256_appender EMPTY_BIT_SET_256 bva"
    by (simp add: bs256_from_bva_def bs256_appender_def [abs_def])
  then show ?thesis by (simp add: bs256_set_def bs256.member_foldl_empty)
qed

text \<open>Writing bytes in hex, separated by blanks, and parsing the list back.\<close>

lemma strtok_all_word:
  "CHR '' '' \<notin> set w \<Longrightarrow> strtok_all (w @ rest) tok = strtok_all rest (rev w @ tok)"
  by (induction w arbitrary: tok) auto

fun join_hex :: "byte list \<Rightarrow> string" where
  "join_hex [] = []"
| "join_hex (b # bs) = byte_to_hex b @ (if bs = [] then [] else CHR '' '' # join_hex bs)"

lemma byte_to_hex_chars:
  "\<forall>c\<in>set (byte_to_hex b). c \<noteq> CHR '' '' \<and> c \<noteq> CHR 0x00 \<and> is_hex c"
proof -
  have lt: "unat b div 16 < 16" "unat b mod 16 < 16"
    using unat_byte_less [of b] by linarith+
  have "hex_digit c = Some d \<Longrightarrow> c \<noteq> CHR '' '' \<and> c \<noteq> CHR 0x00" for c d
    using hex_not_special [of c d] by (auto simp: c_isspace_def)
  with lt show ?thesis
    by (auto simp: byte_to_hex_def is_hex_def hex_digit_hex_char dest!: hex_digit_hex_char)
qed

lemma join_hex_no_nul: "takeWhile (\<lambda>c. c \<noteq> CHR 0x00) (join_hex bs) = join_hex bs"
proof -
  have "\<forall>c\<in>set (join_hex bs). c \<noteq> CHR 0x00"
    using byte_to_hex_chars by (induction bs) auto
  then show ?thesis by (simp add: takeWhile_eq_all_conv)
qed

lemma bytehex_tokens_join: "bytehex_tokens (join_hex bs) = map byte_to_hex bs"
proof -
  have "strtok_all (join_hex bs) [] = map byte_to_hex bs"
  proof (induction bs)
    case Nil
    then show ?case by simp
  next
    case (Cons b bs)
    have "CHR '' '' \<notin> set (byte_to_hex b)" using byte_to_hex_chars [of b] by blast
    then have "strtok_all (byte_to_hex b @ r) [] = strtok_all r (rev (byte_to_hex b))" for r
      by (simp add: strtok_all_word)
    moreover have "byte_to_hex b \<noteq> []" by (simp add: byte_to_hex_def)
    ultimately show ?case using Cons by simp
  qed
  then show ?thesis by (simp add: bytehex_tokens_def join_hex_no_nul)
qed

lemma bytehex_token_value_hex: "bytehex_token_value (byte_to_hex b) = Some b"
  using hhs_roundtrip [of b] byte_to_hex_chars [of b]
  by (simp add: bytehex_token_value_def byte_to_hex_def hhc_to_byte_in_buf_def)

lemma bva_store_roundtrip: "bva_store_bytehex_list bva_create (join_hex bs) = (True, bs)"
proof -
  have "foldl bva_appender acc bs = acc @ bs" for acc
    by (induction bs arbitrary: acc) (simp_all add: bva_appender_def bva_append_def)
  moreover have "List.map_filter bytehex_token_value (map byte_to_hex bs) = bs"
    by (induction bs) (simp_all add: map_filter_simps bytehex_token_value_hex)
  ultimately show ?thesis
    by (simp add: bva_store_bytehex_list_def store_bytehex_list_eq good_values_def
        bytehex_tokens_join bytehex_token_value_hex bva_create_def)
qed

section \<open>Properties\<close>

text \<open>C5 (bs256_refines_set): the bit array operations are the operations of sets of bytes: insertion, removal, union, intersection, difference, membership, equality, cardinality and the listing in ascending order.\<close>

theorem bs256_refines_set:
  assumes "bs256_ok s" and "bs256_ok t"
  shows "bs256_set (bs256_insert s b) = insert b (bs256_set s) \<and>
    bs256_set (bs256_remove s b) = bs256_set s - {b} \<and>
    bs256_set (bs256_or s t) = bs256_set s \<union> bs256_set t \<and>
    bs256_set (bs256_and s t) = bs256_set s \<inter> bs256_set t \<and>
    bs256_set (bs256_and_not s t) = bs256_set s - bs256_set t \<and>
    (bs256_contains s b \<longleftrightarrow> b \<in> bs256_set s) \<and>
    (bs256_eq s t \<longleftrightarrow> bs256_set s = bs256_set t) \<and>
    bs256_count s = card (bs256_set s) \<and>
    (\<exists>bs. bs256_to_bytes s (bs256_count s) = Some bs \<and> set bs = bs256_set s \<and>
          distinct bs \<and> sorted (map unat bs))"
proof -
  obtain bs where "bs256_to_bytes s (bs256_count s) = Some bs" "set bs = bs256_set s"
    "distinct bs" "sorted (map unat bs)"
    using bs256_to_bytes_spec [OF order_refl, of s] by metis
  moreover have "bs256_contains s b \<longleftrightarrow> b \<in> bs256_set s" by (simp add: bs256_set_def)
  ultimately show ?thesis
    using assms by (simp add: bs256_set_ops bs256_eq_iff bs256_count_card)
qed

theorem bs256_refines_set_witness:
  "bs256_set (bs256_insert EMPTY_BIT_SET_256 7) = insert 7 (bs256_set EMPTY_BIT_SET_256) \<and>
    bs256_set (bs256_remove EMPTY_BIT_SET_256 7) = bs256_set EMPTY_BIT_SET_256 - {7} \<and>
    bs256_set (bs256_or EMPTY_BIT_SET_256 (bs256_insert EMPTY_BIT_SET_256 9))
      = bs256_set EMPTY_BIT_SET_256 \<union> bs256_set (bs256_insert EMPTY_BIT_SET_256 9) \<and>
    bs256_set (bs256_and EMPTY_BIT_SET_256 (bs256_insert EMPTY_BIT_SET_256 9))
      = bs256_set EMPTY_BIT_SET_256 \<inter> bs256_set (bs256_insert EMPTY_BIT_SET_256 9) \<and>
    bs256_set (bs256_and_not EMPTY_BIT_SET_256 (bs256_insert EMPTY_BIT_SET_256 9))
      = bs256_set EMPTY_BIT_SET_256 - bs256_set (bs256_insert EMPTY_BIT_SET_256 9) \<and>
    (bs256_contains EMPTY_BIT_SET_256 7 \<longleftrightarrow> 7 \<in> bs256_set EMPTY_BIT_SET_256) \<and>
    (bs256_eq EMPTY_BIT_SET_256 (bs256_insert EMPTY_BIT_SET_256 9)
      \<longleftrightarrow> bs256_set EMPTY_BIT_SET_256 = bs256_set (bs256_insert EMPTY_BIT_SET_256 9)) \<and>
    bs256_count EMPTY_BIT_SET_256 = card (bs256_set EMPTY_BIT_SET_256) \<and>
    (\<exists>bs. bs256_to_bytes EMPTY_BIT_SET_256 (bs256_count EMPTY_BIT_SET_256) = Some bs \<and>
          set bs = bs256_set EMPTY_BIT_SET_256 \<and> distinct bs \<and> sorted (map unat bs))"
  by (rule bs256_refines_set) simp_all

text \<open>An iterator run to its end, with as many calls as there are bits and one more, returns exactly the members, each once, in ascending order.\<close>

theorem bs256_iterator_complete:
  "bs256_iter_all 257 (bs256_iter_new s) =
   map int (filter (\<lambda>n. bs256_contains s (of_nat n)) [0..<256])"
  using bs256_iter_all_eq [of "bs256_iter_new s" 257] by (simp add: bs256_iter_new_def)

text \<open>The count of a 32 bit set is the number of its members below 8; the other 24 bits are not counted.\<close>

theorem bs32_count_misses_high_bits: "bs32_count s = card {k. k < 8 \<and> bit s k}"
  by (rule bs32_count_low_byte)

text \<open>C6 (bytehex_list_roundtrip): storing a blank separated list of two digit hex values gives back the bytes that were written, in order, and both collections the appender interface fills hold the same values, whatever the input.\<close>

theorem bytehex_list_roundtrip:
  "bva_store_bytehex_list bva_create (join_hex bs) = (True, bs) \<and>
   set (snd (bva_store_bytehex_list bva_create s)) =
     bs256_set (snd (bs256_store_bytehex_list EMPTY_BIT_SET_256 s))"
  using bva_store_roundtrip store_same_members by (auto simp: bs256_set_def)

end
