(* ===== verification/Ddc_Packets.thy ===== *)
theory Ddc_Packets
  imports Status_Codes Byte_Buffer
begin

text \<open>
  DDC/CI packets: \<^verbatim>\<open>src/src/base/ddc_packets.c\<close> and \<^verbatim>\<open>.h\<close>. A request packet is the
  bytes 6e, source address, length or-ed with 80, data, checksum. A response arrives as 6e,
  length or-ed with 80, data, checksum; the checksum covers the implicit address byte 50.
  A function that returns a status code and a packet through a pointer is a function into
  \<open>(int \<times> DDC_Packet option) option\<close>, the outer option being the abnormal end.
  Debug output is left out; the debug tag of a packet is kept.
\<close>

section \<open>Data\<close>

abbreviation MAX_DDC_MULTI_PART_FRAGMENT_SIZE :: nat where
  "MAX_DDC_MULTI_PART_FRAGMENT_SIZE \<equiv> 32"
abbreviation MAX_DDC_DATA_SIZE :: nat where "MAX_DDC_DATA_SIZE \<equiv> 35"
abbreviation MAX_DDC_PACKET_SIZE :: nat where "MAX_DDC_PACKET_SIZE \<equiv> 39"
abbreviation MAX_DDC_TAG :: nat where "MAX_DDC_TAG \<equiv> 39"

abbreviation DDC_PACKET_TYPE_NONE :: byte where "DDC_PACKET_TYPE_NONE \<equiv> 0x00"
abbreviation DDC_PACKET_TYPE_QUERY_VCP_REQUEST :: byte where "DDC_PACKET_TYPE_QUERY_VCP_REQUEST \<equiv> 0x01"
abbreviation DDC_PACKET_TYPE_QUERY_VCP_RESPONSE :: byte where "DDC_PACKET_TYPE_QUERY_VCP_RESPONSE \<equiv> 0x02"
abbreviation DDC_PACKET_TYPE_SET_VCP_REQUEST :: byte where "DDC_PACKET_TYPE_SET_VCP_REQUEST \<equiv> 0x03"
abbreviation DDC_PACKET_TYPE_SAVE_CURRENT_SETTINGS :: byte where "DDC_PACKET_TYPE_SAVE_CURRENT_SETTINGS \<equiv> 0x0c"
abbreviation DDC_PACKET_TYPE_CAPABILITIES_REQUEST :: byte where "DDC_PACKET_TYPE_CAPABILITIES_REQUEST \<equiv> 0xf3"
abbreviation DDC_PACKET_TYPE_CAPABILITIES_RESPONSE :: byte where "DDC_PACKET_TYPE_CAPABILITIES_RESPONSE \<equiv> 0xe3"
abbreviation DDC_PACKET_TYPE_TABLE_READ_REQUEST :: byte where "DDC_PACKET_TYPE_TABLE_READ_REQUEST \<equiv> 0xe2"
abbreviation DDC_PACKET_TYPE_TABLE_READ_RESPONSE :: byte where "DDC_PACKET_TYPE_TABLE_READ_RESPONSE \<equiv> 0xe4"
abbreviation DDC_PACKET_TYPE_TABLE_WRITE_REQUEST :: byte where "DDC_PACKET_TYPE_TABLE_WRITE_REQUEST \<equiv> 0xe7"

record Parsed_Nontable_Vcp_Response =
  vcp_code :: byte
  valid_response :: bool
  supported_opcode :: bool
  rmh :: byte
  rml :: byte
  rsh :: byte
  rsl :: byte

record Interpreted_Multi_Part_Read_Fragment =
  fragment_type :: byte
  fragment_offset :: nat
  fragment_length :: nat
  fragment_bytes :: "byte list"

text \<open>The union \<^verbatim>\<open>parsed\<close>: a null pointer, or a pointer to one of the two structs.\<close>

datatype Parsed =
    Not_Parsed
  | Nontable_Response Parsed_Nontable_Vcp_Response
  | Multi_Part_Read_Fragment Interpreted_Multi_Part_Read_Fragment

record DDC_Packet =
  raw_bytes :: Buffer
  pkt_tag :: string
  pkt_type :: byte
  parsed :: Parsed

definition RESPONSE_CUR_VALUE :: "Parsed_Nontable_Vcp_Response \<Rightarrow> nat" where
  "RESPONSE_CUR_VALUE r = hi_lo (rsh r) (rsl r)"

definition RESPONSE_MAX_VALUE :: "Parsed_Nontable_Vcp_Response \<Rightarrow> nat" where
  "RESPONSE_MAX_VALUE r = hi_lo (rmh r) (rml r)"

definition value_bytes_zero :: "Parsed_Nontable_Vcp_Response \<Rightarrow> bool" where
  "value_bytes_zero r \<longleftrightarrow> rmh r = 0 \<and> rml r = 0 \<and> rsh r = 0 \<and> rsl r = 0"

section \<open>Checksums\<close>

text \<open>The byte at \<open>pos\<close> equals the one before it.\<close>

definition is_double_byte :: "byte list \<Rightarrow> nat \<Rightarrow> bool option" where
  "is_double_byte bs pos = do {
     c_assert (0 < pos \<and> pos < length bs);
     Some (bs ! pos = bs ! (pos - 1))
   }"

definition ddc_checksum :: "byte list \<Rightarrow> nat \<Rightarrow> bool \<Rightarrow> byte option" where
  "ddc_checksum bs len altmode = do {
     c_assert (len \<ge> 1);
     c_assert (len \<le> length bs);
     let checksum = (if altmode then 0x50 else bs ! 0);
     Some (foldl (\<lambda>cs ndx. cs XOR bs ! ndx) checksum [1..<len])
   }"

section \<open>Packet general functions\<close>

definition get_packet_start :: "DDC_Packet \<Rightarrow> byte list" where
  "get_packet_start packet = buf_bytes (raw_bytes packet)"

definition get_packet_len :: "DDC_Packet \<Rightarrow> nat" where
  "get_packet_len packet = buf_len (raw_bytes packet)"

text \<open>Every packet has the four bytes that are not data, so the subtraction is exact.\<close>

definition get_data_len :: "DDC_Packet \<Rightarrow> nat" where
  "get_data_len packet = buf_len (raw_bytes packet) - 4"

definition get_data_start :: "DDC_Packet \<Rightarrow> byte list" where
  "get_data_start packet = drop 3 (buf_bytes (raw_bytes packet))"

definition get_packet_max_size :: "DDC_Packet \<Rightarrow> nat" where
  "get_packet_max_size packet = buffer_size (raw_bytes packet)"

definition isNullPacket :: "DDC_Packet \<Rightarrow> bool" where
  "isNullPacket packet \<longleftrightarrow> get_data_len packet = 0"

definition create_empty_ddc_packet :: "nat \<Rightarrow> string \<Rightarrow> DDC_Packet" where
  "create_empty_ddc_packet max_size tag =
     \<lparr>raw_bytes = buffer_new max_size,
      pkt_tag = take MAX_DDC_TAG tag,
      pkt_type = DDC_PACKET_TYPE_NONE,
      parsed = Not_Parsed\<rparr>"

section \<open>Request packets\<close>

definition create_ddc_base_request_packet ::
    "byte \<Rightarrow> byte list \<Rightarrow> string \<Rightarrow> DDC_Packet option" where
  "create_ddc_base_request_packet source_addr data_bytes tag = do {
     let data_bytect = length data_bytes;
     c_assert (data_bytect \<le> 32);
     let packet = create_empty_ddc_packet (3 + data_bytect + 1) tag;
     buf \<leftarrow> buffer_set_byte (raw_bytes packet) 0 0x6e;
     buf \<leftarrow> buffer_set_byte buf 1 source_addr;
     buf \<leftarrow> buffer_set_byte buf 2 (of_nat data_bytect OR 0x80);
     buf \<leftarrow> buffer_set_bytes buf 3 data_bytes;
     let packet_size_wo_checksum = 3 + data_bytect;
     checksum \<leftarrow> ddc_checksum (buf_bytes buf) packet_size_wo_checksum False;
     buf \<leftarrow> buffer_set_byte buf packet_size_wo_checksum checksum;
     buf \<leftarrow> buffer_set_length buf (3 + data_bytect + 1);
     Some (packet\<lparr>raw_bytes := buf,
                  pkt_type := (if data_bytect > 0 then data_bytes ! 0 else 0x00)\<rparr>)
   }"

text \<open>The high byte is taken from bits 16 to 23 of the offset.\<close>

definition create_ddc_multi_part_read_request_packet ::
    "byte \<Rightarrow> byte \<Rightarrow> nat \<Rightarrow> string \<Rightarrow> DDC_Packet option" where
  "create_ddc_multi_part_read_request_packet request_type request_subtype offset tag = do {
     c_assert (request_type = DDC_PACKET_TYPE_CAPABILITIES_REQUEST \<or>
               request_type = DDC_PACKET_TYPE_TABLE_READ_REQUEST);
     let ofs_hi_byte = byte_of_shr16 offset;
     let ofs_lo_byte = byte_of offset;
     (if request_type = DDC_PACKET_TYPE_CAPABILITIES_REQUEST
      then create_ddc_base_request_packet 0x51
             [DDC_PACKET_TYPE_CAPABILITIES_REQUEST, ofs_hi_byte, ofs_lo_byte] tag
      else create_ddc_base_request_packet 0x51
             [DDC_PACKET_TYPE_TABLE_READ_REQUEST, request_subtype, ofs_hi_byte, ofs_lo_byte] tag)
   }"

definition update_ddc_multi_part_read_request_packet_offset ::
    "DDC_Packet \<Rightarrow> nat \<Rightarrow> DDC_Packet option" where
  "update_ddc_multi_part_read_request_packet_offset packet new_offset = do {
     c_assert (pkt_type packet = DDC_PACKET_TYPE_CAPABILITIES_REQUEST \<or>
               pkt_type packet = DDC_PACKET_TYPE_TABLE_READ_REQUEST);
     let ofs_hi_byte = byte_of_shr8 new_offset;
     let ofs_lo_byte = byte_of new_offset;
     let pos = (if pkt_type packet = DDC_PACKET_TYPE_CAPABILITIES_REQUEST then 3 + 1 else 3 + 2);
     buf \<leftarrow> buf_memcpy (raw_bytes packet) pos [ofs_hi_byte];
     buf \<leftarrow> buf_memcpy buf (pos + 1) [ofs_lo_byte];
     let packet_size_wo_checksum = get_packet_len packet - 1;
     checksum \<leftarrow> ddc_checksum (buf_bytes buf) packet_size_wo_checksum False;
     buf \<leftarrow> buf_memcpy buf packet_size_wo_checksum [checksum];
     Some (packet\<lparr>raw_bytes := buf\<rparr>)
   }"

definition create_ddc_multi_part_write_request_packet ::
    "byte \<Rightarrow> byte \<Rightarrow> nat \<Rightarrow> byte list \<Rightarrow> string \<Rightarrow> DDC_Packet option" where
  "create_ddc_multi_part_write_request_packet request_type request_subtype offset bytes_to_write tag = do {
     let bytect = length bytes_to_write;
     c_assert (request_type = DDC_PACKET_TYPE_TABLE_WRITE_REQUEST);
     c_assert (bytect + 4 \<le> 35);
     let ofs_hi_byte = byte_of_shr16 offset;
     let ofs_lo_byte = byte_of offset;
     create_ddc_base_request_packet 0x51
       ([DDC_PACKET_TYPE_TABLE_WRITE_REQUEST, request_subtype, ofs_hi_byte, ofs_lo_byte] @ bytes_to_write)
       tag
   }"

definition create_ddc_getvcp_request_packet :: "byte \<Rightarrow> string \<Rightarrow> DDC_Packet option" where
  "create_ddc_getvcp_request_packet code tag =
     create_ddc_base_request_packet 0x51 [DDC_PACKET_TYPE_QUERY_VCP_REQUEST, code] tag"

text \<open>The global \<^verbatim>\<open>alt_source_addr\<close> is an argument.\<close>

definition create_ddc_setvcp_request_packet ::
    "byte \<Rightarrow> byte \<Rightarrow> nat \<Rightarrow> string \<Rightarrow> DDC_Packet option" where
  "create_ddc_setvcp_request_packet alt_source_addr code new_value tag =
     create_ddc_base_request_packet (if alt_source_addr \<noteq> 0 then alt_source_addr else 0x51)
       [DDC_PACKET_TYPE_SET_VCP_REQUEST, code, byte_of_shr8 new_value, byte_of new_value] tag"

definition create_ddc_save_settings_request_packet :: "string \<Rightarrow> DDC_Packet option" where
  "create_ddc_save_settings_request_packet tag =
     create_ddc_base_request_packet 0x51 [DDC_PACKET_TYPE_SAVE_CURRENT_SETTINGS] tag"

section \<open>Response packets\<close>

text \<open>
  \<open>resp\<close> is the memory the raw response was read into, of the size passed in
  \<^verbatim>\<open>response_bytes_buffer_size\<close>; a read past its end is the abnormal end.
\<close>

definition create_ddc_base_response_packet ::
    "byte list \<Rightarrow> string \<Rightarrow> (int \<times> DDC_Packet option) option" where
  "create_ddc_base_response_packet resp tag = do {
     c_assert (0 < length resp);
     (if resp ! 0 \<noteq> 0x6e then Some (DDCRC_DDC_DATA, None)
      else do {
        c_assert (1 < length resp);
        let data_ct = unat (resp ! 1 AND 0x7f);
        (if data_ct > MAX_DDC_DATA_SIZE
         then do {
           dbl \<leftarrow> is_double_byte resp 1;
           (if dbl then Some (DDCRC_DDC_DATA, None) else Some (DDCRC_DDC_DATA, None))
         }
         else do {
           let packet = create_empty_ddc_packet (3 + data_ct + 1) tag;
           c_assert (1 + (1 + data_ct + 1) \<le> length resp);
           let packet = packet\<lparr>pkt_type := (if data_ct > 0 then resp ! 2 else pkt_type packet)\<rparr>;
           buf \<leftarrow> buffer_set_byte (raw_bytes packet) 0 0x6f;
           buf \<leftarrow> buffer_set_byte buf 1 0x6e;
           buf \<leftarrow> buffer_set_bytes buf 2 (take (1 + data_ct + 1) (drop 1 resp));
           buf \<leftarrow> buffer_set_length buf (3 + data_ct + 1);
           calculated_checksum \<leftarrow> ddc_checksum (buf_bytes buf) (3 + data_ct) True;
           let actual_checksum = buf_bytes buf ! (3 + data_ct);
           (if calculated_checksum \<noteq> actual_checksum then Some (DDCRC_DDC_DATA, None)
            else Some (DDCRC_OK, Some (packet\<lparr>raw_bytes := buf\<rparr>)))
         })
      })
   }"

text \<open>A response that starts with 6e twice is read from its second byte.\<close>

definition skip_double_6e :: "byte list \<Rightarrow> byte list" where
  "skip_double_6e resp =
     (if length resp > 2 \<and> resp ! 0 = 0x6e \<and> resp ! 1 = 0x6e then drop 1 resp else resp)"

definition create_ddc_response_packet ::
    "byte list \<Rightarrow> byte \<Rightarrow> string \<Rightarrow> (int \<times> DDC_Packet option) option" where
  "create_ddc_response_packet resp expected_type tag = do {
     (result, packet_opt) \<leftarrow> create_ddc_base_response_packet (skip_double_6e resp) tag;
     (case packet_opt of
        None \<Rightarrow> Some (result, None)
      | Some packet \<Rightarrow>
          if result = 0 \<and> isNullPacket packet then Some (DDCRC_NULL_RESPONSE, None)
          else if result = 0 \<and> get_data_start packet ! 0 \<noteq> expected_type then Some (DDCRC_DDC_DATA, None)
          else if result \<noteq> DDCRC_OK then Some (result, None)
          else Some (result, Some packet))
   }"

section \<open>Interpretation of the data\<close>

definition empty_fragment :: Interpreted_Multi_Part_Read_Fragment where
  "empty_fragment =
     \<lparr>fragment_type = 0, fragment_offset = 0, fragment_length = 0,
      fragment_bytes = replicate (MAX_DDC_MULTI_PART_FRAGMENT_SIZE + 1) 0\<rparr>"

definition interpret_multi_part_read_response ::
    "byte \<Rightarrow> byte list \<Rightarrow> nat \<Rightarrow> Interpreted_Multi_Part_Read_Fragment \<Rightarrow>
     (int \<times> Interpreted_Multi_Part_Read_Fragment) option" where
  "interpret_multi_part_read_response response_type data_bytes bytect aux_data =
     (if bytect < 3 \<or> bytect > 35 then Some (DDCRC_DDC_DATA, aux_data)
      else do {
        c_assert (bytect \<le> length data_bytes);
        c_assert (data_bytes ! 0 = response_type);
        let offset_hi_byte = data_bytes ! 1;
        let offset_lo_byte = data_bytes ! 2;
        let read_data_length = bytect - 3;
        c_assert (read_data_length \<le> MAX_DDC_MULTI_PART_FRAGMENT_SIZE);
        Some (DDCRC_OK,
          aux_data\<lparr>fragment_type := response_type,
                   fragment_offset := hi_lo offset_hi_byte offset_lo_byte,
                   fragment_length := read_data_length,
                   fragment_bytes := mem_write (fragment_bytes aux_data) 0
                     (take read_data_length (drop 3 data_bytes))\<rparr>)
      })"

text \<open>The function first clears the struct it fills.\<close>

definition zero_nontable_response :: Parsed_Nontable_Vcp_Response where
  "zero_nontable_response =
     \<lparr>vcp_code = 0, valid_response = False, supported_opcode = False,
      rmh = 0, rml = 0, rsh = 0, rsl = 0\<rparr>"

definition interpret_vcp_feature_response_std ::
    "byte list \<Rightarrow> nat \<Rightarrow> byte \<Rightarrow> (int \<times> Parsed_Nontable_Vcp_Response) option" where
  "interpret_vcp_feature_response_std vcp_data_bytes bytect requested_vcp_code =
     (if bytect \<noteq> 8 then Some (DDCRC_DDC_DATA, zero_nontable_response)
      else do {
        c_assert (8 \<le> length vcp_data_bytes);
        let result_code = vcp_data_bytes ! 1;
        let vcp_opcode = vcp_data_bytes ! 2;
        let parsed_response = zero_nontable_response\<lparr>vcp_code := vcp_opcode\<rparr>;
        (if vcp_opcode \<noteq> requested_vcp_code then Some (DDCRC_DDC_DATA, parsed_response)
         else if result_code \<noteq> 0 then
           (if result_code = 0x01 then Some (DDCRC_OK, parsed_response\<lparr>valid_response := True\<rparr>)
            else Some (DDCRC_DDC_DATA, parsed_response))
         else Some (DDCRC_OK,
           parsed_response\<lparr>valid_response := True, supported_opcode := True,
             rmh := vcp_data_bytes ! 4, rml := vcp_data_bytes ! 5,
             rsh := vcp_data_bytes ! 6, rsl := vcp_data_bytes ! 7\<rparr>))
      })"

definition create_ddc_typed_response_packet ::
    "byte list \<Rightarrow> byte \<Rightarrow> byte \<Rightarrow> string \<Rightarrow> (int \<times> DDC_Packet option) option" where
  "create_ddc_typed_response_packet resp expected_type expected_subtype tag = do {
     (rc, packet_opt) \<leftarrow> create_ddc_response_packet resp expected_type tag;
     (if rc \<noteq> 0 then Some (rc, None)
      else (case packet_opt of
        None \<Rightarrow> None
      | Some packet \<Rightarrow>
          if expected_type = DDC_PACKET_TYPE_CAPABILITIES_RESPONSE \<or>
             expected_type = DDC_PACKET_TYPE_TABLE_READ_RESPONSE
          then do {
            (rc, aux_data) \<leftarrow> interpret_multi_part_read_response expected_type
              (get_data_start packet) (get_data_len packet) empty_fragment;
            let packet = packet\<lparr>parsed := Multi_Part_Read_Fragment aux_data\<rparr>;
            Some (rc, if rc \<noteq> DDCRC_OK then None else Some packet)
          }
          else if expected_type = DDC_PACKET_TYPE_QUERY_VCP_RESPONSE
          then do {
            (rc, aux_data) \<leftarrow> interpret_vcp_feature_response_std
              (get_data_start packet) (get_data_len packet) expected_subtype;
            let packet = packet\<lparr>parsed := Nontable_Response aux_data\<rparr>;
            Some (rc, if rc \<noteq> DDCRC_OK then None else Some packet)
          }
          else Some (DDCRC_INTERNAL_ERROR, None)))
   }"

text \<open>
  The struct a Get VCP response packet carries. The union holds another struct only if
  the type byte and the parse disagree, which is the abnormal end.
\<close>

definition get_interpreted_vcp_code ::
    "DDC_Packet \<Rightarrow> (int \<times> Parsed_Nontable_Vcp_Response option) option" where
  "get_interpreted_vcp_code packet =
     (if pkt_type packet \<noteq> DDC_PACKET_TYPE_QUERY_VCP_RESPONSE then Some (DDCRC_DDC_DATA, None)
      else (case parsed packet of
        Nontable_Response r \<Rightarrow> Some (DDCRC_OK, Some r)
      | _ \<Rightarrow> None))"

section \<open>Request frames\<close>

lemma foldl_upt_nth:
  assumes "len \<le> length bs" and "1 \<le> len"
  shows "foldl (\<lambda>cs ndx. cs XOR bs ! ndx) a [1..<len] = a XOR xor_all (drop 1 (take len bs))"
proof -
  have "map ((!) bs) [1..<len] = drop 1 (take len bs)"
    using assms by (intro nth_equalityI) auto
  then have "drop 1 (take len bs) = map ((!) bs) [1..<len]" by simp
  then show ?thesis
    by (simp add: foldl_xor [symmetric] foldl_map)
qed

lemma ddc_checksum_eq:
  assumes "1 \<le> len" and "len \<le> length bs"
  shows "ddc_checksum bs len altmode =
    Some (if altmode then 0x50 XOR xor_all (drop 1 (take len bs)) else xor_all (take len bs))"
proof -
  from assms obtain c cs where bs: "bs = c # cs" by (cases bs) auto
  have "xor_all (take len bs) = bs ! 0 XOR xor_all (drop 1 (take len bs))"
    using assms by (cases len) (simp_all add: bs)
  with assms foldl_upt_nth [of len bs] show ?thesis
    by (simp add: ddc_checksum_def)
qed

text \<open>The bytes of a request packet, checksum included.\<close>

definition request_header :: "byte \<Rightarrow> nat \<Rightarrow> byte list" where
  "request_header source_addr n = [0x6e, source_addr, of_nat n OR 0x80]"

definition request_frame :: "byte \<Rightarrow> byte list \<Rightarrow> byte list" where
  "request_frame source_addr data =
     request_header source_addr (length data) @ data @
       [xor_all (request_header source_addr (length data) @ data)]"

lemma xor_all_request_frame: "xor_all (request_frame src data) = 0"
proof -
  have "xor_all (xs @ [xor_all xs]) = 0" for xs by simp
  then show ?thesis by (metis request_frame_def append_assoc)
qed

definition request_packet :: "byte \<Rightarrow> byte list \<Rightarrow> string \<Rightarrow> DDC_Packet" where
  "request_packet source_addr data tag =
     \<lparr>raw_bytes = filled (request_frame source_addr data) 16 (length data + 4) (length data + 4),
      pkt_tag = take MAX_DDC_TAG tag,
      pkt_type = (if data = [] then 0 else data ! 0),
      parsed = Not_Parsed\<rparr>"

lemma base_request_eq:
  assumes n: "length data \<le> 32"
  shows "create_ddc_base_request_packet src data tag = Some (request_packet src data tag)"
proof -
  let ?n = "length data" and ?hd = "request_header src (length data)"
  let ?chk = "xor_all (?hd @ data)"
  note w = filled_write [where sz = "?n + 4" and l = 0]
  have w1: "buffer_set_bytes (filled [] (?n + 20) (?n + 4) 0) 0 [0x6e]
            = Some (filled [0x6e] (?n + 19) (?n + 4) 0)"
    by (subst w) (simp_all add: add.commute)
  have w2: "buffer_set_bytes (filled [0x6e] (?n + 19) (?n + 4) 0) 1 [src]
            = Some (filled [0x6e, src] (?n + 18) (?n + 4) 0)"
    by (subst w) (simp_all add: add.commute)
  have w3: "buffer_set_bytes (filled [0x6e, src] (?n + 18) (?n + 4) 0) 2 [of_nat ?n OR 0x80]
            = Some (filled ?hd (?n + 17) (?n + 4) 0)"
    by (subst w) (simp_all add: request_header_def add.commute)
  have w4: "buffer_set_bytes (filled ?hd (?n + 17) (?n + 4) 0) 3 data
            = Some (filled (?hd @ data) 17 (?n + 4) 0)"
    by (subst w) (simp_all add: request_header_def)
  have w5: "buffer_set_bytes (filled (?hd @ data) 17 (?n + 4) 0) (3 + ?n) [?chk]
            = Some (filled (?hd @ data @ [?chk]) 16 (?n + 4) 0)"
    by (subst w) (simp_all add: request_header_def)
  have c: "ddc_checksum (buf_bytes (filled (?hd @ data) 17 (?n + 4) 0)) (3 + ?n) False = Some ?chk"
    by (subst ddc_checksum_eq) (simp_all add: request_header_def numeral_3_eq_3)
  have new: "buffer_new (3 + ?n + 1) = filled [] (?n + 20) (?n + 4) 0"
    by (simp add: filled_new add.commute)
  have ty: "(if ?n > 0 then data ! 0 else 0) = (if data = [] then 0 else data ! 0)"
    by simp
  have fin: "buffer_set_length (filled (?hd @ data @ [?chk]) 16 (?n + 4) 0) (3 + ?n + 1)
             = Some (filled (request_frame src data) 16 (?n + 4) (?n + 4))"
    by (subst filled_set_length) (simp_all add: request_frame_def add.commute)
  show ?thesis
    unfolding create_ddc_base_request_packet_def Let_def create_empty_ddc_packet_def
      buffer_set_byte_eq DDC_Packet.simps new request_packet_def ty
    by (simp only: n c_assert_simps w1 w2 w3 w4 c w5 fin Option.bind.simps DDC_Packet.simps)
qed

section \<open>Response frames\<close>

text \<open>The packet made of a response whose length byte announces \<open>n\<close> bytes of data.\<close>

definition response_len :: "byte list \<Rightarrow> nat" where
  "response_len resp = unat (resp ! 1) mod 128"

definition response_ok :: "byte list \<Rightarrow> bool" where
  "response_ok resp \<longleftrightarrow> resp ! 0 = 0x6e \<and> response_len resp \<le> MAX_DDC_DATA_SIZE \<and>
     xor_all (take (response_len resp + 3) resp) = 0x50"

definition response_packet :: "byte list \<Rightarrow> string \<Rightarrow> DDC_Packet" where
  "response_packet resp tag =
     (let n = response_len resp in
      \<lparr>raw_bytes = filled (0x6f # take (n + 3) resp) 16 (n + 4) (n + 4),
       pkt_tag = take MAX_DDC_TAG tag,
       pkt_type = (if n > 0 then resp ! 2 else 0),
       parsed = Not_Parsed\<rparr>)"

lemma xor_eq_iff: "(a XOR b = (c :: byte)) \<longleftrightarrow> a = b XOR c"
  by (metis xor.assoc xor.commute xor.left_neutral xor_self_eq)

lemma base_response_eq:
  assumes len: "38 \<le> length resp"
  shows "create_ddc_base_response_packet resp tag =
    Some (if response_ok resp then (DDCRC_OK, Some (response_packet resp tag))
          else (DDCRC_DDC_DATA, None))"
proof -
  let ?n = "response_len resp"
  have nonempty: "resp \<noteq> []" "Suc 0 < length resp" using len by auto
  consider (first) "resp ! 0 \<noteq> 0x6e" | (long) "resp ! 0 = 0x6e" "\<not> ?n \<le> 35"
    | (fits) "resp ! 0 = 0x6e" "?n \<le> 35" by blast
  then show ?thesis
  proof cases
    case first
    then show ?thesis
      using nonempty by (simp add: create_ddc_base_response_packet_def response_ok_def c_assert_def)
  next
    case long
    then show ?thesis
      using nonempty by (simp add: create_ddc_base_response_packet_def response_ok_def c_assert_def
        is_double_byte_def response_len_def byte_simps)
  next
    case fits
    define tl where "tl = take (?n + 2) (drop 1 resp)"
    have tl: "length tl = ?n + 2" using len fits by (simp add: tl_def)
    have frame: "take (?n + 3) resp = 0x6e # tl"
      using len fits by (cases resp) (simp_all add: tl_def numeral_3_eq_3)
    note w = filled_write [where sz = "?n + 4" and l = 0]
    have w1: "buffer_set_bytes (filled [] (?n + 20) (?n + 4) 0) 0 [0x6f]
              = Some (filled [0x6f] (?n + 19) (?n + 4) 0)"
      by (subst w) (simp_all add: add.commute)
    have w2: "buffer_set_bytes (filled [0x6f] (?n + 19) (?n + 4) 0) 1 [0x6e]
              = Some (filled [0x6f, 0x6e] (?n + 18) (?n + 4) 0)"
      by (subst w) (simp_all add: add.commute)
    have w3: "buffer_set_bytes (filled [0x6f, 0x6e] (?n + 18) (?n + 4) 0) 2 tl
              = Some (filled (0x6f # 0x6e # tl) 16 (?n + 4) 0)"
      by (subst w) (simp_all add: tl)
    have fin: "buffer_set_length (filled (0x6f # 0x6e # tl) 16 (?n + 4) 0) (3 + ?n + 1)
              = Some (filled (0x6f # 0x6e # tl) 16 (?n + 4) (?n + 4))"
      by (subst filled_set_length) (simp_all add: frame add.commute)
    have tl_split: "tl = take (Suc ?n) tl @ [tl ! Suc ?n]"
      using tl by (metis add_2_eq_Suc' lessI take_Suc_nth take_all order_refl)
    have c: "ddc_checksum (buf_bytes (filled (0x6f # 0x6e # tl) 16 (?n + 4) (?n + 4))) (3 + ?n) True
              = Some (0x50 XOR xor_all (0x6e # take (Suc ?n) tl))"
      by (subst ddc_checksum_eq) (simp_all add: frame tl numeral_3_eq_3)
    have act: "buf_bytes (filled (0x6f # 0x6e # tl) 16 (?n + 4) (?n + 4)) ! (3 + ?n) = tl ! Suc ?n"
      by (simp add: frame tl numeral_3_eq_3 nth_append)
    have "xor_all (0x6e # tl) = xor_all (0x6e # take (Suc ?n) tl) XOR tl ! Suc ?n"
      by (subst tl_split) (simp add: xor.assoc)
    then have chk: "0x50 XOR xor_all (0x6e # take (Suc ?n) tl) = tl ! Suc ?n \<longleftrightarrow>
               xor_all (take (?n + 3) resp) = 0x50"
      unfolding frame by (metis xor_eq_iff xor.commute)
    have n: "unat (resp ! 1 AND 0x7f) = ?n"
      by (simp add: byte_simps response_len_def)
    have new: "buffer_new (3 + ?n + 1) = filled [] (?n + 20) (?n + 4) 0"
      by (simp add: filled_new add.commute)
    have tk: "take (1 + ?n + 1) (drop 1 resp) = tl" by (simp add: tl_def)
    have bnds: "0 < length resp" "1 < length resp" "1 + (1 + ?n + 1) \<le> length resp"
      "\<not> 35 < ?n" using len fits nonempty by simp_all
    have "create_ddc_base_response_packet resp tag =
      (if 0x50 XOR xor_all (0x6e # take (Suc ?n) tl) \<noteq> tl ! Suc ?n then Some (DDCRC_DDC_DATA, None)
       else Some (DDCRC_OK, Some (response_packet resp tag)))"
      unfolding create_ddc_base_response_packet_def Let_def create_empty_ddc_packet_def
        buffer_set_byte_eq DDC_Packet.simps new response_packet_def n tk frame
      by (simp only: bnds fits c_assert_simps w1 w2 w3 c fin act Option.bind.simps DDC_Packet.simps
          if_False simp_thms)
    then show ?thesis unfolding chk using fits by (simp add: response_ok_def)
  qed
qed

lemma response_packet_data:
  assumes "length resp \<ge> 38" and "response_len resp \<le> 35"
  shows "get_data_len (response_packet resp tag) = response_len resp"
    and "get_data_start (response_packet resp tag) =
         take (response_len resp + 1) (drop 2 resp) @ replicate 16 0"
    and "i \<le> response_len resp \<Longrightarrow> get_data_start (response_packet resp tag) ! i = resp ! (i + 2)"
proof -
  let ?n = "response_len resp"
  obtain a b r where r: "resp = a # b # r"
    using assms(1) by (cases resp; cases "tl resp") auto
  show st: "get_data_start (response_packet resp tag) = take (?n + 1) (drop 2 resp) @ replicate 16 0"
    by (simp add: response_packet_def get_data_start_def Let_def r numeral_3_eq_3)
  show "get_data_len (response_packet resp tag) = ?n"
    by (simp add: response_packet_def get_data_len_def Let_def filled_def)
  show "i \<le> ?n \<Longrightarrow> get_data_start (response_packet resp tag) ! i = resp ! (i + 2)"
    using assms unfolding st by (simp add: nth_append add.commute)
qed

definition fragment_of :: "byte list \<Rightarrow> Interpreted_Multi_Part_Read_Fragment" where
  "fragment_of resp =
     (let n = response_len resp; data = take (n - 3) (drop 5 resp) in
      \<lparr>fragment_type = resp ! 2, fragment_offset = hi_lo (resp ! 3) (resp ! 4),
       fragment_length = n - 3, fragment_bytes = data @ replicate (33 - (n - 3)) 0\<rparr>)"

definition nontable_of :: "byte list \<Rightarrow> Parsed_Nontable_Vcp_Response" where
  "nontable_of resp =
     (if resp ! 3 = 0
      then \<lparr>vcp_code = resp ! 4, valid_response = True, supported_opcode = True,
            rmh = resp ! 6, rml = resp ! 7, rsh = resp ! 8, rsl = resp ! 9\<rparr>
      else \<lparr>vcp_code = resp ! 4, valid_response = True, supported_opcode = False,
            rmh = 0, rml = 0, rsh = 0, rsl = 0\<rparr>)"

text \<open>What the typed parse promises, read off the bytes.\<close>

definition multi_part_response_ok :: "byte list \<Rightarrow> byte \<Rightarrow> bool" where
  "multi_part_response_ok resp ty \<longleftrightarrow> response_ok resp \<and> 3 \<le> response_len resp \<and> resp ! 2 = ty"

definition vcp_response_ok :: "byte list \<Rightarrow> byte \<Rightarrow> bool" where
  "vcp_response_ok resp opcode \<longleftrightarrow> response_ok resp \<and> response_len resp = 8 \<and>
     resp ! 2 = DDC_PACKET_TYPE_QUERY_VCP_RESPONSE \<and> resp ! 4 = opcode \<and>
     (resp ! 3 = 0 \<or> resp ! 3 = 1)"

definition is_multi_part_type :: "byte \<Rightarrow> bool" where
  "is_multi_part_type ty \<longleftrightarrow> ty = DDC_PACKET_TYPE_CAPABILITIES_RESPONSE \<or>
                            ty = DDC_PACKET_TYPE_TABLE_READ_RESPONSE"

definition typed_response_spec ::
    "byte list \<Rightarrow> byte \<Rightarrow> byte \<Rightarrow> string \<Rightarrow> int \<times> DDC_Packet option" where
  "typed_response_spec resp ty opcode tag =
     (if response_ok resp \<and> response_len resp = 0 then (DDCRC_NULL_RESPONSE, None)
      else if is_multi_part_type ty \<and> multi_part_response_ok resp ty
      then (DDCRC_OK, Some ((response_packet resp tag)
              \<lparr>parsed := Multi_Part_Read_Fragment (fragment_of resp)\<rparr>))
      else if ty = DDC_PACKET_TYPE_QUERY_VCP_RESPONSE \<and> vcp_response_ok resp opcode
      then (DDCRC_OK, Some ((response_packet resp tag)\<lparr>parsed := Nontable_Response (nontable_of resp)\<rparr>))
      else (DDCRC_DDC_DATA, None))"

lemma response_packet_eq:
  assumes len: "38 \<le> length (skip_double_6e resp)" and r: "r = skip_double_6e resp"
  shows "create_ddc_response_packet resp ty tag =
    Some (if \<not> response_ok r then (DDCRC_DDC_DATA, None)
          else if response_len r = 0 then (DDCRC_NULL_RESPONSE, None)
          else if r ! 2 \<noteq> ty then (DDCRC_DDC_DATA, None)
          else (DDCRC_OK, Some (response_packet r tag)))"
proof (cases "response_ok r")
  case True
  then have "response_len r \<le> 35" by (simp add: response_ok_def)
  with True show ?thesis
    using len r base_response_eq [OF len, of tag]
      response_packet_data(1) [of r tag] response_packet_data(3) [of r 0 tag]
    by (simp add: create_ddc_response_packet_def isNullPacket_def numeral_2_eq_2)
next
  case False
  with len r base_response_eq [OF len, of tag] show ?thesis
    by (simp add: create_ddc_response_packet_def)
qed

lemma interpret_fragment_eq:
  assumes len: "38 \<le> length r" and ok: "response_ok r"
  shows "interpret_multi_part_read_response (r ! 2) (get_data_start (response_packet r tag))
           (get_data_len (response_packet r tag)) empty_fragment =
         Some (if response_len r < 3 then (DDCRC_DDC_DATA, empty_fragment)
               else (DDCRC_OK, fragment_of r))"
proof -
  have n: "response_len r \<le> 35" using ok by (simp add: response_ok_def)
  note d = response_packet_data [OF len n, where tag = tag]
  let ?n = "response_len r"
  have bs: "take (?n - 3) (drop 3 (take (?n + 1) (drop 2 r) @ replicate 16 0))
            = take (?n - 3) (drop 5 r)" if "3 \<le> ?n"
    using that len n by (simp add: drop_take min_def, arith)
  have i: "get_data_start (response_packet r tag) ! 0 = r ! 2"
    "3 \<le> ?n \<Longrightarrow> get_data_start (response_packet r tag) ! 1 = r ! 3"
    "3 \<le> ?n \<Longrightarrow> get_data_start (response_packet r tag) ! 2 = r ! 4"
    by (simp_all add: d(3) numeral_eq_Suc)
  have l: "?n \<le> length (get_data_start (response_packet r tag))"
    using len n by (simp add: d(2))
  have ln: "length (take (?n - 3) (drop 5 r)) = ?n - 3" using len n by simp
  show ?thesis
  proof (cases "?n < 3")
    case True
    then show ?thesis by (simp add: interpret_multi_part_read_response_def d(1))
  next
    case False
    then have "3 \<le> ?n" by simp
    note i' = i(1) i(2,3) [OF this] and bs' = bs [OF this]
    show ?thesis
      using False n l ln unfolding interpret_multi_part_read_response_def d(1) i' Let_def
      unfolding d(2) bs'
      by (simp add: fragment_of_def Let_def empty_fragment_def mem_write_def c_assert_def)
  qed
qed

lemma interpret_vcp_eq:
  assumes len: "38 \<le> length r" and ok: "response_ok r"
  shows "\<exists>aux. interpret_vcp_feature_response_std (get_data_start (response_packet r tag))
           (get_data_len (response_packet r tag)) opcode =
         Some (if response_len r = 8 \<and> r ! 4 = opcode \<and> (r ! 3 = 0 \<or> r ! 3 = 1)
               then (DDCRC_OK, nontable_of r) else (DDCRC_DDC_DATA, aux))"
proof -
  have n: "response_len r \<le> 35" using ok by (simp add: response_ok_def)
  note d = response_packet_data [OF len n, where tag = tag]
  show ?thesis
  proof (cases "response_len r = 8")
    case True
    have i: "get_data_start (response_packet r tag) ! k = r ! (k + 2)" if "k < 8" for k
      using that True by (simp add: d(3))
    have l: "8 \<le> length (get_data_start (response_packet r tag))"
      using len True by (simp add: d(2))
    show ?thesis
      using l by (auto simp: interpret_vcp_feature_response_std_def d(1) True nontable_of_def
          zero_nontable_response_def Let_def i [of 1, simplified] i [of 2, simplified]
          i [of 4, simplified] i [of 5, simplified] i [of 6, simplified] i [of 7, simplified]
          numeral_3_eq_3)
  next
    case False
    then show ?thesis by (simp add: interpret_vcp_feature_response_std_def d(1))
  qed
qed

lemma typed_response_eq:
  assumes len: "39 \<le> length resp"
    and ty: "is_multi_part_type ty \<or> ty = DDC_PACKET_TYPE_QUERY_VCP_RESPONSE"
  shows "create_ddc_typed_response_packet resp ty opcode tag =
         Some (typed_response_spec (skip_double_6e resp) ty opcode tag)"
proof -
  define r where "r = skip_double_6e resp"
  have lr: "38 \<le> length r" using len by (auto simp: r_def skip_double_6e_def)
  note resp = response_packet_eq [OF lr [unfolded r_def] refl, of ty tag, folded r_def]
  show ?thesis
  proof (cases "response_ok r \<and> response_len r \<noteq> 0 \<and> r ! 2 = ty")
    case False
    then show ?thesis
      by (auto simp: create_ddc_typed_response_packet_def resp typed_response_spec_def
          multi_part_response_ok_def vcp_response_ok_def r_def [symmetric])
  next
    case True
    then have base: "create_ddc_response_packet resp ty tag = Some (DDCRC_OK, Some (response_packet r tag))"
      by (simp add: resp)
    note frag = interpret_fragment_eq [OF lr, of tag]
    obtain aux where vcp: "interpret_vcp_feature_response_std (get_data_start (response_packet r tag))
           (get_data_len (response_packet r tag)) opcode =
         Some (if response_len r = 8 \<and> r ! 4 = opcode \<and> (r ! 3 = 0 \<or> r ! 3 = 1)
               then (DDCRC_OK, nontable_of r) else (DDCRC_DDC_DATA, aux))"
      using interpret_vcp_eq [OF lr, of tag opcode] True by blast
    show ?thesis
    proof (cases "is_multi_part_type ty")
      case True
      then show ?thesis
        using \<open>response_ok r \<and> response_len r \<noteq> 0 \<and> r ! 2 = ty\<close> frag base
        by (auto simp: create_ddc_typed_response_packet_def typed_response_spec_def
          multi_part_response_ok_def is_multi_part_type_def r_def [symmetric])
    next
      case False
      then have "ty = DDC_PACKET_TYPE_QUERY_VCP_RESPONSE" using ty by simp
      then show ?thesis
        using \<open>response_ok r \<and> response_len r \<noteq> 0 \<and> r ! 2 = ty\<close> False vcp base
        by (simp add: create_ddc_typed_response_packet_def typed_response_spec_def
          vcp_response_ok_def is_multi_part_type_def r_def [symmetric])
    qed
  qed
qed


lemma request_packet_contents: "contents (raw_bytes (request_packet src data tag)) = request_frame src data"
proof -
  have "length (request_frame src data) = length data + 4"
    by (simp add: request_frame_def request_header_def)
  then show ?thesis by (simp add: request_packet_def contents_def filled_def)
qed

text \<open>C4 (base_request_frame): a request packet is built exactly when there are at most 32 bytes of data; its bytes are 6e, the source address, the length or-ed with 80, the data and a checksum, and the exclusive or of all of them is 0.\<close>

theorem base_request_frame:
  "create_ddc_base_request_packet src data tag =
     (if length data \<le> 32 then Some (request_packet src data tag) else None) \<and>
   contents (raw_bytes (request_packet src data tag)) =
     [0x6e, src, of_nat (length data) OR 0x80] @ data @
     [xor_all ([0x6e, src, of_nat (length data) OR 0x80] @ data)] \<and>
   xor_all (contents (raw_bytes (request_packet src data tag))) = 0"
proof -
  have "create_ddc_base_request_packet src data tag = None" if "\<not> length data \<le> 32"
    using that by (simp add: create_ddc_base_request_packet_def c_assert_def)
  then show ?thesis
    using base_request_eq [of data src tag] xor_all_request_frame [of src data]
    unfolding request_packet_contents by (auto simp: request_frame_def request_header_def)
qed

text \<open>A Set VCP request carries opcode 03, the feature code and the two bytes of the new value, high byte first, so that the display decodes the value that was asked for.\<close>

theorem setvcp_request_frame:
  assumes "new_value < 65536"
  shows "\<exists>p hi lo. create_ddc_setvcp_request_packet alt code new_value tag = Some p \<and>
    contents (raw_bytes p) = request_frame (if alt \<noteq> 0 then alt else 0x51) [0x03, code, hi, lo] \<and>
    pkt_type p = DDC_PACKET_TYPE_SET_VCP_REQUEST \<and> hi_lo hi lo = new_value"
  unfolding create_ddc_setvcp_request_packet_def
  by (subst base_request_eq; simp add: request_packet_contents; simp add: request_packet_def)
    (metis assms hi_lo_split)

theorem setvcp_request_frame_witness:
  "\<exists>p hi lo. create_ddc_setvcp_request_packet 0 0x10 300 ''set'' = Some p \<and>
    contents (raw_bytes p) = request_frame (if (0 :: byte) \<noteq> 0 then 0 else 0x51) [0x03, 0x10, hi, lo] \<and>
    pkt_type p = DDC_PACKET_TYPE_SET_VCP_REQUEST \<and> hi_lo hi lo = 300"
  by (rule setvcp_request_frame) simp

text \<open>Rewriting the offset of a read request.\<close>

definition read_request_data :: "byte \<Rightarrow> byte \<Rightarrow> byte \<Rightarrow> byte \<Rightarrow> byte list" where
  "read_request_data ty sub hi lo =
     (if ty = DDC_PACKET_TYPE_CAPABILITIES_REQUEST then [ty, hi, lo] else [ty, sub, hi, lo])"

definition is_read_request_type :: "byte \<Rightarrow> bool" where
  "is_read_request_type ty \<longleftrightarrow> ty = DDC_PACKET_TYPE_CAPABILITIES_REQUEST \<or>
                               ty = DDC_PACKET_TYPE_TABLE_READ_REQUEST"

lemma create_read_request_eq:
  "is_read_request_type ty \<Longrightarrow>
   create_ddc_multi_part_read_request_packet ty sub off tag =
   Some (request_packet 0x51 (read_request_data ty sub (byte_of_shr16 off) (byte_of off)) tag)"
  by (auto simp: create_ddc_multi_part_read_request_packet_def is_read_request_type_def
      read_request_data_def base_request_eq)


lemma filled_overwrite:
  "off = length a \<Longrightarrow> length ys = length b \<Longrightarrow>
   buf_memcpy (filled (a @ b @ c) k sz l) off ys = Some (filled (a @ ys @ c) k sz l)"
  by (simp add: filled_def buf_memcpy_def mem_write_prefix)

lemma update_frame:
  assumes "length pre = pos"
  shows "do {
      buf \<leftarrow> buf_memcpy (filled (pre @ [h0, l0, c0]) 16 sz (pos + 3)) pos [h];
      buf \<leftarrow> buf_memcpy buf (pos + 1) [l];
      checksum \<leftarrow> ddc_checksum (buf_bytes buf) (pos + 2) False;
      buf \<leftarrow> buf_memcpy buf (pos + 2) [checksum];
      Some (p\<lparr>raw_bytes := buf\<rparr>)
    } = Some (p\<lparr>raw_bytes := filled (pre @ [h, l, xor_all (pre @ [h, l])]) 16 sz (pos + 3)\<rparr>)"
proof -
  have 1: "buf_memcpy (filled (pre @ [h0, l0, c0]) 16 sz (pos + 3)) pos [h]
         = Some (filled (pre @ [h, l0, c0]) 16 sz (pos + 3))"
    using filled_overwrite [of pos pre "[h]" "[h0]" "[l0, c0]"] assms by simp
  have 2: "buf_memcpy (filled (pre @ [h, l0, c0]) 16 sz (pos + 3)) (pos + 1) [l]
         = Some (filled (pre @ [h, l, c0]) 16 sz (pos + 3))"
    using filled_overwrite [of "pos + 1" "pre @ [h]" "[l]" "[l0]" "[c0]"] assms by simp
  have 3: "ddc_checksum (buf_bytes (filled (pre @ [h, l, c0]) 16 sz (pos + 3))) (pos + 2) False
         = Some (xor_all (pre @ [h, l]))"
    using assms by (subst ddc_checksum_eq) simp_all
  have 4: "buf_memcpy (filled (pre @ [h, l, c0]) 16 sz (pos + 3)) (pos + 2) [x]
         = Some (filled (pre @ [h, l, x]) 16 sz (pos + 3))" for x
    using filled_overwrite [of "pos + 2" "pre @ [h, l]" "[x]" "[c0]" "[]"] assms by simp
  show ?thesis
    by (simp only: 1 2 3 4 Option.bind.simps)
qed

lemma request_packet_split:
  assumes "dd \<noteq> []"
  shows "request_packet src (dd @ [h, l]) tag =
    \<lparr>raw_bytes = filled ((request_header src (length dd + 2) @ dd) @
        [h, l, xor_all ((request_header src (length dd + 2) @ dd) @ [h, l])]) 16
        (length dd + 6) (length dd + 3 + 3),
     pkt_tag = take MAX_DDC_TAG tag, pkt_type = dd ! 0, parsed = Not_Parsed\<rparr>"
  using assms
  by (simp del: xor_all_append xor_all.simps add: request_packet_def request_frame_def nth_append add.commute)

lemma update_read_request_eq:
  assumes ty: "is_read_request_type ty"
  shows "update_ddc_multi_part_read_request_packet_offset
           (request_packet 0x51 (read_request_data ty sub hi lo) tag) off =
         Some (request_packet 0x51 (read_request_data ty sub (byte_of_shr8 off) (byte_of off)) tag)"
proof -
  obtain dd where dd: "\<And>h l. read_request_data ty sub h l = dd @ [h, l]" and ne: "dd \<noteq> []"
    and ty': "dd ! 0 = ty"
    and pos: "(if ty = DDC_PACKET_TYPE_CAPABILITIES_REQUEST then 3 + 1 else 3 + 2) = length dd + 3"
    by (cases "ty = DDC_PACKET_TYPE_CAPABILITIES_REQUEST")
       (auto simp: read_request_data_def intro: that [of "[ty]"] that [of "[ty, sub]"])
  note pk = request_packet_split [OF ne]
  have len: "length (request_header 0x51 (length dd + 2) @ dd) = length dd + 3"
    by (simp add: request_header_def)
  have pl: "get_packet_len (request_packet 0x51 (dd @ [hi, lo]) tag) - 1 = length dd + 3 + 2"
    unfolding pk by (simp add: get_packet_len_def filled_def)
  have pt: "pkt_type (request_packet 0x51 (dd @ [hi, lo]) tag) = ty"
    unfolding pk by (simp add: ty')
  have a: "c_assert (ty = DDC_PACKET_TYPE_CAPABILITIES_REQUEST \<or> ty = DDC_PACKET_TYPE_TABLE_READ_REQUEST)
           = Some ()"
    using ty by (simp add: is_read_request_type_def c_assert_def)
  have rb: "raw_bytes (request_packet 0x51 (dd @ [hi, lo]) tag) =
    filled ((request_header 0x51 (length dd + 2) @ dd) @ [hi, lo,
      xor_all ((request_header 0x51 (length dd + 2) @ dd) @ [hi, lo])]) 16 (length dd + 6) (length dd + 3 + 3)"
    unfolding pk by simp
  have up: "request_packet 0x51 (dd @ [hi, lo]) tag\<lparr>raw_bytes := filled
      ((request_header 0x51 (length dd + 2) @ dd) @ [h, l,
       xor_all ((request_header 0x51 (length dd + 2) @ dd) @ [h, l])]) 16 (length dd + 6) (length dd + 3 + 3)\<rparr>
    = request_packet 0x51 (dd @ [h, l]) tag" for h l
    unfolding pk by simp
  show ?thesis
    unfolding dd update_ddc_multi_part_read_request_packet_offset_def Let_def pt pos pl
    unfolding a Option.bind.simps rb update_frame [OF len] up ..
qed

text \<open>The exact effect, for an offset of two bytes.\<close>

text \<open>Setting a new offset in a multi-part read request gives the request for that offset: the two offset bytes decode to it, every other byte is kept and the checksum is again valid.\<close>

theorem update_offset_spec:
  assumes "is_read_request_type ty" and "new_offset < 65536"
    and "create_ddc_multi_part_read_request_packet ty sub off0 tag = Some p"
  shows "\<exists>p' hi lo. update_ddc_multi_part_read_request_packet_offset p new_offset = Some p' \<and>
    contents (raw_bytes p') = request_frame 0x51 (read_request_data ty sub hi lo) \<and>
    hi_lo hi lo = new_offset \<and> pkt_type p' = ty"
proof -
  have p: "p = request_packet 0x51 (read_request_data ty sub (byte_of_shr16 off0) (byte_of off0)) tag"
    using assms(3) by (simp add: create_read_request_eq [OF assms(1)])
  let ?p' = "request_packet 0x51 (read_request_data ty sub (byte_of_shr8 new_offset) (byte_of new_offset)) tag"
  have "pkt_type ?p' = ty" by (simp add: request_packet_def read_request_data_def)
  then show ?thesis
    unfolding p update_read_request_eq [OF assms(1)]
    using hi_lo_split [OF assms(2)] request_packet_contents by blast
qed

theorem update_offset_spec_witness:
  "\<exists>p' hi lo. update_ddc_multi_part_read_request_packet_offset
      (request_packet 0x51 (read_request_data 0xe2 0x73 0 0) ''t'') 1000 = Some p' \<and>
    contents (raw_bytes p') = request_frame 0x51 (read_request_data 0xe2 0x73 hi lo) \<and>
    hi_lo hi lo = 1000 \<and> pkt_type p' = 0xe2"
  by (rule update_offset_spec [of _ _ _ 0])
     (simp_all add: is_read_request_type_def create_read_request_eq byte_of_shr16_def byte_of_def)

text \<open>Table writes.\<close>

text \<open>A table write request takes the high offset byte from bits 16 to 23, so for 16 bit offsets the packet depends on the low byte of the offset only: writing at 256 sends the packet for 0.\<close>

theorem table_write_offset_high_byte_lost:
  assumes "off < 65536"
  shows "create_ddc_multi_part_write_request_packet ty sub off bs tag =
         create_ddc_multi_part_write_request_packet ty sub (off mod 256) bs tag"
  using assms
  by (simp add: create_ddc_multi_part_write_request_packet_def byte_of_shr16_def byte_of_def)

theorem table_write_offset_high_byte_lost_witness:
  "create_ddc_multi_part_write_request_packet 0xe7 0x73 256 [1, 2] ''w'' =
   create_ddc_multi_part_write_request_packet 0xe7 0x73 (256 mod 256) [1, 2] ''w''"
  by (rule table_write_offset_high_byte_lost) simp

text \<open>Building a table write request stops at an assertion for more than 28 bytes, although its own assertion admits 31.\<close>

theorem table_write_abnormal_end:
  "create_ddc_multi_part_write_request_packet DDC_PACKET_TYPE_TABLE_WRITE_REQUEST sub off bs tag = None
   \<longleftrightarrow> length bs > 28"
proof -
  have "create_ddc_multi_part_write_request_packet DDC_PACKET_TYPE_TABLE_WRITE_REQUEST sub off bs tag = None
    \<longleftrightarrow> \<not> length bs + 4 \<le> 35 \<or> \<not> length bs + 4 \<le> 32"
    using base_request_frame [where src = "0x51" and tag = tag and data =
      "[DDC_PACKET_TYPE_TABLE_WRITE_REQUEST, sub, byte_of_shr16 off, byte_of off] @ bs"]
    by (simp add: create_ddc_multi_part_write_request_packet_def c_assert_def Let_def)
  then show ?thesis by auto
qed

section \<open>Responses: round trip and error detection\<close>

text \<open>The bytes a display sends for \<open>data\<close>.\<close>

definition response_frame :: "byte list \<Rightarrow> byte list" where
  "response_frame data = [0x6e, of_nat (length data) OR 0x80] @ data @
     [0x50 XOR xor_all ([0x6e, of_nat (length data) OR 0x80] @ data)]"

lemma or_80: "n < 128 \<Longrightarrow> unat (of_nat n OR 0x80 :: byte) mod 128 = n"
proof -
  assume n: "n < 128"
  have "unat ((of_nat n OR 0x80 :: byte) AND 0x7f) = n"
  proof -
    have "(of_nat n OR 0x80 :: byte) AND 0x7f = (of_nat n AND 0x7f) OR (0x80 AND 0x7f)"
      by (rule bit.conj_disj_distrib2)
    also have "(0x80 AND 0x7f :: byte) = 0" by simp
    finally show ?thesis
      using n unat_and_7f [of "of_nat n"] by (simp add: unat_of_nat_byte)
  qed
  then show ?thesis by (simp only: unat_and_7f)
qed

lemma response_frame_ok:
  assumes "length data \<le> 35"
  shows "response_ok (response_frame data @ pad)" and "response_len (response_frame data @ pad) = length data"
proof -
  show len: "response_len (response_frame data @ pad) = length data"
    using assms by (simp add: response_len_def response_frame_def or_80)
  have tk: "take (length data + 3) (response_frame data @ pad) = response_frame data"
    by (simp add: response_frame_def numeral_3_eq_3)
  have "xor_all (xs @ [0x50 XOR xor_all xs]) = 0x50" for xs
    by simp (metis xor.left_commute xor.right_neutral xor_self_eq)
  then have x: "xor_all (response_frame data) = 0x50"
    unfolding response_frame_def append_assoc [symmetric] .
  show "response_ok (response_frame data @ pad)"
    unfolding response_ok_def len tk x using assms by (simp add: response_frame_def)
qed

lemma response_len_lt: "response_ok resp \<Longrightarrow> resp ! 1 \<noteq> 0x6e"
  by (auto simp: response_ok_def response_len_def)

lemma skip_double_6e_id: "response_ok resp \<Longrightarrow> skip_double_6e resp = resp"
  by (auto simp: skip_double_6e_def response_ok_def response_len_def)

lemma skip_double_6e_dup: "response_ok resp \<Longrightarrow> length resp \<ge> 2 \<Longrightarrow> skip_double_6e (0x6e # resp) = resp"
  by (cases resp) (auto simp: skip_double_6e_def response_ok_def)

lemma xor_all_update:
  "i < length bs \<Longrightarrow> xor_all (bs[i := v]) = xor_all bs XOR bs ! i XOR v"
proof (induction bs arbitrary: i)
  case (Cons b bs)
  show ?case
  proof (cases i)
    case 0
    have "v XOR x = (b XOR x) XOR b XOR v" for x
      by (rule bit_eqI) (auto simp: bit_xor_iff)
    then show ?thesis by (simp add: 0)
  next
    case (Suc j)
    with Cons show ?thesis by (simp add: xor.assoc)
  qed
qed simp

text \<open>C3 (response_corruption_detected): if one byte of the data or the checksum of a valid response is changed, the response is rejected with DDCRC_DDC_DATA.\<close>

theorem response_corruption_detected:
  assumes len: "39 \<le> length resp" and ok: "response_ok resp"
    and i: "2 \<le> i" "i < response_len resp + 3" and v: "v \<noteq> resp ! i"
  shows "create_ddc_base_response_packet (resp[i := v]) tag = Some (DDCRC_DDC_DATA, None)"
proof -
  let ?n = "response_len resp"
  have n: "?n \<le> 35" using ok by (simp add: response_ok_def)
  have ln: "response_len (resp[i := v]) = ?n" using i by (simp add: response_len_def)
  have "take (?n + 3) (resp[i := v]) = (take (?n + 3) resp)[i := v]"
    by (simp add: take_update_swap)
  moreover have "xor_all ((take (?n + 3) resp)[i := v]) = xor_all (take (?n + 3) resp) XOR resp ! i XOR v"
    using i len n by (subst xor_all_update) auto
  moreover have "x XOR resp ! i XOR v \<noteq> x" for x
  proof
    assume "x XOR resp ! i XOR v = x"
    then have "x XOR (x XOR (resp ! i XOR v)) = 0" by (simp add: xor.assoc)
    then have "resp ! i XOR v = 0" by (simp flip: xor.assoc)
    with v show False by (metis xor_eq_iff xor.right_neutral)
  qed
  ultimately have "xor_all (take (?n + 3) (resp[i := v])) \<noteq> xor_all (take (?n + 3) resp)"
    by metis
  then have "\<not> response_ok (resp[i := v])"
    using ok unfolding response_ok_def ln by simp
  then show ?thesis using base_response_eq [of "resp[i := v]" tag] len by simp
qed

theorem response_corruption_detected_witness:
  "create_ddc_base_response_packet
     ((response_frame [0x02, 0, 0x10, 0, 0, 100, 0, 50] @ replicate 30 0)[9 := 51]) ''r''
   = Some (DDCRC_DDC_DATA, None)"
  by (rule response_corruption_detected)
     (use response_frame_ok [of "[0x02, 0, 0x10, 0, 0, 100, 0, 50]" "replicate 30 0"]
      in \<open>simp_all add: response_frame_def\<close>)

text \<open>C2 (getvcp_response_roundtrip): the response a display sends for a Get VCP request, parsed with the type and feature code expected, gives back the maximum and current value bytes it was built from; result code 1 gives a valid response for an unsupported feature.\<close>

theorem getvcp_response_roundtrip:
  assumes "length pad \<ge> 39" and "res \<in> {0, 1}"
  shows "\<exists>p. create_ddc_typed_response_packet
             (response_frame [DDC_PACKET_TYPE_QUERY_VCP_RESPONSE, res, code, ty, mh, ml, sh, sl] @ pad)
             DDC_PACKET_TYPE_QUERY_VCP_RESPONSE code tag = Some (DDCRC_OK, Some p) \<and>
    get_interpreted_vcp_code p = Some (DDCRC_OK, Some
      (if res = 0
       then \<lparr>vcp_code = code, valid_response = True, supported_opcode = True,
             rmh = mh, rml = ml, rsh = sh, rsl = sl\<rparr>
       else \<lparr>vcp_code = code, valid_response = True, supported_opcode = False,
             rmh = 0, rml = 0, rsh = 0, rsl = 0\<rparr>))"
proof -
  let ?data = "[DDC_PACKET_TYPE_QUERY_VCP_RESPONSE, res, code, ty, mh, ml, sh, sl]"
  let ?r = "response_frame ?data @ pad"
  have l: "length ?data = 8" by simp
  note ok = response_frame_ok [of ?data pad, unfolded l, simplified]
  have "vcp_response_ok ?r code" "\<not> is_multi_part_type DDC_PACKET_TYPE_QUERY_VCP_RESPONSE"
    using assms(2) ok by (auto simp: vcp_response_ok_def response_frame_def is_multi_part_type_def)
  with ok show ?thesis
    using assms
    by (auto simp: typed_response_eq skip_double_6e_id typed_response_spec_def
      get_interpreted_vcp_code_def response_packet_def nontable_of_def response_frame_def)
qed

theorem getvcp_response_roundtrip_witness:
  "\<exists>p. create_ddc_typed_response_packet
             (response_frame [DDC_PACKET_TYPE_QUERY_VCP_RESPONSE, 0, 0x10, 0, 0, 100, 0, 50] @ replicate 39 0)
             DDC_PACKET_TYPE_QUERY_VCP_RESPONSE 0x10 ''r'' = Some (DDCRC_OK, Some p) \<and>
    get_interpreted_vcp_code p = Some (DDCRC_OK, Some
      (if (0 :: byte) = 0
       then \<lparr>vcp_code = 0x10, valid_response = True, supported_opcode = True,
             rmh = 0, rml = 100, rsh = 0, rsl = 50\<rparr>
       else \<lparr>vcp_code = 0x10, valid_response = True, supported_opcode = False,
             rmh = 0, rml = 0, rsh = 0, rsl = 0\<rparr>))"
  by (rule getvcp_response_roundtrip) simp_all

text \<open>C1 (typed_response_sound): the typed parse of a response of at least 39 bytes never ends abnormally and returns exactly what the bytes say: a null response for an empty frame, success with the values of the frame when the frame, its checksum, its type and its feature code are right, and DDCRC_DDC_DATA otherwise.\<close>

theorem typed_response_sound:
  assumes "39 \<le> length resp"
    and "is_multi_part_type ty \<or> ty = DDC_PACKET_TYPE_QUERY_VCP_RESPONSE"
  shows "create_ddc_typed_response_packet resp ty opcode tag =
         Some (typed_response_spec (skip_double_6e resp) ty opcode tag)"
  using assms by (rule typed_response_eq)

theorem typed_response_sound_witness:
  "create_ddc_typed_response_packet (replicate 39 0x6e) 0xe3 0 ''c'' =
   Some (typed_response_spec (skip_double_6e (replicate 39 0x6e)) 0xe3 0 ''c'')"
  by (rule typed_response_sound) (simp_all add: is_multi_part_type_def)

end
