(* ===== verification/Circular_Buffers.thy ===== *)
theory Circular_Buffers
  imports Prelude
begin

text \<open>
  The contract of the program's circular buffers, and the circular buffer of strings of
  \<^verbatim>\<open>src/src/util/data_structures.c\<close> (lines 370-460). The buffer of recent invocations of
  the dynamic sleep algorithm (theory Dsa2) provides the same contract.
\<close>

section \<open>The contract\<close>

text \<open>The last \<open>n\<close> entries of a list.\<close>

definition last_n :: "nat \<Rightarrow> 'a list \<Rightarrow> 'a list" where
  "last_n n xs = drop (length xs - n) xs"

lemma length_last_n [simp]: "length (last_n n xs) = min n (length xs)"
  by (simp add: last_n_def)

lemma last_n_all: "length xs \<le> n \<Longrightarrow> last_n n xs = xs"
  by (simp add: last_n_def)

lemma last_n_snoc:
  "0 < n \<Longrightarrow> last_n n (xs @ [v]) =
     (if length xs < n then xs @ [v] else tl (last_n n xs) @ [v])"
  by (cases "length xs < n") (auto simp: last_n_def tl_drop Suc_diff_le drop_Suc)

lemma last_n_last_n: "last_n n (last_n n xs @ ys) = last_n n (xs @ ys)"
proof (cases "length xs \<le> n")
  case True
  then show ?thesis by (simp add: last_n_all)
next
  case False
  define k where "k = length xs - n"
  have xs: "length xs = k + n" using False by (simp add: k_def)
  then show ?thesis
    by (simp add: last_n_def add.commute add.left_commute)
qed

text \<open>
  A buffer of fixed capacity that forgets its oldest entry: \<open>entries\<close> is what a reader
  sees, oldest first.
\<close>

locale bounded_history =
  fixes cap :: "'s \<Rightarrow> nat"
    and invar :: "'s \<Rightarrow> bool"
    and add :: "'s \<Rightarrow> 'v \<Rightarrow> 's"
    and entries :: "'s \<Rightarrow> 'v list"
  assumes invar_add: "invar s \<Longrightarrow> invar (add s v)"
    and cap_add: "invar s \<Longrightarrow> cap (add s v) = cap s"
    and cap_pos: "invar s \<Longrightarrow> 0 < cap s"
    and entries_le: "invar s \<Longrightarrow> length (entries s) \<le> cap s"
    and entries_add: "invar s \<Longrightarrow>
      entries (add s v) =
        (if length (entries s) < cap s then entries s @ [v] else tl (entries s) @ [v])"
begin

lemma entries_add_last: "invar s \<Longrightarrow> entries (add s v) = last_n (cap s) (entries s @ [v])"
  using last_n_snoc [OF cap_pos, of s "entries s" v] entries_le [of s]
  by (simp add: entries_add last_n_all)

lemma invar_add_all: "invar s \<Longrightarrow> invar (foldl add s vs) \<and> cap (foldl add s vs) = cap s"
  by (induction vs arbitrary: s) (simp_all add: invar_add cap_add)

lemma entries_add_all:
  "invar s \<Longrightarrow> entries (foldl add s vs) = last_n (cap s) (entries s @ vs)"
proof (induction vs arbitrary: s)
  case Nil
  then show ?case by (simp add: last_n_all entries_le)
next
  case (Cons v vs)
  have "entries (foldl add (add s v) vs) = last_n (cap s) (last_n (cap s) (entries s @ [v]) @ vs)"
    using Cons by (simp add: invar_add cap_add entries_add_last)
  also have "\<dots> = last_n (cap s) ((entries s @ [v]) @ vs)"
    by (rule last_n_last_n)
  finally show ?case by simp
qed

lemma last_entry: "invar s \<Longrightarrow> last (entries (add s v)) = v"
  by (simp add: entries_add)

end


section \<open>Rings\<close>

text \<open>
  An array of \<open>n\<close> slots read from \<open>p\<close> on, around its end. Overwriting slot \<open>p\<close> and reading
  from the next one drops the first entry and appends the new one.
\<close>

definition ring_read :: "'a list \<Rightarrow> nat \<Rightarrow> 'a list" where
  "ring_read ls p = map (\<lambda>k. ls ! ((p + k) mod length ls)) [0..<length ls]"

lemma length_ring_read [simp]: "length (ring_read ls p) = length ls"
  by (simp add: ring_read_def)

lemma ring_read_mod: "ring_read ls (p mod length ls) = ring_read ls p"
  by (simp add: ring_read_def mod_add_left_eq)

lemma ring_overwrite:
  assumes "p < length ls"
  shows "ring_read (ls[p := v]) (Suc p) = tl (ring_read ls p) @ [v]"
proof (rule nth_equalityI)
  let ?n = "length ls"
  show "length (ring_read (ls[p := v]) (Suc p)) = length (tl (ring_read ls p) @ [v])"
    using assms by simp
  fix i assume "i < length (ring_read (ls[p := v]) (Suc p))"
  then have i: "i < ?n" by simp
  have l: "ring_read (ls[p := v]) (Suc p) ! i = ls[p := v] ! ((p + Suc i) mod ?n)"
    using i by (simp add: ring_read_def)
  show "ring_read (ls[p := v]) (Suc p) ! i = (tl (ring_read ls p) @ [v]) ! i"
  proof (cases "Suc i < ?n")
    case True
    then have "(p + Suc i) mod ?n \<noteq> p"
      using assms by (metis add.commute add_diff_cancel_left' dvd_imp_mod_0 le_add1
          mod_eq_dvd_iff_nat mod_less nat.distinct(1))
    moreover have "(tl (ring_read ls p) @ [v]) ! i = ring_read ls p ! Suc i"
      using True less_diff_conv [of i ?n 1] by (simp add: nth_append nth_tl)
    moreover have "ring_read ls p ! Suc i = ls ! ((p + Suc i) mod ?n)"
      using True by (simp add: ring_read_def)
    ultimately show ?thesis using l by simp
  next
    case False
    with i have n: "?n = Suc i" by simp
    moreover have "(p + ?n) mod ?n = p" using assms by simp
    ultimately have "(p + Suc i) mod ?n = p" by metis
    with n l assms show ?thesis by (simp add: nth_append)
  qed
qed

section \<open>Circular string buffer\<close>

text \<open>
  The pointers are the strings they point to, a null pointer is \<open>None\<close>. Freeing the string
  that is overwritten and copying the new one leave no trace in the model. The size is
  positive: \<^verbatim>\<open>ct % size\<close> with size 0 is not defined in C.
\<close>

record Circular_String_Buffer =
  csb_lines :: "string option list"
  csb_size :: nat
  csb_ct :: nat

definition csb_new :: "nat \<Rightarrow> Circular_String_Buffer" where
  "csb_new sz = \<lparr>csb_lines = replicate sz None, csb_size = sz, csb_ct = 0\<rparr>"

definition csb_add :: "Circular_String_Buffer \<Rightarrow> string option \<Rightarrow> Circular_String_Buffer" where
  "csb_add csb line =
     (let nextpos = csb_ct csb mod csb_size csb
      in csb\<lparr>csb_lines := (csb_lines csb)[nextpos := line], csb_ct := csb_ct csb + 1\<rparr>)"

definition csb_first :: "Circular_String_Buffer \<Rightarrow> nat" where
  "csb_first csb = (if csb_ct csb > csb_size csb then csb_ct csb mod csb_size csb else 0)"

text \<open>The array that is returned, and the emptied buffer. The loop runs up to \<open>ct\<close>.\<close>

definition csb_to_g_ptr_array ::
    "Circular_String_Buffer \<Rightarrow> string option list \<times> Circular_String_Buffer" where
  "csb_to_g_ptr_array csb =
     (map (\<lambda>ndx. let pos = (csb_first csb + ndx) mod csb_size csb in csb_lines csb ! pos)
        [0..<csb_ct csb],
      csb\<lparr>csb_ct := 0\<rparr>)"

text \<open>The lines the buffer holds, oldest first.\<close>

definition csb_entries :: "Circular_String_Buffer \<Rightarrow> string option list" where
  "csb_entries csb =
     map (\<lambda>k. csb_lines csb ! ((csb_first csb + k) mod csb_size csb))
       [0..<min (csb_ct csb) (csb_size csb)]"

definition csb_ok :: "Circular_String_Buffer \<Rightarrow> bool" where
  "csb_ok csb \<longleftrightarrow> 0 < csb_size csb \<and> length (csb_lines csb) = csb_size csb"

lemma csb_entries_full:
  assumes "csb_ok csb" and "csb_size csb \<le> csb_ct csb"
  shows "csb_entries csb = ring_read (csb_lines csb) (csb_ct csb)"
proof -
  have "ring_read (csb_lines csb) (csb_first csb) = ring_read (csb_lines csb) (csb_ct csb)"
  proof (cases "csb_ct csb = csb_size csb")
    case True
    then show ?thesis
      using assms ring_read_mod [of "csb_lines csb" "csb_ct csb"] by (simp add: csb_ok_def csb_first_def)
  next
    case False
    then show ?thesis
      using assms ring_read_mod [of "csb_lines csb" "csb_ct csb"] by (simp add: csb_ok_def csb_first_def)
  qed
  then show ?thesis using assms by (simp add: csb_entries_def ring_read_def csb_ok_def min_absorb2)
qed

lemma csb_entries_part: "csb_ct csb \<le> csb_size csb \<Longrightarrow> csb_ok csb \<Longrightarrow> csb_entries csb = take (csb_ct csb) (csb_lines csb)"
  by (rule nth_equalityI) (simp_all add: csb_entries_def csb_first_def csb_ok_def)

lemma csb_entries_add:
  assumes ok: "csb_ok csb"
  shows "csb_entries (csb_add csb v) =
    (if length (csb_entries csb) < csb_size csb then csb_entries csb @ [v]
     else tl (csb_entries csb) @ [v])"
proof -
  let ?n = "csb_size csb" and ?ct = "csb_ct csb"
  have ok': "csb_ok (csb_add csb v)" using ok by (simp add: csb_ok_def csb_add_def Let_def)
  show ?thesis
  proof (cases "?ct < ?n")
    case True
    have "csb_entries (csb_add csb v) = take (Suc ?ct) ((csb_lines csb)[?ct := v])"
      using True by (subst csb_entries_part [OF _ ok']) (simp_all add: csb_add_def Let_def)
    then show ?thesis
      using ok True by (simp add: csb_entries_part csb_ok_def take_Suc_conv_app_nth)
  next
    case False
    let ?p = "?ct mod ?n"
    have p: "?p < length (csb_lines csb)" using ok by (simp add: csb_ok_def)
    have "csb_entries (csb_add csb v) = ring_read ((csb_lines csb)[?p := v]) (Suc ?ct)"
      using ok' False by (simp add: csb_entries_full csb_add_def Let_def)
    also have "\<dots> = ring_read ((csb_lines csb)[?p := v]) (Suc ?p)"
      using ok ring_read_mod [of "(csb_lines csb)[?p := v]" "Suc ?ct"]
        ring_read_mod [of "(csb_lines csb)[?p := v]" "Suc ?p"]
      by (simp add: csb_ok_def mod_Suc_eq)
    also have "\<dots> = tl (ring_read (csb_lines csb) ?p) @ [v]"
      by (rule ring_overwrite [OF p])
    also have "ring_read (csb_lines csb) ?p = csb_entries csb"
      using ok False ring_read_mod [of "csb_lines csb" ?ct] by (simp add: csb_entries_full csb_ok_def)
    finally show ?thesis
      using ok False by (simp add: csb_entries_full csb_ok_def)
  qed
qed

interpretation csb: bounded_history csb_size csb_ok csb_add csb_entries
proof
  fix s v
  assume ok: "csb_ok s"
  show "csb_ok (csb_add s v)" "csb_size (csb_add s v) = csb_size s"
    using ok by (simp_all add: csb_ok_def csb_add_def Let_def)
  show "csb_entries (csb_add s v) =
    (if length (csb_entries s) < csb_size s then csb_entries s @ [v] else tl (csb_entries s) @ [v])"
    by (rule csb_entries_add [OF ok])
next
  fix s
  assume ok: "csb_ok s"
  then show "0 < csb_size s" by (simp add: csb_ok_def)
  show "length (csb_entries s) \<le> csb_size s" by (simp add: csb_entries_def)
qed

lemma csb_new_ok: "0 < sz \<Longrightarrow> csb_ok (csb_new sz) \<and> csb_entries (csb_new sz) = [] \<and> csb_size (csb_new sz) = sz"
  by (simp add: csb_ok_def csb_new_def csb_entries_def)

lemma csb_ct_add_all: "csb_ct (foldl csb_add s vs) = csb_ct s + length vs"
  by (induction vs arbitrary: s) (simp_all add: csb_add_def Let_def)

lemma csb_entries_history:
  "0 < sz \<Longrightarrow> csb_entries (foldl csb_add (csb_new sz) vs) = last_n sz vs"
  using csb.entries_add_all [of "csb_new sz" vs] csb_new_ok [of sz] by simp

section \<open>Properties\<close>

text \<open>The array made of a circular string buffer starts with the last lines that were added, as many as the buffer holds, oldest first.\<close>

theorem csb_history:
  assumes "0 < sz"
  shows "take sz (fst (csb_to_g_ptr_array (foldl csb_add (csb_new sz) vs))) = last_n sz vs"
proof -
  have "take n (map f [0..<m]) = map f [0..<min m n]" for f :: "nat \<Rightarrow> string option" and m n
    by (simp add: take_map take_upt min_def)
  moreover have "csb_size (foldl csb_add (csb_new sz) vs) = sz"
    using csb.invar_add_all csb_new_ok [OF assms] by simp
  ultimately show ?thesis
    using csb_entries_history [OF assms, of vs]
    by (simp add: csb_to_g_ptr_array_def csb_entries_def Let_def)
qed

theorem csb_history_witness:
  "take 2 (fst (csb_to_g_ptr_array (foldl csb_add (csb_new 2) [Some ''a'', Some ''b'', Some ''c''])))
   = last_n 2 [Some ''a'', Some ''b'', Some ''c'']"
  by (rule csb_history) simp

text \<open>Once more lines were added than the buffer holds, the array has one entry for each line ever added: it repeats the retained pointers, in particular its first one stands again at the position of the size.\<close>

theorem csb_array_repeats_lines:
  assumes "0 < sz" and "sz < length vs"
  shows "length (fst (csb_to_g_ptr_array (foldl csb_add (csb_new sz) vs))) = length vs \<and>
    fst (csb_to_g_ptr_array (foldl csb_add (csb_new sz) vs)) ! sz =
    fst (csb_to_g_ptr_array (foldl csb_add (csb_new sz) vs)) ! 0"
proof -
  have "csb_size (foldl csb_add (csb_new sz) vs) = sz"
    using csb.invar_add_all csb_new_ok [OF assms(1)] by simp
  moreover have "csb_ct (foldl csb_add (csb_new sz) vs) = length vs"
    by (simp add: csb_ct_add_all csb_new_def)
  moreover have "0 < length vs" using assms by linarith
  ultimately show ?thesis
    using assms by (simp add: csb_to_g_ptr_array_def Let_def del: length_greater_0_conv)
qed

theorem csb_array_repeats_lines_witness:
  "length (fst (csb_to_g_ptr_array (foldl csb_add (csb_new 1) [Some ''a'', Some ''b'']))) = length [Some ''a'', Some ''b''] \<and>
    fst (csb_to_g_ptr_array (foldl csb_add (csb_new 1) [Some ''a'', Some ''b''])) ! 1 =
    fst (csb_to_g_ptr_array (foldl csb_add (csb_new 1) [Some ''a'', Some ''b''])) ! 0"
  by (rule csb_array_repeats_lines) simp_all

end
