(* ===== verification/Try_Data.thy ===== *)
theory Try_Data
  imports Status_Codes
begin

text \<open>
  Retry statistics and the maxtries settings: \<^verbatim>\<open>src/src/ddc/ddc_try_data.c\<close> and the counters
  per display of \<^verbatim>\<open>src/src/base/display_retry_data.c\<close>. Counters are 16 bit words. The mutex
  is a flag that says whether the current thread holds it; another thread that holds it only
  delays the current one.
\<close>

section \<open>State\<close>

datatype Retry_Operation =
    WRITE_ONLY_TRIES_OP
  | WRITE_READ_TRIES_OP
  | MULTI_PART_READ_OP
  | MULTI_PART_WRITE_OP

fun retry_index :: "Retry_Operation \<Rightarrow> nat" where
  "retry_index WRITE_ONLY_TRIES_OP = 0"
| "retry_index WRITE_READ_TRIES_OP = 1"
| "retry_index MULTI_PART_READ_OP = 2"
| "retry_index MULTI_PART_WRITE_OP = 3"

abbreviation RETRY_OP_COUNT :: nat where "RETRY_OP_COUNT \<equiv> 4"

record Try_Data2 =
  maxtries :: nat
  counters :: "16 word list"
  highest_maxtries :: nat
  lowest_maxtries :: nat

text \<open>The array \<^verbatim>\<open>try_data\<close>, and whether this thread holds \<^verbatim>\<open>try_data_mutex\<close>.\<close>

record Try_State =
  try_data :: "Try_Data2 list"
  this_thread_has_lock :: bool

definition lock_if_unlocked :: "Try_State \<Rightarrow> bool \<times> Try_State" where
  "lock_if_unlocked st =
     (if \<not> this_thread_has_lock st then (True, st\<lparr>this_thread_has_lock := True\<rparr>)
      else (False, st))"

definition unlock_if_needed :: "bool \<Rightarrow> Try_State \<Rightarrow> Try_State" where
  "unlock_if_needed unlock_requested st =
     (if unlock_requested \<and> this_thread_has_lock st then st\<lparr>this_thread_has_lock := False\<rparr>
      else st)"

definition upd_try_data :: "nat \<Rightarrow> (Try_Data2 \<Rightarrow> Try_Data2) \<Rightarrow> Try_State \<Rightarrow> Try_State" where
  "upd_try_data i f st = st\<lparr>try_data := (try_data st)[i := f (try_data st ! i)]\<rparr>"

section \<open>Operations\<close>

definition default_maxtries :: "nat list" where "default_maxtries = [4, 10, 8, 8]"

definition try_data_init_retry_type :: "nat \<Rightarrow> nat \<Rightarrow> Try_State \<Rightarrow> Try_State" where
  "try_data_init_retry_type i n =
     upd_try_data i (\<lambda>d. d\<lparr>maxtries := n, highest_maxtries := n, lowest_maxtries := n\<rparr>)"

text \<open>Static storage is zero before the initialization.\<close>

definition zero_try_state :: Try_State where
  "zero_try_state =
     \<lparr>try_data = replicate RETRY_OP_COUNT
        \<lparr>maxtries = 0, counters = replicate (MAX_MAX_TRIES + 2) 0, highest_maxtries = 0,
         lowest_maxtries = 0\<rparr>,
      this_thread_has_lock = False\<rparr>"

definition init_ddc_try_data :: "Try_State \<Rightarrow> Try_State" where
  "init_ddc_try_data st =
     foldl (\<lambda>s i. try_data_init_retry_type i (default_maxtries ! i) s) st [0..<RETRY_OP_COUNT]"

definition try_data_get_maxtries2 :: "Retry_Operation \<Rightarrow> Try_State \<Rightarrow> nat" where
  "try_data_get_maxtries2 op st = maxtries (try_data st ! retry_index op)"

definition try_data_set_maxtries2 :: "Retry_Operation \<Rightarrow> nat \<Rightarrow> Try_State \<Rightarrow> Try_State option" where
  "try_data_set_maxtries2 op new_maxtries st = do {
     c_assert (new_maxtries \<ge> 1 \<and> new_maxtries \<le> MAX_MAX_TRIES);
     let (locked, st) = lock_if_unlocked st;
     let st = upd_try_data (retry_index op)
       (\<lambda>d. let d = d\<lparr>maxtries := new_maxtries\<rparr>;
                d = (if new_maxtries < lowest_maxtries d then d\<lparr>lowest_maxtries := new_maxtries\<rparr> else d)
            in if new_maxtries > highest_maxtries d then d\<lparr>highest_maxtries := new_maxtries\<rparr> else d) st;
     Some (unlock_if_needed locked st)
   }"

text \<open>The loop clears the counters 0 to \<open>MAX_MAX_TRIES\<close>.\<close>

definition try_data_reset2 :: "nat \<Rightarrow> Try_State \<Rightarrow> Try_State" where
  "try_data_reset2 i st =
     (let (locked, st) = lock_if_unlocked st;
          st = upd_try_data i
            (\<lambda>d. d\<lparr>highest_maxtries := maxtries d, lowest_maxtries := maxtries d,
                   counters := foldl (\<lambda>cs ndx. cs[ndx := 0]) (counters d) [0..<MAX_MAX_TRIES + 1]\<rparr>) st
      in unlock_if_needed locked st)"

definition try_data_reset2_all :: "Try_State \<Rightarrow> Try_State" where
  "try_data_reset2_all st =
     (let (locked, st) = lock_if_unlocked st;
          st = foldl (\<lambda>s i. try_data_reset2 i s) st [0..<RETRY_OP_COUNT]
      in unlock_if_needed locked st)"

text \<open>
  The counter a result is recorded in: 0 for a fatal failure, 1 for too many tries,
  \<open>tryct + 1\<close> for success.
\<close>

definition counter_index :: "int \<Rightarrow> nat \<Rightarrow> nat" where
  "counter_index ddcrc tryct =
     (if ddcrc = 0 then tryct + 1
      else if ddcrc = DDCRC_RETRIES \<or> ddcrc = DDCRC_ALL_TRIES_ZERO then 1
      else 0)"

definition bump :: "nat \<Rightarrow> 16 word list \<Rightarrow> 16 word list" where
  "bump i cs = cs[i := cs ! i + 1]"

text \<open>The statistics of one display, \<^verbatim>\<open>try_stats\<close>: the counters of each operation.\<close>

type_synonym Display_Try_Stats = "16 word list list"

definition drd_record_display_tries ::
    "Retry_Operation \<Rightarrow> int \<Rightarrow> nat \<Rightarrow> Display_Try_Stats \<Rightarrow> Display_Try_Stats option" where
  "drd_record_display_tries op rc tryct stats = do {
     let index = counter_index rc tryct;
     c_assert (index < length (stats ! retry_index op));
     Some (stats[retry_index op := bump index (stats ! retry_index op)])
   }"

definition try_data_record_tries2 ::
    "Retry_Operation \<Rightarrow> int \<Rightarrow> nat \<Rightarrow> Display_Try_Stats \<Rightarrow> Try_State \<Rightarrow>
     (Display_Try_Stats \<times> Try_State) option" where
  "try_data_record_tries2 op ddcrc tryct stats st = do {
     stats \<leftarrow> drd_record_display_tries op ddcrc tryct stats;
     let (locked, st) = lock_if_unlocked st;
     c_assert (ddcrc \<noteq> 0 \<or> (0 < tryct \<and> tryct \<le> maxtries (try_data st ! retry_index op)));
     let st = upd_try_data (retry_index op)
       (\<lambda>d. d\<lparr>counters := bump (counter_index ddcrc tryct) (counters d)\<rparr>) st;
     Some (stats, unlock_if_needed locked st)
   }"

text \<open>Used by the reports to see whether anything was recorded.\<close>

definition try_data_get_total_attempts2 :: "Retry_Operation \<Rightarrow> Try_State \<Rightarrow> nat" where
  "try_data_get_total_attempts2 op st =
     (\<Sum>ndx\<leftarrow>[0..<MAX_MAX_TRIES + 2]. unat (counters (try_data st ! retry_index op) ! ndx))"

definition get_display_total_tries_for_one_type_by_data :: "Retry_Operation \<Rightarrow> Display_Try_Stats \<Rightarrow> nat" where
  "get_display_total_tries_for_one_type_by_data op stats =
     (\<Sum>ndx\<leftarrow>[0..<MAX_MAX_TRIES + 2]. unat (stats ! retry_index op ! ndx))"

fun highest_counter_loop :: "16 word list \<Rightarrow> nat \<Rightarrow> nat" where
  "highest_counter_loop cs 0 = 1"
| "highest_counter_loop cs (Suc kk) =
     (if Suc kk \<le> 1 then 1 else if cs ! Suc kk \<noteq> 0 then Suc kk else highest_counter_loop cs kk)"

definition display_index_of_highest_non_zero_counter :: "16 word list \<Rightarrow> nat" where
  "display_index_of_highest_non_zero_counter cs = highest_counter_loop cs (MAX_MAX_TRIES + 1)"

section \<open>Invariant\<close>

definition try_rec_ok :: "Try_Data2 \<Rightarrow> bool" where
  "try_rec_ok d \<longleftrightarrow> length (counters d) = MAX_MAX_TRIES + 2 \<and> 1 \<le> maxtries d \<and>
     maxtries d \<le> MAX_MAX_TRIES \<and> lowest_maxtries d \<le> maxtries d \<and> maxtries d \<le> highest_maxtries d"

definition try_state_ok :: "Try_State \<Rightarrow> bool" where
  "try_state_ok st \<longleftrightarrow> length (try_data st) = RETRY_OP_COUNT \<and> list_all try_rec_ok (try_data st)"

lemma retry_index_less [simp]: "retry_index op < 4"
  by (cases op) simp_all

lemma try_rec_ok_nth: "try_state_ok st \<Longrightarrow> i < 4 \<Longrightarrow> try_rec_ok (try_data st ! i)"
  by (simp add: try_state_ok_def list_all_length)

lemma upd_ok:
  "try_state_ok st \<Longrightarrow> i < 4 \<Longrightarrow> try_rec_ok (f (try_data st ! i)) \<Longrightarrow> try_state_ok (upd_try_data i f st)"
  by (auto simp: try_state_ok_def upd_try_data_def list_all_length nth_list_update)

lemma upd_lock [simp]: "this_thread_has_lock (upd_try_data i f st) = this_thread_has_lock st"
  by (simp add: upd_try_data_def)

lemma upd_with_lock:
  "upd_try_data i f (st\<lparr>this_thread_has_lock := b\<rparr>) = (upd_try_data i f st)\<lparr>this_thread_has_lock := b\<rparr>"
  by (simp add: upd_try_data_def)

text \<open>A critical section leaves the lock as it found it, and runs with the lock held.\<close>

lemma critical_section:
  "(let (locked, st) = lock_if_unlocked st in unlock_if_needed locked (upd_try_data i f st)) =
   upd_try_data i f st"
  by (cases st) (simp add: lock_if_unlocked_def unlock_if_needed_def upd_try_data_def)

lemma clear_counters:
  "length (cs :: 16 word list) = 17 \<Longrightarrow> foldl (\<lambda>cs ndx. cs[ndx := 0]) cs [0..<MAX_MAX_TRIES + 1] = replicate 16 0 @ [cs ! 16]"
proof -
  have "foldl (\<lambda>cs ndx. cs[ndx := 0]) cs [0..<n] = replicate n 0 @ drop n cs"
    if "n \<le> length cs" for n and cs :: "16 word list"
    using that
  proof (induction n)
    case (Suc n)
    then show ?case
      by (simp add: list_update_append Cons_nth_drop_Suc [symmetric] replicate_append_same [symmetric])
  qed simp
  from this [of 16 cs] show "length cs = 17 \<Longrightarrow> ?thesis"
    by (simp add: Cons_nth_drop_Suc [symmetric])
qed


lemma upt_sum_list: "length cs = 17 \<Longrightarrow> (\<Sum>ndx\<leftarrow>[0..<MAX_MAX_TRIES + 2]. unat (cs ! ndx)) = (\<Sum>c\<leftarrow>cs. unat c)"
proof -
  assume "length cs = 17"
  then have "map (\<lambda>ndx. unat (cs ! ndx)) [0..<MAX_MAX_TRIES + 2] = map unat cs"
    by (intro nth_equalityI) simp_all
  then show ?thesis by simp
qed

lemma total_eq:
  "length (counters (try_data st ! retry_index op)) = 17 \<Longrightarrow>
   try_data_get_total_attempts2 op st = (\<Sum>c\<leftarrow>counters (try_data st ! retry_index op). unat c)"
  "length (stats ! retry_index op) = 17 \<Longrightarrow>
   get_display_total_tries_for_one_type_by_data op stats = (\<Sum>c\<leftarrow>stats ! retry_index op. unat c)"
  unfolding try_data_get_total_attempts2_def get_display_total_tries_for_one_type_by_data_def
  by (rule upt_sum_list, assumption)+

lemma unat_succ16: "unat (c :: 16 word) < 65535 \<Longrightarrow> unat (c + 1) = unat c + 1"
proof -
  assume c: "unat c < 65535"
  have "c + 1 = of_nat (unat c + 1)" by simp
  then have "unat (c + 1) = unat (of_nat (unat c + 1) :: 16 word)" by (rule arg_cong)
  then show ?thesis using c unfolding unat_of_nat by simp
qed

lemma total_bump:
  assumes "length cs = 17" and "i < 17" and "unat (cs ! i) < 65535"
  shows "(\<Sum>c\<leftarrow>bump i cs. unat c) = (\<Sum>c\<leftarrow>cs. unat c) + 1"
proof -
  have "map unat (bump i cs) = (map unat cs)[i := unat (cs ! i) + 1]"
    using assms by (simp add: bump_def map_update unat_succ16)
  moreover have "unat (cs ! i) \<le> sum_list (map unat cs)"
    using assms by (intro member_le_sum_list) auto
  ultimately show ?thesis
    using assms by (simp add: sum_list_update)
qed

lemma critical_section_eq:
  "lock_if_unlocked st = (locked, st') \<Longrightarrow>
   unlock_if_needed locked (upd_try_data i f st') = upd_try_data i f st"
  using critical_section [of st i f] by simp

lemma reset2_eq:
  "try_data_reset2 i st = upd_try_data i
    (\<lambda>d. d\<lparr>highest_maxtries := maxtries d, lowest_maxtries := maxtries d,
           counters := foldl (\<lambda>cs ndx. cs[ndx := 0]) (counters d) [0..<MAX_MAX_TRIES + 1]\<rparr>) st"
  by (cases "lock_if_unlocked st") (simp add: try_data_reset2_def critical_section_eq)

text \<open>What a reset leaves of one record.\<close>

definition reset_rec :: "Try_Data2 \<Rightarrow> Try_Data2" where
  "reset_rec d = d\<lparr>highest_maxtries := maxtries d, lowest_maxtries := maxtries d,
     counters := replicate 16 0 @ [counters d ! 16]\<rparr>"

lemma reset2_ok:
  assumes "try_state_ok st" and "i < 4"
  shows "try_data_reset2 i st = upd_try_data i reset_rec st"
    and "try_state_ok (try_data_reset2 i st)"
proof -
  have rec_ok: "try_rec_ok (try_data st ! i)" using assms by (rule try_rec_ok_nth)
  then have "length (counters (try_data st ! i)) = 17" by (simp add: try_rec_ok_def)
  from clear_counters [OF this] show eq: "try_data_reset2 i st = upd_try_data i reset_rec st"
    unfolding reset2_eq upd_try_data_def reset_rec_def by simp
  show "try_state_ok (try_data_reset2 i st)"
    unfolding eq by (rule upd_ok) (use assms rec_ok in \<open>simp_all add: reset_rec_def try_rec_ok_def\<close>)
qed

lemma reset_all_eq:
  assumes "try_state_ok st"
  shows "try_data_reset2_all st = st\<lparr>try_data := map reset_rec (try_data st)\<rparr>"
proof -
  obtain a b c d where abcd: "try_data st = [a, b, c, d]"
    using assms by (auto simp: try_state_ok_def numeral_eq_Suc length_Suc_conv)
  have l: "length (counters x) = 17" if "x \<in> {a, b, c, d}" for x
    using assms that by (auto simp: try_state_ok_def abcd try_rec_ok_def)
  have cl: "foldl (\<lambda>cs ndx. cs[ndx := 0]) (counters x) [0..<MAX_MAX_TRIES + 1] =
      replicate 16 0 @ [counters x ! 16]" if "x \<in> {a, b, c, d}" for x
    by (rule clear_counters [OF l [OF that]])
  have r: "try_data_reset2 i s = upd_try_data i reset_rec s"
    if "try_data s ! i \<in> {a, b, c, d}" for i s
    unfolding reset2_eq upd_try_data_def using cl [OF that] by (simp add: reset_rec_def)
  have all: "foldl (\<lambda>s i. try_data_reset2 i s) s [0..<RETRY_OP_COUNT] = s\<lparr>try_data := map reset_rec [a, b, c, d]\<rparr>"
    if "try_data s = [a, b, c, d]" for s
    by (simp add: upt_rec r that upd_try_data_def)
  show ?thesis
    by (cases "this_thread_has_lock st")
       (simp_all add: try_data_reset2_all_def lock_if_unlocked_def unlock_if_needed_def Let_def all abcd
         del: upt_Suc)
qed

section \<open>Properties\<close>

text \<open>C13 (record_tries_counts_once): recording a result, with a number of tries within the limit when it is a success, adds one to the number of attempts of that operation in both statistics, keeps the state well formed and leaves the lock as it was; a success with more tries than allowed stops at the assertion.\<close>

theorem record_tries_counts_once:
  assumes ok: "try_state_ok st" and stats: "length stats = 4" "length (stats ! retry_index op) = 17"
    and tries: "ddcrc = 0 \<Longrightarrow> 0 < tryct \<and> tryct \<le> maxtries (try_data st ! retry_index op)"
    and wrap: "unat (counters (try_data st ! retry_index op) ! counter_index ddcrc tryct) < 65535"
      "unat (stats ! retry_index op ! counter_index ddcrc tryct) < 65535"
  shows "\<exists>stats' st'. try_data_record_tries2 op ddcrc tryct stats st = Some (stats', st') \<and>
    try_state_ok st' \<and> this_thread_has_lock st' = this_thread_has_lock st \<and>
    try_data_get_total_attempts2 op st' = try_data_get_total_attempts2 op st + 1 \<and>
    get_display_total_tries_for_one_type_by_data op stats' =
      get_display_total_tries_for_one_type_by_data op stats + 1"
proof -
  let ?i = "retry_index op" and ?k = "counter_index ddcrc tryct"
  have rok: "try_rec_ok (try_data st ! ?i)" using ok by (simp add: try_rec_ok_nth)
  then have l: "length (counters (try_data st ! ?i)) = 17" "maxtries (try_data st ! ?i) \<le> 15"
    by (simp_all add: try_rec_ok_def)
  have k: "?k < 17" using tries l(2) by (auto simp: counter_index_def)
  define f where "f d = d\<lparr>counters := bump ?k (counters d)\<rparr>" for d :: Try_Data2
  let ?st' = "upd_try_data ?i f st" and ?stats' = "stats[?i := bump ?k (stats ! ?i)]"
  obtain locked st1 where lk: "lock_if_unlocked st = (locked, st1)" by fastforce
  then have td1: "try_data st1 = try_data st" by (auto simp: lock_if_unlocked_def split: if_splits)
  have "try_data_record_tries2 op ddcrc tryct stats st = Some (?stats', ?st')"
    using k tries stats
    by (auto simp: try_data_record_tries2_def drd_record_display_tries_def lk td1
        critical_section_eq [OF lk] f_def [abs_def] c_assert_def)
  moreover have "try_state_ok ?st'"
    using ok rok by (intro upd_ok) (simp_all add: try_rec_ok_def f_def bump_def)
  moreover have td: "try_data ?st' ! ?i = f (try_data st ! ?i)"
    using ok by (simp add: upd_try_data_def try_state_ok_def)
  have "length (bump ?k cs) = length cs" for cs by (simp add: bump_def)
  then have "try_data_get_total_attempts2 op ?st' = try_data_get_total_attempts2 op st + 1"
    "get_display_total_tries_for_one_type_by_data op ?stats' =
      get_display_total_tries_for_one_type_by_data op stats + 1"
    using stats l wrap k total_bump [of "counters (try_data st ! ?i)" ?k] total_bump [of "stats ! ?i" ?k] td
    by (simp_all add: total_eq f_def)
  ultimately show ?thesis by auto
qed

lemma init_ok: "try_state_ok (init_ddc_try_data zero_try_state)"
  by (simp add: try_state_ok_def init_ddc_try_data_def zero_try_state_def upt_rec default_maxtries_def
      try_data_init_retry_type_def upd_try_data_def try_rec_ok_def numeral_eq_Suc)

lemma init_counters:
  "try_data (init_ddc_try_data zero_try_state) ! 0 =
     \<lparr>maxtries = 4, counters = replicate 17 0, highest_maxtries = 4, lowest_maxtries = 4\<rparr>"
  by (simp add: init_ddc_try_data_def zero_try_state_def upt_rec default_maxtries_def
      try_data_init_retry_type_def upd_try_data_def numeral_eq_Suc)

theorem record_tries_counts_once_witness:
  "\<exists>stats' st'. try_data_record_tries2 WRITE_ONLY_TRIES_OP 0 2 (replicate 4 (replicate 17 0))
      (init_ddc_try_data zero_try_state) = Some (stats', st') \<and>
    try_state_ok st' \<and>
    this_thread_has_lock st' = this_thread_has_lock (init_ddc_try_data zero_try_state) \<and>
    try_data_get_total_attempts2 WRITE_ONLY_TRIES_OP st' =
      try_data_get_total_attempts2 WRITE_ONLY_TRIES_OP (init_ddc_try_data zero_try_state) + 1 \<and>
    get_display_total_tries_for_one_type_by_data WRITE_ONLY_TRIES_OP stats' =
      get_display_total_tries_for_one_type_by_data WRITE_ONLY_TRIES_OP (replicate 4 (replicate 17 0)) + 1"
  by (rule record_tries_counts_once)
     (simp_all add: init_ok init_counters counter_index_def)

text \<open>A new limit is accepted exactly when it is between 1 and 15; then it is the limit of that operation only, the recorded lowest and highest limits enclose it, and the lock is as before.\<close>

theorem set_maxtries_effect:
  assumes ok: "try_state_ok st"
  shows "case try_data_set_maxtries2 op n st of
      None \<Rightarrow> n < 1 \<or> MAX_MAX_TRIES < n
    | Some st' \<Rightarrow> 1 \<le> n \<and> n \<le> MAX_MAX_TRIES \<and> try_state_ok st' \<and>
        this_thread_has_lock st' = this_thread_has_lock st \<and>
        try_data_get_maxtries2 op st' = n \<and>
        lowest_maxtries (try_data st' ! retry_index op) \<le> n \<and>
        n \<le> highest_maxtries (try_data st' ! retry_index op) \<and>
        (\<forall>op'. retry_index op' \<noteq> retry_index op \<longrightarrow>
           try_data_get_maxtries2 op' st' = try_data_get_maxtries2 op' st)"
proof (cases "1 \<le> n \<and> n \<le> MAX_MAX_TRIES")
  case True
  define f where "f d = (let d = d\<lparr>maxtries := n\<rparr>;
      d = (if n < lowest_maxtries d then d\<lparr>lowest_maxtries := n\<rparr> else d)
    in if n > highest_maxtries d then d\<lparr>highest_maxtries := n\<rparr> else d)" for d :: Try_Data2
  have e: "try_data_set_maxtries2 op n st = Some (upd_try_data (retry_index op) f st)"
    using True by (cases "lock_if_unlocked st")
      (simp add: try_data_set_maxtries2_def critical_section_eq f_def [abs_def])
  have rok: "try_rec_ok (try_data st ! retry_index op)" using ok by (simp add: try_rec_ok_nth)
  then have f: "try_rec_ok (f (try_data st ! retry_index op))" "maxtries (f (try_data st ! retry_index op)) = n"
    using True by (auto simp: f_def try_rec_ok_def Let_def)
  moreover from this have "lowest_maxtries (f (try_data st ! retry_index op)) \<le> n"
    "n \<le> highest_maxtries (f (try_data st ! retry_index op))" by (auto simp: try_rec_ok_def)
  moreover have "try_state_ok (upd_try_data (retry_index op) f st)"
    using ok f(1) by (intro upd_ok) simp_all
  moreover have "length (try_data st) = 4" using ok by (simp add: try_state_ok_def)
  ultimately show ?thesis
    using True unfolding e by (simp add: try_data_get_maxtries2_def upd_try_data_def nth_list_update)
next
  case False
  then have "try_data_set_maxtries2 op n st = None" by (auto simp: try_data_set_maxtries2_def c_assert_def)
  with False show ?thesis by auto
qed

theorem set_maxtries_effect_witness:
  "case try_data_set_maxtries2 WRITE_READ_TRIES_OP 12 (init_ddc_try_data zero_try_state) of
      None \<Rightarrow> (12 :: nat) < 1 \<or> MAX_MAX_TRIES < (12 :: nat)
    | Some st' \<Rightarrow> 1 \<le> (12 :: nat) \<and> (12 :: nat) \<le> MAX_MAX_TRIES \<and> try_state_ok st' \<and>
        this_thread_has_lock st' = this_thread_has_lock (init_ddc_try_data zero_try_state) \<and>
        try_data_get_maxtries2 WRITE_READ_TRIES_OP st' = 12 \<and>
        lowest_maxtries (try_data st' ! retry_index WRITE_READ_TRIES_OP) \<le> 12 \<and>
        12 \<le> highest_maxtries (try_data st' ! retry_index WRITE_READ_TRIES_OP) \<and>
        (\<forall>op'. retry_index op' \<noteq> retry_index WRITE_READ_TRIES_OP \<longrightarrow>
           try_data_get_maxtries2 op' st' = try_data_get_maxtries2 op' (init_ddc_try_data zero_try_state))"
  by (rule set_maxtries_effect) (rule init_ok)

text \<open>After all counters are reset, the number of attempts of an operation is the old value of its last counter, the one of the successes after 15 tries: it is not cleared.\<close>

theorem reset_keeps_last_counter:
  assumes ok: "try_state_ok st"
  shows "try_data_get_total_attempts2 op (try_data_reset2_all st) =
    unat (counters (try_data st ! retry_index op) ! (MAX_MAX_TRIES + 1))"
proof -
  have "length (try_data st) = 4" using ok by (simp add: try_state_ok_def)
  then have td: "try_data (try_data_reset2_all st) ! retry_index op = reset_rec (try_data st ! retry_index op)"
    by (simp add: reset_all_eq [OF ok])
  show ?thesis by (simp add: total_eq td reset_rec_def)
qed

theorem reset_keeps_last_counter_witness:
  "try_data_get_total_attempts2 WRITE_ONLY_TRIES_OP (try_data_reset2_all (init_ddc_try_data zero_try_state)) =
    unat (counters (try_data (init_ddc_try_data zero_try_state) ! retry_index WRITE_ONLY_TRIES_OP) ! (MAX_MAX_TRIES + 1))"
  by (rule reset_keeps_last_counter) (rule init_ok)

end
