(* ===== verification/Dsa2.thy ===== *)
theory Dsa2
  imports Status_Codes Circular_Buffers
begin

text \<open>
  The dynamic sleep algorithm, \<^verbatim>\<open>src/src/base/dsa2.c\<close>. For each I2C bus a
  \<open>Results_Table\<close> holds the current step, an index into \<open>steps\<close>, whose entries are sleep
  multipliers times 100. The write-read loop reports each retryable failure and the end of
  the loop; the step follows. C \<^verbatim>\<open>int\<close>s are \<open>int\<close>; none of them comes near the range limits.
  The file's static variables are the record \<open>Dsa2_Config\<close>. Multipliers are handled in
  hundredths. The stats cache file is not modelled.
\<close>

section \<open>Configuration\<close>

record Dsa2_Config =
  dsa2_enabled :: bool
  initial_step :: int
  adjustment_interval :: int
  target_greatest_tries_upper_bound :: int
  target_avg_tries_upper_bound_10 :: int
  target_greatest_tries_lower_bound :: int
  target_avg_tries_lower_bound_10 :: int
  Min_Decrement_Lookback :: int
  global_lookback :: int
  dsa2_step_floor :: int

definition default_config :: Dsa2_Config where
  "default_config =
     \<lparr>dsa2_enabled = True, initial_step = 7, adjustment_interval = 3,
      target_greatest_tries_upper_bound = 3, target_avg_tries_upper_bound_10 = 14,
      target_greatest_tries_lower_bound = 2, target_avg_tries_lower_bound_10 = 11,
      Min_Decrement_Lookback = 5, global_lookback = 5, dsa2_step_floor = 0\<rparr>"

definition dsa2_enable :: "Dsa2_Config \<Rightarrow> bool \<Rightarrow> Dsa2_Config" where
  "dsa2_enable cfg yesno = cfg\<lparr>dsa2_enabled := yesno\<rparr>"

definition dsa2_set_greatest_tries_upper_bound :: "Dsa2_Config \<Rightarrow> int \<Rightarrow> Dsa2_Config \<times> bool" where
  "dsa2_set_greatest_tries_upper_bound cfg tries =
     (if 1 \<le> tries \<and> tries \<le> int MAX_MAX_TRIES
      then (cfg\<lparr>target_greatest_tries_upper_bound := tries\<rparr>, True) else (cfg, False))"

section \<open>Recent invocations\<close>

record Successful_Invocation =
  epoch_seconds :: int
  tryct :: int
  required_step :: int

record Circular_Invocation_Result_Buffer =
  cirb_values :: "Successful_Invocation list"
  cirb_size :: nat
  cirb_ct :: nat
  nextpos :: nat

definition cirb_new :: "nat \<Rightarrow> Circular_Invocation_Result_Buffer" where
  "cirb_new sz =
     \<lparr>cirb_values = replicate sz \<lparr>epoch_seconds = 0, tryct = 0, required_step = 0\<rparr>,
      cirb_size = sz, cirb_ct = 0, nextpos = 0\<rparr>"

definition cirb_add ::
    "Circular_Invocation_Result_Buffer \<Rightarrow> Successful_Invocation \<Rightarrow> Circular_Invocation_Result_Buffer" where
  "cirb_add cirb v =
     cirb\<lparr>cirb_values := (cirb_values cirb)[nextpos cirb := v],
          nextpos := (nextpos cirb + 1) mod cirb_size cirb,
          cirb_ct := (if cirb_ct cirb < cirb_size cirb then cirb_ct cirb + 1 else cirb_ct cirb)\<rparr>"

text \<open>Callers pass logical indexes that are not negative; \<open>None\<close> is the result -1.\<close>

definition cirb_logical_to_physical_index ::
    "Circular_Invocation_Result_Buffer \<Rightarrow> nat \<Rightarrow> nat option" where
  "cirb_logical_to_physical_index cirb logical =
     (if logical < cirb_ct cirb
      then Some (if cirb_ct cirb < cirb_size cirb then logical
                 else (nextpos cirb + logical) mod cirb_size cirb)
      else None)"

definition cirb_get_logical ::
    "Circular_Invocation_Result_Buffer \<Rightarrow> nat \<Rightarrow> Successful_Invocation" where
  "cirb_get_logical cirb logical =
     (case cirb_logical_to_physical_index cirb logical of
        Some physical \<Rightarrow> cirb_values cirb ! physical
      | None \<Rightarrow> \<lparr>epoch_seconds = -1, tryct = -1, required_step = 0\<rparr>)"

definition cirb_get_latest ::
    "Circular_Invocation_Result_Buffer \<Rightarrow> int \<Rightarrow> Successful_Invocation list" where
  "cirb_get_latest cirb ct =
     (let ct = (if ct < 0 then cirb_ct cirb else nat ct);
          skipct = (if ct \<le> cirb_ct cirb then cirb_ct cirb - ct else 0);
          ct = (if ct > cirb_ct cirb then cirb_ct cirb else ct)
      in map (\<lambda>ctr. cirb_get_logical cirb (ctr + skipct)) [0..<ct])"

subsection \<open>The buffer keeps the bounded history\<close>

definition cirb_ok :: "Circular_Invocation_Result_Buffer \<Rightarrow> bool" where
  "cirb_ok c \<longleftrightarrow> 0 < cirb_size c \<and> length (cirb_values c) = cirb_size c \<and>
     cirb_ct c \<le> cirb_size c \<and> nextpos c < cirb_size c \<and>
     (cirb_ct c < cirb_size c \<longrightarrow> nextpos c = cirb_ct c)"

definition cirb_entries :: "Circular_Invocation_Result_Buffer \<Rightarrow> Successful_Invocation list" where
  "cirb_entries c = map (cirb_get_logical c) [0..<cirb_ct c]"

lemma length_cirb_entries [simp]: "length (cirb_entries c) = cirb_ct c"
  by (simp add: cirb_entries_def)

lemma cirb_entries_full:
  "cirb_ok c \<Longrightarrow> cirb_ct c = cirb_size c \<Longrightarrow> cirb_entries c = ring_read (cirb_values c) (nextpos c)"
  by (simp add: cirb_entries_def ring_read_def cirb_get_logical_def
      cirb_logical_to_physical_index_def cirb_ok_def)

lemma cirb_entries_part:
  "cirb_ok c \<Longrightarrow> cirb_ct c < cirb_size c \<Longrightarrow> cirb_entries c = take (cirb_ct c) (cirb_values c)"
  by (rule nth_equalityI)
     (simp_all add: cirb_entries_def cirb_get_logical_def cirb_logical_to_physical_index_def cirb_ok_def)

lemma cirb_ok_add: "cirb_ok c \<Longrightarrow> cirb_ok (cirb_add c v)"
  by (auto simp: cirb_ok_def cirb_add_def)

lemma cirb_entries_add:
  assumes ok: "cirb_ok c"
  shows "cirb_entries (cirb_add c v) =
    (if length (cirb_entries c) < cirb_size c then cirb_entries c @ [v]
     else tl (cirb_entries c) @ [v])"
proof -
  note ok' = cirb_ok_add [OF ok, of v]
  consider (room) "Suc (cirb_ct c) < cirb_size c" | (fills) "Suc (cirb_ct c) = cirb_size c"
    | (full) "cirb_ct c = cirb_size c"
    using ok unfolding cirb_ok_def by (metis Suc_lessI order_le_less)
  then show ?thesis
  proof cases
    case room
    then show ?thesis
      using ok cirb_entries_part [OF ok'] cirb_entries_part [OF ok]
      by (simp add: cirb_add_def cirb_ok_def take_Suc_conv_app_nth)
  next
    case fills
    then have np: "nextpos c = cirb_ct c" using ok by (simp add: cirb_ok_def)
    have ct: "cirb_ct (cirb_add c v) = cirb_size (cirb_add c v)" "nextpos (cirb_add c v) = 0"
      using fills np by (simp_all add: cirb_add_def)
    have "ring_read ls 0 = ls" for ls :: "Successful_Invocation list"
      by (rule nth_equalityI) (simp_all add: ring_read_def)
    then have "cirb_entries (cirb_add c v) = cirb_values (cirb_add c v)"
      using cirb_entries_full [OF ok' ct(1)] ct(2) by simp
    also have "\<dots> = (cirb_values c)[cirb_ct c := v]" by (simp add: cirb_add_def np)
    also have "\<dots> = take (cirb_ct c) (cirb_values c) @ [v]"
      using ok fills by (simp add: cirb_ok_def upd_conv_take_nth_drop)
    finally have "cirb_entries (cirb_add c v) = cirb_entries c @ [v]"
      using fills cirb_entries_part [OF ok] by simp
    then show ?thesis using fills by simp
  next
    case full
    have "cirb_entries (cirb_add c v) = ring_read ((cirb_values c)[nextpos c := v]) (Suc (nextpos c) mod cirb_size c)"
      using cirb_entries_full [OF ok'] full by (simp add: cirb_add_def)
    also have "\<dots> = ring_read ((cirb_values c)[nextpos c := v]) (Suc (nextpos c))"
      using ok ring_read_mod [of "(cirb_values c)[nextpos c := v]"] by (simp add: cirb_ok_def)
    also have "\<dots> = tl (ring_read (cirb_values c) (nextpos c)) @ [v]"
      using ok by (intro ring_overwrite) (simp add: cirb_ok_def)
    finally show ?thesis
      using full ok by (simp add: cirb_entries_full [OF ok full] cirb_ok_def)
  qed
qed

interpretation cirb: bounded_history cirb_size cirb_ok cirb_add cirb_entries
proof
  fix c v
  assume ok: "cirb_ok c"
  show "cirb_ok (cirb_add c v)" by (rule cirb_ok_add [OF ok])
  show "cirb_size (cirb_add c v) = cirb_size c" by (simp add: cirb_add_def)
  show "cirb_entries (cirb_add c v) =
    (if length (cirb_entries c) < cirb_size c then cirb_entries c @ [v] else tl (cirb_entries c) @ [v])"
    by (rule cirb_entries_add [OF ok])
qed (simp_all add: cirb_ok_def)

lemma cirb_get_latest_eq:
  "cirb_get_latest c ct = (if ct < 0 then cirb_entries c else last_n (nat ct) (cirb_entries c))"
proof (cases "ct < 0 \<or> nat ct > cirb_ct c")
  case True
  then show ?thesis by (auto simp: cirb_get_latest_def cirb_entries_def Let_def last_n_def)
next
  case False
  then have n: "nat ct \<le> cirb_ct c" "\<not> ct < 0" by auto
  show ?thesis
    by (rule nth_equalityI) (use n in \<open>auto simp: cirb_get_latest_def cirb_entries_def Let_def last_n_def add.commute\<close>)
qed

lemma cirb_new_ok: "0 < sz \<Longrightarrow> cirb_ok (cirb_new sz)"
  by (simp add: cirb_ok_def cirb_new_def)


section \<open>Results tables\<close>

definition steps :: "int list" where
  "steps = [0, 5, 10, 20, 30, 50, 70, 100, 130, 160, 200]"

abbreviation step_last :: int where "step_last \<equiv> 10"
abbreviation Target_Max_Tries :: int where "Target_Max_Tries \<equiv> 3"
abbreviation Max_Recent_Values :: nat where "Max_Recent_Values \<equiv> 100"
abbreviation Default_Interval :: int where "Default_Interval \<equiv> 3"

text \<open>The three flags of \<^verbatim>\<open>state\<close> are booleans.\<close>

record Rtable_State =
  rtable_from_cache :: bool
  rtable_bus_detected :: bool
  rtable_edid_verified :: bool

record Results_Table =
  recent_values :: Circular_Invocation_Result_Buffer
  busno :: nat
  cur_step :: int
  remaining_interval :: int
  cur_retry_loop_step :: int
  cur_retry_loop_null_msg_ct :: int
  rt_initial_step :: int
  initial_lookback :: int
  cur_lookback :: int
  adjustments_up :: int
  total_steps_up :: int
  adjustments_down :: int
  total_steps_down :: int
  successful_try_ct :: int
  retryable_failure_ct :: int
  highest_step_complete_loop_failure :: int
  null_msg_max_step_for_success :: int
  latest_avg_tryct_10 :: int
  edid_checksum_byte :: byte
  rt_state :: Rtable_State

definition new_results_table :: "Dsa2_Config \<Rightarrow> nat \<Rightarrow> Results_Table" where
  "new_results_table cfg bus =
     \<lparr>recent_values = cirb_new Max_Recent_Values, busno = bus, cur_step = initial_step cfg,
      remaining_interval = Default_Interval, cur_retry_loop_step = 0,
      cur_retry_loop_null_msg_ct = 0, rt_initial_step = initial_step cfg,
      initial_lookback = global_lookback cfg, cur_lookback = global_lookback cfg,
      adjustments_up = 0, total_steps_up = 0, adjustments_down = 0, total_steps_down = 0,
      successful_try_ct = 0, retryable_failure_ct = 0,
      highest_step_complete_loop_failure = -1, null_msg_max_step_for_success = -1,
      latest_avg_tryct_10 = 0, edid_checksum_byte = 0,
      rt_state = \<lparr>rtable_from_cache = False, rtable_bus_detected = False, rtable_edid_verified = False\<rparr>\<rparr>"

text \<open>
  \<open>imult\<close> is the C value \<^verbatim>\<open>(int)(multiplier * 100)\<close>. The result is the first step from the
  floor on whose value is at least \<open>imult\<close>, or the last step.
\<close>

fun multiplier_search :: "int \<Rightarrow> nat \<Rightarrow> int list \<Rightarrow> nat" where
  "multiplier_search imult ndx [] = ndx"
| "multiplier_search imult ndx (s # ss) =
     (if s \<ge> imult then ndx else multiplier_search imult (ndx + 1) ss)"

definition dsa2_multiplier_to_step :: "Dsa2_Config \<Rightarrow> int \<Rightarrow> int" where
  "dsa2_multiplier_to_step cfg imult =
     (let ndx = int (multiplier_search imult (nat (dsa2_step_floor cfg)) (drop (nat (dsa2_step_floor cfg)) steps))
      in if ndx > step_last then step_last else ndx)"

definition dsa2_step_to_multiplier :: "int \<Rightarrow> int option" where
  "dsa2_step_to_multiplier step = do {
     c_assert (step \<ge> 0 \<and> step \<le> step_last);
     Some (steps ! nat step)
   }"

text \<open>The index is not checked by an assertion; one out of range is \<open>None\<close>.\<close>

definition dsa2_get_adjusted_sleep_mult :: "Results_Table \<Rightarrow> int option" where
  "dsa2_get_adjusted_sleep_mult rtable = do {
     c_assert (0 \<le> cur_retry_loop_step rtable \<and> cur_retry_loop_step rtable < int (length steps));
     Some (steps ! nat (cur_retry_loop_step rtable))
   }"

section \<open>The algorithm\<close>

definition dsa2_too_many_errors :: "Dsa2_Config \<Rightarrow> int \<Rightarrow> int \<Rightarrow> int \<Rightarrow> int \<Rightarrow> bool" where
  "dsa2_too_many_errors cfg most_recent_tryct highest_tryct total_tryct interval =
     (let computed_avg_10 = (total_tryct * 10) div interval
      in most_recent_tryct > Target_Max_Tries \<or>
         highest_tryct > target_greatest_tries_upper_bound cfg \<or>
         computed_avg_10 > target_avg_tries_upper_bound_10 cfg)"

definition dsa2_too_few_errors :: "Dsa2_Config \<Rightarrow> int \<Rightarrow> int \<Rightarrow> int \<Rightarrow> bool" where
  "dsa2_too_few_errors cfg highest_tryct total_tryct interval =
     (let computed_avg_10 = (total_tryct * 10) div interval
      in highest_tryct \<le> target_greatest_tries_lower_bound cfg \<and>
         computed_avg_10 \<le> target_avg_tries_lower_bound_10 cfg)"

text \<open>
  \<open>fadj = remaining_steps / divisor\<close> in floating point: the divisor is
  \<open>remaining_tries - 1\<close>, except for a single remaining try, since the second \<^verbatim>\<open>if\<close> of the C
  code replaces the value of the first, which uses \<open>remaining_tries - 2\<close>. The quotient of two
  small integers lies on the same side of .75 and 1.0 as the exact one, and has the same
  integer part, truncated towards 0.
\<close>

definition retry_adjustment :: "int \<Rightarrow> int \<Rightarrow> int" where
  "retry_adjustment remaining_steps divisor =
     (if 4 * remaining_steps > 3 * divisor \<and> remaining_steps < divisor then 1
      else if remaining_steps \<ge> 0 then remaining_steps div divisor
      else - ((- remaining_steps) div divisor))"

definition dsa2_next_retry_step :: "int \<Rightarrow> int \<Rightarrow> int" where
  "dsa2_next_retry_step prev_step remaining_tries =
     (if remaining_tries > 0
      then let remaining_steps = step_last - prev_step;
               divisor = remaining_tries;
               divisor = (if remaining_tries > 2 then remaining_tries - 2 else divisor);
               divisor = (if remaining_tries > 1 then remaining_tries - 1 else divisor);
               adjustment = retry_adjustment remaining_steps divisor;
               next_step = prev_step + adjustment
           in if next_step > step_last then step_last else next_step
      else prev_step)"

text \<open>
  The table and the step that is returned. \<^verbatim>\<open>next_step = rtable->cur_step++\<close> returns the step
  before the increment.
\<close>

definition dsa2_adjust_for_rcnt_successes ::
    "Dsa2_Config \<Rightarrow> Results_Table \<Rightarrow> (Results_Table \<times> int) option" where
  "dsa2_adjust_for_rcnt_successes cfg rtable = do {
     let next_step = cur_step rtable;
     let latest_values = cirb_get_latest (recent_values rtable) 10;
     let actual_lookback = int (length latest_values);
     c_assert (actual_lookback > 0);
     let max_tryct = foldl max 0 (map tryct latest_values);
     let total_tryct = sum_list (map tryct latest_values);
     let most_recent_step = required_step (last latest_values);
     let most_recent_tryct = tryct (last latest_values);
     c_assert (most_recent_step \<le> step_last);
     let rtable = rtable\<lparr>latest_avg_tryct_10 := (total_tryct * 10) div actual_lookback\<rparr>;
     let (rtable, next_step) =
       (if dsa2_too_many_errors cfg most_recent_tryct max_tryct total_tryct actual_lookback
           \<and> cur_step rtable < most_recent_step
        then (if next_step < step_last
              then (rtable\<lparr>cur_step := cur_step rtable + 1,
                           total_steps_up := total_steps_up rtable + 1,
                           adjustments_up := adjustments_up rtable + 1\<rparr>,
                    cur_step rtable)
              else (rtable, next_step))
        else if actual_lookback \<ge> Min_Decrement_Lookback cfg
                \<and> dsa2_too_few_errors cfg max_tryct total_tryct actual_lookback
                \<and> cur_step rtable > 0
        then (let floor = min (null_msg_max_step_for_success rtable) 3;
                  (rtable, next_step) =
                    (if next_step > floor
                     then (rtable\<lparr>total_steps_down := total_steps_down rtable + 1,
                                  adjustments_down := adjustments_down rtable + 1\<rparr>,
                           cur_step rtable - 1)
                     else (rtable, next_step))
              in (rtable\<lparr>cur_lookback := actual_lookback\<rparr>, next_step))
        else (rtable, next_step));
     c_assert (next_step \<le> step_last);
     Some (rtable, next_step)
   }"

definition dsa2_note_retryable_failure :: "Results_Table \<Rightarrow> int \<Rightarrow> int \<Rightarrow> Results_Table" where
  "dsa2_note_retryable_failure rtable ddcrc remaining_tries =
     (let rtable = rtable\<lparr>retryable_failure_ct := retryable_failure_ct rtable + 1\<rparr>;
          rtable = (if ddcrc = DDCRC_NULL_RESPONSE
                    then rtable\<lparr>cur_retry_loop_null_msg_ct := cur_retry_loop_null_msg_ct rtable + 1\<rparr>
                    else rtable)
      in rtable\<lparr>cur_retry_loop_step :=
           dsa2_next_retry_step (cur_retry_loop_step rtable) remaining_tries\<rparr>)"

text \<open>The branch for success; \<open>now\<close> is \<^verbatim>\<open>time(NULL)\<close>.\<close>

definition record_final_success ::
    "Dsa2_Config \<Rightarrow> int \<Rightarrow> Results_Table \<Rightarrow> int \<Rightarrow> (Results_Table \<times> int) option" where
  "record_final_success cfg now rtable tries =
     (let rtable = rtable\<lparr>successful_try_ct := successful_try_ct rtable + 1\<rparr>;
          si = \<lparr>epoch_seconds = now, tryct = tries, required_step = cur_retry_loop_step rtable\<rparr>;
          rtable = rtable\<lparr>recent_values := cirb_add (recent_values rtable) si\<rparr>
      in if cur_retry_loop_null_msg_ct rtable > 0
         then Some (rtable, min (cur_retry_loop_step rtable + 1) step_last)
         else if tries > Target_Max_Tries
         then Some (rtable, min (cur_retry_loop_step rtable + 1) step_last)
         else if tries > 2
         then (let rtable = rtable\<lparr>remaining_interval := remaining_interval rtable - 1\<rparr>
               in if remaining_interval rtable = 0
                  then do {
                    (rtable, next_cur_step) \<leftarrow> dsa2_adjust_for_rcnt_successes cfg rtable;
                    Some (rtable\<lparr>remaining_interval := adjustment_interval cfg\<rparr>, next_cur_step)
                  }
                  else Some (rtable, cur_step rtable))
         else do {
           (rtable, next_cur_step) \<leftarrow> dsa2_adjust_for_rcnt_successes cfg rtable;
           Some (rtable\<lparr>remaining_interval := adjustment_interval cfg\<rparr>, next_cur_step)
         })"

definition record_final_failure :: "Dsa2_Config \<Rightarrow> Results_Table \<Rightarrow> int \<Rightarrow> Results_Table \<times> int" where
  "record_final_failure cfg rtable ddcrc =
     (let (rtable, next_cur_step) =
        (if ddcrc \<noteq> DDCRC_ALL_RESPONSES_NULL
         then (rtable\<lparr>highest_step_complete_loop_failure :=
                        max (highest_step_complete_loop_failure rtable) (cur_retry_loop_step rtable)\<rparr>,
               min (cur_retry_loop_step rtable + 1) step_last)
         else (rtable, cur_step rtable))
      in (rtable\<lparr>remaining_interval := adjustment_interval cfg\<rparr>, next_cur_step))"

text \<open>The end of \<^verbatim>\<open>dsa2_record_final\<close>: clamp the step, count the change and store it.\<close>

definition record_final_step :: "Dsa2_Config \<Rightarrow> Results_Table \<Rightarrow> int \<Rightarrow> Results_Table" where
  "record_final_step cfg rtable next_cur_step =
     (let next_cur_step = (if next_cur_step < dsa2_step_floor cfg then dsa2_step_floor cfg
                           else if next_cur_step > step_last then step_last else next_cur_step);
          delta = next_cur_step - cur_step rtable;
          rtable = (if delta < 0
                    then rtable\<lparr>adjustments_down := adjustments_down rtable + 1,
                                total_steps_down := total_steps_down rtable - delta\<rparr>
                    else if delta > 0
                    then rtable\<lparr>adjustments_up := adjustments_up rtable + 1,
                                total_steps_up := total_steps_up rtable + delta\<rparr>
                    else rtable)
      in rtable\<lparr>cur_step := next_cur_step, cur_retry_loop_step := next_cur_step,
                cur_retry_loop_null_msg_ct := 0\<rparr>)"

definition dsa2_record_final ::
    "Dsa2_Config \<Rightarrow> int \<Rightarrow> Results_Table \<Rightarrow> int \<Rightarrow> int \<Rightarrow> bool \<Rightarrow> Results_Table option" where
  "dsa2_record_final cfg now rtable ddcrc tries cur_loop_null_adjustment_occurred =
     (if \<not> dsa2_enabled cfg then Some rtable
      else do {
        let rtable = (if cur_loop_null_adjustment_occurred
                      then rtable\<lparr>null_msg_max_step_for_success :=
                             max (null_msg_max_step_for_success rtable) (cur_retry_loop_step rtable)\<rparr>
                      else rtable);
        c_assert (cur_retry_loop_step rtable \<le> step_last);
        c_assert (cur_step rtable \<le> cur_retry_loop_step rtable);
        (rtable, next_cur_step) \<leftarrow>
          (if ddcrc = 0 then record_final_success cfg now rtable tries
           else Some (record_final_failure cfg rtable ddcrc));
        Some (record_final_step cfg rtable next_cur_step)
      })"

section \<open>Invariant\<close>

definition rtable_ok :: "Results_Table \<Rightarrow> bool" where
  "rtable_ok rt \<longleftrightarrow> cirb_ok (recent_values rt) \<and> 0 \<le> cur_step rt \<and>
     cur_step rt \<le> cur_retry_loop_step rt \<and> cur_retry_loop_step rt \<le> step_last"

definition floor_ok :: "Dsa2_Config \<Rightarrow> bool" where
  "floor_ok cfg \<longleftrightarrow> 0 \<le> dsa2_step_floor cfg \<and> dsa2_step_floor cfg \<le> step_last"

lemma retry_adjustment_nonneg:
  "0 \<le> rs \<Longrightarrow> 0 < d \<Longrightarrow> 0 \<le> retry_adjustment rs d"
  by (simp add: retry_adjustment_def pos_imp_zdiv_nonneg_iff)

lemma next_retry_step_range:
  "p \<le> step_last \<Longrightarrow> p \<le> dsa2_next_retry_step p r \<and> dsa2_next_retry_step p r \<le> step_last"
  using retry_adjustment_nonneg [of "step_last - p"]
  by (simp add: dsa2_next_retry_step_def Let_def)

lemma next_retry_step_last:
  "p \<le> step_last \<Longrightarrow> 0 < r \<Longrightarrow> r \<le> 2 \<Longrightarrow> dsa2_next_retry_step p r = step_last"
proof -
  assume "p \<le> step_last" and r: "0 < r" "r \<le> 2"
  then have "r = 1 \<or> r = 2" by linarith
  with \<open>p \<le> step_last\<close> show ?thesis
    by (auto simp: dsa2_next_retry_step_def Let_def retry_adjustment_def)
qed

lemma last_last_n: "0 < n \<Longrightarrow> xs \<noteq> [] \<Longrightarrow> last (last_n n xs) = last xs"
  by (simp add: last_n_def)

lemma adjust_spec:
  assumes ne: "cirb_entries (recent_values rt) \<noteq> []"
    and step: "required_step (last (cirb_entries (recent_values rt))) \<le> step_last"
    and cs: "0 \<le> cur_step rt" "cur_step rt \<le> step_last"
  shows "\<exists>rt' ns. dsa2_adjust_for_rcnt_successes cfg rt = Some (rt', ns) \<and>
    0 \<le> ns \<and> ns \<le> cur_step rt \<and> recent_values rt' = recent_values rt \<and>
    0 \<le> cur_step rt' \<and> cur_retry_loop_step rt' = cur_retry_loop_step rt"
proof -
  let ?lv = "cirb_get_latest (recent_values rt) 10"
  have "cirb_ct (recent_values rt) \<noteq> 0" using ne by (metis length_0_conv length_cirb_entries)
  then have lv: "?lv \<noteq> []" "last ?lv = last (cirb_entries (recent_values rt))"
    using ne by (simp_all add: cirb_get_latest_eq last_last_n) (simp add: last_n_def)
  show ?thesis
    unfolding dsa2_adjust_for_rcnt_successes_def Let_def
    using lv step cs by (auto simp: Let_def split: if_splits)
qed

text \<open>The success branch.\<close>

lemma record_final_success_spec:
  assumes ok: "rtable_ok rt"
  shows "\<exists>rt' ns. record_final_success cfg now rt tries = Some (rt', ns) \<and>
    0 \<le> ns \<and> ns \<le> step_last \<and>
    (cur_retry_loop_null_msg_ct rt \<le> 0 \<and> tries \<le> Target_Max_Tries \<longrightarrow> ns \<le> cur_step rt) \<and>
    recent_values rt' = cirb_add (recent_values rt)
      \<lparr>epoch_seconds = now, tryct = tries, required_step = cur_retry_loop_step rt\<rparr>"
proof -
  define si where "si = \<lparr>epoch_seconds = now, tryct = tries, required_step = cur_retry_loop_step rt\<rparr>"
  define rt1 where "rt1 = rt\<lparr>successful_try_ct := successful_try_ct rt + 1,
    recent_values := cirb_add (recent_values rt) si\<rparr>"
  have ok1: "cirb_ok (recent_values rt)" "0 \<le> cur_step rt" "cur_step rt \<le> cur_retry_loop_step rt"
    "cur_retry_loop_step rt \<le> step_last" using ok by (simp_all add: rtable_ok_def)
  have ne: "cirb_entries (cirb_add (recent_values rt) si) \<noteq> []"
    using cirb.entries_add [OF ok1(1), of si] by simp
  have lst: "last (cirb_entries (cirb_add (recent_values rt) si)) = si"
    by (rule cirb.last_entry [OF ok1(1)])
  have adj: "\<exists>rt' ns. dsa2_adjust_for_rcnt_successes cfg r = Some (rt', ns) \<and>
    0 \<le> ns \<and> ns \<le> cur_step rt \<and> recent_values rt' = recent_values rt1"
    if "recent_values r = recent_values rt1" "cur_step r = cur_step rt" for r
    using adjust_spec [of r cfg] ne lst ok1 that by (fastforce simp: rt1_def si_def)
  obtain ra na where ra: "dsa2_adjust_for_rcnt_successes cfg (rt1\<lparr>remaining_interval := remaining_interval rt - 1\<rparr>)
      = Some (ra, na)" "0 \<le> na" "na \<le> cur_step rt" "recent_values ra = recent_values rt1"
    using adj [of "rt1\<lparr>remaining_interval := remaining_interval rt - 1\<rparr>"] by (auto simp: rt1_def)
  obtain rb nb where rb: "dsa2_adjust_for_rcnt_successes cfg rt1
      = Some (rb, nb)" "0 \<le> nb" "nb \<le> cur_step rt" "recent_values rb = recent_values rt1"
    using adj [of rt1] by (auto simp: rt1_def)
  show ?thesis
    using ok1 ra rb unfolding record_final_success_def Let_def
    by (auto simp: rt1_def si_def)
qed

lemma record_final_step_spec:
  "floor_ok cfg \<Longrightarrow> cirb_ok (recent_values rt) \<Longrightarrow> rtable_ok (record_final_step cfg rt ns)"
  "cur_step (record_final_step cfg rt ns) =
     (if ns < dsa2_step_floor cfg then dsa2_step_floor cfg else if ns > step_last then step_last else ns)"
  "recent_values (record_final_step cfg rt ns) = recent_values rt"
  by (simp_all add: record_final_step_def rtable_ok_def floor_ok_def Let_def)

lemma record_final_ok:
  assumes ok: "rtable_ok rt" and fl: "floor_ok cfg"
  shows "\<exists>rt'. dsa2_record_final cfg now rt ddcrc tries adj = Some rt' \<and> rtable_ok rt'"
proof -
  let ?rt = "if adj then rt\<lparr>null_msg_max_step_for_success :=
     max (null_msg_max_step_for_success rt) (cur_retry_loop_step rt)\<rparr> else rt"
  have ok': "rtable_ok ?rt" using ok by (simp add: rtable_ok_def)
  then have b: "cur_retry_loop_step ?rt \<le> step_last" "cur_step ?rt \<le> cur_retry_loop_step ?rt"
    by (simp_all add: rtable_ok_def)
  obtain r1 n1 where s: "record_final_success cfg now ?rt tries = Some (r1, n1)"
    "recent_values r1 = cirb_add (recent_values ?rt)
      \<lparr>epoch_seconds = now, tryct = tries, required_step = cur_retry_loop_step ?rt\<rparr>"
    using record_final_success_spec [OF ok', of cfg now tries] by blast
  have "cirb_ok (recent_values r1)" using s(2) ok' by (simp add: cirb_ok_add rtable_ok_def)
  moreover have "cirb_ok (recent_values (fst (record_final_failure cfg ?rt ddcrc)))"
    using ok by (simp add: record_final_failure_def rtable_ok_def)
  ultimately show ?thesis
    using ok b s(1) record_final_step_spec(1) [OF fl]
    unfolding dsa2_record_final_def Let_def
    by (auto simp: split_def)
qed

lemma note_failure_ok: "rtable_ok rt \<Longrightarrow> rtable_ok (dsa2_note_retryable_failure rt ddcrc r)"
  using next_retry_step_range [of "cur_retry_loop_step rt" r]
  by (simp add: rtable_ok_def dsa2_note_retryable_failure_def Let_def)

lemma get_mult_ok: "rtable_ok rt \<Longrightarrow> \<exists>m. dsa2_get_adjusted_sleep_mult rt = Some m \<and> m \<in> set steps"
proof -
  assume "rtable_ok rt"
  moreover have "length steps = 11" by (simp add: steps_def)
  ultimately have "0 \<le> cur_retry_loop_step rt" "nat (cur_retry_loop_step rt) < length steps"
    unfolding rtable_ok_def by linarith+
  then show ?thesis
    using nth_mem [of "nat (cur_retry_loop_step rt)" steps]
    by (auto simp: dsa2_get_adjusted_sleep_mult_def c_assert_def)
qed

section \<open>Properties\<close>

text \<open>What the write-read loop reports: a retryable failure, or the end of a loop.\<close>

datatype Dsa2_Event =
    Retryable_Failure int int
  | Loop_End int int int bool

fun dsa2_run :: "Dsa2_Config \<Rightarrow> Results_Table \<Rightarrow> Dsa2_Event list \<Rightarrow> Results_Table option" where
  "dsa2_run cfg rt [] = Some rt"
| "dsa2_run cfg rt (Retryable_Failure ddcrc remaining # evs) =
     dsa2_run cfg (dsa2_note_retryable_failure rt ddcrc remaining) evs"
| "dsa2_run cfg rt (Loop_End now ddcrc tries adj # evs) =
     (case dsa2_record_final cfg now rt ddcrc tries adj of
        None \<Rightarrow> None | Some rt' \<Rightarrow> dsa2_run cfg rt' evs)"

text \<open>C10 (dsa2_never_stops): whatever sequence of retryable failures and loop ends is reported, no assertion of the algorithm fails, and the sleep multiplier in effect afterwards is one of the table of steps.\<close>

theorem dsa2_never_stops:
  assumes "rtable_ok rt" and "floor_ok cfg"
  shows "\<exists>rt' m. dsa2_run cfg rt evs = Some rt' \<and> rtable_ok rt' \<and>
    dsa2_get_adjusted_sleep_mult rt' = Some m \<and> m \<in> set steps"
  using assms
proof (induction cfg rt evs rule: dsa2_run.induct)
  case (1 cfg rt)
  then show ?case using get_mult_ok [of rt] by simp
next
  case (2 cfg rt ddcrc remaining evs)
  then show ?case by (simp add: note_failure_ok)
next
  case (3 cfg rt now ddcrc tries adj evs)
  then show ?case using record_final_ok [of rt cfg now ddcrc tries adj] by auto
qed

theorem dsa2_never_stops_witness:
  "\<exists>rt' m. dsa2_run default_config ((new_results_table default_config 4)\<lparr>cur_retry_loop_step := 7\<rparr>)
      [Retryable_Failure DDCRC_NULL_RESPONSE 9, Loop_End 0 0 2 False] = Some rt' \<and> rtable_ok rt' \<and>
    dsa2_get_adjusted_sleep_mult rt' = Some m \<and> m \<in> set steps"
  by (rule dsa2_never_stops)
     (simp_all add: rtable_ok_def floor_ok_def new_results_table_def default_config_def cirb_new_ok)

text \<open>C11 (dsa2_retry_step_schedule): after a retryable failure the step never goes down and never passes the last step; with one or two tries left it is the last step.\<close>

theorem dsa2_retry_step_schedule:
  assumes "prev_step \<le> step_last"
  shows "prev_step \<le> dsa2_next_retry_step prev_step r \<and> dsa2_next_retry_step prev_step r \<le> step_last \<and>
    (r \<in> {1, 2} \<longrightarrow> dsa2_next_retry_step prev_step r = step_last)"
  using next_retry_step_range [OF assms] next_retry_step_last [OF assms] by auto

theorem dsa2_retry_step_schedule_witness:
  "7 \<le> dsa2_next_retry_step 7 2 \<and> dsa2_next_retry_step 7 2 = step_last"
  using dsa2_retry_step_schedule [of 7 2] by simp

text \<open>When an operation succeeds within three tries and no null response was seen, the stored step does not go up (above the floor), even when the recent invocations show too many errors: the increment made for them is overwritten.\<close>

theorem dsa2_success_never_raises_step:
  assumes "rtable_ok rt" and "floor_ok cfg" and "dsa2_enabled cfg"
    and "cur_retry_loop_null_msg_ct rt \<le> 0" and "tries \<le> Target_Max_Tries"
  shows "\<exists>rt'. dsa2_record_final cfg now rt 0 tries False = Some rt' \<and>
    cur_step rt' \<le> max (dsa2_step_floor cfg) (cur_step rt)"
proof -
  obtain r1 n1 where s: "record_final_success cfg now rt tries = Some (r1, n1)"
    "n1 \<le> cur_step rt" "n1 \<le> step_last"
    using record_final_success_spec [OF assms(1), of cfg now tries] assms(4,5) by blast
  then show ?thesis
    using assms(1,3) by (simp add: dsa2_record_final_def rtable_ok_def record_final_step_spec(2))
qed

theorem dsa2_success_never_raises_step_witness:
  "\<exists>rt'. dsa2_record_final default_config 0
      ((new_results_table default_config 4)\<lparr>cur_retry_loop_step := 10\<rparr>) 0 2 False = Some rt' \<and>
    cur_step rt' \<le> max (dsa2_step_floor default_config)
      (cur_step ((new_results_table default_config 4)\<lparr>cur_retry_loop_step := 10\<rparr>))"
  by (rule dsa2_success_never_raises_step)
     (simp_all add: rtable_ok_def floor_ok_def new_results_table_def default_config_def cirb_new_ok)

text \<open>When all tries of a loop fail for a reason other than null responses, the next operation starts one step above the step the failed loop reached, at most the last step and at least the floor.\<close>

theorem dsa2_failed_loop_raises_step:
  assumes "rtable_ok rt" and "floor_ok cfg" and "dsa2_enabled cfg"
    and "ddcrc \<noteq> 0" and "ddcrc \<noteq> DDCRC_ALL_RESPONSES_NULL"
  shows "\<exists>rt'. dsa2_record_final cfg now rt ddcrc tries adj = Some rt' \<and>
    cur_step rt' = max (dsa2_step_floor cfg) (min (cur_retry_loop_step rt + 1) step_last) \<and>
    cur_retry_loop_step rt' = cur_step rt'"
  using assms
  by (auto simp: dsa2_record_final_def record_final_failure_def record_final_step_def rtable_ok_def
      floor_ok_def Let_def)

theorem dsa2_failed_loop_raises_step_witness:
  "\<exists>rt'. dsa2_record_final default_config 0
      ((new_results_table default_config 4)\<lparr>cur_retry_loop_step := 8\<rparr>) DDCRC_RETRIES 10 False = Some rt' \<and>
    cur_step rt' = max (dsa2_step_floor default_config)
      (min (cur_retry_loop_step ((new_results_table default_config 4)\<lparr>cur_retry_loop_step := 8\<rparr>) + 1) step_last) \<and>
    cur_retry_loop_step rt' = cur_step rt'"
  by (rule dsa2_failed_loop_raises_step)
     (simp_all add: rtable_ok_def floor_ok_def new_results_table_def default_config_def cirb_new_ok)

end
