(* ===== verification/Per_Display.thy ===== *)
theory Per_Display
  imports Dsa2 Complex_Main
begin

text \<open>
  The results tables of \<^verbatim>\<open>src/src/base/dsa2.c\<close> as objects in memory, and the data kept for
  each display, \<^verbatim>\<open>src/src/base/per_display_data.c\<close>. A \<^verbatim>\<open>Per_Display_Data\<close> struct points to the
  \<^verbatim>\<open>Results_Table\<close> of its bus: the tables live in a heap of addresses, \<open>None\<close> is the null
  pointer, and reading or writing an address that is not allocated is the abnormal end.
  Addresses are not reused. The byte of the EDID is read from the bus information, which is
  the argument \<open>get_edid_checkbyte\<close>. Only displays on I2C buses have such data.
\<close>

section \<open>Multipliers\<close>

text \<open>
  A multiplier is a C \<^verbatim>\<open>double\<close>, here its value as a rational number. Arithmetic on
  \<^verbatim>\<open>double\<close> rounds the exact result to 53 significant bits, the conversion to \<^verbatim>\<open>float\<close> to
  24 bits, in both cases to the nearest value, ties to even. The range of the exponent is not
  an issue for multipliers; the fuel of the search for the exponent covers 2 to the power
  of 150 in both directions.
\<close>

fun normalise_sig :: "nat \<Rightarrow> nat \<Rightarrow> rat \<Rightarrow> int \<Rightarrow> rat \<times> int" where
  "normalise_sig p 0 m e = (m, e)"
| "normalise_sig p (Suc fuel) m e =
     (if m < 2 ^ (p - 1) then normalise_sig p fuel (m * 2) (e - 1)
      else if m \<ge> 2 ^ p then normalise_sig p fuel (m / 2) (e + 1)
      else (m, e))"

definition round_even :: "rat \<Rightarrow> int" where
  "round_even m =
     (let f = \<lfloor>m\<rfloor>; r = m - of_int f
      in if r < 1/2 then f else if r > 1/2 then f + 1 else if even f then f else f + 1)"

definition round_sig :: "nat \<Rightarrow> rat \<Rightarrow> rat" where
  "round_sig p x =
     (if x = 0 then 0
      else let (m, e) = normalise_sig p 200 \<bar>x\<bar> 0;
               v = of_int (round_even m) * (if e \<ge> 0 then 2 ^ nat e else 1 / 2 ^ nat (- e))
           in if x < 0 then - v else v)"

definition float_round :: "rat \<Rightarrow> rat" where "float_round = round_sig 24"
definition double_round :: "rat \<Rightarrow> rat" where "double_round = round_sig 53"

text \<open>C's conversion of a \<^verbatim>\<open>double\<close> to \<^verbatim>\<open>int\<close> truncates towards 0.\<close>

definition trunc_int :: "rat \<Rightarrow> int" where
  "trunc_int x = (if x \<ge> 0 then \<lfloor>x\<rfloor> else - \<lfloor>- x\<rfloor>)"

text \<open>\<^verbatim>\<open>int imult = multiplier * 100\<close>, the argument of \<open>dsa2_multiplier_to_step\<close>.\<close>

definition hundredths :: "rat \<Rightarrow> int" where
  "hundredths multiplier = trunc_int (double_round (multiplier * 100))"

section \<open>State\<close>

abbreviation I2C_BUS_MAX :: nat where "I2C_BUS_MAX \<equiv> 64"

record Dsa2_State =
  dsa2_cfg :: Dsa2_Config
  rt_heap :: "nat \<Rightarrow> Results_Table option"
  rt_next :: nat
  results_tables :: "nat option list"

definition init_dsa2 :: Dsa2_State where
  "init_dsa2 =
     \<lparr>dsa2_cfg = default_config, rt_heap = (\<lambda>_. None), rt_next = 0,
      results_tables = replicate (I2C_BUS_MAX + 1) None\<rparr>"

definition rt_alloc :: "Results_Table \<Rightarrow> Dsa2_State \<Rightarrow> nat \<times> Dsa2_State" where
  "rt_alloc rt st =
     (rt_next st, st\<lparr>rt_heap := (rt_heap st)(rt_next st \<mapsto> rt), rt_next := rt_next st + 1\<rparr>)"

definition free_results_table :: "nat \<Rightarrow> Dsa2_State \<Rightarrow> Dsa2_State" where
  "free_results_table a st = st\<lparr>rt_heap := (rt_heap st)(a := None)\<rparr>"

definition set_results_table :: "nat \<Rightarrow> nat option \<Rightarrow> Dsa2_State \<Rightarrow> Dsa2_State" where
  "set_results_table bus p st = st\<lparr>results_tables := (results_tables st)[bus := p]\<rparr>"

definition rt_write :: "nat \<Rightarrow> Results_Table \<Rightarrow> Dsa2_State \<Rightarrow> Dsa2_State option" where
  "rt_write a rt st = do {
     c_assert (rt_heap st a \<noteq> None);
     Some (st\<lparr>rt_heap := (rt_heap st)(a \<mapsto> rt)\<rparr>)
   }"

section \<open>Results tables by bus\<close>

definition dsa2_reset_results_table ::
    "(nat \<Rightarrow> byte) \<Rightarrow> nat \<Rightarrow> rat \<Rightarrow> Dsa2_State \<Rightarrow> Dsa2_State option" where
  "dsa2_reset_results_table get_edid_checkbyte bus multiplier st = do {
     c_assert (bus < length (results_tables st));
     let st = (case results_tables st ! bus of None \<Rightarrow> st | Some a \<Rightarrow> free_results_table a st);
     let cfg = dsa2_cfg st;
     let istep = (if multiplier \<ge> 0 then dsa2_multiplier_to_step cfg (hundredths multiplier)
                  else dsa2_multiplier_to_step cfg (hundredths 1));
     let rt = (new_results_table cfg bus)
       \<lparr>rt_initial_step := istep, cur_step := istep, cur_retry_loop_step := istep,
        rt_state := \<lparr>rtable_from_cache = False, rtable_bus_detected = True, rtable_edid_verified = False\<rparr>,
        edid_checksum_byte := get_edid_checkbyte bus\<rparr>;
     let (a, st) = rt_alloc rt st;
     Some (set_results_table bus (Some a) st)
   }"

text \<open>The check of a table that came from the cache: the pointer that is left, and the state.\<close>

definition verify_cached_table ::
    "(nat \<Rightarrow> byte) \<Rightarrow> nat \<Rightarrow> nat \<Rightarrow> Dsa2_State \<Rightarrow> (nat option \<times> Dsa2_State) option" where
  "verify_cached_table get_edid_checkbyte bus a st = do {
     rt \<leftarrow> rt_heap st a;
     let rt = rt\<lparr>rt_state := (rt_state rt)\<lparr>rtable_bus_detected := True\<rparr>\<rparr>;
     st \<leftarrow> rt_write a rt st;
     (if rtable_from_cache (rt_state rt) \<and> \<not> rtable_edid_verified (rt_state rt)
      then (if get_edid_checkbyte bus \<noteq> edid_checksum_byte rt
            then Some (None, set_results_table bus None (free_results_table a st))
            else do {
              st \<leftarrow> rt_write a (rt\<lparr>rt_state := (rt_state rt)\<lparr>rtable_edid_verified := True\<rparr>\<rparr>) st;
              Some (Some a, st)
            })
      else Some (Some a, st))
   }"

definition dsa2_get_results_table_by_busno ::
    "(nat \<Rightarrow> byte) \<Rightarrow> nat \<Rightarrow> bool \<Rightarrow> Dsa2_State \<Rightarrow> (nat option \<times> Dsa2_State) option" where
  "dsa2_get_results_table_by_busno get_edid_checkbyte bus create_if_not_found st = do {
     c_assert (bus \<le> I2C_BUS_MAX);
     (p, st) \<leftarrow> (case results_tables st ! bus of
                  None \<Rightarrow> Some (None, st)
                | Some a \<Rightarrow> verify_cached_table get_edid_checkbyte bus a st);
     (if p = None \<and> create_if_not_found
      then let cfg = dsa2_cfg st;
               rt = (new_results_table cfg bus)
                 \<lparr>cur_step := initial_step cfg, cur_retry_loop_step := initial_step cfg,
                  rt_state := \<lparr>rtable_from_cache = False, rtable_bus_detected = True, rtable_edid_verified = False\<rparr>,
                  edid_checksum_byte := get_edid_checkbyte bus\<rparr>;
               (a, st) = rt_alloc rt st
           in Some (Some a, set_results_table bus (Some a) st)
      else Some (p, st))
   }"

text \<open>The loop runs over the buses below \<open>I2C_BUS_MAX\<close>; the array has one entry more.\<close>

definition reset_one_multiplier :: "int \<Rightarrow> nat \<Rightarrow> Dsa2_State \<Rightarrow> Dsa2_State option" where
  "reset_one_multiplier istep bus st =
     (case results_tables st ! bus of
        None \<Rightarrow> Some st
      | Some a \<Rightarrow> do {
          rt \<leftarrow> rt_heap st a;
          rt_write a (rt\<lparr>cur_step := istep, cur_retry_loop_step := istep, adjustments_down := 0,
            adjustments_up := 0, total_steps_up := 0, total_steps_down := 0,
            successful_try_ct := 0, retryable_failure_ct := 0\<rparr>) st
        })"

fun reset_multipliers :: "int \<Rightarrow> nat list \<Rightarrow> Dsa2_State \<Rightarrow> Dsa2_State option" where
  "reset_multipliers istep [] st = Some st"
| "reset_multipliers istep (b # bs) st = do {
     st \<leftarrow> reset_one_multiplier istep b st;
     reset_multipliers istep bs st
   }"

definition dsa2_reset_multiplier :: "rat \<Rightarrow> Dsa2_State \<Rightarrow> Dsa2_State option" where
  "dsa2_reset_multiplier multiplier st =
     (let istep = dsa2_multiplier_to_step (dsa2_cfg st) (hundredths multiplier);
          st = st\<lparr>dsa2_cfg := (dsa2_cfg st)\<lparr>initial_step := istep\<rparr>\<rparr>
      in reset_multipliers istep [0..<I2C_BUS_MAX] st)"

section \<open>Data of a display\<close>

datatype User_Multiplier_Source = Default | Explicit | Reset

record Per_Display_Data =
  pdd_busno :: nat
  user_sleep_multiplier :: rat
  user_multiplier_source :: User_Multiplier_Source
  dsa2_data :: "nat option"
  total_sleep_time_millis :: int
  cur_loop_null_msg_ct :: int
  initial_adjusted_sleep_multiplier :: rat
  final_successful_adjusted_sleep_multiplier :: rat
  min_successful_sleep_multiplier :: rat
  max_successful_sleep_multiplier :: rat
  total_successful_sleep_multiplier :: rat
  successful_sleep_multiplier_ct :: int
  pdd_dsa2_enabled :: bool
  dynamic_sleep_active :: bool
  cur_loop_null_adjustment_occurred :: bool

text \<open>The static variables \<^verbatim>\<open>default_user_sleep_multiplier\<close> and its source are arguments.\<close>

definition pdd_init_pdd ::
    "(nat \<Rightarrow> byte) \<Rightarrow> rat \<Rightarrow> User_Multiplier_Source \<Rightarrow> nat \<Rightarrow> Dsa2_State \<Rightarrow>
     (Per_Display_Data \<times> Dsa2_State) option" where
  "pdd_init_pdd get_edid_checkbyte default_mult default_source bus st = do {
     let enabled = dsa2_enabled (dsa2_cfg st);
     (p, st) \<leftarrow> (if enabled then dsa2_get_results_table_by_busno get_edid_checkbyte bus True st
                else Some (None, st));
     Some (\<lparr>pdd_busno = bus, user_sleep_multiplier = default_mult,
            user_multiplier_source = default_source, dsa2_data = p,
            total_sleep_time_millis = 0, cur_loop_null_msg_ct = 0,
            initial_adjusted_sleep_multiplier = -1,
            final_successful_adjusted_sleep_multiplier = -1,
            min_successful_sleep_multiplier = -1, max_successful_sleep_multiplier = -1,
            total_successful_sleep_multiplier = 0, successful_sleep_multiplier_ct = 0,
            pdd_dsa2_enabled = enabled, dynamic_sleep_active = True,
            cur_loop_null_adjustment_occurred = False\<rparr>, st)
   }"

definition pdd_set_dynamic_sleep_active :: "bool \<Rightarrow> Per_Display_Data \<Rightarrow> bool \<times> Per_Display_Data" where
  "pdd_set_dynamic_sleep_active onoff pdd =
     (dynamic_sleep_active pdd, pdd\<lparr>dynamic_sleep_active := onoff\<rparr>)"

definition pdd_enable_dynamic_sleep :: "Per_Display_Data \<Rightarrow> Per_Display_Data" where
  "pdd_enable_dynamic_sleep pdd = pdd\<lparr>pdd_dsa2_enabled := True\<rparr>"

definition pdd_disable_dynamic_sleep :: "Per_Display_Data \<Rightarrow> Per_Display_Data" where
  "pdd_disable_dynamic_sleep pdd = pdd\<lparr>pdd_dsa2_enabled := False\<rparr>"

text \<open>The table a display points to; a null or dangling pointer is the abnormal end.\<close>

definition pdd_table :: "Dsa2_State \<Rightarrow> Per_Display_Data \<Rightarrow> (nat \<times> Results_Table) option" where
  "pdd_table st pdd = do {
     a \<leftarrow> dsa2_data pdd;
     rt \<leftarrow> rt_heap st a;
     Some (a, rt)
   }"

definition pdd_get_adjusted_sleep_multiplier :: "Dsa2_State \<Rightarrow> Per_Display_Data \<Rightarrow> rat option" where
  "pdd_get_adjusted_sleep_multiplier st pdd =
     (if dynamic_sleep_active pdd \<and> pdd_dsa2_enabled pdd
      then do {
        (a, rt) \<leftarrow> pdd_table st pdd;
        m \<leftarrow> dsa2_get_adjusted_sleep_mult rt;
        Some (float_round (double_round (of_int m / 100)))
      }
      else Some (float_round (user_sleep_multiplier pdd)))"

definition pdd_record_adjusted_sleep_multiplier ::
    "bool \<Rightarrow> Dsa2_State \<Rightarrow> Per_Display_Data \<Rightarrow> Per_Display_Data option" where
  "pdd_record_adjusted_sleep_multiplier successful st pdd = do {
     cur \<leftarrow> pdd_get_adjusted_sleep_multiplier st pdd;
     Some (if cur \<ge> 0
           then let pdd = (if initial_adjusted_sleep_multiplier pdd < 0
                           then pdd\<lparr>initial_adjusted_sleep_multiplier := cur\<rparr> else pdd)
                in if successful
                   then let pdd = pdd\<lparr>final_successful_adjusted_sleep_multiplier := cur,
                              successful_sleep_multiplier_ct := successful_sleep_multiplier_ct pdd + 1,
                              total_successful_sleep_multiplier :=
                                double_round (total_successful_sleep_multiplier pdd + cur)\<rparr>;
                            pdd = (if max_successful_sleep_multiplier pdd < 0 \<or>
                                      cur > max_successful_sleep_multiplier pdd
                                   then pdd\<lparr>max_successful_sleep_multiplier := cur\<rparr> else pdd)
                        in if min_successful_sleep_multiplier pdd < 0 \<or>
                              cur < min_successful_sleep_multiplier pdd
                           then pdd\<lparr>min_successful_sleep_multiplier := cur\<rparr> else pdd
                   else pdd
           else pdd)
   }"

definition pdd_note_retryable_failure ::
    "int \<Rightarrow> int \<Rightarrow> Dsa2_State \<Rightarrow> Per_Display_Data \<Rightarrow> (Dsa2_State \<times> Per_Display_Data) option" where
  "pdd_note_retryable_failure ddcrc remaining_tries st pdd =
     (if dynamic_sleep_active pdd
      then do {
        st \<leftarrow> (if pdd_dsa2_enabled pdd
               then do {
                 (a, rt) \<leftarrow> pdd_table st pdd;
                 rt_write a (dsa2_note_retryable_failure rt ddcrc remaining_tries) st
               }
               else Some st);
        pdd \<leftarrow> pdd_record_adjusted_sleep_multiplier False st pdd;
        Some (st, if ddcrc = DDCRC_NULL_RESPONSE
                  then pdd\<lparr>cur_loop_null_msg_ct := cur_loop_null_msg_ct pdd + 1\<rparr> else pdd)
      }
      else Some (st, pdd))"

definition pdd_record_final ::
    "int \<Rightarrow> int \<Rightarrow> int \<Rightarrow> Dsa2_State \<Rightarrow> Per_Display_Data \<Rightarrow> (Dsa2_State \<times> Per_Display_Data) option" where
  "pdd_record_final now ddcrc tries st pdd = do {
     (st, pdd) \<leftarrow>
       (if dynamic_sleep_active pdd
        then do {
          st \<leftarrow> (if pdd_dsa2_enabled pdd
                 then do {
                   (a, rt) \<leftarrow> pdd_table st pdd;
                   rt \<leftarrow> dsa2_record_final (dsa2_cfg st) now rt ddcrc tries
                           (cur_loop_null_adjustment_occurred pdd);
                   rt_write a rt st
                 }
                 else Some st);
          pdd \<leftarrow> pdd_record_adjusted_sleep_multiplier (ddcrc = 0) st pdd;
          Some (st, pdd)
        }
        else Some (st, pdd));
     Some (st, pdd\<lparr>cur_loop_null_msg_ct := 0, cur_loop_null_adjustment_occurred := False\<rparr>)
   }"

definition pdd_reset_multiplier ::
    "(nat \<Rightarrow> byte) \<Rightarrow> rat \<Rightarrow> Dsa2_State \<Rightarrow> Per_Display_Data \<Rightarrow> (Dsa2_State \<times> Per_Display_Data) option" where
  "pdd_reset_multiplier get_edid_checkbyte multiplier st pdd = do {
     let pdd = pdd\<lparr>user_sleep_multiplier := multiplier, user_multiplier_source := Reset\<rparr>;
     st \<leftarrow> (if pdd_dsa2_enabled pdd
            then dsa2_reset_results_table get_edid_checkbyte (pdd_busno pdd) multiplier st
            else Some st);
     Some (st, pdd)
   }"

section \<open>Invariant\<close>

text \<open>
  The pointer of the display is alive and its table well formed, whenever the algorithm is
  used for it.
\<close>

definition pdd_ok :: "Dsa2_State \<Rightarrow> Per_Display_Data \<Rightarrow> bool" where
  "pdd_ok st pdd \<longleftrightarrow> floor_ok (dsa2_cfg st) \<and>
     (pdd_dsa2_enabled pdd \<longrightarrow> (\<exists>a rt. dsa2_data pdd = Some a \<and> rt_heap st a = Some rt \<and> rtable_ok rt))"

lemma record_multiplier_fields:
  assumes "pdd_record_adjusted_sleep_multiplier s st pdd = Some pdd'"
  shows "dsa2_data pdd' = dsa2_data pdd \<and> pdd_dsa2_enabled pdd' = pdd_dsa2_enabled pdd \<and>
    dynamic_sleep_active pdd' = dynamic_sleep_active pdd \<and>
    cur_loop_null_msg_ct pdd' = cur_loop_null_msg_ct pdd"
  using assms
  by (auto simp: pdd_record_adjusted_sleep_multiplier_def Let_def split: Option.bind_splits if_splits)

lemma get_mult_Some: "pdd_ok st pdd \<Longrightarrow> \<exists>m. pdd_get_adjusted_sleep_multiplier st pdd = Some m"
  using get_mult_ok
  by (fastforce simp: pdd_ok_def pdd_get_adjusted_sleep_multiplier_def pdd_table_def)

lemma record_multiplier_Some:
  "pdd_ok st pdd \<Longrightarrow> \<exists>pdd'. pdd_record_adjusted_sleep_multiplier s st pdd = Some pdd'"
  using get_mult_Some [of st pdd] by (auto simp: pdd_record_adjusted_sleep_multiplier_def)

lemma pdd_ok_write:
  "pdd_ok st pdd \<Longrightarrow> rtable_ok rt \<Longrightarrow> dsa2_data pdd = Some a \<Longrightarrow>
   pdd_ok (st\<lparr>rt_heap := (rt_heap st)(a \<mapsto> rt)\<rparr>) pdd"
  by (auto simp: pdd_ok_def)

lemma pdd_ok_fields:
  "pdd_ok st pdd \<Longrightarrow> dsa2_data pdd' = dsa2_data pdd \<Longrightarrow> pdd_dsa2_enabled pdd' = pdd_dsa2_enabled pdd \<Longrightarrow>
   pdd_ok st pdd'"
  by (simp add: pdd_ok_def)

lemma note_failure_pdd_ok:
  assumes ok: "pdd_ok st pdd"
  shows "\<exists>st' pdd'. pdd_note_retryable_failure ddcrc r st pdd = Some (st', pdd') \<and> pdd_ok st' pdd'"
proof (cases "dynamic_sleep_active pdd")
  case False
  with ok show ?thesis by (simp add: pdd_note_retryable_failure_def)
next
  case True
  obtain st1 where st1: "(if pdd_dsa2_enabled pdd
       then do {
         (a, rt) \<leftarrow> pdd_table st pdd;
         rt_write a (dsa2_note_retryable_failure rt ddcrc r) st
       }
       else Some st) = Some st1" "pdd_ok st1 pdd"
  proof (cases "pdd_dsa2_enabled pdd")
    case True
    then obtain a rt where a: "dsa2_data pdd = Some a" "rt_heap st a = Some rt" "rtable_ok rt"
      using ok by (auto simp: pdd_ok_def)
    show thesis
      by (rule that [of "st\<lparr>rt_heap := (rt_heap st)(a \<mapsto> dsa2_note_retryable_failure rt ddcrc r)\<rparr>"])
         (use a True ok in \<open>simp_all add: pdd_table_def rt_write_def pdd_ok_write note_failure_ok\<close>)
  next
    case False
    with ok show thesis by (intro that [of st]) simp_all
  qed
  from record_multiplier_Some [OF st1(2)] obtain pdd1 where
    "pdd_record_adjusted_sleep_multiplier False st1 pdd = Some pdd1" by blast
  with True st1 record_multiplier_fields [OF this] show ?thesis
    by (simp add: pdd_note_retryable_failure_def pdd_ok_fields)
qed

lemma record_final_pdd_ok:
  assumes ok: "pdd_ok st pdd"
  shows "\<exists>st' pdd'. pdd_record_final now ddcrc tries st pdd = Some (st', pdd') \<and> pdd_ok st' pdd' \<and>
    cur_loop_null_msg_ct pdd' = 0"
proof (cases "dynamic_sleep_active pdd")
  case False
  with ok show ?thesis by (simp add: pdd_record_final_def pdd_ok_fields)
next
  case True
  obtain st1 where st1: "(if pdd_dsa2_enabled pdd
       then do {
         (a, rt) \<leftarrow> pdd_table st pdd;
         rt \<leftarrow> dsa2_record_final (dsa2_cfg st) now rt ddcrc tries (cur_loop_null_adjustment_occurred pdd);
         rt_write a rt st
       }
       else Some st) = Some st1" "pdd_ok st1 pdd"
  proof (cases "pdd_dsa2_enabled pdd")
    case True
    then obtain a rt where a: "dsa2_data pdd = Some a" "rt_heap st a = Some rt" "rtable_ok rt"
      and fl: "floor_ok (dsa2_cfg st)"
      using ok by (auto simp: pdd_ok_def)
    obtain rt' where "dsa2_record_final (dsa2_cfg st) now rt ddcrc tries
      (cur_loop_null_adjustment_occurred pdd) = Some rt'" "rtable_ok rt'"
      using record_final_ok [OF a(3) fl] by blast
    with a True ok show thesis
      by (intro that [of "st\<lparr>rt_heap := (rt_heap st)(a \<mapsto> rt')\<rparr>"])
         (simp_all add: pdd_table_def rt_write_def pdd_ok_write)
  next
    case False
    with ok show thesis by (intro that [of st]) simp_all
  qed
  from record_multiplier_Some [OF st1(2)] obtain pdd1 where
    "pdd_record_adjusted_sleep_multiplier (ddcrc = 0) st1 pdd = Some pdd1" by blast
  with True st1 record_multiplier_fields [OF this] show ?thesis
    by (simp add: pdd_record_final_def pdd_ok_fields)
qed

lemma new_table_ok:
  "floor_ok cfg \<Longrightarrow> 0 \<le> s \<Longrightarrow> s \<le> step_last \<Longrightarrow>
   rtable_ok ((new_results_table cfg bus)\<lparr>cur_step := s, cur_retry_loop_step := s, rt_state := x,
     edid_checksum_byte := e\<rparr>)"
  by (simp add: rtable_ok_def new_results_table_def cirb_new_ok)

section \<open>Properties\<close>

text \<open>C8 (pdd_reset_leaves_dangling_pointer): when the sleep multiplier of a display is reset, the table the display points to is freed and another one is allocated for the bus, but the display keeps the old pointer: the next use of the multiplier, or the next retryable failure, reads freed memory.\<close>

theorem pdd_reset_leaves_dangling_pointer:
  assumes "pdd_dsa2_enabled pdd" and "dynamic_sleep_active pdd" and "dsa2_data pdd = Some a"
    and "pdd_busno pdd < length (results_tables st)" and "results_tables st ! pdd_busno pdd = Some a"
    and "a < rt_next st"
  shows "\<exists>st' pdd'. pdd_reset_multiplier get_edid_checkbyte mult st pdd = Some (st', pdd') \<and>
    results_tables st' ! pdd_busno pdd \<noteq> dsa2_data pdd' \<and>
    pdd_get_adjusted_sleep_multiplier st' pdd' = None \<and>
    pdd_note_retryable_failure ddcrc remaining st' pdd' = None"
  using assms
  by (auto simp: pdd_reset_multiplier_def dsa2_reset_results_table_def rt_alloc_def free_results_table_def
      set_results_table_def Let_def pdd_get_adjusted_sleep_multiplier_def pdd_table_def
      pdd_note_retryable_failure_def)

text \<open>A display on bus 4 that was just initialised.\<close>

definition example_table :: Results_Table where
  "example_table = (new_results_table default_config 4)\<lparr>cur_retry_loop_step := 7\<rparr>"

definition example_state :: Dsa2_State where
  "example_state = set_results_table 4 (Some 0) (snd (rt_alloc example_table init_dsa2))"

definition example_pdd :: Per_Display_Data where
  "example_pdd =
     \<lparr>pdd_busno = 4, user_sleep_multiplier = 1, user_multiplier_source = Default, dsa2_data = Some 0,
      total_sleep_time_millis = 0, cur_loop_null_msg_ct = 0,
      initial_adjusted_sleep_multiplier = -1, final_successful_adjusted_sleep_multiplier = -1,
      min_successful_sleep_multiplier = -1, max_successful_sleep_multiplier = -1,
      total_successful_sleep_multiplier = 0, successful_sleep_multiplier_ct = 0,
      pdd_dsa2_enabled = True, dynamic_sleep_active = True,
      cur_loop_null_adjustment_occurred = False\<rparr>"

lemma example_ok: "pdd_ok example_state example_pdd"
  by (simp add: pdd_ok_def example_state_def example_pdd_def example_table_def set_results_table_def
      rt_alloc_def init_dsa2_def floor_ok_def default_config_def rtable_ok_def new_results_table_def
      cirb_new_ok)

theorem pdd_reset_leaves_dangling_pointer_witness:
  "\<exists>st' pdd'. pdd_reset_multiplier (\<lambda>_. 0x5a) 2 example_state example_pdd = Some (st', pdd') \<and>
    results_tables st' ! pdd_busno example_pdd \<noteq> dsa2_data pdd' \<and>
    pdd_get_adjusted_sleep_multiplier st' pdd' = None \<and>
    pdd_note_retryable_failure DDCRC_DDC_DATA 3 st' pdd' = None"
  by (rule pdd_reset_leaves_dangling_pointer [where a = 0])
     (simp_all add: example_state_def example_pdd_def set_results_table_def rt_alloc_def init_dsa2_def)

text \<open>What the write-read loop reports to the data of the display.\<close>

fun pdd_run :: "Dsa2_Event list \<Rightarrow> Dsa2_State \<Rightarrow> Per_Display_Data \<Rightarrow> (Dsa2_State \<times> Per_Display_Data) option" where
  "pdd_run [] st pdd = Some (st, pdd)"
| "pdd_run (Retryable_Failure ddcrc remaining # evs) st pdd = do {
     (st, pdd) \<leftarrow> pdd_note_retryable_failure ddcrc remaining st pdd;
     pdd_run evs st pdd
   }"
| "pdd_run (Loop_End now ddcrc tries _ # evs) st pdd = do {
     (st, pdd) \<leftarrow> pdd_record_final now ddcrc tries st pdd;
     pdd_run evs st pdd
   }"

text \<open>C9 (pdd_reports_never_stop): as long as the multiplier is not reset, every sequence of retryable failures and loop ends is recorded without an abnormal end, and the sleep multiplier of the display can be read afterwards.\<close>

theorem pdd_reports_never_stop:
  assumes "pdd_ok st pdd"
  shows "\<exists>st' pdd' m. pdd_run evs st pdd = Some (st', pdd') \<and> pdd_ok st' pdd' \<and>
    pdd_get_adjusted_sleep_multiplier st' pdd' = Some m"
  using assms
proof (induction evs st pdd rule: pdd_run.induct)
  case (1 st pdd)
  then show ?case using get_mult_Some [of st pdd] by simp
next
  case (2 ddcrc remaining evs st pdd)
  then show ?case using note_failure_pdd_ok [OF 2(2), of ddcrc remaining] by auto
next
  case (3 now ddcrc tries adj evs st pdd)
  then show ?case using record_final_pdd_ok [OF 3(2), of now ddcrc tries] by auto
qed

theorem pdd_reports_never_stop_witness:
  "\<exists>st' pdd' m. pdd_run [Retryable_Failure DDCRC_NULL_RESPONSE 9, Loop_End 0 0 2 False]
      example_state example_pdd = Some (st', pdd') \<and> pdd_ok st' pdd' \<and>
    pdd_get_adjusted_sleep_multiplier st' pdd' = Some m"
  by (rule pdd_reports_never_stop) (rule example_ok)

lemma reset_one_other:
  "reset_one_multiplier i b st = Some st' \<Longrightarrow> results_tables st ! b \<noteq> Some a \<Longrightarrow>
   rt_heap st' a = rt_heap st a \<and> results_tables st' = results_tables st"
  by (auto simp: reset_one_multiplier_def rt_write_def c_assert_bind_Some split: option.splits Option.bind_splits)

lemma reset_multipliers_other:
  "reset_multipliers i bs st = Some st' \<Longrightarrow> (\<And>b. b \<in> set bs \<Longrightarrow> results_tables st ! b \<noteq> Some a) \<Longrightarrow>
   rt_heap st' a = rt_heap st a"
proof (induction bs arbitrary: st)
  case (Cons b bs)
  then obtain st1 where st1: "reset_one_multiplier i b st = Some st1" "reset_multipliers i bs st1 = Some st'"
    by (auto split: Option.bind_splits)
  with reset_one_other [OF st1(1), of a] Cons.prems(2) Cons.IH [OF st1(2)] show ?case by simp
qed simp

text \<open>Setting the global sleep multiplier leaves the table of bus 64 as it was, although the array has an entry for that bus.\<close>

theorem reset_multiplier_misses_last_bus:
  assumes "results_tables st ! I2C_BUS_MAX = Some a"
    and "\<And>b. b < I2C_BUS_MAX \<Longrightarrow> results_tables st ! b \<noteq> Some a"
    and "dsa2_reset_multiplier mult st = Some st'"
  shows "rt_heap st' a = rt_heap st a"
  using assms reset_multipliers_other
  by (fastforce simp: dsa2_reset_multiplier_def Let_def)

definition last_bus_state :: Dsa2_State where
  "last_bus_state = set_results_table 64 (Some 0) (snd (rt_alloc example_table init_dsa2))"

lemma last_bus_tables: "b < 64 \<Longrightarrow> results_tables last_bus_state ! b = None"
  "results_tables last_bus_state ! 64 = Some 0"
  by (simp_all add: last_bus_state_def set_results_table_def rt_alloc_def init_dsa2_def nth_list_update)

lemma reset_multipliers_none:
  "(\<And>b. b \<in> set bs \<Longrightarrow> results_tables st ! b = None) \<Longrightarrow> reset_multipliers i bs st = Some st"
  by (induction bs) (simp_all add: reset_one_multiplier_def)

lemma last_bus_reset: "\<exists>st'. dsa2_reset_multiplier mult last_bus_state = Some st'"
  unfolding dsa2_reset_multiplier_def Let_def
  by (rule exI, rule reset_multipliers_none) (simp add: last_bus_tables)

theorem reset_multiplier_misses_last_bus_witness:
  "rt_heap (the (dsa2_reset_multiplier 2 last_bus_state)) 0 = rt_heap last_bus_state 0"
proof (rule reset_multiplier_misses_last_bus [where mult = 2])
  show "dsa2_reset_multiplier 2 last_bus_state = Some (the (dsa2_reset_multiplier 2 last_bus_state))"
    using last_bus_reset [of 2] by auto
qed (simp_all add: last_bus_tables)

end
