(* ===== verification/Tuned_Sleep.thy ===== *)
theory Tuned_Sleep
  imports Per_Display
begin

text \<open>
  The sleeps between DDC operations, \<^verbatim>\<open>src/src/base/tuned_sleep.c\<close>: the nominal time of a
  sleep event, its adjustment by the sleep multiplier and the count of null responses, and
  the deferral of a sleep to the next operation. Times are in milliseconds, clock values in
  nanoseconds; sleeping lets the clock advance by the time slept. Messages are left out.
\<close>

datatype Sleep_Event_Type =
    SE_WRITE_TO_READ
  | SE_POST_WRITE
  | SE_POST_READ
  | SE_POST_SAVE_SETTINGS
  | SE_PRE_MULTI_PART_READ
  | SE_POST_CAP_TABLE_SEGMENT
  | SE_SPECIAL

text \<open>The static variables of the file.\<close>

record Sleep_Config =
  deferred_sleep_enabled :: bool
  suppress_se_post_read :: bool
  null_msg_adjustment_enabled :: bool

definition enable_deferred_sleep :: "bool \<Rightarrow> Sleep_Config \<Rightarrow> bool \<times> Sleep_Config" where
  "enable_deferred_sleep onoff cfg =
     (deferred_sleep_enabled cfg, cfg\<lparr>deferred_sleep_enabled := onoff\<rparr>)"

fun get_sleep_time :: "Sleep_Config \<Rightarrow> Sleep_Event_Type \<Rightarrow> int \<Rightarrow> int \<times> bool" where
  "get_sleep_time cfg SE_WRITE_TO_READ special = (50, deferred_sleep_enabled cfg)"
| "get_sleep_time cfg SE_POST_WRITE special = (50, deferred_sleep_enabled cfg)"
| "get_sleep_time cfg SE_POST_READ special =
     ((if suppress_se_post_read cfg then 0 else 50), deferred_sleep_enabled cfg)"
| "get_sleep_time cfg SE_POST_SAVE_SETTINGS special = (200, deferred_sleep_enabled cfg)"
| "get_sleep_time cfg SE_PRE_MULTI_PART_READ special = (200, False)"
| "get_sleep_time cfg SE_POST_CAP_TABLE_SEGMENT special = (50, False)"
| "get_sleep_time cfg SE_SPECIAL special = (special, False)"

text \<open>The adjusted time, and whether time was added for null responses.\<close>

definition adjust_sleep_time ::
    "Sleep_Config \<Rightarrow> Dsa2_State \<Rightarrow> Per_Display_Data \<Rightarrow> Sleep_Event_Type \<Rightarrow> int \<Rightarrow> (int \<times> bool) option" where
  "adjust_sleep_time cfg st pdd event_type spec_sleep_time_millis = do {
     dsa_multiplier \<leftarrow> pdd_get_adjusted_sleep_multiplier st pdd;
     let dsa_multiplier =
       (if (event_type = SE_POST_WRITE \<or> event_type = SE_POST_SAVE_SETTINGS) \<and> dsa_multiplier < 1
        then 1 else dsa_multiplier);
     let adjusted = trunc_int (double_round (of_int spec_sleep_time_millis * dsa_multiplier));
     Some (if cur_loop_null_msg_ct pdd > 0 \<and> null_msg_adjustment_enabled cfg
           then (adjusted + (if cur_loop_null_msg_ct pdd = 1 then 25
                             else if cur_loop_null_msg_ct pdd = 2 then 100 else 200), True)
           else (adjusted, False))
   }"

text \<open>
  The data of the display, its time of the next operation, and the time slept now.
  \<^verbatim>\<open>(1000*1000) * (int) adjusted_sleep_time_millis\<close> is a product of C \<^verbatim>\<open>int\<close>s.
\<close>

definition tuned_sleep_with_trace ::
    "Sleep_Config \<Rightarrow> Dsa2_State \<Rightarrow> int \<Rightarrow> Sleep_Event_Type \<Rightarrow> int \<Rightarrow> Per_Display_Data \<times> int \<Rightarrow>
     ((Per_Display_Data \<times> int) \<times> int) option" where
  "tuned_sleep_with_trace cfg st now event_type special = (\<lambda>(pdd, next_i2c_io_after). do {
     c_assert ((event_type \<noteq> SE_SPECIAL \<and> special = 0) \<or> (event_type = SE_SPECIAL \<and> special > 0));
     let (spec_sleep_time_millis, deferrable_sleep) = get_sleep_time cfg event_type special;
     (adjusted, null_adjustment_added) \<leftarrow> adjust_sleep_time cfg st pdd event_type spec_sleep_time_millis;
     let pdd = (if null_adjustment_added then pdd\<lparr>cur_loop_null_adjustment_occurred := True\<rparr> else pdd);
     (if deferrable_sleep
      then do {
        c_assert (1000000 * adjusted < 2 ^ 31);
        let new_deferred_time = now + 1000000 * adjusted;
        Some ((pdd, if new_deferred_time > next_i2c_io_after then new_deferred_time
                    else next_i2c_io_after), 0)
      }
      else Some ((pdd\<lparr>total_sleep_time_millis := total_sleep_time_millis pdd + adjusted\<rparr>,
                  next_i2c_io_after), adjusted))
   })"

text \<open>The data of the display, and the time slept.\<close>

definition check_deferred_sleep :: "int \<Rightarrow> Per_Display_Data \<times> int \<Rightarrow> (Per_Display_Data \<times> int) \<times> int" where
  "check_deferred_sleep curtime = (\<lambda>(pdd, next_i2c_io_after).
     if next_i2c_io_after > curtime
     then let sleep_time = (next_i2c_io_after - curtime) div 1000000
          in ((pdd\<lparr>total_sleep_time_millis := total_sleep_time_millis pdd + sleep_time\<rparr>,
               next_i2c_io_after), sleep_time)
     else ((pdd, next_i2c_io_after), 0))"

section \<open>Rounding\<close>

lemma normalise_sig_eq:
  assumes "2 ^ (p - 1) \<le> m * 2 ^ k" and "m * 2 ^ k < 2 ^ p" and "k < fuel"
  shows "normalise_sig p fuel m e = (m * 2 ^ k, e - int k)"
  using assms
proof (induction k arbitrary: fuel m e)
  case 0
  then obtain f where "fuel = Suc f" by (cases fuel) auto
  with 0 show ?case by simp
next
  case (Suc k)
  then obtain f where f: "fuel = Suc f" "k < f" by (cases fuel) auto
  have "p \<noteq> 0" using Suc.prems(1,2) by (cases p) auto
  then have pp: "(2 :: rat) ^ p = 2 * 2 ^ (p - 1)" by (cases p) auto
  have "m * 2 \<le> m * 2 ^ Suc k"
  proof -
    have "0 < m * 2 ^ Suc k" by (rule less_le_trans [OF _ Suc.prems(1)]) simp
    then have "0 < m" by (simp add: zero_less_mult_iff)
    then show ?thesis by simp
  qed
  then have small: "m < 2 ^ (p - 1)" using Suc.prems(2) pp by simp
  have "normalise_sig p f (m * 2) (e - 1) = ((m * 2) * 2 ^ k, (e - 1) - int k)"
    using Suc.prems f by (intro Suc.IH) (simp_all add: mult.assoc)
  with small f show ?case by (simp add: mult.assoc)
qed

lemma round_sig_eq:
  assumes "0 < x" and "2 ^ (p - 1) \<le> x * 2 ^ k" and "x * 2 ^ k < 2 ^ p" and "k < 200"
  shows "round_sig p x = of_int (round_even (x * 2 ^ k)) / 2 ^ k"
  using assms normalise_sig_eq [OF assms(2-4), of 0] by (simp add: round_sig_def)

lemma round_even_floor: "round_even m \<in> {\<lfloor>m\<rfloor>, \<lfloor>m\<rfloor> + 1}"
  by (simp add: round_even_def Let_def)

lemma trunc_int_mono: "0 \<le> x \<Longrightarrow> x \<le> y \<Longrightarrow> trunc_int x \<le> trunc_int y"
  by (simp add: trunc_int_def floor_mono)

lemma round_even_mono: "x \<le> y \<Longrightarrow> round_even x \<le> round_even y"
proof -
  assume xy: "x \<le> y"
  then have "\<lfloor>x\<rfloor> \<le> \<lfloor>y\<rfloor>" by (rule floor_mono)
  then consider "\<lfloor>x\<rfloor> + 1 \<le> \<lfloor>y\<rfloor>" | "\<lfloor>x\<rfloor> = \<lfloor>y\<rfloor>" by linarith
  then show ?thesis
  proof cases
    case 1
    then show ?thesis using round_even_floor [of x] round_even_floor [of y] by auto
  next
    case 2
    then show ?thesis using xy by (auto simp: round_even_def Let_def)
  qed
qed

lemma round_even_of_int: "round_even (of_int n) = n"
  by (simp add: round_even_def)

lemma scale_exists:
  assumes "1 \<le> (x :: rat)" and "x < 2 ^ 53"
  obtains k where "k \<le> 52" and "2 ^ 52 \<le> x * 2 ^ k" and "x * 2 ^ k < 2 ^ 53"
proof -
  define k where "k = (LEAST k. (2 :: rat) ^ 52 \<le> x * 2 ^ k)"
  have ex: "(2 :: rat) ^ 52 \<le> x * 2 ^ 52" using assms(1) by simp
  then have k: "(2 :: rat) ^ 52 \<le> x * 2 ^ k" "k \<le> 52"
    unfolding k_def by (rule LeastI, rule Least_le)
  have "x * 2 ^ k < 2 ^ 53"
  proof (cases k)
    case 0
    with assms(2) show ?thesis by simp
  next
    case (Suc j)
    then have "\<not> (2 :: rat) ^ 52 \<le> x * 2 ^ j"
      unfolding k_def by (metis lessI not_less_Least)
    with Suc show ?thesis by simp
  qed
  with k that show ?thesis by blast
qed

lemma double_round_ge:
  assumes n: "0 < n" and nx: "of_int n \<le> x" and x: "x < 2 ^ 53"
  shows "of_int n \<le> double_round x"
proof -
  have "1 \<le> x" using n nx by (meson of_int_1_le_iff order_trans zless_imp_add1_zle add_0 le_numeral_extra(4) linorder_not_less int_one_le_iff_zero_less)
  from scale_exists [OF this x] obtain k where k: "k \<le> 52" "2 ^ 52 \<le> x * 2 ^ k" "x * 2 ^ k < 2 ^ 53" .
  have "double_round x = of_int (round_even (x * 2 ^ k)) / 2 ^ k"
    unfolding double_round_def using k \<open>1 \<le> x\<close> by (intro round_sig_eq) simp_all
  moreover have "round_even (of_int (n * 2 ^ k)) \<le> round_even (x * 2 ^ k)"
    using nx by (intro round_even_mono) simp
  then have "of_int (n * 2 ^ k) \<le> (of_int (round_even (x * 2 ^ k)) :: rat)"
    unfolding round_even_of_int by (simp only: of_int_le_iff)
  ultimately show ?thesis by (simp add: pos_le_divide_eq)
qed

section \<open>Properties\<close>

text \<open>C12 (post_write_sleep_at_least_nominal): after a write or a save of the settings the display sleeps at least the nominal time, whatever multiplier the dynamic sleep algorithm has chosen.\<close>

theorem post_write_sleep_at_least_nominal:
  assumes ev: "event_type = SE_POST_WRITE \<or> event_type = SE_POST_SAVE_SETTINGS"
    and "adjust_sleep_time cfg st pdd event_type spec = Some (ms, added)"
    and "0 < spec" and "spec \<le> 1000"
    and "pdd_get_adjusted_sleep_multiplier st pdd = Some m" and "m \<le> 1000000"
  shows "spec \<le> ms"
proof -
  let ?m = "if m < 1 then 1 else m"
  let ?x = "of_int spec * ?m"
  have "of_int spec * 1 \<le> ?x" using assms(3) by (intro mult_left_mono) auto
  then have x1: "of_int spec \<le> ?x" by simp
  have "?x \<le> 1000 * 1000000" using assms(3,4,6) by (intro mult_mono) auto
  then have x2: "?x < 2 ^ 53" by simp
  have dr: "of_int spec \<le> double_round ?x" by (rule double_round_ge [OF assms(3) x1 x2])
  then have "0 \<le> double_round ?x" using assms(3) by (meson of_int_0_le_iff order_less_imp_le order_trans)
  with dr have "spec \<le> trunc_int (double_round ?x)" by (simp add: trunc_int_def le_floor_iff)
  then show ?thesis
    using assms(1,2,5) by (auto simp: adjust_sleep_time_def Let_def split: if_splits)
qed

lemma float_round_half: "float_round (1 / 2) = 1 / 2"
proof -
  have "round_even (8388608 :: rat) = 8388608" using round_even_of_int [of 8388608] by simp
  then show ?thesis
    unfolding float_round_def by (subst round_sig_eq [where k = 24]) simp_all
qed

lemma double_round_50: "double_round 50 = 50"
proof -
  have "round_even (7036874417766400 :: rat) = 7036874417766400"
    using round_even_of_int [of 7036874417766400] by simp
  then show ?thesis
    unfolding double_round_def by (subst round_sig_eq [where k = 47]) simp_all
qed

definition half_pdd :: Per_Display_Data where
  "half_pdd = example_pdd\<lparr>dynamic_sleep_active := False, user_sleep_multiplier := 1 / 2\<rparr>"

lemma half_pdd_mult: "pdd_get_adjusted_sleep_multiplier st half_pdd = Some (1 / 2)"
  by (simp add: pdd_get_adjusted_sleep_multiplier_def half_pdd_def float_round_half)

lemma half_pdd_adjust: "adjust_sleep_time \<lparr>deferred_sleep_enabled = False, suppress_se_post_read = False,
      null_msg_adjustment_enabled = False\<rparr> example_state half_pdd SE_POST_WRITE 50 = Some (50, False)"
  by (simp add: adjust_sleep_time_def half_pdd_mult double_round_50 trunc_int_def)

theorem post_write_sleep_at_least_nominal_witness:
  "adjust_sleep_time \<lparr>deferred_sleep_enabled = False, suppress_se_post_read = False,
      null_msg_adjustment_enabled = False\<rparr> example_state half_pdd SE_POST_WRITE 50 = Some (50, False) \<and>
   pdd_get_adjusted_sleep_multiplier example_state half_pdd = Some (1 / 2) \<and> (50 :: int) \<le> 50"
proof (intro conjI half_pdd_adjust half_pdd_mult)
  show "(50 :: int) \<le> 50"
    by (rule post_write_sleep_at_least_nominal [OF _ half_pdd_adjust _ _ half_pdd_mult]) simp_all
qed

text \<open>The check before an operation never sleeps past the deferred time, and ends less than a millisecond before it.\<close>

theorem deferred_sleep_bounds:
  assumes "check_deferred_sleep curtime (pdd, next) = ((pdd', next'), slept)"
  shows "0 \<le> slept \<and> next' = next \<and> next - (curtime + 1000000 * slept) < 1000000 \<and>
    (0 < slept \<longrightarrow> curtime + 1000000 * slept \<le> next) \<and>
    total_sleep_time_millis pdd' = total_sleep_time_millis pdd + slept"
proof -
  have "(next - curtime) mod 1000000 = (next - curtime) - 1000000 * ((next - curtime) div 1000000)"
    by (simp add: minus_mult_div_eq_mod)
  moreover have "0 \<le> (next - curtime) mod 1000000" "(next - curtime) mod 1000000 < 1000000" by simp_all
  ultimately show ?thesis
    using assms by (auto simp: check_deferred_sleep_def Let_def pos_imp_zdiv_nonneg_iff split: if_splits)
qed

theorem deferred_sleep_bounds_witness:
  "check_deferred_sleep 2500000 (example_pdd, 5000000) =
     ((example_pdd\<lparr>total_sleep_time_millis := 2\<rparr>, 5000000), 2) \<and>
   (2500000 :: int) + 1000000 * 2 \<le> 5000000"
proof -
  have c: "check_deferred_sleep 2500000 (example_pdd, 5000000) =
      ((example_pdd\<lparr>total_sleep_time_millis := 2\<rparr>, 5000000), 2)"
    by (simp add: check_deferred_sleep_def example_pdd_def)
  from deferred_sleep_bounds [OF c] have "(2500000 :: int) + 1000000 * 2 \<le> 5000000" by simp
  with c show ?thesis by simp
qed

end
