(* ===== verification/C_Text.thy ===== *)
theory C_Text
  imports Hex_Strings
begin

text \<open>
  The parts of the C library's formatted input and output that the program uses: \<^verbatim>\<open>%d\<close> of
  \<^verbatim>\<open>printf\<close>, \<^verbatim>\<open>%.*s\<close>, \<^verbatim>\<open>%hhd\<close> of \<^verbatim>\<open>scanf\<close>, and reads through a \<^verbatim>\<open>char *\<close>. A pointer into a
  C string is an offset into the list of its characters; the terminating 0 stands at the length of
  the list, and a read behind it is an abnormal end.
\<close>

section \<open>Reads\<close>

definition c_char :: "string \<Rightarrow> nat \<Rightarrow> char option" where
  "c_char s i = (if i < length s then Some (s ! i) else if i = length s then Some (CHR 0x00) else None)"

lemma c_char_simps [simp]:
  "i < length s \<Longrightarrow> c_char s i = Some (s ! i)"
  "c_char s (length s) = Some (CHR 0x00)"
  by (simp_all add: c_char_def)

text \<open>\<^verbatim>\<open>%.*s\<close> with precision \<open>n\<close>, at offset \<open>i\<close>.\<close>

definition format_s_prec :: "nat \<Rightarrow> string \<Rightarrow> nat \<Rightarrow> string" where
  "format_s_prec n s i = takeWhile (\<lambda>c. c \<noteq> CHR 0x00) (take n (drop i s))"

section \<open>Decimal numbers\<close>

fun dec_digits :: "nat \<Rightarrow> string" where
  "dec_digits n = (if n < 10 then [char_of (48 + n)] else dec_digits (n div 10) @ [char_of (48 + n mod 10)])"

declare dec_digits.simps [simp del]

definition format_d :: "int \<Rightarrow> string" where
  "format_d i = (if i < 0 then CHR ''-'' # dec_digits (nat (- i)) else dec_digits (nat i))"

definition dec_digit :: "char \<Rightarrow> nat option" where
  "dec_digit c = (let n = (of_char c :: nat) in if 48 \<le> n \<and> n \<le> 57 then Some (n - 48) else None)"

fun scan_dec :: "string \<Rightarrow> nat \<Rightarrow> nat \<times> string" where
  "scan_dec [] acc = (acc, [])"
| "scan_dec (c # cs) acc =
     (case dec_digit c of Some d \<Rightarrow> scan_dec cs (acc * 10 + d) | None \<Rightarrow> (acc, c # cs))"

text \<open>
  \<^verbatim>\<open>%hhd\<close>: white space, a sign, digits. The value goes through \<^verbatim>\<open>strtol\<close>, which saturates
  at the limits of \<^verbatim>\<open>long\<close>, and the low byte is stored. The rest of the input is returned.
\<close>

definition saturate_long :: "int \<Rightarrow> int" where
  "saturate_long i = max (- (2 ^ 63)) (min (2 ^ 63 - 1) i)"

definition scan_hhd :: "string \<Rightarrow> (byte \<times> string) option" where
  "scan_hhd s =
     (let s = dropWhile c_isspace s;
          signed = (s \<noteq> [] \<and> (hd s = CHR ''+'' \<or> hd s = CHR ''-''));
          neg = (signed \<and> hd s = CHR ''-'');
          s = (if signed then tl s else s);
          (v, rest) = scan_dec s 0
      in if s = [] \<or> dec_digit (hd s) = None then None
         else Some (of_int (saturate_long (if neg then - int v else int v)), rest))"

section \<open>Hexadecimal numbers, widths and truncation\<close>

fun hex_digits :: "nat \<Rightarrow> string" where
  "hex_digits n = (if n < 16 then [hex_char n] else hex_digits (n div 16) @ [hex_char (n mod 16)])"

declare hex_digits.simps [simp del]

definition pad_left :: "nat \<Rightarrow> char \<Rightarrow> string \<Rightarrow> string" where
  "pad_left w c s = replicate (w - length s) c @ s"

text \<open>\<^verbatim>\<open>%0wx\<close>, \<^verbatim>\<open>%02x\<close> of a byte, \<^verbatim>\<open>%d\<close> of a byte, \<^verbatim>\<open>%wd\<close> and \<^verbatim>\<open>%0wd\<close> of a number that is not negative.\<close>

definition format_0x :: "nat \<Rightarrow> nat \<Rightarrow> string" where
  "format_0x w n = pad_left w (CHR ''0'') (hex_digits n)"

definition format_02x :: "byte \<Rightarrow> string" where
  "format_02x b = format_0x 2 (unat b)"

definition format_byte :: "byte \<Rightarrow> string" where
  "format_byte b = dec_digits (unat b)"

definition format_wd :: "nat \<Rightarrow> nat \<Rightarrow> string" where
  "format_wd w n = pad_left w (CHR '' '') (dec_digits n)"

definition format_0d :: "nat \<Rightarrow> nat \<Rightarrow> string" where
  "format_0d w n = pad_left w (CHR ''0'') (dec_digits n)"

text \<open>\<^verbatim>\<open>snprintf\<close> into a buffer of \<open>bufsz\<close> bytes.\<close>

definition snprintf :: "nat \<Rightarrow> string \<Rightarrow> string" where
  "snprintf bufsz s = take (bufsz - 1) s"

section \<open>Numbers that are written are read back\<close>

lemma dec_digit_char: "n < 10 \<Longrightarrow> dec_digit (char_of (48 + n)) = Some n"
  by (simp add: dec_digit_def of_char_of)

lemma dec_digits_nonempty [simp]: "dec_digits n \<noteq> []"
  by (simp add: dec_digits.simps [of n])

lemma dec_digits_all: "c \<in> set (dec_digits n) \<Longrightarrow> dec_digit c \<noteq> None"
proof (induction n rule: dec_digits.induct)
  case (1 n)
  then show ?case by (subst (asm) dec_digits.simps) (auto simp: dec_digit_char split: if_splits)
qed

lemma scan_dec_append:
  "scan_dec (dec_digits n @ s) acc = scan_dec s (acc * 10 ^ length (dec_digits n) + n)"
proof (induction n arbitrary: s acc rule: dec_digits.induct)
  case (1 n)
  show ?case
  proof (cases "n < 10")
    case True
    then show ?thesis by (simp add: dec_digits.simps [of n] dec_digit_char)
  next
    case False
    have "scan_dec (dec_digits (n div 10) @ (char_of (48 + n mod 10) # s)) acc =
        scan_dec (char_of (48 + n mod 10) # s) (acc * 10 ^ length (dec_digits (n div 10)) + n div 10)"
      using 1 [OF False] .
    then show ?thesis
      using False by (simp add: dec_digits.simps [of n] dec_digit_char algebra_simps)
  qed
qed

lemma scan_dec_stop: "s = [] \<or> dec_digit (hd s) = None \<Longrightarrow> scan_dec s acc = (acc, s)"
  by (cases s) auto

lemma digit_not_special:
  assumes "dec_digit c \<noteq> None"
  shows "\<not> c_isspace c" "c \<noteq> CHR ''+''" "c \<noteq> CHR ''-''" "c \<noteq> CHR 0x00" "c \<noteq> CHR ''.''" "c \<noteq> CHR ''(''" "c \<noteq> CHR '')''"
  using assms by (auto simp: dec_digit_def c_isspace_def Let_def split: if_splits)

lemma scan_hhd_dec:
  assumes n: "n < 2 ^ 63" and s: "s = [] \<or> dec_digit (hd s) = None"
  shows "scan_hhd (dec_digits n @ s) = Some (of_nat n, s)"
proof -
  obtain c cs where d: "dec_digits n = c # cs" by (cases "dec_digits n") auto
  then have c: "dec_digit c \<noteq> None" using dec_digits_all [of c n] by simp
  have sc: "scan_dec (c # cs @ s) 0 = (n, s)"
    using scan_dec_append [of n s 0] scan_dec_stop [OF s] by (simp add: d)
  have "saturate_long (int n) = int n" using n by (simp add: saturate_long_def)
  then show ?thesis
    using digit_not_special [OF c] c unfolding scan_hhd_def d append_Cons Let_def
    by (simp add: sc del: scan_dec.simps)
qed

end
