(* ===== verification/String_Util.thy ===== *)
theory String_Util
  imports C_Text
begin

text \<open>
  The string functions of \<^verbatim>\<open>src/src/util/string_util.c\<close>. A C string is the list of its
  characters, a string that may be a null pointer an option, a null-terminated array of strings a
  list of strings. A function that changes a string in place works on the list of the characters
  of its array, of which the C string is the part before the first 0.
\<close>

definition c_string :: "string \<Rightarrow> string" where
  "c_string s = takeWhile (\<lambda>c. c \<noteq> CHR 0x00) s"

definition sbool :: "bool \<Rightarrow> string" where
  "sbool v = (if v then ''true'' else ''false'')"

section \<open>Comparison and search\<close>

definition streq :: "string option \<Rightarrow> string option \<Rightarrow> bool" where
  "streq s1 s2 \<longleftrightarrow>
     (s1 = None \<and> s2 = None) \<or> (s1 \<noteq> None \<and> s2 \<noteq> None \<and> the s1 = the s2)"

definition is_abbrev :: "string option \<Rightarrow> string option \<Rightarrow> nat \<Rightarrow> bool" where
  "is_abbrev value longname minchars \<longleftrightarrow>
     (case (value, longname) of
        (Some v, Some l) \<Rightarrow> length v \<ge> minchars \<and> length v \<le> length l \<and> v = take (length v) l
      | _ \<Rightarrow> False)"

definition str_starts_with :: "string option \<Rightarrow> string option \<Rightarrow> bool" where
  "str_starts_with value_to_test prefix \<longleftrightarrow>
     (case (value_to_test, prefix) of
        (Some v, Some p) \<Rightarrow> is_abbrev (Some p) (Some v) (length p)
      | _ \<Rightarrow> False)"

definition str_ends_with :: "string \<Rightarrow> string \<Rightarrow> bool" where
  "str_ends_with value_to_test suffix \<longleftrightarrow>
     length suffix \<le> length value_to_test \<and>
     streq (Some (drop (length value_to_test - length suffix) value_to_test)) (Some suffix)"

text \<open>The loop runs over the offsets less than \<open>laststart\<close>; \<open>ct\<close> of them are left.\<close>

fun str_contains_loop :: "string \<Rightarrow> string \<Rightarrow> nat \<Rightarrow> nat \<Rightarrow> int" where
  "str_contains_loop v seg ndx 0 = -1"
| "str_contains_loop v seg ndx (Suc ct) =
     (if str_starts_with (Some (drop ndx v)) (Some seg) then int ndx
      else str_contains_loop v seg (Suc ndx) ct)"

definition str_contains :: "string option \<Rightarrow> string option \<Rightarrow> int" where
  "str_contains value_to_test segment =
     (case (value_to_test, segment) of
        (Some v, Some seg) \<Rightarrow> str_contains_loop v seg 0 (nat (int (length v) - int (length seg)))
      | _ \<Rightarrow> -1)"

definition c_isprint :: "char \<Rightarrow> bool" where
  "c_isprint c \<longleftrightarrow> 32 \<le> (of_char c :: nat) \<and> (of_char c :: nat) \<le> 126"

definition str_all_printable :: "string option \<Rightarrow> bool" where
  "str_all_printable s = (case s of None \<Rightarrow> True | Some s \<Rightarrow> list_all c_isprint s)"

fun matches_loop :: "string \<Rightarrow> string list \<Rightarrow> (string option \<Rightarrow> string option \<Rightarrow> bool) \<Rightarrow> nat \<Rightarrow> int" where
  "matches_loop s [] comp_func ndx = -1"
| "matches_loop s (m # ms) comp_func ndx =
     (if comp_func (Some s) (Some m) then int ndx else matches_loop s ms comp_func (Suc ndx))"

definition matches_by_func :: "string \<Rightarrow> string list \<Rightarrow> (string option \<Rightarrow> string option \<Rightarrow> bool) \<Rightarrow> int" where
  "matches_by_func s match_list comp_func = matches_loop s match_list comp_func 0"

definition exactly_matches_any :: "string \<Rightarrow> string list \<Rightarrow> int" where
  "exactly_matches_any s match_list = matches_by_func s match_list streq"

definition starts_with_any :: "string \<Rightarrow> string list \<Rightarrow> int" where
  "starts_with_any s match_list = matches_by_func s match_list str_starts_with"

definition c_toupper_ascii :: "string \<Rightarrow> string" where
  "c_toupper_ascii s = map c_toupper s"

text \<open>\<^verbatim>\<open>strstr\<close>: the offset of the first occurrence.\<close>

fun strstr :: "string \<Rightarrow> string \<Rightarrow> nat option" where
  "strstr [] needle = (if needle = [] then Some 0 else None)"
| "strstr (c # cs) needle =
     (if take (length needle) (c # cs) = needle then Some 0
      else (case strstr cs needle of None \<Rightarrow> None | Some n \<Rightarrow> Some (Suc n)))"

definition ascii_strcasestr :: "string option \<Rightarrow> string option \<Rightarrow> nat option" where
  "ascii_strcasestr haystack needle =
     (case (haystack, needle) of
        (Some h, Some n) \<Rightarrow> strstr (c_toupper_ascii h) (c_toupper_ascii n)
      | _ \<Rightarrow> None)"

definition apply_filter_terms :: "string \<Rightarrow> string list option \<Rightarrow> bool \<Rightarrow> bool" where
  "apply_filter_terms txt terms ignore_case =
     (case terms of
        None \<Rightarrow> True
      | Some ts \<Rightarrow>
          list_ex (\<lambda>t. (if ignore_case then ascii_strcasestr (Some txt) (Some t) else strstr txt t) \<noteq> None) ts)"

section \<open>Trimming\<close>

fun count_leading_space :: "string \<Rightarrow> nat" where
  "count_leading_space [] = 0"
| "count_leading_space (c # cs) = (if c_isspace c then Suc (count_leading_space cs) else 0)"

text \<open>The position after the last character that is not white space, not before \<open>startpos\<close>.\<close>

fun last_nonspace :: "string \<Rightarrow> nat \<Rightarrow> nat \<Rightarrow> nat" where
  "last_nonspace s startpos 0 = 0"
| "last_nonspace s startpos (Suc n) =
     (if n \<ge> startpos \<and> c_isspace (s ! n) then last_nonspace s startpos n else Suc n)"

definition strtrim_r :: "string \<Rightarrow> nat \<Rightarrow> string option" where
  "strtrim_r s bufsz = do {
     c_assert (0 < bufsz);
     let startpos = count_leading_space s;
     let endpos = (if startpos < length s then last_nonspace s startpos (length s) else length s);
     let tlen = endpos - startpos;
     let tlen = (if tlen > bufsz - 1 then bufsz - 1 else tlen);
     Some (take tlen (drop startpos s))
   }"

definition strtrim :: "string \<Rightarrow> string option" where
  "strtrim s = strtrim_r s (length s + 1)"

definition ltrim_in_place :: "string \<Rightarrow> string" where
  "ltrim_in_place s = drop (count_leading_space s) s"

text \<open>
  \<^verbatim>\<open>trim_in_place\<close>: \<open>k\<close> is the offset of the trimmed string; the loop tests the characters
  there, and writes at the same index from the start of the argument.
\<close>

fun trim_loop :: "string \<Rightarrow> nat \<Rightarrow> nat \<Rightarrow> string" where
  "trim_loop s k 0 = s"
| "trim_loop s k (Suc len) =
     (if c_isspace (s ! (k + len)) then trim_loop (s[len := CHR 0x00]) k len else s)"

definition trim_in_place :: "string \<Rightarrow> string" where
  "trim_in_place s =
     (let k = count_leading_space s; len = length s - k
      in c_string (drop k (trim_loop (s @ [CHR 0x00]) k len)))"

section \<open>Parts and concatenation\<close>

definition substr :: "string \<Rightarrow> nat \<Rightarrow> nat \<Rightarrow> string option" where
  "substr s startpos ct = do {
     c_assert (startpos \<le> length s);
     let ct = (if startpos + ct > length s then length s - startpos else ct);
     Some (take ct (drop startpos s))
   }"

definition lsub :: "string \<Rightarrow> nat \<Rightarrow> string option" where
  "lsub s ct = substr s 0 ct"

fun join_pieces :: "string list \<Rightarrow> string \<Rightarrow> bool \<Rightarrow> string" where
  "join_pieces [] sep first = []"
| "join_pieces (p # ps) sep first = (if first then p else sep @ p) @ join_pieces ps sep False"

definition strjoin :: "string list \<Rightarrow> int \<Rightarrow> string option \<Rightarrow> string option" where
  "strjoin pieces ct0 sepstr = do {
     let sep = (case sepstr of None \<Rightarrow> [] | Some s \<Rightarrow> s);
     let max_ct = (if ct0 < 0 then 9999 else nat ct0);
     let ps = take max_ct pieces;
     let total_length = sum_list (map length ps) + (length ps - 1) * length sep + 1;
     let result = join_pieces ps sep True;
     c_assert (length result = total_length - 1);
     Some result
   }"

lemma dropWhile_Cons_length: "dropWhile P s = c # rest \<Longrightarrow> length rest < length s"
  using length_dropWhile_le [of P s] by simp

function strsep_tokens :: "string \<Rightarrow> string \<Rightarrow> string list" where
  "strsep_tokens s delims =
     (case dropWhile (\<lambda>c. c \<notin> set delims) s of
        [] \<Rightarrow> [s]
      | _ # rest \<Rightarrow> takeWhile (\<lambda>c. c \<notin> set delims) s # strsep_tokens rest delims)"
  by pat_completeness auto

termination
  by (relation "measure (\<lambda>(s, delims). length s)") (auto dest: dropWhile_Cons_length)

declare strsep_tokens.simps [simp del]

definition strsplit :: "string option \<Rightarrow> string \<Rightarrow> string list" where
  "strsplit str_to_split delims =
     (case str_to_split of None \<Rightarrow> [] | Some s \<Rightarrow> filter (\<lambda>t. length t > 0) (strsep_tokens s delims))"

text \<open>The length of the next piece; the search for a delimiter runs backwards from its end.\<close>

fun last_delim :: "string \<Rightarrow> string \<Rightarrow> nat \<Rightarrow> nat option" where
  "last_delim s delims 0 = None"
| "last_delim s delims (Suc n) = (if s ! n \<in> set delims then Some (Suc n) else last_delim s delims n)"

definition piece_length :: "nat \<Rightarrow> string option \<Rightarrow> string \<Rightarrow> nat" where
  "piece_length max_piece_length delims s =
     (let endpos = min max_piece_length (length s)
      in if endpos < length s
         then (case delims of
                 None \<Rightarrow> endpos
               | Some ds \<Rightarrow> (case last_delim s ds endpos of None \<Rightarrow> endpos | Some n \<Rightarrow> n))
         else endpos)"

partial_function (option) split_maxlength :: "nat \<Rightarrow> string option \<Rightarrow> string \<Rightarrow> string list option" where
  "split_maxlength max_piece_length delims s =
     (if s = [] then Some []
      else do {
        let n = piece_length max_piece_length delims s;
        rest \<leftarrow> split_maxlength max_piece_length delims (drop n s);
        Some (take n s # rest)
      })"

definition strsplit_maxlength :: "string \<Rightarrow> nat \<Rightarrow> string option \<Rightarrow> string list option" where
  "strsplit_maxlength str_to_split max_piece_length delims = split_maxlength max_piece_length delims str_to_split"

definition str_replace_char :: "string \<Rightarrow> char \<Rightarrow> char \<Rightarrow> string" where
  "str_replace_char s old_char new_char = map (\<lambda>c. if c = old_char then new_char else c) s"

definition strcat_new :: "string \<Rightarrow> string \<Rightarrow> string" where
  "strcat_new s1 s2 = s1 @ s2"

text \<open>\<^verbatim>\<open>len\<close> characters at offset \<open>start\<close> of the string \<open>s\<close>.\<close>

definition chars_to_string :: "string \<Rightarrow> nat \<Rightarrow> nat \<Rightarrow> string option" where
  "chars_to_string s start len = do {
     c_assert (start + len \<le> length s + 1);
     Some (c_string (take len (drop start (s @ [CHR 0x00]))))
   }"

definition sbuf_append :: "string \<Rightarrow> nat \<Rightarrow> string option \<Rightarrow> string \<Rightarrow> (bool \<times> string) option" where
  "sbuf_append buf bufsz sepstr nextval = do {
     c_assert (bufsz > 4);
     let seplen = (case sepstr of None \<Rightarrow> 0 | Some s \<Rightarrow> length s);
     let maxchars = bufsz - 1;
     let newlen = (if length buf = 0 then length nextval else length buf + seplen + length nextval);
     (if newlen \<le> maxchars
      then Some (False, buf @ (if length buf > 0 then (case sepstr of None \<Rightarrow> [] | Some s \<Rightarrow> s) else []) @ nextval)
      else if length buf < maxchars - 3 then Some (True, buf @ ''...'')
      else Some (True, take (maxchars - 3) buf @ ''...''))
   }"

section \<open>Arrays of strings\<close>

definition ntsa_length :: "string list \<Rightarrow> nat" where "ntsa_length a = length a"
definition ntsa_join :: "string list \<Rightarrow> string list \<Rightarrow> string list" where "ntsa_join a1 a2 = a1 @ a2"
definition ntsa_copy :: "string list \<Rightarrow> string list" where "ntsa_copy a = a"
definition ntsa_prepend :: "string \<Rightarrow> string list \<Rightarrow> string list" where "ntsa_prepend v a = v # a"

fun ntsa_findx :: "string list \<Rightarrow> string \<Rightarrow> (string option \<Rightarrow> string option \<Rightarrow> bool) \<Rightarrow> nat \<Rightarrow> int" where
  "ntsa_findx [] v func ndx = -1"
| "ntsa_findx (s # ss) v func ndx =
     (if func (Some s) (Some v) then int ndx else ntsa_findx ss v func (Suc ndx))"

definition ntsa_find :: "string list \<Rightarrow> string \<Rightarrow> int" where
  "ntsa_find a v = ntsa_findx a v streq 0"

section \<open>Numbers\<close>

definition digit_in_base :: "nat \<Rightarrow> char \<Rightarrow> nat option" where
  "digit_in_base base c = (case hex_digit c of Some d \<Rightarrow> if d < base then Some d else None | None \<Rightarrow> None)"

fun scan_base :: "nat \<Rightarrow> string \<Rightarrow> nat \<Rightarrow> nat \<Rightarrow> nat \<times> nat" where
  "scan_base base [] acc ct = (acc, ct)"
| "scan_base base (c # cs) acc ct =
     (case digit_in_base base c of
        Some d \<Rightarrow> scan_base base cs (acc * base + d) (Suc ct)
      | None \<Rightarrow> (acc, ct))"

text \<open>\<^verbatim>\<open>strtol\<close> for bases 0, 10 and 16: the value, and the offset of the first character not used.\<close>

definition strtol :: "nat \<Rightarrow> string \<Rightarrow> int \<times> nat" where
  "strtol base s =
     (let ws = length (takeWhile c_isspace s);
          s1 = drop ws s;
          signed = (s1 \<noteq> [] \<and> (hd s1 = CHR ''+'' \<or> hd s1 = CHR ''-''));
          neg = (signed \<and> hd s1 = CHR ''-'');
          s2 = (if signed then tl s1 else s1);
          (s3, pre) = (if base = 10 then (s2, 0) else skip_0x s2);
          b = (if base \<noteq> 0 then base else if pre > 0 then 16
               else if s2 \<noteq> [] \<and> hd s2 = CHR ''0'' then 8 else 10);
          (v, ct) = scan_base b s3 0 0
      in if ct = 0 then (0, 0)
         else (saturate_long (if neg then - int v else int v), ws + (if signed then 1 else 0) + pre + ct))"

definition str_to_long :: "string option \<Rightarrow> nat \<Rightarrow> int option option" where
  "str_to_long sval base = do {
     c_assert (base = 0 \<or> base = 10 \<or> base = 16);
     Some (case sval of
             None \<Rightarrow> None
           | Some s \<Rightarrow>
               if s = [] then None
               else
                 let x = (hd s = CHR ''x'' \<or> hd s = CHR ''X'');
                     work = (if x then CHR ''0'' # s else s);
                     has_digits = (if x then length work > 2 else length work > 0);
                     (result, endofs) = strtol base work
                 in if has_digits \<and> endofs = length work then Some result else None)
   }"

definition str_to_int :: "string option \<Rightarrow> nat \<Rightarrow> int option option" where
  "str_to_int sval base = do {
     r \<leftarrow> str_to_long sval base;
     Some (case r of
             None \<Rightarrow> None
           | Some lval \<Rightarrow> if - (2 ^ 31) \<le> lval \<and> lval < 2 ^ 31 then Some lval else None)
   }"

section \<open>Hex output\<close>

definition hex_char_upper :: "nat \<Rightarrow> char" where
  "hex_char_upper n = (if n < 10 then char_of (48 + n) else char_of (55 + n))"

definition byte_to_hs :: "byte \<Rightarrow> bool \<Rightarrow> string" where
  "byte_to_hs ch uppercase =
     (let digit = (if uppercase then hex_char_upper else hex_char)
      in [digit (unat ch div 16), digit (unat ch mod 16)])"

text \<open>Every byte is followed by a blank, and the last blank is overwritten.\<close>

definition hexstring :: "byte list \<Rightarrow> string option" where
  "hexstring bytes = do {
     c_assert (bytes \<noteq> []);
     Some (butlast (concat (map (\<lambda>b. byte_to_hs b False @ '' '') bytes)))
   }"

fun hex_join :: "byte list \<Rightarrow> string \<Rightarrow> bool \<Rightarrow> string" where
  "hex_join [] sep uppercase = []"
| "hex_join (b # bs) sep uppercase =
     byte_to_hs b uppercase @ (if bs = [] then [] else sep) @ hex_join bs sep uppercase"

text \<open>The size of the caller's buffer, 0 if the function is to allocate it.\<close>

definition hexstring2 :: "byte list \<Rightarrow> string option \<Rightarrow> bool \<Rightarrow> nat \<Rightarrow> string option" where
  "hexstring2 bytes sepstr uppercase bufsz = do {
     let sep = (case sepstr of None \<Rightarrow> [] | Some s \<Rightarrow> s);
     let required_size = (if bytes = [] then 1 else 2 * length bytes + (length bytes - 1) * length sep + 1);
     c_assert (bufsz = 0 \<or> bufsz \<ge> required_size);
     let buffer = hex_join bytes sep uppercase;
     c_assert (length buffer = required_size - 1);
     Some buffer
   }"

fun hex_hunks :: "byte list \<Rightarrow> nat \<Rightarrow> string option \<Rightarrow> nat \<Rightarrow> bool \<Rightarrow> string" where
  "hex_hunks [] i sepstr hunk_size uppercase = []"
| "hex_hunks (b # bs) i sepstr hunk_size uppercase =
     byte_to_hs b uppercase @
     (case sepstr of
        Some sep \<Rightarrow> if bs \<noteq> [] \<and> (hunk_size = 0 \<or> (i + 1) mod hunk_size = 0) then sep else []
      | None \<Rightarrow> []) @
     hex_hunks bs (i + 1) sepstr hunk_size uppercase"

definition hexstring3_t :: "byte list \<Rightarrow> string option \<Rightarrow> nat \<Rightarrow> bool \<Rightarrow> string option" where
  "hexstring3_t bytes sepstr hunk_size uppercase = do {
     let sepstr = (if hunk_size = 0 then None else sepstr);
     let hunk_size = (if sepstr = None then 0 else hunk_size);
     let sepsize = (case sepstr of None \<Rightarrow> 0 | Some s \<Rightarrow> length s);
     let required_size = (if bytes = [] then 1 else 2 * length bytes + (length bytes - 1) * sepsize + 1);
     let buf = hex_hunks bytes 0 sepstr hunk_size uppercase;
     c_assert (length buf \<le> required_size - 1);
     Some buf
   }"

definition hexstring_t :: "byte list \<Rightarrow> string option" where
  "hexstring_t bytes = hexstring3_t bytes (Some '' '') 1 False"

section \<open>Miscellaneous\<close>

definition all_bytes_zero :: "byte list \<Rightarrow> bool" where
  "all_bytes_zero bytes \<longleftrightarrow> foldl (OR) 0 bytes = 0"

text \<open>The last character of the argument is read before it is known that there is one.\<close>

definition canonicalize_possible_hex_value :: "string \<Rightarrow> string option" where
  "canonicalize_possible_hex_value s =
     (if s = [] then None
      else if hd s = CHR ''X'' \<or> hd s = CHR ''x'' then Some (''0x'' @ tl s)
      else if last s = CHR ''H'' \<or> last s = CHR ''h'' then Some (''0x'' @ butlast s)
      else if str_starts_with (Some s) (Some ''0X'') then Some (''0x'' @ drop 2 s)
      else Some s)"

section \<open>Splitting and joining\<close>

lemma strsep_no_delim: "set s \<inter> set delims = {} \<Longrightarrow> strsep_tokens s delims = [s]"
proof -
  assume "set s \<inter> set delims = {}"
  then have "dropWhile (\<lambda>c. c \<notin> set delims) s = []" by (auto simp: dropWhile_eq_Nil_conv)
  then show ?thesis by (subst strsep_tokens.simps) (simp only: list.case)
qed

lemma strsep_delim:
  assumes "set s \<inter> set delims = {}" "d \<in> set delims"
  shows "strsep_tokens (s @ d # rest) delims = s # strsep_tokens rest delims"
proof -
  have "dropWhile (\<lambda>c. c \<notin> set delims) (s @ d # rest) = d # rest"
    "takeWhile (\<lambda>c. c \<notin> set delims) (s @ d # rest) = s"
    using assms by (induction s) auto
  then show ?thesis by (subst strsep_tokens.simps) simp
qed

lemma strsep_tokens_spec:
  "t \<in> set (strsep_tokens s delims) \<Longrightarrow> set t \<inter> set delims = {}"
proof (induction s delims rule: strsep_tokens.induct)
  case (1 s delims)
  have tw: "set (takeWhile (\<lambda>c. c \<notin> set delims) s) \<inter> set delims = {}"
    by (auto dest: set_takeWhileD)
  show ?case
  proof (cases "dropWhile (\<lambda>c. c \<notin> set delims) s")
    case Nil
    have "strsep_tokens s delims = [s]" by (subst strsep_tokens.simps) (simp only: Nil list.case)
    then have "t = s" using 1(2) by simp
    moreover have "\<forall>c \<in> set s. c \<notin> set delims" using Nil by (simp only: dropWhile_eq_Nil_conv)
    ultimately show ?thesis by blast
  next
    case (Cons c rest)
    then have "t = takeWhile (\<lambda>c. c \<notin> set delims) s \<or> t \<in> set (strsep_tokens rest delims)"
      using 1(2) by (simp add: strsep_tokens.simps [of s])
    then show ?thesis using tw 1(1) [OF Cons] by blast
  qed
qed

lemma strsep_join:
  assumes "\<forall>p \<in> set ps. set p \<inter> set delims = {}" "ps \<noteq> []" "d \<in> set delims"
  shows "strsep_tokens (join_pieces ps [d] True) delims = ps"
  using assms(2,1)
proof (induction ps rule: list_nonempty_induct)
  case (single p)
  then show ?case by (simp add: strsep_no_delim)
next
  case (cons p ps)
  have "join_pieces ps [d] False = d # join_pieces ps [d] True" using cons(1) by (cases ps) simp_all
  then show ?case using cons assms(3) by (simp add: strsep_delim)
qed

lemma length_join_pieces:
  "length (join_pieces ps sep first) =
   sum_list (map length ps) + (if first then length ps - 1 else length ps) * length sep"
  by (induction ps sep first rule: join_pieces.induct) (auto simp: algebra_simps)

lemma strjoin_eq:
  "strjoin ps n sep = Some (join_pieces (take (if n < 0 then 9999 else nat n) ps)
     (case sep of None \<Rightarrow> [] | Some s \<Rightarrow> s) True)"
  by (simp add: strjoin_def length_join_pieces Let_def)

section \<open>Splitting to a maximal length\<close>

lemma last_delim_bounds: "last_delim s ds n = Some k \<Longrightarrow> 0 < k \<and> k \<le> n \<and> s ! (k - 1) \<in> set ds"
  by (induction s ds n rule: last_delim.induct) (auto split: if_splits)

lemma last_delim_last:
  "last_delim s ds n = Some k \<Longrightarrow> k \<le> i \<Longrightarrow> i < n \<Longrightarrow> s ! i \<notin> set ds"
  by (induction s ds n rule: last_delim.induct) (auto split: if_splits simp: less_Suc_eq)

lemma piece_length_bounds:
  "0 < n \<Longrightarrow> s \<noteq> [] \<Longrightarrow> 0 < piece_length n ds s \<and> piece_length n ds s \<le> n \<and> piece_length n ds s \<le> length s"
  using last_delim_bounds by (fastforce simp: piece_length_def Let_def split: option.splits)

lemma split_maxlength_pieces:
  assumes "0 < n"
  shows "\<exists>ps. split_maxlength n ds s = Some ps \<and> concat ps = s \<and>
    list_all (\<lambda>p. 0 < length p \<and> length p \<le> n) ps"
proof (induction s rule: length_induct)
  case (1 s)
  show ?case
  proof (cases "s = []")
    case True
    then show ?thesis by (subst split_maxlength.simps) simp
  next
    case False
    let ?k = "piece_length n ds s"
    have k: "0 < ?k" "?k \<le> n" "?k \<le> length s" using piece_length_bounds [OF assms False] by blast+
    then have "length (drop ?k s) < length s" by simp
    with 1 obtain ps where ps: "split_maxlength n ds (drop ?k s) = Some ps" "concat ps = drop ?k s"
      "list_all (\<lambda>p. 0 < length p \<and> length p \<le> n) ps" by blast
    with False k show ?thesis by (subst split_maxlength.simps) simp
  qed
qed

lemma piece_length_0: "piece_length 0 ds s = 0"
  by (simp add: piece_length_def split: option.split)

lemma split_maxlength_stuck: "split_maxlength n ds s = Some ps \<Longrightarrow> n = 0 \<longrightarrow> s = []"
proof (erule split_maxlength.raw_induct [rotated, where P = "\<lambda>n ds s ps. n = 0 \<longrightarrow> s = []"], intro impI, rule ccontr)
  fix f :: "nat \<Rightarrow> string option \<Rightarrow> string \<Rightarrow> string list option" and m ds' t y
  assume ih: "\<And>n ds s ps. f n ds s = Some ps \<Longrightarrow> n = 0 \<longrightarrow> s = []"
    and step: "(if t = [] then Some []
      else let k = piece_length m ds' t in f m ds' (drop k t) \<bind> (\<lambda>rest. Some (take k t # rest))) = Some y"
    and "m = 0" "t \<noteq> []"
  then obtain rest where "f m ds' t = Some rest" by (auto simp: piece_length_0 bind_eq_Some_conv)
  with ih \<open>m = 0\<close> \<open>t \<noteq> []\<close> show False by blast
qed

lemma split_maxlength_0: "s \<noteq> [] \<Longrightarrow> split_maxlength 0 ds s = None"
  using split_maxlength_stuck [of 0 ds s] by (cases "split_maxlength 0 ds s") auto

section \<open>Search\<close>

lemma starts_with_iff: "str_starts_with (Some v) (Some p) \<longleftrightarrow> take (length p) v = p"
proof -
  have "take (length p) v = p \<Longrightarrow> length p \<le> length v" by (metis length_take min.cobounded1)
  then show ?thesis by (auto simp: str_starts_with_def is_abbrev_def)
qed

text \<open>\<^verbatim>\<open>strstr\<close> finds the first occurrence; \<open>str_contains\<close> misses an occurrence at the end.\<close>

definition occurs_at :: "string \<Rightarrow> string \<Rightarrow> nat \<Rightarrow> bool" where
  "occurs_at v seg i \<longleftrightarrow> i \<le> length v \<and> take (length seg) (drop i v) = seg"

lemma occurs_at_Cons: "occurs_at (c # v) seg (Suc i) = occurs_at v seg i"
  by (simp add: occurs_at_def)

lemma strstr_Some:
  "strstr v seg = Some n \<Longrightarrow> occurs_at v seg n \<and> (\<forall>i < n. \<not> occurs_at v seg i)"
proof (induction v arbitrary: n)
  case (Cons c v)
  show ?case
  proof (cases "take (length seg) (c # v) = seg")
    case False
    with Cons.prems obtain m where m: "strstr v seg = Some m" "n = Suc m" by (auto split: option.splits)
    from Cons.IH [OF m(1)] False show ?thesis
      unfolding m(2) by (auto simp: occurs_at_Cons less_Suc_eq_0_disj) (simp add: occurs_at_def)
  qed (use Cons.prems in \<open>simp add: occurs_at_def\<close>)
qed (simp add: occurs_at_def split: if_splits)

lemma strstr_None: "strstr v seg = None \<Longrightarrow> \<not> occurs_at v seg i"
proof (induction v arbitrary: i)
  case (Cons c v)
  then show ?case
    by (cases i) (auto simp: occurs_at_Cons split: if_splits option.splits, simp add: occurs_at_def)
qed (simp add: occurs_at_def split: if_splits)

lemma str_contains_loop_spec:
  "(str_contains_loop v seg ndx ct = -1 \<longrightarrow> (\<forall>i. ndx \<le> i \<and> i < ndx + ct \<longrightarrow> take (length seg) (drop i v) \<noteq> seg)) \<and>
   (str_contains_loop v seg ndx ct \<noteq> -1 \<longrightarrow>
      (\<exists>n. str_contains_loop v seg ndx ct = int n \<and> ndx \<le> n \<and> n < ndx + ct \<and> take (length seg) (drop n v) = seg \<and>
         (\<forall>i. ndx \<le> i \<and> i < n \<longrightarrow> take (length seg) (drop i v) \<noteq> seg)))"
proof (induction v seg ndx ct rule: str_contains_loop.induct)
  case (2 v seg ndx ct)
  show ?case
  proof (cases "take (length seg) (drop ndx v) = seg")
    case False
    have ge: "i = ndx \<or> Suc ndx \<le> i" if "ndx \<le> i" for i using that by linarith
    from False 2 show ?thesis
      by (simp add: starts_with_iff) (metis ge add_Suc_right add_Suc Suc_leD)
  qed (auto simp: starts_with_iff)
qed auto

lemma str_contains_found:
  "str_contains (Some v) (Some seg) = int n \<Longrightarrow> occurs_at v seg n \<and> n < length v - length seg"
  using str_contains_loop_spec [of v seg 0 "nat (int (length v) - int (length seg))"]
  by (auto simp: str_contains_def occurs_at_def)

text \<open>The occurrence that ends the string is the one the loop never tests.\<close>

lemma str_contains_iff:
  "str_contains (Some v) (Some seg) = -1 \<longleftrightarrow> (\<forall>i < length v - length seg. \<not> occurs_at v seg i)"
proof -
  have ct: "nat (int (length v) - int (length seg)) = length v - length seg" by linarith
  note spec = str_contains_loop_spec [of v seg 0 "length v - length seg"]
  show ?thesis
    using spec unfolding str_contains_def option.case prod.case ct occurs_at_def
    by (auto simp: less_diff_conv)
qed

lemma str_contains_misses_the_end:
  "str_contains (Some ''ab'') (Some ''b'') = -1" "strstr ''ab'' ''b'' = Some 1"
  by code_simp+

section \<open>Trimming\<close>

lemma trim_in_place_samples:
  "trim_in_place ''ab  '' = ''ab''" "trim_in_place ''  ab'' = ''ab''"
  "trim_in_place '' ab '' = ''a''" "strtrim '' ab '' = Some ''ab''"
  by code_simp+

lemma trim_loop_no_space:
  "0 < n \<Longrightarrow> \<not> c_isspace (s ! (k + n - 1)) \<Longrightarrow> trim_loop s k n = s"
  by (cases n) simp_all

text \<open>Without trailing blanks, and without leading ones, it does what it is for.\<close>

lemma count_leading_space_eq: "count_leading_space s = length (takeWhile c_isspace s)"
  by (induction s) auto

lemma ltrim_eq: "ltrim_in_place s = dropWhile c_isspace s"
  by (simp add: ltrim_in_place_def count_leading_space_eq dropWhile_eq_drop)

section \<open>The bounded string buffer\<close>

lemma sbuf_append_bound:
  assumes "length buf < bufsz" "sbuf_append buf bufsz sep v = Some (trunc, buf')"
  shows "length buf' < bufsz \<and> (trunc \<or> buf' = (if buf = [] then v else buf @ (case sep of None \<Rightarrow> [] | Some s \<Rightarrow> s) @ v))"
  using assms by (auto simp: sbuf_append_def c_assert_def Let_def bind_eq_Some_conv split: if_splits option.splits)

section \<open>Decimal numbers are read back\<close>

lemma digit_in_base_10: "d < 10 \<Longrightarrow> digit_in_base 10 (char_of (48 + d)) = Some d"
  by (simp add: digit_in_base_def hex_digit_def Let_def of_char_of)

lemma scan_base_dec_digits:
  "scan_base 10 (dec_digits n @ s) acc ct =
   scan_base 10 s (acc * 10 ^ length (dec_digits n) + n) (ct + length (dec_digits n))"
proof (induction n arbitrary: s acc ct rule: dec_digits.induct)
  case (1 n)
  show ?case
  proof (cases "n < 10")
    case True
    then show ?thesis by (simp add: dec_digits.simps [of n] digit_in_base_10)
  next
    case False
    have "scan_base 10 (dec_digits (n div 10) @ (char_of (48 + n mod 10) # s)) acc ct =
        scan_base 10 (char_of (48 + n mod 10) # s)
          (acc * 10 ^ length (dec_digits (n div 10)) + n div 10) (ct + length (dec_digits (n div 10)))"
      using 1 [OF False] .
    then show ?thesis
      using False by (simp add: dec_digits.simps [of n] digit_in_base_10 algebra_simps)
  qed
qed

lemma hd_dec_digits: "dec_digits n = c # cs \<Longrightarrow> dec_digit c \<noteq> None"
  using dec_digits_all [of c n] by simp

lemma strtol_dec_digits: "n < 2 ^ 63 \<Longrightarrow> strtol 10 (dec_digits n) = (int n, length (dec_digits n))"
proof -
  assume n: "n < 2 ^ 63"
  obtain c cs where d: "dec_digits n = c # cs" by (cases "dec_digits n") auto
  have sc: "scan_base 10 (c # cs) 0 0 = (n, length (c # cs))"
    using scan_base_dec_digits [of n "[]" 0 0] by (simp add: d)
  have "saturate_long (int n) = int n" using n by (simp add: saturate_long_def)
  then show ?thesis
    using digit_not_special [OF hd_dec_digits [OF d]] unfolding d strtol_def Let_def
    by (simp add: sc del: scan_base.simps)
qed

lemma str_to_long_dec_digits: "n < 2 ^ 63 \<Longrightarrow> str_to_long (Some (dec_digits n)) 10 = Some (Some (int n))"
proof -
  assume n: "n < 2 ^ 63"
  obtain c cs where d: "dec_digits n = c # cs" by (cases "dec_digits n") auto
  have "c \<noteq> CHR ''x''" "c \<noteq> CHR ''X''" using hd_dec_digits [OF d] by (auto simp: dec_digit_def)
  then show ?thesis using strtol_dec_digits [OF n] by (simp add: str_to_long_def d Let_def)
qed

end
