(* ===== verification/I2c_Execute.thy ===== *)
theory I2c_Execute
  imports Status_Codes String_Util
begin

text \<open>
  Reading and writing the I2C bus: \<^verbatim>\<open>src/src/i2c/i2c_execute.c\<close> and
  \<^verbatim>\<open>src/src/i2c/i2c_strategy_dispatcher.c\<close>. The system calls on the open device file are
  the fields of \<open>I2C_Driver\<close>, functions on the unknown state \<open>'w\<close> of the kernel and the
  display. A system call that fails yields the error number, \<open>Inl e\<close>, and sets
  \<^verbatim>\<open>errno\<close>; one that succeeds leaves \<^verbatim>\<open>errno\<close> alone, as the manual pages state.
\<close>

section \<open>The system calls\<close>

record 'w I2C_Driver =
  drv_set_slave :: "bool \<Rightarrow> byte \<Rightarrow> 'w \<Rightarrow> (int + unit) \<times> 'w"
  drv_poll :: "'w \<Rightarrow> (int + nat) \<times> 'w"
  drv_write :: "byte list \<Rightarrow> 'w \<Rightarrow> (int + nat) \<times> 'w"
  drv_read :: "nat \<Rightarrow> 'w \<Rightarrow> (int + byte list) \<times> 'w"
  drv_rdwr_write :: "byte \<Rightarrow> byte list \<Rightarrow> 'w \<Rightarrow> (int + nat) \<times> 'w"
  drv_rdwr_read :: "byte \<Rightarrow> nat \<Rightarrow> 'w \<Rightarrow> (int + byte list) \<times> 'w"
  drv_fd_name :: "'w \<Rightarrow> string option"
  drv_sysfs_driver :: "int \<Rightarrow> string option"
  drv_name :: string

text \<open>
  The last three are what can be read about the device: the name that the link
  \<^verbatim>\<open>/proc/self/fd/N\<close> of the open descriptor gives, if it can be read, the driver of a bus
  in sysfs (\<^verbatim>\<open>get_i2c_sysfs_driver_by_busno\<close>), and the driver noted in the bus record. To read
  them leaves \<^verbatim>\<open>errno\<close> alone.
\<close>

datatype I2C_IO_Strategy_Id =
    I2C_IO_STRATEGY_NOT_SET
  | I2C_IO_STRATEGY_FILEIO
  | I2C_IO_STRATEGY_IOCTL

text \<open>The state: \<^verbatim>\<open>errno\<close>, the static variables of the two files, and the device.\<close>

record 'w Io =
  errno :: int
  i2c_forceable_slave_addr_flag :: bool
  use_timeout :: bool
  io_strategy :: I2C_IO_Strategy_Id
  nvidia_einval_bug_encountered :: bool
  dev :: 'w

abbreviation ETIMEDOUT :: int where "ETIMEDOUT \<equiv> 110"

text \<open>Perform a system call: the result, with \<^verbatim>\<open>errno\<close> set if it fails.\<close>

definition syscall :: "('w \<Rightarrow> (int + 'a) \<times> 'w) \<Rightarrow> 'w Io \<Rightarrow> (int + 'a) \<times> 'w Io" where
  "syscall f st =
     (case f (dev st) of
        (Inl e, w) \<Rightarrow> (Inl e, st\<lparr>dev := w, errno := e\<rparr>)
      | (Inr r, w) \<Rightarrow> (Inr r, st\<lparr>dev := w\<rparr>))"

section \<open>Slave address\<close>

definition i2c_set_addr0 :: "'w I2C_Driver \<Rightarrow> bool \<Rightarrow> byte \<Rightarrow> 'w Io \<Rightarrow> int \<times> 'w Io" where
  "i2c_set_addr0 drv force addr st =
     (case syscall (drv_set_slave drv force addr) st of
        (Inl e, st) \<Rightarrow> (- e, st)
      | (Inr _, st) \<Rightarrow> (0, st))"

text \<open>The loop runs a second time, with \<^verbatim>\<open>I2C_SLAVE_FORCE\<close>, at most.\<close>

definition i2c_set_addr :: "'w I2C_Driver \<Rightarrow> byte \<Rightarrow> 'w Io \<Rightarrow> int \<times> 'w Io" where
  "i2c_set_addr drv addr st =
     (let (result, st) = i2c_set_addr0 drv False addr st
      in if result = - EBUSY \<and> i2c_forceable_slave_addr_flag st
         then i2c_set_addr0 drv True addr st
         else (result, st))"

section \<open>write() and read()\<close>

text \<open>The wait with \<^verbatim>\<open>poll()\<close>: 0 or the status code to return.\<close>

definition poll_device :: "'w I2C_Driver \<Rightarrow> 'w Io \<Rightarrow> int \<times> 'w Io" where
  "poll_device drv st =
     (if use_timeout st
      then (case syscall (drv_poll drv) st of
              (Inl e, st) \<Rightarrow> (- e, st)
            | (Inr n, st) \<Rightarrow> (if n = 0 then - ETIMEDOUT else 0, st))
      else (0, st))"

definition i2c_fileio_writer :: "'w I2C_Driver \<Rightarrow> byte \<Rightarrow> byte list \<Rightarrow> 'w Io \<Rightarrow> int \<times> 'w Io" where
  "i2c_fileio_writer drv slave_address pbytes st =
     (let (rc, st) = i2c_set_addr drv slave_address st
      in if rc < 0 then (rc, st)
         else let (rc, st) = poll_device drv st
              in if rc < 0 then (rc, st)
                 else (case syscall (drv_write drv pbytes) st of
                         (Inr n, st) \<Rightarrow> (if n = length pbytes then 0 else DDCRC_DDC_DATA, st)
                       | (Inl e, st) \<Rightarrow> (- e, st)))"

text \<open>
  The buffer is an argument and is returned. At the end \<^verbatim>\<open>rc = -errno\<close> for every negative
  \<open>rc\<close>, also for \<^verbatim>\<open>DDCRC_DDC_DATA\<close>.
\<close>

fun fileio_read_bytes ::
    "'w I2C_Driver \<Rightarrow> nat \<Rightarrow> nat \<Rightarrow> byte list \<Rightarrow> 'w Io \<Rightarrow> int \<times> byte list \<times> 'w Io" where
  "fileio_read_bytes drv ndx 0 readbuf st = (0, readbuf, st)"
| "fileio_read_bytes drv ndx (Suc n) readbuf st =
     (case syscall (drv_read drv 1) st of
        (Inl e, st) \<Rightarrow> (-1, readbuf, st)
      | (Inr bs, st) \<Rightarrow>
          if length bs = 1 then fileio_read_bytes drv (ndx + 1) n (mem_write readbuf ndx bs) st
          else (DDCRC_DDC_DATA, readbuf, st))"

definition i2c_fileio_reader ::
    "'w I2C_Driver \<Rightarrow> byte \<Rightarrow> bool \<Rightarrow> nat \<Rightarrow> byte list \<Rightarrow> 'w Io \<Rightarrow> int \<times> byte list \<times> 'w Io" where
  "i2c_fileio_reader drv slave_address single_byte_reads bytect readbuf st =
     (let (rc, st) = i2c_set_addr drv slave_address st
      in if rc < 0 then (rc, readbuf, st)
         else if single_byte_reads
         then (let (rc, readbuf, st) = fileio_read_bytes drv 0 bytect readbuf st
               in (if rc < 0 then - errno st else rc, readbuf, st))
         else let (rc, st) = poll_device drv st
              in if rc < 0 then (rc, readbuf, st)
                 else (case syscall (drv_read drv bytect) st of
                         (Inr bs, st) \<Rightarrow>
                           (let rc = (if length bs = bytect then 0 else DDCRC_DDC_DATA)
                            in (if rc < 0 then - errno st else rc, mem_write readbuf 0 bs, st))
                       | (Inl e, st) \<Rightarrow> (- errno st, readbuf, st)))"

section \<open>ioctl(I2C_RDWR)\<close>

definition i2c_ioctl_writer :: "'w I2C_Driver \<Rightarrow> byte \<Rightarrow> byte list \<Rightarrow> 'w Io \<Rightarrow> int \<times> 'w Io" where
  "i2c_ioctl_writer drv slave_address pbytes st =
     (case syscall (drv_rdwr_write drv slave_address pbytes) st of
        (Inl e, st) \<Rightarrow> (- e, st)
      | (Inr _, st) \<Rightarrow> (0, st))"

text \<open>The part of the buffer that is read into is cleared first.\<close>

definition i2c_ioctl_reader1 ::
    "'w I2C_Driver \<Rightarrow> byte \<Rightarrow> nat \<Rightarrow> nat \<Rightarrow> byte list \<Rightarrow> 'w Io \<Rightarrow> int \<times> byte list \<times> 'w Io" where
  "i2c_ioctl_reader1 drv slave_addr off bytect readbuf st =
     (let readbuf = mem_write readbuf off (replicate bytect 0)
      in case syscall (drv_rdwr_read drv slave_addr bytect) st of
           (Inl e, st) \<Rightarrow> (- e, readbuf, st)
         | (Inr bs, st) \<Rightarrow> (0, mem_write readbuf off bs, st))"

fun ioctl_read_bytes ::
    "'w I2C_Driver \<Rightarrow> byte \<Rightarrow> nat \<Rightarrow> nat \<Rightarrow> byte list \<Rightarrow> 'w Io \<Rightarrow> int \<times> byte list \<times> 'w Io" where
  "ioctl_read_bytes drv slave_addr ndx 0 readbuf st = (0, readbuf, st)"
| "ioctl_read_bytes drv slave_addr ndx (Suc n) readbuf st =
     (let (rc, readbuf, st) = i2c_ioctl_reader1 drv slave_addr ndx 1 readbuf st
      in if rc = 0 then ioctl_read_bytes drv slave_addr (ndx + 1) n readbuf st
         else (rc, readbuf, st))"

definition i2c_ioctl_reader ::
    "'w I2C_Driver \<Rightarrow> byte \<Rightarrow> bool \<Rightarrow> nat \<Rightarrow> byte list \<Rightarrow> 'w Io \<Rightarrow> int \<times> byte list \<times> 'w Io" where
  "i2c_ioctl_reader drv slave_addr read_bytewise bytect readbuf st =
     (if read_bytewise then ioctl_read_bytes drv slave_addr 0 bytect readbuf st
      else i2c_ioctl_reader1 drv slave_addr 0 bytect readbuf st)"

section \<open>Strategy\<close>

definition i2c_set_io_strategy_by_id :: "I2C_IO_Strategy_Id \<Rightarrow> 'w Io \<Rightarrow> 'w Io option" where
  "i2c_set_io_strategy_by_id strategy_id st = do {
     c_assert (strategy_id \<noteq> I2C_IO_STRATEGY_NOT_SET);
     Some (st\<lparr>io_strategy := strategy_id\<rparr>)
   }"

text \<open>Whether to retry, and the state with the file strategy set in that case.\<close>

definition is_nvidia_einval_bug ::
    "'w I2C_Driver \<Rightarrow> I2C_IO_Strategy_Id \<Rightarrow> int \<Rightarrow> int \<Rightarrow> 'w Io \<Rightarrow> (bool \<times> 'w Io) option" where
  "is_nvidia_einval_bug drv strategy_id busno rc st =
     (if rc = - EINVAL \<and> strategy_id = I2C_IO_STRATEGY_IOCTL \<and> drv_sysfs_driver drv busno = Some ''nvidia''
      then do {
        st \<leftarrow> i2c_set_io_strategy_by_id I2C_IO_STRATEGY_FILEIO
                (st\<lparr>nvidia_einval_bug_encountered := True\<rparr>);
        Some (True, st)
      }
      else Some (False, st))"

section \<open>The bus number of an open descriptor\<close>

definition PATH_MAX :: nat where
  "PATH_MAX = 4096"

text \<open>\<^verbatim>\<open>filename_for_fd\<close> and \<^verbatim>\<open>filename_for_fd_t\<close> of \<^verbatim>\<open>src/src/util/file_util.c\<close>.\<close>

definition filename_for_fd :: "'w I2C_Driver \<Rightarrow> 'w \<Rightarrow> string option" where
  "filename_for_fd drv w = map_option (take PATH_MAX) (drv_fd_name drv w)"

definition filename_for_fd_t :: "'w I2C_Driver \<Rightarrow> 'w \<Rightarrow> string option" where
  "filename_for_fd_t drv w = map_option (take (PATH_MAX - 1)) (filename_for_fd drv w)"

text \<open>
  Of \<^verbatim>\<open>src/src/util/i2c_util.c\<close>: the number after the first hyphen, -1 if there is none. The
  base is 10, so the assertion of \<open>str_to_int\<close> on the base holds.
\<close>

definition extract_number_after_hyphen :: "string option \<Rightarrow> int" where
  "extract_number_after_hyphen name =
     (case name of
        None \<Rightarrow> -1
      | Some name \<Rightarrow>
          (case dropWhile (\<lambda>c. c \<noteq> CHR ''-'') name of
             hyphen # c # rest \<Rightarrow>
               (case str_to_int (Some (c # rest)) 10 of Some (Some ival) \<Rightarrow> ival | _ \<Rightarrow> -1)
           | _ \<Rightarrow> -1))"

definition fd_busno :: "'w I2C_Driver \<Rightarrow> 'w \<Rightarrow> int" where
  "fd_busno drv w = extract_number_after_hyphen (filename_for_fd_t drv w)"

text \<open>What follows a status of \<^verbatim>\<open>-EINVAL\<close>: whether to try again. The program stops if the name has no number.\<close>

definition retry_after_einval ::
    "'w I2C_Driver \<Rightarrow> I2C_IO_Strategy_Id \<Rightarrow> int \<Rightarrow> 'w Io \<Rightarrow> (bool \<times> 'w Io) option" where
  "retry_after_einval drv strategy_id rc st =
     (if rc = - EINVAL
      then do {
        let busno = fd_busno drv (dev st);
        c_assert (busno \<ge> 0);
        is_nvidia_einval_bug drv strategy_id busno rc st
      }
      else Some (False, st))"

section \<open>Calls of the strategy\<close>

definition strategy_writer ::
    "'w I2C_Driver \<Rightarrow> byte \<Rightarrow> byte list \<Rightarrow> 'w Io \<Rightarrow> (int \<times> 'w Io) option" where
  "strategy_writer drv slave_address bytes_to_write st =
     (case io_strategy st of
        I2C_IO_STRATEGY_NOT_SET \<Rightarrow> None
      | I2C_IO_STRATEGY_FILEIO \<Rightarrow> Some (i2c_fileio_writer drv slave_address bytes_to_write st)
      | I2C_IO_STRATEGY_IOCTL \<Rightarrow> Some (i2c_ioctl_writer drv slave_address bytes_to_write st))"

definition strategy_reader ::
    "'w I2C_Driver \<Rightarrow> byte \<Rightarrow> bool \<Rightarrow> nat \<Rightarrow> byte list \<Rightarrow> 'w Io \<Rightarrow> (int \<times> byte list \<times> 'w Io) option" where
  "strategy_reader drv slave_address read_bytewise bytect readbuf st =
     (case io_strategy st of
        I2C_IO_STRATEGY_NOT_SET \<Rightarrow> None
      | I2C_IO_STRATEGY_FILEIO \<Rightarrow>
          Some (i2c_fileio_reader drv slave_address read_bytewise bytect readbuf st)
      | I2C_IO_STRATEGY_IOCTL \<Rightarrow>
          Some (i2c_ioctl_reader drv slave_address read_bytewise bytect readbuf st))"

text \<open>
  The \<^verbatim>\<open>goto retry\<close> loops, with the number of passes allowed as fuel. Two passes are
  enough, since a retry leaves the ioctl strategy.
\<close>

fun invoke_i2c_writer ::
    "'w I2C_Driver \<Rightarrow> nat \<Rightarrow> byte \<Rightarrow> byte list \<Rightarrow> 'w Io \<Rightarrow> (int \<times> 'w Io) option" where
  "invoke_i2c_writer drv 0 slave_address bytes_to_write st = None"
| "invoke_i2c_writer drv (Suc fuel) slave_address bytes_to_write st = do {
     let strategy_id = io_strategy st;
     (rc, st) \<leftarrow> strategy_writer drv slave_address bytes_to_write st;
     (retry, st) \<leftarrow> retry_after_einval drv strategy_id rc st;
     (if retry then invoke_i2c_writer drv fuel slave_address bytes_to_write st
      else do {
        c_assert (rc \<le> 0);
        Some (rc, st)
      })
   }"

fun invoke_i2c_reader ::
    "'w I2C_Driver \<Rightarrow> nat \<Rightarrow> byte \<Rightarrow> bool \<Rightarrow> nat \<Rightarrow> byte list \<Rightarrow> 'w Io \<Rightarrow>
     (int \<times> byte list \<times> 'w Io) option" where
  "invoke_i2c_reader drv 0 slave_address read_bytewise bytect readbuf st = None"
| "invoke_i2c_reader drv (Suc fuel) slave_address read_bytewise bytect readbuf st = do {
     let strategy_id = io_strategy st;
     (rc, readbuf, st) \<leftarrow> strategy_reader drv slave_address read_bytewise bytect readbuf st;
     c_assert (rc \<le> 0);
     (retry, st) \<leftarrow> retry_after_einval drv strategy_id rc st;
     (if retry then invoke_i2c_reader drv fuel slave_address read_bytewise bytect readbuf st
      else Some (rc, readbuf, st))
   }"

section \<open>What the device promises\<close>

text \<open>
  The documented behaviour of the system calls: an error number is positive, \<^verbatim>\<open>read()\<close>
  yields at most the bytes asked for, and \<^verbatim>\<open>ioctl(I2C_RDWR)\<close> reads exactly those.
\<close>

definition good_call :: "('a \<Rightarrow> bool) \<Rightarrow> ('w \<Rightarrow> (int + 'a) \<times> 'w) \<Rightarrow> bool" where
  "good_call P f \<longleftrightarrow> (\<forall>w. case fst (f w) of Inl e \<Rightarrow> 0 < e | Inr r \<Rightarrow> P r)"

definition calls_ok :: "'w I2C_Driver \<Rightarrow> bool" where
  "calls_ok drv \<longleftrightarrow>
     (\<forall>f a. good_call (\<lambda>_. True) (drv_set_slave drv f a)) \<and>
     good_call (\<lambda>_. True) (drv_poll drv) \<and>
     (\<forall>bs. good_call (\<lambda>_. True) (drv_write drv bs)) \<and>
     (\<forall>n. good_call (\<lambda>bs. length bs \<le> n) (drv_read drv n)) \<and>
     (\<forall>a bs. good_call (\<lambda>_. True) (drv_rdwr_write drv a bs)) \<and>
     (\<forall>a n. good_call (\<lambda>bs. length bs = n) (drv_rdwr_read drv a n))"

text \<open>The descriptor of a device file \<^verbatim>\<open>/dev/i2c-N\<close> that is not deleted has a name with a bus number.\<close>

definition fd_named :: "'w I2C_Driver \<Rightarrow> bool" where
  "fd_named drv \<longleftrightarrow> (\<forall>w. fd_busno drv w \<ge> 0)"

definition driver_ok :: "'w I2C_Driver \<Rightarrow> bool" where
  "driver_ok drv \<longleftrightarrow> calls_ok drv \<and> fd_named drv"

lemma driver_ok_calls: "driver_ok drv \<Longrightarrow> calls_ok drv"
  by (simp add: driver_ok_def)

text \<open>What the calls leave alone.\<close>

definition same_settings :: "'w Io \<Rightarrow> 'w Io \<Rightarrow> bool" where
  "same_settings st st' \<longleftrightarrow>
     io_strategy st' = io_strategy st \<and> use_timeout st' = use_timeout st \<and>
     i2c_forceable_slave_addr_flag st' = i2c_forceable_slave_addr_flag st \<and>
     nvidia_einval_bug_encountered st' = nvidia_einval_bug_encountered st \<and>
     (0 \<le> errno st \<longrightarrow> 0 \<le> errno st')"

lemma same_settings_refl [simp]: "same_settings st st"
  by (simp add: same_settings_def)

lemma same_settings_trans: "same_settings a b \<Longrightarrow> same_settings b c \<Longrightarrow> same_settings a c"
  by (simp add: same_settings_def)

lemma syscall_good:
  assumes "good_call P f"
  shows "case syscall f st of
           (Inl e, st') \<Rightarrow> 0 < e \<and> errno st' = e \<and> same_settings st st'
         | (Inr r, st') \<Rightarrow> P r \<and> errno st' = errno st \<and> same_settings st st'"
  using assms [unfolded good_call_def, rule_format, of "dev st"]
  by (auto simp: syscall_def same_settings_def split: prod.split sum.split)

text \<open>A status and a state as the calls return them.\<close>

definition io_ok :: "'w Io \<Rightarrow> int \<times> 'w Io \<Rightarrow> bool" where
  "io_ok st r \<longleftrightarrow> fst r \<le> 0 \<and> same_settings st (snd r)"

lemma io_ok_pair [simp]: "io_ok st (rc, st') \<longleftrightarrow> rc \<le> 0 \<and> same_settings st st'"
  by (simp add: io_ok_def)

lemma io_ok_trans: "same_settings a b \<Longrightarrow> io_ok b r \<Longrightarrow> io_ok a r"
  by (auto simp: io_ok_def intro: same_settings_trans)

lemma i2c_set_addr0_ok: "calls_ok drv \<Longrightarrow> io_ok st (i2c_set_addr0 drv f a st)"
  using syscall_good [of "\<lambda>_. True" "drv_set_slave drv f a" st]
  by (auto simp: i2c_set_addr0_def calls_ok_def split: prod.splits sum.splits)

lemma i2c_set_addr_ok: 
  assumes "calls_ok drv" shows "io_ok st (i2c_set_addr drv a st)"
proof -
  obtain r st1 where s: "i2c_set_addr0 drv False a st = (r, st1)" by force
  show ?thesis
    using i2c_set_addr0_ok [OF assms, of st False a] i2c_set_addr0_ok [OF assms, of st1 True a]
    by (auto simp: i2c_set_addr_def s intro: io_ok_trans)
qed

lemma poll_device_ok: "calls_ok drv \<Longrightarrow> io_ok st (poll_device drv st)"
  using syscall_good [of "\<lambda>_. True" "drv_poll drv" st]
  by (auto simp: poll_device_def calls_ok_def split: prod.splits sum.splits)

lemma i2c_fileio_writer_ok:
  assumes d: "calls_ok drv" shows "io_ok st (i2c_fileio_writer drv a bs st)"
proof -
  obtain r1 st1 where s1: "i2c_set_addr drv a st = (r1, st1)" by force
  obtain r2 st2 where s2: "poll_device drv st1 = (r2, st2)" by force
  have "good_call (\<lambda>_. True) (drv_write drv bs)" using d by (simp add: calls_ok_def)
  from syscall_good [OF this, of st2] show ?thesis
    using i2c_set_addr_ok [OF d, of st a] poll_device_ok [OF d, of st1]
    by (auto simp: i2c_fileio_writer_def s1 s2 split: prod.splits sum.splits
             intro: same_settings_trans)
qed

lemma i2c_ioctl_writer_ok: "calls_ok drv \<Longrightarrow> io_ok st (i2c_ioctl_writer drv a bs st)"
  using syscall_good [of "\<lambda>_. True" "drv_rdwr_write drv a bs" st]
  by (auto simp: i2c_ioctl_writer_def calls_ok_def split: prod.splits sum.splits)

text \<open>The same for the readers, which also keep the size of the buffer.\<close>

definition rd_ok :: "'w Io \<Rightarrow> byte list \<Rightarrow> int \<times> byte list \<times> 'w Io \<Rightarrow> bool" where
  "rd_ok st buf r \<longleftrightarrow> fst r \<le> 0 \<and> length (fst (snd r)) = length buf \<and> same_settings st (snd (snd r))"

lemma rd_ok_triple [simp]:
  "rd_ok st buf (rc, buf', st') \<longleftrightarrow> rc \<le> 0 \<and> length buf' = length buf \<and> same_settings st st'"
  by (simp add: rd_ok_def)

lemma rd_ok_trans: "same_settings a b \<Longrightarrow> length buf' = length buf \<Longrightarrow> rd_ok b buf' r \<Longrightarrow> rd_ok a buf r"
  by (auto simp: rd_ok_def intro: same_settings_trans)

lemma fileio_read_bytes_ok:
  assumes d: "calls_ok drv"
  shows "ndx + n \<le> length buf \<Longrightarrow> rd_ok st buf (fileio_read_bytes drv ndx n buf st)"
proof (induction n arbitrary: ndx buf st)
  case (Suc n)
  have g: "good_call (\<lambda>bs. length bs \<le> 1) (drv_read drv 1)" using d by (simp add: calls_ok_def)
  show ?case
  proof (cases "syscall (drv_read drv 1) st")
    case (Pair r st1)
    show ?thesis
    proof (cases r)
      case (Inl e)
      then show ?thesis using syscall_good [OF g, of st] Pair by simp
    next
      case (Inr bs)
      then have b: "same_settings st st1" using syscall_good [OF g, of st] Pair by simp
      show ?thesis
      proof (cases "length bs = 1")
        case True
        have l: "length (mem_write buf ndx bs) = length buf"
          using True Suc.prems by (simp add: mem_simps)
        from Suc.IH [of "ndx + 1" "mem_write buf ndx bs" st1] l Suc.prems
        have "rd_ok st1 (mem_write buf ndx bs) (fileio_read_bytes drv (ndx + 1) n (mem_write buf ndx bs) st1)"
          by simp
        then show ?thesis using Pair Inr True b l by (simp add: rd_ok_trans)
      next
        case False
        then show ?thesis using Pair Inr b by simp
      qed
    qed
  qed
qed simp

lemma i2c_fileio_reader_ok:
  assumes d: "calls_ok drv" and n: "n \<le> length buf" and e: "0 \<le> errno st"
  shows "rd_ok st buf (i2c_fileio_reader drv a single n buf st)"
proof -
  obtain r1 st1 where s1: "i2c_set_addr drv a st = (r1, st1)" by force
  obtain r2 st2 where s2: "poll_device drv st1 = (r2, st2)" by force
  obtain r3 buf3 st3 where s3: "fileio_read_bytes drv 0 n buf st1 = (r3, buf3, st3)"
    by (metis surj_pair)
  have g: "good_call (\<lambda>bs. length bs \<le> n) (drv_read drv n)" using d by (simp add: calls_ok_def)
  have k1: "r1 \<le> 0" "same_settings st st1" using i2c_set_addr_ok [OF d, of st a] s1 by simp_all
  have k2: "r2 \<le> 0" "same_settings st1 st2" using poll_device_ok [OF d, of st1] s2 by simp_all
  have k3: "r3 \<le> 0" "length buf3 = length buf" "same_settings st1 st3"
    using fileio_read_bytes_ok [OF d, of 0 n buf st1] n s3 by simp_all
  note tr = same_settings_trans [OF k1(2)]
  have e3: "0 \<le> errno st3" "0 \<le> errno st2"
    using e tr [OF k3(3)] tr [OF k2(2)] by (simp_all add: same_settings_def)
  have t: "same_settings st st3" "same_settings st st2" using tr k2 k3 by blast+
  show ?thesis
  proof (cases "syscall (drv_read drv n) st2")
    case (Pair r st4)
    show ?thesis
      using syscall_good [OF g, of st2] Pair k1 k2 k3 e3 n t same_settings_trans [OF t(2), of st4]
      by (auto simp: i2c_fileio_reader_def s1 s2 s3 Let_def mem_simps split: sum.splits)
  qed
qed

lemma i2c_ioctl_reader1_ok:
  assumes d: "calls_ok drv" and n: "off + n \<le> length buf"
  shows "rd_ok st buf (i2c_ioctl_reader1 drv a off n buf st)"
proof -
  have g: "good_call (\<lambda>bs. length bs = n) (drv_rdwr_read drv a n)" using d by (simp add: calls_ok_def)
  show ?thesis
    using syscall_good [OF g, of st] n
    by (auto simp: i2c_ioctl_reader1_def mem_simps Let_def split: prod.splits sum.splits)
qed

lemma ioctl_read_bytes_ok:
  assumes d: "calls_ok drv"
  shows "ndx + n \<le> length buf \<Longrightarrow> rd_ok st buf (ioctl_read_bytes drv a ndx n buf st)"
proof (induction n arbitrary: ndx buf st)
  case (Suc n)
  obtain r buf1 st1 where s: "i2c_ioctl_reader1 drv a ndx 1 buf st = (r, buf1, st1)"
    by (metis surj_pair)
  have k: "r \<le> 0" "length buf1 = length buf" "same_settings st st1"
    using i2c_ioctl_reader1_ok [OF d, of ndx 1 buf st a] s Suc.prems by simp_all
  from Suc.IH [of "ndx + 1" buf1 st1] k Suc.prems
  have "rd_ok st1 buf1 (ioctl_read_bytes drv a (ndx + 1) n buf1 st1)" by simp
  then show ?case using s k by (simp add: rd_ok_trans)
qed simp

lemma i2c_ioctl_reader_ok:
  "calls_ok drv \<Longrightarrow> n \<le> length buf \<Longrightarrow> rd_ok st buf (i2c_ioctl_reader drv a single n buf st)"
  by (simp add: i2c_ioctl_reader_def ioctl_read_bytes_ok i2c_ioctl_reader1_ok)


section \<open>The dispatcher\<close>

text \<open>What a pass of the \<^verbatim>\<open>goto retry\<close> loop needs: a strategy, and an \<^verbatim>\<open>errno\<close> that no call made negative.\<close>

definition io_ready :: "'w Io \<Rightarrow> bool" where
  "io_ready st \<longleftrightarrow> io_strategy st \<noteq> I2C_IO_STRATEGY_NOT_SET \<and> 0 \<le> errno st"

lemma io_ready_same: "io_ready st \<Longrightarrow> same_settings st st' \<Longrightarrow> io_ready st'"
  by (simp add: io_ready_def same_settings_def)

lemma strategy_writer_ok:
  assumes "calls_ok drv" "io_ready st"
  shows "\<exists>rc st'. strategy_writer drv a bs st = Some (rc, st') \<and> rc \<le> 0 \<and> same_settings st st'"
  using assms i2c_fileio_writer_ok [OF assms(1), of st a bs] i2c_ioctl_writer_ok [OF assms(1), of st a bs]
  by (auto simp: strategy_writer_def io_ready_def io_ok_def prod_eq_iff
           split: I2C_IO_Strategy_Id.split)

lemma strategy_reader_ok:
  assumes "calls_ok drv" "io_ready st" "n \<le> length buf"
  shows "\<exists>rc buf' st'. strategy_reader drv a bw n buf st = Some (rc, buf', st') \<and>
           rc \<le> 0 \<and> length buf' = length buf \<and> same_settings st st'"
  using assms i2c_fileio_reader_ok [OF assms(1,3), of st a bw] i2c_ioctl_reader_ok [OF assms(1,3), of st a bw]
  by (auto simp: strategy_reader_def io_ready_def rd_ok_def prod_eq_iff
           split: I2C_IO_Strategy_Id.split)

lemma retry_after_einval_fileio:
  "retry_after_einval drv I2C_IO_STRATEGY_FILEIO rc st =
     (if rc = - EINVAL \<and> fd_busno drv (dev st) < 0 then None else Some (False, st))"
  by (simp add: retry_after_einval_def is_nvidia_einval_bug_def c_assert_def)

text \<open>
  The passes of the \<^verbatim>\<open>goto retry\<close> loops as they happen: one, or a second one by \<^verbatim>\<open>write()\<close> and
  \<^verbatim>\<open>read()\<close> when the first met the error of the nvidia driver.
\<close>

definition to_fileio :: "'w Io \<Rightarrow> 'w Io" where
  "to_fileio st = st\<lparr>io_strategy := I2C_IO_STRATEGY_FILEIO, nvidia_einval_bug_encountered := True\<rparr>"

definition nvidia_bug :: "'w I2C_Driver \<Rightarrow> 'w Io \<Rightarrow> int \<Rightarrow> 'w Io \<Rightarrow> bool" where
  "nvidia_bug drv st rc st1 \<longleftrightarrow>
     rc = - EINVAL \<and> io_strategy st = I2C_IO_STRATEGY_IOCTL \<and>
     drv_sysfs_driver drv (fd_busno drv (dev st1)) = Some ''nvidia''"

text \<open>A call that failed with \<^verbatim>\<open>EINVAL\<close> on a descriptor whose name gives no bus number.\<close>

definition unnamed_einval :: "'w I2C_Driver \<Rightarrow> int \<Rightarrow> 'w Io \<Rightarrow> bool" where
  "unnamed_einval drv rc st \<longleftrightarrow> rc = - EINVAL \<and> fd_busno drv (dev st) < 0"

lemma retry_after_einval_cases:
  "retry_after_einval drv (io_strategy st) rc st1 =
     (if unnamed_einval drv rc st1 then None
      else if nvidia_bug drv st rc st1 then Some (True, to_fileio st1) else Some (False, st1))"
  by (auto simp: retry_after_einval_def is_nvidia_einval_bug_def i2c_set_io_strategy_by_id_def c_assert_def
      unnamed_einval_def nvidia_bug_def to_fileio_def)

lemma to_fileio_ready: "io_ready st \<Longrightarrow> io_ready (to_fileio st)"
  by (simp add: io_ready_def to_fileio_def)

lemma to_fileio_strategy [simp]: "io_strategy (to_fileio st) = I2C_IO_STRATEGY_FILEIO"
  by (simp add: to_fileio_def)

definition write_passes :: "'w I2C_Driver \<Rightarrow> byte \<Rightarrow> byte list \<Rightarrow> 'w Io \<Rightarrow> (int \<times> 'w Io) list" where
  "write_passes drv a bs st =
     (case strategy_writer drv a bs st of
        None \<Rightarrow> []
      | Some (rc, st1) \<Rightarrow>
          (rc, st1) #
          (if nvidia_bug drv st rc st1 \<and> \<not> unnamed_einval drv rc st1
           then [i2c_fileio_writer drv a bs (to_fileio st1)] else []))"

definition read_passes ::
    "'w I2C_Driver \<Rightarrow> byte \<Rightarrow> bool \<Rightarrow> nat \<Rightarrow> byte list \<Rightarrow> 'w Io \<Rightarrow> (int \<times> byte list \<times> 'w Io) list" where
  "read_passes drv a bw n buf st =
     (case strategy_reader drv a bw n buf st of
        None \<Rightarrow> []
      | Some (rc, buf1, st1) \<Rightarrow>
          (rc, buf1, st1) #
          (if nvidia_bug drv st rc st1 \<and> \<not> unnamed_einval drv rc st1
           then [i2c_fileio_reader drv a bw n buf1 (to_fileio st1)] else []))"

lemma invoke_writer_fileio:
  assumes d: "calls_ok drv" and st: "io_strategy st = I2C_IO_STRATEGY_FILEIO"
    and w: "i2c_fileio_writer drv a bs st = (rc, st')"
  shows "invoke_i2c_writer drv (Suc fuel) a bs st = (if unnamed_einval drv rc st' then None else Some (rc, st'))"
  using i2c_fileio_writer_ok [OF d, of st a bs] w st
  by (simp add: strategy_writer_def retry_after_einval_fileio unnamed_einval_def)

lemma invoke_reader_fileio:
  assumes d: "calls_ok drv" and st: "io_ready st" "io_strategy st = I2C_IO_STRATEGY_FILEIO"
    and n: "n \<le> length buf" and r: "i2c_fileio_reader drv a bw n buf st = (rc, buf', st')"
  shows "invoke_i2c_reader drv (Suc fuel) a bw n buf st =
           (if unnamed_einval drv rc st' then None else Some (rc, buf', st'))"
  using i2c_fileio_reader_ok [OF d n, of st a bw] r st
  by (simp add: strategy_reader_def retry_after_einval_fileio unnamed_einval_def io_ready_def)

lemma invoke_i2c_writer_passes:
  assumes d: "calls_ok drv" and st: "io_ready st"
  shows "write_passes drv a bs st \<noteq> [] \<and>
         (\<forall>(rc, st') \<in> set (write_passes drv a bs st). rc \<le> 0 \<and> io_ready st') \<and>
         invoke_i2c_writer drv (Suc (Suc k)) a bs st =
           (if \<exists>(rc, st') \<in> set (write_passes drv a bs st). unnamed_einval drv rc st' then None
            else Some (last (write_passes drv a bs st)))"
proof -
  from strategy_writer_ok [OF d st] obtain rc st1 where
    s: "strategy_writer drv a bs st = Some (rc, st1)" "rc \<le> 0" "same_settings st st1" by blast
  obtain rc2 st2 where w: "i2c_fileio_writer drv a bs (to_fileio st1) = (rc2, st2)" by force
  have r: "io_ready st1" using io_ready_same [OF st s(3)] .
  have k: "rc2 \<le> 0" "io_ready st2"
    using i2c_fileio_writer_ok [OF d, of "to_fileio st1" a bs] w io_ready_same [OF to_fileio_ready [OF r]] by simp_all
  show ?thesis
    using s r k
    unfolding write_passes_def invoke_i2c_writer.simps(2) [of _ "Suc k"]
    by (simp add: w invoke_writer_fileio [OF d _ w] retry_after_einval_cases del: invoke_i2c_writer.simps)
qed

lemma invoke_i2c_reader_passes:
  assumes d: "calls_ok drv" and st: "io_ready st" and n: "n \<le> length buf"
  shows "read_passes drv a bw n buf st \<noteq> [] \<and>
         (\<forall>(rc, buf', st') \<in> set (read_passes drv a bw n buf st). rc \<le> 0 \<and> length buf' = length buf \<and> io_ready st') \<and>
         invoke_i2c_reader drv (Suc (Suc k)) a bw n buf st =
           (if \<exists>(rc, buf', st') \<in> set (read_passes drv a bw n buf st). unnamed_einval drv rc st' then None
            else Some (last (read_passes drv a bw n buf st)))"
proof -
  from strategy_reader_ok [OF d st n] obtain rc buf1 st1 where
    s: "strategy_reader drv a bw n buf st = Some (rc, buf1, st1)" "rc \<le> 0"
       "length buf1 = length buf" "same_settings st st1" by blast
  obtain rc2 buf2 st2 where w: "i2c_fileio_reader drv a bw n buf1 (to_fileio st1) = (rc2, buf2, st2)"
    by (metis surj_pair)
  have r: "io_ready st1" using io_ready_same [OF st s(4)] .
  have n1: "n \<le> length buf1" using n s(3) by simp
  have rf: "io_ready (to_fileio st1)" by (rule to_fileio_ready [OF r])
  then have e: "0 \<le> errno (to_fileio st1)" by (simp add: io_ready_def)
  have k: "rc2 \<le> 0" "length buf2 = length buf1" "io_ready st2"
    using i2c_fileio_reader_ok [OF d n1 e, of a bw] w io_ready_same [OF rf] by simp_all
  show ?thesis
    using s r k
    unfolding read_passes_def invoke_i2c_reader.simps(2) [of _ "Suc k"]
    by (simp add: w invoke_reader_fileio [OF d rf _ n1 w] retry_after_einval_cases del: invoke_i2c_reader.simps)
qed

lemma fd_named_busno: "fd_named drv \<Longrightarrow> \<not> unnamed_einval drv rc st"
  by (simp add: fd_named_def unnamed_einval_def not_less)

lemma invoke_i2c_writer_returns:
  assumes d: "driver_ok drv" and st: "io_ready st" and f: "2 \<le> fuel"
  shows "\<exists>rc st'. invoke_i2c_writer drv fuel a bs st = Some (rc, st') \<and> rc \<le> 0 \<and> io_ready st'"
proof -
  from f obtain k where k: "fuel = Suc (Suc k)" by (metis Suc_le_D Suc_le_mono numeral_2_eq_2)
  have c: "calls_ok drv" "fd_named drv" using d by (simp_all add: driver_ok_def)
  show ?thesis
    using invoke_i2c_writer_passes [OF c(1) st, of a bs k] last_in_set [of "write_passes drv a bs st"]
    by (cases "last (write_passes drv a bs st)") (auto simp: k fd_named_busno [OF c(2)] simp del: invoke_i2c_writer.simps)
qed

lemma invoke_i2c_reader_returns:
  assumes d: "driver_ok drv" and st: "io_ready st" and f: "2 \<le> fuel" and n: "n \<le> length buf"
  shows "\<exists>rc buf' st'. invoke_i2c_reader drv fuel a bw n buf st = Some (rc, buf', st') \<and>
           rc \<le> 0 \<and> length buf' = length buf \<and> io_ready st'"
proof -
  from f obtain k where k: "fuel = Suc (Suc k)" by (metis Suc_le_D Suc_le_mono numeral_2_eq_2)
  have c: "calls_ok drv" "fd_named drv" using d by (simp_all add: driver_ok_def)
  show ?thesis
    using invoke_i2c_reader_passes [OF c(1) st n, of a bw k] last_in_set [of "read_passes drv a bw n buf st"]
    by (cases "last (read_passes drv a bw n buf st)") (auto simp: k fd_named_busno [OF c(2)] simp del: invoke_i2c_reader.simps)
qed

text \<open>A driver whose \<^verbatim>\<open>ioctl()\<close> fails with \<^verbatim>\<open>EINVAL\<close> and whose \<^verbatim>\<open>read()\<close> is one byte short.\<close>

definition nvidia_driver :: "unit I2C_Driver" where
  "nvidia_driver =
     \<lparr>drv_set_slave = \<lambda>_ _ w. (Inr (), w), drv_poll = \<lambda>w. (Inr 1, w),
      drv_write = \<lambda>bs w. (Inr (length bs), w), drv_read = \<lambda>n w. (Inr (replicate (n - 1) 0x6e), w),
      drv_rdwr_write = \<lambda>_ _ w. (Inl EINVAL, w), drv_rdwr_read = \<lambda>_ _ w. (Inl EINVAL, w),
      drv_fd_name = \<lambda>_. Some ''/dev/i2c-5'', drv_sysfs_driver = \<lambda>_. Some ''nvidia'',
      drv_name = ''nvidia''\<rparr>"

definition fresh_io :: "unit Io" where
  "fresh_io = \<lparr>errno = 0, i2c_forceable_slave_addr_flag = False, use_timeout = False,
     io_strategy = I2C_IO_STRATEGY_IOCTL, nvidia_einval_bug_encountered = False, dev = ()\<rparr>"

lemma i2c_5_busno: "drv_fd_name drv w = Some ''/dev/i2c-5'' \<Longrightarrow> fd_busno drv w = 5"
proof -
  have "extract_number_after_hyphen (Some ''/dev/i2c-5'') = 5" by code_simp
  then show "drv_fd_name drv w = Some ''/dev/i2c-5'' \<Longrightarrow> fd_busno drv w = 5"
    by (simp add: fd_busno_def filename_for_fd_t_def filename_for_fd_def PATH_MAX_def)
qed

lemma nvidia_driver_ok: "driver_ok nvidia_driver"
  by (simp add: driver_ok_def calls_ok_def fd_named_def i2c_5_busno good_call_def nvidia_driver_def)

lemma fresh_io_ready: "io_ready fresh_io"
  by (simp add: io_ready_def fresh_io_def)

text \<open>C14 (i2c_calls_return): With a device whose system calls behave as documented, two passes of the retry
  loops are enough, and the only way to stop is the assertion on the bus number: a write or a read ends by
  it exactly if a pass failed with \<^verbatim>\<open>EINVAL\<close> on a descriptor whose name, in \<^verbatim>\<open>/proc/self/fd\<close>, gives no bus
  number. Otherwise it returns the result of its last pass, with a status code that is not positive, the
  buffer of its size, and the state ready for the next call.\<close>

theorem i2c_calls_return:
  assumes "calls_ok drv" "io_ready st" "n \<le> length buf"
  shows "(case invoke_i2c_writer drv 2 a bs st of
            None \<Rightarrow> \<exists>(rc, st') \<in> set (write_passes drv a bs st). unnamed_einval drv rc st'
          | Some (rc, st') \<Rightarrow>
              (rc, st') = last (write_passes drv a bs st) \<and> rc \<le> 0 \<and> io_ready st' \<and>
              \<not> (\<exists>(rc, st') \<in> set (write_passes drv a bs st). unnamed_einval drv rc st')) \<and>
         (case invoke_i2c_reader drv 2 a bw n buf st of
            None \<Rightarrow> \<exists>(rc, buf', st') \<in> set (read_passes drv a bw n buf st). unnamed_einval drv rc st'
          | Some (rc, buf', st') \<Rightarrow>
              (rc, buf', st') = last (read_passes drv a bw n buf st) \<and>
              rc \<le> 0 \<and> length buf' = length buf \<and> io_ready st' \<and>
              \<not> (\<exists>(rc, buf', st') \<in> set (read_passes drv a bw n buf st). unnamed_einval drv rc st'))"
proof -
  note w = invoke_i2c_writer_passes [OF assms(1,2), of a bs 0, folded numeral_2_eq_2]
  note r = invoke_i2c_reader_passes [OF assms, of a bw 0, folded numeral_2_eq_2]
  show ?thesis
    using w r last_in_set [of "write_passes drv a bs st"] last_in_set [of "read_passes drv a bw n buf st"]
    by (cases "last (write_passes drv a bs st)"; cases "last (read_passes drv a bw n buf st)")
      (auto split: option.split)
qed

text \<open>The same driver when the device file was removed while it is open.\<close>

definition deleted_driver :: "unit I2C_Driver" where
  "deleted_driver = nvidia_driver\<lparr>drv_fd_name := \<lambda>_. Some ''/dev/i2c-5 (deleted)''\<rparr>"

lemma deleted_busno: "fd_busno deleted_driver w = -1"
proof -
  have "extract_number_after_hyphen (Some ''/dev/i2c-5 (deleted)'') = -1" by code_simp
  then show ?thesis
    by (simp add: fd_busno_def filename_for_fd_t_def filename_for_fd_def PATH_MAX_def deleted_driver_def)
qed

lemma einval_write:
  "strategy_writer nvidia_driver a bs fresh_io = Some (- EINVAL, fresh_io\<lparr>errno := EINVAL\<rparr>)"
  "strategy_writer deleted_driver a bs fresh_io = Some (- EINVAL, fresh_io\<lparr>errno := EINVAL\<rparr>)"
  by (simp_all add: strategy_writer_def i2c_ioctl_writer_def syscall_def deleted_driver_def nvidia_driver_def fresh_io_def)

lemma example_passes:
  "write_passes nvidia_driver 0x37 [0x51, 0x82] fresh_io =
     [(- EINVAL, fresh_io\<lparr>errno := EINVAL\<rparr>), (0, to_fileio (fresh_io\<lparr>errno := EINVAL\<rparr>))]"
  "write_passes deleted_driver 0x37 [0x51, 0x82] fresh_io = [(- EINVAL, fresh_io\<lparr>errno := EINVAL\<rparr>)]"
proof -
  have b: "fd_busno nvidia_driver w = 5" for w by (simp add: i2c_5_busno nvidia_driver_def)
  have n: "drv_sysfs_driver nvidia_driver k = Some ''nvidia''" for k by (simp add: nvidia_driver_def)
  have w: "i2c_fileio_writer nvidia_driver 0x37 [0x51, 0x82] (to_fileio (fresh_io\<lparr>errno := EINVAL\<rparr>)) =
             (0, to_fileio (fresh_io\<lparr>errno := EINVAL\<rparr>))"
    by (simp add: i2c_fileio_writer_def i2c_set_addr_def i2c_set_addr0_def poll_device_def syscall_def to_fileio_def
        nvidia_driver_def fresh_io_def)
  show "write_passes nvidia_driver 0x37 [0x51, 0x82] fresh_io =
     [(- EINVAL, fresh_io\<lparr>errno := EINVAL\<rparr>), (0, to_fileio (fresh_io\<lparr>errno := EINVAL\<rparr>))]"
    by (simp add: write_passes_def einval_write w nvidia_bug_def unnamed_einval_def b n) (simp add: fresh_io_def)
  show "write_passes deleted_driver 0x37 [0x51, 0x82] fresh_io = [(- EINVAL, fresh_io\<lparr>errno := EINVAL\<rparr>)]"
    by (simp add: write_passes_def einval_write unnamed_einval_def deleted_busno)
qed

theorem i2c_calls_return_witness:
  "write_passes nvidia_driver 0x37 [0x51, 0x82] fresh_io =
     [(- EINVAL, fresh_io\<lparr>errno := EINVAL\<rparr>), (0, to_fileio (fresh_io\<lparr>errno := EINVAL\<rparr>))] \<and>
   invoke_i2c_writer nvidia_driver 2 0x37 [0x51, 0x82] fresh_io =
     Some (0, to_fileio (fresh_io\<lparr>errno := EINVAL\<rparr>)) \<and>
   invoke_i2c_writer deleted_driver 2 0x37 [0x51, 0x82] fresh_io = None"
proof -
  have c: "calls_ok nvidia_driver" "calls_ok deleted_driver"
    by (simp_all add: calls_ok_def good_call_def deleted_driver_def nvidia_driver_def)
  have b: "fd_busno nvidia_driver w = 5" for w by (simp add: i2c_5_busno nvidia_driver_def)
  show ?thesis
    using i2c_calls_return [OF c(1) fresh_io_ready, of 1 "[0]" "0x37" "[0x51, 0x82]" False, THEN conjunct1]
      i2c_calls_return [OF c(2) fresh_io_ready, of 1 "[0]" "0x37" "[0x51, 0x82]" False, THEN conjunct1]
    by (simp add: example_passes unnamed_einval_def deleted_busno b split: option.splits prod.splits)
qed

text \<open>A read() that yields fewer bytes than asked for does not
  return DDCRC_DDC_DATA as the function's documentation says, but the negative of whatever value
  errno had before: success, if no call has failed before.\<close>

theorem short_read_reports_old_errno:
  assumes "drv_set_slave drv False a (dev st) = (Inr (), w1)"
    and "\<not> use_timeout st"
    and "drv_read drv n w1 = (Inr bs, w2)" "length bs < n"
  shows "i2c_fileio_reader drv a False n buf st = (- errno st, mem_write buf 0 bs, st\<lparr>dev := w2\<rparr>)"
  using assms
  by (simp add: i2c_fileio_reader_def i2c_set_addr_def i2c_set_addr0_def poll_device_def syscall_def
                Let_def)

theorem short_read_reports_old_errno_witness:
  "fst (i2c_fileio_reader nvidia_driver 0x37 False 3 [0, 0, 0] fresh_io) = 0"
  using short_read_reports_old_errno [of nvidia_driver "0x37" fresh_io "()" 3 "[0x6e, 0x6e]" "()" "[0, 0, 0]"]
  by (simp add: nvidia_driver_def fresh_io_def numeral_2_eq_2)

end
