(* ===== verification/Edid.thy ===== *)
theory Edid
  imports Byte_Buffer
begin

text \<open>
  The EDID of a monitor, \<^verbatim>\<open>src/src/util/edid.c\<close>: the checks on the raw bytes, the parse into
  \<^verbatim>\<open>Parsed_Edid\<close>, and the rendering of its strings. A character array is the list of its bytes;
  the C string it holds ends before the first 0. Reports are left out.
\<close>

section \<open>The raw bytes\<close>

definition edid_checksum :: "byte list \<Rightarrow> byte" where
  "edid_checksum edid = foldl (\<lambda>checksum ndx. checksum + edid ! ndx) 0 [0..<128]"

definition is_valid_edid_checksum :: "byte list \<Rightarrow> bool" where
  "is_valid_edid_checksum edidbytes = (edid_checksum edidbytes = 0)"

definition is_valid_edid_header :: "byte list \<Rightarrow> bool" where
  "is_valid_edid_header edidbytes =
     (take 8 edidbytes = [0x00, 0xff, 0xff, 0xff, 0xff, 0xff, 0xff, 0x00])"

definition is_valid_raw_edid :: "byte list \<Rightarrow> nat \<Rightarrow> bool" where
  "is_valid_raw_edid edid len =
     (len \<ge> 128 \<and> is_valid_edid_header edid \<and> is_valid_edid_checksum edid)"

definition is_valid_raw_cea861_extension_block :: "byte list \<Rightarrow> nat \<Rightarrow> bool" where
  "is_valid_raw_cea861_extension_block edid len =
     (len \<ge> 128 \<and> edid ! 0 = 0x02 \<and> is_valid_edid_checksum edid)"

section \<open>Manufacturer\<close>

text \<open>Three letters of five bits each, and the terminating 0.\<close>

definition parse_mfg_id :: "byte \<Rightarrow> byte \<Rightarrow> byte list" where
  "parse_mfg_id b0 b1 =
     [(drop_bit 2 b0 AND 0x1f) + 64,
      (push_bit 3 (b0 AND 0x03) OR (drop_bit 5 b1 AND 0x07)) + 64,
      (b1 AND 0x1f) + 64,
      0]"

definition parse_mfg_id_in_buffer :: "byte list \<Rightarrow> nat \<Rightarrow> byte list option" where
  "parse_mfg_id_in_buffer mfg_id_bytes bufsize = do {
     c_assert (bufsize \<ge> 4);
     Some (parse_mfg_id (mfg_id_bytes ! 0) (mfg_id_bytes ! 1))
   }"

definition get_edid_mfg_id_in_buffer :: "byte list \<Rightarrow> nat \<Rightarrow> byte list option" where
  "get_edid_mfg_id_in_buffer edidbytes bufsize = parse_mfg_id_in_buffer (drop 8 edidbytes) bufsize"

section \<open>Strings\<close>

definition c_str :: "byte list \<Rightarrow> byte list" where
  "c_str xs = takeWhile (\<lambda>c. c \<noteq> 0) xs"

text \<open>\<^verbatim>\<open>isspace()\<close> of the C locale.\<close>

definition is_space :: "byte \<Rightarrow> bool" where
  "is_space c \<longleftrightarrow> c = 0x20 \<or> c \<in> {0x09, 0x0a, 0x0b, 0x0c, 0x0d}"

fun rtrim_loop :: "byte list \<Rightarrow> nat \<Rightarrow> byte list" where
  "rtrim_loop s 0 = s"
| "rtrim_loop s (Suc len) = (if is_space (s ! len) then rtrim_loop (s[len := 0]) len else s)"

definition rtrim_in_place :: "byte list \<Rightarrow> byte list" where
  "rtrim_in_place s = rtrim_loop s (length (c_str s))"

text \<open>Copy at most 13 characters, up to a line feed; \<open>rest\<close> is what the text has left.\<close>

fun copy_text :: "nat \<Rightarrow> byte list \<Rightarrow> nat \<Rightarrow> byte list \<Rightarrow> byte list" where
  "copy_text 0 textstart offset nameslot = nameslot[offset := 0]"
| "copy_text (Suc n) textstart offset nameslot =
     (if textstart ! offset \<noteq> 0x0a
      then copy_text n textstart (offset + 1) (nameslot[offset := textstart ! offset])
      else nameslot[offset := 0])"

abbreviation EDID_DESCRIPTORS_BLOCKS_START :: nat where "EDID_DESCRIPTORS_BLOCKS_START \<equiv> 54"
abbreviation EDID_DESCRIPTOR_BLOCK_SIZE :: nat where "EDID_DESCRIPTOR_BLOCK_SIZE \<equiv> 18"
abbreviation EDID_DESCRIPTOR_BLOCK_CT :: nat where "EDID_DESCRIPTOR_BLOCK_CT \<equiv> 4"

text \<open>The three buffers: name, serial number, other.\<close>

record Edid_Strings =
  namebuf :: "byte list"
  snbuf :: "byte list"
  otherbuf :: "byte list"

definition descriptor_string :: "byte list \<Rightarrow> Edid_Strings \<Rightarrow> Edid_Strings" where
  "descriptor_string descriptor bufs =
     (if descriptor ! 0 = 0 \<and> descriptor ! 1 = 0 \<and> descriptor ! 2 = 0 \<and> descriptor ! 4 = 0
      then let fill = (\<lambda>slot. rtrim_in_place (copy_text 13 (drop 5 descriptor) 0 slot))
           in if descriptor ! 3 = 0xff then bufs\<lparr>snbuf := fill (snbuf bufs)\<rparr>
              else if descriptor ! 3 = 0xfe then bufs\<lparr>otherbuf := fill (otherbuf bufs)\<rparr>
              else if descriptor ! 3 = 0xfc then bufs\<lparr>namebuf := fill (namebuf bufs)\<rparr>
              else bufs
      else bufs)"

definition get_edid_descriptor_strings :: "byte list \<Rightarrow> Edid_Strings \<Rightarrow> Edid_Strings option" where
  "get_edid_descriptor_strings edidbytes bufs = do {
     c_assert (length (namebuf bufs) \<ge> 14 \<and> length (snbuf bufs) \<ge> 14 \<and> length (otherbuf bufs) \<ge> 14);
     let bufs = bufs\<lparr>namebuf := (namebuf bufs)[0 := 0], snbuf := (snbuf bufs)[0 := 0],
                     otherbuf := (otherbuf bufs)[0 := 0]\<rparr>;
     Some (foldl (\<lambda>bufs descriptor_ndx.
             descriptor_string
               (drop (EDID_DESCRIPTORS_BLOCKS_START + descriptor_ndx * EDID_DESCRIPTOR_BLOCK_SIZE) edidbytes)
               bufs)
           bufs [0..<EDID_DESCRIPTOR_BLOCK_CT])
   }"

section \<open>Parsed EDID\<close>

record Parsed_Edid =
  edid_bytes :: "byte list"
  mfg_id :: "byte list"
  product_code :: "16 word"
  model_name :: "byte list"
  serial_binary :: "32 word"
  serial_ascii :: "byte list"
  extra_descriptor_string :: "byte list"
  year :: nat
  is_model_year :: bool
  manufacture_week :: byte
  edid_version_major :: byte
  edid_version_minor :: byte
  wx :: "16 word"
  wy :: "16 word"
  rx :: "16 word"
  ry :: "16 word"
  gx :: "16 word"
  gy :: "16 word"
  bx :: "16 word"
  by' :: "16 word"
  video_input_definition :: byte
  supported_features :: byte
  extension_flag :: byte
  edid_source :: "byte list"

text \<open>Two high bytes of a chromaticity coordinate and two low bits, \<^verbatim>\<open>hi << 2 | (lo & mask) >> sh\<close>.\<close>

definition ten_bits :: "byte \<Rightarrow> byte \<Rightarrow> byte \<Rightarrow> nat \<Rightarrow> 16 word" where
  "ten_bits hi lo msk sh = push_bit 2 (ucast hi) OR ucast (drop_bit sh (lo AND msk))"

definition create_parsed_edid :: "byte list \<Rightarrow> Parsed_Edid option option" where
  "create_parsed_edid e =
     (if \<not> is_valid_edid_header e \<or> \<not> is_valid_edid_checksum e then Some None
      else do {
        mfg \<leftarrow> get_edid_mfg_id_in_buffer e 4;
        s \<leftarrow> get_edid_descriptor_strings e
               \<lparr>namebuf = replicate 14 0, snbuf = replicate 14 0, otherbuf = replicate 14 0\<rparr>;
        Some (Some
          \<lparr>edid_bytes = take 128 e,
           mfg_id = mfg,
           product_code = push_bit 8 (ucast (e ! 0x0b)) OR ucast (e ! 0x0a),
           model_name = namebuf s,
           serial_binary = ucast (e ! 0x0c) OR push_bit 8 (ucast (e ! 0x0d)) OR
                           push_bit 16 (ucast (e ! 0x0e)) OR push_bit 24 (ucast (e ! 0x0f)),
           serial_ascii = snbuf s,
           extra_descriptor_string = otherbuf s,
           year = unat (e ! 17) + 1990,
           is_model_year = (e ! 16 = 0xff),
           manufacture_week = e ! 16,
           edid_version_major = e ! 18,
           edid_version_minor = e ! 19,
           wx = ten_bits (e ! 0x21) (e ! 0x1a) 0x0c 2,
           wy = ucast (e ! 0x22) * 4 + ucast (e ! 0x1a AND 0x03),
           rx = ten_bits (e ! 0x1b) (e ! 0x19) 0xc0 6,
           ry = ten_bits (e ! 0x1c) (e ! 0x19) 0x30 4,
           gx = ten_bits (e ! 0x1d) (e ! 0x19) 0x0c 2,
           gy = ten_bits (e ! 0x1e) (e ! 0x19) 0x03 0,
           bx = ten_bits (e ! 0x1f) (e ! 0x1a) 0xc0 6,
           by' = ten_bits (e ! 0x20) (e ! 0x1a) 0x30 4,
           video_input_definition = e ! 0x14,
           supported_features = e ! 0x18,
           extension_flag = e ! 0x7e,
           edid_source = replicate 6 0\<rparr>)
      })"

text \<open>\<open>source\<close> is the characters of a C string; its array has 6 bytes.\<close>

definition create_parsed_edid2 :: "byte list \<Rightarrow> byte list \<Rightarrow> Parsed_Edid option option" where
  "create_parsed_edid2 edidbytes source = do {
     p \<leftarrow> create_parsed_edid edidbytes;
     (case p of
        None \<Rightarrow> Some None
      | Some edid \<Rightarrow> do {
          c_assert (length source < 6);
          Some (Some (edid\<lparr>edid_source := mem_write (edid_source edid) 0 (source @ [0])\<rparr>))
        })
   }"

definition copy_parsed_edid :: "Parsed_Edid option \<Rightarrow> Parsed_Edid option option" where
  "copy_parsed_edid original =
     (case original of
        None \<Rightarrow> Some None
      | Some edid \<Rightarrow> do {
          p \<leftarrow> create_parsed_edid (edid_bytes edid);
          copy \<leftarrow> p;
          Some (Some (copy\<lparr>edid_source := edid_source edid\<rparr>))
        })"

definition is_input_digital :: "Parsed_Edid \<Rightarrow> bool" where
  "is_input_digital edid = (video_input_definition edid AND 0x80 \<noteq> 0)"

definition is_laptop_parsed_edid :: "Parsed_Edid \<Rightarrow> bool" where
  "is_laptop_parsed_edid edid = (c_str (model_name edid) = [] \<and> c_str (serial_ascii edid) = [])"

section \<open>Printable strings\<close>

definition hex_digit :: "nat \<Rightarrow> byte" where
  "hex_digit n = (if n < 10 then 48 + of_nat n else 87 + of_nat n)"

text \<open>\<^verbatim>\<open>sprintf(.., "<x%02x>", c)\<close>\<close>

definition escape_char :: "byte \<Rightarrow> byte list" where
  "escape_char c = [0x3c, 0x78, hex_digit (unat c div 16), hex_digit (unat c mod 16), 0x3e]"

text \<open>A \<^verbatim>\<open>char\<close> is signed: the test \<open>32 \<le> c\<close> fails for the bytes from 128 on.\<close>

definition is_printable :: "byte \<Rightarrow> bool" where
  "is_printable c \<longleftrightarrow> 32 \<le> sint c"

fun asciify_loop :: "byte list \<Rightarrow> byte list" where
  "asciify_loop [] = []"
| "asciify_loop (c # s) = (if is_printable c then [c] else escape_char c) @ asciify_loop s"

text \<open>The argument and the result are the characters of C strings.\<close>

definition base_asciify :: "byte list \<Rightarrow> byte list option" where
  "base_asciify s = do {
     let badct = length (filter (\<lambda>c. c AND 0x80 \<noteq> 0 \<or> sint c < 32) s);
     let reqd = length s + 1 + 4 * badct;
     let result = asciify_loop s;
     c_assert (length result = reqd - 1);
     Some result
   }"

text \<open>
  The size of the buffer of the thread, or \<open>None\<close> before the first call, is the state. A result
  that does not fit is written past the end of the buffer.
\<close>

definition get_thread_dynamic_buffer :: "nat option \<Rightarrow> nat \<Rightarrow> nat" where
  "get_thread_dynamic_buffer bufsz required_size =
     (case bufsz of
        None \<Rightarrow> required_size
      | Some sz \<Rightarrow> if sz < required_size then required_size else sz)"

definition base_asciify_t :: "nat option \<Rightarrow> byte list \<Rightarrow> (byte list \<times> nat option) option" where
  "base_asciify_t bufsz s = do {
     buftemp \<leftarrow> base_asciify s;
     let sz = get_thread_dynamic_buffer bufsz (length s + 1);
     c_assert (length buftemp + 1 \<le> sz);
     Some (buftemp, Some sz)
   }"

section \<open>Checksum\<close>

lemma edid_checksum_eq: "128 \<le> length e \<Longrightarrow> edid_checksum e = sum_list (take 128 e)"
proof -
  assume l: "128 \<le> length e"
  have "foldl (\<lambda>c ndx. c + e ! ndx) a [0..<n] = a + sum_list (take n e)" if "n \<le> length e" for n a
    using that by (induction n) (simp_all add: take_Suc_nth add.assoc)
  from this [OF l, of 0] show ?thesis by (simp add: edid_checksum_def)
qed

lemma sum_list_update_word:
  "i < length xs \<Longrightarrow> sum_list (xs[i := b]) = sum_list xs - xs ! i + (b :: byte)"
proof (induction xs arbitrary: i)
  case (Cons x xs)
  show ?case
  proof (cases i)
    case (Suc j)
    with Cons show ?thesis by (simp add: algebra_simps)
  qed simp
qed simp

lemma checksum_update:
  assumes "128 \<le> length e" "i < 128"
  shows "edid_checksum (e[i := b]) = edid_checksum e - e ! i + b"
proof -
  have "take 128 (e[i := b]) = (take 128 e)[i := b]" by (simp add: take_update_swap)
  then show ?thesis
    using assms sum_list_update_word [of i "take 128 e" b] by (simp add: edid_checksum_eq)
qed

section \<open>Numbers\<close>

lemma or_is_add:
  assumes "\<And>n. \<not> bit a n \<or> \<not> bit b n"
  shows "(a :: 'a :: len word) OR b = a + b"
proof -
  have "a AND b = 0" by (rule bit_eqI) (use assms in \<open>auto simp: bit_and_iff\<close>)
  then show ?thesis by (simp add: disjunctive_add_eq_or)
qed

lemma unat_shift_or:
  assumes "unat lo < 2 ^ k" "unat hi * 2 ^ k + unat lo < 2 ^ LENGTH('a)"
  shows "unat (push_bit k hi OR lo :: 'a :: len word) = unat hi * 2 ^ k + unat lo"
proof -
  have lo: "lo = take_bit k lo"
    using assms(1) by (metis take_bit_nat_eq_self unsigned_take_bit_eq unsigned_word_eqI)
  have d: "\<not> bit (push_bit k hi) n \<or> \<not> bit lo n" for n
    by (subst lo) (auto simp: bit_push_bit_iff bit_take_bit_iff)
  have "push_bit k hi = of_nat (unat hi * 2 ^ k)" by (simp add: push_bit_eq_mult)
  then have "push_bit k hi OR lo = of_nat (unat hi * 2 ^ k + unat lo)"
    by (subst or_is_add [OF d]) simp
  then show ?thesis using assms(2) by (simp only: unat_of_nat) simp
qed

lemma product_code_eq: "unat (push_bit 8 (ucast hi) OR ucast lo :: 16 word) = hi_lo hi lo"
proof -
  have u: "unat (ucast b :: 16 word) = unat (b :: byte)" for b
    by (simp add: unsigned_ucast_eq take_bit_nat_eq_self less_trans [OF unat_byte_less])
  show ?thesis
    using unat_shift_or [of "ucast lo :: 16 word" 8 "ucast hi"] hi_lo_less [of hi lo]
    by (simp add: u hi_lo_def)
qed

lemma serial_eq:
  "unat (ucast a OR push_bit 8 (ucast b) OR push_bit 16 (ucast c) OR push_bit 24 (ucast d) :: 32 word) =
     unat (a :: byte) + 256 * unat (b :: byte) + 65536 * unat (c :: byte) + 16777216 * unat (d :: byte)"
proof -
  have u: "unat (ucast x :: 32 word) = unat (x :: byte)" for x
    by (simp add: unsigned_ucast_eq take_bit_nat_eq_self less_trans [OF unat_byte_less])
  have le: "unat (x :: byte) \<le> 255" for x using unat_byte_less [of x] by linarith
  let ?ab = "push_bit 8 (ucast b) OR ucast a :: 32 word"
  have ab: "unat ?ab = unat b * 256 + unat a"
    using unat_shift_or [of "ucast a :: 32 word" 8 "ucast b"] le [of a] le [of b] by (simp add: u)
  let ?abc = "push_bit 16 (ucast c) OR ?ab"
  have abc: "unat ?abc = unat c * 65536 + (unat b * 256 + unat a)"
    using unat_shift_or [of ?ab 16 "ucast c"] le [of a] le [of b] le [of c] ab by (simp add: u)
  have "unat (push_bit 24 (ucast d) OR ?abc) = unat d * 16777216 + (unat c * 65536 + (unat b * 256 + unat a))"
    using unat_shift_or [of ?abc 24 "ucast d"] le [of a] le [of b] le [of c] le [of d] abc by (simp add: u)
  moreover have "ucast a OR push_bit 8 (ucast b) OR push_bit 16 (ucast c) OR push_bit 24 (ucast d) =
      push_bit 24 (ucast d) OR ?abc"
    by (simp add: or.commute or.left_commute or.assoc)
  ultimately show ?thesis by simp
qed


lemma two_bits:
  "drop_bit 6 (lo AND 0xc0) = take_bit 2 (drop_bit 6 (lo :: byte))"
  "drop_bit 4 (lo AND 0x30) = take_bit 2 (drop_bit 4 lo)"
  "drop_bit 2 (lo AND 0x0c) = take_bit 2 (drop_bit 2 lo)"
  "drop_bit 0 (lo AND 0x03) = take_bit 2 (drop_bit 0 lo)"
proof -
  have m: "(0xc0 :: byte) = push_bit 6 (mask 2)" "(0x30 :: byte) = push_bit 4 (mask 2)"
    "(0x0c :: byte) = push_bit 2 (mask 2)" "(0x03 :: byte) = mask 2"
    by (simp_all add: mask_eq_exp_minus_1)
  show "drop_bit 6 (lo AND 0xc0) = take_bit 2 (drop_bit 6 lo)"
    "drop_bit 4 (lo AND 0x30) = take_bit 2 (drop_bit 4 lo)"
    "drop_bit 2 (lo AND 0x0c) = take_bit 2 (drop_bit 2 lo)"
    "drop_bit 0 (lo AND 0x03) = take_bit 2 (drop_bit 0 lo)"
    unfolding m
    by (rule bit_eqI; auto simp: bit_simps dest: bit_imp_le_length)+
qed

lemma unat_take_bit2: "unat (take_bit 2 (drop_bit k (lo :: byte))) = unat lo div 2 ^ k mod 4"
  by (simp only: unsigned_take_bit_eq unsigned_drop_bit_eq) (simp add: take_bit_eq_mod drop_bit_eq_div)

lemma ten_bits_eq:
  assumes "(msk, sh) \<in> {(0xc0, 6), (0x30, 4), (0x0c, 2), (0x03, 0)}"
  shows "unat (ten_bits hi lo msk sh) = unat hi * 4 + unat lo div 2 ^ sh mod 4"
proof -
  have u: "unat (ucast b :: 16 word) = unat (b :: byte)" for b
    by (simp add: unsigned_ucast_eq take_bit_nat_eq_self less_trans [OF unat_byte_less])
  have t: "drop_bit sh (lo AND msk) = take_bit 2 (drop_bit sh lo)" using assms two_bits [of lo] by auto
  have lt: "unat (take_bit 2 (drop_bit sh lo)) < 4" unfolding unat_take_bit2 by simp
  have hi: "unat hi \<le> 255" using unat_byte_less [of hi] by linarith
  have "unat (ten_bits hi lo msk sh) = unat hi * 4 + unat (take_bit 2 (drop_bit sh lo))"
    unfolding ten_bits_def t
    using unat_shift_or [of "ucast (take_bit 2 (drop_bit sh lo)) :: 16 word" 2 "ucast hi"] lt hi
    by (simp add: u)
  then show ?thesis by (simp only: unat_take_bit2)
qed

lemma wy_eq: "unat (ucast hi * 4 + ucast (lo AND 0x03) :: 16 word) = unat (hi :: byte) * 4 + unat (lo :: byte) mod 4"
proof -
  have hi: "unat hi \<le> 255" using unat_byte_less [of hi] by linarith
  have u: "unat (ucast b :: 16 word) = unat (b :: byte)" for b
    by (simp add: unsigned_ucast_eq take_bit_nat_eq_self less_trans [OF unat_byte_less])
  have m: "unat (lo AND 0x03) = unat lo mod 4"
    using two_bits(4) [of lo] unat_take_bit2 [of 0 lo] by simp
  have "unat lo mod 4 \<le> 3" using mod_less_divisor [of 4 "unat lo"] by linarith
  with hi show ?thesis by (simp add: unat_word_ariths u m)
qed

lemma and_mask5: "(b AND 0x1f :: byte) = take_bit 5 b" "(b AND 0x07 :: byte) = take_bit 3 b"
  "(b AND 0x03 :: byte) = take_bit 2 b"
  by (simp_all add: take_bit_eq_mask mask_eq_exp_minus_1)

lemma unat_plus64: "unat (b :: byte) \<le> 31 \<Longrightarrow> unat (b + 64) = unat b + 64"
  by (simp add: unat_word_ariths(1))

lemma parse_mfg_id_eq:
  "map unat (parse_mfg_id b0 b1) =
     [64 + unat b0 div 4 mod 32, 64 + (unat b0 mod 4 * 8 + unat b1 div 32), 64 + unat b1 mod 32, 0]"
proof -
  have t: "unat (take_bit k (drop_bit j (b :: byte))) = unat b div 2 ^ j mod 2 ^ k" for k j b
    by (simp only: unsigned_take_bit_eq unsigned_drop_bit_eq) (simp add: take_bit_eq_mod drop_bit_eq_div)
  have "unat b1 div 32 < 8" using unat_byte_less [of b1] by linarith
  then have lt: "unat (take_bit 3 (drop_bit 5 b1)) = unat b1 div 32" by (simp add: t)
  have m: "unat (push_bit 3 (take_bit 2 b0) OR take_bit 3 (drop_bit 5 b1)) = unat b0 mod 4 * 8 + unat b1 div 32"
    using unat_shift_or [of "take_bit 3 (drop_bit 5 b1)" 3 "take_bit 2 b0"] t [of 2 0 b0] lt
      \<open>unat b1 div 32 < 8\<close> mod_less_divisor [of 4 "unat b0"]
    by simp
  have m31: "unat b0 mod 4 * 8 + unat b1 div 32 \<le> 31"
    using \<open>unat b1 div 32 < 8\<close> mod_less_divisor [of 4 "unat b0"] by linarith
  have a: "unat (take_bit 5 (drop_bit 2 b0)) \<le> 31" "unat (take_bit 5 b1) \<le> 31"
    using t [of 5 2 b0] t [of 5 0 b1] mod_less_divisor [of 32 "unat b0 div 4"] mod_less_divisor [of 32 "unat b1"]
    by simp_all
  have "unat (push_bit 3 (take_bit 2 b0) OR take_bit 3 (drop_bit 5 b1)) \<le> 31" using m m31 by simp
  note p = unat_plus64 [OF a(1)] unat_plus64 [OF a(2)] unat_plus64 [OF this]
  show ?thesis
    unfolding parse_mfg_id_def and_mask5 using p t [of 5 2 b0] t [of 5 0 b1] m by simp
qed

lemma mfg_letters:
  assumes "l1 \<le> 31" "l2 \<le> 31" "l3 \<le> 31"
  shows "map unat (parse_mfg_id (of_nat (l1 * 4 + l2 div 8)) (of_nat (l2 mod 8 * 32 + l3))) =
     [64 + l1, 64 + l2, 64 + l3, 0]"
proof -
  have "l2 div 8 \<le> 3" using assms by linarith
  have "l2 mod 8 \<le> 7" using mod_less_divisor [of 8 l2] by linarith
  have b0: "unat (of_nat (l1 * 4 + l2 div 8) :: byte) = l1 * 4 + l2 div 8"
    using assms \<open>l2 div 8 \<le> 3\<close> by (intro unat_of_nat_byte) linarith
  have b1: "unat (of_nat (l2 mod 8 * 32 + l3) :: byte) = l2 mod 8 * 32 + l3"
    using assms \<open>l2 mod 8 \<le> 7\<close> by (intro unat_of_nat_byte) linarith
  have "(l1 * 4 + l2 div 8) div 4 = l1" "(l1 * 4 + l2 div 8) mod 4 = l2 div 8"
    "(l2 mod 8 * 32 + l3) div 32 = l2 mod 8" "(l2 mod 8 * 32 + l3) mod 32 = l3"
    using assms \<open>l2 div 8 \<le> 3\<close> by simp_all
  then show ?thesis
    unfolding parse_mfg_id_eq b0 b1 using assms by simp
qed


section \<open>Strings\<close>

definition rtrim :: "byte list \<Rightarrow> byte list" where
  "rtrim xs = rev (dropWhile is_space (rev xs))"

lemma rtrim_snoc [simp]: "rtrim (xs @ [x]) = (if is_space x then rtrim xs else xs @ [x])"
  by (simp add: rtrim_def)

lemma rtrim_Nil [simp]: "rtrim [] = []" by (simp add: rtrim_def)

lemma set_rtrim: "set (rtrim xs) \<subseteq> set xs"
  using set_dropWhileD by (fastforce simp: rtrim_def)

lemma length_rtrim: "length (rtrim xs) \<le> length xs"
  using length_dropWhile_le [of is_space "rev xs"] by (simp add: rtrim_def)

lemma rtrim_last: "rtrim xs \<noteq> [] \<Longrightarrow> \<not> is_space (last (rtrim xs))"
  by (induction xs rule: rev_induct) (auto split: if_splits)

lemma length_rtrim_loop [simp]: "length (rtrim_loop s n) = length s"
  by (induction s n rule: rtrim_loop.induct) auto

lemma c_str_zero: "n < length s \<Longrightarrow> s ! n = 0 \<Longrightarrow> (\<And>i. i < n \<Longrightarrow> s ! i \<noteq> 0) \<Longrightarrow> c_str s = take n s"
  by (simp add: c_str_def takeWhile_eq_take_P_nth)

lemma rtrim_loop_spec:
  "n < length s \<Longrightarrow> s ! n = 0 \<Longrightarrow> (\<And>i. i < n \<Longrightarrow> s ! i \<noteq> 0) \<Longrightarrow>
   c_str (rtrim_loop s n) = rtrim (take n s)"
proof (induction s n rule: rtrim_loop.induct)
  case (1 s)
  then show ?case using c_str_zero [of 0 s] by simp
next
  case (2 s len)
  have t: "take (Suc len) s = take len s @ [s ! len]" using 2 by (simp add: take_Suc_nth)
  show ?case
  proof (cases "is_space (s ! len)")
    case True
    have "c_str (rtrim_loop (s[len := 0]) len) = rtrim (take len (s[len := 0]))"
      using 2 True by (intro "2.IH") (auto simp: nth_list_update)
    with True t show ?thesis by simp
  next
    case False
    with t c_str_zero [OF 2(2-4)] show ?thesis by simp
  qed
qed

lemma takeWhile_stops: 
  assumes "length (takeWhile P xs) < length xs"
  shows "\<not> P (xs ! length (takeWhile P xs))"
  using assms by (rule nth_length_takeWhile)

lemma rtrim_in_place_spec:
  assumes "0 \<in> set s"
  shows "c_str (rtrim_in_place s) = rtrim (c_str s)"
proof -
  let ?n = "length (c_str s)"
  have t: "take ?n s = c_str s" by (simp add: c_str_def takeWhile_eq_take [symmetric])
  have "c_str s \<noteq> s" using assms by (auto simp: c_str_def takeWhile_eq_all_conv)
  then have "?n \<noteq> length s" using t by auto
  moreover have "?n \<le> length s" by (simp add: c_str_def length_takeWhile_le)
  ultimately have n: "?n < length s" by simp
  have z: "s ! ?n = 0" using takeWhile_stops [of "\<lambda>c. c \<noteq> 0" s] n by (simp add: c_str_def)
  have nz: "s ! i \<noteq> 0" if "i < ?n" for i
  proof -
    have "c_str s ! i \<in> set (c_str s)" using that by simp
    then have "c_str s ! i \<noteq> 0" unfolding c_str_def by (blast dest: set_takeWhileD)
    then show ?thesis using that by (simp add: c_str_def takeWhile_nth)
  qed
  show ?thesis
    using rtrim_loop_spec [OF n z nz] t by (simp add: rtrim_in_place_def)
qed

lemma length_copy_text [simp]: "length (copy_text n t off slot) = length slot"
  by (induction n t off slot rule: copy_text.induct) simp_all

text \<open>The bytes of a descriptor that are copied.\<close>

lemma copy_text_spec:
  "off + n < length slot \<Longrightarrow> off + n \<le> length t \<Longrightarrow>
   (let txt = takeWhile (\<lambda>c. c \<noteq> 0x0a) (take n (drop off t))
    in take (off + length txt + 1) (copy_text n t off slot) = take off slot @ txt @ [0])"
proof (induction n t off slot rule: copy_text.induct)
  case (1 t off slot)
  then show ?case by (simp add: take_Suc_nth)
next
  case (2 n t off slot)
  have d: "drop off t = t ! off # drop (Suc off) t" using 2 by (simp add: Cons_nth_drop_Suc)
  show ?case
  proof (cases "t ! off = 0x0a")
    case True
    then show ?thesis using 2 d by (simp add: take_Suc_nth)
  next
    case False
    let ?txt = "takeWhile (\<lambda>c. c \<noteq> 0x0a) (take n (drop (Suc off) t))"
    have "take (Suc off + length ?txt + 1) (copy_text n t (off + 1) (slot[off := t ! off])) =
            take (Suc off) (slot[off := t ! off]) @ ?txt @ [0]"
      using "2.IH" [OF False] 2 by (simp add: Let_def)
    moreover have "take (Suc off) (slot[off := t ! off]) = take off slot @ [t ! off]"
      using 2 by (simp add: take_Suc_nth)
    ultimately show ?thesis using False d by (simp add: Let_def)
  qed
qed

text \<open>The text of a string descriptor: up to a line feed or 0, without trailing blanks.\<close>

definition descriptor_text :: "byte list \<Rightarrow> byte list" where
  "descriptor_text descriptor =
     rtrim (c_str (takeWhile (\<lambda>c. c \<noteq> 0x0a) (take 13 (drop 5 descriptor))))"

lemma c_str_append_zero: "c_str (xs @ 0 # ys) = c_str xs"
  by (induction xs) (simp_all add: c_str_def)

lemma copied_string:
  assumes "length slot = 14" "18 \<le> length d"
  shows "c_str (rtrim_in_place (copy_text 13 (drop 5 d) 0 slot)) = descriptor_text d"
proof -
  let ?txt = "takeWhile (\<lambda>c. c \<noteq> 0x0a) (take 13 (drop 5 d))"
  let ?r = "copy_text 13 (drop 5 d) 0 slot"
  have "take (length ?txt + 1) ?r = ?txt @ [0]"
    using copy_text_spec [of 0 13 slot "drop 5 d"] assms by (simp add: Let_def)
  then have r: "?r = ?txt @ 0 # drop (length ?txt + 1) ?r"
    by (metis append.assoc append_Cons append_Nil append_take_drop_id)
  have "c_str ?r = c_str ?txt" by (subst r) (rule c_str_append_zero)
  moreover have "0 \<in> set ?r" by (subst r) simp
  ultimately show ?thesis by (simp add: rtrim_in_place_spec descriptor_text_def)
qed

section \<open>Parsing\<close>

text \<open>Block \<open>k\<close> of the four descriptors, and its tag if it is a string descriptor.\<close>

definition edid_block :: "byte list \<Rightarrow> nat \<Rightarrow> byte list" where
  "edid_block e k = take 18 (drop (54 + k * 18) e)"

definition is_string_block :: "byte list \<Rightarrow> byte \<Rightarrow> nat \<Rightarrow> bool" where
  "is_string_block e tag k \<longleftrightarrow>
     (let d = edid_block e k in d ! 0 = 0 \<and> d ! 1 = 0 \<and> d ! 2 = 0 \<and> d ! 3 = tag \<and> d ! 4 = 0)"

text \<open>The text of the last block with a tag; empty if there is none.\<close>

definition string_with_tag :: "byte list \<Rightarrow> byte \<Rightarrow> byte list" where
  "string_with_tag e tag =
     foldl (\<lambda>s k. if is_string_block e tag k then descriptor_text (edid_block e k) else s) [] [0..<4]"

definition strings_agree :: "Edid_Strings \<Rightarrow> (byte \<Rightarrow> byte list) \<Rightarrow> bool" where
  "strings_agree bufs f \<longleftrightarrow>
     length (namebuf bufs) = 14 \<and> length (snbuf bufs) = 14 \<and> length (otherbuf bufs) = 14 \<and>
     c_str (namebuf bufs) = f 0xfc \<and> c_str (snbuf bufs) = f 0xff \<and> c_str (otherbuf bufs) = f 0xfe"

lemma descriptor_text_take: "descriptor_text (take 18 d) = descriptor_text d"
  by (simp add: descriptor_text_def drop_take min_absorb2)

lemma length_rtrim_in_place [simp]: "length (rtrim_in_place s) = length s"
  by (simp add: rtrim_in_place_def)

lemma descriptor_string_step:
  assumes a: "strings_agree bufs f" and l: "54 + k * 18 + 18 \<le> length e"
  shows "strings_agree (descriptor_string (drop (54 + k * 18) e) bufs)
    (\<lambda>tag. if is_string_block e tag k then descriptor_text (edid_block e k) else f tag)"
proof -
  let ?d = "drop (54 + k * 18) e"
  have n: "edid_block e k ! i = ?d ! i" if "i < 18" for i using that by (simp add: edid_block_def)
  have "18 \<le> length ?d" using l by simp
  from copied_string [OF _ this] have t:
    "length s = 14 \<Longrightarrow> c_str (rtrim_in_place (copy_text 13 (drop 5 ?d) 0 s)) = descriptor_text (edid_block e k)" for s
    by (simp add: edid_block_def descriptor_text_take)
  show ?thesis
    using a t [of "namebuf bufs"] t [of "snbuf bufs"] t [of "otherbuf bufs"]
    by (simp add: strings_agree_def descriptor_string_def is_string_block_def Let_def n)
qed

lemma descriptor_strings_eq:
  assumes l: "128 \<le> length e"
  shows "\<exists>s. get_edid_descriptor_strings e
      \<lparr>namebuf = replicate 14 0, snbuf = replicate 14 0, otherbuf = replicate 14 0\<rparr> = Some s \<and>
    strings_agree s (string_with_tag e)"
proof -
  let ?b = "\<lparr>namebuf = replicate 14 0, snbuf = replicate 14 0, otherbuf = replicate 14 0\<rparr> :: Edid_Strings"
  let ?run = "\<lambda>n. foldl (\<lambda>bufs k. descriptor_string
    (drop (EDID_DESCRIPTORS_BLOCKS_START + k * EDID_DESCRIPTOR_BLOCK_SIZE) e) bufs) ?b [0..<n]"
  let ?spec = "\<lambda>n tag. foldl (\<lambda>s k. if is_string_block e tag k then descriptor_text (edid_block e k) else s) [] [0..<n]"
  have "strings_agree (?run n) (?spec n)" if "n \<le> 4" for n
    using that
  proof (induction n)
    case 0
    show ?case by (simp add: strings_agree_def c_str_def)
  next
    case (Suc n)
    then have "54 + n * 18 + 18 \<le> length e" using l by simp
    from descriptor_string_step [OF Suc.IH this] Suc.prems show ?case by simp
  qed
  then have "strings_agree (?run 4) (string_with_tag e)" by (simp only: string_with_tag_def [abs_def] order_refl)
  moreover have "(replicate 14 (0 :: byte))[0 := 0] = replicate 14 0" by (simp add: list_update_same_conv)
  then have "get_edid_descriptor_strings e ?b = Some (?run 4)"
    by (simp only: get_edid_descriptor_strings_def) simp
  ultimately show ?thesis by blast
qed

text \<open>The chromaticity coordinates: eight high bits and two low bits each.\<close>

definition edid_coordinates :: "byte list \<Rightarrow> nat list" where
  "edid_coordinates e =
     [unat (e ! 27) * 4 + unat (e ! 25) div 64 mod 4, unat (e ! 28) * 4 + unat (e ! 25) div 16 mod 4,
      unat (e ! 29) * 4 + unat (e ! 25) div 4 mod 4, unat (e ! 30) * 4 + unat (e ! 25) mod 4,
      unat (e ! 31) * 4 + unat (e ! 26) div 64 mod 4, unat (e ! 32) * 4 + unat (e ! 26) div 16 mod 4,
      unat (e ! 33) * 4 + unat (e ! 26) div 4 mod 4, unat (e ! 34) * 4 + unat (e ! 26) mod 4]"

definition parsed_coordinates :: "Parsed_Edid \<Rightarrow> nat list" where
  "parsed_coordinates p = map unat [rx p, ry p, gx p, gy p, bx p, by' p, wx p, wy p]"

definition edid_serial :: "byte list \<Rightarrow> nat" where
  "edid_serial e = unat (e ! 12) + 256 * unat (e ! 13) + 65536 * unat (e ! 14) + 16777216 * unat (e ! 15)"

lemma create_parsed_edid_valid:
  assumes "128 \<le> length e" "is_valid_edid_header e" "is_valid_edid_checksum e"
  shows "\<exists>p. create_parsed_edid e = Some (Some p) \<and> edid_bytes p = take 128 e \<and>
    unat (product_code p) = hi_lo (e ! 11) (e ! 10) \<and> unat (serial_binary p) = edid_serial e \<and>
    year p = 1990 + unat (e ! 17) \<and> parsed_coordinates p = edid_coordinates e \<and>
    c_str (model_name p) = string_with_tag e 0xfc \<and> c_str (serial_ascii p) = string_with_tag e 0xff \<and>
    c_str (extra_descriptor_string p) = string_with_tag e 0xfe \<and>
    mfg_id p = parse_mfg_id (e ! 8) (e ! 9) \<and> edid_source p = replicate 6 0"
proof -
  obtain s where s: "get_edid_descriptor_strings e
      \<lparr>namebuf = replicate 14 0, snbuf = replicate 14 0, otherbuf = replicate 14 0\<rparr> = Some s"
    "strings_agree s (string_with_tag e)"
    using descriptor_strings_eq [OF assms(1)] by blast
  have m: "get_edid_mfg_id_in_buffer e 4 = Some (parse_mfg_id (e ! 8) (e ! 9))"
    using assms(1) by (simp add: get_edid_mfg_id_in_buffer_def parse_mfg_id_in_buffer_def)
  show ?thesis
    using s(2) assms(2,3)
    unfolding create_parsed_edid_def s(1) m strings_agree_def
    by (simp add: product_code_eq serial_eq ten_bits_eq wy_eq edid_serial_def edid_coordinates_def
                  parsed_coordinates_def)
qed

lemma create_parsed_edid_invalid:
  "\<not> (is_valid_edid_header e \<and> is_valid_edid_checksum e) \<Longrightarrow> create_parsed_edid e = Some None"
  by (auto simp: create_parsed_edid_def)


text \<open>Only the first 128 bytes matter.\<close>

lemma copy_text_cong:
  "(\<And>i. off \<le> i \<Longrightarrow> i < off + n \<Longrightarrow> t ! i = t' ! i) \<Longrightarrow> copy_text n t off slot = copy_text n t' off slot"
proof (induction n arbitrary: off slot)
  case (Suc n)
  have "t ! off = t' ! off" using Suc.prems by simp
  moreover have "copy_text n t (off + 1) s = copy_text n t' (off + 1) s" for s
    using Suc.prems by (intro Suc.IH) simp
  ultimately show ?case by simp
qed simp

lemma descriptor_string_cong:
  assumes "\<And>i. i < 18 \<Longrightarrow> d ! i = d' ! i" "5 \<le> length d" "5 \<le> length d'"
  shows "descriptor_string d bufs = descriptor_string d' bufs"
proof -
  have "copy_text 13 (drop 5 d) 0 s = copy_text 13 (drop 5 d') 0 s" for s
    using assms by (intro copy_text_cong) simp
  then show ?thesis using assms by (simp add: descriptor_string_def)
qed

lemma create_parsed_edid_take:
  assumes l: "128 \<le> length e"
  shows "create_parsed_edid (take 128 e) = create_parsed_edid e"
proof -
  have n: "take 128 e ! i = e ! i" if "i < 128" for i using that by simp
  have c: "is_valid_edid_checksum (take 128 e) = is_valid_edid_checksum e"
    using l by (simp add: is_valid_edid_checksum_def edid_checksum_eq)
  have h: "is_valid_edid_header (take 128 e) = is_valid_edid_header e"
    by (simp add: is_valid_edid_header_def min_def)
  have m: "get_edid_mfg_id_in_buffer (take 128 e) 4 = get_edid_mfg_id_in_buffer e 4"
    using l by (simp add: get_edid_mfg_id_in_buffer_def parse_mfg_id_in_buffer_def drop_take)
  have "descriptor_string (drop (54 + k * 18) (take 128 e)) b = descriptor_string (drop (54 + k * 18) e) b"
    if "k < 4" for k b
    using that l by (intro descriptor_string_cong) (simp_all add: drop_take)
  then have "foldl (\<lambda>b k. descriptor_string (drop (54 + k * 18) (take 128 e)) b) a [0..<4] =
      foldl (\<lambda>b k. descriptor_string (drop (54 + k * 18) e) b) a [0..<4]" for a
    by (intro foldl_cong) simp_all
  then have s: "get_edid_descriptor_strings (take 128 e) b = get_edid_descriptor_strings e b" for b
    by (simp add: get_edid_descriptor_strings_def)
  show ?thesis
    unfolding create_parsed_edid_def c h m s by (simp add: n min_def)
qed

section \<open>Properties\<close>

text \<open>An EDID with a name, for the examples.\<close>

definition example_name_block :: "byte list" where
  "example_name_block = [0, 0, 0, 0xfc, 0, 0x44, 0x45, 0x4c, 0x4c, 0x20, 0x31, 0x0a,
     0x20, 0x20, 0x20, 0x20, 0x20, 0x20]"

definition example_edid :: "byte list" where
  "example_edid = [0x00, 0xff, 0xff, 0xff, 0xff, 0xff, 0xff, 0x00, 0x10, 0xac, 0x34, 0x12] @
     replicate 42 0 @ example_name_block @ replicate 55 0 @ [0xcc]"

lemma example_edid_valid:
  "length example_edid = 128 \<and> is_valid_edid_header example_edid \<and> is_valid_edid_checksum example_edid"
  by (simp add: example_edid_def example_name_block_def is_valid_edid_header_def
                is_valid_edid_checksum_def edid_checksum_eq sum_list_replicate)


text \<open>C15 (parsed_edid_fields): An EDID is parsed exactly if its header and checksum are right. The
  parse then holds the numbers of the block: product code and serial number little endian, the year
  since 1990, ten bit chromaticity coordinates; its strings are the texts of the last descriptor
  block of each kind, empty if there is none.\<close>

theorem parsed_edid_fields:
  assumes "128 \<le> length e"
  shows "if is_valid_edid_header e \<and> is_valid_edid_checksum e
    then \<exists>p. create_parsed_edid e = Some (Some p) \<and> edid_bytes p = take 128 e \<and>
      unat (product_code p) = hi_lo (e ! 11) (e ! 10) \<and> unat (serial_binary p) = edid_serial e \<and>
      year p = 1990 + unat (e ! 17) \<and> parsed_coordinates p = edid_coordinates e \<and>
      c_str (model_name p) = string_with_tag e 0xfc \<and> c_str (serial_ascii p) = string_with_tag e 0xff \<and>
      c_str (extra_descriptor_string p) = string_with_tag e 0xfe
    else create_parsed_edid e = Some None"
  using create_parsed_edid_valid [OF assms] create_parsed_edid_invalid [of e] by auto

theorem parsed_edid_fields_witness:
  "\<exists>p. create_parsed_edid example_edid = Some (Some p) \<and> unat (product_code p) = 0x1234 \<and> year p = 1990"
proof -
  have b: "example_edid ! 10 = 0x34" "example_edid ! 11 = 0x12" "example_edid ! 17 = 0"
    by (simp_all add: example_edid_def nth_append)
  obtain p where "create_parsed_edid example_edid = Some (Some p)"
      "unat (product_code p) = hi_lo (example_edid ! 11) (example_edid ! 10)"
      "year p = 1990 + unat (example_edid ! 17)"
    using parsed_edid_fields [of example_edid] example_edid_valid by auto
  then show ?thesis by (simp add: b hi_lo_def)
qed

text \<open>A valid EDID with any one of its 128 bytes changed is
  rejected by both checks.\<close>

theorem edid_corruption_detected:
  assumes "128 \<le> length e" "is_valid_raw_edid e (length e)" "i < 128" "b \<noteq> e ! i"
  shows "\<not> is_valid_raw_edid (e[i := b]) (length e) \<and> create_parsed_edid (e[i := b]) = Some None"
proof -
  have "edid_checksum e = 0" using assms(2) by (simp add: is_valid_raw_edid_def is_valid_edid_checksum_def)
  then have "edid_checksum (e[i := b]) \<noteq> 0"
    using assms(4) checksum_update [OF assms(1,3), of b] by simp
  then show ?thesis
    by (simp add: is_valid_raw_edid_def is_valid_edid_checksum_def create_parsed_edid_def)
qed

theorem edid_corruption_detected_witness:
  "create_parsed_edid (example_edid[127 := 0xcd]) = Some None"
  using edid_corruption_detected [of example_edid 127 "0xcd"] example_edid_valid
  by (simp add: is_valid_raw_edid_def example_edid_def example_name_block_def nth_append)

text \<open>Copying a parsed EDID never fails and yields an equal record,
  including the source that is not in the raw bytes.\<close>

theorem edid_copy_is_identical:
  assumes "128 \<le> length e" "create_parsed_edid2 e src = Some (Some p)"
  shows "copy_parsed_edid (Some p) = Some (Some p)"
proof -
  obtain q where q: "create_parsed_edid e = Some (Some q)"
      "p = q\<lparr>edid_source := mem_write (edid_source q) 0 (src @ [0])\<rparr>"
    using assms(2) by (auto simp: create_parsed_edid2_def c_assert_bind_Some split: Option.bind_splits option.splits)
  have "edid_bytes q = take 128 e"
    using q(1) create_parsed_edid_valid [OF assms(1)] create_parsed_edid_invalid [of e] by force
  then show ?thesis
    using q create_parsed_edid_take [OF assms(1)] by (simp add: copy_parsed_edid_def)
qed

theorem edid_copy_is_identical_witness:
  "copy_parsed_edid (the (create_parsed_edid2 example_edid [0x49, 0x32, 0x43])) =
     create_parsed_edid2 example_edid [0x49, 0x32, 0x43]"
proof -
  obtain p where "create_parsed_edid2 example_edid [0x49, 0x32, 0x43] = Some (Some p)"
    using create_parsed_edid_valid [of example_edid] example_edid_valid
    by (auto simp: create_parsed_edid2_def)
  moreover from edid_copy_is_identical [OF _ this] have "copy_parsed_edid (Some p) = Some (Some p)"
    using example_edid_valid by simp
  ultimately show ?thesis by simp
qed


lemma rtrim_id: "xs = [] \<or> \<not> is_space (last xs) \<Longrightarrow> rtrim xs = xs"
  by (induction xs rule: rev_induct) auto

definition text_block :: "byte \<Rightarrow> byte list \<Rightarrow> byte list" where
  "text_block tag t = [0, 0, 0, tag, 0] @ t @ (if length t < 13 then 0x0a # replicate (12 - length t) 0x20 else [])"

definition plain_text :: "byte list \<Rightarrow> bool" where
  "plain_text t \<longleftrightarrow> length t \<le> 13 \<and> 0 \<notin> set t \<and> 0x0a \<notin> set t \<and> (t = [] \<or> \<not> is_space (last t))"

lemma text_block_text: "plain_text t \<Longrightarrow> descriptor_text (text_block tag t) = t"
proof -
  assume p: "plain_text t"
  have t: "takeWhile (\<lambda>c. c \<noteq> 0x0a) (t @ ys) = t @ takeWhile (\<lambda>c. c \<noteq> 0x0a) ys" for ys
    using p by (intro takeWhile_append2) (auto simp: plain_text_def)
  have "take 13 (drop 5 (text_block tag t)) = t @ (if length t < 13 then 0x0a # replicate (12 - length t) 0x20 else [])"
    using p by (cases "length t < 13") (auto simp: text_block_def plain_text_def)
  then have "takeWhile (\<lambda>c. c \<noteq> 0x0a) (take 13 (drop 5 (text_block tag t))) = t"
    by (simp add: t)
  moreover have "c_str t = t" using p by (auto simp: plain_text_def c_str_def takeWhile_eq_all_conv)
  ultimately show ?thesis using p by (simp add: descriptor_text_def plain_text_def rtrim_id)
qed

lemma string_with_tag_last:
  assumes "k < 4" "is_string_block e tag k" "\<And>j. k < j \<Longrightarrow> j < 4 \<Longrightarrow> \<not> is_string_block e tag j"
  shows "string_with_tag e tag = descriptor_text (edid_block e k)"
proof -
  have u: "[0..<4] = [0, 1, 2, 3 :: nat]" by code_simp
  from assms(1) consider "k = 0" | "k = 1" | "k = 2" | "k = 3" by linarith
  then show ?thesis
    using assms(2) assms(3) [of 1] assms(3) [of 2] assms(3) [of 3]
    by cases (simp_all add: string_with_tag_def u)
qed

text \<open>C16 (edid_name_roundtrip): A monitor name of at most 13 characters, written into a descriptor
  block as the EDID standard asks for (a line feed and blanks after it) and not followed by another
  name block, is the model name of the parsed EDID.\<close>

theorem edid_name_roundtrip:
  assumes "128 \<le> length e" "is_valid_edid_header e" "is_valid_edid_checksum e"
    and "k < 4" "edid_block e k = text_block 0xfc t" "plain_text t"
    and "\<And>j. k < j \<Longrightarrow> j < 4 \<Longrightarrow> \<not> is_string_block e 0xfc j"
  shows "\<exists>p. create_parsed_edid e = Some (Some p) \<and> c_str (model_name p) = t"
proof -
  have "is_string_block e 0xfc k"
    by (simp add: is_string_block_def assms(5) text_block_def)
  then have "string_with_tag e 0xfc = t"
    using string_with_tag_last [OF assms(4) _ assms(7)] assms(5,6) by (simp add: text_block_text)
  then show ?thesis using create_parsed_edid_valid [OF assms(1-3)] by auto
qed

theorem edid_name_roundtrip_witness:
  "\<exists>p. create_parsed_edid example_edid = Some (Some p) \<and>
     c_str (model_name p) = [0x44, 0x45, 0x4c, 0x4c, 0x20, 0x31]"
proof (rule edid_name_roundtrip [of _ 0])
  show "edid_block example_edid 0 = text_block 0xfc [0x44, 0x45, 0x4c, 0x4c, 0x20, 0x31]"
    by (simp add: edid_block_def example_edid_def example_name_block_def text_block_def numeral_eq_Suc)
  show "\<not> is_string_block example_edid 0xfc j" if "0 < j" "j < 4" for j
  proof -
    from that consider "j = 1" | "j = 2" | "j = 3" by linarith
    then show ?thesis
      by cases (simp_all add: is_string_block_def edid_block_def example_edid_def example_name_block_def nth_append)
  qed
qed (use example_edid_valid in \<open>simp_all add: plain_text_def is_space_def\<close>)

section \<open>Printable strings\<close>

lemma not_printable_iff: "(c AND 0x80 \<noteq> 0 \<or> sint c < 32) \<longleftrightarrow> \<not> is_printable (c :: byte)"
proof -
  have "sint c < 0" if "c AND 0x80 \<noteq> 0"
  proof -
    have "(0x80 :: byte) = push_bit 7 1" by simp
    then have "bit c 7"
      using that by (metis and_exp_eq_0_iff_not_bit push_bit_of_1)
    then show ?thesis by (simp add: sint_uint signed_take_bit_negative_iff bit_uint_iff)
  qed
  then show ?thesis by (auto simp: is_printable_def not_le)
qed


lemma length_asciify:
  "length (asciify_loop s) = length s + 4 * length (filter (\<lambda>c. \<not> is_printable c) s)"
  by (induction s) (simp_all add: escape_char_def)

lemma base_asciify_eq: "base_asciify s = Some (asciify_loop s)"
proof -
  have "filter (\<lambda>c. c AND 0x80 \<noteq> 0 \<or> sint c < 32) s = filter (\<lambda>c. \<not> is_printable c) s"
    by (rule filter_cong) (simp_all only: not_printable_iff)
  then show ?thesis by (simp add: base_asciify_def length_asciify)
qed

lemma asciify_id: "list_all is_printable s \<Longrightarrow> asciify_loop s = s"
  by (induction s) simp_all

text \<open>The buffer of the thread is allocated for the characters
  of the argument, not for those of the result: on the first call in a thread a string with a
  character to escape is written past its end, and any other is returned as it is.\<close>

theorem asciify_overflows_thread_buffer:
  "base_asciify_t None s =
     (if list_all is_printable s then Some (s, Some (length s + 1)) else None)"
proof (cases "list_all is_printable s")
  case True
  then show ?thesis
    by (simp add: base_asciify_t_def base_asciify_eq asciify_id get_thread_dynamic_buffer_def)
next
  case False
  then have "filter (\<lambda>c. \<not> is_printable c) s \<noteq> []"
    by (auto simp: list_all_iff filter_empty_conv)
  then have "0 < length (filter (\<lambda>c. \<not> is_printable c) s)" by simp
  with False show ?thesis
    by (simp add: base_asciify_t_def base_asciify_eq length_asciify get_thread_dynamic_buffer_def)
qed

end
