(* ===== verification/I2c_Edid.thy ===== *)
theory I2c_Edid
  imports I2c_Execute Edid
begin

text \<open>
  Reading the EDID over the bus, \<^verbatim>\<open>src/src/i2c/i2c_edid.c\<close>, and the check that an open bus is
  still alive, from \<^verbatim>\<open>src/src/i2c/i2c_bus_core.c\<close> and \<^verbatim>\<open>src/src/sysfs/sysfs_dpms.c\<close>. What sysfs
  and X11 report about the display are the fields of \<open>Display_Env\<close>. The code under
  \<^verbatim>\<open>TEST_EDID_SMBUS\<close>, which no build defines, and debug output are left out.
\<close>

abbreviation EOPNOTSUPP :: int where "EOPNOTSUPP \<equiv> 95"
abbreviation DDCRC_OTHER :: int where "DDCRC_OTHER \<equiv> -3022"
abbreviation DDCRC_DPMS_ASLEEP :: int where "DDCRC_DPMS_ASLEEP \<equiv> -3030"

section \<open>Reading the bytes\<close>

text \<open>The global variables of \<^verbatim>\<open>i2c_edid.c\<close>; a read size of 0 means dynamic.\<close>

record Edid_Config =
  EDID_Read_Uses_I2C_Layer :: bool
  EDID_Read_Bytewise :: bool
  EDID_Read_Size :: nat
  EDID_Write_Before_Read :: bool

definition default_edid_config :: Edid_Config where
  "default_edid_config = \<lparr>EDID_Read_Uses_I2C_Layer = True, EDID_Read_Bytewise = False,
     EDID_Read_Size = 0, EDID_Write_Before_Read = True\<rparr>"

text \<open>The status of a call that yields no value.\<close>

definition call_status :: "(int + 'a) \<times> 'w Io \<Rightarrow> int \<times> 'w Io" where
  "call_status r = (case r of (Inl e, st) \<Rightarrow> (- e, st) | (Inr _, st) \<Rightarrow> (0, st))"

definition i2c_get_edid_bytes_directly_using_ioctl ::
    "'w I2C_Driver \<Rightarrow> Edid_Config \<Rightarrow> Buffer \<Rightarrow> nat \<Rightarrow> bool \<Rightarrow> 'w Io \<Rightarrow> (int \<times> Buffer \<times> 'w Io) option" where
  "i2c_get_edid_bytes_directly_using_ioctl drv cfg rawedid edid_read_size read_bytewise st = do {
     c_assert (buffer_size rawedid \<ge> 256);
     let (rc, st) = (if EDID_Write_Before_Read cfg
                     then call_status (syscall (drv_rdwr_write drv 0x50 [0x00]) st) else (0, st));
     (if rc = 0
      then (case syscall (drv_rdwr_read drv 0x50 edid_read_size) st of
              (Inr bs, st) \<Rightarrow> do {
                rawedid \<leftarrow> buf_memcpy rawedid 0 bs;
                rawedid \<leftarrow> buffer_set_length rawedid edid_read_size;
                Some (0, rawedid, st)
              }
            | (Inl e, st) \<Rightarrow> Some (- e, rawedid, st))
      else Some (rc, rawedid, st))
   }"

text \<open>
  One byte at a time. The loop reads each byte twice, into the same place, and checks the second
  read only. The value returned with the status is \<open>ndx\<close>.
\<close>

fun direct_read_bytes ::
    "'w I2C_Driver \<Rightarrow> nat \<Rightarrow> nat \<Rightarrow> Buffer \<Rightarrow> 'w Io \<Rightarrow> (int \<times> nat \<times> Buffer \<times> 'w Io) option" where
  "direct_read_bytes drv ndx 0 rawedid st = Some (0, ndx, rawedid, st)"
| "direct_read_bytes drv ndx (Suc n) rawedid st = do {
     (rawedid, st) \<leftarrow>
       (case syscall (drv_read drv 1) st of
          (Inr bs, st) \<Rightarrow> do { b \<leftarrow> buf_memcpy rawedid ndx bs; Some (b, st) }
        | (Inl e, st) \<Rightarrow> Some (rawedid, st));
     (case syscall (drv_read drv 1) st of
        (Inl e, st) \<Rightarrow> Some (- e, ndx, rawedid, st)
      | (Inr bs, st) \<Rightarrow> do {
          rawedid \<leftarrow> buf_memcpy rawedid ndx bs;
          c_assert (length bs = 1);
          direct_read_bytes drv (ndx + 1) n rawedid st
        })
   }"

definition i2c_get_edid_bytes_directly_using_fileio ::
    "'w I2C_Driver \<Rightarrow> Edid_Config \<Rightarrow> Buffer \<Rightarrow> nat \<Rightarrow> bool \<Rightarrow> 'w Io \<Rightarrow> (int \<times> Buffer \<times> 'w Io) option" where
  "i2c_get_edid_bytes_directly_using_fileio drv cfg rawedid edid_read_size read_bytewise st = do {
     c_assert (buffer_size rawedid \<ge> 256);
     let (rc, st) = i2c_set_addr drv 0x50 st;
     (if rc < 0 then Some (rc, rawedid, st)
      else do {
        let (rc, st) = (if EDID_Write_Before_Read cfg
                        then call_status (syscall (drv_write drv [0x00]) st) else (rc, st));
        (if rc = 0
         then (if read_bytewise
               then do {
                 (rc, ndx, rawedid, st) \<leftarrow> direct_read_bytes drv 0 edid_read_size rawedid st;
                 Some (rc, rawedid\<lparr>buf_len := ndx\<rparr>, st)
               }
               else (case syscall (drv_read drv edid_read_size) st of
                       (Inr bs, st) \<Rightarrow> do {
                         rawedid \<leftarrow> buf_memcpy rawedid 0 bs;
                         Some (0, rawedid\<lparr>buf_len := length bs\<rparr>, st)
                       }
                     | (Inl e, st) \<Rightarrow> Some (- e, rawedid, st)))
         else Some (rc, rawedid, st))
      })
   }"

text \<open>Reads of one byte at the position \<open>ndx\<close> of the buffer.\<close>

fun layer_read_bytes ::
    "'w I2C_Driver \<Rightarrow> nat \<Rightarrow> nat \<Rightarrow> byte list \<Rightarrow> 'w Io \<Rightarrow> (int \<times> byte list \<times> 'w Io) option" where
  "layer_read_bytes drv ndx 0 bytes st = Some (0, bytes, st)"
| "layer_read_bytes drv ndx (Suc n) bytes st = do {
     (rc, tail, st) \<leftarrow> invoke_i2c_reader drv 2 0x50 False 1 (drop ndx bytes) st;
     let bytes = take ndx bytes @ tail;
     (if rc = 0 then layer_read_bytes drv (ndx + 1) n bytes st else Some (rc, bytes, st))
   }"

definition i2c_get_edid_bytes_using_i2c_layer ::
    "'w I2C_Driver \<Rightarrow> Edid_Config \<Rightarrow> Buffer \<Rightarrow> nat \<Rightarrow> bool \<Rightarrow> 'w Io \<Rightarrow> (int \<times> Buffer \<times> 'w Io) option" where
  "i2c_get_edid_bytes_using_i2c_layer drv cfg rawedid edid_read_size read_bytewise st = do {
     c_assert (buffer_size rawedid \<ge> 256);
     (rc, st) \<leftarrow> (if EDID_Write_Before_Read cfg then invoke_i2c_writer drv 2 0x50 [0x00] st
                 else Some (0, st));
     (if rc = 0
      then do {
        (rc, bytes, st) \<leftarrow>
          (if read_bytewise then layer_read_bytes drv 0 edid_read_size (buf_bytes rawedid) st
           else invoke_i2c_reader drv 2 0x50 read_bytewise edid_read_size (buf_bytes rawedid) st);
        let rawedid = rawedid\<lparr>buf_bytes := bytes\<rparr>;
        Some (rc, (if rc = 0 then rawedid\<lparr>buf_len := edid_read_size\<rparr> else rawedid), st)
      }
      else Some (rc, rawedid, st))
   }"

section \<open>The tries\<close>

text \<open>What is done with the bytes of a read that succeeded.\<close>

definition check_edid_bytes :: "Buffer \<Rightarrow> (int \<times> Buffer) option" where
  "check_edid_bytes rawedid = do {
     let rc = (if is_valid_raw_edid (buf_bytes rawedid) (buf_len rawedid) then 0 else DDCRC_INVALID_EDID);
     (if buf_len rawedid = 256 \<and>
         \<not> is_valid_raw_cea861_extension_block (drop 128 (buf_bytes rawedid)) (buf_len rawedid - 128) \<and>
         is_valid_raw_edid (drop 128 (buf_bytes rawedid)) (buf_len rawedid - 128)
      then do {
        rawedid \<leftarrow> buf_memcpy rawedid 0 (take 128 (drop 128 (buf_bytes rawedid)));
        rawedid \<leftarrow> buffer_set_length rawedid 128;
        Some (0, rawedid)
      }
      else Some (rc, rawedid))
   }"

definition edid_size_for_try :: "Edid_Config \<Rightarrow> nat \<Rightarrow> nat" where
  "edid_size_for_try cfg tryctr =
     (if EDID_Read_Size cfg = 0 then (if tryctr < 2 then 128 else 256) else EDID_Read_Size cfg)"

text \<open>The read of one try, and whether to take \<^verbatim>\<open>goto retry\<close>.\<close>

definition edid_read_once ::
    "'w I2C_Driver \<Rightarrow> Edid_Config \<Rightarrow> I2C_IO_Strategy_Id \<Rightarrow> nat \<Rightarrow> Buffer \<Rightarrow> 'w Io \<Rightarrow>
     (bool \<times> int \<times> Buffer \<times> 'w Io) option" where
  "edid_read_once drv cfg cur_strategy_id tryctr rawedid st = do {
     let edid_read_size = edid_size_for_try cfg tryctr;
     let read_bytewise = EDID_Read_Bytewise cfg;
     (if EDID_Read_Uses_I2C_Layer cfg
      then do {
        r \<leftarrow> i2c_get_edid_bytes_using_i2c_layer drv cfg rawedid edid_read_size read_bytewise st;
        Some (False, r)
      }
      else if cur_strategy_id = I2C_IO_STRATEGY_IOCTL
      then do {
        (rc, rawedid, st) \<leftarrow>
          i2c_get_edid_bytes_directly_using_ioctl drv cfg rawedid edid_read_size read_bytewise st;
        (retry, st) \<leftarrow> retry_after_einval drv I2C_IO_STRATEGY_IOCTL rc st;
        Some (retry, rc, rawedid, st)
      }
      else do {
        r \<leftarrow> i2c_get_edid_bytes_directly_using_fileio drv cfg rawedid edid_read_size read_bytewise st;
        Some (False, r)
      })
   }"

text \<open>The \<^verbatim>\<open>while\<close> loop, with the tries left.\<close>

fun edid_try_loop ::
    "'w I2C_Driver \<Rightarrow> Edid_Config \<Rightarrow> I2C_IO_Strategy_Id \<Rightarrow> nat \<Rightarrow> nat \<Rightarrow> int \<Rightarrow> Buffer \<Rightarrow> 'w Io \<Rightarrow>
     (bool \<times> int \<times> Buffer \<times> 'w Io) option" where
  "edid_try_loop drv cfg cur_strategy_id tryctr 0 rc rawedid st = Some (False, rc, rawedid, st)"
| "edid_try_loop drv cfg cur_strategy_id tryctr (Suc n) rc rawedid st = do {
     (retry, rc, rawedid, st) \<leftarrow> edid_read_once drv cfg cur_strategy_id tryctr rawedid st;
     (if retry then Some (True, rc, rawedid, st)
      else if rc = - ENXIO \<or> rc = - EOPNOTSUPP \<or> rc = - ETIMEDOUT \<or> rc = - EBUSY
      then Some (False, rc, rawedid, st)
      else do {
        c_assert (rc \<le> 0);
        (rc, rawedid) \<leftarrow> (if rc = 0 then check_edid_bytes rawedid else Some (rc, rawedid));
        (if rc = 0 then Some (False, rc, rawedid, st)
         else edid_try_loop drv cfg cur_strategy_id (tryctr + 1) n rc rawedid st)
      })
   }"

text \<open>The \<^verbatim>\<open>goto retry\<close> loop, with the number of passes allowed as fuel; two are enough.\<close>

fun get_raw_edid_loop ::
    "'w I2C_Driver \<Rightarrow> Edid_Config \<Rightarrow> nat \<Rightarrow> nat \<Rightarrow> Buffer \<Rightarrow> 'w Io \<Rightarrow> (int \<times> Buffer \<times> 'w Io) option" where
  "get_raw_edid_loop drv cfg max_tries 0 rawedid st = None"
| "get_raw_edid_loop drv cfg max_tries (Suc fuel) rawedid st = do {
     let cur_strategy_id = io_strategy st;
     c_assert (cur_strategy_id \<noteq> I2C_IO_STRATEGY_NOT_SET);
     (retry, rc, rawedid, st) \<leftarrow> edid_try_loop drv cfg cur_strategy_id 0 max_tries (-1) rawedid st;
     (if retry then get_raw_edid_loop drv cfg max_tries fuel rawedid st
      else Some (rc, (if rc < 0 then rawedid\<lparr>buf_len := 0\<rparr> else rawedid), st))
   }"

definition i2c_get_raw_edid_by_fd ::
    "'w I2C_Driver \<Rightarrow> Edid_Config \<Rightarrow> Buffer \<Rightarrow> 'w Io \<Rightarrow> (int \<times> Buffer \<times> 'w Io) option" where
  "i2c_get_raw_edid_by_fd drv cfg rawedid st = do {
     c_assert (buffer_size rawedid \<ge> 256);
     get_raw_edid_loop drv cfg (if EDID_Read_Size cfg = 0 then 4 else 2) 2 rawedid st
   }"

definition i2c_get_parsed_edid_by_fd ::
    "'w I2C_Driver \<Rightarrow> Edid_Config \<Rightarrow> 'w Io \<Rightarrow> (int \<times> Parsed_Edid option \<times> 'w Io) option" where
  "i2c_get_parsed_edid_by_fd drv cfg st = do {
     (rc, rawedidbuf, st) \<leftarrow> i2c_get_raw_edid_by_fd drv cfg (buffer_new 256) st;
     (if rc = 0
      then do {
        edid \<leftarrow> create_parsed_edid2 (buf_bytes rawedidbuf) [0x49, 0x32, 0x43];
        Some ((if edid = None then DDCRC_INVALID_EDID else rc), edid, st)
      }
      else Some (rc, None, st))
   }"

section \<open>Is the bus alive\<close>

definition i2c_check_edid_exists_by_dh ::
    "'w I2C_Driver \<Rightarrow> Edid_Config \<Rightarrow> 'w Io \<Rightarrow> (bool \<times> 'w Io) option" where
  "i2c_check_edid_exists_by_dh drv cfg st = do {
     (rc, edidbuf, st) \<leftarrow> i2c_get_raw_edid_by_fd drv cfg (buffer_new 256) st;
     Some (rc = 0, st)
   }"

abbreviation DETECT_X37_MAX_TRIES :: nat where "DETECT_X37_MAX_TRIES \<equiv> 3"
abbreviation CHECK_OPEN_BUS_ALIVE_MAX_TRIES :: nat where "CHECK_OPEN_BUS_ALIVE_MAX_TRIES \<equiv> 3"

text \<open>
  The result of the last try, and the milliseconds slept. The read buffer is a local array that
  is not looked at.
\<close>

fun detect_x37_loop :: "'w I2C_Driver \<Rightarrow> nat \<Rightarrow> int \<Rightarrow> int \<Rightarrow> 'w Io \<Rightarrow> (int \<times> int \<times> 'w Io) option" where
  "detect_x37_loop drv 0 rc slept st = Some (rc, slept, st)"
| "detect_x37_loop drv (Suc n) rc slept st = do {
     (rc, st) \<leftarrow> invoke_i2c_writer drv 2 0x37 [0x00] st;
     (rc, st) \<leftarrow> (if rc \<noteq> 0
                 then do {
                   (rc, readbuf, st) \<leftarrow> invoke_i2c_reader drv 2 0x37 False 4 (replicate 4 0) st;
                   Some (rc, st)
                 }
                 else Some (rc, st));
     (if rc = 0 then Some (rc, slept, st)
      else detect_x37_loop drv n rc (slept + (if drv_name drv = ''nvidia'' then 2000 else 400)) st)
   }"

definition i2c_detect_x37 :: "'w I2C_Driver \<Rightarrow> 'w Io \<Rightarrow> (int \<times> int \<times> 'w Io) option" where
  "i2c_detect_x37 drv st = detect_x37_loop drv DETECT_X37_MAX_TRIES 0 0 st"

text \<open>What the program has recorded of the bus.\<close>

record Bus_Info =
  bus_exists :: bool
  bus_probed :: bool
  bus_has_edid :: bool
  bus_addr_x37 :: bool
  drm_connector_checked :: bool
  drm_connector_name :: "string option"

text \<open>
  The environment: the session type, what sysfs and the X server report. \<open>x11_dpms\<close> is the power
  level and the state flag, if the X server could be asked.
\<close>

record 'w Display_Env =
  xdg_session_is_x11 :: bool
  sysfs_reliable :: bool
  x11_dpms :: "(nat \<times> bool) option"
  dpms_attribute :: "string \<Rightarrow> 'w \<Rightarrow> string option"

definition dpms_is_x11_asleep :: "'w Display_Env \<Rightarrow> bool" where
  "dpms_is_x11_asleep env =
     (xdg_session_is_x11 env \<and>
      (case x11_dpms env of
         Some (power_level, state) \<Rightarrow> state \<and> power_level \<noteq> 0
       | None \<Rightarrow> False))"

definition dpms_check_drm_asleep_by_connector :: "'w Display_Env \<Rightarrow> string \<Rightarrow> 'w \<Rightarrow> bool" where
  "dpms_check_drm_asleep_by_connector env connector w = (dpms_attribute env connector w \<noteq> Some ''On'')"

definition dpms_check_drm_asleep_by_businfo :: "'w Display_Env \<Rightarrow> Bus_Info \<Rightarrow> 'w \<Rightarrow> bool option" where
  "dpms_check_drm_asleep_by_businfo env businfo w =
     (if xdg_session_is_x11 env \<and> \<not> sysfs_reliable env then Some (dpms_is_x11_asleep env)
      else do {
        c_assert (drm_connector_checked businfo);
        Some (sysfs_reliable env \<and>
          (case drm_connector_name businfo of
             None \<Rightarrow> False
           | Some name \<Rightarrow> dpms_check_drm_asleep_by_connector env name w))
      })"

text \<open>Up to three reads of the EDID, with a second between them.\<close>

fun check_edid_loop ::
    "'w I2C_Driver \<Rightarrow> Edid_Config \<Rightarrow> nat \<Rightarrow> nat \<Rightarrow> int \<Rightarrow> 'w Io \<Rightarrow> (bool \<times> int \<times> 'w Io) option" where
  "check_edid_loop drv cfg tryctr 0 slept st = Some (False, slept, st)"
| "check_edid_loop drv cfg tryctr (Suc n) slept st = do {
     let slept = (if tryctr > 1 then slept + 1000 else slept);
     (edid_exists, st) \<leftarrow> i2c_check_edid_exists_by_dh drv cfg st;
     (if edid_exists then Some (True, slept, st)
      else check_edid_loop drv cfg (tryctr + 1) n slept st)
   }"

text \<open>The status of the error, if there is one, the bus, the milliseconds slept and the state.\<close>

definition i2c_check_open_bus_alive ::
    "'w I2C_Driver \<Rightarrow> Edid_Config \<Rightarrow> 'w Display_Env \<Rightarrow> Bus_Info \<Rightarrow> 'w Io \<Rightarrow>
     (int option \<times> Bus_Info \<times> int \<times> 'w Io) option" where
  "i2c_check_open_bus_alive drv cfg env businfo st = do {
     c_assert (bus_exists businfo \<and> bus_probed businfo);
     (edid_exists, slept, st) \<leftarrow> check_edid_loop drv cfg 1 CHECK_OPEN_BUS_ALIVE_MAX_TRIES 0 st;
     (err, businfo, slept, st) \<leftarrow>
       (if \<not> edid_exists
        then Some (Some DDCRC_DISCONNECTED, businfo\<lparr>bus_has_edid := False, bus_addr_x37 := False\<rparr>, slept, st)
        else do {
          (ddcrc, slept', st) \<leftarrow> i2c_detect_x37 drv st;
          Some (if ddcrc \<noteq> 0
                then (Some DDCRC_OTHER, businfo\<lparr>bus_addr_x37 := False\<rparr>, slept + slept', st)
                else (None, businfo, slept + slept', st))
        });
     (if err = None
      then do {
        asleep \<leftarrow> dpms_check_drm_asleep_by_businfo env businfo (dev st);
        Some (if asleep then Some DDCRC_DPMS_ASLEEP else None, businfo, slept, st)
      }
      else Some (err, businfo, slept, st))
   }"

section \<open>Invariant\<close>

definition edid_buf :: "Buffer \<Rightarrow> bool" where
  "edid_buf b \<longleftrightarrow> 256 \<le> buffer_size b \<and> buffer_size b \<le> length (buf_bytes b)"

text \<open>The read sizes the command line admits; single byte reads only through the I2C layer.\<close>

definition edid_config_ok :: "Edid_Config \<Rightarrow> bool" where
  "edid_config_ok cfg \<longleftrightarrow> EDID_Read_Size cfg \<in> {0, 128, 256} \<and>
     (EDID_Read_Bytewise cfg \<longrightarrow> EDID_Read_Uses_I2C_Layer cfg)"

lemma edid_buf_new [simp]: "edid_buf (buffer_new 256)"
  by (simp add: edid_buf_def buffer_new_def)

lemma edid_buf_write:
  "edid_buf b \<Longrightarrow> length bs \<le> 256 \<Longrightarrow>
   buf_memcpy b 0 bs = Some (b\<lparr>buf_bytes := mem_write (buf_bytes b) 0 bs\<rparr>) \<and>
   edid_buf (b\<lparr>buf_bytes := mem_write (buf_bytes b) 0 bs\<rparr>)"
  by (simp add: edid_buf_def buf_memcpy_def mem_simps)

lemma edid_buf_len: "edid_buf b \<Longrightarrow> n \<le> 256 \<Longrightarrow> buffer_set_length b n = Some (b\<lparr>buf_len := n\<rparr>)"
  by (simp add: edid_buf_def buffer_set_length_def)

lemma edid_buf_upd [simp]: "edid_buf (b\<lparr>buf_len := n\<rparr>) = edid_buf b"
  by (simp add: edid_buf_def)

text \<open>A step that returned: a status that is not positive, a usable buffer, and a state for the next call.\<close>

definition edid_step :: "(int \<times> Buffer \<times> 'w Io) option \<Rightarrow> bool" where
  "edid_step r \<longleftrightarrow> (\<exists>rc b st. r = Some (rc, b, st) \<and> rc \<le> 0 \<and> edid_buf b \<and> io_ready st)"

lemma edid_step_Some [simp]: "edid_step (Some (rc, b, st)) \<longleftrightarrow> rc \<le> 0 \<and> edid_buf b \<and> io_ready st"
  by (simp add: edid_step_def)

lemma call_status_ok:
  assumes "good_call P f" "io_ready st"
  shows "fst (call_status (syscall f st)) \<le> 0 \<and> io_ready (snd (call_status (syscall f st)))"
  using syscall_good [OF assms(1), of st] assms(2)
  by (auto simp: call_status_def io_ready_same split: prod.split sum.split)

lemma directly_using_ioctl_ok:
  assumes d: "driver_ok drv" and st: "io_ready st" and b: "edid_buf b" and n: "n \<le> 256"
  shows "edid_step (i2c_get_edid_bytes_directly_using_ioctl drv cfg b n bw st)"
proof -
  define r where "r = (if EDID_Write_Before_Read cfg
                     then call_status (syscall (drv_rdwr_write drv 0x50 [0x00]) st) else (0, st))"
  obtain rc st1 where r1: "r = (rc, st1)" by force
  have g: "good_call (\<lambda>_. True) (drv_rdwr_write drv 0x50 [0x00])" using d by (simp add: driver_ok_def calls_ok_def)
  have k: "rc \<le> 0" "io_ready st1"
    using call_status_ok [OF g st] r1 st by (auto simp: r_def split: if_splits)
  have g2: "good_call (\<lambda>bs. length bs = n) (drv_rdwr_read drv 0x50 n)" using d by (simp add: driver_ok_def calls_ok_def)
  show ?thesis
  proof (cases "syscall (drv_rdwr_read drv 0x50 n) st1")
    case (Pair x st2)
    show ?thesis
      using syscall_good [OF g2, of st1] Pair k b n edid_buf_write [OF b]
      by (auto simp: i2c_get_edid_bytes_directly_using_ioctl_def r_def [symmetric] r1 io_ready_same
               edid_buf_len edid_buf_def [of b] split: sum.splits)
  qed
qed

lemma directly_using_fileio_ok:
  assumes d: "driver_ok drv" and st: "io_ready st" and b: "edid_buf b" and n: "n \<le> 256"
  shows "edid_step (i2c_get_edid_bytes_directly_using_fileio drv cfg b n False st)"
proof -
  obtain rc0 st0 where r0: "i2c_set_addr drv 0x50 st = (rc0, st0)" by force
  have k0: "rc0 \<le> 0" "io_ready st0" using i2c_set_addr_ok [OF driver_ok_calls [OF d], of st "0x50"] r0 io_ready_same [OF st] by simp_all
  define r where "r = (if EDID_Write_Before_Read cfg
                     then call_status (syscall (drv_write drv [0x00]) st0) else (rc0, st0))"
  obtain rc st1 where r1: "r = (rc, st1)" by force
  have g: "good_call (\<lambda>_. True) (drv_write drv [0x00])" using d by (simp add: driver_ok_def calls_ok_def)
  have k: "rc \<le> 0" "io_ready st1"
    using call_status_ok [OF g k0(2)] r1 k0 by (auto simp: r_def split: if_splits)
  have g2: "good_call (\<lambda>bs. length bs \<le> n) (drv_read drv n)" using d by (simp add: driver_ok_def calls_ok_def)
  show ?thesis
  proof (cases "syscall (drv_read drv n) st1")
    case (Pair x st2)
    show ?thesis
      using syscall_good [OF g2, of st1] Pair k0 k b n edid_buf_write [OF b]
      by (auto simp: i2c_get_edid_bytes_directly_using_fileio_def r_def [symmetric] r0 r1 io_ready_same
               edid_buf_def [of b] split: sum.splits)
  qed
qed

lemma layer_read_bytes_ok:
  assumes d: "driver_ok drv"
  shows "io_ready st \<Longrightarrow> ndx + n \<le> length bytes \<Longrightarrow>
    \<exists>rc bytes' st'. layer_read_bytes drv ndx n bytes st = Some (rc, bytes', st') \<and>
      rc \<le> 0 \<and> length bytes' = length bytes \<and> io_ready st'"
proof (induction n arbitrary: ndx bytes st)
  case (Suc n)
  then have "1 \<le> length (drop ndx bytes)" by simp
  from invoke_i2c_reader_returns [OF d Suc.prems(1) order_refl this, of "0x50" False]
  obtain rc tail st1 where r: "invoke_i2c_reader drv 2 0x50 False 1 (drop ndx bytes) st = Some (rc, tail, st1)"
    "rc \<le> 0" "length tail = length (drop ndx bytes)" "io_ready st1" by blast
  have "length (take ndx bytes @ tail) = length bytes" using r(3) Suc.prems by simp
  moreover from Suc.IH [OF r(4), of "ndx + 1" "take ndx bytes @ tail"] this Suc.prems
  obtain rc' bytes' st' where "layer_read_bytes drv (ndx + 1) n (take ndx bytes @ tail) st1 = Some (rc', bytes', st')"
    "rc' \<le> 0" "length bytes' = length bytes" "io_ready st'" by auto
  ultimately show ?case using r by (cases "rc = 0") simp_all
qed simp

lemma using_i2c_layer_ok:
  assumes d: "driver_ok drv" and st: "io_ready st" and b: "edid_buf b" and n: "n \<le> 256"
  shows "edid_step (i2c_get_edid_bytes_using_i2c_layer drv cfg b n bw st)"
proof -
  from invoke_i2c_writer_returns [OF d st order_refl, of "0x50" "[0x00]"]
  obtain rcw stw where w: "invoke_i2c_writer drv 2 0x50 [0x00] st = Some (rcw, stw)" "rcw \<le> 0" "io_ready stw"
    by blast
  define r where "r = (if EDID_Write_Before_Read cfg then invoke_i2c_writer drv 2 0x50 [0x00] st else Some (0, st))"
  have "\<exists>rc st1. r = Some (rc, st1) \<and> rc \<le> 0 \<and> io_ready st1" using w st by (simp add: r_def)
  then obtain rc st1 where r1: "r = Some (rc, st1)" "rc \<le> 0" "io_ready st1" by blast
  have nb: "n \<le> length (buf_bytes b)" using b n by (simp add: edid_buf_def)
  define q where "q = (if bw then layer_read_bytes drv 0 n (buf_bytes b) st1
           else invoke_i2c_reader drv 2 0x50 bw n (buf_bytes b) st1)"
  have "\<exists>rc bytes st2. q = Some (rc, bytes, st2) \<and> rc \<le> 0 \<and> length bytes = length (buf_bytes b) \<and> io_ready st2"
    using layer_read_bytes_ok [OF d r1(3), of 0 n "buf_bytes b"]
      invoke_i2c_reader_returns [OF d r1(3) order_refl nb, of "0x50" bw] nb
    by (cases bw) (simp_all add: q_def)
  then obtain rc2 bytes st2 where "q = Some (rc2, bytes, st2)" "rc2 \<le> 0"
      "length bytes = length (buf_bytes b)" "io_ready st2" by blast
  then show ?thesis
    using b r1
    by (simp add: i2c_get_edid_bytes_using_i2c_layer_def r_def [symmetric] q_def [symmetric] edid_buf_def Let_def)
qed


section \<open>The tries\<close>

text \<open>The bytes of the buffer are a valid EDID.\<close>

definition holds_edid :: "Buffer \<Rightarrow> bool" where
  "holds_edid b \<longleftrightarrow> is_valid_raw_edid (buf_bytes b) (buf_len b)"

lemma check_edid_bytes_ok:
  assumes b: "edid_buf b"
  shows "\<exists>rc b'. check_edid_bytes b = Some (rc, b') \<and> rc \<le> 0 \<and> edid_buf b' \<and> (rc = 0 \<longrightarrow> holds_edid b')"
proof (cases "buf_len b = 256 \<and>
         \<not> is_valid_raw_cea861_extension_block (drop 128 (buf_bytes b)) (buf_len b - 128) \<and>
         is_valid_raw_edid (drop 128 (buf_bytes b)) (buf_len b - 128)")
  case False
  then show ?thesis using b by (auto simp: check_edid_bytes_def holds_edid_def)
next
  case True
  let ?second = "take 128 (drop 128 (buf_bytes b))"
  let ?b = "b\<lparr>buf_bytes := mem_write (buf_bytes b) 0 ?second\<rparr>"
  have l: "256 \<le> length (buf_bytes b)" using b by (simp add: edid_buf_def)
  have w: "buf_memcpy b 0 ?second = Some ?b" "edid_buf ?b"
    using edid_buf_write [OF b, of ?second] by simp_all
  have t: "take 128 (mem_write (buf_bytes b) 0 ?second) = ?second"
    using l by (simp add: mem_write_def)
  have len: "128 \<le> length (mem_write (buf_bytes b) 0 ?second)" using l by (simp add: mem_write_def)
  have "edid_checksum (mem_write (buf_bytes b) 0 ?second) = edid_checksum (drop 128 (buf_bytes b))"
    using l len t by (simp add: edid_checksum_eq)
  moreover have "take 8 (mem_write (buf_bytes b) 0 ?second) = take 8 (drop 128 (buf_bytes b))"
    using arg_cong [OF t, of "take 8"] by simp
  ultimately have "is_valid_raw_edid (mem_write (buf_bytes b) 0 ?second) 128"
    using True by (simp add: is_valid_raw_edid_def is_valid_edid_header_def is_valid_edid_checksum_def)
  then show ?thesis
    using True w b by (simp add: check_edid_bytes_def edid_buf_len holds_edid_def)
qed

lemma edid_size_le: "edid_config_ok cfg \<Longrightarrow> edid_size_for_try cfg n \<le> 256"
  by (auto simp: edid_config_ok_def edid_size_for_try_def)

lemma retry_after_einval_ready:
  assumes "fd_named drv" "io_ready st"
  shows "\<exists>retry st'. retry_after_einval drv sid rc st = Some (retry, st') \<and> io_ready st' \<and>
     (retry \<longrightarrow> sid = I2C_IO_STRATEGY_IOCTL \<and> io_strategy st' = I2C_IO_STRATEGY_FILEIO)"
  using assms
  by (auto simp: retry_after_einval_def is_nvidia_einval_bug_def i2c_set_io_strategy_by_id_def c_assert_def fd_named_def
      io_ready_def)

lemma edid_read_once_ok:
  assumes d: "driver_ok drv" and c: "edid_config_ok cfg" and st: "io_ready st" and b: "edid_buf b"
  shows "\<exists>retry rc b' st'. edid_read_once drv cfg sid t b st = Some (retry, rc, b', st') \<and>
    rc \<le> 0 \<and> edid_buf b' \<and> io_ready st' \<and>
    (retry \<longrightarrow> sid = I2C_IO_STRATEGY_IOCTL \<and> io_strategy st' = I2C_IO_STRATEGY_FILEIO)"
proof -
  let ?n = "edid_size_for_try cfg t"
  note n = edid_size_le [OF c, of t]
  show ?thesis
  proof (cases "EDID_Read_Uses_I2C_Layer cfg")
    case True
    then show ?thesis
      using using_i2c_layer_ok [OF d st b n, of cfg "EDID_Read_Bytewise cfg"]
      by (auto simp: edid_read_once_def edid_step_def)
  next
    case False
    then have bw: "\<not> EDID_Read_Bytewise cfg" using c by (simp add: edid_config_ok_def)
    show ?thesis
    proof (cases "sid = I2C_IO_STRATEGY_IOCTL")
      case True
      from directly_using_ioctl_ok [OF d st b n, of cfg False] obtain rc b1 st1 where
        r: "i2c_get_edid_bytes_directly_using_ioctl drv cfg b ?n False st = Some (rc, b1, st1)"
        "rc \<le> 0" "edid_buf b1" "io_ready st1" by (auto simp: edid_step_def)
      have "fd_named drv" using d by (simp add: driver_ok_def)
      from retry_after_einval_ready [OF this r(4), of I2C_IO_STRATEGY_IOCTL rc] obtain retry st2 where
        "retry_after_einval drv I2C_IO_STRATEGY_IOCTL rc st1 = Some (retry, st2)" "io_ready st2"
        "retry \<longrightarrow> io_strategy st2 = I2C_IO_STRATEGY_FILEIO" by blast
      with r True False bw show ?thesis by (simp add: edid_read_once_def)
    next
      case other: False
      with False bw show ?thesis
        using directly_using_fileio_ok [OF d st b n, of cfg]
        by (auto simp: edid_read_once_def edid_step_def)
    qed
  qed
qed

lemma edid_try_loop_ok:
  assumes d: "driver_ok drv" and c: "edid_config_ok cfg"
  shows "io_ready st \<Longrightarrow> edid_buf b \<Longrightarrow> rc < 0 \<Longrightarrow>
    \<exists>retry rc' b' st'. edid_try_loop drv cfg sid t n rc b st = Some (retry, rc', b', st') \<and>
      rc' \<le> 0 \<and> edid_buf b' \<and> io_ready st' \<and>
      (retry \<longrightarrow> sid = I2C_IO_STRATEGY_IOCTL \<and> io_strategy st' = I2C_IO_STRATEGY_FILEIO) \<and>
      (\<not> retry \<and> rc' = 0 \<longrightarrow> holds_edid b')"
proof (induction n arbitrary: t rc b st)
  case (Suc n)
  from edid_read_once_ok [OF d c Suc.prems(1,2), of sid t] obtain retry rc1 b1 st1 where
    r: "edid_read_once drv cfg sid t b st = Some (retry, rc1, b1, st1)" "rc1 \<le> 0" "edid_buf b1" "io_ready st1"
    "retry \<longrightarrow> sid = I2C_IO_STRATEGY_IOCTL \<and> io_strategy st1 = I2C_IO_STRATEGY_FILEIO" by blast
  show ?case
  proof (cases "rc1 = 0")
    case True
    from check_edid_bytes_ok [OF r(3)] obtain rc2 b2 where
      k: "check_edid_bytes b1 = Some (rc2, b2)" "rc2 \<le> 0" "edid_buf b2" "rc2 = 0 \<longrightarrow> holds_edid b2" by blast
    have "rc2 \<noteq> 0 \<Longrightarrow> rc2 < 0" using k(2) by simp
    from Suc.IH [OF r(4) k(3) this, of "t + 1"] show ?thesis
      using r k True by (cases "rc2 = 0"; cases retry) auto
  next
    case False
    then have "rc1 < 0" using r(2) by simp
    from Suc.IH [OF r(4,3) this, of "t + 1"] show ?thesis
      using r False by (cases retry) auto
  qed
qed auto

lemma get_raw_edid_ok:
  assumes d: "driver_ok drv" and c: "edid_config_ok cfg" and st: "io_ready st" and b: "edid_buf b"
  shows "\<exists>rc b' st'. i2c_get_raw_edid_by_fd drv cfg b st = Some (rc, b', st') \<and> rc \<le> 0 \<and>
    edid_buf b' \<and> io_ready st' \<and> (if rc = 0 then holds_edid b' else buf_len b' = 0)"
proof -
  let ?max = "if EDID_Read_Size cfg = 0 then 4 else 2 :: nat"
  let ?loop = "\<lambda>b st. edid_try_loop drv cfg (io_strategy st) 0 ?max (-1) b st"
  have pass: "\<exists>retry rc' b' st'. ?loop b st = Some (retry, rc', b', st') \<and>
      rc' \<le> 0 \<and> edid_buf b' \<and> io_ready st' \<and>
      (retry \<longrightarrow> io_strategy st = I2C_IO_STRATEGY_IOCTL \<and> io_strategy st' = I2C_IO_STRATEGY_FILEIO) \<and>
      (\<not> retry \<and> rc' = 0 \<longrightarrow> holds_edid b')" if "io_ready st" "edid_buf b" for b st
    using edid_try_loop_ok [OF d c that, of "-1" "io_strategy st" 0 ?max] by simp
  from pass [OF st b] obtain retry rc1 b1 st1 where
    p1: "?loop b st = Some (retry, rc1, b1, st1)" "rc1 \<le> 0" "edid_buf b1" "io_ready st1"
      "retry \<longrightarrow> io_strategy st1 = I2C_IO_STRATEGY_FILEIO" "\<not> retry \<and> rc1 = 0 \<longrightarrow> holds_edid b1"
    by blast
  from pass [OF p1(4,3)] obtain retry2 rc2 b2 st2 where
    p2: "?loop b1 st1 = Some (retry2, rc2, b2, st2)" "rc2 \<le> 0" "edid_buf b2" "io_ready st2"
      "retry2 \<longrightarrow> io_strategy st1 = I2C_IO_STRATEGY_IOCTL" "\<not> retry2 \<and> rc2 = 0 \<longrightarrow> holds_edid b2"
    by blast
  have s: "io_strategy st \<noteq> I2C_IO_STRATEGY_NOT_SET" "io_strategy st1 \<noteq> I2C_IO_STRATEGY_NOT_SET"
    "256 \<le> buffer_size b"
    using st p1(4) b by (simp_all add: io_ready_def edid_buf_def)
  show ?thesis
  proof (cases retry)
    case False
    then show ?thesis
      using p1 s by (simp add: i2c_get_raw_edid_by_fd_def numeral_2_eq_2 holds_edid_def)
  next
    case True
    then have "\<not> retry2" using p1(5) p2(5) by auto
    then show ?thesis
      using True p1 p2 s by (simp add: i2c_get_raw_edid_by_fd_def numeral_2_eq_2 holds_edid_def)
  qed
qed


lemma parsed_edid_ok:
  assumes d: "driver_ok drv" and c: "edid_config_ok cfg" and st: "io_ready st"
  shows "\<exists>rc edid st'. i2c_get_parsed_edid_by_fd drv cfg st = Some (rc, edid, st') \<and>
    io_ready st' \<and> (rc = 0 \<longleftrightarrow> edid \<noteq> None) \<and> rc \<le> 0 \<and>
    (\<forall>p. edid = Some p \<longrightarrow> is_valid_raw_edid (edid_bytes p) 128)"
proof -
  from get_raw_edid_ok [OF d c st edid_buf_new] obtain rc b st' where
    r: "i2c_get_raw_edid_by_fd drv cfg (buffer_new 256) st = Some (rc, b, st')" "rc \<le> 0" "edid_buf b"
      "io_ready st'" "rc = 0 \<longrightarrow> holds_edid b" by (metis (full_types))
  show ?thesis
  proof (cases "rc = 0")
    case False
    with r show ?thesis by (simp add: i2c_get_parsed_edid_by_fd_def)
  next
    case True
    then have v: "is_valid_edid_header (buf_bytes b)" "is_valid_edid_checksum (buf_bytes b)"
      using r(5) by (simp_all add: holds_edid_def is_valid_raw_edid_def)
    have l: "128 \<le> length (buf_bytes b)" using r(3) by (simp add: edid_buf_def)
    from create_parsed_edid_valid [OF l v] obtain p where
      p: "create_parsed_edid (buf_bytes b) = Some (Some p)" "edid_bytes p = take 128 (buf_bytes b)" by blast
    have "is_valid_raw_edid (take 128 (buf_bytes b)) 128"
      using v l by (simp add: is_valid_raw_edid_def is_valid_edid_header_def is_valid_edid_checksum_def
                              edid_checksum_eq min_def)
    then show ?thesis
      using r True p by (simp add: i2c_get_parsed_edid_by_fd_def create_parsed_edid2_def)
  qed
qed

section \<open>Is the bus alive\<close>

lemma check_edid_exists_ok:
  assumes "driver_ok drv" "edid_config_ok cfg" "io_ready st"
  shows "\<exists>x st'. i2c_check_edid_exists_by_dh drv cfg st = Some (x, st') \<and> io_ready st'"
  using get_raw_edid_ok [OF assms edid_buf_new] by (auto simp: i2c_check_edid_exists_by_dh_def)

lemma check_edid_loop_ok:
  assumes "driver_ok drv" "edid_config_ok cfg"
  shows "io_ready st \<Longrightarrow> \<exists>x slept' st'. check_edid_loop drv cfg t n slept st = Some (x, slept', st') \<and> io_ready st'"
proof (induction n arbitrary: t slept st)
  case (Suc n)
  from check_edid_exists_ok [OF assms Suc.prems] obtain x st1 where
    "i2c_check_edid_exists_by_dh drv cfg st = Some (x, st1)" "io_ready st1" by blast
  with Suc.IH [of st1] show ?case by (cases x) (auto simp: Let_def)
qed (auto intro: exI [of _ False])

lemma detect_x37_loop_ok:
  assumes d: "driver_ok drv"
  shows "io_ready st \<Longrightarrow> rc \<le> 0 \<Longrightarrow>
    \<exists>rc' slept' st'. detect_x37_loop drv n rc slept st = Some (rc', slept', st') \<and> rc' \<le> 0 \<and> io_ready st'"
proof (induction n arbitrary: rc slept st)
  case (Suc n)
  from invoke_i2c_writer_returns [OF d Suc.prems(1) order_refl, of "0x37" "[0x00]"] obtain rc1 st1 where
    w: "invoke_i2c_writer drv 2 0x37 [0x00] st = Some (rc1, st1)" "rc1 \<le> 0" "io_ready st1" by blast
  have "4 \<le> length (replicate 4 0 :: byte list)" by simp
  from invoke_i2c_reader_returns [OF d w(3) order_refl this, of "0x37" False] obtain rc2 buf st2 where
    r: "invoke_i2c_reader drv 2 0x37 False 4 (replicate 4 0) st1 = Some (rc2, buf, st2)" "rc2 \<le> 0" "io_ready st2"
    by blast
  show ?case
  proof (cases "rc1 = 0")
    case True
    with w show ?thesis by simp
  next
    case False
    with w r Suc.IH [OF r(3,2)] show ?thesis
      by (cases "rc2 = 0") (simp_all del: replicate_Suc)
  qed
qed simp

definition bus_ok :: "Bus_Info \<Rightarrow> bool" where
  "bus_ok businfo \<longleftrightarrow> bus_exists businfo \<and> bus_probed businfo \<and> drm_connector_checked businfo"

lemma check_open_bus_alive_ok:
  assumes d: "driver_ok drv" and c: "edid_config_ok cfg" and st: "io_ready st" and b: "bus_ok businfo"
  shows "\<exists>err businfo' slept st'. i2c_check_open_bus_alive drv cfg env businfo st = Some (err, businfo', slept, st') \<and>
    io_ready st' \<and> bus_ok businfo' \<and>
    err \<in> {None, Some DDCRC_DISCONNECTED, Some DDCRC_OTHER, Some DDCRC_DPMS_ASLEEP}"
proof -
  from check_edid_loop_ok [OF d c st, of 1 3 0] obtain x slept1 st1 where
    e: "check_edid_loop drv cfg 1 3 0 st = Some (x, slept1, st1)" "io_ready st1" by blast
  from detect_x37_loop_ok [OF d e(2), of 0 3 0] obtain rc slept2 st2 where
    r: "i2c_detect_x37 drv st1 = Some (rc, slept2, st2)" "io_ready st2"
    by (auto simp: i2c_detect_x37_def)
  have "\<exists>asleep. dpms_check_drm_asleep_by_businfo env businfo (dev st2) = Some asleep"
    using b by (simp add: dpms_check_drm_asleep_by_businfo_def bus_ok_def)
  then obtain asleep where a: "dpms_check_drm_asleep_by_businfo env businfo (dev st2) = Some asleep" ..
  show ?thesis
  proof (cases x)
    case False
    then show ?thesis
      using b e by (simp add: i2c_check_open_bus_alive_def bus_ok_def)
  next
    case True
    then show ?thesis
      using b e r a by (cases "rc = 0") (simp_all add: i2c_check_open_bus_alive_def bus_ok_def)
  qed
qed

section \<open>Properties\<close>

text \<open>A device whose EDID is the one of the examples, and whose \<^verbatim>\<open>read()\<close> goes through it.\<close>

definition stream_driver :: "byte list I2C_Driver" where
  "stream_driver =
     \<lparr>drv_set_slave = \<lambda>_ _ w. (Inr (), w), drv_poll = \<lambda>w. (Inr 1, w),
      drv_write = \<lambda>bs w. (Inr (length bs), w), drv_read = \<lambda>n w. (Inr (take n w), drop n w),
      drv_rdwr_write = \<lambda>_ _ w. (Inr 1, w),
      drv_rdwr_read = \<lambda>_ n w. (Inr (take n (w @ replicate n 0)), drop n w),
      drv_fd_name = \<lambda>_. Some ''/dev/i2c-5'', drv_sysfs_driver = \<lambda>_. Some ''amdgpu'', drv_name = ''amdgpu''\<rparr>"

definition stream_io :: "byte list \<Rightarrow> byte list Io" where
  "stream_io w = \<lparr>errno = 0, i2c_forceable_slave_addr_flag = False, use_timeout = False,
     io_strategy = I2C_IO_STRATEGY_FILEIO, nvidia_einval_bug_encountered = False, dev = w\<rparr>"

lemma stream_driver_ok: "driver_ok stream_driver"
  by (auto simp: driver_ok_def calls_ok_def fd_named_def i2c_5_busno good_call_def stream_driver_def min_def)

lemma stream_io_ready: "io_ready (stream_io w)"
  by (simp add: io_ready_def stream_io_def)

text \<open>The single byte loop takes every other byte of the stream only, from the second on.\<close>

lemma direct_read_skips_bytes:
  "2 * n \<le> length w \<Longrightarrow> ndx + n \<le> length (buf_bytes b) \<Longrightarrow>
   direct_read_bytes stream_driver ndx n b (stream_io w) =
     Some (0, ndx + n,
           b\<lparr>buf_bytes := mem_write (buf_bytes b) ndx (map (\<lambda>i. w ! (2 * i + 1)) [0..<n])\<rparr>,
           stream_io (drop (2 * n) w))"
proof (induction n arbitrary: ndx b w)
  case 0
  then show ?case by (simp add: mem_write_def)
next
  case (Suc n)
  then obtain x y ws where w: "w = x # y # ws" "2 * n \<le> length ws"
    by (cases w; cases "tl w") auto
  let ?b1 = "b\<lparr>buf_bytes := mem_write (buf_bytes b) ndx [x]\<rparr>"
  let ?b2 = "?b1\<lparr>buf_bytes := mem_write (buf_bytes ?b1) ndx [y]\<rparr>"
  have l: "length (buf_bytes ?b1) = length (buf_bytes b)" "length (buf_bytes ?b2) = length (buf_bytes b)"
    using Suc.prems by (simp_all add: mem_simps)
  have m: "buf_memcpy b ndx [x] = Some ?b1" "buf_memcpy ?b1 ndx [y] = Some ?b2"
    using Suc.prems l by (simp_all add: buf_memcpy_def)
  have "direct_read_bytes stream_driver ndx (Suc n) b (stream_io w) =
          direct_read_bytes stream_driver (ndx + 1) n ?b2 (stream_io ws)"
    by (simp add: w stream_driver_def stream_io_def syscall_def m [simplified])
  also have "\<dots> = Some (0, ndx + 1 + n,
           ?b2\<lparr>buf_bytes := mem_write (buf_bytes ?b2) (ndx + 1) (map (\<lambda>i. ws ! (2 * i + 1)) [0..<n])\<rparr>,
           stream_io (drop (2 * n) ws))"
    using Suc.prems l w by (intro Suc.IH) simp_all
  also have "mem_write (buf_bytes ?b2) (ndx + 1) (map (\<lambda>i. ws ! (2 * i + 1)) [0..<n]) =
      mem_write (buf_bytes b) ndx (map (\<lambda>i. w ! (2 * i + 1)) [0..<Suc n])"
    using Suc.prems w by (simp add: mem_write_def upt_conv_Cons map_Suc_upt [symmetric] o_def add.commute del: upt_Suc)
  finally show ?case by (simp add: w)
qed


text \<open>C17 (raw_edid_read_is_sound): Over a device whose system calls behave as documented and whose
  descriptor has a name that gives its bus number, and with settings other than reading single bytes without
  the I2C layer, reading the EDID returns, through all its tries and the switch of strategy. A status of 0
  comes with a parsed EDID whose raw bytes have a valid header and checksum, any other status with none; a
  read that succeeded is never rejected by the parser. The hypotheses exclude two ways to end by an
  assertion: the one on the bus number after \<^verbatim>\<open>EINVAL\<close> (\<open>driver_ok\<close>), and the one on the result of
  a \<^verbatim>\<open>read()\<close> of one byte (\<open>edid_config_ok\<close>).\<close>

theorem raw_edid_read_is_sound:
  assumes "driver_ok drv" "edid_config_ok cfg" "io_ready st"
  shows "\<exists>rc edid st'. i2c_get_parsed_edid_by_fd drv cfg st = Some (rc, edid, st') \<and>
    io_ready st' \<and> rc \<le> 0 \<and> (rc = 0 \<longleftrightarrow> edid \<noteq> None) \<and>
    (\<forall>p. edid = Some p \<longrightarrow> is_valid_raw_edid (edid_bytes p) 128)"
  using parsed_edid_ok [OF assms] by blast

theorem raw_edid_read_is_sound_witness:
  "\<exists>rc edid st'. i2c_get_parsed_edid_by_fd nvidia_driver default_edid_config fresh_io = Some (rc, edid, st') \<and>
    io_ready st' \<and> (rc = 0 \<longleftrightarrow> edid \<noteq> None)"
proof -
  have "edid_config_ok default_edid_config" by (simp add: edid_config_ok_def default_edid_config_def)
  from raw_edid_read_is_sound [OF nvidia_driver_ok this fresh_io_ready] show ?thesis by blast
qed

end
