(* ===== verification/Packet_IO.thy ===== *)
theory Packet_IO
  imports Ddc_Packets Tuned_Sleep Try_Data I2c_Edid
begin

text \<open>
  Exchanges of packets with a display, \<^verbatim>\<open>src/src/ddc/ddc_packet_io.c\<close>: a write followed by a read,
  a write alone, each with its retry loop. The state is what an open display handle reaches:
  the bus, the recorded data of the display, its results tables, the retry limits and statistics,
  and the clock. \<open>Error_Info\<close> keeps the status code and the codes of the causes. USB displays,
  tracing, and counting of status codes are left out.
\<close>

section \<open>State\<close>

text \<open>The clock counts nanoseconds.\<close>

record 'w Ddc_State =
  io_state :: "'w Io"
  bus_info :: Bus_Info
  display_pdd :: Per_Display_Data
  next_io_after :: int
  dsa2_state :: Dsa2_State
  try_state :: Try_State
  display_tries :: Display_Try_Stats
  clock :: int

text \<open>
  What an exchange does not change: the device, the settings of the program, and two flags, one
  of the display reference and one of the display handle.
\<close>

record 'w Ddc_Env =
  driver :: "'w I2C_Driver"
  edid_cfg :: Edid_Config
  sleep_cfg :: Sleep_Config
  display_env :: "'w Display_Env"
  DDC_Read_Bytewise :: bool
  simulate_null_msg_means_unsupported :: bool
  null_response_means_unsupported :: bool
  testing_unsupported_feature_active :: bool

record Error_Info =
  status_code :: int
  causes :: "int list"

text \<open>\<^verbatim>\<open>DDC_Write_Read_Flags\<close>\<close>

record Write_Read_Flags =
  all_zero_response_ok :: bool
  flag_capabilities :: bool
  flag_table_read :: bool

definition Write_Read_Flags_None :: Write_Read_Flags where
  "Write_Read_Flags_None =
     \<lparr>all_zero_response_ok = False, flag_capabilities = False, flag_table_read = False\<rparr>"

section \<open>Sleeps and calls on the bus\<close>

definition advance :: "int \<Rightarrow> 'w Ddc_State \<Rightarrow> 'w Ddc_State" where
  "advance millis st = st\<lparr>clock := clock st + 1000000 * millis\<rparr>"

definition CHECK_DEFERRED_SLEEP :: "'w Ddc_State \<Rightarrow> 'w Ddc_State" where
  "CHECK_DEFERRED_SLEEP st =
     (let ((pdd, next), slept) = check_deferred_sleep (clock st) (display_pdd st, next_io_after st)
      in advance slept (st\<lparr>display_pdd := pdd, next_io_after := next\<rparr>))"

definition SPECIAL_TUNED_SLEEP_WITH_TRACE ::
    "'w Ddc_Env \<Rightarrow> Sleep_Event_Type \<Rightarrow> int \<Rightarrow> 'w Ddc_State \<Rightarrow> 'w Ddc_State option" where
  "SPECIAL_TUNED_SLEEP_WITH_TRACE env event special st = do {
     ((pdd, next), slept) \<leftarrow>
       tuned_sleep_with_trace (sleep_cfg env) (dsa2_state st) (clock st) event special
         (display_pdd st, next_io_after st);
     Some (advance slept (st\<lparr>display_pdd := pdd, next_io_after := next\<rparr>))
   }"

abbreviation TUNED_SLEEP_WITH_TRACE ::
    "'w Ddc_Env \<Rightarrow> Sleep_Event_Type \<Rightarrow> 'w Ddc_State \<Rightarrow> 'w Ddc_State option" where
  "TUNED_SLEEP_WITH_TRACE env event st \<equiv> SPECIAL_TUNED_SLEEP_WITH_TRACE env event 0 st"

text \<open>The bytes of a packet that go over the wire: all but the first.\<close>

definition wire_bytes :: "DDC_Packet \<Rightarrow> byte list" where
  "wire_bytes packet = take (get_packet_len packet - 1) (drop 1 (get_packet_start packet))"

definition write_packet :: "'w Ddc_Env \<Rightarrow> DDC_Packet \<Rightarrow> 'w Ddc_State \<Rightarrow> (int \<times> 'w Ddc_State) option" where
  "write_packet env request_packet_ptr st = do {
     (rc, io) \<leftarrow> invoke_i2c_writer (driver env) 2 0x37 (wire_bytes request_packet_ptr) (io_state st);
     Some (rc, st\<lparr>io_state := io\<rparr>)
   }"

definition read_bytes ::
    "'w Ddc_Env \<Rightarrow> bool \<Rightarrow> nat \<Rightarrow> byte list \<Rightarrow> 'w Ddc_State \<Rightarrow> (int \<times> byte list \<times> 'w Ddc_State) option" where
  "read_bytes env read_bytewise n readbuf st = do {
     (rc, readbuf, io) \<leftarrow> invoke_i2c_reader (driver env) 2 0x37 read_bytewise n readbuf (io_state st);
     Some (rc, readbuf, st\<lparr>io_state := io\<rparr>)
   }"

section \<open>Write and read\<close>

definition ddc_i2c_write_read_raw ::
    "'w Ddc_Env \<Rightarrow> DDC_Packet \<Rightarrow> bool \<Rightarrow> nat \<Rightarrow> byte list \<Rightarrow> 'w Ddc_State \<Rightarrow>
     (int \<times> byte list \<times> 'w Ddc_State) option" where
  "ddc_i2c_write_read_raw env request_packet_ptr read_bytewise max_read_bytes readbuf st = do {
     let slave_addr = get_packet_start request_packet_ptr ! 0;
     c_assert (drop_bit 1 slave_addr = 0x37);
     let st = CHECK_DEFERRED_SLEEP st;
     (rc, st) \<leftarrow> write_packet env request_packet_ptr st;
     (if rc = 0
      then do {
        st \<leftarrow> TUNED_SLEEP_WITH_TRACE env SE_WRITE_TO_READ st;
        let st = CHECK_DEFERRED_SLEEP st;
        (rc, readbuf, st) \<leftarrow> read_bytes env read_bytewise max_read_bytes readbuf st;
        st \<leftarrow> TUNED_SLEEP_WITH_TRACE env SE_POST_READ st;
        Some (if rc = 0 \<and> list_all (\<lambda>b. b = 0) (take max_read_bytes readbuf)
              then DDCRC_READ_ALL_ZERO else rc, readbuf, st)
      }
      else Some (rc, readbuf, st))
   }"

text \<open>The status code, 0 for no error, and the response packet.\<close>

definition ddc_write_read ::
    "'w Ddc_Env \<Rightarrow> DDC_Packet \<Rightarrow> bool \<Rightarrow> nat \<Rightarrow> byte \<Rightarrow> byte \<Rightarrow> 'w Ddc_State \<Rightarrow>
     (int \<times> DDC_Packet option \<times> 'w Ddc_State) option" where
  "ddc_write_read env request_packet_ptr read_bytewise max_read_bytes expected_response_type expected_subtype st = do {
     let max_read_bytes = max_read_bytes + 1;
     let readbuf = replicate max_read_bytes 0;
     (psc, readbuf, st) \<leftarrow>
       ddc_i2c_write_read_raw env request_packet_ptr read_bytewise max_read_bytes readbuf st;
     (psc, response) \<leftarrow>
       (if psc \<ge> 0
        then do {
          (psc, response) \<leftarrow>
            create_ddc_typed_response_packet readbuf expected_response_type expected_subtype ''ddc_write_read'';
          psc \<leftarrow>
            (if psc = DDCRC_OK \<and> simulate_null_msg_means_unsupported env
             then (case response of
                     None \<Rightarrow> Some psc
                   | Some pkt \<Rightarrow>
                       if pkt_type pkt = DDC_PACKET_TYPE_QUERY_VCP_RESPONSE
                       then (case parsed pkt of
                               Nontable_Response resp \<Rightarrow>
                                 Some (if valid_response resp \<and> \<not> supported_opcode resp
                                       then DDCRC_NULL_RESPONSE else psc)
                             | _ \<Rightarrow> None)
                       else Some psc)
             else Some psc);
          Some (psc, if psc \<noteq> 0 then None else response)
        }
        else Some (psc, None));
     Some (if psc < 0 then psc else 0, response, st)
   }"

section \<open>Write and read with retry\<close>

text \<open>The local variables of the loop; \<open>try_errors\<close> holds the codes of the tries that failed.\<close>

record Try_Vars =
  tryctr :: nat
  psc :: int
  retryable :: bool
  ddcrc_read_all_zero_ct :: nat
  ddcrc_null_response_ct :: nat
  try_errors :: "int list"

abbreviation ddcrc_null_response_max :: nat where "ddcrc_null_response_max \<equiv> 3"

text \<open>
  The \<^verbatim>\<open>switch\<close> on the status of a try that failed: the variables, and whether the tries left
  are to be adjusted for a null response.
\<close>

definition classify_error ::
    "'w Ddc_Env \<Rightarrow> byte \<Rightarrow> Write_Read_Flags \<Rightarrow> Try_Vars \<Rightarrow> (Try_Vars \<times> bool) option" where
  "classify_error env expected_response_type flags v =
     (if psc v = DDCRC_NULL_RESPONSE
      then do {
        c_assert (\<not> (testing_unsupported_feature_active env \<and> null_response_means_unsupported env));
        Some (if \<not> testing_unsupported_feature_active env
              then (let may_mean_unsupported_feature =
                      (expected_response_type = DDC_PACKET_TYPE_QUERY_VCP_RESPONSE \<and>
                       null_response_means_unsupported env) \<or>
                      expected_response_type = DDC_PACKET_TYPE_TABLE_READ_RESPONSE
                    in if may_mean_unsupported_feature
                       then (let ct = ddcrc_null_response_ct v + 1
                             in (v\<lparr>ddcrc_null_response_ct := ct,
                                   retryable := ct \<le> ddcrc_null_response_max\<rparr>, True))
                       else (v, False))
              else (v\<lparr>retryable := True\<rparr>, False))
      }
      else if psc v = DDCRC_READ_ALL_ZERO
      then Some (v\<lparr>retryable := \<not> all_zero_response_ok flags,
                   ddcrc_read_all_zero_ct := ddcrc_read_all_zero_ct v + 1\<rparr>, False)
      else if psc v = - EIO \<or> psc v = - EBADF \<or> psc v = - ENXIO \<or> psc v = - EBUSY
      then Some (v\<lparr>retryable := False\<rparr>, False)
      else Some (v\<lparr>retryable := True\<rparr>, False))"

text \<open>The check after an I/O error: the error of a bus that is not alive.\<close>

definition check_alive ::
    "'w Ddc_Env \<Rightarrow> int \<Rightarrow> 'w Ddc_State \<Rightarrow> (int option \<times> 'w Ddc_State) option" where
  "check_alive env rc st =
     (if rc = - EIO \<or> rc = - ENXIO
      then do {
        (err, businfo, slept, io) \<leftarrow>
          i2c_check_open_bus_alive (driver env) (edid_cfg env) (display_env env) (bus_info st) (io_state st);
        Some (err, advance slept (st\<lparr>bus_info := businfo, io_state := io\<rparr>))
      }
      else Some (None, st))"

definition note_retryable_failure ::
    "int \<Rightarrow> int \<Rightarrow> 'w Ddc_State \<Rightarrow> 'w Ddc_State option" where
  "note_retryable_failure rc remaining_tries st = do {
     (dsa, pdd) \<leftarrow> pdd_note_retryable_failure rc remaining_tries (dsa2_state st) (display_pdd st);
     Some (st\<lparr>dsa2_state := dsa, display_pdd := pdd\<rparr>)
   }"

text \<open>
  The body of the loop: \<open>Inl\<close> the error with which it is left for \<^verbatim>\<open>bye\<close>, or \<open>Inr\<close> the
  variables and the response packet. \<open>tryctr\<close> is incremented at the end.
\<close>

definition try_once ::
    "'w Ddc_Env \<Rightarrow> DDC_Packet \<Rightarrow> nat \<Rightarrow> byte \<Rightarrow> byte \<Rightarrow> Write_Read_Flags \<Rightarrow> nat \<Rightarrow> Try_Vars \<Rightarrow>
     'w Ddc_State \<Rightarrow> ((int + Try_Vars \<times> DDC_Packet option) \<times> 'w Ddc_State) option" where
  "try_once env request_packet_ptr max_read_bytes expected_response_type expected_subtype flags max_tries v st = do {
     m \<leftarrow> pdd_get_adjusted_sleep_multiplier (dsa2_state st) (display_pdd st);
     (rc, response, st) \<leftarrow> ddc_write_read env request_packet_ptr (DDC_Read_Bytewise env) max_read_bytes
                            expected_response_type expected_subtype st;
     c_assert ((rc = 0) = (response \<noteq> None));
     let v = v\<lparr>psc := rc, try_errors := (if rc = 0 then try_errors v else try_errors v @ [rc])\<rparr>;
     (v, adjust_for_null) \<leftarrow>
       (if psc v < 0 then classify_error env expected_response_type flags v else Some (v, False));
     (err, st) \<leftarrow> check_alive env (psc v) st;
     (case err of
        Some e \<Rightarrow> Some (Inl e, st)
      | None \<Rightarrow> do {
          let remaining_tries = int max_tries - 1 - int (tryctr v);
          let adjusted_remaining_tries =
            (if adjust_for_null then int ddcrc_null_response_max - 1 - int (tryctr v) else remaining_tries);
          st \<leftarrow> (if psc v \<noteq> 0 \<and> retryable v \<and> remaining_tries > 0
                then note_retryable_failure (psc v) adjusted_remaining_tries st else Some st);
          Some (Inr (v\<lparr>tryctr := tryctr v + 1\<rparr>, response), st)
        })
   }"

text \<open>The loop, with the tries left; \<open>response\<close> is \<^verbatim>\<open>*response_packet_ptr_loc\<close>.\<close>

fun try_loop ::
    "'w Ddc_Env \<Rightarrow> DDC_Packet \<Rightarrow> nat \<Rightarrow> byte \<Rightarrow> byte \<Rightarrow> Write_Read_Flags \<Rightarrow> nat \<Rightarrow> nat \<Rightarrow> Try_Vars \<Rightarrow>
     DDC_Packet option \<Rightarrow> 'w Ddc_State \<Rightarrow> ((int + Try_Vars \<times> DDC_Packet option) \<times> 'w Ddc_State) option" where
  "try_loop env req max_read_bytes ty subtype flags max_tries 0 v response st = Some (Inr (v, response), st)"
| "try_loop env req max_read_bytes ty subtype flags max_tries (Suc n) v response st =
     (if psc v < 0 \<and> retryable v
      then do {
        (r, st) \<leftarrow> try_once env req max_read_bytes ty subtype flags max_tries v st;
        (case r of
           Inl e \<Rightarrow> Some (Inl e, st)
         | Inr (v, response) \<Rightarrow> try_loop env req max_read_bytes ty subtype flags max_tries n v response st)
      }
      else Some (Inr (v, response), st))"

definition final_status :: "nat \<Rightarrow> bool \<Rightarrow> Try_Vars \<Rightarrow> int" where
  "final_status max_tries all_responses_null_meant_unsupported v =
     (if retryable v then DDCRC_RETRIES
      else if ddcrc_read_all_zero_ct v = max_tries then DDCRC_ALL_TRIES_ZERO
      else if all_responses_null_meant_unsupported then DDCRC_DETERMINED_UNSUPPORTED
      else if ddcrc_null_response_ct v > ddcrc_null_response_max then DDCRC_ALL_RESPONSES_NULL
      else psc v)"

definition initial_vars :: Try_Vars where
  "initial_vars = \<lparr>tryctr = 0, psc = -999, retryable = True, ddcrc_read_all_zero_ct = 0,
     ddcrc_null_response_ct = 0, try_errors = []\<rparr>"

definition record_final :: "int \<Rightarrow> int \<Rightarrow> 'w Ddc_State \<Rightarrow> 'w Ddc_State option" where
  "record_final rc tries st = do {
     (dsa, pdd) \<leftarrow> pdd_record_final (clock st div 1000000000) rc tries (dsa2_state st) (display_pdd st);
     Some (st\<lparr>dsa2_state := dsa, display_pdd := pdd\<rparr>)
   }"

definition record_tries :: "Retry_Operation \<Rightarrow> int \<Rightarrow> nat \<Rightarrow> 'w Ddc_State \<Rightarrow> 'w Ddc_State option" where
  "record_tries op rc n st = do {
     (stats, ts) \<leftarrow> try_data_record_tries2 op rc n (display_tries st) (try_state st);
     Some (st\<lparr>display_tries := stats, try_state := ts\<rparr>)
   }"

text \<open>After the loop.\<close>

definition finish_write_read ::
    "'w Ddc_Env \<Rightarrow> byte \<Rightarrow> Write_Read_Flags \<Rightarrow> nat \<Rightarrow> Try_Vars \<Rightarrow> 'w Ddc_State \<Rightarrow>
     (Error_Info option \<times> 'w Ddc_State) option" where
  "finish_write_read env expected_response_type flags max_tries v st = do {
     c_assert (tryctr v \<ge> 1 \<and> tryctr v \<le> max_tries);
     let all_null = (null_response_means_unsupported env \<or>
                     expected_response_type = DDC_PACKET_TYPE_TABLE_READ_RESPONSE) \<and>
                    \<not> flag_capabilities flags \<and> ddcrc_null_response_ct v = tryctr v;
     let adjusted_tryctr = (if all_null then 1 else tryctr v);
     st \<leftarrow> record_final (psc v) (int adjusted_tryctr) st;
     let rc = (if psc v < 0 then final_status max_tries all_null v else psc v);
     let master_error = (if psc v < 0 then Some \<lparr>status_code = rc, causes = try_errors v\<rparr> else None);
     st \<leftarrow> record_tries WRITE_READ_TRIES_OP rc (tryctr v) st;
     Some (master_error, st)
   }"

definition ddc_write_read_with_retry ::
    "'w Ddc_Env \<Rightarrow> DDC_Packet \<Rightarrow> nat \<Rightarrow> byte \<Rightarrow> byte \<Rightarrow> Write_Read_Flags \<Rightarrow> 'w Ddc_State \<Rightarrow>
     (Error_Info option \<times> DDC_Packet option \<times> 'w Ddc_State) option" where
  "ddc_write_read_with_retry env request_packet_ptr max_read_bytes expected_response_type expected_subtype flags st = do {
     let max_tries = try_data_get_maxtries2 WRITE_READ_TRIES_OP (try_state st);
     c_assert (max_tries \<ge> 1);
     (r, st) \<leftarrow> try_loop env request_packet_ptr max_read_bytes expected_response_type expected_subtype flags
                 max_tries max_tries initial_vars None st;
     (master_error, response, st) \<leftarrow>
       (case r of
          Inl e \<Rightarrow> Some (Some \<lparr>status_code = e, causes = []\<rparr>, None, st)
        | Inr (v, response) \<Rightarrow> do {
            (master_error, st) \<leftarrow> finish_write_read env expected_response_type flags max_tries v st;
            Some (master_error, response, st)
          });
     c_assert ((master_error = None) = (response \<noteq> None));
     Some (master_error, response, st)
   }"

section \<open>Write only\<close>

definition ddc_i2c_write_only ::
    "'w Ddc_Env \<Rightarrow> DDC_Packet \<Rightarrow> 'w Ddc_State \<Rightarrow> (int \<times> 'w Ddc_State) option" where
  "ddc_i2c_write_only env request_packet_ptr st = do {
     let st = CHECK_DEFERRED_SLEEP st;
     (rc, st) \<leftarrow> write_packet env request_packet_ptr st;
     st \<leftarrow> TUNED_SLEEP_WITH_TRACE env
             (if pkt_type request_packet_ptr = DDC_PACKET_TYPE_SAVE_CURRENT_SETTINGS
              then SE_POST_SAVE_SETTINGS else SE_POST_WRITE) st;
     Some (rc, st)
   }"

text \<open>The status code of the \<^verbatim>\<open>Error_Info\<close>, 0 if there is none.\<close>

definition ddc_write_only ::
    "'w Ddc_Env \<Rightarrow> DDC_Packet \<Rightarrow> 'w Ddc_State \<Rightarrow> (int \<times> 'w Ddc_State) option" where
  "ddc_write_only env request_packet_ptr st = ddc_i2c_write_only env request_packet_ptr st"

fun write_only_loop ::
    "'w Ddc_Env \<Rightarrow> DDC_Packet \<Rightarrow> nat \<Rightarrow> Try_Vars \<Rightarrow> 'w Ddc_State \<Rightarrow> (Try_Vars \<times> 'w Ddc_State) option" where
  "write_only_loop env request_packet_ptr 0 v st = Some (v, st)"
| "write_only_loop env request_packet_ptr (Suc n) v st =
     (if psc v < 0 \<and> retryable v
      then do {
        (rc, st) \<leftarrow> ddc_write_only env request_packet_ptr st;
        let v = v\<lparr>psc := rc, try_errors := (if rc = 0 then try_errors v else try_errors v @ [rc]),
                  retryable := (if rc = - EBUSY then False else retryable v), tryctr := tryctr v + 1\<rparr>;
        write_only_loop env request_packet_ptr n v st
      }
      else Some (v, st))"

definition ddc_write_only_with_retry ::
    "'w Ddc_Env \<Rightarrow> DDC_Packet \<Rightarrow> 'w Ddc_State \<Rightarrow> (Error_Info option \<times> 'w Ddc_State) option" where
  "ddc_write_only_with_retry env request_packet_ptr st = do {
     let max_tries = try_data_get_maxtries2 WRITE_ONLY_TRIES_OP (try_state st);
     c_assert (max_tries > 0);
     (v, st) \<leftarrow> write_only_loop env request_packet_ptr max_tries initial_vars st;
     (rc, ddc_excp) \<leftarrow>
       (if psc v < 0
        then (if retryable v
              then Some (DDCRC_RETRIES, Some \<lparr>status_code = DDCRC_RETRIES, causes = try_errors v\<rparr>)
              else do {
                c_assert (tryctr v = 1);
                Some (psc v, Some \<lparr>status_code = psc v, causes = []\<rparr>)
              })
        else Some (psc v, None));
     st \<leftarrow> record_tries WRITE_ONLY_TRIES_OP rc (tryctr v) st;
     Some (ddc_excp, st)
   }"

section \<open>Invariant\<close>

text \<open>
  The device behaves as documented; deferred sleep is off, as it is unless asked for; and the
  display is not known to mean unsupported by a null response while that is being tested.
\<close>

definition env_ok :: "'w Ddc_Env \<Rightarrow> bool" where
  "env_ok env \<longleftrightarrow> driver_ok (driver env) \<and> edid_config_ok (edid_cfg env) \<and>
     \<not> deferred_sleep_enabled (sleep_cfg env) \<and>
     \<not> (testing_unsupported_feature_active env \<and> null_response_means_unsupported env)"

definition tries_ok :: "Display_Try_Stats \<Rightarrow> bool" where
  "tries_ok stats \<longleftrightarrow> length stats = 4 \<and> (\<forall>cs \<in> set stats. length cs = 17)"

definition ddc_ok :: "'w Ddc_State \<Rightarrow> bool" where
  "ddc_ok st \<longleftrightarrow> io_ready (io_state st) \<and> bus_ok (bus_info st) \<and>
     pdd_ok (dsa2_state st) (display_pdd st) \<and> try_state_ok (try_state st) \<and> tries_ok (display_tries st)"

text \<open>The limits, which no exchange changes.\<close>

definition limits :: "'w Ddc_State \<Rightarrow> nat list" where
  "limits st = map maxtries (try_data (try_state st))"

text \<open>An operation that returned in a good state, with the limits as they were.\<close>

definition good_next :: "'w Ddc_State \<Rightarrow> 'w Ddc_State \<Rightarrow> bool" where
  "good_next st st' \<longleftrightarrow> ddc_ok st' \<and> limits st' = limits st"

lemma good_next_trans: "good_next a b \<Longrightarrow> good_next b c \<Longrightarrow> good_next a c"
  by (simp add: good_next_def)

lemma good_next_refl: "ddc_ok st \<Longrightarrow> good_next st st"
  by (simp add: good_next_def)

lemma maxtries_limits:
  "ddc_ok st \<Longrightarrow> try_data_get_maxtries2 op (try_state st) = limits st ! retry_index op"
  by (simp add: try_data_get_maxtries2_def limits_def ddc_ok_def try_state_ok_def)

lemma limits_range:
  "ddc_ok st \<Longrightarrow> 1 \<le> limits st ! retry_index op \<and> limits st ! retry_index op \<le> 15"
  using try_rec_ok_nth [of "try_state st" "retry_index op"]
  by (simp add: ddc_ok_def limits_def try_rec_ok_def try_state_ok_def)

section \<open>The parts of an exchange\<close>

lemma check_deferred_sleep_good:
  assumes "ddc_ok st"
  shows "good_next st (CHECK_DEFERRED_SLEEP st)"
  using assms
  by (auto simp: CHECK_DEFERRED_SLEEP_def check_deferred_sleep_def advance_def good_next_def ddc_ok_def
           limits_def Let_def pdd_ok_def)

lemma tuned_sleep_good:
  assumes e: "env_ok env" and st: "ddc_ok st"
    and ev: "(event \<noteq> SE_SPECIAL \<and> special = 0) \<or> (event = SE_SPECIAL \<and> special > 0)"
  shows "\<exists>st'. SPECIAL_TUNED_SLEEP_WITH_TRACE env event special st = Some st' \<and> good_next st st'"
proof -
  have p: "pdd_ok (dsa2_state st) (display_pdd st)" using st by (simp add: ddc_ok_def)
  from get_mult_Some [OF p] obtain m where
    m: "pdd_get_adjusted_sleep_multiplier (dsa2_state st) (display_pdd st) = Some m" by blast
  obtain t d where t: "get_sleep_time (sleep_cfg env) event special = (t, d)" by force
  have d: "\<not> d" using t e by (cases event) (auto simp: env_ok_def)
  have "\<exists>x. adjust_sleep_time (sleep_cfg env) (dsa2_state st) (display_pdd st) event t = Some x"
    by (simp add: adjust_sleep_time_def m Let_def)
  then obtain a n where a: "adjust_sleep_time (sleep_cfg env) (dsa2_state st) (display_pdd st) event t = Some (a, n)"
    by auto
  show ?thesis
    using st ev d
    by (auto simp: SPECIAL_TUNED_SLEEP_WITH_TRACE_def tuned_sleep_with_trace_def c_assert_def t a advance_def
             good_next_def ddc_ok_def limits_def pdd_ok_def Let_def)
qed

lemma write_packet_good:
  assumes e: "env_ok env" and st: "ddc_ok st"
  shows "\<exists>rc st'. write_packet env req st = Some (rc, st') \<and> rc \<le> 0 \<and> good_next st st'"
proof -
  have "driver_ok (driver env)" "io_ready (io_state st)" using e st by (simp_all add: env_ok_def ddc_ok_def)
  from invoke_i2c_writer_returns [OF this order_refl, of "0x37" "wire_bytes req"] obtain rc io where
    "invoke_i2c_writer (driver env) 2 0x37 (wire_bytes req) (io_state st) = Some (rc, io)" "rc \<le> 0" "io_ready io"
    by blast
  then show ?thesis using st by (simp add: write_packet_def good_next_def ddc_ok_def limits_def)
qed

lemma read_bytes_good:
  assumes e: "env_ok env" and st: "ddc_ok st" and n: "n \<le> length buf"
  shows "\<exists>rc buf' st'. read_bytes env bw n buf st = Some (rc, buf', st') \<and> rc \<le> 0 \<and>
    length buf' = length buf \<and> good_next st st'"
proof -
  have "driver_ok (driver env)" "io_ready (io_state st)" using e st by (simp_all add: env_ok_def ddc_ok_def)
  from invoke_i2c_reader_returns [OF this order_refl n, of "0x37" bw] obtain rc buf' io where
    "invoke_i2c_reader (driver env) 2 0x37 bw n buf (io_state st) = Some (rc, buf', io)" "rc \<le> 0"
    "length buf' = length buf" "io_ready io"
    by blast
  then show ?thesis using st by (simp add: read_bytes_def good_next_def ddc_ok_def limits_def)
qed

text \<open>The first byte of a request is the address of the display on the bus.\<close>

definition request_ok :: "DDC_Packet \<Rightarrow> bool" where
  "request_ok req \<longleftrightarrow> drop_bit 1 (get_packet_start req ! 0) = 0x37"

text \<open>The bytes are what a read of the device, in some state of it, gives, and they are not all 0.\<close>

definition read_from_device :: "'w Ddc_Env \<Rightarrow> nat \<Rightarrow> byte list \<Rightarrow> bool" where
  "read_from_device env n buf \<longleftrightarrow>
     (\<exists>io io'. invoke_i2c_reader (driver env) 2 0x37 (DDC_Read_Bytewise env) n (replicate n 0) io =
        Some (0, buf, io')) \<and> (\<exists>b \<in> set buf. b \<noteq> 0)"

lemma write_read_raw_good:
  assumes e: "env_ok env" and st: "ddc_ok st" and req: "request_ok req"
  shows "\<exists>rc buf st'. ddc_i2c_write_read_raw env req (DDC_Read_Bytewise env) n (replicate n 0) st = Some (rc, buf, st') \<and>
    rc \<le> 0 \<and> length buf = n \<and> good_next st st' \<and> (rc = 0 \<longrightarrow> read_from_device env n buf)"
proof -
  note k1 = check_deferred_sleep_good [OF st]
  have o1: "ddc_ok (CHECK_DEFERRED_SLEEP st)" using k1 by (simp add: good_next_def)
  from write_packet_good [OF e o1, of req] obtain rc1 st1 where
    w: "write_packet env req (CHECK_DEFERRED_SLEEP st) = Some (rc1, st1)" "rc1 \<le> 0"
    "good_next (CHECK_DEFERRED_SLEEP st) st1" by blast
  have g1: "good_next st st1" using good_next_trans [OF k1 w(3)] .
  show ?thesis
  proof (cases "rc1 = 0")
    case False
    then show ?thesis using w g1 req by (simp add: ddc_i2c_write_read_raw_def request_ok_def Let_def)
  next
    case True
    have o2: "ddc_ok st1" using g1 by (simp add: good_next_def)
    from tuned_sleep_good [OF e o2, of SE_WRITE_TO_READ 0] obtain st2 where
      s: "TUNED_SLEEP_WITH_TRACE env SE_WRITE_TO_READ st1 = Some st2" "good_next st1 st2" by auto
    let ?st3 = "CHECK_DEFERRED_SLEEP st2"
    have o3: "ddc_ok st2" using s(2) by (simp add: good_next_def)
    note k3 = check_deferred_sleep_good [OF o3]
    have o4: "ddc_ok ?st3" using k3 by (simp add: good_next_def)
    have l: "n \<le> length (replicate n (0 :: byte))" by simp
    from read_bytes_good [OF e o4 l, of "DDC_Read_Bytewise env"] obtain rc buf st4 where
      r: "read_bytes env (DDC_Read_Bytewise env) n (replicate n 0) ?st3 = Some (rc, buf, st4)" "rc \<le> 0"
      "length buf = n" "good_next ?st3 st4" by auto
    have o5: "ddc_ok st4" using r(4) by (simp add: good_next_def)
    from tuned_sleep_good [OF e o5, of SE_POST_READ 0] obtain st5 where
      t: "TUNED_SLEEP_WITH_TRACE env SE_POST_READ st4 = Some st5" "good_next st4 st5" by auto
    have g: "good_next st st5"
      using g1 s(2) k3 r(4) t(2) by (blast intro: good_next_trans)
    have dev: "rc = 0 \<Longrightarrow> \<not> list_all (\<lambda>b. b = 0) (take n buf) \<Longrightarrow> read_from_device env n buf"
      using r(1,3) by (auto simp: read_bytes_def read_from_device_def list_all_iff split: Option.bind_splits)
    show ?thesis
      using w True s r t g req dev
      by (simp add: ddc_i2c_write_read_raw_def request_ok_def Let_def)
  qed
qed


text \<open>The types of response the parser knows.\<close>

definition known_type :: "byte \<Rightarrow> bool" where
  "known_type ty \<longleftrightarrow> is_multi_part_type ty \<or> ty = DDC_PACKET_TYPE_QUERY_VCP_RESPONSE"

text \<open>A packet that was made of bytes the device sent, and says what they say.\<close>

definition packet_from_device :: "'w Ddc_Env \<Rightarrow> nat \<Rightarrow> byte \<Rightarrow> byte \<Rightarrow> DDC_Packet \<Rightarrow> bool" where
  "packet_from_device env n ty subtype p \<longleftrightarrow>
     (\<exists>buf. read_from_device env n buf \<and> length buf = n \<and>
        typed_response_spec (skip_double_6e buf) ty subtype ''ddc_write_read'' = (DDCRC_OK, Some p))"

lemma typed_response_cases:
  "(fst (typed_response_spec r ty op tag) = 0 \<and> (\<exists>p. snd (typed_response_spec r ty op tag) = Some p \<and>
      (pkt_type p = DDC_PACKET_TYPE_QUERY_VCP_RESPONSE \<longrightarrow> known_type ty \<longrightarrow> (\<exists>x. parsed p = Nontable_Response x)))) \<or>
   (fst (typed_response_spec r ty op tag) < 0 \<and> snd (typed_response_spec r ty op tag) = None)"
  by (auto simp: typed_response_spec_def multi_part_response_ok_def vcp_response_ok_def is_multi_part_type_def
      response_packet_def Let_def)

lemma write_read_good:
  assumes e: "env_ok env" and st: "ddc_ok st" and req: "request_ok req" and n: "38 \<le> n" and ty: "known_type ty"
  shows "\<exists>rc response st'. ddc_write_read env req (DDC_Read_Bytewise env) n ty subtype st = Some (rc, response, st') \<and>
    rc \<le> 0 \<and> (rc = 0 \<longleftrightarrow> response \<noteq> None) \<and> good_next st st' \<and>
    (\<forall>p. response = Some p \<longrightarrow> packet_from_device env (n + 1) ty subtype p)"
proof -
  from write_read_raw_good [OF e st req, of "n + 1"] obtain rc buf st1 where
    r: "ddc_i2c_write_read_raw env req (DDC_Read_Bytewise env) (n + 1) (replicate (n + 1) 0) st = Some (rc, buf, st1)"
    "rc \<le> 0" "length buf = n + 1" "good_next st st1" "rc = 0 \<Longrightarrow> read_from_device env (n + 1) buf" by blast
  show ?thesis
  proof (cases "rc = 0")
    case False
    with r show ?thesis by (simp add: ddc_write_read_def Let_def del: replicate_Suc)
  next
    case True
    let ?s = "typed_response_spec (skip_double_6e buf) ty subtype ''ddc_write_read''"
    have "39 \<le> length buf" using r(3) n by simp
    from typed_response_eq [OF this ty [unfolded known_type_def], of subtype "''ddc_write_read''"]
    have t: "create_ddc_typed_response_packet buf ty subtype ''ddc_write_read'' = Some ?s" .
    from typed_response_cases [of "skip_double_6e buf" ty subtype "''ddc_write_read''"]
    show ?thesis
    proof
      assume "fst ?s < 0 \<and> snd ?s = None"
      then obtain x where x: "?s = (x, None)" "x < 0" by (cases ?s) simp
      have c: "ddc_write_read env req (DDC_Read_Bytewise env) n ty subtype st = Some (x, None, st1)"
        using r True t x by (simp add: ddc_write_read_def Let_def del: replicate_Suc)
      with x r show ?thesis by simp
    next
      assume "fst ?s = 0 \<and> (\<exists>p. snd ?s = Some p \<and>
        (pkt_type p = DDC_PACKET_TYPE_QUERY_VCP_RESPONSE \<longrightarrow> known_type ty \<longrightarrow> (\<exists>x. parsed p = Nontable_Response x)))"
      then obtain p where p: "?s = (0, Some p)"
        "pkt_type p = DDC_PACKET_TYPE_QUERY_VCP_RESPONSE \<Longrightarrow> \<exists>x. parsed p = Nontable_Response x"
        using ty by (cases ?s) auto
      have f: "packet_from_device env (n + 1) ty subtype p"
        using r(3,5) True p(1) by (auto simp: packet_from_device_def)
      show ?thesis
      proof (cases "pkt_type p = DDC_PACKET_TYPE_QUERY_VCP_RESPONSE")
        case False
        then have "ddc_write_read env req (DDC_Read_Bytewise env) n ty subtype st = Some (0, Some p, st1)"
          using r True t p(1) by (simp add: ddc_write_read_def Let_def del: replicate_Suc)
        with r f show ?thesis by simp
      next
        case vcp: True
        then obtain x where x: "parsed p = Nontable_Response x" using p(2) by blast
        let ?null = "simulate_null_msg_means_unsupported env \<and> valid_response x \<and> \<not> supported_opcode x"
        have "ddc_write_read env req (DDC_Read_Bytewise env) n ty subtype st =
            Some (if ?null then DDCRC_NULL_RESPONSE else 0, if ?null then None else Some p, st1)"
          using r True t p(1) vcp x by (simp add: ddc_write_read_def Let_def del: replicate_Suc)
        with r f show ?thesis by simp
      qed
    qed
  qed
qed

lemma check_alive_good:
  assumes e: "env_ok env" and st: "ddc_ok st"
  shows "\<exists>err st'. check_alive env rc st = Some (err, st') \<and> good_next st st' \<and>
    err \<in> {None, Some DDCRC_DISCONNECTED, Some DDCRC_OTHER, Some DDCRC_DPMS_ASLEEP} \<and>
    (rc \<noteq> - EIO \<and> rc \<noteq> - ENXIO \<longrightarrow> err = None)"
proof -
  have "driver_ok (driver env)" "edid_config_ok (edid_cfg env)" "io_ready (io_state st)" "bus_ok (bus_info st)"
    using e st by (simp_all add: env_ok_def ddc_ok_def)
  from check_open_bus_alive_ok [OF this, of "display_env env"] obtain err b sl io where
    "i2c_check_open_bus_alive (driver env) (edid_cfg env) (display_env env) (bus_info st) (io_state st) =
       Some (err, b, sl, io)" "io_ready io" "bus_ok b"
    "err \<in> {None, Some DDCRC_DISCONNECTED, Some DDCRC_OTHER, Some DDCRC_DPMS_ASLEEP}"
    by blast
  then show ?thesis using st
    by (simp add: check_alive_def good_next_def ddc_ok_def limits_def advance_def)
qed

lemma note_failure_good:
  assumes st: "ddc_ok st"
  shows "\<exists>st'. note_retryable_failure rc r st = Some st' \<and> good_next st st'"
proof -
  have "pdd_ok (dsa2_state st) (display_pdd st)" using st by (simp add: ddc_ok_def)
  from note_failure_pdd_ok [OF this, of rc r] show ?thesis
    using st by (auto simp: note_retryable_failure_def good_next_def ddc_ok_def limits_def)
qed

lemma record_final_good:
  assumes st: "ddc_ok st"
  shows "\<exists>st'. record_final rc n st = Some st' \<and> good_next st st'"
proof -
  have "pdd_ok (dsa2_state st) (display_pdd st)" using st by (simp add: ddc_ok_def)
  from record_final_pdd_ok [OF this, of "clock st div 1000000000" rc n] show ?thesis
    using st by (auto simp: record_final_def good_next_def ddc_ok_def limits_def)
qed


section \<open>The retry loop\<close>

definition hard_errors :: "int set" where
  "hard_errors = {- EIO, - EBADF, - ENXIO, - EBUSY}"

definition bus_errors :: "int set" where
  "bus_errors = {DDCRC_DISCONNECTED, DDCRC_OTHER, DDCRC_DPMS_ASLEEP}"

text \<open>The variables after tries that all failed.\<close>

definition failed_vars :: "Write_Read_Flags \<Rightarrow> Try_Vars \<Rightarrow> bool" where
  "failed_vars flags v \<longleftrightarrow>
     psc v < 0 \<and> length (try_errors v) = tryctr v \<and> (\<forall>rc \<in> set (try_errors v). rc < 0) \<and>
     (tryctr v > 0 \<longrightarrow> last (try_errors v) = psc v) \<and>
     ddcrc_read_all_zero_ct v = count_list (try_errors v) DDCRC_READ_ALL_ZERO \<and>
     ddcrc_null_response_ct v \<le> count_list (try_errors v) DDCRC_NULL_RESPONSE \<and>
     (if retryable v
      then ddcrc_null_response_ct v \<le> 3 \<and>
           (all_zero_response_ok flags \<longrightarrow> DDCRC_READ_ALL_ZERO \<notin> set (try_errors v))
      else tryctr v > 0 \<and>
           (psc v \<in> hard_errors \<or>
            psc v = DDCRC_NULL_RESPONSE \<and> ddcrc_null_response_ct v = 4 \<or>
            psc v = DDCRC_READ_ALL_ZERO \<and> all_zero_response_ok flags \<and> ddcrc_read_all_zero_ct v = 1))"

lemma initial_vars_failed: "failed_vars flags initial_vars"
  by (simp add: failed_vars_def initial_vars_def)

lemma count_list_zero: "x \<notin> set xs \<Longrightarrow> count_list xs x = 0"
  by (induction xs) auto

text \<open>One more try that failed with \<open>rc\<close>.\<close>

lemma classify_error_ok:
  assumes e: "env_ok env" and v: "failed_vars flags v" "retryable v" and rc: "rc < 0"
  defines "v1 \<equiv> v\<lparr>psc := rc, try_errors := try_errors v @ [rc]\<rparr>"
  shows "\<exists>v' adj. classify_error env ty flags v1 = Some (v', adj) \<and> tryctr v' = tryctr v \<and> psc v' = rc \<and>
    failed_vars flags (v'\<lparr>tryctr := tryctr v + 1\<rparr>)"
proof -
  have t: "\<not> (testing_unsupported_feature_active env \<and> null_response_means_unsupported env)"
    using e by (simp add: env_ok_def)
  show ?thesis
    using v rc t
    by (auto simp: classify_error_def v1_def failed_vars_def hard_errors_def Let_def count_list_zero)
qed

lemma try_once_good:
  assumes e: "env_ok env" and st: "ddc_ok st" and req: "request_ok req" and n: "38 \<le> n" and ty: "known_type ty"
    and v: "failed_vars flags v" "retryable v"
  shows "\<exists>r st'. try_once env req n ty subtype flags max_tries v st = Some (r, st') \<and> good_next st st' \<and>
    (case r of
       Inl err \<Rightarrow> err \<in> bus_errors
     | Inr (v', response) \<Rightarrow> tryctr v' = tryctr v + 1 \<and>
         (case response of
            None \<Rightarrow> failed_vars flags v'
          | Some p \<Rightarrow> psc v' = 0 \<and> packet_from_device env (n + 1) ty subtype p))"
proof -
  have "pdd_ok (dsa2_state st) (display_pdd st)" using st by (simp add: ddc_ok_def)
  from get_mult_Some [OF this] obtain m where
    m: "pdd_get_adjusted_sleep_multiplier (dsa2_state st) (display_pdd st) = Some m" by blast
  from write_read_good [OF e st req n ty, of subtype] obtain rc resp st1 where
    w: "ddc_write_read env req (DDC_Read_Bytewise env) n ty subtype st = Some (rc, resp, st1)" "rc \<le> 0"
      "rc = 0 \<longleftrightarrow> resp \<noteq> None" "good_next st st1"
      "\<forall>p. resp = Some p \<longrightarrow> packet_from_device env (n + 1) ty subtype p" by blast
  have o1: "ddc_ok st1" using w(4) by (simp add: good_next_def)
  show ?thesis
  proof (cases "rc = 0")
    case True
    then obtain p where p: "resp = Some p" using w(3) by auto
    show ?thesis
      using m w True p by (simp add: try_once_def Let_def check_alive_def)
  next
    case False
    then have rc: "rc < 0" "resp = None" using w(2,3) by auto
    let ?v1 = "v\<lparr>psc := rc, try_errors := try_errors v @ [rc]\<rparr>"
    from classify_error_ok [OF e v rc(1), of ty] obtain v' adj where
      c: "classify_error env ty flags ?v1 = Some (v', adj)" "tryctr v' = tryctr v" "psc v' = rc"
      "failed_vars flags (v'\<lparr>tryctr := tryctr v + 1\<rparr>)" by blast
    from check_alive_good [OF e o1, of rc] obtain err st2 where
      a: "check_alive env rc st1 = Some (err, st2)" "good_next st1 st2"
      "err \<in> {None, Some DDCRC_DISCONNECTED, Some DDCRC_OTHER, Some DDCRC_DPMS_ASLEEP}" by blast
    have o2: "ddc_ok st2" and g2: "good_next st st2"
      using a(2) w(4) by (auto simp: good_next_def)
    show ?thesis
    proof (cases err)
      case (Some x)
      then have "x \<in> bus_errors" using a(3) by (auto simp: bus_errors_def)
      with Some show ?thesis
        using m w(1) rc c a(1) g2 by (simp add: try_once_def Let_def)
    next
      case None
      have f: "\<exists>st3. note_retryable_failure rc x st2 = Some st3 \<and> good_next st st3" for x
        using note_failure_good [OF o2, of rc x] good_next_trans [OF g2] by blast
      show ?thesis
        using m w(1) rc c a(1) None g2 f [of "2 - int (tryctr v)"] f [of "int max_tries - 1 - int (tryctr v)"]
        by (cases adj) (auto simp: try_once_def Let_def)
    qed
  qed
qed


text \<open>What the loop ends with.\<close>

definition loop_result_ok ::
    "'w Ddc_Env \<Rightarrow> nat \<Rightarrow> byte \<Rightarrow> byte \<Rightarrow> Write_Read_Flags \<Rightarrow> nat \<Rightarrow> int + Try_Vars \<times> DDC_Packet option \<Rightarrow> bool" where
  "loop_result_ok env n ty subtype flags max_tries r \<longleftrightarrow>
     (case r of
        Inl err \<Rightarrow> err \<in> bus_errors
      | Inr (v, None) \<Rightarrow> failed_vars flags v \<and> tryctr v \<le> max_tries \<and>
          (retryable v \<longrightarrow> tryctr v = max_tries)
      | Inr (v, Some p) \<Rightarrow> psc v = 0 \<and> 1 \<le> tryctr v \<and> tryctr v \<le> max_tries \<and>
          packet_from_device env (n + 1) ty subtype p)"

lemma try_loop_done: "\<not> (psc v < 0 \<and> retryable v) \<Longrightarrow>
  try_loop env req n ty subtype flags max_tries k v resp st = Some (Inr (v, resp), st)"
  by (cases k) auto

lemma try_loop_good:
  assumes e: "env_ok env" and req: "request_ok req" and n: "38 \<le> n" and ty: "known_type ty"
  shows "ddc_ok st \<Longrightarrow> failed_vars flags v \<Longrightarrow> tryctr v + k = max_tries \<Longrightarrow>
    \<exists>r st'. try_loop env req n ty subtype flags max_tries k v None st = Some (r, st') \<and> good_next st st' \<and>
      loop_result_ok env n ty subtype flags max_tries r"
proof (induction k arbitrary: v st)
  case 0
  then show ?case by (simp add: loop_result_ok_def good_next_refl)
next
  case (Suc k)
  show ?case
  proof (cases "retryable v")
    case False
    then show ?thesis using Suc.prems by (simp add: loop_result_ok_def good_next_refl)
  next
    case True
    from try_once_good [OF e Suc.prems(1) req n ty Suc.prems(2) True, of subtype max_tries] obtain r st1 where
      t: "try_once env req n ty subtype flags max_tries v st = Some (r, st1)" "good_next st st1"
      and c: "case r of
       Inl err \<Rightarrow> err \<in> bus_errors
     | Inr (v', response) \<Rightarrow> tryctr v' = tryctr v + 1 \<and>
         (case response of
            None \<Rightarrow> failed_vars flags v'
          | Some p \<Rightarrow> psc v' = 0 \<and> packet_from_device env (n + 1) ty subtype p)" by blast
    have p: "psc v < 0" using Suc.prems(2) by (simp add: failed_vars_def)
    have o1: "ddc_ok st1" using t(2) by (simp add: good_next_def)
    show ?thesis
    proof (cases r)
      case (Inl err)
      then show ?thesis using t p True c by (simp add: loop_result_ok_def)
    next
      case (Inr q)
      obtain v' response where q: "q = (v', response)" by force
      show ?thesis
      proof (cases response)
        case None
        then have "failed_vars flags v'" "tryctr v' + k = max_tries" using c Inr q Suc.prems(3) by simp_all
        from Suc.IH [OF o1 this] show ?thesis
          using t p True Inr q None good_next_trans [OF t(2)] by auto
      next
        case (Some x)
        then show ?thesis
          using t p True Inr q c Suc.prems(3) by (simp add: try_loop_done loop_result_ok_def)
      qed
    qed
  qed
qed

section \<open>After the loop\<close>

lemma counter_index_less: "(rc = 0 \<Longrightarrow> n \<le> 15) \<Longrightarrow> counter_index rc n < 17"
  by (auto simp: counter_index_def)

lemma tries_ok_nth: "tries_ok stats \<Longrightarrow> i < 4 \<Longrightarrow> length (stats ! i) = 17"
  by (simp add: tries_ok_def)

lemma record_tries_good:
  assumes st: "ddc_ok st" and n: "rc = 0 \<Longrightarrow> 0 < n \<and> n \<le> limits st ! retry_index op"
  shows "\<exists>st'. record_tries op rc n st = Some st' \<and> good_next st st'"
proof -
  let ?i = "retry_index op" and ?k = "counter_index rc n"
  have ts: "try_state_ok (try_state st)" and ds: "tries_ok (display_tries st)" using st by (simp_all add: ddc_ok_def)
  have r: "try_rec_ok (try_data (try_state st) ! ?i)" using try_rec_ok_nth [OF ts] by simp
  have lim: "limits st ! ?i = maxtries (try_data (try_state st) ! ?i)"
    using ts by (simp add: limits_def try_state_ok_def)
  have k: "?k < 17" using n limits_range [OF st, of op] by (intro counter_index_less) auto
  define f where "f d = d\<lparr>counters := bump ?k (counters d)\<rparr>" for d :: Try_Data2
  let ?ts = "upd_try_data ?i f (try_state st)"
  let ?ds = "(display_tries st)[?i := bump ?k (display_tries st ! ?i)]"
  obtain locked st1 where lk: "lock_if_unlocked (try_state st) = (locked, st1)" by fastforce
  then have td1: "try_data st1 = try_data (try_state st)" by (auto simp: lock_if_unlocked_def split: if_splits)
  have "try_data_record_tries2 op rc n (display_tries st) (try_state st) = Some (?ds, ?ts)"
    using k n lim tries_ok_nth [OF ds, of ?i]
    by (auto simp: try_data_record_tries2_def drd_record_display_tries_def lk td1
        critical_section_eq [OF lk] f_def [abs_def] c_assert_def)
  moreover have "try_state_ok ?ts"
    using ts r by (intro upd_ok) (simp_all add: try_rec_ok_def f_def bump_def)
  moreover have "tries_ok ?ds"
    using ds tries_ok_nth [OF ds, of ?i] set_update_subset_insert [of "display_tries st" ?i]
    by (fastforce simp: tries_ok_def bump_def)
  moreover have "map maxtries (try_data ?ts) = map maxtries (try_data (try_state st))"
    using ts by (simp add: upd_try_data_def map_update f_def try_state_ok_def list_update_same_conv)
  ultimately show ?thesis
    using st by (simp add: record_tries_def good_next_def ddc_ok_def limits_def)
qed


text \<open>The errors an exchange can end with, by the codes of its tries.\<close>

definition exchange_error_ok :: "Write_Read_Flags \<Rightarrow> nat \<Rightarrow> Error_Info \<Rightarrow> bool" where
  "exchange_error_ok flags max_tries err \<longleftrightarrow>
     (status_code err = DDCRC_RETRIES \<and> length (causes err) = max_tries) \<or>
     (status_code err \<in> hard_errors \<and> causes err \<noteq> [] \<and> last (causes err) = status_code err) \<or>
     (status_code err \<in> {DDCRC_DETERMINED_UNSUPPORTED, DDCRC_ALL_RESPONSES_NULL} \<and>
        4 \<le> count_list (causes err) DDCRC_NULL_RESPONSE) \<or>
     (status_code err = DDCRC_READ_ALL_ZERO \<and> all_zero_response_ok flags \<and>
        last (causes err) = DDCRC_READ_ALL_ZERO) \<or>
     (status_code err = DDCRC_ALL_TRIES_ZERO \<and> all_zero_response_ok flags \<and> max_tries = 1) \<or>
     (status_code err \<in> bus_errors \<and> causes err = [])"

lemma count_list_le: "count_list xs x \<le> length xs"
  by (induction xs) auto

lemma count_list_last:
  assumes "xs \<noteq> []" "last xs \<noteq> x"
  shows "count_list xs x < length xs"
proof -
  have "xs = butlast xs @ [last xs]" using assms(1) by simp
  then have "count_list xs x = count_list (butlast xs) x"
    using assms(2) by (metis count_list.simps(1,2) count_list_append add.right_neutral)
  also have "\<dots> \<le> length (butlast xs)" by (rule count_list_le)
  also have "\<dots> < length xs" using assms(1) by simp
  finally show ?thesis .
qed

lemma final_status_ok:
  assumes v: "failed_vars flags v" "0 < tryctr v" "tryctr v \<le> max_tries" "retryable v \<longrightarrow> tryctr v = max_tries"
    and a: "all_null \<Longrightarrow> ddcrc_null_response_ct v = tryctr v"
  shows "exchange_error_ok flags max_tries \<lparr>status_code = final_status max_tries all_null v, causes = try_errors v\<rparr> \<and>
    final_status max_tries all_null v < 0"
proof (cases "retryable v")
  case True
  with v show ?thesis by (simp add: exchange_error_ok_def final_status_def failed_vars_def)
next
  case False
  have ne: "try_errors v \<noteq> []" using v(1,2) by (auto simp: failed_vars_def)
  have l: "last (try_errors v) = psc v" "length (try_errors v) = tryctr v"
    using v(1,2) by (simp_all add: failed_vars_def)
  have z: "ddcrc_read_all_zero_ct v = count_list (try_errors v) DDCRC_READ_ALL_ZERO"
    and nn: "ddcrc_null_response_ct v \<le> count_list (try_errors v) DDCRC_NULL_RESPONSE"
    using v(1) by (simp_all add: failed_vars_def)
  consider "psc v \<in> hard_errors" | "psc v = DDCRC_NULL_RESPONSE" "ddcrc_null_response_ct v = 4"
    | "psc v = DDCRC_READ_ALL_ZERO" "all_zero_response_ok flags" "ddcrc_read_all_zero_ct v = 1"
    using v(1) False by (auto simp: failed_vars_def)
  then show ?thesis
  proof cases
    case 1
    then have "psc v \<noteq> DDCRC_READ_ALL_ZERO" "psc v \<noteq> DDCRC_NULL_RESPONSE" "psc v < 0"
      by (auto simp: hard_errors_def)
    then have "ddcrc_read_all_zero_ct v < tryctr v" "ddcrc_null_response_ct v < tryctr v"
      using count_list_last [OF ne, of DDCRC_READ_ALL_ZERO] count_list_last [OF ne, of DDCRC_NULL_RESPONSE] l z nn
      by auto
    then have "final_status max_tries all_null v =
        (if ddcrc_null_response_ct v > 3 then DDCRC_ALL_RESPONSES_NULL else psc v)"
      using v(3) a False by (auto simp: final_status_def)
    then show ?thesis
      using 1 ne l nn \<open>psc v < 0\<close> by (auto simp: exchange_error_ok_def)
  next
    case 2
    then have "ddcrc_read_all_zero_ct v < tryctr v"
      using count_list_last [OF ne, of DDCRC_READ_ALL_ZERO] l z by auto
    then have "final_status max_tries all_null v \<in> {DDCRC_DETERMINED_UNSUPPORTED, DDCRC_ALL_RESPONSES_NULL}"
      using v(3) 2 False by (simp add: final_status_def)
    then show ?thesis using 2 nn by (auto simp: exchange_error_ok_def)
  next
    case 3
    have "count_list (try_errors v) DDCRC_NULL_RESPONSE < tryctr v"
      using count_list_last [OF ne, of DDCRC_NULL_RESPONSE] l 3(1) by simp
    then have "\<not> all_null" using a nn by auto
    then show ?thesis
      using 3 l nn False by (auto simp: exchange_error_ok_def final_status_def)
  qed
qed

lemma finish_write_read_good:
  assumes st: "ddc_ok st" and v: "1 \<le> tryctr v" "tryctr v \<le> limits st ! 1"
    and f: "psc v = 0 \<or> failed_vars flags v \<and> (retryable v \<longrightarrow> tryctr v = limits st ! 1)"
  shows "\<exists>err st'. finish_write_read env ty flags (limits st ! 1) v st = Some (err, st') \<and> good_next st st' \<and>
    (err = None \<longleftrightarrow> psc v = 0) \<and> (\<forall>e. err = Some e \<longrightarrow> exchange_error_ok flags (limits st ! 1) e)"
proof -
  let ?null = "(null_response_means_unsupported env \<or> ty = DDC_PACKET_TYPE_TABLE_READ_RESPONSE) \<and>
                    \<not> flag_capabilities flags \<and> ddcrc_null_response_ct v = tryctr v"
  let ?rc = "if psc v < 0 then final_status (limits st ! 1) ?null v else psc v"
  from record_final_good [OF st, of "psc v" "int (if ?null then 1 else tryctr v)"] obtain st1 where
    r: "record_final (psc v) (int (if ?null then 1 else tryctr v)) st = Some st1" "good_next st st1" by blast
  have o1: "ddc_ok st1" "limits st1 = limits st" using r(2) by (simp_all add: good_next_def)
  have rc: "psc v < 0 \<Longrightarrow> exchange_error_ok flags (limits st ! 1) \<lparr>status_code = ?rc, causes = try_errors v\<rparr> \<and> ?rc < 0"
    using f v final_status_ok [of flags v "limits st ! 1" ?null] by auto
  have "?rc = 0 \<Longrightarrow> 0 < tryctr v \<and> tryctr v \<le> limits st1 ! retry_index WRITE_READ_TRIES_OP"
    using v o1 by simp
  from record_tries_good [OF o1(1) this] obtain st2 where
    t: "record_tries WRITE_READ_TRIES_OP ?rc (tryctr v) st1 = Some st2" "good_next st1 st2" by blast
  have p: "psc v \<le> 0" using f by (auto simp: failed_vars_def)
  show ?thesis
  proof (cases "psc v = 0")
    case True
    then show ?thesis
      using v r(1) t(1) good_next_trans [OF r(2) t(2)] by (simp add: finish_write_read_def Let_def)
  next
    case False
    then have "psc v < 0" using p by simp
    then show ?thesis
      using v r(1) t(1) rc good_next_trans [OF r(2) t(2)] by (simp add: finish_write_read_def Let_def)
  qed
qed

lemma write_read_with_retry_good:
  assumes e: "env_ok env" and st: "ddc_ok st" and req: "request_ok req" and n: "38 \<le> n" and ty: "known_type ty"
  shows "\<exists>err resp st'. ddc_write_read_with_retry env req n ty subtype flags st = Some (err, resp, st') \<and>
    good_next st st' \<and> (err = None \<longleftrightarrow> resp \<noteq> None) \<and>
    (\<forall>p. resp = Some p \<longrightarrow> packet_from_device env (n + 1) ty subtype p) \<and>
    (\<forall>x. err = Some x \<longrightarrow> exchange_error_ok flags (limits st ! 1) x)"
proof -
  let ?max = "limits st ! 1"
  have mx: "try_data_get_maxtries2 WRITE_READ_TRIES_OP (try_state st) = ?max" "1 \<le> ?max"
    using maxtries_limits [OF st, of WRITE_READ_TRIES_OP] limits_range [OF st, of WRITE_READ_TRIES_OP] by simp_all
  from try_loop_good [OF e req n ty st initial_vars_failed, of ?max ?max subtype flags] obtain r st1 where
    l: "try_loop env req n ty subtype flags ?max ?max initial_vars None st = Some (r, st1)" "good_next st st1"
       "loop_result_ok env n ty subtype flags ?max r"
    by (auto simp: initial_vars_def)
  have o1: "ddc_ok st1" "limits st1 = limits st" using l(2) by (simp_all add: good_next_def)
  show ?thesis
  proof (cases r)
    case (Inl x)
    then have "exchange_error_ok flags ?max \<lparr>status_code = x, causes = []\<rparr>"
      using l(3) by (simp add: loop_result_ok_def exchange_error_ok_def)
    with Inl show ?thesis
      using mx l by (simp add: ddc_write_read_with_retry_def)
  next
    case (Inr q)
    obtain v resp where q: "q = (v, resp)" by force
    have v: "1 \<le> tryctr v" "tryctr v \<le> limits st1 ! 1"
      "psc v = 0 \<or> failed_vars flags v \<and> (retryable v \<longrightarrow> tryctr v = limits st1 ! 1)"
      "psc v = 0 \<longleftrightarrow> resp \<noteq> None"
      "\<forall>p. resp = Some p \<longrightarrow> packet_from_device env (n + 1) ty subtype p"
      using l(3) Inr q o1(2) mx(2)
      by (auto simp: loop_result_ok_def failed_vars_def split: option.splits if_splits)
    from finish_write_read_good [OF o1(1) v(1,2,3), of env ty] obtain err st2 where
      f: "finish_write_read env ty flags ?max v st1 = Some (err, st2)" "good_next st1 st2"
      "err = None \<longleftrightarrow> psc v = 0" "\<forall>x. err = Some x \<longrightarrow> exchange_error_ok flags ?max x"
      using o1(2) by auto
    then show ?thesis
      using mx l(1) Inr q v(4,5) good_next_trans [OF l(2) f(2)]
      by (auto simp: ddc_write_read_with_retry_def)
  qed
qed


section \<open>Write only\<close>

lemma ddc_write_only_good:
  assumes e: "env_ok env" and st: "ddc_ok st"
  shows "\<exists>rc st'. ddc_write_only env req st = Some (rc, st') \<and> rc \<le> 0 \<and> good_next st st'"
proof -
  note k1 = check_deferred_sleep_good [OF st]
  have o1: "ddc_ok (CHECK_DEFERRED_SLEEP st)" using k1 by (simp add: good_next_def)
  from write_packet_good [OF e o1, of req] obtain rc1 st1 where
    w: "write_packet env req (CHECK_DEFERRED_SLEEP st) = Some (rc1, st1)" "rc1 \<le> 0"
    "good_next (CHECK_DEFERRED_SLEEP st) st1" by blast
  have o2: "ddc_ok st1" using w(3) by (simp add: good_next_def)
  let ?ev = "if pkt_type req = DDC_PACKET_TYPE_SAVE_CURRENT_SETTINGS then SE_POST_SAVE_SETTINGS else SE_POST_WRITE"
  have "?ev \<noteq> SE_SPECIAL" by simp
  with tuned_sleep_good [OF e o2, of ?ev 0] obtain st2 where
    s: "TUNED_SLEEP_WITH_TRACE env ?ev st1 = Some st2" "good_next st1 st2" by blast
  have "good_next st st2" using k1 w(3) s(2) by (blast intro: good_next_trans)
  then show ?thesis
    using w s(1) by (simp add: ddc_write_only_def ddc_i2c_write_only_def Let_def)
qed

definition write_vars_ok :: "nat \<Rightarrow> Try_Vars \<Rightarrow> bool" where
  "write_vars_ok max_tries v \<longleftrightarrow> tryctr v \<le> max_tries \<and>
     length (try_errors v) = (if psc v = 0 then tryctr v - 1 else tryctr v) \<and>
     (if psc v = 0 then 1 \<le> tryctr v else psc v < 0) \<and>
     (retryable v \<longleftrightarrow> psc v \<noteq> - EBUSY) \<and> (\<not> retryable v \<longrightarrow> 1 \<le> tryctr v)"

lemma write_only_loop_done:
  "\<not> (psc v < 0 \<and> retryable v) \<Longrightarrow> write_only_loop env req k v st = Some (v, st)"
  by (cases k) auto

lemma write_only_loop_good:
  assumes e: "env_ok env"
  shows "ddc_ok st \<Longrightarrow> write_vars_ok max_tries v \<Longrightarrow> tryctr v + k = max_tries \<Longrightarrow>
    \<exists>v' st'. write_only_loop env req k v st = Some (v', st') \<and> good_next st st' \<and> write_vars_ok max_tries v' \<and>
      (psc v' < 0 \<and> retryable v' \<longrightarrow> tryctr v' = max_tries)"
proof (induction k arbitrary: v st)
  case 0
  then show ?case by (simp add: good_next_refl)
next
  case (Suc k)
  show ?case
  proof (cases "psc v < 0 \<and> retryable v")
    case False
    then show ?thesis
      using Suc.prems by (auto simp: good_next_refl)
  next
    case True
    from ddc_write_only_good [OF e Suc.prems(1), of req] obtain rc st1 where
      w: "ddc_write_only env req st = Some (rc, st1)" "rc \<le> 0" "good_next st st1" by blast
    let ?v = "v\<lparr>psc := rc, try_errors := (if rc = 0 then try_errors v else try_errors v @ [rc]),
                  retryable := (if rc = - EBUSY then False else retryable v), tryctr := tryctr v + 1\<rparr>"
    have o1: "ddc_ok st1" using w(3) by (simp add: good_next_def)
    have "write_vars_ok max_tries ?v" "tryctr ?v + k = max_tries"
      using Suc.prems True w(2) by (auto simp: write_vars_ok_def)
    from Suc.IH [OF o1 this] show ?thesis
      using w True good_next_trans [OF w(3)] by (auto simp: Let_def)
  qed
qed

lemma write_only_with_retry_good:
  assumes e: "env_ok env" and st: "ddc_ok st"
  shows "\<exists>v st'. write_only_loop env req (limits st ! 0) initial_vars st = Some (v, st') \<and>
    (if psc v = - EBUSY \<and> 1 < tryctr v then ddc_write_only_with_retry env req st = None
     else \<exists>err st''. ddc_write_only_with_retry env req st = Some (err, st'') \<and> good_next st st'' \<and>
       (err = None \<longleftrightarrow> psc v = 0) \<and>
       (\<forall>x. err = Some x \<longrightarrow> status_code x = - EBUSY \<or>
              status_code x = DDCRC_RETRIES \<and> length (causes x) = limits st ! 0))"
proof -
  let ?max = "limits st ! 0"
  have mx: "try_data_get_maxtries2 WRITE_ONLY_TRIES_OP (try_state st) = ?max" "1 \<le> ?max"
    using maxtries_limits [OF st, of WRITE_ONLY_TRIES_OP] limits_range [OF st, of WRITE_ONLY_TRIES_OP] by simp_all
  have "write_vars_ok ?max initial_vars" "tryctr initial_vars + ?max = ?max"
    by (simp_all add: write_vars_ok_def initial_vars_def)
  from write_only_loop_good [OF e st this, of req] obtain v st1 where
    l: "write_only_loop env req ?max initial_vars st = Some (v, st1)" "good_next st st1" "write_vars_ok ?max v"
      "psc v < 0 \<and> retryable v \<longrightarrow> tryctr v = ?max" by blast
  have o1: "ddc_ok st1" "limits st1 = limits st" using l(2) by (simp_all add: good_next_def)
  show ?thesis
  proof (cases "psc v = - EBUSY \<and> \<not> retryable v \<and> 1 < tryctr v")
    case True
    then show ?thesis using mx l(1) by (auto simp: ddc_write_only_with_retry_def)
  next
    case False
    define rc where "rc = (if psc v < 0 then if retryable v then DDCRC_RETRIES else psc v else psc v)"
    have "rc = 0 \<Longrightarrow> 0 < tryctr v \<and> tryctr v \<le> limits st1 ! retry_index WRITE_ONLY_TRIES_OP"
      using l(3) o1(2) by (auto simp: rc_def write_vars_ok_def split: if_splits)
    from record_tries_good [OF o1(1) this] obtain st2 where
      t: "record_tries WRITE_ONLY_TRIES_OP rc (tryctr v) st1 = Some st2" "good_next st1 st2" by blast
    have nb: "psc v = - EBUSY \<Longrightarrow> \<not> retryable v"
      using l(3) by (simp add: write_vars_ok_def)
    show ?thesis
      using mx l t(1) False nb good_next_trans [OF l(2) t(2)]
      by (auto simp: ddc_write_only_with_retry_def rc_def write_vars_ok_def c_assert_def split: if_splits)
  qed
qed


text \<open>The status of a write, and what it leaves of the bus.\<close>

lemma io_after_sleep:
  "io_state (CHECK_DEFERRED_SLEEP st) = io_state st"
  "SPECIAL_TUNED_SLEEP_WITH_TRACE env event special st = Some st' \<Longrightarrow> io_state st' = io_state st"
  by (auto simp: CHECK_DEFERRED_SLEEP_def SPECIAL_TUNED_SLEEP_WITH_TRACE_def advance_def Let_def
           split: prod.splits Option.bind_splits)

lemma ddc_write_only_io:
  assumes e: "env_ok env" and st: "ddc_ok st"
    and w: "invoke_i2c_writer (driver env) 2 0x37 (wire_bytes req) (io_state st) = Some (rc, io)"
  shows "\<exists>st'. ddc_write_only env req st = Some (rc, st') \<and> io_state st' = io \<and> good_next st st'"
proof -
  from ddc_write_only_good [OF e st, of req] obtain rc' st' where
    o: "ddc_write_only env req st = Some (rc', st')" "good_next st st'" by blast
  have "write_packet env req (CHECK_DEFERRED_SLEEP st) =
      Some (rc, (CHECK_DEFERRED_SLEEP st)\<lparr>io_state := io\<rparr>)"
    using w by (simp add: write_packet_def io_after_sleep(1))
  then have "rc' = rc \<and> io_state st' = io"
    using o(1) by (auto simp: ddc_write_only_def ddc_i2c_write_only_def Let_def io_after_sleep(2)
                        split: Option.bind_splits)
  with o show ?thesis by blast
qed

lemma ioctl_write_fails:
  assumes "io_strategy io = I2C_IO_STRATEGY_IOCTL" "drv_rdwr_write drv a bs (dev io) = (Inl x, w)" "x \<noteq> EINVAL" "0 \<le> x"
  shows "invoke_i2c_writer drv 2 a bs io = Some (- x, io\<lparr>dev := w, errno := x\<rparr>)"
  using assms
  by (simp add: numeral_2_eq_2 strategy_writer_def i2c_ioctl_writer_def syscall_def retry_after_einval_def)

section \<open>Properties\<close>

definition example_env :: "'w I2C_Driver \<Rightarrow> 'w Ddc_Env" where
  "example_env drv =
     \<lparr>driver = drv, edid_cfg = default_edid_config,
      sleep_cfg = \<lparr>deferred_sleep_enabled = False, suppress_se_post_read = False,
                   null_msg_adjustment_enabled = False\<rparr>,
      display_env = \<lparr>xdg_session_is_x11 = False, sysfs_reliable = True, x11_dpms = None,
                     dpms_attribute = \<lambda>_ _. Some ''On''\<rparr>,
      DDC_Read_Bytewise = False, simulate_null_msg_means_unsupported = False,
      null_response_means_unsupported = False, testing_unsupported_feature_active = False\<rparr>"

definition example_ddc :: "'w \<Rightarrow> 'w Ddc_State" where
  "example_ddc w =
     \<lparr>io_state = \<lparr>errno = 0, i2c_forceable_slave_addr_flag = False, use_timeout = False,
        io_strategy = I2C_IO_STRATEGY_IOCTL, nvidia_einval_bug_encountered = False, dev = w\<rparr>,
      bus_info = \<lparr>bus_exists = True, bus_probed = True, bus_has_edid = True, bus_addr_x37 = True,
        drm_connector_checked = True, drm_connector_name = None\<rparr>,
      display_pdd = example_pdd, next_io_after = 0, dsa2_state = example_state,
      try_state = init_ddc_try_data zero_try_state, display_tries = replicate 4 (replicate 17 0), clock = 0\<rparr>"

lemma example_env_ok: "driver_ok drv \<Longrightarrow> env_ok (example_env drv)"
  by (simp add: env_ok_def example_env_def edid_config_ok_def default_edid_config_def)

lemma example_ddc_ok: "ddc_ok (example_ddc w)"
  using example_ok init_ok by (simp add: ddc_ok_def example_ddc_def io_ready_def bus_ok_def tries_ok_def)

lemma example_limits: "limits (example_ddc w) ! 0 = 4"
  using init_counters init_ok by (simp add: limits_def example_ddc_def try_state_ok_def)

lemma request_packet_ok: "request_ok (request_packet src data tag)"
  by (simp add: request_ok_def get_packet_start_def request_packet_def filled_def request_frame_def request_header_def)

text \<open>C18 (exchange_always_returns): With a device that behaves as documented, over a descriptor whose name gives
  its bus number, and an intact state, an
  exchange of a request and a response returns: no assertion fails anywhere below it, in the packet
  parser, the sleeps, the dynamic sleep algorithm or the statistics, however the tries go. The state
  is intact afterwards, a packet is returned exactly if there is no error, and it says what the bytes
  say that a read of the device, in some state of it, gave.\<close>

theorem exchange_always_returns:
  assumes "env_ok env" "ddc_ok st" "request_ok req" "38 \<le> n" "known_type ty"
  shows "\<exists>err resp st'. ddc_write_read_with_retry env req n ty subtype flags st = Some (err, resp, st') \<and>
    ddc_ok st' \<and> limits st' = limits st \<and> (err = None \<longleftrightarrow> resp \<noteq> None) \<and>
    (\<forall>p. resp = Some p \<longrightarrow> packet_from_device env (n + 1) ty subtype p)"
  using write_read_with_retry_good [OF assms, of subtype flags] by (fastforce simp: good_next_def)

theorem exchange_always_returns_witness:
  "\<exists>err resp st'. ddc_write_read_with_retry (example_env nvidia_driver) (request_packet 0x51 [0x01, 0x10] ''x'')
      39 0x02 0x10 Write_Read_Flags_None (example_ddc ()) = Some (err, resp, st') \<and>
    ddc_ok st' \<and> (err = None \<longleftrightarrow> resp \<noteq> None)"
proof -
  have "known_type 0x02" by (simp add: known_type_def)
  with exchange_always_returns [OF example_env_ok [OF nvidia_driver_ok] example_ddc_ok request_packet_ok, of 39]
  show ?thesis by fastforce
qed

text \<open>C19 (exchange_errors_classified): The error of an exchange tells how its tries went:
  DDCRC_RETRIES after as many failed tries as the limit allows; EIO, EBADF, ENXIO or EBUSY if the last
  try failed with it; DDCRC_DETERMINED_UNSUPPORTED or DDCRC_ALL_RESPONSES_NULL after at least four null
  responses; DDCRC_READ_ALL_ZERO only where the caller asked for it; an error of the bus check without
  causes. DDCRC_ALL_TRIES_ZERO can only occur when the limit is a single try.\<close>

theorem exchange_errors_classified:
  assumes "env_ok env" "ddc_ok st" "request_ok req" "38 \<le> n" "known_type ty"
    and "ddc_write_read_with_retry env req n ty subtype flags st = Some (Some err, resp, st')"
  shows "exchange_error_ok flags (try_data_get_maxtries2 WRITE_READ_TRIES_OP (try_state st)) err \<and>
    (status_code err = DDCRC_ALL_TRIES_ZERO \<longrightarrow> try_data_get_maxtries2 WRITE_READ_TRIES_OP (try_state st) = 1)"
proof -
  have m: "try_data_get_maxtries2 WRITE_READ_TRIES_OP (try_state st) = limits st ! 1"
    using maxtries_limits [OF assms(2), of WRITE_READ_TRIES_OP] by simp
  have "exchange_error_ok flags (limits st ! 1) err"
    using write_read_with_retry_good [OF assms(1-5), of subtype flags] assms(6) by auto
  then show ?thesis
    unfolding m by (auto simp: exchange_error_ok_def hard_errors_def bus_errors_def)
qed

text \<open>A device that fails every call.\<close>

definition dead_driver :: "unit I2C_Driver" where
  "dead_driver =
     \<lparr>drv_set_slave = \<lambda>_ _ w. (Inl EBADF, w), drv_poll = \<lambda>w. (Inl EBADF, w),
      drv_write = \<lambda>bs w. (Inl EBADF, w), drv_read = \<lambda>n w. (Inl EBADF, w),
      drv_rdwr_write = \<lambda>_ _ w. (Inl EBADF, w), drv_rdwr_read = \<lambda>_ _ w. (Inl EBADF, w),
      drv_fd_name = \<lambda>_. Some ''/dev/i2c-5'', drv_sysfs_driver = \<lambda>_. Some ''amdgpu'',
      drv_name = ''amdgpu''\<rparr>"

lemma dead_driver_ok: "driver_ok dead_driver"
  by (simp add: driver_ok_def calls_ok_def fd_named_def i2c_5_busno good_call_def dead_driver_def)

lemma dead_driver_reads_nothing:
  "invoke_i2c_reader dead_driver 2 a False n buf io = Some (rc, buf', io') \<Longrightarrow> rc \<noteq> 0"
  by (cases "io_strategy io")
     (auto simp: numeral_2_eq_2 strategy_reader_def retry_after_einval_def is_nvidia_einval_bug_def dead_driver_def i2c_fileio_reader_def
        i2c_set_addr_def i2c_set_addr0_def i2c_ioctl_reader_def i2c_ioctl_reader1_def syscall_def Let_def
        split: if_splits)

theorem exchange_errors_classified_witness:
  "\<exists>err resp st'. ddc_write_read_with_retry (example_env dead_driver) (request_packet 0x51 [0x01, 0x10] ''x'')
      39 0x02 0x10 Write_Read_Flags_None (example_ddc ()) = Some (Some err, resp, st') \<and>
    exchange_error_ok Write_Read_Flags_None
      (try_data_get_maxtries2 WRITE_READ_TRIES_OP (try_state (example_ddc ()))) err"
proof -
  let ?env = "example_env dead_driver" and ?req = "request_packet 0x51 [0x01, 0x10] ''x''"
  have k: "known_type 0x02" "38 \<le> (39 :: nat)" by (simp_all add: known_type_def)
  note h = example_env_ok [OF dead_driver_ok] example_ddc_ok [of "()"]
    request_packet_ok [of "0x51" "[0x01, 0x10]" "''x''"] k(2,1)
  obtain err resp st' where
    r: "ddc_write_read_with_retry ?env ?req 39 0x02 0x10 Write_Read_Flags_None (example_ddc ()) = Some (err, resp, st')"
      "err = None \<longleftrightarrow> resp \<noteq> None" "\<forall>p. resp = Some p \<longrightarrow> packet_from_device ?env (39 + 1) 0x02 0x10 p"
    using write_read_with_retry_good [OF h, of "0x10" Write_Read_Flags_None] by blast
  have "\<not> packet_from_device ?env m ty subtype p" for m ty subtype p
    using dead_driver_reads_nothing
    by (fastforce simp: packet_from_device_def read_from_device_def example_env_def)
  then obtain x where "err = Some x" using r(2,3) by fastforce
  with r(1) exchange_errors_classified [OF h, where subtype = "0x10" and flags = Write_Read_Flags_None] show ?thesis by blast
qed

text \<open>If a write fails, and its retry then finds the slave address in use
  (EBUSY), the assertion that there was one try only ends the program.\<close>

theorem late_busy_write_aborts:
  assumes "env_ok env" "ddc_ok st" "2 \<le> limits st ! 0"
    and "io_strategy (io_state st) = I2C_IO_STRATEGY_IOCTL"
    and "drv_rdwr_write (driver env) 0x37 (wire_bytes req) (dev (io_state st)) = (Inl x, w)"
    and "0 < x" "x \<noteq> EINVAL" "x \<noteq> EBUSY"
    and "drv_rdwr_write (driver env) 0x37 (wire_bytes req) w = (Inl EBUSY, w')"
  shows "ddc_write_only_with_retry env req st = None"
proof -
  let ?io1 = "(io_state st)\<lparr>dev := w, errno := x\<rparr>"
  from ddc_write_only_io [OF assms(1,2) ioctl_write_fails [OF assms(4,5,7)]] assms(6) obtain st1 where
    w1: "ddc_write_only env req st = Some (- x, st1)" "io_state st1 = ?io1" "good_next st st1" by auto
  have o1: "ddc_ok st1" using w1(3) by (simp add: good_next_def)
  have "io_strategy (io_state st1) = I2C_IO_STRATEGY_IOCTL"
    "drv_rdwr_write (driver env) 0x37 (wire_bytes req) (dev (io_state st1)) = (Inl EBUSY, w')"
    using w1(2) assms(4,9) by simp_all
  from ddc_write_only_io [OF assms(1) o1 ioctl_write_fails [OF this]] obtain st2 where
    w2: "ddc_write_only env req st1 = Some (- EBUSY, st2)" by auto
  obtain k where k: "limits st ! 0 = Suc (Suc k)" using assms(3) by (metis Suc_le_D Suc_le_mono numeral_2_eq_2)
  have "write_only_loop env req (limits st ! 0) initial_vars st =
      Some (\<lparr>tryctr = 2, psc = - EBUSY, retryable = False, ddcrc_read_all_zero_ct = 0,
             ddcrc_null_response_ct = 0, try_errors = [- x, - EBUSY]\<rparr>, st2)"
    unfolding k using w1(1) w2 assms(6,8) by (simp add: initial_vars_def write_only_loop_done Let_def)
  moreover have "try_data_get_maxtries2 WRITE_ONLY_TRIES_OP (try_state st) = limits st ! 0"
    using maxtries_limits [OF assms(2), of WRITE_ONLY_TRIES_OP] by simp
  ultimately show ?thesis by (simp add: ddc_write_only_with_retry_def)
qed

text \<open>A device that fails with EIO first and with EBUSY from then on.\<close>

definition fading_driver :: "nat I2C_Driver" where
  "fading_driver =
     \<lparr>drv_set_slave = \<lambda>_ _ w. (Inr (), w), drv_poll = \<lambda>w. (Inr 1, w),
      drv_write = \<lambda>bs w. (Inl EIO, w), drv_read = \<lambda>n w. (Inl EIO, w),
      drv_rdwr_write = \<lambda>_ _ w. (Inl (if w = 0 then EIO else EBUSY), w + 1),
      drv_rdwr_read = \<lambda>_ _ w. (Inl EIO, w), drv_fd_name = \<lambda>_. Some ''/dev/i2c-5'', drv_sysfs_driver = \<lambda>_. Some ''i915'',
      drv_name = ''i915''\<rparr>"

lemma fading_driver_ok: "driver_ok fading_driver"
  by (simp add: driver_ok_def calls_ok_def fd_named_def i2c_5_busno good_call_def fading_driver_def)

theorem late_busy_write_aborts_witness:
  "ddc_write_only_with_retry (example_env fading_driver) (request_packet 0x51 [0x03, 0x10, 0, 50] ''x'')
     (example_ddc 0) = None"
  by (rule late_busy_write_aborts [OF example_env_ok [OF fading_driver_ok] example_ddc_ok, where x = EIO and w = 1 and w' = 2])
     (simp_all add: example_limits, simp_all add: example_ddc_def example_env_def fading_driver_def)

end
