(* ===== verification/Multi_Part_IO.thy ===== *)
theory Multi_Part_IO
  imports Packet_IO
begin

text \<open>
  Values that do not fit into one packet, \<^verbatim>\<open>src/src/ddc/ddc_multi_part_io.c\<close>: the capabilities
  string and table features are read in fragments, each by an exchange of its own, and table
  features are written in fragments. The loops are functions of the exchange they use; what they
  need of it is the locale \<open>fragment_source\<close>.
\<close>

section \<open>Reading\<close>

text \<open>
  The loop over the fragments, with the number of fragments allowed as fuel: \<open>Inl ()\<close> when it is
  used up, \<open>Inr\<close> the error, the buffer and the state otherwise. Each fragment that is appended
  is not empty and has to fit into the buffer, so that the size of the buffer is fuel enough.
\<close>

fun fragment_loop ::
    "(DDC_Packet \<Rightarrow> byte \<Rightarrow> byte \<Rightarrow> Write_Read_Flags \<Rightarrow> 's \<Rightarrow>
        (Error_Info option \<times> DDC_Packet option \<times> 's) option) \<Rightarrow>
     ('s \<Rightarrow> 's option) \<Rightarrow> nat \<Rightarrow> byte \<Rightarrow> byte \<Rightarrow> Write_Read_Flags \<Rightarrow> DDC_Packet \<Rightarrow> nat \<Rightarrow> Buffer \<Rightarrow> 's \<Rightarrow>
     (unit + Error_Info option \<times> Buffer \<times> 's) option" where
  "fragment_loop exchange pause 0 request_type request_subtype flags req cur_offset accumulator st =
     Some (Inl ())"
| "fragment_loop exchange pause (Suc fuel) request_type request_subtype flags req cur_offset accumulator st = do {
     req \<leftarrow> update_ddc_multi_part_read_request_packet_offset req cur_offset;
     let expected_response_type =
       (if request_type = DDC_PACKET_TYPE_CAPABILITIES_REQUEST then DDC_PACKET_TYPE_CAPABILITIES_RESPONSE
        else DDC_PACKET_TYPE_TABLE_READ_RESPONSE);
     (excp, response, st) \<leftarrow> exchange req expected_response_type request_subtype flags st;
     st \<leftarrow> pause st;
     (case excp of
        Some e \<Rightarrow> Some (Inr (Some e, accumulator, st))
      | None \<Rightarrow> do {
          packet \<leftarrow> response;
          aux_data \<leftarrow> (case parsed packet of Multi_Part_Read_Fragment f \<Rightarrow> Some f | _ \<Rightarrow> None);
          (if fragment_offset aux_data \<noteq> cur_offset
           then Some (Inr (Some \<lparr>status_code = DDCRC_MULTI_PART_READ_FRAGMENT, causes = []\<rparr>, accumulator, st))
           else if fragment_length aux_data = 0 then Some (Inr (None, accumulator, st))
           else do {
             accumulator \<leftarrow> buffer_append (\<lambda>_. 0) accumulator
                              (take (fragment_length aux_data) (fragment_bytes aux_data));
             fragment_loop exchange pause fuel request_type request_subtype
               (flags\<lparr>all_zero_response_ok := False\<rparr>) req (cur_offset + fragment_length aux_data) accumulator st
           })
        })
   }"

definition read_fragments ::
    "(DDC_Packet \<Rightarrow> byte \<Rightarrow> byte \<Rightarrow> Write_Read_Flags \<Rightarrow> 's \<Rightarrow>
        (Error_Info option \<times> DDC_Packet option \<times> 's) option) \<Rightarrow>
     ('s \<Rightarrow> 's option) \<Rightarrow> byte \<Rightarrow> byte \<Rightarrow> Write_Read_Flags \<Rightarrow> Buffer \<Rightarrow> 's \<Rightarrow>
     (Error_Info option \<times> Buffer \<times> 's) option" where
  "read_fragments exchange pause request_type request_subtype flags accumulator st = do {
     req \<leftarrow> create_ddc_multi_part_read_request_packet request_type request_subtype 0 ''try_multi_part_read'';
     accumulator \<leftarrow> buffer_set_length accumulator 0;
     r \<leftarrow> fragment_loop exchange pause (buffer_size accumulator + 1) request_type request_subtype flags req 0
            accumulator st;
     (case r of Inl _ \<Rightarrow> None | Inr x \<Rightarrow> Some x)
   }"

abbreviation MAX_DDC_PACKET_SIZE :: nat where "MAX_DDC_PACKET_SIZE \<equiv> 39"

definition ddc_exchange ::
    "'w Ddc_Env \<Rightarrow> DDC_Packet \<Rightarrow> byte \<Rightarrow> byte \<Rightarrow> Write_Read_Flags \<Rightarrow> 'w Ddc_State \<Rightarrow>
     (Error_Info option \<times> DDC_Packet option \<times> 'w Ddc_State) option" where
  "ddc_exchange env req expected_response_type expected_subtype flags st =
     ddc_write_read_with_retry env req MAX_DDC_PACKET_SIZE expected_response_type expected_subtype flags st"

definition try_multi_part_read ::
    "'w Ddc_Env \<Rightarrow> byte \<Rightarrow> byte \<Rightarrow> Write_Read_Flags \<Rightarrow> Buffer \<Rightarrow> 'w Ddc_State \<Rightarrow>
     (Error_Info option \<times> Buffer \<times> 'w Ddc_State) option" where
  "try_multi_part_read env request_type request_subtype flags accumulator st =
     read_fragments (ddc_exchange env) (TUNED_SLEEP_WITH_TRACE env SE_POST_CAP_TABLE_SEGMENT)
       request_type request_subtype flags accumulator st"

definition errinfo_all_causes_same_status :: "Error_Info option \<Rightarrow> int \<Rightarrow> bool" where
  "errinfo_all_causes_same_status erec status =
     (case erec of
        None \<Rightarrow> False
      | Some e \<Rightarrow> causes e \<noteq> [] \<and>
          (let status = (if status = 0 then causes e ! 0 else status)
           in list_all (\<lambda>c. c = status) (causes e)))"

text \<open>
  The body of the retry loop after the try: whether to go on, and the state. The sleep for a null
  response to a capabilities request is \<open>multi_part_null_adjustment_millis\<close>, by default 0.
\<close>

definition after_read_try ::
    "'w Ddc_Env \<Rightarrow> int \<Rightarrow> Write_Read_Flags \<Rightarrow> Error_Info option \<Rightarrow> int \<Rightarrow> 'w Ddc_State \<Rightarrow>
     (bool \<times> 'w Ddc_State) option" where
  "after_read_try env null_adjustment_millis flags ddc_excp rc st =
     (if rc = DDCRC_NULL_RESPONSE \<or> rc = DDCRC_ALL_RESPONSES_NULL \<or>
         errinfo_all_causes_same_status ddc_excp DDCRC_NULL_RESPONSE
      then if flag_table_read flags then Some (False, st)
           else if null_adjustment_millis > 0
           then do {
             st \<leftarrow> SPECIAL_TUNED_SLEEP_WITH_TRACE env SE_SPECIAL null_adjustment_millis st;
             Some (True, st)
           }
           else Some (True, st)
      else Some (rc \<noteq> DDCRC_READ_ALL_ZERO \<and> rc \<noteq> DDCRC_ALL_TRIES_ZERO \<and> rc \<noteq> - EBADF, st))"

text \<open>The loop, with the tries left; the tries made, the status and the errors of the tries.\<close>

fun multi_part_read_loop ::
    "'w Ddc_Env \<Rightarrow> int \<Rightarrow> byte \<Rightarrow> byte \<Rightarrow> Write_Read_Flags \<Rightarrow> nat \<Rightarrow> nat \<Rightarrow> int \<Rightarrow> bool \<Rightarrow> int list \<Rightarrow> Buffer \<Rightarrow>
     'w Ddc_State \<Rightarrow> (nat \<times> int \<times> int list \<times> Buffer \<times> 'w Ddc_State) option" where
  "multi_part_read_loop env adj request_type request_subtype flags tries 0 rc can_retry errs accumulator st =
     Some (tries, rc, errs, accumulator, st)"
| "multi_part_read_loop env adj request_type request_subtype flags tries (Suc n) rc can_retry errs accumulator st =
     (if rc < 0 \<and> can_retry
      then do {
        (ddc_excp, accumulator, st) \<leftarrow>
          try_multi_part_read env request_type request_subtype flags accumulator st;
        let rc = (case ddc_excp of Some e \<Rightarrow> status_code e | None \<Rightarrow> 0);
        let errs = (case ddc_excp of Some e \<Rightarrow> errs @ [rc] | None \<Rightarrow> errs);
        (can_retry, st) \<leftarrow> after_read_try env adj flags ddc_excp rc st;
        multi_part_read_loop env adj request_type request_subtype flags (tries + 1) n rc can_retry errs accumulator st
      }
      else Some (tries, rc, errs, accumulator, st))"

definition multi_part_read_with_retry ::
    "'w Ddc_Env \<Rightarrow> int \<Rightarrow> byte \<Rightarrow> byte \<Rightarrow> Write_Read_Flags \<Rightarrow> 'w Ddc_State \<Rightarrow>
     (Error_Info option \<times> Buffer option \<times> 'w Ddc_State) option" where
  "multi_part_read_with_retry env adj request_type request_subtype flags st = do {
     let max_tries = try_data_get_maxtries2 MULTI_PART_READ_OP (try_state st);
     c_assert (flag_capabilities flags \<or> flag_table_read flags);
     (tries, rc, errs, accumulator, st) \<leftarrow>
       multi_part_read_loop env adj request_type request_subtype flags 0 max_tries (-1) True [] (buffer_new 2048) st;
     let rc = (if rc < 0 \<and> tries \<ge> max_tries then DDCRC_RETRIES else rc);
     let ddc_excp = (if rc < 0 then Some \<lparr>status_code = rc, causes = errs\<rparr> else None);
     st \<leftarrow> record_tries MULTI_PART_READ_OP rc tries st;
     Some (ddc_excp, (if rc < 0 then None else Some accumulator), st)
   }"

section \<open>Writing\<close>

text \<open>
  The fragments of at most 28 bytes, then an empty one. \<open>rest\<close> is
  \<^verbatim>\<open>value_to_set->bytes + offset\<close> up to the end of the value.
\<close>

function write_fragments ::
    "(DDC_Packet \<Rightarrow> 's \<Rightarrow> (Error_Info option \<times> 's) option) \<Rightarrow> byte \<Rightarrow> nat \<Rightarrow> byte list \<Rightarrow> 's \<Rightarrow>
     (Error_Info option \<times> 's) option" where
  "write_fragments send feature_code offset rest st = do {
     let bytect_to_write = (if length rest \<le> 28 then length rest else 28);
     req \<leftarrow> create_ddc_multi_part_write_request_packet DDC_PACKET_TYPE_TABLE_WRITE_REQUEST feature_code offset
              (take bytect_to_write rest) ''try_multi_part_write'';
     (ddc_excp, st) \<leftarrow> send req st;
     (if ddc_excp \<noteq> None \<or> bytect_to_write = 0 then Some (ddc_excp, st)
      else write_fragments send feature_code (offset + bytect_to_write) (drop bytect_to_write rest) st)
   }"
  by pat_completeness auto

termination
  by (relation "measure (\<lambda>(send, feature_code, offset, rest, st). length rest)") auto

declare write_fragments.simps [simp del]

definition try_multi_part_write ::
    "'w Ddc_Env \<Rightarrow> byte \<Rightarrow> Buffer \<Rightarrow> 'w Ddc_State \<Rightarrow> (Error_Info option \<times> 'w Ddc_State) option" where
  "try_multi_part_write env feature_code value_to_set st =
     write_fragments (ddc_write_only_with_retry env) feature_code 0 (contents value_to_set) st"

fun multi_part_write_loop ::
    "'w Ddc_Env \<Rightarrow> byte \<Rightarrow> Buffer \<Rightarrow> nat \<Rightarrow> int \<Rightarrow> int list \<Rightarrow> 'w Ddc_State \<Rightarrow>
     (int \<times> int list \<times> 'w Ddc_State) option" where
  "multi_part_write_loop env feature_code value_to_set 0 rc errs st = Some (rc, errs, st)"
| "multi_part_write_loop env feature_code value_to_set (Suc n) rc errs st =
     (if rc < 0
      then do {
        (ddc_excp, st) \<leftarrow> try_multi_part_write env feature_code value_to_set st;
        let rc = (case ddc_excp of Some e \<Rightarrow> status_code e | None \<Rightarrow> 0);
        c_assert ((ddc_excp \<noteq> None \<and> rc < 0) \<or> (ddc_excp = None \<and> rc = 0));
        multi_part_write_loop env feature_code value_to_set n rc
          (case ddc_excp of Some e \<Rightarrow> errs @ [rc] | None \<Rightarrow> errs) st
      }
      else Some (rc, errs, st))"

text \<open>No tries are recorded for this operation.\<close>

definition multi_part_write_with_retry ::
    "'w Ddc_Env \<Rightarrow> byte \<Rightarrow> Buffer \<Rightarrow> 'w Ddc_State \<Rightarrow> (Error_Info option \<times> 'w Ddc_State) option" where
  "multi_part_write_with_retry env feature_code value_to_set st = do {
     let max_tries = try_data_get_maxtries2 MULTI_PART_WRITE_OP (try_state st);
     (rc, errs, st) \<leftarrow> multi_part_write_loop env feature_code value_to_set max_tries (-1) [] st;
     Some (if rc < 0 then Some \<lparr>status_code = DDCRC_RETRIES, causes = errs\<rparr> else None, st)
   }"

section \<open>The source of fragments\<close>

text \<open>A delivered fragment: its length fits, and its bytes are there.\<close>

definition fragment_ok :: "Interpreted_Multi_Part_Read_Fragment \<Rightarrow> bool" where
  "fragment_ok f \<longleftrightarrow> fragment_length f \<le> 32 \<and> fragment_length f \<le> length (fragment_bytes f)"

definition fragment_data :: "Interpreted_Multi_Part_Read_Fragment \<Rightarrow> byte list" where
  "fragment_data f = take (fragment_length f) (fragment_bytes f)"

text \<open>Fragments that follow each other from an offset on, none of them empty.\<close>

fun consecutive :: "nat \<Rightarrow> Interpreted_Multi_Part_Read_Fragment list \<Rightarrow> bool" where
  "consecutive off [] \<longleftrightarrow> True"
| "consecutive off (f # fs) \<longleftrightarrow> fragment_offset f = off \<and> 0 < fragment_length f \<and>
     consecutive (off + fragment_length f) fs"

text \<open>Appending to a buffer of fixed size.\<close>

lemma append_fixed:
  assumes ok: "buffer_ok b" and inc: "size_increment b = 0" and fits: "buf_len b + 2 + length ys \<le> buffer_size b"
  shows "\<exists>b'. buffer_append junk b ys = Some b' \<and> buffer_ok b' \<and> size_increment b' = 0 \<and>
    buffer_size b' = buffer_size b \<and> buf_len b' = buf_len b + length ys \<and> contents b' = contents b @ ys"
  using assms
  by (simp add: buffer_append_def buffer_make_room_def buf_memcpy_def c_assert_def buffer_ok_def
                contents_def mem_simps)

text \<open>
  What the loop relies on: exchanges and pauses return and keep an invariant, and a response without
  error is a fragment that was delivered.
\<close>

locale fragment_source =
  fixes exchange :: "DDC_Packet \<Rightarrow> byte \<Rightarrow> byte \<Rightarrow> Write_Read_Flags \<Rightarrow> 's \<Rightarrow>
      (Error_Info option \<times> DDC_Packet option \<times> 's) option"
    and pause :: "'s \<Rightarrow> 's option"
    and inv :: "'s \<Rightarrow> bool"
    and delivered :: "byte \<Rightarrow> byte \<Rightarrow> Interpreted_Multi_Part_Read_Fragment \<Rightarrow> bool"
  assumes exchange_returns:
    "inv st \<Longrightarrow> request_ok req \<Longrightarrow> is_multi_part_type ty \<Longrightarrow>
       \<exists>excp resp st'. exchange req ty subtype flags st = Some (excp, resp, st') \<and> inv st' \<and>
         (excp = None \<longleftrightarrow> resp \<noteq> None) \<and>
         (\<forall>x. excp = Some x \<longrightarrow> status_code x < 0) \<and>
         (\<forall>p. resp = Some p \<longrightarrow> (\<exists>f. parsed p = Multi_Part_Read_Fragment f \<and> delivered ty subtype f))"
    and pause_returns: "inv st \<Longrightarrow> \<exists>st'. pause st = Some st' \<and> inv st'"
    and delivered_ok: "delivered ty subtype f \<Longrightarrow> fragment_ok f"
begin

text \<open>
  The loop ends with the fragments appended to the buffer, with an error, or because the
  fragments do not fit; never because the fuel is used up.
\<close>

lemma fragment_loop_spec:
  assumes ty: "is_read_request_type request_type"
    and ety: "ety = (if request_type = DDC_PACKET_TYPE_CAPABILITIES_REQUEST
      then DDC_PACKET_TYPE_CAPABILITIES_RESPONSE else DDC_PACKET_TYPE_TABLE_READ_RESPONSE)"
  shows "inv st \<Longrightarrow> buffer_ok acc \<Longrightarrow> size_increment acc = 0 \<Longrightarrow>
    buffer_size acc < fuel + buf_len acc \<Longrightarrow>
    req = request_packet 0x51 (read_request_data request_type subtype hi lo) tag \<Longrightarrow>
    \<exists>fs. consecutive off fs \<and> (\<forall>f \<in> set fs. delivered ety subtype f) \<and>
    (case fragment_loop exchange pause fuel request_type subtype flags req off acc st of
       None \<Rightarrow> buffer_size acc < buf_len acc + length (concat (map fragment_data fs)) + 2
     | Some (Inl _) \<Rightarrow> False
     | Some (Inr (excp, acc', st')) \<Rightarrow> inv st' \<and> buffer_ok acc' \<and> buffer_size acc' = buffer_size acc \<and>
         size_increment acc' = 0 \<and>
         (\<forall>x. excp = Some x \<longrightarrow> status_code x < 0) \<and>
         (excp = None \<longrightarrow> contents acc' = contents acc @ concat (map fragment_data fs) \<and>
            (\<exists>f. delivered ety subtype f \<and> fragment_length f = 0 \<and>
               fragment_offset f = off + length (concat (map fragment_data fs)))))"
proof (induction fuel arbitrary: off flags acc st req hi lo)
  case 0
  then show ?case by (simp add: buffer_ok_def)
next
  case (Suc fuel)
  let ?req = "request_packet 0x51 (read_request_data request_type subtype (byte_of_shr8 off) (byte_of off)) tag"
  have u: "update_ddc_multi_part_read_request_packet_offset req off = Some ?req"
    using update_read_request_eq [OF ty] Suc.prems(5) by simp
  have mp: "is_multi_part_type ety" by (simp add: ety is_multi_part_type_def)
  obtain excp resp st1 where x: "exchange ?req ety subtype flags st = Some (excp, resp, st1)" "inv st1"
      "excp = None \<longleftrightarrow> resp \<noteq> None" "\<forall>x. excp = Some x \<longrightarrow> status_code x < 0"
      "\<forall>p. resp = Some p \<longrightarrow> (\<exists>f. parsed p = Multi_Part_Read_Fragment f \<and> delivered ety subtype f)"
    using exchange_returns [OF Suc.prems(1) request_packet_ok mp] by blast
  obtain st2 where p: "pause st1 = Some st2" "inv st2" using pause_returns [OF x(2)] by blast
  have step: "fragment_loop exchange pause (Suc fuel) request_type subtype flags req off acc st =
      (case excp of
         Some er \<Rightarrow> Some (Inr (Some er, acc, st2))
       | None \<Rightarrow> do {
           packet \<leftarrow> resp;
           aux_data \<leftarrow> (case parsed packet of Multi_Part_Read_Fragment f \<Rightarrow> Some f | _ \<Rightarrow> None);
           (if fragment_offset aux_data \<noteq> off
            then Some (Inr (Some \<lparr>status_code = DDCRC_MULTI_PART_READ_FRAGMENT, causes = []\<rparr>, acc, st2))
            else if fragment_length aux_data = 0 then Some (Inr (None, acc, st2))
            else do {
              acc \<leftarrow> buffer_append (\<lambda>_. 0) acc (take (fragment_length aux_data) (fragment_bytes aux_data));
              fragment_loop exchange pause fuel request_type subtype
                (flags\<lparr>all_zero_response_ok := False\<rparr>) ?req (off + fragment_length aux_data) acc st2
            })
         })"
    by (simp only: fragment_loop.simps Let_def ety [symmetric] u Option.bind.simps x(1) p(1) prod.case)
  show ?case
  proof (cases excp)
    case (Some err)
    then show ?thesis
      using p x(4) Suc.prems(1-4) by (intro exI [of _ "[]"]) (simp add: step del: fragment_loop.simps)
  next
    case None
    then obtain pk f where f: "resp = Some pk" "parsed pk = Multi_Part_Read_Fragment f" "delivered ety subtype f"
      using x(3,5) by auto
    have fo: "fragment_length f \<le> 32" "length (fragment_data f) = fragment_length f"
      using delivered_ok [OF f(3)] by (simp_all add: fragment_ok_def fragment_data_def)
    show ?thesis
    proof (cases "fragment_offset f = off \<and> fragment_length f \<noteq> 0")
      case False
      then show ?thesis
        using None p f Suc.prems(1-4) by (intro exI [of _ "[]"]) (auto simp: step simp del: fragment_loop.simps)
    next
      case next_frag: True
      show ?thesis
      proof (cases "buf_len acc + 2 + length (fragment_data f) \<le> buffer_size acc")
        case False
        then have "buffer_append (\<lambda>_. 0) acc (fragment_data f) = None"
          using Suc.prems(3) by (intro buffer_append_None) (simp add: append_fits_def)
        then show ?thesis
          using None p f next_frag False Suc.prems(1-4)
          by (intro exI [of _ "[f]"]) (simp add: step fragment_data_def [symmetric] del: fragment_loop.simps)
      next
        case True
        from append_fixed [OF Suc.prems(2,3) True, of "\<lambda>_. 0"] obtain acc' where
          a: "buffer_append (\<lambda>_. 0) acc (fragment_data f) = Some acc'" "buffer_ok acc'" "size_increment acc' = 0"
            "buffer_size acc' = buffer_size acc" "buf_len acc' = buf_len acc + length (fragment_data f)"
            "contents acc' = contents acc @ fragment_data f" by blast
        have fuel: "buffer_size acc' < fuel + buf_len acc'"
          using Suc.prems(4) a(4,5) fo(2) next_frag by simp
        from Suc.IH [OF p(2) a(2,3) fuel refl, of "off + fragment_length f" "flags\<lparr>all_zero_response_ok := False\<rparr>"]
        obtain fs where fs: "consecutive (off + fragment_length f) fs" "\<forall>g \<in> set fs. delivered ety subtype g"
          and r: "case fragment_loop exchange pause fuel request_type subtype
              (flags\<lparr>all_zero_response_ok := False\<rparr>) ?req (off + fragment_length f) acc' st2 of
             None \<Rightarrow> buffer_size acc' < buf_len acc' + length (concat (map fragment_data fs)) + 2
           | Some (Inl _) \<Rightarrow> False
           | Some (Inr (excp, acc'', st')) \<Rightarrow> inv st' \<and> buffer_ok acc'' \<and> buffer_size acc'' = buffer_size acc' \<and>
               size_increment acc'' = 0 \<and>
               (\<forall>x. excp = Some x \<longrightarrow> status_code x < 0) \<and>
               (excp = None \<longrightarrow> contents acc'' = contents acc' @ concat (map fragment_data fs) \<and>
                  (\<exists>g. delivered ety subtype g \<and> fragment_length g = 0 \<and>
                     fragment_offset g = off + fragment_length f + length (concat (map fragment_data fs))))"
          by blast
        have "fragment_loop exchange pause (Suc fuel) request_type subtype flags req off acc st =
            fragment_loop exchange pause fuel request_type subtype
              (flags\<lparr>all_zero_response_ok := False\<rparr>) ?req (off + fragment_length f) acc' st2"
          using None p(1) f(1,2) next_frag a(1) by (simp add: step fragment_data_def del: fragment_loop.simps)
        then show ?thesis
          using r fs next_frag f(3) fo(2) a(4-6)
          by (intro exI [of _ "f # fs"]) (auto split: option.splits sum.splits)
      qed
    qed
  qed
qed

end

definition response_type_of :: "byte \<Rightarrow> byte" where
  "response_type_of request_type =
     (if request_type = DDC_PACKET_TYPE_CAPABILITIES_REQUEST then DDC_PACKET_TYPE_CAPABILITIES_RESPONSE
      else DDC_PACKET_TYPE_TABLE_READ_RESPONSE)"

text \<open>The bytes are those of fragments that follow each other, up to an empty one.\<close>

definition value_delivered :: "(Interpreted_Multi_Part_Read_Fragment \<Rightarrow> bool) \<Rightarrow> byte list \<Rightarrow> bool" where
  "value_delivered deliv bs \<longleftrightarrow>
     (\<exists>fs f. consecutive 0 fs \<and> (\<forall>g \<in> set fs. deliv g) \<and> bs = concat (map fragment_data fs) \<and>
        deliv f \<and> fragment_length f = 0 \<and> fragment_offset f = length bs)"

text \<open>Fragments that follow each other and are more than \<open>n\<close> bytes together.\<close>

definition overlong_value :: "(Interpreted_Multi_Part_Read_Fragment \<Rightarrow> bool) \<Rightarrow> nat \<Rightarrow> bool" where
  "overlong_value deliv n \<longleftrightarrow>
     (\<exists>fs. consecutive 0 fs \<and> (\<forall>g \<in> set fs. deliv g) \<and> n < length (concat (map fragment_data fs)))"

text \<open>What a try says of its result.\<close>

definition read_result_ok ::
    "(Interpreted_Multi_Part_Read_Fragment \<Rightarrow> bool) \<Rightarrow> nat \<Rightarrow> Error_Info option \<Rightarrow> Buffer \<Rightarrow> bool" where
  "read_result_ok deliv n excp acc \<longleftrightarrow>
     buffer_ok acc \<and> buffer_size acc = n \<and> size_increment acc = 0 \<and>
     (case excp of None \<Rightarrow> value_delivered deliv (contents acc) | Some x \<Rightarrow> status_code x < 0)"

lemma create_read_request:
  "is_read_request_type ty \<Longrightarrow> \<exists>hi lo. create_ddc_multi_part_read_request_packet ty sub 0 tag =
     Some (request_packet 0x51 (read_request_data ty sub hi lo) tag)"
  by (auto simp: create_read_request_eq)

context fragment_source
begin

lemma read_fragments_spec:
  assumes ty: "is_read_request_type ty" and st: "inv st" and acc: "buffer_ok acc" "size_increment acc = 0" "2 \<le> buffer_size acc"
  shows "case read_fragments exchange pause ty subtype flags acc st of
      None \<Rightarrow> overlong_value (delivered (response_type_of ty) subtype) (buffer_size acc - 2)
    | Some (excp, acc', st') \<Rightarrow> inv st' \<and>
        read_result_ok (delivered (response_type_of ty) subtype) (buffer_size acc) excp acc'"
proof -
  let ?acc = "acc\<lparr>buf_len := 0\<rparr>"
  obtain hi lo where c: "create_ddc_multi_part_read_request_packet ty subtype 0 ''try_multi_part_read'' =
      Some (request_packet 0x51 (read_request_data ty subtype hi lo) ''try_multi_part_read'')"
    using create_read_request [OF ty] by blast
  have l: "buffer_set_length acc 0 = Some ?acc" by (simp add: buffer_set_length_Some)
  have a: "buffer_ok ?acc" "contents ?acc = []" using acc by (simp_all add: buffer_ok_def contents_def)
  let ?req = "request_packet 0x51 (read_request_data ty subtype hi lo) ''try_multi_part_read''"
  let ?loop = "fragment_loop exchange pause (buffer_size acc + 1) ty subtype flags ?req 0 ?acc st"
  let ?deliv = "delivered (response_type_of ty) subtype"
  have "\<exists>fs. consecutive 0 fs \<and> (\<forall>f \<in> set fs. ?deliv f) \<and>
    (case ?loop of
       None \<Rightarrow> buffer_size ?acc < buf_len ?acc + length (concat (map fragment_data fs)) + 2
     | Some (Inl _) \<Rightarrow> False
     | Some (Inr (excp, acc', st')) \<Rightarrow> inv st' \<and> buffer_ok acc' \<and> buffer_size acc' = buffer_size ?acc \<and>
         size_increment acc' = 0 \<and> (\<forall>x. excp = Some x \<longrightarrow> status_code x < 0) \<and>
         (excp = None \<longrightarrow> contents acc' = contents ?acc @ concat (map fragment_data fs) \<and>
            (\<exists>f. ?deliv f \<and> fragment_length f = 0 \<and> fragment_offset f = 0 + length (concat (map fragment_data fs)))))"
    by (rule fragment_loop_spec [OF ty response_type_of_def st a(1) _ _ refl]) (use acc in simp_all)
  then obtain fs where fs: "consecutive 0 fs" "\<forall>f \<in> set fs. ?deliv f"
    and r: "case ?loop of
       None \<Rightarrow> buffer_size ?acc < buf_len ?acc + length (concat (map fragment_data fs)) + 2
     | Some (Inl _) \<Rightarrow> False
     | Some (Inr (excp, acc', st')) \<Rightarrow> inv st' \<and> buffer_ok acc' \<and> buffer_size acc' = buffer_size ?acc \<and>
         size_increment acc' = 0 \<and> (\<forall>x. excp = Some x \<longrightarrow> status_code x < 0) \<and>
         (excp = None \<longrightarrow> contents acc' = contents ?acc @ concat (map fragment_data fs) \<and>
            (\<exists>f. ?deliv f \<and> fragment_length f = 0 \<and> fragment_offset f = 0 + length (concat (map fragment_data fs))))"
    by blast
  have e: "read_fragments exchange pause ty subtype flags acc st =
      (case ?loop of None \<Rightarrow> None | Some (Inl _) \<Rightarrow> None | Some (Inr x) \<Rightarrow> Some x)"
    by (simp add: read_fragments_def c l del: fragment_loop.simps split: option.splits sum.splits)
  show ?thesis
  proof (cases ?loop)
    case None
    then have "overlong_value ?deliv (buffer_size acc - 2)"
      using fs r acc(3) unfolding overlong_value_def by (intro exI [of _ fs]) (simp del: fragment_loop.simps)
    then show ?thesis by (simp only: e None option.case)
  next
    case (Some x)
    then obtain excp acc' st' where x: "x = Inr (excp, acc', st')" using r by (cases x) auto
    have "read_result_ok ?deliv (buffer_size acc) excp acc'" "inv st'"
      using r fs a(2) unfolding Some x read_result_ok_def value_delivered_def
      by (auto split: option.splits)
    then show ?thesis by (simp only: e Some x option.case sum.case prod.case)
  qed
qed

end

text \<open>A fragment that the device of a display handle sent.\<close>

definition device_fragment :: "'w Ddc_Env \<Rightarrow> byte \<Rightarrow> byte \<Rightarrow> Interpreted_Multi_Part_Read_Fragment \<Rightarrow> bool" where
  "device_fragment env ty subtype f \<longleftrightarrow>
     (\<exists>buf. read_from_device env 40 buf \<and> length buf = 40 \<and> multi_part_response_ok (skip_double_6e buf) ty \<and>
        f = fragment_of (skip_double_6e buf))"

lemma device_packet_fragment:
  assumes "packet_from_device env 40 ty subtype p" "is_multi_part_type ty"
  shows "\<exists>f. parsed p = Multi_Part_Read_Fragment f \<and> device_fragment env ty subtype f"
  using assms
  by (auto simp: packet_from_device_def device_fragment_def typed_response_spec_def is_multi_part_type_def
           split: if_splits)

lemma device_fragment_ok: "device_fragment env ty subtype f \<Longrightarrow> fragment_ok f"
  by (auto simp: device_fragment_def fragment_ok_def fragment_of_def multi_part_response_ok_def
           response_ok_def skip_double_6e_def Let_def)

lemma exchange_error_negative: "exchange_error_ok flags n x \<Longrightarrow> status_code x < 0"
  by (auto simp: exchange_error_ok_def hard_errors_def bus_errors_def)

interpretation ddc: fragment_source "ddc_exchange env" "TUNED_SLEEP_WITH_TRACE env SE_POST_CAP_TABLE_SEGMENT"
    "\<lambda>st. env_ok env \<and> ddc_ok st \<and> limits st = ls" "device_fragment env"
  for env :: "'w Ddc_Env" and ls
proof
  fix st :: "'w Ddc_State" and req ty subtype flags
  assume i: "env_ok env \<and> ddc_ok st \<and> limits st = ls" and r: "request_ok req" and t: "is_multi_part_type ty"
  have k: "known_type ty" using t by (simp add: known_type_def)
  have e: "env_ok env" "ddc_ok st" and n: "38 \<le> (39::nat)" and n1: "39 + 1 = (40::nat)" using i by simp_all
  from write_read_with_retry_good [where flags = flags and subtype = subtype, OF e r n k, unfolded n1]
  obtain err resp st' where
    "ddc_write_read_with_retry env req 39 ty subtype flags st = Some (err, resp, st')" "good_next st st'"
    "err = None \<longleftrightarrow> resp \<noteq> None" "\<forall>p. resp = Some p \<longrightarrow> packet_from_device env 40 ty subtype p"
    "\<forall>x. err = Some x \<longrightarrow> exchange_error_ok flags (limits st ! 1) x"
    by blast
  then show "\<exists>excp resp st'. ddc_exchange env req ty subtype flags st = Some (excp, resp, st') \<and>
    (env_ok env \<and> ddc_ok st' \<and> limits st' = ls) \<and> (excp = None \<longleftrightarrow> resp \<noteq> None) \<and>
    (\<forall>x. excp = Some x \<longrightarrow> status_code x < 0) \<and>
    (\<forall>p. resp = Some p \<longrightarrow> (\<exists>f. parsed p = Multi_Part_Read_Fragment f \<and> device_fragment env ty subtype f))"
    using i device_packet_fragment [OF _ t]
    by (intro exI [of _ err] exI [of _ resp] exI [of _ st'])
       (auto simp: ddc_exchange_def good_next_def dest: exchange_error_negative)
next
  fix st :: "'w Ddc_State" assume "env_ok env \<and> ddc_ok st \<and> limits st = ls"
  then show "\<exists>st'. TUNED_SLEEP_WITH_TRACE env SE_POST_CAP_TABLE_SEGMENT st = Some st' \<and>
      env_ok env \<and> ddc_ok st' \<and> limits st' = ls"
    using tuned_sleep_good [of env st SE_POST_CAP_TABLE_SEGMENT 0] by (auto simp: good_next_def)
qed (rule device_fragment_ok)

section \<open>The reads with retry\<close>

text \<open>The result of the retry loop: a value the device sent, or as many errors as tries.\<close>

definition read_loop_ok ::
    "(Interpreted_Multi_Part_Read_Fragment \<Rightarrow> bool) \<Rightarrow> nat \<Rightarrow> int \<Rightarrow> int list \<Rightarrow> Buffer \<Rightarrow> bool" where
  "read_loop_ok deliv tries rc errs acc \<longleftrightarrow>
     buffer_ok acc \<and> buffer_size acc = 2048 \<and> size_increment acc = 0 \<and>
     (if rc = 0 then 0 < tries \<and> value_delivered deliv (contents acc)
      else rc < 0 \<and> length errs = tries \<and> (tries > 0 \<longrightarrow> last errs = rc))"

lemma after_read_try_good:
  assumes e: "env_ok env" and st: "ddc_ok st"
  shows "\<exists>retry st'. after_read_try env adj flags excp rc st = Some (retry, st') \<and> good_next st st'"
proof (cases "adj > 0")
  case True
  with tuned_sleep_good [OF e st, of SE_SPECIAL adj] good_next_refl [OF st]
  show ?thesis by (auto simp: after_read_try_def)
next
  case False
  with good_next_refl [OF st] show ?thesis by (auto simp: after_read_try_def)
qed

lemma try_multi_part_read_good:
  assumes e: "env_ok env" and st: "ddc_ok st" and ty: "is_read_request_type ty"
    and acc: "buffer_ok acc" "buffer_size acc = 2048" "size_increment acc = 0"
  shows "case try_multi_part_read env ty subtype flags acc st of
      None \<Rightarrow> overlong_value (device_fragment env (response_type_of ty) subtype) 2046
    | Some (excp, acc', st') \<Rightarrow> good_next st st' \<and>
        read_result_ok (device_fragment env (response_type_of ty) subtype) 2048 excp acc'"
  using ddc.read_fragments_spec [where env = env and ls = "limits st" and st = st and acc = acc
      and ty = ty and flags = flags and subtype = subtype] assms
  by (auto simp: try_multi_part_read_def good_next_def split: option.splits)

lemma multi_part_read_loop_good:
  assumes e: "env_ok env" and ty: "is_read_request_type ty"
  shows "ddc_ok st \<Longrightarrow> read_loop_ok (device_fragment env (response_type_of ty) subtype) tries rc errs acc \<Longrightarrow>
    case multi_part_read_loop env adj ty subtype flags tries n rc retry errs acc st of
      None \<Rightarrow> overlong_value (device_fragment env (response_type_of ty) subtype) 2046
    | Some (tries', rc', errs', acc', st') \<Rightarrow> good_next st st' \<and> tries \<le> tries' \<and> tries' \<le> tries + n \<and>
        (rc < 0 \<and> retry \<and> 0 < n \<longrightarrow> tries < tries') \<and>
        read_loop_ok (device_fragment env (response_type_of ty) subtype) tries' rc' errs' acc'"
proof (induction n arbitrary: tries rc retry errs acc st)
  case 0
  then show ?case by (simp add: good_next_refl)
next
  case (Suc n)
  let ?dv = "device_fragment env (response_type_of ty) subtype"
  show ?case
  proof (cases "rc < 0 \<and> retry")
    case False
    then show ?thesis using Suc.prems by (auto simp add: good_next_refl)
  next
    case go: True
    have b: "buffer_ok acc" "buffer_size acc = 2048" "size_increment acc = 0"
      using Suc.prems(2) by (simp_all add: read_loop_ok_def)
    note t = try_multi_part_read_good [where flags = flags and subtype = subtype, OF e Suc.prems(1) ty b]
    show ?thesis
    proof (cases "try_multi_part_read env ty subtype flags acc st")
      case None
      then show ?thesis using t go by simp
    next
      case (Some x)
      obtain excp acc1 st1 where x: "x = (excp, acc1, st1)" by (cases x)
      define rc1 where "rc1 = (case excp of Some x \<Rightarrow> status_code x | None \<Rightarrow> 0)"
      define errs1 where "errs1 = (case excp of Some x \<Rightarrow> errs @ [rc1] | None \<Rightarrow> errs)"
      have g1: "good_next st st1" and r1: "read_result_ok ?dv 2048 excp acc1" using t Some x by simp_all
      obtain retry2 st2 where a: "after_read_try env adj flags excp rc1 st1 = Some (retry2, st2)" "good_next st1 st2"
        using after_read_try_good [OF e, of st1 adj flags excp rc1] g1 by (auto simp: good_next_def)
      have l: "read_loop_ok ?dv (tries + 1) rc1 errs1 acc1"
        using r1 Suc.prems(2) go
        by (auto simp: read_loop_ok_def read_result_ok_def rc1_def errs1_def split: option.splits)
      have s: "multi_part_read_loop env adj ty subtype flags tries (Suc n) rc retry errs acc st =
          multi_part_read_loop env adj ty subtype flags (tries + 1) n rc1 retry2 errs1 acc1 st2"
        using go a(1) by (cases excp) (simp_all add: Some x Let_def errs1_def rc1_def)
      have "ddc_ok st2" using a(2) by (simp add: good_next_def)
      from Suc.IH [OF this l, of retry2] g1 a(2) show ?thesis
        unfolding s by (auto simp: good_next_def split: option.splits)
    qed
  qed
qed

lemma multi_part_read_good:
  assumes e: "env_ok env" and st: "ddc_ok st" and ty: "is_read_request_type ty"
    and fl: "flag_capabilities flags \<or> flag_table_read flags"
  shows "case multi_part_read_with_retry env adj ty subtype flags st of
      None \<Rightarrow> overlong_value (device_fragment env (response_type_of ty) subtype) 2046
    | Some (err, buf, st') \<Rightarrow> good_next st st' \<and>
        (case buf of
           Some b \<Rightarrow> err = None \<and> value_delivered (device_fragment env (response_type_of ty) subtype) (contents b)
         | None \<Rightarrow> (\<exists>x. err = Some x \<and> status_code x < 0 \<and> causes x \<noteq> [] \<and>
             status_code x = (if limits st ! 2 \<le> length (causes x) then DDCRC_RETRIES else last (causes x))))"
proof -
  let ?dv = "device_fragment env (response_type_of ty) subtype"
  let ?m = "limits st ! 2"
  have m: "1 \<le> ?m" "try_data_get_maxtries2 MULTI_PART_READ_OP (try_state st) = ?m"
    using limits_range [OF st, of MULTI_PART_READ_OP] maxtries_limits [OF st] by simp_all
  have i: "read_loop_ok ?dv 0 (-1) [] (buffer_new 2048)"
    by (simp add: read_loop_ok_def)
  note l = multi_part_read_loop_good [where adj = adj and flags = flags and n = ?m and retry = True, OF e ty st i]
  let ?l = "multi_part_read_loop env adj ty subtype flags 0 ?m (-1) True [] (buffer_new 2048) st"
  show ?thesis
  proof (cases ?l)
    case None
    then show ?thesis using l fl by (simp add: multi_part_read_with_retry_def m c_assert_def)
  next
    case (Some x)
    obtain tries rc errs acc st1 where x: "x = (tries, rc, errs, acc, st1)" by (cases x)
    have g: "good_next st st1" and t: "0 < tries" "tries \<le> ?m" and r: "read_loop_ok ?dv tries rc errs acc"
      using l m(1) Some x by simp_all
    define rc1 where "rc1 = (if rc < 0 \<and> tries \<ge> ?m then DDCRC_RETRIES else rc)"
    have "ddc_ok st1" and ls: "limits st1 = limits st" using g by (simp_all add: good_next_def)
    then obtain st2 where s: "record_tries MULTI_PART_READ_OP rc1 tries st1 = Some st2" "good_next st1 st2"
      using record_tries_good [of st1 rc1 tries MULTI_PART_READ_OP] t by auto
    have "multi_part_read_with_retry env adj ty subtype flags st =
        Some (if rc1 < 0 then Some \<lparr>status_code = rc1, causes = errs\<rparr> else None,
              if rc1 < 0 then None else Some acc, st2)"
      using fl by (simp add: multi_part_read_with_retry_def m c_assert_def Some x s(1) rc1_def [symmetric])
    moreover have "rc1 < 0 \<longleftrightarrow> rc \<noteq> 0" using r by (auto simp: rc1_def read_loop_ok_def split: if_splits)
    ultimately show ?thesis
      using r t good_next_trans [OF g s(2)] by (auto simp: read_loop_ok_def rc1_def split: if_splits)
  qed
qed


section \<open>The packets of a table write\<close>

definition table_write_packet :: "byte \<Rightarrow> nat \<times> byte list \<Rightarrow> DDC_Packet" where
  "table_write_packet feature_code chunk =
     request_packet 0x51 ([DDC_PACKET_TYPE_TABLE_WRITE_REQUEST, feature_code, byte_of_shr16 (fst chunk),
       byte_of (fst chunk)] @ snd chunk) ''try_multi_part_write''"

text \<open>The pieces of a value with their offsets: 28 bytes each, the rest, and an empty one.\<close>

function table_chunks :: "nat \<Rightarrow> byte list \<Rightarrow> (nat \<times> byte list) list" where
  "table_chunks off bs =
     (if bs = [] then [(off, [])] else (off, take 28 bs) # table_chunks (off + length (take 28 bs)) (drop 28 bs))"
  by pat_completeness auto

termination
  by (relation "measure (\<lambda>(off, bs). length bs)") auto

declare table_chunks.simps [simp del]

text \<open>Sending packets one after the other, up to the first error.\<close>

fun send_all ::
    "(DDC_Packet \<Rightarrow> 's \<Rightarrow> (Error_Info option \<times> 's) option) \<Rightarrow> DDC_Packet list \<Rightarrow> 's \<Rightarrow>
     (Error_Info option \<times> 's) option" where
  "send_all send [] st = Some (None, st)"
| "send_all send (p # ps) st = do {
     (err, st) \<leftarrow> send p st;
     (if err = None then send_all send ps st else Some (err, st))
   }"

lemma write_request_packet:
  assumes "length bs \<le> 28"
  shows "create_ddc_multi_part_write_request_packet DDC_PACKET_TYPE_TABLE_WRITE_REQUEST feature_code off bs
    ''try_multi_part_write'' = Some (table_write_packet feature_code (off, bs))"
  using assms by (simp add: create_ddc_multi_part_write_request_packet_def c_assert_def base_request_eq table_write_packet_def)

lemma write_fragments_send_all:
  "write_fragments send feature_code off bs st =
   send_all send (map (table_write_packet feature_code) (table_chunks off bs)) st"
proof (induction off bs arbitrary: st rule: table_chunks.induct)
  case (1 off bs)
  have n: "(if length bs \<le> 28 then length bs else 28) = length (take 28 bs)" by simp
  have d: "take (length (take 28 bs)) bs = take 28 bs" "drop (length (take 28 bs)) bs = drop 28 bs"
    by (simp_all add: min_def)
  have w: "create_ddc_multi_part_write_request_packet DDC_PACKET_TYPE_TABLE_WRITE_REQUEST feature_code off
      (take 28 bs) ''try_multi_part_write'' = Some (table_write_packet feature_code (off, take 28 bs))"
    by (rule write_request_packet) simp
  show ?case
  proof (cases "bs = []")
    case True
    with w show ?thesis
      by (subst write_fragments.simps) (auto simp: table_chunks.simps [of _ "[]"] split: Option.bind_split)
  next
    case False
    then show ?thesis
      unfolding write_fragments.simps [of send feature_code off bs] table_chunks.simps [of off bs] Let_def n d w
      using 1 [OF False] by (auto split: Option.bind_split simp del: length_take)
  qed
qed

lemma table_chunks_parts:
  "concat (map snd (table_chunks off bs)) = bs \<and> last (table_chunks off bs) = (off + length bs, []) \<and>
   (\<forall>(o', c) \<in> set (butlast (table_chunks off bs)). 0 < length c \<and> length c \<le> 28)"
proof (induction off bs rule: table_chunks.induct)
  case (1 off bs)
  have "table_chunks (off + length (take 28 bs)) (drop 28 bs) \<noteq> []" by (simp add: table_chunks.simps)
  with 1 show ?case by (subst (1 2 3) table_chunks.simps) (auto simp: min_def)
qed

section \<open>Properties\<close>



text \<open>C21 (table_write_covers_value): writing a table value sends packets one after the other until the first error; their data are the bytes of the value in order, at most 28 in a packet, and an empty packet ends them.\<close>

theorem table_write_covers_value:
  "try_multi_part_write env feature_code value st =
     send_all (ddc_write_only_with_retry env)
       (map (table_write_packet feature_code) (table_chunks 0 (contents value))) st \<and>
   concat (map snd (table_chunks 0 (contents value))) = contents value \<and>
   last (table_chunks 0 (contents value)) = (length (contents value), []) \<and>
   list_all (\<lambda>(off, c). 0 < length c \<and> length c \<le> 28) (butlast (table_chunks 0 (contents value)))"
  using table_chunks_parts [of 0 "contents value"]
  by (simp add: try_multi_part_write_def write_fragments_send_all list_all_iff)

end
