(* ===== verification/Vcp_Version.thy ===== *)
theory Vcp_Version
  imports C_Text
begin

text \<open>
  MCCS versions, \<^verbatim>\<open>src/src/base/vcp_version.c\<close>: their comparison, which ends abnormally for
  versions that are not valid or not comparable, and their textual form.
\<close>

record DDCA_MCCS_Version_Spec =
  major :: byte
  minor :: byte

definition DDCA_VSPEC_V10 :: DDCA_MCCS_Version_Spec where "DDCA_VSPEC_V10 = \<lparr>major = 1, minor = 0\<rparr>"
definition DDCA_VSPEC_V20 :: DDCA_MCCS_Version_Spec where "DDCA_VSPEC_V20 = \<lparr>major = 2, minor = 0\<rparr>"
definition DDCA_VSPEC_V21 :: DDCA_MCCS_Version_Spec where "DDCA_VSPEC_V21 = \<lparr>major = 2, minor = 1\<rparr>"
definition DDCA_VSPEC_V30 :: DDCA_MCCS_Version_Spec where "DDCA_VSPEC_V30 = \<lparr>major = 3, minor = 0\<rparr>"
definition DDCA_VSPEC_V22 :: DDCA_MCCS_Version_Spec where "DDCA_VSPEC_V22 = \<lparr>major = 2, minor = 2\<rparr>"
definition DDCA_VSPEC_UNKNOWN :: DDCA_MCCS_Version_Spec where "DDCA_VSPEC_UNKNOWN = \<lparr>major = 0, minor = 0\<rparr>"
definition DDCA_VSPEC_UNQUERIED :: DDCA_MCCS_Version_Spec where "DDCA_VSPEC_UNQUERIED = \<lparr>major = 0xff, minor = 0xff\<rparr>"

lemmas vspec_defs = DDCA_VSPEC_V10_def DDCA_VSPEC_V20_def DDCA_VSPEC_V21_def DDCA_VSPEC_V30_def
  DDCA_VSPEC_V22_def DDCA_VSPEC_UNKNOWN_def DDCA_VSPEC_UNQUERIED_def

section \<open>Comparison\<close>

definition vcp_version_eq :: "DDCA_MCCS_Version_Spec \<Rightarrow> DDCA_MCCS_Version_Spec \<Rightarrow> bool" where
  "vcp_version_eq v1 v2 \<longleftrightarrow> major v1 = major v2 \<and> minor v1 = minor v2"

definition vcp_version_is_valid :: "DDCA_MCCS_Version_Spec \<Rightarrow> bool \<Rightarrow> bool" where
  "vcp_version_is_valid vspec allow_unknown \<longleftrightarrow>
     vcp_version_eq vspec DDCA_VSPEC_V10 \<or> vcp_version_eq vspec DDCA_VSPEC_V20 \<or>
     vcp_version_eq vspec DDCA_VSPEC_V21 \<or> vcp_version_eq vspec DDCA_VSPEC_V30 \<or>
     vcp_version_eq vspec DDCA_VSPEC_V22 \<or>
     (allow_unknown \<and> vcp_version_eq vspec DDCA_VSPEC_UNKNOWN)"

definition vcp_version_le :: "DDCA_MCCS_Version_Spec \<Rightarrow> DDCA_MCCS_Version_Spec \<Rightarrow> bool option" where
  "vcp_version_le v1 v2 = do {
     c_assert (vcp_version_is_valid v1 False \<and> vcp_version_is_valid v2 False);
     c_assert (\<not> (vcp_version_eq v1 DDCA_VSPEC_V22 \<and> vcp_version_eq v2 DDCA_VSPEC_V30) \<and>
               \<not> (vcp_version_eq v2 DDCA_VSPEC_V22 \<and> vcp_version_eq v1 DDCA_VSPEC_V30));
     Some (major v1 < major v2 \<or> (major v1 = major v2 \<and> minor v1 \<le> minor v2))
   }"

definition vcp_version_gt :: "DDCA_MCCS_Version_Spec \<Rightarrow> DDCA_MCCS_Version_Spec \<Rightarrow> bool option" where
  "vcp_version_gt v v_min = do { le \<leftarrow> vcp_version_le v v_min; Some (\<not> le) }"

definition vcp_version_lt :: "DDCA_MCCS_Version_Spec \<Rightarrow> DDCA_MCCS_Version_Spec \<Rightarrow> bool option" where
  "vcp_version_lt v1 v2 = vcp_version_gt v2 v1"

section \<open>Text\<close>

definition format_vspec :: "DDCA_MCCS_Version_Spec \<Rightarrow> string" where
  "format_vspec vspec =
     (if vcp_version_eq vspec DDCA_VSPEC_UNQUERIED then ''Unqueried''
      else if vcp_version_eq vspec DDCA_VSPEC_UNKNOWN then ''Unknown''
      else format_d (uint (major vspec)) @ ''.'' @ format_d (uint (minor vspec)))"

text \<open>\<^verbatim>\<open>sscanf(s, "%hhd . %hhd", ...)\<close>, and the checks.\<close>

definition parse_vspec :: "string \<Rightarrow> DDCA_MCCS_Version_Spec" where
  "parse_vspec s =
     (case scan_hhd s of
        None \<Rightarrow> DDCA_VSPEC_UNKNOWN
      | Some (ma, rest) \<Rightarrow>
          (case dropWhile c_isspace rest of
             [] \<Rightarrow> DDCA_VSPEC_UNKNOWN
           | c # rest \<Rightarrow>
               if c \<noteq> CHR ''.'' then DDCA_VSPEC_UNKNOWN
               else
                 (case scan_hhd rest of
                    None \<Rightarrow> DDCA_VSPEC_UNKNOWN
                  | Some (mi, _) \<Rightarrow>
                      if ma > 3 \<or> mi > 2 then DDCA_VSPEC_UNKNOWN else \<lparr>major = ma, minor = mi\<rparr>)))"

section \<open>The order of versions\<close>

text \<open>The five versions; every other pair of numbers ends a comparison.\<close>

lemma vcp_version_eq_iff: "vcp_version_eq v w \<longleftrightarrow> v = w"
  by (cases v; cases w) (auto simp: vcp_version_eq_def)

definition mccs_versions :: "DDCA_MCCS_Version_Spec set" where
  "mccs_versions = {DDCA_VSPEC_V10, DDCA_VSPEC_V20, DDCA_VSPEC_V21, DDCA_VSPEC_V30, DDCA_VSPEC_V22}"

lemma valid_iff: "vcp_version_is_valid v False \<longleftrightarrow> v \<in> mccs_versions"
  by (auto simp: vcp_version_is_valid_def vcp_version_eq_iff mccs_versions_def)



lemma le_None_iff:
  "vcp_version_le v w = None \<longleftrightarrow>
     v \<notin> mccs_versions \<or> w \<notin> mccs_versions \<or> {v, w} = {DDCA_VSPEC_V22, DDCA_VSPEC_V30}"
  by (auto simp: vcp_version_le_def c_assert_def valid_iff vcp_version_eq_iff doubleton_eq_iff vspec_defs)

lemma le_valid:
  "v \<in> mccs_versions \<Longrightarrow> w \<in> mccs_versions \<Longrightarrow> {v, w} \<noteq> {DDCA_VSPEC_V22, DDCA_VSPEC_V30} \<Longrightarrow>
   vcp_version_le v w = Some (major v < major w \<or> (major v = major w \<and> minor v \<le> minor w))"
  by (auto simp: vcp_version_le_def c_assert_def valid_iff vcp_version_eq_iff doubleton_eq_iff vspec_defs)

text \<open>The versions after each version, by the graph in the comment of the source.\<close>

definition successor_of :: "DDCA_MCCS_Version_Spec \<Rightarrow> DDCA_MCCS_Version_Spec \<Rightarrow> bool" where
  "successor_of v w \<longleftrightarrow> (v, w) \<in> {(DDCA_VSPEC_V10, DDCA_VSPEC_V20), (DDCA_VSPEC_V20, DDCA_VSPEC_V21),
     (DDCA_VSPEC_V21, DDCA_VSPEC_V30), (DDCA_VSPEC_V21, DDCA_VSPEC_V22)}"

lemma versions_distinct [simp]:
  "DDCA_VSPEC_V10 \<noteq> DDCA_VSPEC_V20"
  "DDCA_VSPEC_V10 \<noteq> DDCA_VSPEC_V21"
  "DDCA_VSPEC_V10 \<noteq> DDCA_VSPEC_V30"
  "DDCA_VSPEC_V10 \<noteq> DDCA_VSPEC_V22"
  "DDCA_VSPEC_V20 \<noteq> DDCA_VSPEC_V10"
  "DDCA_VSPEC_V20 \<noteq> DDCA_VSPEC_V21"
  "DDCA_VSPEC_V20 \<noteq> DDCA_VSPEC_V30"
  "DDCA_VSPEC_V20 \<noteq> DDCA_VSPEC_V22"
  "DDCA_VSPEC_V21 \<noteq> DDCA_VSPEC_V10"
  "DDCA_VSPEC_V21 \<noteq> DDCA_VSPEC_V20"
  "DDCA_VSPEC_V21 \<noteq> DDCA_VSPEC_V30"
  "DDCA_VSPEC_V21 \<noteq> DDCA_VSPEC_V22"
  "DDCA_VSPEC_V30 \<noteq> DDCA_VSPEC_V10"
  "DDCA_VSPEC_V30 \<noteq> DDCA_VSPEC_V20"
  "DDCA_VSPEC_V30 \<noteq> DDCA_VSPEC_V21"
  "DDCA_VSPEC_V30 \<noteq> DDCA_VSPEC_V22"
  "DDCA_VSPEC_V22 \<noteq> DDCA_VSPEC_V10"
  "DDCA_VSPEC_V22 \<noteq> DDCA_VSPEC_V20"
  "DDCA_VSPEC_V22 \<noteq> DDCA_VSPEC_V21"
  "DDCA_VSPEC_V22 \<noteq> DDCA_VSPEC_V30"
  by (simp_all add: vspec_defs)

lemma le_pairs [simp]:
  "vcp_version_le DDCA_VSPEC_V10 DDCA_VSPEC_V10 = Some True"
  "vcp_version_le DDCA_VSPEC_V10 DDCA_VSPEC_V20 = Some True"
  "vcp_version_le DDCA_VSPEC_V10 DDCA_VSPEC_V21 = Some True"
  "vcp_version_le DDCA_VSPEC_V10 DDCA_VSPEC_V30 = Some True"
  "vcp_version_le DDCA_VSPEC_V10 DDCA_VSPEC_V22 = Some True"
  "vcp_version_le DDCA_VSPEC_V20 DDCA_VSPEC_V10 = Some False"
  "vcp_version_le DDCA_VSPEC_V20 DDCA_VSPEC_V20 = Some True"
  "vcp_version_le DDCA_VSPEC_V20 DDCA_VSPEC_V21 = Some True"
  "vcp_version_le DDCA_VSPEC_V20 DDCA_VSPEC_V30 = Some True"
  "vcp_version_le DDCA_VSPEC_V20 DDCA_VSPEC_V22 = Some True"
  "vcp_version_le DDCA_VSPEC_V21 DDCA_VSPEC_V10 = Some False"
  "vcp_version_le DDCA_VSPEC_V21 DDCA_VSPEC_V20 = Some False"
  "vcp_version_le DDCA_VSPEC_V21 DDCA_VSPEC_V21 = Some True"
  "vcp_version_le DDCA_VSPEC_V21 DDCA_VSPEC_V30 = Some True"
  "vcp_version_le DDCA_VSPEC_V21 DDCA_VSPEC_V22 = Some True"
  "vcp_version_le DDCA_VSPEC_V30 DDCA_VSPEC_V10 = Some False"
  "vcp_version_le DDCA_VSPEC_V30 DDCA_VSPEC_V20 = Some False"
  "vcp_version_le DDCA_VSPEC_V30 DDCA_VSPEC_V21 = Some False"
  "vcp_version_le DDCA_VSPEC_V30 DDCA_VSPEC_V30 = Some True"
  "vcp_version_le DDCA_VSPEC_V30 DDCA_VSPEC_V22 = None"
  "vcp_version_le DDCA_VSPEC_V22 DDCA_VSPEC_V10 = Some False"
  "vcp_version_le DDCA_VSPEC_V22 DDCA_VSPEC_V20 = Some False"
  "vcp_version_le DDCA_VSPEC_V22 DDCA_VSPEC_V21 = Some False"
  "vcp_version_le DDCA_VSPEC_V22 DDCA_VSPEC_V30 = None"
  "vcp_version_le DDCA_VSPEC_V22 DDCA_VSPEC_V22 = Some True"
  by code_simp+

lemma le_SomeD: "vcp_version_le v w = Some b \<Longrightarrow> v \<in> mccs_versions \<and> w \<in> mccs_versions"
  using le_None_iff [of v w] by auto

lemma successor_le: "vcp_version_le u v = Some True \<Longrightarrow> successor_of v w \<Longrightarrow> vcp_version_le u w = Some True"
  by (frule le_SomeD) (auto simp: successor_of_def mccs_versions_def)

lemma le_refl: "v \<in> mccs_versions \<Longrightarrow> vcp_version_le v v = Some True"
  by (auto simp: mccs_versions_def)

lemma path_le: "successor_of\<^sup>*\<^sup>* v w \<Longrightarrow> v \<in> mccs_versions \<Longrightarrow> vcp_version_le v w = Some True"
  by (induction rule: rtranclp_induct) (auto intro: le_refl successor_le)

lemma successor_paths:
  "successor_of\<^sup>*\<^sup>* DDCA_VSPEC_V10 DDCA_VSPEC_V20" "successor_of\<^sup>*\<^sup>* DDCA_VSPEC_V20 DDCA_VSPEC_V21"
  "successor_of\<^sup>*\<^sup>* DDCA_VSPEC_V21 DDCA_VSPEC_V30" "successor_of\<^sup>*\<^sup>* DDCA_VSPEC_V21 DDCA_VSPEC_V22"
  by (rule r_into_rtranclp, simp add: successor_of_def)+

lemma le_path:
  assumes "vcp_version_le v w = Some True"
  shows "successor_of\<^sup>*\<^sup>* v w"
proof -
  note p = successor_paths rtranclp_trans [OF successor_paths(1,2)]
    rtranclp_trans [OF successor_paths(2,3)] rtranclp_trans [OF successor_paths(2,4)]
    rtranclp_trans [OF rtranclp_trans [OF successor_paths(1,2)] successor_paths(3)]
    rtranclp_trans [OF rtranclp_trans [OF successor_paths(1,2)] successor_paths(4)]
  have "v \<in> mccs_versions" "w \<in> mccs_versions"
    using le_SomeD [OF assms] by auto
  then show ?thesis
    using assms p by (auto simp: mccs_versions_def)
qed

text \<open>What is written is read back.\<close>

lemma parse_format:
  assumes v: "major v \<le> 3" "minor v \<le> 2"
  shows "parse_vspec (format_vspec v) = v"
proof (cases "v = DDCA_VSPEC_UNKNOWN")
  case True
  have "parse_vspec ''Unknown'' = DDCA_VSPEC_UNKNOWN" by code_simp
  then show ?thesis unfolding True by (simp add: format_vspec_def vcp_version_eq_iff vspec_defs)
next
  case False
  have u: "v \<noteq> DDCA_VSPEC_UNQUERIED" using v by (auto simp: vspec_defs)
  have less: "unat b < 2 ^ 63" for b :: byte using unat_byte_less [of b] by (rule less_trans) simp
  have f: "format_vspec v = dec_digits (unat (major v)) @ CHR ''.'' # dec_digits (unat (minor v))"
    using False u by (simp add: format_vspec_def vcp_version_eq_iff format_d_def nat_uint_eq)
  have 1: "scan_hhd (dec_digits (unat (major v)) @ CHR ''.'' # dec_digits (unat (minor v))) =
      Some (major v, CHR ''.'' # dec_digits (unat (minor v)))"
    using scan_hhd_dec [OF less, of "CHR ''.'' # dec_digits (unat (minor v))" "major v"] by (simp add: dec_digit_def)
  have 2: "scan_hhd (dec_digits (unat (minor v))) = Some (minor v, [])"
    using scan_hhd_dec [OF less, of "[]" "minor v"] by simp
  show ?thesis
    unfolding f parse_vspec_def 1 using v by (simp add: c_isspace_def 2 not_less)
qed

end
