(* ===== verification/Feature_Metadata.thy ===== *)
theory Feature_Metadata
  imports Vcp_Version Byte_Buffer
begin

text \<open>
  The description of a VCP feature, \<^verbatim>\<open>src/src/base/feature_metadata.c\<close>: flags, tables of value
  names, and the records that hold them, internally and for the API. A table of value names is the
  list of its entries before the terminating entry, whose name is null.
\<close>

section \<open>Flags\<close>

type_synonym DDCA_Feature_Flags = "16 word"

abbreviation DDCA_RO :: DDCA_Feature_Flags where "DDCA_RO \<equiv> 0x0400"
abbreviation DDCA_WO :: DDCA_Feature_Flags where "DDCA_WO \<equiv> 0x0200"
abbreviation DDCA_RW :: DDCA_Feature_Flags where "DDCA_RW \<equiv> 0x0100"
abbreviation DDCA_STD_CONT :: DDCA_Feature_Flags where "DDCA_STD_CONT \<equiv> 0x0080"
abbreviation DDCA_COMPLEX_CONT :: DDCA_Feature_Flags where "DDCA_COMPLEX_CONT \<equiv> 0x0040"
abbreviation DDCA_SIMPLE_NC :: DDCA_Feature_Flags where "DDCA_SIMPLE_NC \<equiv> 0x0020"
abbreviation DDCA_EXTENDED_NC :: DDCA_Feature_Flags where "DDCA_EXTENDED_NC \<equiv> 0x8000"
abbreviation DDCA_COMPLEX_NC :: DDCA_Feature_Flags where "DDCA_COMPLEX_NC \<equiv> 0x0010"
abbreviation DDCA_NC_CONT :: DDCA_Feature_Flags where "DDCA_NC_CONT \<equiv> 0x0800"
abbreviation DDCA_WO_NC :: DDCA_Feature_Flags where "DDCA_WO_NC \<equiv> 0x0008"
abbreviation DDCA_NORMAL_TABLE :: DDCA_Feature_Flags where "DDCA_NORMAL_TABLE \<equiv> 0x0004"
abbreviation DDCA_WO_TABLE :: DDCA_Feature_Flags where "DDCA_WO_TABLE \<equiv> 0x0002"
abbreviation DDCA_DEPRECATED :: DDCA_Feature_Flags where "DDCA_DEPRECATED \<equiv> 0x0001"

definition DDCA_READABLE :: DDCA_Feature_Flags where "DDCA_READABLE = DDCA_RO OR DDCA_RW"
definition DDCA_WRITABLE :: DDCA_Feature_Flags where "DDCA_WRITABLE = DDCA_WO OR DDCA_RW"
definition DDCA_CONT :: DDCA_Feature_Flags where "DDCA_CONT = DDCA_STD_CONT OR DDCA_COMPLEX_CONT"

definition DDCA_NC :: DDCA_Feature_Flags where
  "DDCA_NC = DDCA_EXTENDED_NC OR DDCA_SIMPLE_NC OR DDCA_COMPLEX_NC OR DDCA_WO_NC OR DDCA_NC_CONT"

definition DDCA_NON_TABLE :: DDCA_Feature_Flags where "DDCA_NON_TABLE = DDCA_CONT OR DDCA_NC"
definition DDCA_TABLE :: DDCA_Feature_Flags where "DDCA_TABLE = DDCA_NORMAL_TABLE OR DDCA_WO_TABLE"

text \<open>Global flags, in the same 16 bits: \<open>0x8000\<close> is \<open>DDCA_EXTENDED_NC\<close> among the flags of a version.\<close>

definition DDCA_SYNTHETIC_VCP_FEATURE_TABLE_ENTRY :: DDCA_Feature_Flags where
  "DDCA_SYNTHETIC_VCP_FEATURE_TABLE_ENTRY = 0x8000"

abbreviation DDCA_USER_DEFINED :: DDCA_Feature_Flags where "DDCA_USER_DEFINED \<equiv> 0x4000"
abbreviation DDCA_SYNTHETIC :: DDCA_Feature_Flags where "DDCA_SYNTHETIC \<equiv> 0x2000"
abbreviation DDCA_PERSISTENT_METADATA :: DDCA_Feature_Flags where "DDCA_PERSISTENT_METADATA \<equiv> 0x1000"

definition flag_set :: "DDCA_Feature_Flags \<Rightarrow> DDCA_Feature_Flags \<Rightarrow> bool" where
  "flag_set flags m \<longleftrightarrow> flags AND m \<noteq> 0"

text \<open>The names of the flags, in a buffer of 100 bytes; the last character is removed.\<close>

definition version_flag_names :: "(DDCA_Feature_Flags \<times> string) list" where
  "version_flag_names =
     [(DDCA_RO, ''DDCA_RO|''), (DDCA_WO, ''DDCA_WO|''), (DDCA_RW, ''DDCA_RW|''),
      (DDCA_STD_CONT, ''DDCA_STD_CONT|''), (DDCA_COMPLEX_CONT, ''DDCA_COMPLEX_CONT|''),
      (DDCA_SIMPLE_NC, ''DDCA_SIMPLE_NC|''), (DDCA_EXTENDED_NC, ''DDCA_EXTENDED_NC|''),
      (DDCA_COMPLEX_NC, ''DDCA_COMPLEX_NC|''), (DDCA_NC_CONT, ''DDCA_NC_CONT|''),
      (DDCA_WO_NC, ''DDCA_WO_CONT|''), (DDCA_NORMAL_TABLE, ''DDCA_NORMAL_TABLE|''),
      (DDCA_WO_TABLE, ''DDCA_WO_TABLE|''), (DDCA_DEPRECATED, ''DDCA_DEPRECATED|'')]"

definition global_flag_names :: "(DDCA_Feature_Flags \<times> string) list" where
  "global_flag_names =
     [(DDCA_PERSISTENT_METADATA, ''DDCA_PERSISTENT_METADATA|''),
      (DDCA_SYNTHETIC_VCP_FEATURE_TABLE_ENTRY, ''DDCA_SYNTHETIC_VCP_FEATURE_TABLE_ENTRY|''),
      (DDCA_USER_DEFINED, ''DDCA_USER_DEFINED|''), (DDCA_SYNTHETIC, ''DDCA_SYNTHESIZED|'')]"

definition interpret_flags :: "(DDCA_Feature_Flags \<times> string) list \<Rightarrow> DDCA_Feature_Flags \<Rightarrow> string" where
  "interpret_flags names flags =
     butlast (take 99 (concat (map (\<lambda>(m, s). if flag_set flags m then s else '''') names)))"

definition interpret_ddca_feature_flags_symbolic_t :: "DDCA_Feature_Flags \<Rightarrow> string" where
  "interpret_ddca_feature_flags_symbolic_t flags = interpret_flags (version_flag_names @ global_flag_names) flags"

definition interpret_ddca_global_feature_flags_symbolic_t :: "DDCA_Feature_Flags \<Rightarrow> string" where
  "interpret_ddca_global_feature_flags_symbolic_t flags = interpret_flags global_flag_names flags"

definition interpret_ddca_version_feature_flags_symbolic_t :: "DDCA_Feature_Flags \<Rightarrow> string" where
  "interpret_ddca_version_feature_flags_symbolic_t flags = interpret_flags version_flag_names flags"

section \<open>Tables of value names\<close>

record DDCA_Feature_Value_Entry =
  value_code :: byte
  value_name :: string

definition sl_value :: "byte \<Rightarrow> string \<Rightarrow> DDCA_Feature_Value_Entry" where
  "sl_value code name = \<lparr>value_code = code, value_name = name\<rparr>"

definition sl_value_table_size :: "DDCA_Feature_Value_Entry list option \<Rightarrow> nat" where
  "sl_value_table_size table = (case table of None \<Rightarrow> 0 | Some es \<Rightarrow> length es + 1)"

fun copy_entries :: "DDCA_Feature_Value_Entry list \<Rightarrow> DDCA_Feature_Value_Entry list" where
  "copy_entries [] = []"
| "copy_entries (e # es) = \<lparr>value_code = value_code e, value_name = value_name e\<rparr> # copy_entries es"

definition copy_sl_value_table ::
    "DDCA_Feature_Value_Entry list option \<Rightarrow> DDCA_Feature_Value_Entry list option" where
  "copy_sl_value_table oldtable = (case oldtable of None \<Rightarrow> None | Some es \<Rightarrow> Some (copy_entries es))"

fun sl_value_table_lookup :: "DDCA_Feature_Value_Entry list \<Rightarrow> byte \<Rightarrow> string option" where
  "sl_value_table_lookup [] value_id = None"
| "sl_value_table_lookup (e # es) value_id =
     (if value_code e = value_id then Some (value_name e) else sl_value_table_lookup es value_id)"

section \<open>Values and descriptions\<close>

record Nontable_Vcp_Value =
  nv_code :: byte
  max_value :: nat
  cur_value :: nat
  mh :: byte
  ml :: byte
  sh :: byte
  sl :: byte

text \<open>
  Formatting functions are pointers; they are named here and applied in the theory of the feature
  codes.
\<close>

datatype Format_Normal_Feature_Detail_Function =
    format_feature_detail_debug_sl_sh
  | format_feature_detail_debug_continuous
  | format_feature_detail_debug_bytes
  | format_feature_detail_sl_byte
  | format_feature_detail_sh_sl_bytes
  | format_feature_detail_sl_lookup
  | format_feature_detail_sl_lookup_with_sh
  | format_feature_detail_standard_continuous
  | format_feature_detail_ushort
  | format_feature_detail_x02_new_control_value
  | format_feature_detail_x0b_color_temperature_increment
  | format_feature_detail_x0c_color_temperature_request
  | format_feature_detail_x14_select_color_preset
  | format_feature_detail_x62_audio_speaker_volume
  | format_feature_detail_x72_gamma
  | format_feature_detail_x8d_mute_audio_blank_screen
  | format_feature_detail_x8f_x91_audio_treble_bass
  | format_feature_detail_x93_audio_balance
  | format_feature_detail_xac_horizontal_frequency
  | format_feature_detail_6_axis_hue
  | format_feature_detail_xae_vertical_frequency
  | format_feature_detail_xbe_link_control
  | format_feature_detail_xc0_display_usage_time
  | format_feature_detail_x6c_application_enable_key
  | format_feature_detail_xc8_display_controller_type
  | format_feature_detail_xc9_xdf_version
  | format_feature_detail_xca_osd_button_control
  | format_feature_detail_xce_aux_display_size

datatype Format_Normal_Feature_Detail_Function2 =
    dyn_format_feature_detail_sl_lookup
  | dyn_format_feature_detail_sl_lookup_with_sh

datatype Format_Table_Feature_Detail_Function =
    default_table_feature_detail_function
  | format_feature_detail_x73_lut_size

record Display_Feature_Metadata =
  feature_code :: byte
  vcp_version :: DDCA_MCCS_Version_Spec
  feature_name :: "string option"
  feature_desc :: "string option"
  dfm_sl_values :: "DDCA_Feature_Value_Entry list option"
  global_feature_flags :: DDCA_Feature_Flags
  version_feature_flags :: DDCA_Feature_Flags
  dfm_nontable_formatter :: "Format_Normal_Feature_Detail_Function option"
  dfm_nontable_formatter_sl :: "Format_Normal_Feature_Detail_Function2 option"
  dfm_table_formatter :: "Format_Table_Feature_Detail_Function option"
  dfm_vcp_subsets :: "32 word"
  dfm_vcp_spec_groups :: "16 word"

definition dfm_new :: "byte \<Rightarrow> Display_Feature_Metadata" where
  "dfm_new code =
     \<lparr>feature_code = code, vcp_version = \<lparr>major = 0, minor = 0\<rparr>, feature_name = None, feature_desc = None,
      dfm_sl_values = None, global_feature_flags = 0, version_feature_flags = 0,
      dfm_nontable_formatter = None, dfm_nontable_formatter_sl = None, dfm_table_formatter = None, dfm_vcp_subsets = 0, dfm_vcp_spec_groups = 0\<rparr>"

text \<open>Metadata that a user supplied.\<close>

record Dyn_Feature_Metadata =
  dyn_feature_code :: byte
  dyn_vcp_version :: DDCA_MCCS_Version_Spec
  dyn_feature_name :: "string option"
  dyn_feature_desc :: "string option"
  dyn_sl_values :: "DDCA_Feature_Value_Entry list option"
  dyn_global_feature_flags :: DDCA_Feature_Flags
  dyn_version_feature_flags :: DDCA_Feature_Flags

definition dfm_from_dyn_feature_metadata :: "Dyn_Feature_Metadata \<Rightarrow> Display_Feature_Metadata option" where
  "dfm_from_dyn_feature_metadata dyn_meta = do {
     let dfm = (dfm_new (dyn_feature_code dyn_meta))
           \<lparr>feature_desc := dyn_feature_desc dyn_meta, feature_name := dyn_feature_name dyn_meta\<rparr>;
     c_assert (\<not> flag_set (dyn_global_feature_flags dyn_meta) DDCA_SYNTHETIC);
     c_assert (\<not> flag_set (dyn_global_feature_flags dyn_meta) DDCA_SYNTHETIC_VCP_FEATURE_TABLE_ENTRY);
     c_assert (flag_set (dyn_global_feature_flags dyn_meta) DDCA_USER_DEFINED);
     c_assert (flag_set (dyn_global_feature_flags dyn_meta) DDCA_PERSISTENT_METADATA);
     Some (dfm\<lparr>global_feature_flags := dyn_global_feature_flags dyn_meta,
               version_feature_flags := dyn_version_feature_flags dyn_meta,
               dfm_nontable_formatter := None, dfm_nontable_formatter_sl := None, dfm_table_formatter := None,
               vcp_version := DDCA_VSPEC_UNQUERIED,
               dfm_sl_values := copy_sl_value_table (dyn_sl_values dyn_meta)\<rparr>)
   }"

text \<open>The form the API hands out.\<close>

record DDCA_Feature_Metadata =
  dm_feature_code :: byte
  dm_vcp_version :: DDCA_MCCS_Version_Spec
  dm_feature_flags :: DDCA_Feature_Flags
  dm_sl_values :: "DDCA_Feature_Value_Entry list option"
  dm_feature_name :: "string option"
  dm_feature_desc :: "string option"

definition dfm_to_ddca_feature_metadata :: "Display_Feature_Metadata \<Rightarrow> DDCA_Feature_Metadata" where
  "dfm_to_ddca_feature_metadata dfm =
     \<lparr>dm_feature_code = feature_code dfm,
      dm_vcp_version = vcp_version dfm,
      dm_feature_flags =
        (if flag_set (global_feature_flags dfm) DDCA_PERSISTENT_METADATA
         then version_feature_flags dfm OR DDCA_PERSISTENT_METADATA else version_feature_flags dfm),
      dm_sl_values = copy_sl_value_table (dfm_sl_values dfm),
      dm_feature_name = feature_name dfm,
      dm_feature_desc = feature_desc dfm\<rparr>"

text \<open>What freeing the API's form asserts; \<open>None\<close> is the failed assertion.\<close>

definition free_ddca_feature_metadata :: "DDCA_Feature_Metadata \<Rightarrow> unit option" where
  "free_ddca_feature_metadata metadata = c_assert (\<not> flag_set (dm_feature_flags metadata) DDCA_PERSISTENT_METADATA)"

section \<open>Lemmas\<close>

lemma flag_set_or: "flag_set f (a OR b) \<longleftrightarrow> flag_set f a \<or> flag_set f b"
  by (simp add: flag_set_def bit.conj_disj_distrib or_eq_0_iff)

lemma flag_set_or1: "flag_set (a OR b) m \<longleftrightarrow> flag_set a m \<or> flag_set b m"
  by (simp add: flag_set_def bit.conj_disj_distrib2 or_eq_0_iff)

lemma copy_entries_id: "copy_entries es = es"
  by (induction es) simp_all

lemma copy_sl_value_table_id: "copy_sl_value_table t = t"
  by (cases t) (simp_all add: copy_sl_value_table_def copy_entries_id)

lemma lookup_Some: "sl_value_table_lookup es v = Some s \<Longrightarrow> \<exists>e \<in> set es. value_code e = v \<and> value_name e = s"
  by (induction es) (auto split: if_splits)

lemma lookup_None: "sl_value_table_lookup es v = None \<longleftrightarrow> v \<notin> value_code ` set es"
  by (induction es) auto

lemma lookup_distinct:
  "distinct (map value_code es) \<Longrightarrow> e \<in> set es \<Longrightarrow> sl_value_table_lookup es (value_code e) = Some (value_name e)"
  by (induction es) (auto simp: image_iff)

text \<open>Metadata a user supplied cannot be freed in the form of the API.\<close>

lemma user_defined_metadata_not_freed:
  "dfm_from_dyn_feature_metadata dyn = Some dfm \<Longrightarrow>
   free_ddca_feature_metadata (dfm_to_ddca_feature_metadata dfm) = None"
proof -
  have "(v OR DDCA_PERSISTENT_METADATA) AND DDCA_PERSISTENT_METADATA = DDCA_PERSISTENT_METADATA" for v :: "16 word"
    by (rule bit_word_eqI) (simp add: bit_simps)
  then show "dfm_from_dyn_feature_metadata dyn = Some dfm \<Longrightarrow> ?thesis"
    by (auto simp: dfm_from_dyn_feature_metadata_def free_ddca_feature_metadata_def
        dfm_to_ddca_feature_metadata_def c_assert_def flag_set_def dfm_new_def split: if_splits)
qed

end
