(* ===== verification/Vcp_Values.thy ===== *)
theory Vcp_Values
  imports Feature_Metadata String_Util Ddc_Packets
begin

text \<open>
  Feature values, \<^verbatim>\<open>src/src/vcp/vcp_feature_values.c\<close>: a value is four bytes, or the bytes of
  a table. The value numbers of the continuous form are the same bytes, two by two.
\<close>

datatype DDCA_Vcp_Value_Type = DDCA_NON_TABLE_VCP_VALUE | DDCA_TABLE_VCP_VALUE

record Value_Bytes =
  c_mh :: byte
  c_ml :: byte
  c_sh :: byte
  c_sl :: byte

datatype Vcp_Value_Union = C_nc Value_Bytes | C_table "byte list"

record DDCA_Any_Vcp_Value =
  opcode :: byte
  val :: Vcp_Value_Union

definition value_type :: "DDCA_Any_Vcp_Value \<Rightarrow> DDCA_Vcp_Value_Type" where
  "value_type valrec = (case val valrec of C_nc _ \<Rightarrow> DDCA_NON_TABLE_VCP_VALUE | C_table _ \<Rightarrow> DDCA_TABLE_VCP_VALUE)"

definition VALREC_CUR_VAL :: "Value_Bytes \<Rightarrow> nat" where "VALREC_CUR_VAL v = hi_lo (c_sh v) (c_sl v)"
definition VALREC_MAX_VAL :: "Value_Bytes \<Rightarrow> nat" where "VALREC_MAX_VAL v = hi_lo (c_mh v) (c_ml v)"

definition vcp_value_type_name :: "DDCA_Vcp_Value_Type \<Rightarrow> string" where
  "vcp_value_type_name t = (case t of DDCA_NON_TABLE_VCP_VALUE \<Rightarrow> ''Non Table'' | DDCA_TABLE_VCP_VALUE \<Rightarrow> ''Table'')"

definition vcp_value_type_id :: "DDCA_Vcp_Value_Type \<Rightarrow> string" where
  "vcp_value_type_id t =
     (case t of DDCA_NON_TABLE_VCP_VALUE \<Rightarrow> ''DDCA_NON_TABLE_VCP_VALUE''
      | DDCA_TABLE_VCP_VALUE \<Rightarrow> ''DDCA_TABLE_VCP_VALUE'')"

section \<open>Creation and conversion\<close>

definition create_nontable_vcp_value :: "byte \<Rightarrow> byte \<Rightarrow> byte \<Rightarrow> byte \<Rightarrow> byte \<Rightarrow> DDCA_Any_Vcp_Value" where
  "create_nontable_vcp_value fcode hmax lmax hcur lcur =
     \<lparr>opcode = fcode, val = C_nc \<lparr>c_mh = hmax, c_ml = lmax, c_sh = hcur, c_sl = lcur\<rparr>\<rparr>"

definition create_cont_vcp_value :: "byte \<Rightarrow> nat \<Rightarrow> nat \<Rightarrow> DDCA_Any_Vcp_Value" where
  "create_cont_vcp_value fcode max_val cur_val =
     \<lparr>opcode = fcode,
      val = C_nc \<lparr>c_mh = byte_of_shr8 max_val, c_ml = byte_of max_val,
                 c_sh = byte_of_shr8 cur_val, c_sl = byte_of cur_val\<rparr>\<rparr>"

definition create_table_vcp_value_by_bytes :: "byte \<Rightarrow> byte list \<Rightarrow> DDCA_Any_Vcp_Value" where
  "create_table_vcp_value_by_bytes fcode bytes = \<lparr>opcode = fcode, val = C_table bytes\<rparr>"

definition create_table_vcp_value_by_buffer :: "byte \<Rightarrow> Buffer \<Rightarrow> DDCA_Any_Vcp_Value" where
  "create_table_vcp_value_by_buffer fcode buffer =
     create_table_vcp_value_by_bytes fcode (contents buffer)"

datatype Parsed_Vcp_Response =
    Non_Table_Response Parsed_Nontable_Vcp_Response
  | Table_Response Buffer

definition create_single_vcp_value_by_parsed_vcp_response ::
    "byte \<Rightarrow> Parsed_Vcp_Response \<Rightarrow> DDCA_Any_Vcp_Value option" where
  "create_single_vcp_value_by_parsed_vcp_response feature_id presp =
     (case presp of
        Non_Table_Response r \<Rightarrow> do {
          c_assert (valid_response r);
          c_assert (supported_opcode r);
          c_assert (feature_id = vcp_code r);
          Some (create_nontable_vcp_value feature_id (rmh r) (rml r) (rsh r) (rsl r))
        }
      | Table_Response buf \<Rightarrow> Some (create_table_vcp_value_by_buffer feature_id buf))"

definition single_vcp_value_to_nontable_vcp_value :: "DDCA_Any_Vcp_Value \<Rightarrow> Nontable_Vcp_Value option" where
  "single_vcp_value_to_nontable_vcp_value valrec =
     (case val valrec of
        C_table _ \<Rightarrow> None
      | C_nc v \<Rightarrow>
          Some \<lparr>nv_code = opcode valrec, max_value = VALREC_MAX_VAL v, cur_value = VALREC_CUR_VAL v,
                mh = c_mh v, ml = c_ml v, sh = c_sh v, sl = c_sl v\<rparr>)"

section \<open>A summary in a buffer\<close>

abbreviation SUMMARIZE_SINGLE_VCP_VALUE_BUFFER_SIZE :: nat where
  "SUMMARIZE_SINGLE_VCP_VALUE_BUFFER_SIZE \<equiv> 101"

definition summarize_single_vcp_value_r :: "DDCA_Any_Vcp_Value option \<Rightarrow> nat \<Rightarrow> string option" where
  "summarize_single_vcp_value_r valrec bufsz = do {
     c_assert (bufsz \<ge> SUMMARIZE_SINGLE_VCP_VALUE_BUFFER_SIZE);
     (case valrec of
        None \<Rightarrow> Some []
      | Some valrec \<Rightarrow>
          (case val valrec of
             C_nc v \<Rightarrow>
               Some (snprintf bufsz
                 (''opcode=0x'' @ format_02x (opcode valrec) @ '', mh=0x'' @ format_02x (c_mh v) @
                  '', ml=0x'' @ format_02x (c_ml v) @ '', sh=0x'' @ format_02x (c_sh v) @
                  '', sl=0x'' @ format_02x (c_sl v) @
                  '', max_val='' @ dec_digits (VALREC_MAX_VAL v) @ '' (0x'' @ format_0x 4 (VALREC_MAX_VAL v) @
                  ''), cur_val='' @ dec_digits (VALREC_CUR_VAL v) @ '' (0x'' @ format_0x 4 (VALREC_CUR_VAL v) @ '')''))
           | C_table bytes \<Rightarrow> do {
               let buffer = snprintf bufsz
                 (''opcode=0x'' @ format_02x (opcode valrec) @ '', value_type=Table, bytect='' @
                  dec_digits (length bytes) @ '', ...'');
               buf0 \<leftarrow> hexstring2 bytes None True 0;
               let space_remaining = bufsz - length buffer;
               (if length buf0 < space_remaining then Some (buffer @ buf0)
                else do {
                  c_assert (4 \<le> space_remaining);
                  Some (buffer @ take (space_remaining - 4) buf0 @ ''...'')
                })
             }))
   }"

section \<open>Lemmas\<close>

lemma value_type_simps [simp]:
  "value_type (create_nontable_vcp_value c a b d e) = DDCA_NON_TABLE_VCP_VALUE"
  "value_type (create_cont_vcp_value c m n) = DDCA_NON_TABLE_VCP_VALUE"
  "value_type (create_table_vcp_value_by_bytes c bs) = DDCA_TABLE_VCP_VALUE"
  by (simp_all add: value_type_def create_nontable_vcp_value_def create_cont_vcp_value_def
      create_table_vcp_value_by_bytes_def)

text \<open>A continuous value keeps its numbers.\<close>

lemma cont_value_roundtrip:
  assumes "m < 65536" "n < 65536"
  shows "\<exists>r. single_vcp_value_to_nontable_vcp_value (create_cont_vcp_value c m n) = Some r \<and>
    nv_code r = c \<and> max_value r = m \<and> cur_value r = n"
  using assms
  by (simp add: single_vcp_value_to_nontable_vcp_value_def create_cont_vcp_value_def
      VALREC_MAX_VAL_def VALREC_CUR_VAL_def hi_lo_split)

lemma parsed_response_value:
  "create_single_vcp_value_by_parsed_vcp_response c (Non_Table_Response r) = Some v \<Longrightarrow>
   \<exists>nv. single_vcp_value_to_nontable_vcp_value v = Some nv \<and> nv_code nv = vcp_code r \<and>
     max_value nv = RESPONSE_MAX_VALUE r \<and> cur_value nv = RESPONSE_CUR_VALUE r"
  by (auto simp: create_single_vcp_value_by_parsed_vcp_response_def c_assert_bind_Some
      create_nontable_vcp_value_def single_vcp_value_to_nontable_vcp_value_def
      VALREC_MAX_VAL_def VALREC_CUR_VAL_def RESPONSE_MAX_VALUE_def RESPONSE_CUR_VALUE_def)

lemma length_hex_join:
  "length (hex_join bs sep u) = 2 * length bs + (length bs - 1) * length sep"
  by (induction bs sep u rule: hex_join.induct) (auto simp: byte_to_hs_def Let_def neq_Nil_conv)

lemma hexstring2_total: "hexstring2 bs sep u 0 = Some (hex_join bs (case sep of None \<Rightarrow> [] | Some s \<Rightarrow> s) u)"
  by (simp add: hexstring2_def length_hex_join Let_def)

end
