(* ===== verification/Monitor_Model_Key.thy ===== *)
theory Monitor_Model_Key
  imports String_Util Edid
begin

text \<open>
  The key of a monitor model, \<^verbatim>\<open>src/src/base/monitor_model_key.c\<close>: manufacturer, model name
  and product code, and its textual form \<^verbatim>\<open>MFG-MODEL-PRODUCT_CODE\<close>. The character arrays of
  the key are the C strings they hold.
\<close>

abbreviation EDID_MFG_ID_FIELD_SIZE :: nat where "EDID_MFG_ID_FIELD_SIZE \<equiv> 4"
abbreviation EDID_MODEL_NAME_FIELD_SIZE :: nat where "EDID_MODEL_NAME_FIELD_SIZE \<equiv> 14"

record Monitor_Model_Key =
  mmk_mfg :: string
  mmk_model :: string
  mmk_product :: "16 word"
  mmk_defined :: bool

definition c_isupper :: "char \<Rightarrow> bool" where
  "c_isupper c \<longleftrightarrow> 65 \<le> (of_char c :: nat) \<and> (of_char c :: nat) \<le> 90"

definition c_isalnum :: "char \<Rightarrow> bool" where
  "c_isalnum c \<longleftrightarrow> dec_digit c \<noteq> None \<or> c_isupper c \<or> (97 \<le> (of_char c :: nat) \<and> (of_char c :: nat) \<le> 122)"

definition FIXUP_MODEL_NAME :: "string \<Rightarrow> string" where
  "FIXUP_MODEL_NAME s =
     map (\<lambda>c. if c_isalnum c then c else CHR ''_'') (take EDID_MODEL_NAME_FIELD_SIZE s) @
     drop EDID_MODEL_NAME_FIELD_SIZE s"

text \<open>\<^verbatim>\<open>STRLCPY\<close>, \<^verbatim>\<open>g_strlcpy\<close>.\<close>

definition strlcpy :: "string \<Rightarrow> nat \<Rightarrow> string" where
  "strlcpy s n = take (n - 1) s"

definition mmk_value :: "string \<Rightarrow> string \<Rightarrow> 16 word \<Rightarrow> Monitor_Model_Key option" where
  "mmk_value mfg name pcode = do {
     c_assert (length mfg < EDID_MFG_ID_FIELD_SIZE);
     c_assert (length name < EDID_MODEL_NAME_FIELD_SIZE);
     Some \<lparr>mmk_mfg = strlcpy mfg EDID_MFG_ID_FIELD_SIZE,
           mmk_model = FIXUP_MODEL_NAME (strlcpy name EDID_MODEL_NAME_FIELD_SIZE),
           mmk_product = pcode, mmk_defined = True\<rparr>
   }"

definition mmk_new :: "string \<Rightarrow> string \<Rightarrow> 16 word \<Rightarrow> Monitor_Model_Key option" where
  "mmk_new = mmk_value"

definition mmk_undefined_value :: Monitor_Model_Key where
  "mmk_undefined_value = \<lparr>mmk_mfg = [], mmk_model = [], mmk_product = 0, mmk_defined = False\<rparr>"

definition text_of :: "byte list \<Rightarrow> string" where
  "text_of bs = c_string (map (\<lambda>b. char_of (unat b)) bs)"

definition mmk_value_from_edid :: "Parsed_Edid \<Rightarrow> Monitor_Model_Key" where
  "mmk_value_from_edid edid =
     \<lparr>mmk_mfg = text_of (take EDID_MFG_ID_FIELD_SIZE (mfg_id edid)),
      mmk_model = FIXUP_MODEL_NAME (strlcpy (text_of (model_name edid)) EDID_MODEL_NAME_FIELD_SIZE),
      mmk_product = product_code edid, mmk_defined = True\<rparr>"

definition mmk_new_from_edid :: "Parsed_Edid option \<Rightarrow> Monitor_Model_Key option" where
  "mmk_new_from_edid edid =
     (case edid of
        None \<Rightarrow> None
      | Some edid \<Rightarrow>
          Some \<lparr>mmk_mfg = text_of (take EDID_MFG_ID_FIELD_SIZE (mfg_id edid)),
                mmk_model = FIXUP_MODEL_NAME (text_of (take EDID_MODEL_NAME_FIELD_SIZE (model_name edid))),
                mmk_product = product_code edid, mmk_defined = True\<rparr>)"

section \<open>Text\<close>

text \<open>
  The pattern \<^verbatim>\<open>^([A-Z]{3})-(.{0,13})-([0-9]*)$\<close>. The digits have no hyphen, so the last
  hyphen ends the name, and the match is unique.
\<close>

definition match_mmk :: "string \<Rightarrow> (string \<times> string \<times> string) option" where
  "match_mmk s =
     (let rev_digits = takeWhile (\<lambda>c. dec_digit c \<noteq> None) (rev s);
          rest = drop (length rev_digits) (rev s);
          mfg = take 3 s
      in if rest \<noteq> [] \<and> hd rest = CHR ''-'' \<and> 5 \<le> length rest \<and> list_all c_isupper mfg \<and> s ! 3 = CHR ''-''
            \<and> length rest - 5 \<le> 13
         then Some (mfg, take (length rest - 5) (drop 4 s), rev rev_digits)
         else None)"

definition mmk_value_from_string :: "string \<Rightarrow> Monitor_Model_Key option" where
  "mmk_value_from_string sval =
     (case match_mmk sval of
        None \<Rightarrow> Some mmk_undefined_value
      | Some (mfg, name, product_code_s) \<Rightarrow> do {
          let name = FIXUP_MODEL_NAME name;
          r \<leftarrow> str_to_int (Some product_code_s) 10;
          ival \<leftarrow> r;
          mmk_value mfg name (of_int ival)
        })"

definition mmk_new_from_value :: "Monitor_Model_Key \<Rightarrow> Monitor_Model_Key option" where
  "mmk_new_from_value mmk = (if mmk_defined mmk then Some mmk else None)"

text \<open>The outer \<open>None\<close> is an abnormal end, the inner one the null pointer.\<close>

definition mmk_new_from_string :: "string \<Rightarrow> Monitor_Model_Key option option" where
  "mmk_new_from_string s = do {
     mmk \<leftarrow> mmk_value_from_string s;
     Some (if mmk_defined mmk then mmk_new_from_value mmk else None)
   }"

definition is_valid_mmk :: "string \<Rightarrow> bool option" where
  "is_valid_mmk sval = map_option mmk_defined (mmk_value_from_string sval)"

definition monitor_model_key_eq :: "Monitor_Model_Key \<Rightarrow> Monitor_Model_Key \<Rightarrow> bool" where
  "monitor_model_key_eq mmk1 mmk2 \<longleftrightarrow>
     (\<not> mmk_defined mmk1 \<and> \<not> mmk_defined mmk2) \<or>
     (mmk_defined mmk1 \<and> mmk_defined mmk2 \<and> mmk_product mmk1 = mmk_product mmk2 \<and>
      mmk_mfg mmk1 = mmk_mfg mmk2 \<and> mmk_model mmk1 = mmk_model mmk2)"

definition mmk_model_id_string :: "string \<Rightarrow> string \<Rightarrow> 16 word \<Rightarrow> string" where
  "mmk_model_id_string mfg name pcode =
     mfg @ ''-'' @ FIXUP_MODEL_NAME name @ ''-'' @ dec_digits (unat pcode)"

definition mmk_string :: "Monitor_Model_Key \<Rightarrow> string" where
  "mmk_string mmk = mmk_model_id_string (mmk_mfg mmk) (mmk_model mmk) (mmk_product mmk)"

definition mmk_repr :: "Monitor_Model_Key \<Rightarrow> string" where
  "mmk_repr mmk =
     (if \<not> mmk_defined mmk then ''[Undefined]''
      else snprintf 100 (''['' @ mmk_mfg mmk @ '','' @ mmk_model mmk @ '','' @ dec_digits (unat (mmk_product mmk)) @ '']''))"

section \<open>The text of a key is read back\<close>

lemma match_mmk_text:
  assumes "length mfg = 3" "list_all c_isupper mfg" "length name \<le> 13" "list_all (\<lambda>c. dec_digit c \<noteq> None) ds"
  shows "match_mmk (mfg @ ''-'' @ name @ ''-'' @ ds) = Some (mfg, name, ds)"
proof -
  let ?s = "mfg @ ''-'' @ name @ ''-'' @ ds"
  have tw: "takeWhile (\<lambda>c. dec_digit c \<noteq> None) (rev ?s) = rev ds"
  proof -
    have "rev ?s = rev ds @ CHR ''-'' # rev name @ ''-'' @ rev mfg" by simp
    moreover have "takeWhile (\<lambda>c. dec_digit c \<noteq> None) (rev ds @ CHR ''-'' # x) = rev ds" for x
      using assms(4) by (subst takeWhile_append2) (auto simp: list_all_iff dec_digit_def)
    ultimately show ?thesis by simp
  qed
  obtain a b c where "mfg = [a, b, c]" using assms(1) by (auto simp: numeral_3_eq_3 length_Suc_conv)
  then show ?thesis using assms(2,3) unfolding match_mmk_def Let_def tw by simp
qed

lemma FIXUP_alnum: "list_all (\<lambda>c. c_isalnum c \<or> c = CHR ''_'') s \<Longrightarrow> FIXUP_MODEL_NAME s = s"
proof -
  assume s: "list_all (\<lambda>c. c_isalnum c \<or> c = CHR ''_'') s"
  have "map (\<lambda>c. if c_isalnum c then c else CHR ''_'') t = t" if "set t \<subseteq> set s" for t
    using that s by (intro map_idI) (auto simp: list_all_iff)
  then show ?thesis using set_take_subset [of EDID_MODEL_NAME_FIELD_SIZE s] by (simp add: FIXUP_MODEL_NAME_def)
qed

lemma FIXUP_names: "length s \<le> EDID_MODEL_NAME_FIELD_SIZE \<Longrightarrow> list_all (\<lambda>c. c_isalnum c \<or> c = CHR ''_'') (FIXUP_MODEL_NAME s)"
  by (auto simp: FIXUP_MODEL_NAME_def list_all_iff)

lemma length_FIXUP [simp]: "length (FIXUP_MODEL_NAME s) = length s"
  by (simp add: FIXUP_MODEL_NAME_def)

lemma str_to_int_dec_digits:
  assumes "n < 2 ^ 31"
  shows "str_to_int (Some (dec_digits n)) 10 = Some (Some (int n))"
  using assms by (simp add: str_to_int_def str_to_long_dec_digits)

text \<open>A key, as \<open>mmk_value\<close> makes it.\<close>

definition mmk_ok :: "Monitor_Model_Key \<Rightarrow> bool" where
  "mmk_ok mmk \<longleftrightarrow>
     mmk_defined mmk \<and> length (mmk_mfg mmk) = 3 \<and> list_all c_isupper (mmk_mfg mmk) \<and>
     length (mmk_model mmk) \<le> 13 \<and> list_all (\<lambda>c. c_isalnum c \<or> c = CHR ''_'') (mmk_model mmk)"

text \<open>C27 (mmk_string_roundtrip): The text of a monitor model key with a manufacturer of three capital
  letters and a name of at most 13 letters, digits and underscores is read back as the same key.
\<close>

theorem mmk_string_roundtrip:
  assumes "mmk_ok mmk"
  shows "mmk_value_from_string (mmk_string mmk) = Some mmk"
proof -
  have n: "unat (mmk_product mmk) < 65536" using unsigned_less [of "mmk_product mmk"] by simp
  have m: "match_mmk (mmk_string mmk) = Some (mmk_mfg mmk, mmk_model mmk, dec_digits (unat (mmk_product mmk)))"
    using assms match_mmk_text [of "mmk_mfg mmk" "mmk_model mmk"] dec_digits_all
    by (auto simp: mmk_ok_def mmk_string_def mmk_model_id_string_def FIXUP_alnum list_all_iff)
  have "str_to_int (Some (dec_digits (unat (mmk_product mmk)))) 10 = Some (Some (int (unat (mmk_product mmk))))"
    using n by (intro str_to_int_dec_digits) simp
  then show ?thesis
    using assms unfolding mmk_value_from_string_def m
    by (cases mmk) (simp add: mmk_ok_def mmk_value_def FIXUP_alnum strlcpy_def)
qed

theorem mmk_string_roundtrip_witness:
  "mmk_value_from_string ''DEL-DELL_U3011-16485'' =
     Some \<lparr>mmk_mfg = ''DEL'', mmk_model = ''DELL_U3011'', mmk_product = 16485, mmk_defined = True\<rparr>"
proof -
  let ?mmk = "\<lparr>mmk_mfg = ''DEL'', mmk_model = ''DELL_U3011'', mmk_product = 16485, mmk_defined = True\<rparr>"
  have "list_all c_isupper ''DEL''" "list_all (\<lambda>c. c_isalnum c \<or> c = CHR ''_'') ''DELL_U3011''" by code_simp+
  then have "mmk_ok ?mmk" by (simp add: mmk_ok_def)
  moreover have "FIXUP_MODEL_NAME ''DELL_U3011'' = ''DELL_U3011''" by code_simp
  then have "mmk_string ?mmk = ''DEL-DELL_U3011-16485''"
    by (simp add: mmk_string_def mmk_model_id_string_def dec_digits.simps) code_simp
  ultimately show ?thesis using mmk_string_roundtrip [of ?mmk] by simp
qed

text \<open>A text without a product code ends the program, as does one whose code is too long.\<close>

lemma mmk_without_product_code: "mmk_value_from_string ''ABC-model-'' = None"
  by code_simp

lemma mmk_product_code_too_long:
  assumes "2 ^ 31 \<le> n" "n < 2 ^ 63"
  shows "mmk_value_from_string (''ABC-m-'' @ dec_digits n) = None"
proof -
  have "match_mmk (''ABC-m-'' @ dec_digits n) = Some (''ABC'', ''m'', dec_digits n)"
    using match_mmk_text [of "''ABC''" "''m''" "dec_digits n"] dec_digits_all
    by (auto simp: list_all_iff c_isupper_def)
  then show ?thesis
    using assms by (simp add: mmk_value_from_string_def str_to_int_def str_to_long_dec_digits)
qed

end
