(* ===== verification/Vcp_Value_Tables.thy ===== *)
theory Vcp_Value_Tables
  imports Feature_Metadata
begin

text \<open>
  The tables of value names of \<^verbatim>\<open>src/src/vcp/vcp_feature_codes.c\<close>, entry by entry as they
  stand there.
\<close>

definition x02_new_control_values :: "DDCA_Feature_Value_Entry list" where
  "x02_new_control_values =
     [sl_value 0x01 ''No new control values'',
      sl_value 0x02 ''One or more new control values have been saved'',
      sl_value 0xff ''No user controls are present'']"

definition x03_soft_controls_values :: "DDCA_Feature_Value_Entry list" where
  "x03_soft_controls_values =
     [sl_value 0x00 ''No button active'',
      sl_value 0x01 ''Button 1 active'',
      sl_value 0x02 ''Button 2 active'',
      sl_value 0x03 ''Button 3 active'',
      sl_value 0x04 ''Button 4 active'',
      sl_value 0x05 ''Button 5 active'',
      sl_value 0x06 ''Button 6 active'',
      sl_value 0x07 ''Button 7 active'',
      sl_value 0xff ''No user controls are present'']"

definition x14_color_preset_absolute_values :: "DDCA_Feature_Value_Entry list" where
  "x14_color_preset_absolute_values =
     [sl_value 0x01 ''sRGB'',
      sl_value 0x02 ''Display Native'',
      sl_value 0x03 ''4000 K'',
      sl_value 0x04 ''5000 K'',
      sl_value 0x05 ''6500 K'',
      sl_value 0x06 ''7500 K'',
      sl_value 0x07 ''8200 K'',
      sl_value 0x08 ''9300 K'',
      sl_value 0x09 ''10000 K'',
      sl_value 0x0a ''11500 K'',
      sl_value 0x0b ''User 1'',
      sl_value 0x0c ''User 2'',
      sl_value 0x0d ''User 3'']"

definition x14_color_preset_tolerances :: "DDCA_Feature_Value_Entry list" where
  "x14_color_preset_tolerances =
     [sl_value 0x00 ''Unspecified'',
      sl_value 0x01 ''1%'',
      sl_value 0x02 ''2%'',
      sl_value 0x03 ''3%'',
      sl_value 0x04 ''4%'',
      sl_value 0x05 ''5%'',
      sl_value 0x06 ''6%'',
      sl_value 0x07 ''7%'',
      sl_value 0x08 ''8%'',
      sl_value 0x09 ''9%'',
      sl_value 0x0a ''10%'']"

definition x1e_x1f_auto_setup_values :: "DDCA_Feature_Value_Entry list" where
  "x1e_x1f_auto_setup_values =
     [sl_value 0x00 ''Auto setup not active'',
      sl_value 0x01 ''Performing auto setup'',
      sl_value 0x02 ''Enable continuous/periodic auto setup'']"

definition x60_v2_input_source_values :: "DDCA_Feature_Value_Entry list" where
  "x60_v2_input_source_values =
     [sl_value 0x01 ''VGA-1'',
      sl_value 0x02 ''VGA-2'',
      sl_value 0x03 ''DVI-1'',
      sl_value 0x04 ''DVI-2'',
      sl_value 0x05 ''Composite video 1'',
      sl_value 0x06 ''Composite video 2'',
      sl_value 0x07 ''S-Video-1'',
      sl_value 0x08 ''S-Video-2'',
      sl_value 0x09 ''Tuner-1'',
      sl_value 0x0a ''Tuner-2'',
      sl_value 0x0b ''Tuner-3'',
      sl_value 0x0c ''Component video (YPrPb/YCrCb) 1'',
      sl_value 0x0d ''Component video (YPrPb/YCrCb) 2'',
      sl_value 0x0e ''Component video (YPrPb/YCrCb) 3'',
      sl_value 0x0f ''DisplayPort-1'',
      sl_value 0x10 ''DisplayPort-2'',
      sl_value 0x11 ''HDMI-1'',
      sl_value 0x12 ''HDMI-2'']"

definition x63_speaker_select_values :: "DDCA_Feature_Value_Entry list" where
  "x63_speaker_select_values =
     [sl_value 0x00 ''Front L/R'',
      sl_value 0x01 ''Side L/R'',
      sl_value 0x02 ''Rear L/R'',
      sl_value 0x03 ''Center/Subwoofer'']"

definition x66_ambient_light_sensor_values :: "DDCA_Feature_Value_Entry list" where
  "x66_ambient_light_sensor_values =
     [sl_value 0x01 ''Disabled'',
      sl_value 0x02 ''Enabled'']"

definition x82_horizontal_flip_values :: "DDCA_Feature_Value_Entry list" where
  "x82_horizontal_flip_values =
     [sl_value 0x00 ''Normal mode'',
      sl_value 0x01 ''Mirrored horizontally mode'']"

definition x84_vertical_flip_values :: "DDCA_Feature_Value_Entry list" where
  "x84_vertical_flip_values =
     [sl_value 0x00 ''Normal mode'',
      sl_value 0x01 ''Mirrored vertically mode'']"

definition x8b_tv_channel_values :: "DDCA_Feature_Value_Entry list" where
  "x8b_tv_channel_values =
     [sl_value 0x01 ''Increment channel'',
      sl_value 0x02 ''Decrement channel'']"

definition x8d_tv_audio_mute_source_values :: "DDCA_Feature_Value_Entry list" where
  "x8d_tv_audio_mute_source_values =
     [sl_value 0x01 ''Mute the audio'',
      sl_value 0x02 ''Unmute the audio'']"

definition x8d_sh_blank_screen_values :: "DDCA_Feature_Value_Entry list" where
  "x8d_sh_blank_screen_values =
     [sl_value 0x01 ''Blank the screen'',
      sl_value 0x02 ''Unblank the screen'']"

definition x86_display_scaling_values :: "DDCA_Feature_Value_Entry list" where
  "x86_display_scaling_values =
     [sl_value 0x01 ''No scaling'',
      sl_value 0x02 ''Max image, no aspect ration distortion'',
      sl_value 0x03 ''Max vertical image, no aspect ratio distortion'',
      sl_value 0x04 ''Max horizontal image, no aspect ratio distortion'',
      sl_value 0x05 ''Max vertical image with aspect ratio distortion'',
      sl_value 0x06 ''Max horizontal image with aspect ratio distortion'',
      sl_value 0x07 ''Linear expansion (compression) on horizontal axis'',
      sl_value 0x08 ''Linear expansion (compression) on h and v axes'',
      sl_value 0x09 ''Squeeze mode'',
      sl_value 0x0a ''Non-linear expansion'']"

definition x87_sharpness_values :: "DDCA_Feature_Value_Entry list" where
  "x87_sharpness_values =
     [sl_value 0x01 ''Filter function 1'',
      sl_value 0x02 ''Filter function 2'',
      sl_value 0x03 ''Filter function 3'',
      sl_value 0x04 ''Filter function 4'']"

definition x94_audio_stereo_mode_values :: "DDCA_Feature_Value_Entry list" where
  "x94_audio_stereo_mode_values =
     [sl_value 0x00 ''Speaker off/Audio not supported'',
      sl_value 0x01 ''Mono'',
      sl_value 0x02 ''Stereo'',
      sl_value 0x03 ''Stereo expanded'',
      sl_value 0x11 ''SRS 2.0'',
      sl_value 0x12 ''SRS 2.1'',
      sl_value 0x13 ''SRS 3.1'',
      sl_value 0x14 ''SRS 4.1'',
      sl_value 0x15 ''SRS 5.1'',
      sl_value 0x16 ''SRS 6.1'',
      sl_value 0x17 ''SRS 7.1'',
      sl_value 0x21 ''Dolby 2.0'',
      sl_value 0x22 ''Dolby 2.1'',
      sl_value 0x23 ''Dolby 3.1'',
      sl_value 0x24 ''Dolby 4.1'',
      sl_value 0x25 ''Dolby 5.1'',
      sl_value 0x26 ''Dolby 6.1'',
      sl_value 0x27 ''Dolby 7.1'',
      sl_value 0x31 ''THX 2.0'',
      sl_value 0x32 ''THX 2.1'',
      sl_value 0x33 ''THX 3.1'',
      sl_value 0x34 ''THX 4.1'',
      sl_value 0x35 ''THX 5.1'',
      sl_value 0x36 ''THX 6.1'',
      sl_value 0x37 ''THX 7.1'']"

definition x99_window_control_values :: "DDCA_Feature_Value_Entry list" where
  "x99_window_control_values =
     [sl_value 0x00 ''No effect'',
      sl_value 0x01 ''Off'',
      sl_value 0x02 ''On'']"

definition xa2_auto_setup_values :: "DDCA_Feature_Value_Entry list" where
  "xa2_auto_setup_values =
     [sl_value 0x01 ''Off'',
      sl_value 0x02 ''On'']"

definition xa5_window_select_values :: "DDCA_Feature_Value_Entry list" where
  "xa5_window_select_values =
     [sl_value 0x00 ''Full display image area selected except active windows'',
      sl_value 0x01 ''Window 1 selected'',
      sl_value 0x02 ''Window 2 selected'',
      sl_value 0x03 ''Window 3 selected'',
      sl_value 0x04 ''Window 4 selected'',
      sl_value 0x05 ''Window 5 selected'',
      sl_value 0x06 ''Window 6 selected'',
      sl_value 0x07 ''Window 7 selected'']"

definition xaa_screen_orientation_values :: "DDCA_Feature_Value_Entry list" where
  "xaa_screen_orientation_values =
     [sl_value 0x01 ''0 degrees'',
      sl_value 0x02 ''90 degrees'',
      sl_value 0x03 ''180 degrees'',
      sl_value 0x04 ''270 degrees'',
      sl_value 0xff ''Display cannot supply orientation'']"

definition xb0_settings_values :: "DDCA_Feature_Value_Entry list" where
  "xb0_settings_values =
     [sl_value 0x01 ''Store current settings in the monitor'',
      sl_value 0x02 ''Restore factory defaults for current mode'']"

definition xb2_flat_panel_subpixel_layout_values :: "DDCA_Feature_Value_Entry list" where
  "xb2_flat_panel_subpixel_layout_values =
     [sl_value 0x00 ''Sub-pixel layout not defined'',
      sl_value 0x01 ''Red/Green/Blue vertical stripe'',
      sl_value 0x02 ''Red/Green/Blue horizontal stripe'',
      sl_value 0x03 ''Blue/Green/Red vertical stripe'',
      sl_value 0x04 ''Blue/Green/Red horizontal stripe'',
      sl_value 0x05 ''Quad pixel, red at top left'',
      sl_value 0x06 ''Quad pixel, red at bottom left'',
      sl_value 0x07 ''Delta (triad)'',
      sl_value 0x08 ''Mosaic'']"

definition xb6_v20_display_technology_type_values :: "DDCA_Feature_Value_Entry list" where
  "xb6_v20_display_technology_type_values =
     [sl_value 0x01 ''CRT (shadow mask)'',
      sl_value 0x02 ''CRT (aperture grill)'',
      sl_value 0x03 ''LCD (active matrix)'',
      sl_value 0x04 ''LCos'',
      sl_value 0x05 ''Plasma'',
      sl_value 0x06 ''OLED'',
      sl_value 0x07 ''EL'',
      sl_value 0x08 ''MEM'']"

definition xb6_display_technology_type_values :: "DDCA_Feature_Value_Entry list" where
  "xb6_display_technology_type_values =
     [sl_value 0x01 ''CRT (shadow mask)'',
      sl_value 0x02 ''CRT (aperture grill)'',
      sl_value 0x03 ''LCD (active matrix)'',
      sl_value 0x04 ''LCos'',
      sl_value 0x05 ''Plasma'',
      sl_value 0x06 ''OLED'',
      sl_value 0x07 ''EL'',
      sl_value 0x08 ''Dynamic MEM'',
      sl_value 0x09 ''Static MEM'']"

definition xc8_display_controller_type_values :: "DDCA_Feature_Value_Entry list" where
  "xc8_display_controller_type_values =
     [sl_value 0x01 ''Conexant'',
      sl_value 0x02 ''Genesis'',
      sl_value 0x03 ''Macronix'',
      sl_value 0x04 ''IDT'',
      sl_value 0x05 ''Mstar'',
      sl_value 0x06 ''Myson'',
      sl_value 0x07 ''Phillips'',
      sl_value 0x08 ''PixelWorks'',
      sl_value 0x09 ''RealTek'',
      sl_value 0x0a ''Sage'',
      sl_value 0x0b ''Silicon Image'',
      sl_value 0x0c ''SmartASIC'',
      sl_value 0x0d ''STMicroelectronics'',
      sl_value 0x0e ''Topro'',
      sl_value 0x0f ''Trumpion'',
      sl_value 0x10 ''Welltrend'',
      sl_value 0x11 ''Samsung'',
      sl_value 0x12 ''Novatek'',
      sl_value 0x13 ''STK'',
      sl_value 0x14 ''Silicon Optics'',
      sl_value 0x15 ''Texas Instruments'',
      sl_value 0x16 ''Analogix'',
      sl_value 0x17 ''Quantum Data'',
      sl_value 0x18 ''NXP Semiconductors'',
      sl_value 0x19 ''Chrontel'',
      sl_value 0x1a ''Parade Technologies'',
      sl_value 0x1b ''THine Electronics'',
      sl_value 0x1c ''Trident'',
      sl_value 0x1d ''Micros'',
      sl_value 0xff ''Not defined - a manufacturer designed controller'']"

definition xca_osd_values :: "DDCA_Feature_Value_Entry list" where
  "xca_osd_values =
     [sl_value 0x01 ''OSD Disabled'',
      sl_value 0x02 ''OSD Enabled'',
      sl_value 0xff ''Display cannot supply this information'']"

definition xca_v22_osd_button_sl_values :: "DDCA_Feature_Value_Entry list" where
  "xca_v22_osd_button_sl_values =
     [sl_value 0x00 ''Host OSD control unsupported'',
      sl_value 0x01 ''OSD disabled, button events enabled'',
      sl_value 0x02 ''OSD enabled, button events enabled'',
      sl_value 0x03 ''OSD disabled, button events disabled'',
      sl_value 0xff ''Display cannot supply this information'']"

definition xca_v22_osd_button_sh_values :: "DDCA_Feature_Value_Entry list" where
  "xca_v22_osd_button_sh_values =
     [sl_value 0x00 ''Host control of power unsupported'',
      sl_value 0x01 ''Power button disabled, power button events enabled'',
      sl_value 0x02 ''Power button enabled, power button events enabled'',
      sl_value 0x03 ''Power button disabled, power button events disabled'']"

definition xcc_osd_language_values :: "DDCA_Feature_Value_Entry list" where
  "xcc_osd_language_values =
     [sl_value 0x00 ''Reserved value, must be ignored'',
      sl_value 0x01 ''Chinese (traditional, Hantai)'',
      sl_value 0x02 ''English'',
      sl_value 0x03 ''French'',
      sl_value 0x04 ''German'',
      sl_value 0x05 ''Italian'',
      sl_value 0x06 ''Japanese'',
      sl_value 0x07 ''Korean'',
      sl_value 0x08 ''Portuguese (Portugal)'',
      sl_value 0x09 ''Russian'',
      sl_value 0x0a ''Spanish'',
      sl_value 0x0b ''Swedish'',
      sl_value 0x0c ''Turkish'',
      sl_value 0x0d ''Chinese (simplified / Kantai)'',
      sl_value 0x0e ''Portuguese (Brazil)'',
      sl_value 0x0f ''Arabic'',
      sl_value 0x10 ''Bulgarian '',
      sl_value 0x11 ''Croatian'',
      sl_value 0x12 ''Czech'',
      sl_value 0x13 ''Danish'',
      sl_value 0x14 ''Dutch'',
      sl_value 0x15 ''Estonian'',
      sl_value 0x16 ''Finnish'',
      sl_value 0x17 ''Greek'',
      sl_value 0x18 ''Hebrew'',
      sl_value 0x19 ''Hindi'',
      sl_value 0x1a ''Hungarian'',
      sl_value 0x1b ''Latvian'',
      sl_value 0x1c ''Lithuanian'',
      sl_value 0x1d ''Norwegian '',
      sl_value 0x1e ''Polish'',
      sl_value 0x1f ''Romanian '',
      sl_value 0x20 ''Serbian'',
      sl_value 0x21 ''Slovak'',
      sl_value 0x22 ''Slovenian'',
      sl_value 0x23 ''Thai'',
      sl_value 0x24 ''Ukranian'',
      sl_value 0x25 ''Vietnamese'']"

definition xd0_v2_output_select_values :: "DDCA_Feature_Value_Entry list" where
  "xd0_v2_output_select_values =
     [sl_value 0x01 ''Analog video (R/G/B) 1'',
      sl_value 0x02 ''Analog video (R/G/B) 2'',
      sl_value 0x03 ''Digital video (TDMS) 1'',
      sl_value 0x04 ''Digital video (TDMS) 22'',
      sl_value 0x05 ''Composite video 1'',
      sl_value 0x06 ''Composite video 2'',
      sl_value 0x07 ''S-Video-1'',
      sl_value 0x08 ''S-Video-2'',
      sl_value 0x09 ''Tuner-1'',
      sl_value 0x0a ''Tuner-2'',
      sl_value 0x0b ''Tuner-3'',
      sl_value 0x0c ''Component video (YPrPb/YCrCb) 1'',
      sl_value 0x0d ''Component video (YPrPb/YCrCb) 2'',
      sl_value 0x0e ''Component video (YPrPb/YCrCb) 3'',
      sl_value 0x0f ''DisplayPort-1'',
      sl_value 0x10 ''DisplayPort-2'',
      sl_value 0x11 ''HDMI-1'',
      sl_value 0x12 ''HDMI-2'']"

definition xd6_power_mode_values :: "DDCA_Feature_Value_Entry list" where
  "xd6_power_mode_values =
     [sl_value 0x01 ''DPM: On,  DPMS: Off'',
      sl_value 0x02 ''DPM: Off, DPMS: Standby'',
      sl_value 0x03 ''DPM: Off, DPMS: Suspend'',
      sl_value 0x04 ''DPM: Off, DPMS: Off'',
      sl_value 0x05 ''Write only value to turn off display'']"

definition xd7_aux_power_output_values :: "DDCA_Feature_Value_Entry list" where
  "xd7_aux_power_output_values =
     [sl_value 0x01 ''Disable auxiliary power'',
      sl_value 0x02 ''Enable Auxiliary power'']"

definition xda_scan_mode_values :: "DDCA_Feature_Value_Entry list" where
  "xda_scan_mode_values =
     [sl_value 0x00 ''Normal operation'',
      sl_value 0x01 ''Underscan'',
      sl_value 0x02 ''Overscan'',
      sl_value 0x03 ''Widescreen'']"

definition xdb_image_mode_values :: "DDCA_Feature_Value_Entry list" where
  "xdb_image_mode_values =
     [sl_value 0x00 ''No effect'',
      sl_value 0x01 ''Full mode'',
      sl_value 0x02 ''Zoom mode'',
      sl_value 0x03 ''Squeeze mode'',
      sl_value 0x04 ''Variable'']"

definition xdc_display_application_values :: "DDCA_Feature_Value_Entry list" where
  "xdc_display_application_values =
     [sl_value 0x00 ''Standard/Default mode'',
      sl_value 0x01 ''Productivity'',
      sl_value 0x02 ''Mixed'',
      sl_value 0x03 ''Movie'',
      sl_value 0x04 ''User defined'',
      sl_value 0x05 ''Games'',
      sl_value 0x06 ''Sports'',
      sl_value 0x07 ''Professional (all signal processing disabled)'',
      sl_value 0x08 ''Standard/Default mode with intermediate power consumption'',
      sl_value 0x09 ''Standard/Default mode with low power consumption'',
      sl_value 0x0a ''Demonstration'',
      sl_value 0xf0 ''Dynamic contrast'']"

definition xde_wo_operation_mode_values :: "DDCA_Feature_Value_Entry list" where
  "xde_wo_operation_mode_values =
     [sl_value 0x01 ''Stand alone'',
      sl_value 0x02 ''Slave (full PC control)'']"

lemmas value_table_defs =
  x02_new_control_values_def
  x03_soft_controls_values_def
  x14_color_preset_absolute_values_def
  x14_color_preset_tolerances_def
  x1e_x1f_auto_setup_values_def
  x60_v2_input_source_values_def
  x63_speaker_select_values_def
  x66_ambient_light_sensor_values_def
  x82_horizontal_flip_values_def
  x84_vertical_flip_values_def
  x8b_tv_channel_values_def
  x8d_tv_audio_mute_source_values_def
  x8d_sh_blank_screen_values_def
  x86_display_scaling_values_def
  x87_sharpness_values_def
  x94_audio_stereo_mode_values_def
  x99_window_control_values_def
  xa2_auto_setup_values_def
  xa5_window_select_values_def
  xaa_screen_orientation_values_def
  xb0_settings_values_def
  xb2_flat_panel_subpixel_layout_values_def
  xb6_v20_display_technology_type_values_def
  xb6_display_technology_type_values_def
  xc8_display_controller_type_values_def
  xca_osd_values_def
  xca_v22_osd_button_sl_values_def
  xca_v22_osd_button_sh_values_def
  xcc_osd_language_values_def
  xd0_v2_output_select_values_def
  xd6_power_mode_values_def
  xd7_aux_power_output_values_def
  xda_scan_mode_values_def
  xdb_image_mode_values_def
  xdc_display_application_values_def
  xde_wo_operation_mode_values_def

end
