(* ===== verification/Vcp_Code_Table.thy ===== *)
theory Vcp_Code_Table
  imports Vcp_Value_Tables
begin

text \<open>
  The master table of feature codes, \<^verbatim>\<open>vcp_code_table\<close> of
  \<^verbatim>\<open>src/src/vcp/vcp_feature_codes.c\<close>: one definition for each entry, with the fields the
  initializer sets, and the table.
\<close>

section \<open>Entries\<close>

abbreviation VCP_SPEC_PRESET :: "16 word" where "VCP_SPEC_PRESET \<equiv> 0x80"
abbreviation VCP_SPEC_IMAGE :: "16 word" where "VCP_SPEC_IMAGE \<equiv> 0x40"
abbreviation VCP_SPEC_CONTROL :: "16 word" where "VCP_SPEC_CONTROL \<equiv> 0x20"
abbreviation VCP_SPEC_GEOMETRY :: "16 word" where "VCP_SPEC_GEOMETRY \<equiv> 0x10"
abbreviation VCP_SPEC_MISC :: "16 word" where "VCP_SPEC_MISC \<equiv> 0x08"
abbreviation VCP_SPEC_AUDIO :: "16 word" where "VCP_SPEC_AUDIO \<equiv> 0x04"
abbreviation VCP_SPEC_DPVL :: "16 word" where "VCP_SPEC_DPVL \<equiv> 0x02"
abbreviation VCP_SPEC_MFG :: "16 word" where "VCP_SPEC_MFG \<equiv> 0x01"
abbreviation VCP_SPEC_WINDOW :: "16 word" where "VCP_SPEC_WINDOW \<equiv> 0x8000"

type_synonym VCP_Feature_Subset = "32 word"

abbreviation VCP_SUBSET_PROFILE :: VCP_Feature_Subset where "VCP_SUBSET_PROFILE \<equiv> 0x40000000"
abbreviation VCP_SUBSET_COLOR :: VCP_Feature_Subset where "VCP_SUBSET_COLOR \<equiv> 0x20000000"
abbreviation VCP_SUBSET_LUT :: VCP_Feature_Subset where "VCP_SUBSET_LUT \<equiv> 0x10000000"
abbreviation VCP_SUBSET_CRT :: VCP_Feature_Subset where "VCP_SUBSET_CRT \<equiv> 0x08000000"
abbreviation VCP_SUBSET_TV :: VCP_Feature_Subset where "VCP_SUBSET_TV \<equiv> 0x04000000"
abbreviation VCP_SUBSET_AUDIO :: VCP_Feature_Subset where "VCP_SUBSET_AUDIO \<equiv> 0x02000000"
abbreviation VCP_SUBSET_WINDOW :: VCP_Feature_Subset where "VCP_SUBSET_WINDOW \<equiv> 0x01000000"
abbreviation VCP_SUBSET_DPVL :: VCP_Feature_Subset where "VCP_SUBSET_DPVL \<equiv> 0x00800000"
abbreviation VCP_SUBSET_PRESET :: VCP_Feature_Subset where "VCP_SUBSET_PRESET \<equiv> 0x00400000"
abbreviation VCP_SUBSET_SCONT :: VCP_Feature_Subset where "VCP_SUBSET_SCONT \<equiv> 0x00100000"
abbreviation VCP_SUBSET_CCONT :: VCP_Feature_Subset where "VCP_SUBSET_CCONT \<equiv> 0x00080000"
abbreviation VCP_SUBSET_CONT :: VCP_Feature_Subset where "VCP_SUBSET_CONT \<equiv> 0x00040000"
abbreviation VCP_SUBSET_SNC :: VCP_Feature_Subset where "VCP_SUBSET_SNC \<equiv> 0x00020000"
abbreviation VCP_SUBSET_CNC :: VCP_Feature_Subset where "VCP_SUBSET_CNC \<equiv> 0x00010000"
abbreviation VCP_SUBSET_NC_WO :: VCP_Feature_Subset where "VCP_SUBSET_NC_WO \<equiv> 0x00008000"
abbreviation VCP_SUBSET_NC_CONT :: VCP_Feature_Subset where "VCP_SUBSET_NC_CONT \<equiv> 0x00004000"
abbreviation VCP_SUBSET_NC :: VCP_Feature_Subset where "VCP_SUBSET_NC \<equiv> 0x00002000"
abbreviation VCP_SUBSET_TABLE :: VCP_Feature_Subset where "VCP_SUBSET_TABLE \<equiv> 0x00001000"
abbreviation VCP_SUBSET_XNC :: VCP_Feature_Subset where "VCP_SUBSET_XNC \<equiv> 0x00000800"
abbreviation VCP_SUBSET_SCAN :: VCP_Feature_Subset where "VCP_SUBSET_SCAN \<equiv> 0x00000040"
abbreviation VCP_SUBSET_KNOWN :: VCP_Feature_Subset where "VCP_SUBSET_KNOWN \<equiv> 0x00000020"
abbreviation VCP_SUBSET_MFG :: VCP_Feature_Subset where "VCP_SUBSET_MFG \<equiv> 0x00000010"
abbreviation VCP_SUBSET_UDF :: VCP_Feature_Subset where "VCP_SUBSET_UDF \<equiv> 0x00000008"
abbreviation VCP_SUBSET_SINGLE_FEATURE :: VCP_Feature_Subset where "VCP_SUBSET_SINGLE_FEATURE \<equiv> 0x00000002"
abbreviation VCP_SUBSET_MULTI_FEATURES :: VCP_Feature_Subset where "VCP_SUBSET_MULTI_FEATURES \<equiv> 0x00000001"
abbreviation VCP_SUBSET_NONE :: VCP_Feature_Subset where "VCP_SUBSET_NONE \<equiv> 0x00000000"

record VCP_Feature_Table_Entry =
  vfte_code :: byte
  vfte_desc :: "string option"
  nontable_formatter :: "Format_Normal_Feature_Detail_Function option"
  table_formatter :: "Format_Table_Feature_Detail_Function option"
  vcp_global_flags :: DDCA_Feature_Flags
  vcp_spec_groups :: "16 word"
  vcp_subsets :: VCP_Feature_Subset
  v20_name :: "string option"
  v21_name :: "string option"
  v30_name :: "string option"
  v22_name :: "string option"
  v20_flags :: DDCA_Feature_Flags
  v21_flags :: DDCA_Feature_Flags
  v30_flags :: DDCA_Feature_Flags
  v22_flags :: DDCA_Feature_Flags
  default_sl_values :: "DDCA_Feature_Value_Entry list option"
  v21_sl_values :: "DDCA_Feature_Value_Entry list option"
  v30_sl_values :: "DDCA_Feature_Value_Entry list option"
  v22_sl_values :: "DDCA_Feature_Value_Entry list option"

text \<open>An entry whose other fields are 0.\<close>

definition vfte :: "byte \<Rightarrow> VCP_Feature_Table_Entry" where
  "vfte vid =
     \<lparr>vfte_code = vid, vfte_desc = None, nontable_formatter = None, table_formatter = None, vcp_global_flags = 0,
      vcp_spec_groups = 0, vcp_subsets = 0, v20_name = None, v21_name = None, v30_name = None,
      v22_name = None, v20_flags = 0, v21_flags = 0, v30_flags = 0, v22_flags = 0,
      default_sl_values = None, v21_sl_values = None, v30_sl_values = None, v22_sl_values = None\<rparr>"

definition vcp_entry_01 :: VCP_Feature_Table_Entry where
  "vcp_entry_01 = (vfte 0x01)
     \<lparr>vcp_spec_groups := VCP_SPEC_MISC,
      vcp_subsets := VCP_SUBSET_CRT,
      vfte_desc := Some ''Causes a CRT to perform a degauss cycle'',
      v20_flags := DDCA_WO OR DDCA_WO_NC,
      v20_name := Some ''Degauss''\<rparr>"

definition vcp_entry_02 :: VCP_Feature_Table_Entry where
  "vcp_entry_02 = (vfte 0x02)
     \<lparr>vcp_spec_groups := VCP_SPEC_MISC,
      nontable_formatter := Some format_feature_detail_x02_new_control_value,
      default_sl_values := Some x02_new_control_values,
      vfte_desc := Some ''Indicates that a display user control (other than power) has been used to change and save (or autosave) a new value.'',
      v20_flags := DDCA_RW OR DDCA_COMPLEX_NC,
      v20_name := Some ''New control value''\<rparr>"

definition vcp_entry_03 :: VCP_Feature_Table_Entry where
  "vcp_entry_03 = (vfte 0x03)
     \<lparr>vcp_spec_groups := VCP_SPEC_MISC,
      default_sl_values := Some x03_soft_controls_values,
      vfte_desc := Some ''Allows display controls to be used as soft keys'',
      v20_flags := DDCA_RW OR DDCA_SIMPLE_NC,
      v20_name := Some ''Soft controls''\<rparr>"

definition vcp_entry_04 :: VCP_Feature_Table_Entry where
  "vcp_entry_04 = (vfte 0x04)
     \<lparr>vcp_spec_groups := VCP_SPEC_PRESET,
      vfte_desc := Some ''Restore all factory presets including brightness/contrast, geometry, color, and TV defaults.'',
      vcp_subsets := VCP_SUBSET_COLOR,
      v20_flags := DDCA_WO OR DDCA_WO_NC,
      v20_name := Some ''Restore factory defaults''\<rparr>"

definition vcp_entry_05 :: VCP_Feature_Table_Entry where
  "vcp_entry_05 = (vfte 0x05)
     \<lparr>vcp_spec_groups := VCP_SPEC_PRESET,
      vcp_subsets := VCP_SUBSET_COLOR,
      vfte_desc := Some ''Restore factory defaults for brightness and contrast'',
      v20_flags := DDCA_WO OR DDCA_WO_NC,
      v20_name := Some ''Restore factory brightness/contrast defaults''\<rparr>"

definition vcp_entry_06 :: VCP_Feature_Table_Entry where
  "vcp_entry_06 = (vfte 0x06)
     \<lparr>vcp_spec_groups := VCP_SPEC_PRESET,
      vfte_desc := Some ''Restore factory defaults for geometry adjustments'',
      v20_flags := DDCA_WO OR DDCA_WO_NC,
      v20_name := Some ''Restore factory geometry defaults''\<rparr>"

definition vcp_entry_08 :: VCP_Feature_Table_Entry where
  "vcp_entry_08 = (vfte 0x08)
     \<lparr>vcp_spec_groups := VCP_SPEC_PRESET,
      vcp_subsets := VCP_SUBSET_COLOR,
      vfte_desc := Some ''Restore factory defaults for color settings.'',
      v20_flags := DDCA_WO OR DDCA_WO_NC,
      v20_name := Some ''Restore color defaults''\<rparr>"

definition vcp_entry_0a :: VCP_Feature_Table_Entry where
  "vcp_entry_0a = (vfte 0x0a)
     \<lparr>vcp_spec_groups := VCP_SPEC_PRESET,
      vcp_subsets := VCP_SUBSET_TV,
      vfte_desc := Some ''Restore factory defaults for TV functions.'',
      v20_flags := DDCA_WO OR DDCA_WO_NC,
      v20_name := Some ''Restore factory TV defaults''\<rparr>"

definition vcp_entry_0b :: VCP_Feature_Table_Entry where
  "vcp_entry_0b = (vfte 0x0b)
     \<lparr>vcp_spec_groups := VCP_SPEC_IMAGE,
      nontable_formatter := Some format_feature_detail_x0b_color_temperature_increment,
      vfte_desc := Some ''Color temperature increment used by feature 0Ch Color Temperature Request'',
      vcp_subsets := VCP_SUBSET_COLOR,
      v20_flags := DDCA_RO OR DDCA_COMPLEX_NC,
      v20_name := Some ''Color temperature increment''\<rparr>"

definition vcp_entry_0c :: VCP_Feature_Table_Entry where
  "vcp_entry_0c = (vfte 0x0c)
     \<lparr>vcp_spec_groups := VCP_SPEC_IMAGE,
      nontable_formatter := Some format_feature_detail_x0c_color_temperature_request,
      vfte_desc := Some ''Specifies a color temperature (degrees Kelvin)'',
      vcp_subsets := VCP_SUBSET_COLOR,
      v20_flags := DDCA_RW OR DDCA_COMPLEX_CONT,
      v20_name := Some ''Color temperature request''\<rparr>"

definition vcp_entry_0e :: VCP_Feature_Table_Entry where
  "vcp_entry_0e = (vfte 0x0e)
     \<lparr>vcp_spec_groups := VCP_SPEC_IMAGE,
      vfte_desc := Some ''Increase/decrease the sampling clock frequency.'',
      v20_flags := DDCA_RW OR DDCA_STD_CONT,
      v20_name := Some ''Clock''\<rparr>"

definition vcp_entry_10 :: VCP_Feature_Table_Entry where
  "vcp_entry_10 = (vfte 0x10)
     \<lparr>vcp_spec_groups := VCP_SPEC_IMAGE,
      vfte_desc := Some ''Increase/decrease the brightness of the image.'',
      vcp_subsets := VCP_SUBSET_COLOR OR VCP_SUBSET_PROFILE,
      v20_flags := DDCA_RW OR DDCA_STD_CONT,
      v20_name := Some ''Brightness'',
      v30_name := Some ''Luminosity''\<rparr>"

definition vcp_entry_11 :: VCP_Feature_Table_Entry where
  "vcp_entry_11 = (vfte 0x11)
     \<lparr>vcp_spec_groups := VCP_SPEC_IMAGE,
      nontable_formatter := Some format_feature_detail_debug_bytes,
      vfte_desc := Some ''Select contrast enhancement algorithm respecting flesh tone region'',
      vcp_subsets := VCP_SUBSET_COLOR,
      v21_flags := DDCA_RW OR DDCA_COMPLEX_NC,
      v21_name := Some ''Flesh tone enhancement''\<rparr>"

definition vcp_entry_12 :: VCP_Feature_Table_Entry where
  "vcp_entry_12 = (vfte 0x12)
     \<lparr>vcp_spec_groups := VCP_SPEC_IMAGE,
      vfte_desc := Some ''Increase/decrease the contrast of the image.'',
      vcp_subsets := VCP_SUBSET_COLOR OR VCP_SUBSET_PROFILE,
      v20_flags := DDCA_RW OR DDCA_STD_CONT,
      v20_name := Some ''Contrast''\<rparr>"

definition vcp_entry_13 :: VCP_Feature_Table_Entry where
  "vcp_entry_13 = (vfte 0x13)
     \<lparr>vcp_spec_groups := VCP_SPEC_IMAGE,
      nontable_formatter := Some format_feature_detail_debug_bytes,
      vfte_desc := Some ''Increase/decrease the specified backlight control value'',
      vcp_subsets := VCP_SUBSET_COLOR OR VCP_SUBSET_PROFILE,
      v21_flags := DDCA_RW OR DDCA_COMPLEX_CONT,
      v21_name := Some ''Backlight control'',
      v22_flags := DDCA_DEPRECATED OR DDCA_RW OR DDCA_COMPLEX_CONT\<rparr>"

definition vcp_entry_14 :: VCP_Feature_Table_Entry where
  "vcp_entry_14 = (vfte 0x14)
     \<lparr>vcp_spec_groups := VCP_SPEC_IMAGE,
      nontable_formatter := Some format_feature_detail_x14_select_color_preset,
      default_sl_values := Some x14_color_preset_absolute_values,
      vfte_desc := Some ''Select a specified color temperature'',
      vcp_subsets := VCP_SUBSET_COLOR OR VCP_SUBSET_PROFILE,
      v20_flags := DDCA_RW OR DDCA_SIMPLE_NC,
      v20_name := Some ''Select color preset'',
      v30_flags := DDCA_RW OR DDCA_COMPLEX_NC,
      v22_flags := DDCA_RW OR DDCA_COMPLEX_NC\<rparr>"

definition vcp_entry_16 :: VCP_Feature_Table_Entry where
  "vcp_entry_16 = (vfte 0x16)
     \<lparr>vcp_spec_groups := VCP_SPEC_IMAGE,
      vfte_desc := Some ''Increase/decrease the luminesence of red pixels'',
      vcp_subsets := VCP_SUBSET_COLOR OR VCP_SUBSET_PROFILE,
      v20_flags := DDCA_RW OR DDCA_STD_CONT,
      v20_name := Some ''Video gain: Red''\<rparr>"

definition vcp_entry_17 :: VCP_Feature_Table_Entry where
  "vcp_entry_17 = (vfte 0x17)
     \<lparr>vcp_spec_groups := VCP_SPEC_IMAGE,
      vfte_desc := Some ''Increase/decrease the degree of compensation'',
      vcp_subsets := VCP_SUBSET_COLOR,
      v21_flags := DDCA_RW OR DDCA_STD_CONT,
      v21_name := Some ''User color vision compensation''\<rparr>"

definition vcp_entry_18 :: VCP_Feature_Table_Entry where
  "vcp_entry_18 = (vfte 0x18)
     \<lparr>vcp_spec_groups := VCP_SPEC_IMAGE,
      vfte_desc := Some ''Increase/decrease the luminesence of green pixels'',
      vcp_subsets := VCP_SUBSET_COLOR OR VCP_SUBSET_PROFILE,
      v20_flags := DDCA_RW OR DDCA_STD_CONT,
      v20_name := Some ''Video gain: Green''\<rparr>"

definition vcp_entry_1a :: VCP_Feature_Table_Entry where
  "vcp_entry_1a = (vfte 0x1a)
     \<lparr>vcp_spec_groups := VCP_SPEC_IMAGE,
      vfte_desc := Some ''Increase/decrease the luminesence of blue pixels'',
      vcp_subsets := VCP_SUBSET_COLOR OR VCP_SUBSET_PROFILE,
      v20_flags := DDCA_RW OR DDCA_STD_CONT,
      v20_name := Some ''Video gain: Blue''\<rparr>"

definition vcp_entry_1c :: VCP_Feature_Table_Entry where
  "vcp_entry_1c = (vfte 0x1c)
     \<lparr>vcp_spec_groups := VCP_SPEC_IMAGE,
      vfte_desc := Some ''Increase/decrease the focus of the image'',
      v20_flags := DDCA_RW OR DDCA_STD_CONT,
      v20_name := Some ''Focus''\<rparr>"

definition vcp_entry_1e :: VCP_Feature_Table_Entry where
  "vcp_entry_1e = (vfte 0x1e)
     \<lparr>vcp_spec_groups := VCP_SPEC_IMAGE,
      default_sl_values := Some x1e_x1f_auto_setup_values,
      vfte_desc := Some ''Perform autosetup function (H/V position, clock, clock phase, A/D converter, etc.'',
      v20_flags := DDCA_RW OR DDCA_SIMPLE_NC,
      v20_name := Some ''Auto setup''\<rparr>"

definition vcp_entry_1f :: VCP_Feature_Table_Entry where
  "vcp_entry_1f = (vfte 0x1f)
     \<lparr>vcp_spec_groups := VCP_SPEC_IMAGE,
      default_sl_values := Some x1e_x1f_auto_setup_values,
      vfte_desc := Some ''Perform color autosetup function (R/G/B gain and offset, A/D setup, etc. '',
      vcp_subsets := VCP_SUBSET_COLOR,
      v21_flags := DDCA_RW OR DDCA_SIMPLE_NC,
      v21_name := Some ''Auto color setup''\<rparr>"

definition vcp_entry_20 :: VCP_Feature_Table_Entry where
  "vcp_entry_20 = (vfte 0x20)
     \<lparr>vcp_spec_groups := VCP_SPEC_GEOMETRY,
      vcp_subsets := VCP_SUBSET_CRT,
      vfte_desc := Some ''Increasing (decreasing) this value moves the image toward the right (left) of the display.'',
      v20_flags := DDCA_RW OR DDCA_STD_CONT,
      v20_name := Some ''Horizontal Position'',
      v21_name := Some ''Horizontal Position (Phase)''\<rparr>"

definition vcp_entry_22 :: VCP_Feature_Table_Entry where
  "vcp_entry_22 = (vfte 0x22)
     \<lparr>vcp_spec_groups := VCP_SPEC_GEOMETRY,
      vcp_subsets := VCP_SUBSET_CRT,
      vfte_desc := Some ''Increase/decrease the width of the image.'',
      v20_name := Some ''Horizontal Size'',
      v20_flags := DDCA_RW OR DDCA_STD_CONT\<rparr>"

definition vcp_entry_24 :: VCP_Feature_Table_Entry where
  "vcp_entry_24 = (vfte 0x24)
     \<lparr>vcp_spec_groups := VCP_SPEC_GEOMETRY,
      vcp_subsets := VCP_SUBSET_CRT,
      vfte_desc := Some ''Increasing (decreasing) this value causes the right and left sides of the image to become more (less) convex.'',
      v20_flags := DDCA_RW OR DDCA_STD_CONT,
      v20_name := Some ''Horizontal Pincushion''\<rparr>"

definition vcp_entry_26 :: VCP_Feature_Table_Entry where
  "vcp_entry_26 = (vfte 0x26)
     \<lparr>vcp_spec_groups := VCP_SPEC_GEOMETRY,
      vcp_subsets := VCP_SUBSET_CRT,
      vfte_desc := Some ''Increasing (decreasing) this value moves the center section of the image toward the right (left) side of the display.'',
      v20_flags := DDCA_RW OR DDCA_STD_CONT,
      v20_name := Some ''Horizontal Pincushion Balance''\<rparr>"

definition vcp_entry_28 :: VCP_Feature_Table_Entry where
  "vcp_entry_28 = (vfte 0x28)
     \<lparr>vcp_spec_groups := VCP_SPEC_GEOMETRY,
      vcp_subsets := VCP_SUBSET_CRT,
      vfte_desc := Some ''Increasing (decreasing) this value shifts the red pixels to the right (left) and the blue pixels left (right) across the image with respect to the green pixels.'',
      v20_flags := DDCA_RW OR DDCA_STD_CONT,
      v20_name := Some ''Horizontal Convergence'',
      v21_name := Some ''Horizontal Convergence R/B''\<rparr>"

definition vcp_entry_29 :: VCP_Feature_Table_Entry where
  "vcp_entry_29 = (vfte 0x29)
     \<lparr>vcp_spec_groups := VCP_SPEC_GEOMETRY,
      vcp_subsets := VCP_SUBSET_CRT,
      vfte_desc := Some ''Increasing (decreasing) this value shifts the magenta pixels to the right (left) and the green pixels left (right) across the image with respect to the magenta (sic) pixels.'',
      v21_name := Some ''Horizontal Convergence M/G'',
      v21_flags := DDCA_RW OR DDCA_STD_CONT\<rparr>"

definition vcp_entry_2a :: VCP_Feature_Table_Entry where
  "vcp_entry_2a = (vfte 0x2a)
     \<lparr>vcp_spec_groups := VCP_SPEC_GEOMETRY,
      vcp_subsets := VCP_SUBSET_CRT,
      vfte_desc := Some ''Increase/decrease the density of pixels in the image center.'',
      v20_flags := DDCA_RW OR DDCA_STD_CONT,
      v20_name := Some ''Horizontal Linearity''\<rparr>"

definition vcp_entry_2c :: VCP_Feature_Table_Entry where
  "vcp_entry_2c = (vfte 0x2c)
     \<lparr>vcp_spec_groups := VCP_SPEC_GEOMETRY,
      vcp_subsets := VCP_SUBSET_CRT,
      vfte_desc := Some ''Increasing (decreasing) this value shifts the density of pixels from the left (right) side to the right (left) side of the image.'',
      v20_flags := DDCA_RW OR DDCA_STD_CONT,
      v20_name := Some ''Horizontal Linearity Balance''\<rparr>"

definition vcp_entry_2e :: VCP_Feature_Table_Entry where
  "vcp_entry_2e = (vfte 0x2e)
     \<lparr>vcp_spec_groups := VCP_SPEC_IMAGE,
      vcp_subsets := VCP_SUBSET_COLOR,
      nontable_formatter := Some format_feature_detail_debug_bytes,
      vfte_desc := Some ''Gray Scale Expansion'',
      v21_flags := DDCA_RW OR DDCA_COMPLEX_NC,
      v21_name := Some ''Gray scale expansion''\<rparr>"

definition vcp_entry_30 :: VCP_Feature_Table_Entry where
  "vcp_entry_30 = (vfte 0x30)
     \<lparr>vcp_spec_groups := VCP_SPEC_GEOMETRY,
      vcp_subsets := VCP_SUBSET_CRT,
      vfte_desc := Some ''Increasing (decreasing) this value moves the image toward the top (bottom) edge of the display.'',
      v20_flags := DDCA_RW OR DDCA_STD_CONT,
      v20_name := Some ''Vertical Position'',
      v21_name := Some ''Vertical Position (Phase)''\<rparr>"

definition vcp_entry_32 :: VCP_Feature_Table_Entry where
  "vcp_entry_32 = (vfte 0x32)
     \<lparr>vcp_spec_groups := VCP_SPEC_GEOMETRY,
      vcp_subsets := VCP_SUBSET_CRT,
      vfte_desc := Some ''Increase/decreasing the height of the image.'',
      v20_flags := DDCA_RW OR DDCA_STD_CONT,
      v20_name := Some ''Vertical Size''\<rparr>"

definition vcp_entry_34 :: VCP_Feature_Table_Entry where
  "vcp_entry_34 = (vfte 0x34)
     \<lparr>vcp_spec_groups := VCP_SPEC_GEOMETRY,
      vcp_subsets := VCP_SUBSET_CRT,
      vfte_desc := Some ''Increasing (decreasing) this value will cause the top and bottom edges of the image to become more (less) convex.'',
      v20_flags := DDCA_RW OR DDCA_STD_CONT,
      v20_name := Some ''Vertical Pincushion''\<rparr>"

definition vcp_entry_36 :: VCP_Feature_Table_Entry where
  "vcp_entry_36 = (vfte 0x36)
     \<lparr>vcp_spec_groups := VCP_SPEC_GEOMETRY,
      vcp_subsets := VCP_SUBSET_CRT,
      vfte_desc := Some ''Increasing (decreasing) this value will move the center section of the image toward the top (bottom) edge of the display.'',
      v20_flags := DDCA_RW OR DDCA_STD_CONT,
      v20_name := Some ''Vertical Pincushion Balance''\<rparr>"

definition vcp_entry_38 :: VCP_Feature_Table_Entry where
  "vcp_entry_38 = (vfte 0x38)
     \<lparr>vcp_spec_groups := VCP_SPEC_GEOMETRY,
      vcp_subsets := VCP_SUBSET_CRT,
      vfte_desc := Some ''Increasing (decreasing) this value shifts the red pixels up (down) across the image and the blue pixels down (up) across the image with respect to the green pixels.'',
      v20_flags := DDCA_RW OR DDCA_STD_CONT,
      v20_name := Some ''Vertical Convergence'',
      v21_name := Some ''Vertical Convergence R/B''\<rparr>"

definition vcp_entry_39 :: VCP_Feature_Table_Entry where
  "vcp_entry_39 = (vfte 0x39)
     \<lparr>vcp_spec_groups := VCP_SPEC_GEOMETRY,
      vcp_subsets := VCP_SUBSET_CRT,
      vfte_desc := Some ''Increasing (decreasing) this value shifts the magenta pixels up (down) across the image and the green pixels down (up) across the image with respect to the magenta (sic) pixels.'',
      v21_name := Some ''Vertical Convergence M/G'',
      v21_flags := DDCA_RW OR DDCA_STD_CONT\<rparr>"

definition vcp_entry_3a :: VCP_Feature_Table_Entry where
  "vcp_entry_3a = (vfte 0x3a)
     \<lparr>vcp_spec_groups := VCP_SPEC_GEOMETRY,
      vcp_subsets := VCP_SUBSET_CRT,
      vfte_desc := Some ''Increase/decease the density of scan lines in the image center.'',
      v20_flags := DDCA_RW OR DDCA_STD_CONT,
      v20_name := Some ''Vertical Linearity''\<rparr>"

definition vcp_entry_3c :: VCP_Feature_Table_Entry where
  "vcp_entry_3c = (vfte 0x3c)
     \<lparr>vcp_spec_groups := VCP_SPEC_GEOMETRY,
      vcp_subsets := VCP_SUBSET_CRT,
      vfte_desc := Some ''Increase/decrease the density of scan lines in the image center.'',
      v20_flags := DDCA_RW OR DDCA_STD_CONT,
      v20_name := Some ''Vertical Linearity Balance''\<rparr>"

definition vcp_entry_3e :: VCP_Feature_Table_Entry where
  "vcp_entry_3e = (vfte 0x3e)
     \<lparr>vcp_spec_groups := VCP_SPEC_IMAGE OR VCP_SPEC_MISC,
      vfte_desc := Some ''Increase/decrease the sampling clock phase shift'',
      v20_flags := DDCA_RW OR DDCA_STD_CONT,
      v20_name := Some ''Clock phase''\<rparr>"

definition vcp_entry_40 :: VCP_Feature_Table_Entry where
  "vcp_entry_40 = (vfte 0x40)
     \<lparr>vcp_spec_groups := VCP_SPEC_GEOMETRY,
      vcp_subsets := VCP_SUBSET_CRT,
      vfte_desc := Some ''Increasing (decreasing) this value shifts the top section of the image to the right (left) with respect to the bottom section of the image.'',
      v20_flags := DDCA_RW OR DDCA_STD_CONT,
      v20_name := Some ''Key Balance'',
      v21_name := Some ''Horizontal Parallelogram''\<rparr>"

definition vcp_entry_41 :: VCP_Feature_Table_Entry where
  "vcp_entry_41 = (vfte 0x41)
     \<lparr>vcp_spec_groups := VCP_SPEC_GEOMETRY,
      vcp_subsets := VCP_SUBSET_CRT,
      vfte_desc := Some ''Increasing (decreasing) this value shifts the top section of the image to the right (left) with respect to the bottom section of the image. (sic)'',
      v21_flags := DDCA_RW OR DDCA_STD_CONT,
      v21_name := Some ''Vertical Parallelogram''\<rparr>"

definition vcp_entry_42 :: VCP_Feature_Table_Entry where
  "vcp_entry_42 = (vfte 0x42)
     \<lparr>vcp_spec_groups := VCP_SPEC_GEOMETRY,
      vcp_subsets := VCP_SUBSET_CRT,
      vfte_desc := Some ''Increasing (decreasing) this value will increase (decrease) the ratio between the horizontal size at the top of the image and the horizontal size at the bottom of the image.'',
      v20_flags := DDCA_RW OR DDCA_STD_CONT,
      v20_name := Some ''Horizontal Trapezoid'',
      v21_name := Some ''Horizontal Keystone''\<rparr>"

definition vcp_entry_43 :: VCP_Feature_Table_Entry where
  "vcp_entry_43 = (vfte 0x43)
     \<lparr>vcp_spec_groups := VCP_SPEC_GEOMETRY,
      vcp_subsets := VCP_SUBSET_CRT,
      vfte_desc := Some ''Increasing (decreasing) this value will increase (decrease) the ratio between the vertical size at the left of the image and the vertical size at the right of the image.'',
      v20_flags := DDCA_RW OR DDCA_STD_CONT,
      v20_name := Some ''Vertical Trapezoid'',
      v21_name := Some ''Vertical Keystone''\<rparr>"

definition vcp_entry_44 :: VCP_Feature_Table_Entry where
  "vcp_entry_44 = (vfte 0x44)
     \<lparr>vcp_spec_groups := VCP_SPEC_GEOMETRY,
      vcp_subsets := VCP_SUBSET_CRT,
      vfte_desc := Some ''Increasing (decreasing) this value rotates the image (counter) clockwise around the center point of the screen.'',
      v20_flags := DDCA_RW OR DDCA_STD_CONT,
      v20_name := Some ''Tilt (rotation)'',
      v21_name := Some ''Rotation''\<rparr>"

definition vcp_entry_46 :: VCP_Feature_Table_Entry where
  "vcp_entry_46 = (vfte 0x46)
     \<lparr>vcp_spec_groups := VCP_SPEC_GEOMETRY,
      vcp_subsets := VCP_SUBSET_CRT,
      vfte_desc := Some ''Increase/decrease the distance between the left and right sides at the top of the image.'',
      v20_flags := DDCA_RW OR DDCA_STD_CONT,
      v20_name := Some ''Top Corner'',
      v21_name := Some ''Top Corner Flare''\<rparr>"

definition vcp_entry_48 :: VCP_Feature_Table_Entry where
  "vcp_entry_48 = (vfte 0x48)
     \<lparr>vcp_spec_groups := VCP_SPEC_GEOMETRY,
      vcp_subsets := VCP_SUBSET_CRT,
      vfte_desc := Some ''Increasing (decreasing) this value moves the top of the image to the right (left).'',
      v20_flags := DDCA_RW OR DDCA_STD_CONT,
      v20_name := Some ''Top Corner Balance'',
      v21_name := Some ''Top Corner Hook''\<rparr>"

definition vcp_entry_4a :: VCP_Feature_Table_Entry where
  "vcp_entry_4a = (vfte 0x4a)
     \<lparr>vcp_spec_groups := VCP_SPEC_GEOMETRY,
      vcp_subsets := VCP_SUBSET_CRT,
      vfte_desc := Some ''Increase/decrease the distance between the left and right sides at the bottom of the image.'',
      v20_flags := DDCA_RW OR DDCA_STD_CONT,
      v20_name := Some ''Bottom Corner'',
      v21_name := Some ''Bottom Corner Flare''\<rparr>"

definition vcp_entry_4c :: VCP_Feature_Table_Entry where
  "vcp_entry_4c = (vfte 0x4c)
     \<lparr>vcp_spec_groups := VCP_SPEC_GEOMETRY,
      vcp_subsets := VCP_SUBSET_CRT,
      vfte_desc := Some ''Increasing (decreasing) this value moves the bottom end of the image to the right (left).'',
      v20_flags := DDCA_RW OR DDCA_STD_CONT,
      v20_name := Some ''Bottom Corner Balance'',
      v21_name := Some ''Bottom Corner Hook''\<rparr>"

definition vcp_entry_52 :: VCP_Feature_Table_Entry where
  "vcp_entry_52 = (vfte 0x52)
     \<lparr>vcp_spec_groups := VCP_SPEC_MISC,
      nontable_formatter := Some format_feature_detail_sl_byte,
      vfte_desc := Some ''Read id of one feature that has changed, 0x00 indicates no more'',
      v20_flags := DDCA_RO OR DDCA_COMPLEX_NC,
      v20_name := Some ''Active control''\<rparr>"

definition vcp_entry_54 :: VCP_Feature_Table_Entry where
  "vcp_entry_54 = (vfte 0x54)
     \<lparr>vcp_spec_groups := VCP_SPEC_MISC,
      nontable_formatter := Some format_feature_detail_debug_bytes,
      vfte_desc := Some ''Controls features aimed at preserving display performance'',
      v21_flags := DDCA_RW OR DDCA_COMPLEX_NC,
      v21_name := Some ''Performance Preservation''\<rparr>"

definition vcp_entry_56 :: VCP_Feature_Table_Entry where
  "vcp_entry_56 = (vfte 0x56)
     \<lparr>vcp_spec_groups := VCP_SPEC_IMAGE,
      vfte_desc := Some ''Increase/decrease horizontal moire cancellation.'',
      v20_flags := DDCA_RW OR DDCA_STD_CONT,
      v20_name := Some ''Horizontal Moire''\<rparr>"

definition vcp_entry_58 :: VCP_Feature_Table_Entry where
  "vcp_entry_58 = (vfte 0x58)
     \<lparr>vcp_spec_groups := VCP_SPEC_IMAGE,
      vfte_desc := Some ''Increase/decrease vertical moire cancellation.'',
      v20_flags := DDCA_RW OR DDCA_STD_CONT,
      v20_name := Some ''Vertical Moire''\<rparr>"

definition vcp_entry_59 :: VCP_Feature_Table_Entry where
  "vcp_entry_59 = (vfte 0x59)
     \<lparr>vcp_spec_groups := VCP_SPEC_IMAGE,
      vcp_subsets := VCP_SUBSET_COLOR,
      vfte_desc := Some ''Increase/decrease red saturation'',
      v21_flags := DDCA_RW OR DDCA_STD_CONT,
      v21_name := Some ''6 axis saturation: Red''\<rparr>"

definition vcp_entry_5a :: VCP_Feature_Table_Entry where
  "vcp_entry_5a = (vfte 0x5a)
     \<lparr>vcp_spec_groups := VCP_SPEC_IMAGE,
      vcp_subsets := VCP_SUBSET_COLOR,
      vfte_desc := Some ''Increase/decrease yellow saturation'',
      v21_flags := DDCA_RW OR DDCA_STD_CONT,
      v21_name := Some ''6 axis saturation: Yellow''\<rparr>"

definition vcp_entry_5b :: VCP_Feature_Table_Entry where
  "vcp_entry_5b = (vfte 0x5b)
     \<lparr>vcp_spec_groups := VCP_SPEC_IMAGE,
      vcp_subsets := VCP_SUBSET_COLOR,
      vfte_desc := Some ''Increase/decrease green saturation'',
      v21_flags := DDCA_RW OR DDCA_STD_CONT,
      v21_name := Some ''6 axis saturation: Green''\<rparr>"

definition vcp_entry_5c :: VCP_Feature_Table_Entry where
  "vcp_entry_5c = (vfte 0x5c)
     \<lparr>vcp_spec_groups := VCP_SPEC_IMAGE,
      vcp_subsets := VCP_SUBSET_COLOR,
      vfte_desc := Some ''Increase/decrease cyan saturation'',
      v21_flags := DDCA_RW OR DDCA_STD_CONT,
      v21_name := Some ''6 axis saturation: Cyan''\<rparr>"

definition vcp_entry_5d :: VCP_Feature_Table_Entry where
  "vcp_entry_5d = (vfte 0x5d)
     \<lparr>vcp_spec_groups := VCP_SPEC_IMAGE,
      vcp_subsets := VCP_SUBSET_COLOR,
      vfte_desc := Some ''Increase/decrease blue saturation'',
      v21_flags := DDCA_RW OR DDCA_STD_CONT,
      v21_name := Some ''6 axis saturation: Blue''\<rparr>"

definition vcp_entry_5e :: VCP_Feature_Table_Entry where
  "vcp_entry_5e = (vfte 0x5e)
     \<lparr>vcp_spec_groups := VCP_SPEC_IMAGE,
      vcp_subsets := VCP_SUBSET_COLOR,
      vfte_desc := Some ''Increase/decrease magenta saturation'',
      v21_flags := DDCA_RW OR DDCA_STD_CONT,
      v21_name := Some ''6 axis saturation: Magenta''\<rparr>"

definition vcp_entry_60 :: VCP_Feature_Table_Entry where
  "vcp_entry_60 = (vfte 0x60)
     \<lparr>vcp_spec_groups := VCP_SPEC_MISC,
      default_sl_values := Some x60_v2_input_source_values,
      vfte_desc := Some ''Selects active video source'',
      v20_flags := DDCA_RW OR DDCA_SIMPLE_NC,
      v20_name := Some ''Input Source'',
      v30_flags := DDCA_RW OR DDCA_NORMAL_TABLE,
      v22_flags := DDCA_RW OR DDCA_SIMPLE_NC\<rparr>"

definition vcp_entry_62 :: VCP_Feature_Table_Entry where
  "vcp_entry_62 = (vfte 0x62)
     \<lparr>vcp_spec_groups := VCP_SPEC_AUDIO,
      vcp_subsets := VCP_SUBSET_AUDIO,
      nontable_formatter := Some format_feature_detail_x62_audio_speaker_volume,
      vfte_desc := Some ''Adjusts speaker volume'',
      v20_flags := DDCA_RW OR DDCA_STD_CONT,
      v30_flags := DDCA_RW OR DDCA_NC_CONT,
      v22_flags := DDCA_RW OR DDCA_NC_CONT,
      v20_name := Some ''Audio speaker volume''\<rparr>"

definition vcp_entry_63 :: VCP_Feature_Table_Entry where
  "vcp_entry_63 = (vfte 0x63)
     \<lparr>vcp_spec_groups := VCP_SPEC_AUDIO,
      vcp_subsets := VCP_SUBSET_AUDIO,
      vfte_desc := Some ''Selects a group of speakers'',
      v21_flags := DDCA_RW OR DDCA_SIMPLE_NC,
      default_sl_values := Some x63_speaker_select_values,
      v21_name := Some ''Speaker Select''\<rparr>"

definition vcp_entry_64 :: VCP_Feature_Table_Entry where
  "vcp_entry_64 = (vfte 0x64)
     \<lparr>vcp_spec_groups := VCP_SPEC_AUDIO,
      vcp_subsets := VCP_SUBSET_AUDIO,
      vfte_desc := Some ''Increase/decrease microphone gain'',
      v20_flags := DDCA_RW OR DDCA_STD_CONT,
      v20_name := Some ''Audio: Microphone Volume''\<rparr>"

definition vcp_entry_66 :: VCP_Feature_Table_Entry where
  "vcp_entry_66 = (vfte 0x66)
     \<lparr>vcp_spec_groups := VCP_SPEC_MISC,
      nontable_formatter := Some format_feature_detail_debug_bytes,
      vfte_desc := Some ''Enable/Disable ambient light sensor'',
      v21_flags := DDCA_RW OR DDCA_SIMPLE_NC,
      v21_name := Some ''Ambient light sensor'',
      default_sl_values := Some x66_ambient_light_sensor_values\<rparr>"

definition vcp_entry_6b :: VCP_Feature_Table_Entry where
  "vcp_entry_6b = (vfte 0x6b)
     \<lparr>vcp_spec_groups := VCP_SPEC_IMAGE,
      vfte_desc := Some ''Increase/decrease the white backlight level'',
      vcp_subsets := VCP_SUBSET_COLOR OR VCP_SUBSET_PROFILE,
      v22_name := Some ''Backlight Level: White'',
      v22_flags := DDCA_RW OR DDCA_STD_CONT\<rparr>"

definition vcp_entry_6c :: VCP_Feature_Table_Entry where
  "vcp_entry_6c = (vfte 0x6c)
     \<lparr>vcp_spec_groups := VCP_SPEC_IMAGE,
      vcp_subsets := VCP_SUBSET_COLOR OR VCP_SUBSET_PROFILE,
      vfte_desc := Some ''Increase/decrease the black level of red pixels'',
      v20_flags := DDCA_RW OR DDCA_STD_CONT,
      v20_name := Some ''Video black level: Red''\<rparr>"

definition vcp_entry_6d :: VCP_Feature_Table_Entry where
  "vcp_entry_6d = (vfte 0x6d)
     \<lparr>vcp_spec_groups := VCP_SPEC_IMAGE,
      vcp_subsets := VCP_SUBSET_COLOR OR VCP_SUBSET_PROFILE,
      vfte_desc := Some ''Increase/decrease the red backlight level'',
      v22_name := Some ''Backlight Level: Red'',
      v22_flags := DDCA_RW OR DDCA_STD_CONT\<rparr>"

definition vcp_entry_6e :: VCP_Feature_Table_Entry where
  "vcp_entry_6e = (vfte 0x6e)
     \<lparr>vcp_spec_groups := VCP_SPEC_IMAGE,
      vcp_subsets := VCP_SUBSET_COLOR OR VCP_SUBSET_PROFILE,
      vfte_desc := Some ''Increase/decrease the black level of green pixels'',
      v20_flags := DDCA_RW OR DDCA_STD_CONT,
      v20_name := Some ''Video black level: Green''\<rparr>"

definition vcp_entry_6f :: VCP_Feature_Table_Entry where
  "vcp_entry_6f = (vfte 0x6f)
     \<lparr>vcp_spec_groups := VCP_SPEC_IMAGE,
      vfte_desc := Some ''Increase/decrease the green backlight level'',
      v22_name := Some ''Backlight Level: Green'',
      vcp_subsets := VCP_SUBSET_COLOR OR VCP_SUBSET_PROFILE,
      v22_flags := DDCA_RW OR DDCA_STD_CONT\<rparr>"

definition vcp_entry_70 :: VCP_Feature_Table_Entry where
  "vcp_entry_70 = (vfte 0x70)
     \<lparr>vcp_spec_groups := VCP_SPEC_IMAGE,
      vfte_desc := Some ''Increase/decrease the black level of blue pixels'',
      vcp_subsets := VCP_SUBSET_COLOR OR VCP_SUBSET_PROFILE,
      v20_flags := DDCA_RW OR DDCA_STD_CONT,
      v20_name := Some ''Video black level: Blue''\<rparr>"

definition vcp_entry_71 :: VCP_Feature_Table_Entry where
  "vcp_entry_71 = (vfte 0x71)
     \<lparr>vcp_spec_groups := VCP_SPEC_IMAGE,
      vfte_desc := Some ''Increase/decrease the blue backlight level'',
      v22_name := Some ''Backlight Level: Blue'',
      vcp_subsets := VCP_SUBSET_COLOR OR VCP_SUBSET_PROFILE,
      v22_flags := DDCA_RW OR DDCA_STD_CONT\<rparr>"

definition vcp_entry_72 :: VCP_Feature_Table_Entry where
  "vcp_entry_72 = (vfte 0x72)
     \<lparr>vcp_spec_groups := VCP_SPEC_IMAGE,
      vcp_subsets := VCP_SUBSET_COLOR,
      vfte_desc := Some ''Select relative or absolute gamma'',
      nontable_formatter := Some format_feature_detail_x72_gamma,
      v21_flags := DDCA_RW OR DDCA_COMPLEX_NC,
      v21_name := Some ''Gamma''\<rparr>"

definition vcp_entry_73 :: VCP_Feature_Table_Entry where
  "vcp_entry_73 = (vfte 0x73)
     \<lparr>vcp_spec_groups := VCP_SPEC_MISC OR VCP_SPEC_IMAGE,
      vcp_subsets := VCP_SUBSET_LUT,
      table_formatter := Some format_feature_detail_x73_lut_size,
      vfte_desc := Some ''Provides the size (number of entries and number of bits/entry) for the Red, Green, and Blue LUT in the display.'',
      v20_flags := DDCA_RO OR DDCA_NORMAL_TABLE,
      v20_name := Some ''LUT Size''\<rparr>"

definition vcp_entry_74 :: VCP_Feature_Table_Entry where
  "vcp_entry_74 = (vfte 0x74)
     \<lparr>vcp_spec_groups := VCP_SPEC_MISC OR VCP_SPEC_IMAGE,
      vcp_subsets := VCP_SUBSET_LUT,
      table_formatter := Some default_table_feature_detail_function,
      vfte_desc := Some (''Writes a single point within the display'' @ [CHR 0x27] @ ''s LUT, reads a single point from the LUT''),
      v20_flags := DDCA_RW OR DDCA_NORMAL_TABLE,
      v20_name := Some ''Single point LUT operation''\<rparr>"

definition vcp_entry_75 :: VCP_Feature_Table_Entry where
  "vcp_entry_75 = (vfte 0x75)
     \<lparr>vcp_spec_groups := VCP_SPEC_MISC OR VCP_SPEC_IMAGE,
      vcp_subsets := VCP_SUBSET_LUT,
      table_formatter := Some default_table_feature_detail_function,
      vfte_desc := Some (''Load (read) multiple values into (from) the display'' @ [CHR 0x27] @ ''s LUT''),
      v20_flags := DDCA_RW OR DDCA_NORMAL_TABLE,
      v20_name := Some ''Block LUT operation''\<rparr>"

definition vcp_entry_76 :: VCP_Feature_Table_Entry where
  "vcp_entry_76 = (vfte 0x76)
     \<lparr>vcp_spec_groups := VCP_SPEC_MISC,
      vcp_subsets := VCP_SUBSET_LUT,
      vfte_desc := Some ''Initiates a routine resident in the display'',
      v20_flags := DDCA_WO OR DDCA_WO_TABLE,
      v20_name := Some ''Remote Procedure Call''\<rparr>"

definition vcp_entry_78 :: VCP_Feature_Table_Entry where
  "vcp_entry_78 = (vfte 0x78)
     \<lparr>vcp_spec_groups := VCP_SPEC_MISC,
      vfte_desc := Some ''Causes a selected 128 byte block of Display Identification Data (EDID or Display ID) to be read'',
      v21_flags := DDCA_RO OR DDCA_NORMAL_TABLE,
      v21_name := Some ''EDID operation'',
      v30_flags := DDCA_RO OR DDCA_NORMAL_TABLE,
      v30_name := Some ''EDID operation'',
      v22_flags := DDCA_RO OR DDCA_NORMAL_TABLE,
      v22_name := Some ''Display Identification Operation''\<rparr>"

definition vcp_entry_7a :: VCP_Feature_Table_Entry where
  "vcp_entry_7a = (vfte 0x7a)
     \<lparr>vcp_spec_groups := VCP_SPEC_IMAGE,
      vfte_desc := Some ''Increase/decrease the distance to the focal plane of the image'',
      v20_flags := DDCA_RW OR DDCA_STD_CONT,
      v20_name := Some ''Adjust Focal Plane'',
      v30_flags := DDCA_DEPRECATED OR DDCA_RW OR DDCA_STD_CONT,
      v22_flags := DDCA_DEPRECATED OR DDCA_RW OR DDCA_STD_CONT\<rparr>"

definition vcp_entry_7c :: VCP_Feature_Table_Entry where
  "vcp_entry_7c = (vfte 0x7c)
     \<lparr>vcp_spec_groups := VCP_SPEC_IMAGE,
      vfte_desc := Some ''Increase/decrease the distance to the zoom function of the projection lens (optics)'',
      v20_flags := DDCA_RW OR DDCA_STD_CONT,
      v20_name := Some ''Adjust Zoom''\<rparr>"

definition vcp_entry_7e :: VCP_Feature_Table_Entry where
  "vcp_entry_7e = (vfte 0x7e)
     \<lparr>vcp_spec_groups := VCP_SPEC_GEOMETRY,
      vcp_subsets := VCP_SUBSET_CRT,
      vfte_desc := Some ''Increase/decrease the trapezoid distortion in the image'',
      v20_flags := DDCA_RW OR DDCA_STD_CONT,
      v30_flags := DDCA_DEPRECATED OR DDCA_RW OR DDCA_STD_CONT,
      v22_flags := DDCA_DEPRECATED OR DDCA_RW OR DDCA_STD_CONT,
      v20_name := Some ''Trapezoid''\<rparr>"

definition vcp_entry_80 :: VCP_Feature_Table_Entry where
  "vcp_entry_80 = (vfte 0x80)
     \<lparr>vcp_spec_groups := VCP_SPEC_GEOMETRY,
      vcp_subsets := VCP_SUBSET_CRT,
      vfte_desc := Some ''Increase/decrease the keystone distortion in the image.'',
      v20_flags := DDCA_RW OR DDCA_STD_CONT,
      v20_name := Some ''Keystone'',
      v21_flags := DDCA_DEPRECATED OR DDCA_RW OR DDCA_STD_CONT\<rparr>"

definition vcp_entry_82 :: VCP_Feature_Table_Entry where
  "vcp_entry_82 = (vfte 0x82)
     \<lparr>vcp_spec_groups := VCP_SPEC_IMAGE OR VCP_SPEC_GEOMETRY,
      default_sl_values := Some x82_horizontal_flip_values,
      vfte_desc := Some ''Flip picture horizontally'',
      v20_flags := DDCA_WO OR DDCA_WO_NC,
      v20_name := Some ''HorFlip'',
      v21_name := Some ''Horizontal Mirror (Flip)'',
      v21_flags := DDCA_RW OR DDCA_SIMPLE_NC,
      v21_sl_values := Some x82_horizontal_flip_values\<rparr>"

definition vcp_entry_84 :: VCP_Feature_Table_Entry where
  "vcp_entry_84 = (vfte 0x84)
     \<lparr>vcp_spec_groups := VCP_SPEC_IMAGE OR VCP_SPEC_GEOMETRY,
      default_sl_values := Some x84_vertical_flip_values,
      vfte_desc := Some ''Flip picture vertically'',
      v20_flags := DDCA_WO OR DDCA_WO_NC,
      v20_name := Some ''VertFlip'',
      v21_name := Some ''Vertical Mirror (Flip)'',
      v21_flags := DDCA_RW OR DDCA_SIMPLE_NC,
      v21_sl_values := Some x84_vertical_flip_values\<rparr>"

definition vcp_entry_86 :: VCP_Feature_Table_Entry where
  "vcp_entry_86 = (vfte 0x86)
     \<lparr>vcp_spec_groups := VCP_SPEC_IMAGE,
      default_sl_values := Some x86_display_scaling_values,
      vfte_desc := Some ''Control the scaling (input vs output) of the display'',
      v20_flags := DDCA_RW OR DDCA_SIMPLE_NC,
      v20_name := Some ''Display Scaling''\<rparr>"

definition vcp_entry_87 :: VCP_Feature_Table_Entry where
  "vcp_entry_87 = (vfte 0x87)
     \<lparr>vcp_spec_groups := VCP_SPEC_IMAGE,
      default_sl_values := Some x87_sharpness_values,
      vfte_desc := Some ''Selects one of a range of algorithms. Increasing (decreasing) the value must increase (decrease) the edge sharpness of image features.'',
      v20_flags := DDCA_RW OR DDCA_SIMPLE_NC,
      v20_name := Some ''Sharpness'',
      v21_flags := DDCA_RW OR DDCA_STD_CONT\<rparr>"

definition vcp_entry_88 :: VCP_Feature_Table_Entry where
  "vcp_entry_88 = (vfte 0x88)
     \<lparr>vcp_spec_groups := VCP_SPEC_MISC OR VCP_SPEC_IMAGE,
      vcp_subsets := VCP_SUBSET_CRT,
      vfte_desc := Some ''Increase (decrease) the velocity modulation of the horizontal scan as a function of the change in luminescence level'',
      v20_flags := DDCA_RW OR DDCA_STD_CONT,
      v20_name := Some ''Velocity Scan Modulation''\<rparr>"

definition vcp_entry_8a :: VCP_Feature_Table_Entry where
  "vcp_entry_8a = (vfte 0x8a)
     \<lparr>vcp_spec_groups := VCP_SPEC_IMAGE,
      vcp_subsets := VCP_SUBSET_TV OR VCP_SUBSET_COLOR,
      vfte_desc := Some ''Increase/decrease the amplitude of the color difference components of the video signal'',
      v20_flags := DDCA_RW OR DDCA_STD_CONT,
      v20_name := Some ''TV Color Saturation'',
      v21_name := Some ''Color Saturation''\<rparr>"

definition vcp_entry_8b :: VCP_Feature_Table_Entry where
  "vcp_entry_8b = (vfte 0x8b)
     \<lparr>vcp_spec_groups := VCP_SPEC_MISC,
      vcp_subsets := VCP_SUBSET_TV,
      vfte_desc := Some ''Increment (1) or decrement (2) television channel'',
      v20_flags := DDCA_WO OR DDCA_WO_NC,
      v20_name := Some ''TV Channel Up/Down'',
      default_sl_values := Some x8b_tv_channel_values\<rparr>"

definition vcp_entry_8c :: VCP_Feature_Table_Entry where
  "vcp_entry_8c = (vfte 0x8c)
     \<lparr>vcp_spec_groups := VCP_SPEC_MISC OR VCP_SPEC_IMAGE,
      vcp_subsets := VCP_SUBSET_TV,
      vfte_desc := Some ''Increase/decrease the amplitude of the high frequency components  of the video signal'',
      v20_flags := DDCA_RW OR DDCA_STD_CONT,
      v20_name := Some ''TV Sharpness''\<rparr>"

definition vcp_entry_8d :: VCP_Feature_Table_Entry where
  "vcp_entry_8d = (vfte 0x8d)
     \<lparr>vcp_spec_groups := VCP_SPEC_MISC,
      vcp_subsets := VCP_SUBSET_TV OR VCP_SUBSET_AUDIO,
      vfte_desc := Some ''Mute/unmute audio, and (v2.2) screen blank'',
      nontable_formatter := Some format_feature_detail_x8d_mute_audio_blank_screen,
      default_sl_values := Some x8d_tv_audio_mute_source_values,
      v20_flags := DDCA_RW OR DDCA_SIMPLE_NC,
      v20_name := Some ''Audio Mute'',
      v22_flags := DDCA_RW OR DDCA_COMPLEX_NC,
      v22_name := Some ''Audio mute/Screen blank''\<rparr>"

definition vcp_entry_8e :: VCP_Feature_Table_Entry where
  "vcp_entry_8e = (vfte 0x8e)
     \<lparr>vcp_spec_groups := VCP_SPEC_MISC,
      vcp_subsets := VCP_SUBSET_TV,
      vfte_desc := Some ''Increase/decrease the ratio between blacks and whites in the image'',
      v20_flags := DDCA_RW OR DDCA_STD_CONT,
      v20_name := Some ''TV Contrast''\<rparr>"

definition vcp_entry_8f :: VCP_Feature_Table_Entry where
  "vcp_entry_8f = (vfte 0x8f)
     \<lparr>vcp_spec_groups := VCP_SPEC_AUDIO,
      vcp_subsets := VCP_SUBSET_AUDIO,
      vfte_desc := Some ''Emphasize/de-emphasize high frequency audio'',
      v20_name := Some ''Audio Treble'',
      nontable_formatter := Some format_feature_detail_x8f_x91_audio_treble_bass,
      v20_flags := DDCA_RW OR DDCA_STD_CONT,
      v30_flags := DDCA_RW OR DDCA_NC_CONT,
      v22_flags := DDCA_RW OR DDCA_NC_CONT\<rparr>"

definition vcp_entry_90 :: VCP_Feature_Table_Entry where
  "vcp_entry_90 = (vfte 0x90)
     \<lparr>vcp_spec_groups := VCP_SPEC_MISC,
      vcp_subsets := VCP_SUBSET_TV OR VCP_SUBSET_COLOR,
      vfte_desc := Some ''Increase/decrease the wavelength of the color component of the video signal. AKA tint.  Applies to currently active interface'',
      v20_flags := DDCA_RW OR DDCA_STD_CONT,
      v20_name := Some ''Hue''\<rparr>"

definition vcp_entry_91 :: VCP_Feature_Table_Entry where
  "vcp_entry_91 = (vfte 0x91)
     \<lparr>vcp_spec_groups := VCP_SPEC_AUDIO,
      vcp_subsets := VCP_SUBSET_AUDIO,
      vfte_desc := Some ''Emphasize/de-emphasize low frequency audio'',
      v20_name := Some ''Audio Bass'',
      nontable_formatter := Some format_feature_detail_x8f_x91_audio_treble_bass,
      v20_flags := DDCA_RW OR DDCA_STD_CONT,
      v30_flags := DDCA_RW OR DDCA_NC_CONT,
      v22_flags := DDCA_RW OR DDCA_NC_CONT\<rparr>"

definition vcp_entry_92 :: VCP_Feature_Table_Entry where
  "vcp_entry_92 = (vfte 0x92)
     \<lparr>vcp_spec_groups := VCP_SPEC_MISC,
      vcp_subsets := VCP_SUBSET_TV,
      vfte_desc := Some ''Increase/decrease the black level of the video'',
      v20_flags := DDCA_RW OR DDCA_STD_CONT,
      v20_name := Some ''TV Black level/Brightness'',
      v21_name := Some ''TV Black level/Luminesence''\<rparr>"

definition vcp_entry_93 :: VCP_Feature_Table_Entry where
  "vcp_entry_93 = (vfte 0x93)
     \<lparr>vcp_spec_groups := VCP_SPEC_AUDIO,
      vcp_subsets := VCP_SUBSET_AUDIO,
      vfte_desc := Some ''Controls left/right audio balance'',
      v20_name := Some ''Audio Balance L/R'',
      nontable_formatter := Some format_feature_detail_x93_audio_balance,
      v20_flags := DDCA_RW OR DDCA_STD_CONT,
      v30_flags := DDCA_RW OR DDCA_NC_CONT,
      v22_flags := DDCA_RW OR DDCA_NC_CONT\<rparr>"

definition vcp_entry_94 :: VCP_Feature_Table_Entry where
  "vcp_entry_94 = (vfte 0x94)
     \<lparr>vcp_spec_groups := VCP_SPEC_AUDIO,
      vcp_subsets := VCP_SUBSET_TV OR VCP_SUBSET_AUDIO,
      vfte_desc := Some ''Select audio mode'',
      v20_name := Some ''Audio Stereo Mode'',
      v21_name := Some ''Audio Processor Mode'',
      v20_flags := DDCA_RW OR DDCA_SIMPLE_NC,
      default_sl_values := Some x94_audio_stereo_mode_values\<rparr>"

definition vcp_entry_95 :: VCP_Feature_Table_Entry where
  "vcp_entry_95 = (vfte 0x95)
     \<lparr>vcp_spec_groups := VCP_SPEC_WINDOW OR VCP_SPEC_GEOMETRY,
      vcp_subsets := VCP_SUBSET_WINDOW,
      vfte_desc := Some ''Top left X pixel of an area of the image'',
      v20_flags := DDCA_RW OR DDCA_STD_CONT,
      v20_name := Some ''Window Position(TL_X)''\<rparr>"

definition vcp_entry_96 :: VCP_Feature_Table_Entry where
  "vcp_entry_96 = (vfte 0x96)
     \<lparr>vcp_spec_groups := VCP_SPEC_WINDOW OR VCP_SPEC_GEOMETRY,
      vcp_subsets := VCP_SUBSET_WINDOW,
      vfte_desc := Some ''Top left Y pixel of an area of the image'',
      v20_flags := DDCA_RW OR DDCA_STD_CONT,
      v20_name := Some ''Window Position(TL_Y)''\<rparr>"

definition vcp_entry_97 :: VCP_Feature_Table_Entry where
  "vcp_entry_97 = (vfte 0x97)
     \<lparr>vcp_spec_groups := VCP_SPEC_WINDOW OR VCP_SPEC_GEOMETRY,
      vcp_subsets := VCP_SUBSET_WINDOW,
      vfte_desc := Some ''Bottom right X pixel of an area of the image'',
      v20_flags := DDCA_RW OR DDCA_STD_CONT,
      v20_name := Some ''Window Position(BR_X)''\<rparr>"

definition vcp_entry_98 :: VCP_Feature_Table_Entry where
  "vcp_entry_98 = (vfte 0x98)
     \<lparr>vcp_spec_groups := VCP_SPEC_WINDOW OR VCP_SPEC_GEOMETRY,
      vcp_subsets := VCP_SUBSET_WINDOW,
      vfte_desc := Some ''Bottom right Y pixel of an area of the image'',
      v20_flags := DDCA_RW OR DDCA_STD_CONT,
      v20_name := Some ''Window Position(BR_Y)''\<rparr>"

definition vcp_entry_99 :: VCP_Feature_Table_Entry where
  "vcp_entry_99 = (vfte 0x99)
     \<lparr>vcp_spec_groups := VCP_SPEC_WINDOW,
      vcp_subsets := VCP_SUBSET_WINDOW,
      default_sl_values := Some x99_window_control_values,
      vfte_desc := Some ''Enables the brightness and color within a window to be different from the desktop.'',
      v20_flags := DDCA_RW OR DDCA_SIMPLE_NC,
      v20_name := Some ''Window control on/off'',
      v22_flags := DDCA_DEPRECATED OR DDCA_RW OR DDCA_SIMPLE_NC,
      v30_flags := DDCA_DEPRECATED OR DDCA_RW OR DDCA_SIMPLE_NC\<rparr>"

definition vcp_entry_9a :: VCP_Feature_Table_Entry where
  "vcp_entry_9a = (vfte 0x9a)
     \<lparr>vcp_spec_groups := VCP_SPEC_IMAGE OR VCP_SPEC_WINDOW,
      vcp_subsets := VCP_SUBSET_WINDOW,
      vfte_desc := Some ''Changes the contrast ratio between the area of the window and the rest of the desktop'',
      v20_flags := DDCA_RW OR DDCA_STD_CONT,
      v20_name := Some ''Window background''\<rparr>"

definition vcp_entry_9b :: VCP_Feature_Table_Entry where
  "vcp_entry_9b = (vfte 0x9b)
     \<lparr>vcp_spec_groups := VCP_SPEC_IMAGE OR VCP_SPEC_WINDOW,
      vcp_subsets := VCP_SUBSET_COLOR OR VCP_SUBSET_PROFILE,
      vfte_desc := Some ''Decrease shifts toward magenta, increase shifts toward yellow'',
      v20_flags := DDCA_RW OR DDCA_STD_CONT,
      v20_name := Some ''6 axis hue control: Red''\<rparr>"

definition vcp_entry_9c :: VCP_Feature_Table_Entry where
  "vcp_entry_9c = (vfte 0x9c)
     \<lparr>vcp_spec_groups := VCP_SPEC_IMAGE OR VCP_SPEC_WINDOW,
      vcp_subsets := VCP_SUBSET_COLOR OR VCP_SUBSET_PROFILE,
      vfte_desc := Some ''Decrease shifts toward green, increase shifts toward red'',
      v20_flags := DDCA_RW OR DDCA_STD_CONT,
      v20_name := Some ''6 axis hue control: Yellow''\<rparr>"

definition vcp_entry_9d :: VCP_Feature_Table_Entry where
  "vcp_entry_9d = (vfte 0x9d)
     \<lparr>vcp_spec_groups := VCP_SPEC_IMAGE OR VCP_SPEC_WINDOW,
      vcp_subsets := VCP_SUBSET_COLOR OR VCP_SUBSET_PROFILE,
      vfte_desc := Some ''Decrease shifts toward yellow, increase shifts toward cyan'',
      v20_flags := DDCA_RW OR DDCA_STD_CONT,
      v20_name := Some ''6 axis hue control: Green''\<rparr>"

definition vcp_entry_9e :: VCP_Feature_Table_Entry where
  "vcp_entry_9e = (vfte 0x9e)
     \<lparr>vcp_spec_groups := VCP_SPEC_IMAGE OR VCP_SPEC_WINDOW,
      vcp_subsets := VCP_SUBSET_COLOR OR VCP_SUBSET_PROFILE,
      vfte_desc := Some ''Decrease shifts toward green, increase shifts toward blue'',
      v20_flags := DDCA_RW OR DDCA_STD_CONT,
      v20_name := Some ''6 axis hue control: Cyan''\<rparr>"

definition vcp_entry_9f :: VCP_Feature_Table_Entry where
  "vcp_entry_9f = (vfte 0x9f)
     \<lparr>vcp_spec_groups := VCP_SPEC_IMAGE OR VCP_SPEC_WINDOW,
      vcp_subsets := VCP_SUBSET_COLOR OR VCP_SUBSET_PROFILE,
      vfte_desc := Some ''Decrease shifts toward cyan, increase shifts toward magenta'',
      v20_flags := DDCA_RW OR DDCA_STD_CONT,
      v20_name := Some ''6 axis hue control: Blue''\<rparr>"

definition vcp_entry_a0 :: VCP_Feature_Table_Entry where
  "vcp_entry_a0 = (vfte 0xa0)
     \<lparr>vcp_spec_groups := VCP_SPEC_IMAGE OR VCP_SPEC_WINDOW,
      vcp_subsets := VCP_SUBSET_COLOR OR VCP_SUBSET_PROFILE,
      v20_flags := DDCA_RW OR DDCA_STD_CONT,
      vfte_desc := Some ''Decrease shifts toward blue, 127 no effect, increase shifts toward red'',
      v20_name := Some ''6 axis hue control: Magenta''\<rparr>"

definition vcp_entry_a2 :: VCP_Feature_Table_Entry where
  "vcp_entry_a2 = (vfte 0xa2)
     \<lparr>vcp_spec_groups := VCP_SPEC_IMAGE,
      vfte_desc := Some ''Turn on/off an auto setup function'',
      default_sl_values := Some xa2_auto_setup_values,
      v20_flags := DDCA_WO OR DDCA_WO_NC,
      v20_name := Some ''Auto setup on/off''\<rparr>"

definition vcp_entry_a4 :: VCP_Feature_Table_Entry where
  "vcp_entry_a4 = (vfte 0xa4)
     \<lparr>vcp_spec_groups := VCP_SPEC_IMAGE,
      vcp_subsets := VCP_SUBSET_WINDOW,
      nontable_formatter := Some format_feature_detail_debug_sl_sh,
      table_formatter := Some default_table_feature_detail_function,
      vfte_desc := Some ''Turn selected window operation on/off, window mask'',
      v20_flags := DDCA_RW OR DDCA_COMPLEX_NC,
      v30_flags := DDCA_RW OR DDCA_NORMAL_TABLE,
      v22_flags := DDCA_RW OR DDCA_NORMAL_TABLE,
      v20_name := Some ''Turn the selected window operation on/off'',
      v30_name := Some ''Window mask control'',
      v22_name := Some ''Window mask control''\<rparr>"

definition vcp_entry_a5 :: VCP_Feature_Table_Entry where
  "vcp_entry_a5 = (vfte 0xa5)
     \<lparr>vcp_spec_groups := VCP_SPEC_IMAGE OR VCP_SPEC_WINDOW,
      vcp_subsets := VCP_SUBSET_WINDOW,
      default_sl_values := Some xa5_window_select_values,
      vfte_desc := Some ''Change selected window (as defined by 95h..98h)'',
      v20_flags := DDCA_RW OR DDCA_SIMPLE_NC,
      v20_name := Some ''Change the selected window''\<rparr>"

definition vcp_entry_aa :: VCP_Feature_Table_Entry where
  "vcp_entry_aa = (vfte 0xaa)
     \<lparr>vcp_spec_groups := VCP_SPEC_IMAGE OR VCP_SPEC_GEOMETRY,
      default_sl_values := Some xaa_screen_orientation_values,
      vfte_desc := Some ''Indicates screen orientation'',
      v20_flags := DDCA_RO OR DDCA_SIMPLE_NC,
      v20_name := Some ''Screen Orientation''\<rparr>"

definition vcp_entry_ac :: VCP_Feature_Table_Entry where
  "vcp_entry_ac = (vfte 0xac)
     \<lparr>vcp_spec_groups := VCP_SPEC_MISC,
      nontable_formatter := Some format_feature_detail_xac_horizontal_frequency,
      vfte_desc := Some ''Horizontal sync signal frequency as determined by the display'',
      v20_flags := DDCA_RO OR DDCA_COMPLEX_CONT,
      v20_name := Some ''Horizontal frequency''\<rparr>"

definition vcp_entry_ae :: VCP_Feature_Table_Entry where
  "vcp_entry_ae = (vfte 0xae)
     \<lparr>vcp_spec_groups := VCP_SPEC_MISC,
      nontable_formatter := Some format_feature_detail_xae_vertical_frequency,
      vfte_desc := Some ''Vertical sync signal frequency as determined by the display, in .01 hz'',
      v20_flags := DDCA_RO OR DDCA_COMPLEX_CONT,
      v20_name := Some ''Vertical frequency''\<rparr>"

definition vcp_entry_b0 :: VCP_Feature_Table_Entry where
  "vcp_entry_b0 = (vfte 0xb0)
     \<lparr>vcp_spec_groups := VCP_SPEC_PRESET,
      default_sl_values := Some xb0_settings_values,
      vfte_desc := Some ''Store/restore the user saved values for the current mode.'',
      v20_flags := DDCA_WO OR DDCA_WO_NC,
      v20_name := Some ''Settings''\<rparr>"

definition vcp_entry_b2 :: VCP_Feature_Table_Entry where
  "vcp_entry_b2 = (vfte 0xb2)
     \<lparr>vcp_spec_groups := VCP_SPEC_MISC,
      default_sl_values := Some xb2_flat_panel_subpixel_layout_values,
      vfte_desc := Some ''LCD sub-pixel structure'',
      v20_flags := DDCA_RO OR DDCA_SIMPLE_NC,
      v20_name := Some ''Flat panel sub-pixel layout''\<rparr>"

definition vcp_entry_b4 :: VCP_Feature_Table_Entry where
  "vcp_entry_b4 = (vfte 0xb4)
     \<lparr>vcp_spec_groups := VCP_SPEC_CONTROL,
      vfte_desc := Some ''Indicates timing mode being sent by host'',
      v21_name := Some ''Source Timing Mode'',
      nontable_formatter := Some format_feature_detail_debug_bytes,
      v21_flags := DDCA_RW OR DDCA_COMPLEX_NC,
      v30_flags := DDCA_RW OR DDCA_NORMAL_TABLE,
      v22_flags := DDCA_RW OR DDCA_NORMAL_TABLE\<rparr>"

definition vcp_entry_b6 :: VCP_Feature_Table_Entry where
  "vcp_entry_b6 = (vfte 0xb6)
     \<lparr>vcp_spec_groups := VCP_SPEC_MISC,
      vfte_desc := Some ''Indicates the base technology type'',
      default_sl_values := Some xb6_v20_display_technology_type_values,
      v21_sl_values := Some xb6_display_technology_type_values,
      v20_flags := DDCA_RO OR DDCA_SIMPLE_NC,
      v20_name := Some ''Display technology type''\<rparr>"

definition vcp_entry_b7 :: VCP_Feature_Table_Entry where
  "vcp_entry_b7 = (vfte 0xb7)
     \<lparr>vcp_spec_groups := VCP_SPEC_DPVL,
      vcp_subsets := VCP_SUBSET_DPVL,
      vfte_desc := Some ''Video mode and status of a DPVL capable monitor'',
      v20_name := Some ''Monitor status'',
      v20_flags := DDCA_RO OR DDCA_COMPLEX_NC,
      nontable_formatter := Some format_feature_detail_sl_byte\<rparr>"

definition vcp_entry_b8 :: VCP_Feature_Table_Entry where
  "vcp_entry_b8 = (vfte 0xb8)
     \<lparr>vcp_spec_groups := VCP_SPEC_DPVL,
      vcp_subsets := VCP_SUBSET_DPVL,
      v20_name := Some ''Packet count'',
      vfte_desc := Some ''Counter for DPVL packets received'',
      v20_flags := DDCA_RW OR DDCA_COMPLEX_CONT,
      nontable_formatter := Some format_feature_detail_ushort\<rparr>"

definition vcp_entry_b9 :: VCP_Feature_Table_Entry where
  "vcp_entry_b9 = (vfte 0xb9)
     \<lparr>vcp_spec_groups := VCP_SPEC_DPVL,
      vcp_subsets := VCP_SUBSET_DPVL,
      v20_name := Some ''Monitor X origin'',
      vfte_desc := Some ''X origin of the monitor in the vertical screen'',
      v20_flags := DDCA_RW OR DDCA_COMPLEX_CONT,
      nontable_formatter := Some format_feature_detail_ushort\<rparr>"

definition vcp_entry_ba :: VCP_Feature_Table_Entry where
  "vcp_entry_ba = (vfte 0xba)
     \<lparr>vcp_spec_groups := VCP_SPEC_DPVL,
      vcp_subsets := VCP_SUBSET_DPVL,
      v20_name := Some ''Monitor Y origin'',
      vfte_desc := Some ''Y origin of the monitor in the vertical screen'',
      v20_flags := DDCA_RW OR DDCA_COMPLEX_CONT,
      nontable_formatter := Some format_feature_detail_ushort\<rparr>"

definition vcp_entry_bb :: VCP_Feature_Table_Entry where
  "vcp_entry_bb = (vfte 0xbb)
     \<lparr>vcp_spec_groups := VCP_SPEC_DPVL,
      vcp_subsets := VCP_SUBSET_DPVL,
      vfte_desc := Some ''Error counter for the DPVL header'',
      v20_name := Some ''Header error count'',
      v20_flags := DDCA_RW OR DDCA_COMPLEX_CONT,
      nontable_formatter := Some format_feature_detail_ushort\<rparr>"

definition vcp_entry_bc :: VCP_Feature_Table_Entry where
  "vcp_entry_bc = (vfte 0xbc)
     \<lparr>vcp_spec_groups := VCP_SPEC_DPVL,
      vcp_subsets := VCP_SUBSET_DPVL,
      vfte_desc := Some ''CRC error counter for the DPVL body'',
      v20_name := Some ''Body CRC error count'',
      v20_flags := DDCA_RW OR DDCA_COMPLEX_CONT,
      nontable_formatter := Some format_feature_detail_ushort\<rparr>"

definition vcp_entry_bd :: VCP_Feature_Table_Entry where
  "vcp_entry_bd = (vfte 0xbd)
     \<lparr>vcp_spec_groups := VCP_SPEC_DPVL,
      vcp_subsets := VCP_SUBSET_DPVL,
      vfte_desc := Some ''Assigned identification number for the monitor'',
      v20_name := Some ''Client ID'',
      v20_flags := DDCA_RW OR DDCA_COMPLEX_CONT,
      nontable_formatter := Some format_feature_detail_ushort\<rparr>"

definition vcp_entry_be :: VCP_Feature_Table_Entry where
  "vcp_entry_be = (vfte 0xbe)
     \<lparr>vcp_spec_groups := VCP_SPEC_DPVL,
      vcp_subsets := VCP_SUBSET_DPVL,
      vfte_desc := Some ''Indicates status of the DVI link'',
      v20_name := Some ''Link control'',
      v20_flags := DDCA_RW OR DDCA_COMPLEX_NC,
      nontable_formatter := Some format_feature_detail_xbe_link_control\<rparr>"

definition vcp_entry_c0 :: VCP_Feature_Table_Entry where
  "vcp_entry_c0 = (vfte 0xc0)
     \<lparr>vcp_spec_groups := VCP_SPEC_MISC,
      nontable_formatter := Some format_feature_detail_xc0_display_usage_time,
      vfte_desc := Some ''Active power on time in hours'',
      v20_flags := DDCA_RO OR DDCA_COMPLEX_CONT,
      v20_name := Some ''Display usage time''\<rparr>"

definition vcp_entry_c2 :: VCP_Feature_Table_Entry where
  "vcp_entry_c2 = (vfte 0xc2)
     \<lparr>vcp_spec_groups := VCP_SPEC_MISC,
      vfte_desc := Some ''Length in bytes of non-volatile storage in the display available for writing a display descriptor, max 256'',
      v20_flags := DDCA_RO OR DDCA_STD_CONT,
      v20_name := Some ''Display descriptor length''\<rparr>"

definition vcp_entry_c3 :: VCP_Feature_Table_Entry where
  "vcp_entry_c3 = (vfte 0xc3)
     \<lparr>vcp_spec_groups := VCP_SPEC_MISC,
      table_formatter := Some default_table_feature_detail_function,
      vfte_desc := Some ''Reads (writes) a display descriptor from (to) non-volatile storage in the display.'',
      v20_flags := DDCA_RW OR DDCA_NORMAL_TABLE,
      v20_name := Some ''Transmit display descriptor''\<rparr>"

definition vcp_entry_c4 :: VCP_Feature_Table_Entry where
  "vcp_entry_c4 = (vfte 0xc4)
     \<lparr>vcp_spec_groups := VCP_SPEC_MISC,
      nontable_formatter := Some format_feature_detail_debug_bytes,
      vfte_desc := Some ''If enabled, the display descriptor shall be displayed when no video is being received.'',
      v20_flags := DDCA_RW OR DDCA_COMPLEX_NC,
      v20_name := Some (''Enable display of '' @ [CHR 0x27] @ ''display descriptor'' @ [CHR 0x27])\<rparr>"

definition vcp_entry_c6 :: VCP_Feature_Table_Entry where
  "vcp_entry_c6 = (vfte 0xc6)
     \<lparr>vcp_spec_groups := VCP_SPEC_MISC,
      nontable_formatter := Some format_feature_detail_x6c_application_enable_key,
      vfte_desc := Some ''A 2 byte value used to allow an application to only operate with known products.'',
      v20_flags := DDCA_RO OR DDCA_COMPLEX_NC,
      v20_name := Some ''Application enable key''\<rparr>"

definition vcp_entry_c8 :: VCP_Feature_Table_Entry where
  "vcp_entry_c8 = (vfte 0xc8)
     \<lparr>vcp_spec_groups := VCP_SPEC_MISC OR VCP_SPEC_CONTROL,
      nontable_formatter := Some format_feature_detail_xc8_display_controller_type,
      default_sl_values := Some xc8_display_controller_type_values,
      vfte_desc := Some ''Mfg id of controller and 2 byte manufacturer-specific controller type'',
      v20_flags := DDCA_RO OR DDCA_COMPLEX_NC,
      v20_name := Some ''Display controller type''\<rparr>"

definition vcp_entry_c9 :: VCP_Feature_Table_Entry where
  "vcp_entry_c9 = (vfte 0xc9)
     \<lparr>vcp_spec_groups := VCP_SPEC_MISC OR VCP_SPEC_CONTROL,
      nontable_formatter := Some format_feature_detail_xc9_xdf_version,
      vfte_desc := Some ''2 byte firmware level'',
      v20_flags := DDCA_RO OR DDCA_COMPLEX_NC,
      v20_name := Some ''Display firmware level''\<rparr>"

definition vcp_entry_ca :: VCP_Feature_Table_Entry where
  "vcp_entry_ca = (vfte 0xca)
     \<lparr>vcp_spec_groups := VCP_SPEC_MISC OR VCP_SPEC_CONTROL,
      default_sl_values := Some xca_osd_values,
      v22_sl_values := Some xca_v22_osd_button_sl_values,
      vfte_desc := Some ''Sets and indicates the current operational state of OSD (and buttons in v2.2)'',
      v20_flags := DDCA_RW OR DDCA_SIMPLE_NC,
      v20_name := Some ''OSD'',
      v22_flags := DDCA_RW OR DDCA_COMPLEX_NC,
      nontable_formatter := Some format_feature_detail_xca_osd_button_control,
      v22_name := Some ''OSD/Button Control''\<rparr>"

definition vcp_entry_cc :: VCP_Feature_Table_Entry where
  "vcp_entry_cc = (vfte 0xcc)
     \<lparr>vcp_spec_groups := VCP_SPEC_MISC OR VCP_SPEC_CONTROL,
      default_sl_values := Some xcc_osd_language_values,
      vfte_desc := Some ''On Screen Display language'',
      v20_flags := DDCA_RW OR DDCA_SIMPLE_NC,
      v20_name := Some ''OSD Language''\<rparr>"

definition vcp_entry_cd :: VCP_Feature_Table_Entry where
  "vcp_entry_cd = (vfte 0xcd)
     \<lparr>vcp_spec_groups := VCP_SPEC_MISC,
      vfte_desc := Some ''Control up to 16 LED (or similar) indicators to indicate system status'',
      nontable_formatter := Some format_feature_detail_debug_sl_sh,
      v21_flags := DDCA_RW OR DDCA_COMPLEX_NC,
      v21_name := Some ''Status Indicators''\<rparr>"

definition vcp_entry_ce :: VCP_Feature_Table_Entry where
  "vcp_entry_ce = (vfte 0xce)
     \<lparr>vcp_spec_groups := VCP_SPEC_MISC,
      vfte_desc := Some ''Rows and characters/row of auxiliary display'',
      v20_flags := DDCA_RO OR DDCA_COMPLEX_NC,
      v20_name := Some ''Auxiliary display size'',
      nontable_formatter := Some format_feature_detail_xce_aux_display_size\<rparr>"

definition vcp_entry_cf :: VCP_Feature_Table_Entry where
  "vcp_entry_cf = (vfte 0xcf)
     \<lparr>vcp_spec_groups := VCP_SPEC_MISC,
      vfte_desc := Some ''Sets contents of auxiliary display device'',
      v20_flags := DDCA_WO OR DDCA_WO_TABLE,
      v20_name := Some ''Auxiliary display data''\<rparr>"

definition vcp_entry_d0 :: VCP_Feature_Table_Entry where
  "vcp_entry_d0 = (vfte 0xd0)
     \<lparr>vcp_spec_groups := VCP_SPEC_MISC,
      vfte_desc := Some ''Selects the active output'',
      v20_name := Some ''Output select'',
      v20_flags := DDCA_RW OR DDCA_SIMPLE_NC,
      default_sl_values := Some xd0_v2_output_select_values,
      table_formatter := Some default_table_feature_detail_function,
      v30_flags := DDCA_RW OR DDCA_NORMAL_TABLE,
      v22_flags := DDCA_RW OR DDCA_SIMPLE_NC\<rparr>"

definition vcp_entry_d2 :: VCP_Feature_Table_Entry where
  "vcp_entry_d2 = (vfte 0xd2)
     \<lparr>vcp_spec_groups := VCP_SPEC_MISC,
      vfte_desc := Some ''Read an Asset Tag to/from the display'',
      v21_name := Some ''Asset Tag'',
      v21_flags := DDCA_RW OR DDCA_NORMAL_TABLE,
      table_formatter := Some default_table_feature_detail_function\<rparr>"

definition vcp_entry_d4 :: VCP_Feature_Table_Entry where
  "vcp_entry_d4 = (vfte 0xd4)
     \<lparr>vcp_spec_groups := VCP_SPEC_MISC OR VCP_SPEC_IMAGE,
      vfte_desc := Some ''Stereo video mode'',
      v20_name := Some ''Stereo video mode'',
      v20_flags := DDCA_RW OR DDCA_COMPLEX_NC,
      nontable_formatter := Some format_feature_detail_sl_byte\<rparr>"

definition vcp_entry_d6 :: VCP_Feature_Table_Entry where
  "vcp_entry_d6 = (vfte 0xd6)
     \<lparr>vcp_spec_groups := VCP_SPEC_MISC OR VCP_SPEC_CONTROL,
      default_sl_values := Some xd6_power_mode_values,
      vfte_desc := Some ''DPM and DPMS status'',
      v20_flags := DDCA_RW OR DDCA_SIMPLE_NC,
      v20_name := Some ''Power mode''\<rparr>"

definition vcp_entry_d7 :: VCP_Feature_Table_Entry where
  "vcp_entry_d7 = (vfte 0xd7)
     \<lparr>vcp_spec_groups := VCP_SPEC_MISC,
      default_sl_values := Some xd7_aux_power_output_values,
      vfte_desc := Some ''Controls an auxiliary power output from a display to a host device'',
      v20_flags := DDCA_RW OR DDCA_SIMPLE_NC,
      v20_name := Some ''Auxiliary power output''\<rparr>"

definition vcp_entry_da :: VCP_Feature_Table_Entry where
  "vcp_entry_da = (vfte 0xda)
     \<lparr>vcp_spec_groups := VCP_SPEC_GEOMETRY OR VCP_SPEC_IMAGE,
      vcp_subsets := VCP_SUBSET_CRT,
      vfte_desc := Some ''Controls scan characteristics (aka format)'',
      default_sl_values := Some xda_scan_mode_values,
      v20_flags := DDCA_RW OR DDCA_SIMPLE_NC,
      v20_name := Some ''Scan format'',
      v21_name := Some ''Scan mode''\<rparr>"

definition vcp_entry_db :: VCP_Feature_Table_Entry where
  "vcp_entry_db = (vfte 0xdb)
     \<lparr>vcp_spec_groups := VCP_SPEC_CONTROL,
      vcp_subsets := VCP_SUBSET_TV,
      vfte_desc := Some ''Controls aspects of the displayed image (TV applications)'',
      default_sl_values := Some xdb_image_mode_values,
      v21_flags := DDCA_RW OR DDCA_SIMPLE_NC,
      v21_name := Some ''Image Mode''\<rparr>"

definition vcp_entry_dc :: VCP_Feature_Table_Entry where
  "vcp_entry_dc = (vfte 0xdc)
     \<lparr>vcp_spec_groups := VCP_SPEC_IMAGE,
      default_sl_values := Some xdc_display_application_values,
      vfte_desc := Some ''Type of application used on display'',
      vcp_subsets := VCP_SUBSET_COLOR,
      v20_flags := DDCA_RW OR DDCA_SIMPLE_NC,
      v20_name := Some ''Display Mode'',
      v30_name := Some ''Display Application''\<rparr>"

definition vcp_entry_de :: VCP_Feature_Table_Entry where
  "vcp_entry_de = (vfte 0xde)
     \<lparr>vcp_spec_groups := VCP_SPEC_MISC,
      vfte_desc := Some ''Operation mode (2.0) or scratch pad (3.0/2.2)'',
      nontable_formatter := Some format_feature_detail_debug_sl_sh,
      v20_flags := DDCA_WO OR DDCA_WO_NC,
      v20_name := Some ''Operation Mode'',
      v21_flags := DDCA_RW OR DDCA_COMPLEX_NC,
      v21_name := Some ''Scratch Pad''\<rparr>"

definition vcp_entry_df :: VCP_Feature_Table_Entry where
  "vcp_entry_df = (vfte 0xdf)
     \<lparr>vcp_spec_groups := VCP_SPEC_MISC,
      nontable_formatter := Some format_feature_detail_xc9_xdf_version,
      vfte_desc := Some ''MCCS version'',
      v20_flags := DDCA_RO OR DDCA_COMPLEX_NC,
      v20_name := Some ''VCP Version''\<rparr>"

section \<open>The table\<close>

definition vcp_code_table :: "VCP_Feature_Table_Entry list" where
  "vcp_code_table =
     [vcp_entry_01, vcp_entry_02, vcp_entry_03, vcp_entry_04, vcp_entry_05, vcp_entry_06,
      vcp_entry_08, vcp_entry_0a, vcp_entry_0b, vcp_entry_0c, vcp_entry_0e, vcp_entry_10,
      vcp_entry_11, vcp_entry_12, vcp_entry_13, vcp_entry_14, vcp_entry_16, vcp_entry_17,
      vcp_entry_18, vcp_entry_1a, vcp_entry_1c, vcp_entry_1e, vcp_entry_1f, vcp_entry_20,
      vcp_entry_22, vcp_entry_24, vcp_entry_26, vcp_entry_28, vcp_entry_29, vcp_entry_2a,
      vcp_entry_2c, vcp_entry_2e, vcp_entry_30, vcp_entry_32, vcp_entry_34, vcp_entry_36,
      vcp_entry_38, vcp_entry_39, vcp_entry_3a, vcp_entry_3c, vcp_entry_3e, vcp_entry_40,
      vcp_entry_41, vcp_entry_42, vcp_entry_43, vcp_entry_44, vcp_entry_46, vcp_entry_48,
      vcp_entry_4a, vcp_entry_4c, vcp_entry_52, vcp_entry_54, vcp_entry_56, vcp_entry_58,
      vcp_entry_59, vcp_entry_5a, vcp_entry_5b, vcp_entry_5c, vcp_entry_5d, vcp_entry_5e,
      vcp_entry_60, vcp_entry_62, vcp_entry_63, vcp_entry_64, vcp_entry_66, vcp_entry_6b,
      vcp_entry_6c, vcp_entry_6d, vcp_entry_6e, vcp_entry_6f, vcp_entry_70, vcp_entry_71,
      vcp_entry_72, vcp_entry_73, vcp_entry_74, vcp_entry_75, vcp_entry_76, vcp_entry_78,
      vcp_entry_7a, vcp_entry_7c, vcp_entry_7e, vcp_entry_80, vcp_entry_82, vcp_entry_84,
      vcp_entry_86, vcp_entry_87, vcp_entry_88, vcp_entry_8a, vcp_entry_8b, vcp_entry_8c,
      vcp_entry_8d, vcp_entry_8e, vcp_entry_8f, vcp_entry_90, vcp_entry_91, vcp_entry_92,
      vcp_entry_93, vcp_entry_94, vcp_entry_95, vcp_entry_96, vcp_entry_97, vcp_entry_98,
      vcp_entry_99, vcp_entry_9a, vcp_entry_9b, vcp_entry_9c, vcp_entry_9d, vcp_entry_9e,
      vcp_entry_9f, vcp_entry_a0, vcp_entry_a2, vcp_entry_a4, vcp_entry_a5, vcp_entry_aa,
      vcp_entry_ac, vcp_entry_ae, vcp_entry_b0, vcp_entry_b2, vcp_entry_b4, vcp_entry_b6,
      vcp_entry_b7, vcp_entry_b8, vcp_entry_b9, vcp_entry_ba, vcp_entry_bb, vcp_entry_bc,
      vcp_entry_bd, vcp_entry_be, vcp_entry_c0, vcp_entry_c2, vcp_entry_c3, vcp_entry_c4,
      vcp_entry_c6, vcp_entry_c8, vcp_entry_c9, vcp_entry_ca, vcp_entry_cc, vcp_entry_cd,
      vcp_entry_ce, vcp_entry_cf, vcp_entry_d0, vcp_entry_d2, vcp_entry_d4, vcp_entry_d6,
      vcp_entry_d7, vcp_entry_da, vcp_entry_db, vcp_entry_dc, vcp_entry_de, vcp_entry_df]"

lemmas vcp_entry_defs =
  vcp_entry_01_def vcp_entry_02_def vcp_entry_03_def vcp_entry_04_def vcp_entry_05_def
  vcp_entry_06_def vcp_entry_08_def vcp_entry_0a_def vcp_entry_0b_def vcp_entry_0c_def
  vcp_entry_0e_def vcp_entry_10_def vcp_entry_11_def vcp_entry_12_def vcp_entry_13_def
  vcp_entry_14_def vcp_entry_16_def vcp_entry_17_def vcp_entry_18_def vcp_entry_1a_def
  vcp_entry_1c_def vcp_entry_1e_def vcp_entry_1f_def vcp_entry_20_def vcp_entry_22_def
  vcp_entry_24_def vcp_entry_26_def vcp_entry_28_def vcp_entry_29_def vcp_entry_2a_def
  vcp_entry_2c_def vcp_entry_2e_def vcp_entry_30_def vcp_entry_32_def vcp_entry_34_def
  vcp_entry_36_def vcp_entry_38_def vcp_entry_39_def vcp_entry_3a_def vcp_entry_3c_def
  vcp_entry_3e_def vcp_entry_40_def vcp_entry_41_def vcp_entry_42_def vcp_entry_43_def
  vcp_entry_44_def vcp_entry_46_def vcp_entry_48_def vcp_entry_4a_def vcp_entry_4c_def
  vcp_entry_52_def vcp_entry_54_def vcp_entry_56_def vcp_entry_58_def vcp_entry_59_def
  vcp_entry_5a_def vcp_entry_5b_def vcp_entry_5c_def vcp_entry_5d_def vcp_entry_5e_def
  vcp_entry_60_def vcp_entry_62_def vcp_entry_63_def vcp_entry_64_def vcp_entry_66_def
  vcp_entry_6b_def vcp_entry_6c_def vcp_entry_6d_def vcp_entry_6e_def vcp_entry_6f_def
  vcp_entry_70_def vcp_entry_71_def vcp_entry_72_def vcp_entry_73_def vcp_entry_74_def
  vcp_entry_75_def vcp_entry_76_def vcp_entry_78_def vcp_entry_7a_def vcp_entry_7c_def
  vcp_entry_7e_def vcp_entry_80_def vcp_entry_82_def vcp_entry_84_def vcp_entry_86_def
  vcp_entry_87_def vcp_entry_88_def vcp_entry_8a_def vcp_entry_8b_def vcp_entry_8c_def
  vcp_entry_8d_def vcp_entry_8e_def vcp_entry_8f_def vcp_entry_90_def vcp_entry_91_def
  vcp_entry_92_def vcp_entry_93_def vcp_entry_94_def vcp_entry_95_def vcp_entry_96_def
  vcp_entry_97_def vcp_entry_98_def vcp_entry_99_def vcp_entry_9a_def vcp_entry_9b_def
  vcp_entry_9c_def vcp_entry_9d_def vcp_entry_9e_def vcp_entry_9f_def vcp_entry_a0_def
  vcp_entry_a2_def vcp_entry_a4_def vcp_entry_a5_def vcp_entry_aa_def vcp_entry_ac_def
  vcp_entry_ae_def vcp_entry_b0_def vcp_entry_b2_def vcp_entry_b4_def vcp_entry_b6_def
  vcp_entry_b7_def vcp_entry_b8_def vcp_entry_b9_def vcp_entry_ba_def vcp_entry_bb_def
  vcp_entry_bc_def vcp_entry_bd_def vcp_entry_be_def vcp_entry_c0_def vcp_entry_c2_def
  vcp_entry_c3_def vcp_entry_c4_def vcp_entry_c6_def vcp_entry_c8_def vcp_entry_c9_def
  vcp_entry_ca_def vcp_entry_cc_def vcp_entry_cd_def vcp_entry_ce_def vcp_entry_cf_def
  vcp_entry_d0_def vcp_entry_d2_def vcp_entry_d4_def vcp_entry_d6_def vcp_entry_d7_def
  vcp_entry_da_def vcp_entry_db_def vcp_entry_dc_def vcp_entry_de_def vcp_entry_df_def

end
