(* ===== verification/Vcp_Feature_Codes.thy ===== *)
theory Vcp_Feature_Codes
  imports Vcp_Code_Table Vcp_Values
begin

text \<open>
  The functions on the feature table, \<^verbatim>\<open>src/src/vcp/vcp_feature_codes.c\<close>: what a version
  says of a feature, the entry for a code, and the choice of the function that formats a value. A
  pointer to an entry is the entry. The functions that format are in Vcp_Formatters.
\<close>

section \<open>Names of groups and flags\<close>

definition str_comma_cat_r :: "string \<Rightarrow> string \<Rightarrow> nat \<Rightarrow> string option" where
  "str_comma_cat_r txt buf bufsz = do {
     let cursz = length buf;
     c_assert (cursz + 2 + length txt + 1 \<le> bufsz);
     Some ((if cursz > 0 then buf @ '', '' else buf) @ txt)
   }"

definition spec_group_table :: "(16 word \<times> string) list" where
  "spec_group_table =
     [(VCP_SPEC_PRESET, ''Preset''), (VCP_SPEC_IMAGE, ''Image''), (VCP_SPEC_CONTROL, ''Control''),
      (VCP_SPEC_GEOMETRY, ''Geometry''), (VCP_SPEC_MISC, ''Miscellaneous''), (VCP_SPEC_AUDIO, ''Audio''),
      (VCP_SPEC_DPVL, ''DPVL''), (VCP_SPEC_MFG, ''Manufacturer specific''), (VCP_SPEC_WINDOW, ''Window'')]"

fun cat_group_names :: "(16 word \<times> string) list \<Rightarrow> 16 word \<Rightarrow> string \<Rightarrow> nat \<Rightarrow> string option" where
  "cat_group_names [] groups buf bufsz = Some buf"
| "cat_group_names ((m, s) # rest) groups buf bufsz =
     (if groups AND m \<noteq> 0
      then do { buf \<leftarrow> str_comma_cat_r s buf bufsz; cat_group_names rest groups buf bufsz }
      else cat_group_names rest groups buf bufsz)"

definition spec_group_names_r :: "VCP_Feature_Table_Entry \<Rightarrow> nat \<Rightarrow> string option" where
  "spec_group_names_r pentry bufsz = cat_group_names spec_group_table (vcp_spec_groups pentry) [] bufsz"

definition vcp_interpret_global_feature_flags :: "DDCA_Feature_Flags \<Rightarrow> nat \<Rightarrow> string" where
  "vcp_interpret_global_feature_flags flags buflen =
     (let synmsg = '''';
          synmsg = (if flag_set flags DDCA_SYNTHETIC_VCP_FEATURE_TABLE_ENTRY
                    then ''Synthetic VCP Feature Table Entry'' else synmsg);
          synmsg = (if flag_set flags DDCA_SYNTHETIC then ''Synthetic '' else synmsg);
          synmsg = (if flag_set flags DDCA_PERSISTENT_METADATA then ''Persistent '' else synmsg);
          dynmsg = (if flag_set flags DDCA_USER_DEFINED then ''Dynamic '' else '''')
      in snprintf buflen (synmsg @ dynmsg))"

section \<open>What holds in a version\<close>

definition get_version_specific_feature_flags ::
    "VCP_Feature_Table_Entry \<Rightarrow> DDCA_MCCS_Version_Spec \<Rightarrow> DDCA_Feature_Flags" where
  "get_version_specific_feature_flags e v =
     (let result = (if major v \<ge> 3 then v30_flags e
                    else if major v = 2 \<and> minor v \<ge> 2 then v22_flags e else 0);
          result = (if result = 0 \<and> (major v \<ge> 3 \<or> (major v = 2 \<and> minor v \<ge> 1)) then v21_flags e else result)
      in if result = 0 then v20_flags e else result)"

definition is_feature_supported_in_version :: "VCP_Feature_Table_Entry \<Rightarrow> DDCA_MCCS_Version_Spec \<Rightarrow> bool" where
  "is_feature_supported_in_version e v \<longleftrightarrow>
     (let vflags = get_version_specific_feature_flags e v
      in vflags \<noteq> 0 \<and> \<not> flag_set vflags DDCA_DEPRECATED)"

definition get_version_sensitive_feature_flags ::
    "VCP_Feature_Table_Entry \<Rightarrow> DDCA_MCCS_Version_Spec \<Rightarrow> DDCA_Feature_Flags option" where
  "get_version_sensitive_feature_flags e v =
     (let result = get_version_specific_feature_flags e v
      in if result \<noteq> 0 then Some result
         else if v21_flags e \<noteq> 0 then Some (v21_flags e)
         else if v30_flags e \<noteq> 0 then Some (v30_flags e)
         else if v22_flags e \<noteq> 0 then Some (v22_flags e)
         else None)"

definition has_version_specific_features :: "VCP_Feature_Table_Entry \<Rightarrow> bool" where
  "has_version_specific_features e \<longleftrightarrow>
     (if v20_flags e \<noteq> 0 then 1 else 0 :: nat) + (if v21_flags e \<noteq> 0 then 1 else 0) +
     (if v30_flags e \<noteq> 0 then 1 else 0) + (if v22_flags e \<noteq> 0 then 1 else 0) > 1"

definition flags_in_use :: "DDCA_Feature_Flags \<Rightarrow> bool" where
  "flags_in_use flags \<longleftrightarrow> flags \<noteq> 0 \<and> \<not> flag_set flags DDCA_DEPRECATED"

definition get_highest_non_deprecated_version :: "VCP_Feature_Table_Entry \<Rightarrow> DDCA_MCCS_Version_Spec option" where
  "get_highest_non_deprecated_version e =
     (if flags_in_use (v22_flags e) then Some \<lparr>major = 2, minor = 2\<rparr>
      else if flags_in_use (v30_flags e) then Some \<lparr>major = 3, minor = 0\<rparr>
      else if flags_in_use (v21_flags e) then Some \<lparr>major = 2, minor = 1\<rparr>
      else if flags_in_use (v20_flags e) then Some \<lparr>major = 2, minor = 0\<rparr>
      else None)"

definition is_feature_readable_by_vcp_version ::
    "VCP_Feature_Table_Entry \<Rightarrow> DDCA_MCCS_Version_Spec \<Rightarrow> bool option" where
  "is_feature_readable_by_vcp_version e v =
     map_option (\<lambda>f. flag_set f DDCA_READABLE) (get_version_sensitive_feature_flags e v)"

definition is_feature_writable_by_vcp_version ::
    "VCP_Feature_Table_Entry \<Rightarrow> DDCA_MCCS_Version_Spec \<Rightarrow> bool option" where
  "is_feature_writable_by_vcp_version e v =
     map_option (\<lambda>f. flag_set f DDCA_WRITABLE) (get_version_sensitive_feature_flags e v)"

definition is_table_feature_by_vcp_version ::
    "VCP_Feature_Table_Entry \<Rightarrow> DDCA_MCCS_Version_Spec \<Rightarrow> bool option" where
  "is_table_feature_by_vcp_version e v =
     map_option (\<lambda>f. flag_set f DDCA_NORMAL_TABLE) (get_version_sensitive_feature_flags e v)"

text \<open>The flags of all versions are collected in a byte.\<close>

definition is_version_conditional_vcp_type :: "VCP_Feature_Table_Entry \<Rightarrow> bool" where
  "is_version_conditional_vcp_type e \<longleftrightarrow>
     (let allflags = (v30_flags e OR v22_flags e OR v21_flags e OR v20_flags e) AND 0xff
      in flag_set allflags (DDCA_CONT OR DDCA_NC) \<and> flag_set allflags DDCA_NORMAL_TABLE)"

definition get_version_specific_sl_values ::
    "VCP_Feature_Table_Entry \<Rightarrow> DDCA_MCCS_Version_Spec \<Rightarrow> DDCA_Feature_Value_Entry list option" where
  "get_version_specific_sl_values e v =
     (let result = (if major v \<ge> 3 then v30_sl_values e
                    else if major v = 2 \<and> minor v \<ge> 2 then v22_sl_values e else None);
          result = (if result = None \<and> (major v \<ge> 3 \<or> (major v = 2 \<and> minor v = 1)) then v21_sl_values e else result)
      in if result = None then default_sl_values e else result)"

definition get_version_sensitive_sl_values ::
    "VCP_Feature_Table_Entry \<Rightarrow> DDCA_MCCS_Version_Spec \<Rightarrow> DDCA_Feature_Value_Entry list option" where
  "get_version_sensitive_sl_values e v =
     (let result = get_version_specific_sl_values e v
      in if result \<noteq> None then result
         else if v21_sl_values e \<noteq> None then v21_sl_values e
         else if v30_sl_values e \<noteq> None then v30_sl_values e
         else v22_sl_values e)"

definition get_version_specific_feature_name ::
    "VCP_Feature_Table_Entry \<Rightarrow> DDCA_MCCS_Version_Spec \<Rightarrow> string option" where
  "get_version_specific_feature_name e v =
     (let result = (if major v \<ge> 3 then v30_name e
                    else if major v = 2 \<and> minor v \<ge> 2 then v22_name e else None);
          result = (if result = None \<and> (major v \<ge> 3 \<or> (major v = 2 \<and> minor v \<ge> 1)) then v21_name e else result)
      in if result = None then v20_name e else result)"

definition get_version_sensitive_feature_name ::
    "VCP_Feature_Table_Entry \<Rightarrow> DDCA_MCCS_Version_Spec \<Rightarrow> string option" where
  "get_version_sensitive_feature_name e v =
     (let result = get_version_specific_feature_name e v
      in if result \<noteq> None then result
         else if v21_name e \<noteq> None then v21_name e
         else if v30_name e \<noteq> None then v30_name e
         else v22_name e)"

definition get_non_version_specific_feature_name :: "VCP_Feature_Table_Entry \<Rightarrow> string option" where
  "get_non_version_specific_feature_name e = get_version_sensitive_feature_name e \<lparr>major = 2, minor = 2\<rparr>"

section \<open>The entry for a code\<close>

fun find_entry :: "VCP_Feature_Table_Entry list \<Rightarrow> byte \<Rightarrow> VCP_Feature_Table_Entry option" where
  "find_entry [] hexid = None"
| "find_entry (e # es) hexid = (if hexid = vfte_code e then Some e else find_entry es hexid)"

definition vcp_find_feature_by_hexid :: "byte \<Rightarrow> VCP_Feature_Table_Entry option" where
  "vcp_find_feature_by_hexid hexid = find_entry vcp_code_table hexid"

definition vcp_feature_code_count :: nat where
  "vcp_feature_code_count = length vcp_code_table"

definition vcp_get_feature_code_count :: nat where
  "vcp_get_feature_code_count = vcp_feature_code_count"

definition vcp_get_feature_table_entry :: "int \<Rightarrow> VCP_Feature_Table_Entry option" where
  "vcp_get_feature_table_entry ndx = do {
     c_assert (0 \<le> ndx \<and> ndx < int vcp_feature_code_count);
     Some (vcp_code_table ! nat ndx)
   }"

definition vcp_new_feature_table_entry :: "byte \<Rightarrow> VCP_Feature_Table_Entry" where
  "vcp_new_feature_table_entry hexid = vfte hexid"

definition vcp_create_dummy_feature_for_hexid :: "byte \<Rightarrow> VCP_Feature_Table_Entry" where
  "vcp_create_dummy_feature_for_hexid hexid =
     (let pentry = vcp_new_feature_table_entry hexid;
          pentry = (if hexid \<ge> 0xe0
                    then pentry\<lparr>v20_name := Some ''Manufacturer Specific'',
                                vfte_desc := Some ''Feature code reserved for manufacturer use''\<rparr>
                    else pentry\<lparr>v20_name := Some ''Unknown feature'',
                                vfte_desc := Some ''Undefined feature code''\<rparr>)
      in pentry\<lparr>nontable_formatter := Some format_feature_detail_debug_bytes,
                v20_flags := DDCA_RW OR DDCA_COMPLEX_NC,
                vcp_global_flags := DDCA_SYNTHETIC_VCP_FEATURE_TABLE_ENTRY OR DDCA_SYNTHETIC\<rparr>)"

definition vcp_create_table_dummy_feature_for_hexid :: "byte \<Rightarrow> VCP_Feature_Table_Entry" where
  "vcp_create_table_dummy_feature_for_hexid hexid =
     (vcp_new_feature_table_entry hexid)
       \<lparr>v20_name := Some (if hexid \<ge> 0xe0 then ''Manufacturer Specific'' else ''Unknown feature''),
        table_formatter := Some default_table_feature_detail_function,
        v20_flags := DDCA_RW OR DDCA_NORMAL_TABLE,
        vcp_global_flags := DDCA_SYNTHETIC_VCP_FEATURE_TABLE_ENTRY OR DDCA_SYNTHETIC\<rparr>"

definition vcp_find_feature_by_hexid_w_default :: "byte \<Rightarrow> VCP_Feature_Table_Entry" where
  "vcp_find_feature_by_hexid_w_default hexid =
     (case vcp_find_feature_by_hexid hexid of
        Some e \<Rightarrow> e
      | None \<Rightarrow> vcp_create_dummy_feature_for_hexid hexid)"

definition get_feature_name_by_id_only :: "byte \<Rightarrow> string option" where
  "get_feature_name_by_id_only feature_id =
     (case vcp_find_feature_by_hexid feature_id of
        Some e \<Rightarrow> get_non_version_specific_feature_name e
      | None \<Rightarrow>
          Some (if 0xe0 \<le> feature_id then ''manufacturer specific feature'' else ''unrecognized feature''))"

definition get_feature_name_by_id_and_vcp_version :: "byte \<Rightarrow> DDCA_MCCS_Version_Spec \<Rightarrow> string option" where
  "get_feature_name_by_id_and_vcp_version feature_id vspec =
     (case vcp_find_feature_by_hexid feature_id of
        Some e \<Rightarrow>
          (case get_version_sensitive_feature_name e vspec of
             Some s \<Rightarrow> Some s
           | None \<Rightarrow> get_non_version_specific_feature_name e)
      | None \<Rightarrow>
          Some (if 0xe0 \<le> feature_id then ''Manufacturer specific feature'' else ''Unrecognized feature''))"

section \<open>Metadata\<close>

text \<open>
  The description is copied under a test of the description of the new metadata, which is null.
\<close>

definition extract_version_feature_info_from_feature_table_entry ::
    "VCP_Feature_Table_Entry \<Rightarrow> DDCA_MCCS_Version_Spec \<Rightarrow> bool \<Rightarrow> Display_Feature_Metadata option" where
  "extract_version_feature_info_from_feature_table_entry e vspec version_sensitive = do {
     let dfm = dfm_new (vfte_code e);
     let dfm = dfm\<lparr>dfm_vcp_subsets := vcp_subsets e, dfm_vcp_spec_groups := vcp_spec_groups e,
                   vcp_version := vspec\<rparr>;
     flags \<leftarrow> (if version_sensitive then get_version_sensitive_feature_flags e vspec
              else Some (get_version_specific_feature_flags e vspec));
     let dfm = dfm\<lparr>version_feature_flags := flags\<rparr>;
     let dfm = dfm\<lparr>feature_desc := (if feature_desc dfm \<noteq> None then vfte_desc e else None)\<rparr>;
     let name = (if version_sensitive then get_version_sensitive_feature_name e vspec
                 else get_version_specific_feature_name e vspec);
     let dfm = dfm\<lparr>feature_name := name,
                   global_feature_flags := global_feature_flags dfm OR vcp_global_flags e\<rparr>;
     let sl_values = (if version_sensitive then get_version_sensitive_sl_values e vspec
                      else get_version_specific_sl_values e vspec);
     Some (dfm\<lparr>dfm_sl_values := copy_sl_value_table sl_values\<rparr>)
   }"

text \<open>The outer \<open>None\<close> is an abnormal end, the inner one the null pointer.\<close>

definition get_version_feature_info_by_vspec_dfm ::
    "byte \<Rightarrow> DDCA_MCCS_Version_Spec \<Rightarrow> bool \<Rightarrow> bool \<Rightarrow> Display_Feature_Metadata option option" where
  "get_version_feature_info_by_vspec_dfm fcode vspec with_default version_sensitive =
     (case (if with_default then Some (vcp_find_feature_by_hexid_w_default fcode)
            else vcp_find_feature_by_hexid fcode) of
        None \<Rightarrow> Some None
      | Some e \<Rightarrow> do {
          dfm \<leftarrow> extract_version_feature_info_from_feature_table_entry e vspec version_sensitive;
          Some (Some dfm)
        })"

section \<open>The choice of a formatting function\<close>

text \<open>The inner \<open>None\<close> is the null pointer of a write-only feature.\<close>

definition get_nontable_feature_detail_function ::
    "VCP_Feature_Table_Entry \<Rightarrow> DDCA_MCCS_Version_Spec \<Rightarrow> Format_Normal_Feature_Detail_Function option option" where
  "get_nontable_feature_detail_function e v = do {
     flags \<leftarrow> get_version_sensitive_feature_flags e v;
     c_assert (flags \<noteq> 0);
     c_assert (flag_set flags DDCA_NON_TABLE);
     (if flag_set flags DDCA_STD_CONT then Some (Some format_feature_detail_standard_continuous)
      else if flag_set flags DDCA_SIMPLE_NC then Some (Some format_feature_detail_sl_lookup)
      else if flag_set flags DDCA_EXTENDED_NC then Some (Some format_feature_detail_sl_lookup_with_sh)
      else if flag_set flags DDCA_WO_NC then Some None
      else do {
        c_assert (flag_set flags (DDCA_COMPLEX_CONT OR DDCA_COMPLEX_NC OR DDCA_NC_CONT));
        c_assert (nontable_formatter e \<noteq> None);
        Some (nontable_formatter e)
      })
   }"

definition get_table_feature_detail_function ::
    "VCP_Feature_Table_Entry \<Rightarrow> DDCA_MCCS_Version_Spec \<Rightarrow> Format_Table_Feature_Detail_Function" where
  "get_table_feature_detail_function e v =
     (case table_formatter e of Some f \<Rightarrow> f | None \<Rightarrow> default_table_feature_detail_function)"

section \<open>Names of values\<close>

definition find_feature_value_table ::
    "byte \<Rightarrow> DDCA_MCCS_Version_Spec \<Rightarrow> DDCA_Feature_Value_Entry list option option" where
  "find_feature_value_table fcode v =
     (case vcp_find_feature_by_hexid fcode of
        None \<Rightarrow> Some None
      | Some pentry \<Rightarrow> do {
          feature_flags \<leftarrow> get_version_sensitive_feature_flags pentry v;
          c_assert (feature_flags \<noteq> 0);
          Some (if flag_set feature_flags (DDCA_SIMPLE_NC OR DDCA_EXTENDED_NC) \<or> fcode = 0xca
                then get_version_specific_sl_values pentry v else None)
        })"

definition find_feature_values_for_capabilities ::
    "byte \<Rightarrow> DDCA_MCCS_Version_Spec \<Rightarrow> DDCA_Feature_Value_Entry list option option" where
  "find_feature_values_for_capabilities fcode v =
     (if fcode = 0x14 then
        Some (if major v < 3 then Some x14_color_preset_absolute_values else None)
      else find_feature_value_table fcode v)"

definition lookup_value_name :: "byte \<Rightarrow> DDCA_MCCS_Version_Spec \<Rightarrow> byte \<Rightarrow> string option" where
  "lookup_value_name fcode v slv = do {
     values_for_feature \<leftarrow> find_feature_value_table fcode v;
     es \<leftarrow> values_for_feature;
     Some (case sl_value_table_lookup es slv of Some name \<Rightarrow> name | None \<Rightarrow> ''Invalid value'')
   }"

section \<open>Validation of the table\<close>

text \<open>The messages to the standard error stream are not modelled; the numbers are.\<close>

definition count_flags :: "DDCA_Feature_Flags \<Rightarrow> DDCA_Feature_Flags list \<Rightarrow> int" where
  "count_flags vflags ms = int (length (filter (flag_set vflags) ms))"

definition check_one_version_flags :: "DDCA_Feature_Flags \<Rightarrow> VCP_Feature_Table_Entry \<Rightarrow> int" where
  "check_one_version_flags vflags pentry =
     (if vflags \<noteq> 0 \<and> \<not> flag_set vflags DDCA_DEPRECATED then
        let ct = count_flags vflags [DDCA_STD_CONT, DDCA_COMPLEX_CONT, DDCA_SIMPLE_NC, DDCA_COMPLEX_NC,
                   DDCA_WO_NC, DDCA_NORMAL_TABLE, DDCA_WO_TABLE];
            ct = (if ct \<noteq> 1 then -1 else ct)
        in if flag_set vflags DDCA_SIMPLE_NC then (if default_sl_values pentry = None then -2 else ct)
           else if flag_set vflags DDCA_COMPLEX_NC then (if nontable_formatter pentry = None then -2 else ct)
           else if flag_set vflags DDCA_COMPLEX_CONT then (if nontable_formatter pentry = None then -2 else ct)
           else ct
      else 0)"

definition check_version_rw_flags :: "DDCA_Feature_Flags \<Rightarrow> int" where
  "check_version_rw_flags vflags =
     (if vflags \<noteq> 0 \<and> \<not> flag_set vflags DDCA_DEPRECATED then
        let ct = count_flags vflags [DDCA_RO, DDCA_WO, DDCA_RW]
        in if ct \<noteq> 1 then -1 else ct
      else 0)"

text \<open>The flags and the count of the loop after one entry.\<close>

definition entry_flags :: "VCP_Feature_Table_Entry \<Rightarrow> DDCA_Feature_Flags list" where
  "entry_flags e = [v20_flags e, v21_flags e, v30_flags e, v22_flags e]"

definition validate_entry ::
    "VCP_Feature_Table_Entry \<Rightarrow> bool \<times> bool \<times> int \<Rightarrow> bool \<times> bool \<times> int" where
  "validate_entry pentry st =
     (case st of (ok, ok2, total_ct) \<Rightarrow>
        let (ok, total_ct) = foldl (\<lambda>(ok, total) f.
              let cur_ct = check_version_rw_flags f
              in if cur_ct < 0 then (False, total) else (ok, total + cur_ct)) (ok, total_ct) (entry_flags pentry);
            ok = (if ok \<and> total_ct = 0 then False else ok);
            (ok2, total_ct) = foldl (\<lambda>(ok2, total) f.
              let cur_ct = check_one_version_flags f pentry
              in if cur_ct < 0 then (False, total) else (ok2, total + 1)) (ok2, 0) (entry_flags pentry);
            ok2 = (if total_ct = 0 \<and> ok2 then False else ok2)
        in (ok, ok2, total_ct))"

text \<open>\<open>False\<close> is the \<^verbatim>\<open>PROGRAM_LOGIC_ERROR\<close>.\<close>

definition validate_vcp_feature_table :: bool where
  "validate_vcp_feature_table =
     (case foldl (\<lambda>st e. validate_entry e st) (True, True, 0) vcp_code_table of (ok, ok2, _) \<Rightarrow> ok \<and> ok2)"

end
