(* ===== verification/Vcp_Formatters.thy ===== *)
theory Vcp_Formatters
  imports Vcp_Feature_Codes
begin

text \<open>
  The functions of \<^verbatim>\<open>src/src/vcp/vcp_feature_codes.c\<close> that format a value. Each takes the
  value, the version and the size of the caller's buffer, and returns its result and the text in
  the buffer; \<open>None\<close> is a failed assertion. Trace and severity messages are not modelled.
\<close>

type_synonym formatted = "(bool \<times> string) option"

definition printed :: "nat \<Rightarrow> string \<Rightarrow> formatted" where
  "printed bufsz s = Some (True, snprintf bufsz s)"

section \<open>Table features\<close>

definition default_table_fmt :: "Buffer \<Rightarrow> DDCA_MCCS_Version_Spec \<Rightarrow> formatted" where
  "default_table_fmt buf v = do {
     s \<leftarrow> hexstring2 (contents buf) (Some '' '') False 0;
     Some (True, s)
   }"

definition x73_lut_size_fmt :: "Buffer \<Rightarrow> DDCA_MCCS_Version_Spec \<Rightarrow> formatted" where
  "x73_lut_size_fmt data_bytes v =
     (if buf_len data_bytes \<noteq> 9 then default_table_fmt data_bytes v
      else
        let b = (\<lambda>i. buf_bytes data_bytes ! i)
        in Some (True, snprintf 200
             (''Number of entries: '' @ dec_digits (hi_lo (b 0) (b 1)) @ '' red, '' @
              dec_digits (hi_lo (b 2) (b 3)) @ '' green, '' @ dec_digits (hi_lo (b 4) (b 5)) @
              '' blue,  Bits per entry: '' @ format_byte (b 6) @ '' red, '' @ format_byte (b 7) @
              '' green, '' @ format_byte (b 8) @ '' blue'')))"

definition apply_table_formatter ::
    "Format_Table_Feature_Detail_Function \<Rightarrow> Buffer \<Rightarrow> DDCA_MCCS_Version_Spec \<Rightarrow> formatted" where
  "apply_table_formatter f =
     (case f of default_table_feature_detail_function \<Rightarrow> default_table_fmt
      | format_feature_detail_x73_lut_size \<Rightarrow> x73_lut_size_fmt)"

section \<open>Features without an interpretation\<close>

definition debug_sl_sh_fmt :: "Nontable_Vcp_Value \<Rightarrow> DDCA_MCCS_Version_Spec \<Rightarrow> nat \<Rightarrow> formatted" where
  "debug_sl_sh_fmt info v bufsz =
     printed bufsz (''SL: 0x'' @ format_02x (sl info) @ '' ,  SH: 0x'' @ format_02x (sh info))"

definition four_bytes :: "Nontable_Vcp_Value \<Rightarrow> string" where
  "four_bytes info =
     ''mh=0x'' @ format_02x (mh info) @ '', ml=0x'' @ format_02x (ml info) @
     '', sh=0x'' @ format_02x (sh info) @ '', sl=0x'' @ format_02x (sl info)"

definition debug_continuous_fmt :: "Nontable_Vcp_Value \<Rightarrow> DDCA_MCCS_Version_Spec \<Rightarrow> nat \<Rightarrow> formatted" where
  "debug_continuous_fmt info v bufsz =
     printed bufsz (four_bytes info @ '', max value = '' @ format_wd 5 (max_value info) @
       '', cur value = '' @ format_wd 5 (cur_value info))"

definition debug_bytes_fmt :: "Nontable_Vcp_Value \<Rightarrow> DDCA_MCCS_Version_Spec \<Rightarrow> nat \<Rightarrow> formatted" where
  "debug_bytes_fmt info v bufsz = printed bufsz (four_bytes info)"

section \<open>Functions that several features use\<close>

definition sl_byte_fmt :: "Nontable_Vcp_Value \<Rightarrow> DDCA_MCCS_Version_Spec \<Rightarrow> nat \<Rightarrow> formatted" where
  "sl_byte_fmt info v bufsz = printed bufsz (''Value: 0x'' @ format_02x (sl info))"

definition sh_sl_bytes_fmt :: "Nontable_Vcp_Value \<Rightarrow> DDCA_MCCS_Version_Spec \<Rightarrow> nat \<Rightarrow> formatted" where
  "sh_sl_bytes_fmt info v bufsz =
     printed bufsz (''Value: sh=0x'' @ format_02x (sh info) @ '' sl=0x'' @ format_02x (sl info))"

definition sl_lookup_fmt :: "Nontable_Vcp_Value \<Rightarrow> DDCA_MCCS_Version_Spec \<Rightarrow> nat \<Rightarrow> formatted" where
  "sl_lookup_fmt info v bufsz = do {
     s \<leftarrow> lookup_value_name (nv_code info) v (sl info);
     printed bufsz (s @ '' (sl=0x'' @ format_02x (sl info) @ '')'')
   }"

definition sl_lookup_with_sh_fmt :: "Nontable_Vcp_Value \<Rightarrow> DDCA_MCCS_Version_Spec \<Rightarrow> nat \<Rightarrow> formatted" where
  "sl_lookup_with_sh_fmt info v bufsz = do {
     s \<leftarrow> lookup_value_name (nv_code info) v (sl info);
     printed bufsz (''sh=0x'' @ format_02x (sh info) @ '', sl=0x'' @ format_02x (sl info) @ ''='' @ s)
   }"

definition standard_continuous_fmt :: "Nontable_Vcp_Value \<Rightarrow> DDCA_MCCS_Version_Spec \<Rightarrow> nat \<Rightarrow> formatted" where
  "standard_continuous_fmt info v bufsz =
     printed bufsz (''current value = '' @ format_wd 5 (cur_value info) @
       '', max value = '' @ format_wd 5 (max_value info))"

definition ushort_fmt :: "Nontable_Vcp_Value \<Rightarrow> DDCA_MCCS_Version_Spec \<Rightarrow> nat \<Rightarrow> formatted" where
  "ushort_fmt info v bufsz =
     printed bufsz (format_wd 5 (cur_value info) @ '' (0x'' @ format_0x 4 (cur_value info) @ '')'')"

section \<open>Functions of single features\<close>

definition x02_new_control_value_fmt :: "Nontable_Vcp_Value \<Rightarrow> DDCA_MCCS_Version_Spec \<Rightarrow> nat \<Rightarrow> formatted" where
  "x02_new_control_value_fmt info v bufsz =
     (let name = (if sl info = 0x01 then ''No new control values''
                  else if sl info = 0x02 then ''One or more new control values have been saved''
                  else if sl info = 0xff then ''No user controls are present''
                  else ''<reserved code, must be ignored>'')
      in printed bufsz (name @ '' (0x'' @ format_02x (sl info) @ '')''))"

definition x0b_color_temperature_increment_fmt ::
    "Nontable_Vcp_Value \<Rightarrow> DDCA_MCCS_Version_Spec \<Rightarrow> nat \<Rightarrow> formatted" where
  "x0b_color_temperature_increment_fmt info v bufsz =
     (if cur_value info = 0 \<or> cur_value info > 5000
      then printed bufsz (''Invalid value: '' @ dec_digits (cur_value info))
      else printed bufsz (dec_digits (cur_value info) @ '' degree(s) Kelvin''))"

definition x0c_color_temperature_request_fmt ::
    "Nontable_Vcp_Value \<Rightarrow> DDCA_MCCS_Version_Spec \<Rightarrow> nat \<Rightarrow> formatted" where
  "x0c_color_temperature_request_fmt info v bufsz =
     printed bufsz (''3000 + '' @ dec_digits (cur_value info) @
       '' * (feature 0B color temp increment) degree(s) Kelvin'')"

definition x14_select_color_preset_fmt ::
    "Nontable_Vcp_Value \<Rightarrow> DDCA_MCCS_Version_Spec \<Rightarrow> nat \<Rightarrow> formatted" where
  "x14_select_color_preset_fmt info v bufsz = do {
     let (ok, sl_msg) =
       (if sl info = 0x00 \<or> sl info \<ge> 0xe0 then (False, ''Invalid SL value.'')
        else (case sl_value_table_lookup x14_color_preset_absolute_values (sl info) of
                Some s \<Rightarrow> (True, s)
              | None \<Rightarrow> (False, ''Invalid SL value'')));
     le \<leftarrow> vcp_version_le v DDCA_VSPEC_V21;
     (if le then Some (ok, snprintf bufsz (sl_msg @ '' (0x'' @ format_02x (sl info) @ '')''))
      else
        let (ok, mh_msg) =
          (case sl_value_table_lookup x14_color_preset_tolerances (mh info) of
             Some s \<Rightarrow> (ok, s)
           | None \<Rightarrow> (False, ''Invalid MH value''))
        in Some (ok, snprintf bufsz (sl_msg @ '' (0x'' @ format_02x (sl info) @ ''), Tolerance: '' @
             mh_msg @ '' (0x'' @ format_02x (mh info) @ '')'')))
   }"

definition x62_audio_speaker_volume_fmt ::
    "Nontable_Vcp_Value \<Rightarrow> DDCA_MCCS_Version_Spec \<Rightarrow> nat \<Rightarrow> formatted" where
  "x62_audio_speaker_volume_fmt info v bufsz = do {
     c_assert (nv_code info = 0x62);
     le \<leftarrow> vcp_version_le v DDCA_VSPEC_V21;
     (if le then printed bufsz (format_byte (sl info))
      else if sl info = 0x00 then printed bufsz ''Fixed (default) level (0x00)''
      else if sl info = 0xff then printed bufsz ''Mute (0xff)''
      else printed bufsz (''Volume level: '' @ format_byte (sl info) @ '' (00x'' @ format_02x (sl info) @ '')''))
   }"

definition x72_ssl :: "byte \<Rightarrow> string" where
  "x72_ssl slv =
     (if slv = 0x00 then ''White absolute adjustment''
      else if slv = 0x01 then ''Red absolute adjustment''
      else if slv = 0x02 then ''Green absolute adjustment''
      else if slv = 0x03 then ''Blue absolute adjustment''
      else if slv = 0x04 then ''White relative adjustment''
      else if slv = 0x05 then ''Disable all gamma correction in display''
      else ''Reserved, ignored'')"

definition x72_relative_names :: "(byte \<times> string) list" where
  "x72_relative_names =
     [(0x00, ''Display default gamma''), (0x01, ''Default gamma - 0.1''), (0x02, ''Default gamma - 0.2''),
      (0x03, ''Default gamma - 0.3''), (0x04, ''Default gamma - 0.4''), (0x05, ''Default gamma - 0.5''),
      (0x06, ''Default gamma - 0.6''), (0x07, ''Default gamma - 0.7''), (0x08, ''Default gamma - 0.8''),
      (0x09, ''Default gamma - 0.9''), (0x0a, ''Default gamma - 1.0''), (0x11, ''Default gamma + 0.1''),
      (0x12, ''Default gamma + 0.2''), (0x13, ''Default gamma + 0.3''), (0x14, ''Default gamma + 0.4''),
      (0x15, ''Default gamma + 0.5''), (0x16, ''Default gamma + 0.6''), (0x17, ''Default gamma + 0.7''),
      (0x18, ''Default gamma + 0.8''), (0x19, ''Default gamma + 0.9''), (0x1a, ''Default gamma + 1.0''),
      (0x20, ''Disable all gamma correction'')]"

definition x72_gamma_fmt :: "Nontable_Vcp_Value \<Rightarrow> DDCA_MCCS_Version_Spec \<Rightarrow> nat \<Rightarrow> formatted" where
  "x72_gamma_fmt info v bufsz = do {
     c_assert (nv_code info = 0x72);
     let formatted_sh_sl = snprintf 20 (''0x'' @ format_02x (sh info) @ format_02x (sl info));
     (if sl info = 0x00 \<or> sl info = 0x01 \<or> sl info = 0x02 \<or> sl info = 0x03 then do {
        let igamma = unat (sh info) + 100;
        let sgamma = snprintf 10 (dec_digits igamma);
        let slen = length sgamma;
        c_assert (2 \<le> slen);
        a \<leftarrow> substr sgamma 0 (slen - 2);
        b \<leftarrow> substr sgamma (slen - 2) 2;
        let sgamma2 = snprintf 10 (a @ ''.'' @ b);
        printed bufsz (formatted_sh_sl @ '' - Mode: '' @ x72_ssl (sl info) @ '' (sl=0x'' @
          format_02x (sl info) @ ''), gamma='' @ sgamma2 @ '' (sh=0x'' @ format_02x (sh info) @ '')'')
      }
      else if sl info = 0x04 then
        let ssh = (case map_of x72_relative_names (sh info) of Some s \<Rightarrow> s | None \<Rightarrow> ''Invalid SH value'')
        in printed bufsz (formatted_sh_sl @ '' - '' @ x72_ssl (sl info) @ '' (sl=0x'' @
             format_02x (sl info) @ '') '' @ ssh @ '' (sh=0x'' @ format_02x (sh info) @ '')'')
      else if sl info = 0x05 then
        printed bufsz (formatted_sh_sl @ '' - Mode: gamma correction disabled (sl=0x'' @
          format_02x (sl info) @ ''), sh=0x'' @ format_02x (sh info))
      else
        printed bufsz (formatted_sh_sl @ '' - Invalid sl value. sl=0x'' @ format_02x (sl info) @
          '', sh=0x'' @ format_02x (sh info)))
   }"

definition value_name_or_invalid :: "DDCA_Feature_Value_Entry list \<Rightarrow> byte \<Rightarrow> string" where
  "value_name_or_invalid es b = (case sl_value_table_lookup es b of Some s \<Rightarrow> s | None \<Rightarrow> ''Invalid value'')"

definition x8d_mute_audio_blank_screen_fmt ::
    "Nontable_Vcp_Value \<Rightarrow> DDCA_MCCS_Version_Spec \<Rightarrow> nat \<Rightarrow> formatted" where
  "x8d_mute_audio_blank_screen_fmt info v bufsz = do {
     c_assert (nv_code info = 0x8d);
     let sl_name = value_name_or_invalid x8d_tv_audio_mute_source_values (sl info);
     (if vcp_version_eq v DDCA_VSPEC_V22 then
        let sh_name = value_name_or_invalid x8d_sh_blank_screen_values (sh info)
        in printed bufsz (sl_name @ '' (sl=0x'' @ format_02x (sl info) @ ''), '' @ sh_name @
             '' (sh=0x'' @ format_02x (sh info) @ '')'')
      else printed bufsz (sl_name @ '' (sl=0x'' @ format_02x (sl info) @ '')''))
   }"

definition x8f_x91_audio_treble_bass_fmt ::
    "Nontable_Vcp_Value \<Rightarrow> DDCA_MCCS_Version_Spec \<Rightarrow> nat \<Rightarrow> formatted" where
  "x8f_x91_audio_treble_bass_fmt info v bufsz = do {
     c_assert (nv_code info = 0x8f \<or> nv_code info = 0x91);
     gt \<leftarrow> vcp_version_gt v DDCA_VSPEC_V21;
     c_assert gt;
     le \<leftarrow> vcp_version_le v DDCA_VSPEC_V21;
     (if le then printed bufsz (format_byte (sl info))
      else if sl info = 0x00 \<or> sl info = 0xff
      then Some (False, snprintf bufsz (''Invalid value: 0x'' @ format_02x (sl info)))
      else if sl info < 0x80
      then printed bufsz (format_byte (sl info) @ '': Decreased (0x'' @ format_02x (sl info) @
             '' = neutral - '' @ dec_digits (128 - unat (sl info)) @ '')'')
      else if sl info = 0x80
      then printed bufsz (format_byte (sl info) @ '': Neutral (0x'' @ format_02x (sl info) @ '')'')
      else printed bufsz (format_byte (sl info) @ '': Increased (0x'' @ format_02x (sl info) @
             '' = neutral + '' @ dec_digits (unat (sl info) - 128) @ '')''))
   }"

definition x93_audio_balance_fmt ::
    "Nontable_Vcp_Value \<Rightarrow> DDCA_MCCS_Version_Spec \<Rightarrow> nat \<Rightarrow> formatted" where
  "x93_audio_balance_fmt info v bufsz = do {
     c_assert (nv_code info = 0x93);
     gt \<leftarrow> vcp_version_gt v DDCA_VSPEC_V21;
     c_assert gt;
     le \<leftarrow> vcp_version_le v DDCA_VSPEC_V21;
     (if le then printed bufsz (format_byte (sl info))
      else if sl info = 0x00 \<or> (sl info = 0xff \<and> vcp_version_eq v DDCA_VSPEC_V22)
      then Some (False, snprintf bufsz (''Invalid value: 0x'' @ format_02x (sl info)))
      else if sl info < 0x80
      then printed bufsz (format_byte (sl info) @ '': Left channel dominates (0x'' @ format_02x (sl info) @
             '' = centered - '' @ dec_digits (128 - unat (sl info)) @ '')'')
      else if sl info = 0x80
      then printed bufsz (format_byte (sl info) @ '': Centered (0x'' @ format_02x (sl info) @ '')'')
      else printed bufsz (format_byte (sl info) @ '' Right channel dominates (0x'' @ format_02x (sl info) @
             '' = centered + '' @ dec_digits (unat (sl info) - 128) @ '')''))
   }"

definition all_ff :: "Nontable_Vcp_Value \<Rightarrow> bool" where
  "all_ff info \<longleftrightarrow> mh info = 0xff \<and> ml info = 0xff \<and> sh info = 0xff \<and> sl info = 0xff"

definition xac_horizontal_frequency_fmt ::
    "Nontable_Vcp_Value \<Rightarrow> DDCA_MCCS_Version_Spec \<Rightarrow> nat \<Rightarrow> formatted" where
  "xac_horizontal_frequency_fmt info v bufsz = do {
     c_assert (nv_code info = 0xac);
     (if all_ff info then printed bufsz ''Cannot determine frequency or out of range''
      else printed bufsz (dec_digits (cur_value info) @ '' hz''))
   }"

text \<open>The names of the colours around each of the six axes, from 0x9b: more, less.\<close>

definition hue_names :: "(string \<times> string) list" where
  "hue_names =
     [(''yellow'', ''magenta''), (''green'', ''red''), (''cyan'', ''yellow''),
      (''blue'', ''green''), (''magenta'', ''cyan''), (''red'', ''blue'')]"

definition six_axis_hue_fmt :: "Nontable_Vcp_Value \<Rightarrow> DDCA_MCCS_Version_Spec \<Rightarrow> nat \<Rightarrow> formatted" where
  "six_axis_hue_fmt info v bufsz = do {
     c_assert (0x9b \<le> nv_code info \<and> nv_code info \<le> 0xa0);
     let (more_name, less_name) = hue_names ! (unat (nv_code info) - 155);
     (if sl info < 0x7f
      then printed bufsz (format_byte (sl info) @ '': Shift towards '' @ less_name @ '' (0x'' @
             format_02x (sl info) @ '', nominal-'' @ dec_digits (127 - unat (sl info)) @ '')'')
      else if sl info = 0x7f
      then printed bufsz (format_byte (sl info) @ '': Nominal (default) value (0x'' @ format_02x (sl info) @ '')'')
      else printed bufsz (format_byte (sl info) @ '' Shift towards '' @ more_name @ '' (0x'' @
             format_02x (sl info) @ '', nominal+'' @ dec_digits (unat (sl info) - 127) @ '')''))
   }"

definition xae_vertical_frequency_fmt ::
    "Nontable_Vcp_Value \<Rightarrow> DDCA_MCCS_Version_Spec \<Rightarrow> nat \<Rightarrow> formatted" where
  "xae_vertical_frequency_fmt info v bufsz = do {
     c_assert (nv_code info = 0xae);
     (if all_ff info then printed bufsz ''Cannot determine frequency or out of range''
      else printed bufsz (dec_digits (cur_value info div 100) @ ''.'' @
             format_0d 2 (cur_value info mod 100) @ '' hz''))
   }"

definition xbe_link_control_fmt :: "Nontable_Vcp_Value \<Rightarrow> DDCA_MCCS_Version_Spec \<Rightarrow> nat \<Rightarrow> formatted" where
  "xbe_link_control_fmt info v bufsz =
     printed bufsz (''Link shutdown is '' @ (if sl info AND 0x01 \<noteq> 0 then ''enabled'' else ''disabled'') @
       '' (0x'' @ format_02x (sl info) @ '')'')"

definition xc0_display_usage_time_fmt ::
    "Nontable_Vcp_Value \<Rightarrow> DDCA_MCCS_Version_Spec \<Rightarrow> nat \<Rightarrow> formatted" where
  "xc0_display_usage_time_fmt info v bufsz = do {
     c_assert (nv_code info = 0xc0);
     let usage_time = (if major v \<ge> 3 then unat (ml info) * 65536 + hi_lo (sh info) (sl info)
                       else hi_lo (sh info) (sl info));
     printed bufsz (''Usage time (hours) = '' @ dec_digits usage_time @ '' (0x'' @ format_0x 6 usage_time @
       '') '' @ four_bytes info)
   }"

definition x6c_application_enable_key_fmt ::
    "Nontable_Vcp_Value \<Rightarrow> DDCA_MCCS_Version_Spec \<Rightarrow> nat \<Rightarrow> formatted" where
  "x6c_application_enable_key_fmt info v bufsz = do {
     c_assert (nv_code info = 0xc6);
     printed bufsz (''0x'' @ format_02x (sh info) @ format_02x (sl info))
   }"

definition xc8_display_controller_type_fmt ::
    "Nontable_Vcp_Value \<Rightarrow> DDCA_MCCS_Version_Spec \<Rightarrow> nat \<Rightarrow> formatted" where
  "xc8_display_controller_type_fmt info v bufsz = do {
     c_assert (nv_code info = 0xc8);
     let sl_msg = (case sl_value_table_lookup xc8_display_controller_type_values (sl info) of
                     Some s \<Rightarrow> s | None \<Rightarrow> ''Unrecognized'');
     printed bufsz (''Mfg: '' @ sl_msg @ '' (sl=0x'' @ format_02x (sl info) @ ''), controller number: mh=0x'' @
       format_02x (mh info) @ '', ml=0x'' @ format_02x (ml info) @ '', sh=0x'' @ format_02x (sh info))
   }"

definition xc9_xdf_version_fmt :: "Nontable_Vcp_Value \<Rightarrow> DDCA_MCCS_Version_Spec \<Rightarrow> nat \<Rightarrow> formatted" where
  "xc9_xdf_version_fmt info v bufsz = printed bufsz (format_byte (sh info) @ ''.'' @ format_byte (sl info))"

definition xca_osd_button_control_fmt ::
    "Nontable_Vcp_Value \<Rightarrow> DDCA_MCCS_Version_Spec \<Rightarrow> nat \<Rightarrow> formatted" where
  "xca_osd_button_control_fmt info v bufsz =
     (if vcp_version_eq v DDCA_VSPEC_V22 then
        printed bufsz (value_name_or_invalid xca_v22_osd_button_sl_values (sl info) @ '' (sl=0x'' @
          format_02x (sl info) @ ''), '' @ value_name_or_invalid xca_v22_osd_button_sh_values (sh info) @
          '' (sh=0x'' @ format_02x (sh info) @ '')'')
      else
        printed bufsz (value_name_or_invalid xca_osd_values (sl info) @ '' (sl=0x'' @
          format_02x (sl info) @ '')''))"

definition xce_aux_display_size_fmt ::
    "Nontable_Vcp_Value \<Rightarrow> DDCA_MCCS_Version_Spec \<Rightarrow> nat \<Rightarrow> formatted" where
  "xce_aux_display_size_fmt info v bufsz = do {
     c_assert (nv_code info = 0xce);
     let rows = unat (drop_bit 6 (sl info AND 0xc0));
     let chars_per_row = unat (sl info AND 0x3f);
     printed bufsz (''Rows='' @ dec_digits rows @ '', characters/row='' @ dec_digits chars_per_row @
       '' (sl=0x'' @ format_02x (sl info) @ '')'')
   }"

section \<open>Calls through a pointer\<close>

fun apply_nontable_formatter ::
    "Format_Normal_Feature_Detail_Function \<Rightarrow> Nontable_Vcp_Value \<Rightarrow> DDCA_MCCS_Version_Spec \<Rightarrow> nat \<Rightarrow> formatted" where
  "apply_nontable_formatter format_feature_detail_debug_sl_sh = debug_sl_sh_fmt"
| "apply_nontable_formatter format_feature_detail_debug_continuous = debug_continuous_fmt"
| "apply_nontable_formatter format_feature_detail_debug_bytes = debug_bytes_fmt"
| "apply_nontable_formatter format_feature_detail_sl_byte = sl_byte_fmt"
| "apply_nontable_formatter format_feature_detail_sh_sl_bytes = sh_sl_bytes_fmt"
| "apply_nontable_formatter format_feature_detail_sl_lookup = sl_lookup_fmt"
| "apply_nontable_formatter format_feature_detail_sl_lookup_with_sh = sl_lookup_with_sh_fmt"
| "apply_nontable_formatter format_feature_detail_standard_continuous = standard_continuous_fmt"
| "apply_nontable_formatter format_feature_detail_ushort = ushort_fmt"
| "apply_nontable_formatter format_feature_detail_x02_new_control_value = x02_new_control_value_fmt"
| "apply_nontable_formatter format_feature_detail_x0b_color_temperature_increment = x0b_color_temperature_increment_fmt"
| "apply_nontable_formatter format_feature_detail_x0c_color_temperature_request = x0c_color_temperature_request_fmt"
| "apply_nontable_formatter format_feature_detail_x14_select_color_preset = x14_select_color_preset_fmt"
| "apply_nontable_formatter format_feature_detail_x62_audio_speaker_volume = x62_audio_speaker_volume_fmt"
| "apply_nontable_formatter format_feature_detail_x72_gamma = x72_gamma_fmt"
| "apply_nontable_formatter format_feature_detail_x8d_mute_audio_blank_screen = x8d_mute_audio_blank_screen_fmt"
| "apply_nontable_formatter format_feature_detail_x8f_x91_audio_treble_bass = x8f_x91_audio_treble_bass_fmt"
| "apply_nontable_formatter format_feature_detail_x93_audio_balance = x93_audio_balance_fmt"
| "apply_nontable_formatter format_feature_detail_xac_horizontal_frequency = xac_horizontal_frequency_fmt"
| "apply_nontable_formatter format_feature_detail_6_axis_hue = six_axis_hue_fmt"
| "apply_nontable_formatter format_feature_detail_xae_vertical_frequency = xae_vertical_frequency_fmt"
| "apply_nontable_formatter format_feature_detail_xbe_link_control = xbe_link_control_fmt"
| "apply_nontable_formatter format_feature_detail_xc0_display_usage_time = xc0_display_usage_time_fmt"
| "apply_nontable_formatter format_feature_detail_x6c_application_enable_key = x6c_application_enable_key_fmt"
| "apply_nontable_formatter format_feature_detail_xc8_display_controller_type = xc8_display_controller_type_fmt"
| "apply_nontable_formatter format_feature_detail_xc9_xdf_version = xc9_xdf_version_fmt"
| "apply_nontable_formatter format_feature_detail_xca_osd_button_control = xca_osd_button_control_fmt"
| "apply_nontable_formatter format_feature_detail_xce_aux_display_size = xce_aux_display_size_fmt"

text \<open>A null function is called for a write-only feature.\<close>

definition vcp_format_nontable_feature_detail ::
    "VCP_Feature_Table_Entry \<Rightarrow> DDCA_MCCS_Version_Spec \<Rightarrow> Nontable_Vcp_Value \<Rightarrow> nat \<Rightarrow> formatted" where
  "vcp_format_nontable_feature_detail e v code_info bufsz = do {
     func \<leftarrow> get_nontable_feature_detail_function e v;
     ffd_func \<leftarrow> func;
     apply_nontable_formatter ffd_func code_info v bufsz
   }"

definition vcp_format_table_feature_detail ::
    "VCP_Feature_Table_Entry \<Rightarrow> DDCA_MCCS_Version_Spec \<Rightarrow> Buffer \<Rightarrow> formatted" where
  "vcp_format_table_feature_detail e v accumulated_value =
     apply_table_formatter (get_table_feature_detail_function e v) accumulated_value v"

text \<open>The text is returned only if the formatting function reports success.\<close>

definition vcp_format_feature_detail ::
    "VCP_Feature_Table_Entry \<Rightarrow> DDCA_MCCS_Version_Spec \<Rightarrow> DDCA_Any_Vcp_Value \<Rightarrow> (bool \<times> string option) option" where
  "vcp_format_feature_detail e v valrec = do {
     (ok, txt) \<leftarrow>
       (case val valrec of
          C_nc _ \<Rightarrow> do {
            nontable_value \<leftarrow> single_vcp_value_to_nontable_vcp_value valrec;
            vcp_format_nontable_feature_detail e v nontable_value 200
          }
        | C_table bytes \<Rightarrow> do {
            buf \<leftarrow> buffer_new_with_value bytes;
            vcp_format_table_feature_detail e v buf
          });
     Some (if ok then (True, Some txt) else (False, None))
   }"

end
