(* ===== verification/Dynamic_Features.thy ===== *)
theory Dynamic_Features
  imports Monitor_Model_Key Vcp_Formatters Status_Codes
begin

text \<open>
  User-defined features, \<^verbatim>\<open>src/src/base/dynamic_features.c\<close>: the parser of a feature
  definition file, line by line, and the record it makes. The array of error records is the list
  of their texts; all have the status code \<open>DDCRC_CONFIG_ERROR\<close>.
\<close>

abbreviation DDCRC_CONFIG_ERROR :: int where "DDCRC_CONFIG_ERROR \<equiv> -3028"

section \<open>Words\<close>

text \<open>The first word of a string and what follows it; a null \<open>rest\<close> if nothing does.\<close>

record Tokenized =
  tk_word :: "string option"
  tk_rest :: "string option"

definition first_word :: "string option \<Rightarrow> Tokenized" where
  "first_word s =
     (case s of
        None \<Rightarrow> \<lparr>tk_word = None, tk_rest = None\<rparr>
      | Some s \<Rightarrow>
          (case dropWhile c_isspace s of
             [] \<Rightarrow> \<lparr>tk_word = None, tk_rest = None\<rparr>
           | c # cs \<Rightarrow>
               let w = c # takeWhile (\<lambda>c. \<not> c_isspace c) cs;
                   end' = dropWhile c_isspace (dropWhile (\<lambda>c. \<not> c_isspace c) cs)
               in \<lparr>tk_word = Some w, tk_rest = (if end' = [] then None else Some end')\<rparr>))"

section \<open>The record\<close>

datatype DFR_Flag = DFR_FLAGS_NOT_FOUND | DFR_FLAG_EXCLUDE_FROM_API

text \<open>The hash table is a list of codes and metadata, the latest first, or null.\<close>

record Dynamic_Features_Rec =
  dfr_mfg_id :: string
  dfr_model_name :: string
  dfr_product_code :: "16 word"
  dfr_filename :: "string option"
  dfr_vspec :: DDCA_MCCS_Version_Spec
  dfr_flags :: "DFR_Flag list"
  dfr_features :: "(byte \<times> Dyn_Feature_Metadata) list option"

definition interpret_dfr_flags_symbolic_t :: "DFR_Flag list \<Rightarrow> string" where
  "interpret_dfr_flags_symbolic_t flags =
     (if flags = [] then ''DFR_FLAGS_NONE''
      else butlast (snprintf 100
        ((if DFR_FLAGS_NOT_FOUND \<in> set flags then ''DFR_FLAGS_NOT_FOUND|'' else []) @
         (if DFR_FLAG_EXCLUDE_FROM_API \<in> set flags then ''DFR_FLAG_EXCLUDE_FROM_API|'' else []))))"

definition dyn_get_dynamic_feature_metadata ::
    "Dynamic_Features_Rec option \<Rightarrow> byte \<Rightarrow> Dyn_Feature_Metadata option" where
  "dyn_get_dynamic_feature_metadata dfr fcode =
     (case dfr of
        None \<Rightarrow> None
      | Some dfr \<Rightarrow> (case dfr_features dfr of None \<Rightarrow> None | Some fs \<Rightarrow> map_of fs fcode))"

definition dfr_new :: "string \<Rightarrow> string \<Rightarrow> 16 word \<Rightarrow> string option \<Rightarrow> Dynamic_Features_Rec" where
  "dfr_new mfg name pcode fn =
     \<lparr>dfr_mfg_id = mfg, dfr_model_name = name, dfr_product_code = pcode, dfr_filename = fn,
      dfr_vspec = DDCA_VSPEC_UNKNOWN, dfr_flags = [], dfr_features = None\<rparr>"

section \<open>Error texts\<close>

text \<open>A line number that is not positive stands for the whole file.\<close>

definition error_text :: "string option \<Rightarrow> int \<Rightarrow> string \<Rightarrow> string" where
  "error_text fn linectr msg =
     (let detail = snprintf 200 msg
      in case fn of
           None \<Rightarrow> detail
         | Some fn \<Rightarrow>
             if linectr > 0 then snprintf 300 (detail @ '' at line '' @ format_d linectr)
             else snprintf 300 (detail @ '' in file '' @ fn))"

section \<open>Attributes\<close>

definition attr_flags :: "(string \<times> DDCA_Feature_Flags) list" where
  "attr_flags =
     [(''RW'', DDCA_RW), (''RO'', DDCA_RO), (''WO'', DDCA_WO), (''C'', DDCA_STD_CONT),
      (''CCONT'', DDCA_COMPLEX_CONT), (''NC'', DDCA_SIMPLE_NC), (''SNC'', DDCA_SIMPLE_NC),
      (''XNC'', DDCA_EXTENDED_NC), (''T'', DDCA_TABLE)]"

definition attr_keyword :: "Dyn_Feature_Metadata \<Rightarrow> string \<Rightarrow> bool \<times> Dyn_Feature_Metadata" where
  "attr_keyword m keyword =
     (case map_of attr_flags keyword of
        Some f \<Rightarrow> (True, m\<lparr>dyn_version_feature_flags := dyn_version_feature_flags m OR f\<rparr>)
      | None \<Rightarrow> (False, m))"

definition switch_bits :: "DDCA_Feature_Flags \<Rightarrow> DDCA_Feature_Flags \<Rightarrow> DDCA_Feature_Flags \<Rightarrow> DDCA_Feature_Flags" where
  "switch_bits flags old_bit new_bit = (flags AND NOT old_bit) OR new_bit"

section \<open>The end of a feature\<close>

text \<open>
  The flags of a feature that is complete: a feature with any access flag becomes readable and
  writable; \<^verbatim>\<open>DDCA_NORMAL_TABLE & DDCA_WO\<close> is 0.
\<close>

definition finalize_access :: "DDCA_Feature_Flags \<Rightarrow> DDCA_Feature_Flags" where
  "finalize_access flags =
     (if flag_set flags (DDCA_RW OR DDCA_RO OR DDCA_WO) then flags OR DDCA_RW else flags)"

definition finalize_feature ::
    "Dynamic_Features_Rec \<Rightarrow> Dyn_Feature_Metadata \<Rightarrow> DDCA_Feature_Value_Entry list option \<Rightarrow> string option \<Rightarrow>
     string list \<Rightarrow> Dynamic_Features_Rec \<times> string list" where
  "finalize_feature frec m values fn errors =
     (let m = (case values of None \<Rightarrow> m | Some es \<Rightarrow> m\<lparr>dyn_sl_values := Some es\<rparr>);
          flags = finalize_access (dyn_version_feature_flags m);
          (flags, errors) =
            (if dyn_sl_values m \<noteq> None then
               if flag_set flags DDCA_COMPLEX_NC then
                 (switch_bits flags DDCA_COMPLEX_NC (if flag_set flags DDCA_WO then DDCA_WO_NC else DDCA_SIMPLE_NC), errors)
               else if flag_set flags (DDCA_COMPLEX_CONT OR DDCA_STD_CONT OR DDCA_TABLE) then
                 (flags, errors @ [error_text fn (-1) ''Feature values specified for Continuous or Table feature''])
               else (flags, errors)
             else (flags, errors));
          flags = (if flags AND DDCA_NORMAL_TABLE AND DDCA_WO \<noteq> 0
                   then switch_bits flags DDCA_NORMAL_TABLE DDCA_WO_TABLE else flags);
          m = m\<lparr>dyn_version_feature_flags := flags\<rparr>;
          fs = (case dfr_features frec of None \<Rightarrow> [] | Some fs \<Rightarrow> fs)
      in (frec\<lparr>dfr_features :=
             Some ((dyn_feature_code m, m) # filter (\<lambda>(c, _). c \<noteq> dyn_feature_code m) fs)\<rparr>,
          errors))"

section \<open>The lines of a file\<close>

record Dfr_Parse =
  ps_frec :: Dynamic_Features_Rec
  mfg_id_seen :: bool
  model_name_seen :: bool
  product_code_seen :: bool
  cur_feature_metadata :: "Dyn_Feature_Metadata option"
  cur_feature_values :: "DDCA_Feature_Value_Entry list option"
  parse_errors :: "string list"

definition add_error :: "string option \<Rightarrow> int \<Rightarrow> string \<Rightarrow> Dfr_Parse \<Rightarrow> Dfr_Parse" where
  "add_error fn linectr msg st = st\<lparr>parse_errors := parse_errors st @ [error_text fn linectr msg]\<rparr>"

definition quoted :: "string \<Rightarrow> string" where
  "quoted s = CHR 0x22 # s @ [CHR 0x22]"

lemma first_word_shorter:
  assumes "tk_word (first_word s) = Some w"
  shows "case s of None \<Rightarrow> False | Some t \<Rightarrow>
    (case tk_rest (first_word s) of None \<Rightarrow> True | Some r \<Rightarrow> length r < length t)"
proof -
  obtain t c cs where t: "s = Some t" "dropWhile c_isspace t = c # cs"
    using assms by (auto simp: first_word_def split: option.splits list.splits)
  have "length (dropWhile c_isspace (dropWhile (\<lambda>c. \<not> c_isspace c) cs)) \<le> length cs"
    by (meson length_dropWhile_le order_trans)
  moreover have "length cs < length t" using length_dropWhile_le [of c_isspace t] t(2) by simp
  ultimately show ?thesis by (simp add: first_word_def t Let_def)
qed

function parse_attrs ::
    "string option \<Rightarrow> int \<Rightarrow> string option \<Rightarrow> Dyn_Feature_Metadata \<Rightarrow> Dfr_Parse \<Rightarrow> Dfr_Parse" where
  "parse_attrs fn linectr s m st =
     (let t = first_word s
      in case tk_word t of
           None \<Rightarrow> st\<lparr>cur_feature_metadata := Some m\<rparr>
         | Some w \<Rightarrow>
             parse_attrs fn linectr (tk_rest t) (snd (attr_keyword m w))
               (if fst (attr_keyword m w) then st
                else add_error fn linectr (''Invalid attribute '' @ quoted w) st))"
  by pat_completeness auto

termination
  by (relation "measure (\<lambda>(fn, n, s, m, st). case s of None \<Rightarrow> 0 | Some t \<Rightarrow> Suc (length t))")
    (auto dest!: first_word_shorter split: option.splits)

declare parse_attrs.simps [simp del]

definition finish_feature :: "string option \<Rightarrow> Dfr_Parse \<Rightarrow> Dfr_Parse" where
  "finish_feature fn st =
     (case cur_feature_metadata st of
        None \<Rightarrow> st
      | Some m \<Rightarrow>
          let (f, errors) = finalize_feature (ps_frec st) m (cur_feature_values st) fn (parse_errors st)
          in st\<lparr>ps_frec := f, parse_errors := errors, cur_feature_values := None\<rparr>)"

definition new_feature :: Dyn_Feature_Metadata where
  "new_feature =
     \<lparr>dyn_feature_code = 0, dyn_vcp_version = \<lparr>major = 0, minor = 0\<rparr>, dyn_feature_name = None,
      dyn_feature_desc = None, dyn_sl_values = None,
      dyn_global_feature_flags = DDCA_USER_DEFINED OR DDCA_PERSISTENT_METADATA,
      dyn_version_feature_flags = 0\<rparr>"

text \<open>One function for each keyword; \<open>w2\<close> is the second word, \<open>rest1\<close> and \<open>rest2\<close> what follows the
  first and the second word.\<close>

definition product_code_line :: "string option \<Rightarrow> int \<Rightarrow> string \<Rightarrow> Dfr_Parse \<Rightarrow> Dfr_Parse option" where
  "product_code_line fn linectr w2 st = do {
     let st = st\<lparr>product_code_seen := True\<rparr>;
     r \<leftarrow> str_to_int (Some w2) 10;
     Some (case r of
             None \<Rightarrow> add_error fn linectr (''Invalid product_code '' @ quoted w2) st
           | Some ival \<Rightarrow>
               if ival \<noteq> uint (dfr_product_code (ps_frec st))
               then add_error fn linectr (''Unexpected product_code '' @ format_d ival @ '', expected '' @
                      format_d (uint (dfr_product_code (ps_frec st)))) st
               else st)
   }"

definition mfg_id_line :: "string option \<Rightarrow> int \<Rightarrow> string \<Rightarrow> Dfr_Parse \<Rightarrow> Dfr_Parse" where
  "mfg_id_line fn linectr w2 st =
     (let st = st\<lparr>mfg_id_seen := True\<rparr>
      in if w2 \<noteq> dfr_mfg_id (ps_frec st)
         then add_error fn linectr (''Unexpected manufacturer id '' @ quoted w2 @ '', expected '' @
                quoted (dfr_mfg_id (ps_frec st))) st
         else st)"

definition model_line :: "string option \<Rightarrow> int \<Rightarrow> string \<Rightarrow> Dfr_Parse \<Rightarrow> Dfr_Parse" where
  "model_line fn linectr rest1 st =
     (let st = st\<lparr>model_name_seen := True\<rparr>
      in if FIXUP_MODEL_NAME rest1 \<noteq> dfr_model_name (ps_frec st)
         then add_error fn linectr (''Unexpected model name '' @ quoted rest1 @ '', expected '' @
                quoted (dfr_model_name (ps_frec st))) st
         else st)"

definition mccs_version_line :: "string option \<Rightarrow> int \<Rightarrow> string \<Rightarrow> Dfr_Parse \<Rightarrow> Dfr_Parse" where
  "mccs_version_line fn linectr rest1 st =
     (let vspec = parse_vspec rest1
      in if \<not> vcp_version_is_valid vspec False
         then add_error fn linectr (''Invalid MCCS version: '' @ quoted rest1) st
         else st\<lparr>ps_frec := (ps_frec st)\<lparr>dfr_vspec := vspec\<rparr>\<rparr>)"

definition attrs_line :: "string option \<Rightarrow> int \<Rightarrow> string \<Rightarrow> Dfr_Parse \<Rightarrow> Dfr_Parse" where
  "attrs_line fn linectr rest1 st =
     (case cur_feature_metadata st of
        None \<Rightarrow> add_error fn linectr ''ATTRS before FEATURE_CODE'' st
      | Some m \<Rightarrow> parse_attrs fn linectr (Some rest1) m st)"

text \<open>The number is cut to a byte.\<close>

definition feature_code_line ::
    "string option \<Rightarrow> int \<Rightarrow> string \<Rightarrow> string \<Rightarrow> string option \<Rightarrow> Dfr_Parse \<Rightarrow> Dfr_Parse option" where
  "feature_code_line fn linectr line w2 rest2 st = do {
     let st = finish_feature fn st;
     let m = new_feature;
     (case rest2 of
        None \<Rightarrow>
          Some (add_error fn linectr (''Invalid VCP data '' @ quoted line) (st\<lparr>cur_feature_metadata := Some m\<rparr>))
      | Some name \<Rightarrow> do {
          can \<leftarrow> canonicalize_possible_hex_value w2;
          r \<leftarrow> str_to_int (Some can) 16;
          Some (case r of
                  None \<Rightarrow>
                    add_error fn linectr (''Invalid feature code '' @ quoted w2) (st\<lparr>cur_feature_metadata := Some m\<rparr>)
                | Some feature_id \<Rightarrow>
                    st\<lparr>cur_feature_metadata :=
                         Some (m\<lparr>dyn_feature_code := of_int feature_id, dyn_feature_name := Some name,
                                 dyn_feature_desc := None\<rparr>)\<rparr>)
        })
   }"

definition value_line ::
    "string option \<Rightarrow> int \<Rightarrow> string \<Rightarrow> string \<Rightarrow> string option \<Rightarrow> Dfr_Parse \<Rightarrow> Dfr_Parse option" where
  "value_line fn linectr line w2 rest2 st =
     (case rest2 of
        None \<Rightarrow> Some (add_error fn linectr (''Missing feature value data '' @ quoted line) st)
      | Some name \<Rightarrow> do {
          canonical \<leftarrow> canonicalize_possible_hex_value w2;
          r \<leftarrow> str_to_int (Some canonical) 0;
          Some (case r of
                  Some v \<Rightarrow>
                    if v < 0 \<or> v > 255 then add_error fn linectr (''Invalid feature value '' @ quoted w2) st
                    else st\<lparr>cur_feature_values :=
                              Some ((case cur_feature_values st of None \<Rightarrow> [] | Some es \<Rightarrow> es) @
                                    [sl_value (of_int v) name])\<rparr>
                | None \<Rightarrow> add_error fn linectr (''Invalid feature value '' @ quoted w2) st)
        })"

definition parse_line :: "string option \<Rightarrow> int \<Rightarrow> string \<Rightarrow> Dfr_Parse \<Rightarrow> Dfr_Parse option" where
  "parse_line fn linectr line st =
     (let t1 = first_word (Some line)
      in case tk_word t1 of
           None \<Rightarrow> Some st
         | Some w1 \<Rightarrow>
             if hd w1 = CHR ''*'' \<or> hd w1 = CHR ''#'' then Some st
             else
               let t2 = first_word (tk_rest t1)
               in case tk_word t2 of
                    None \<Rightarrow> Some (add_error fn linectr (''Invalid data '' @ quoted line) st)
                  | Some w2 \<Rightarrow> do {
                      rest1 \<leftarrow> tk_rest t1;
                      (if w1 = ''PRODUCT_CODE'' then product_code_line fn linectr w2 st
                       else if w1 = ''MFG_ID'' then Some (mfg_id_line fn linectr w2 st)
                       else if w1 = ''MODEL'' then Some (model_line fn linectr rest1 st)
                       else if w1 = ''MCCS_VERSION'' \<or> w1 = ''VCP_VERSION''
                       then Some (mccs_version_line fn linectr rest1 st)
                       else if w1 = ''ATTRS'' then Some (attrs_line fn linectr rest1 st)
                       else if w1 = ''FEATURE_CODE'' then feature_code_line fn linectr line w2 (tk_rest t2) st
                       else if w1 = ''VALUE'' then value_line fn linectr line w2 (tk_rest t2) st
                       else Some (add_error fn linectr (''Unexpected field '' @ quoted w1) st))
                    })"

fun parse_lines :: "string option \<Rightarrow> int \<Rightarrow> string list \<Rightarrow> Dfr_Parse \<Rightarrow> Dfr_Parse option" where
  "parse_lines fn linectr [] st = Some st"
| "parse_lines fn linectr (line # lines) st = do {
     st \<leftarrow> parse_line fn (linectr + 1) line st;
     parse_lines fn (linectr + 1) lines st
   }"

definition final_checks :: "string option \<Rightarrow> Dfr_Parse \<Rightarrow> Dfr_Parse" where
  "final_checks fn st =
     (let st = finish_feature fn st;
          st = (if dfr_features (ps_frec st) = Some [] then add_error fn (-1) ''No feature codes defined'' st else st);
          st = (if \<not> mfg_id_seen st then add_error fn (-1) ''Missing MFG_ID'' st else st);
          st = (if \<not> model_name_seen st then add_error fn (-1) ''Missing MODEL_NAME'' st else st)
      in if \<not> product_code_seen st then add_error fn (-1) ''Missing PRODUCT_CODE'' st else st)"

text \<open>The texts of the errors, or the record.\<close>

definition create_dynamic_features_rec ::
    "string \<Rightarrow> string \<Rightarrow> 16 word \<Rightarrow> string list \<Rightarrow> string option \<Rightarrow> (string list + Dynamic_Features_Rec) option" where
  "create_dynamic_features_rec mfg name pcode lines fn = do {
     let frec = (dfr_new mfg name pcode fn)\<lparr>dfr_features := Some []\<rparr>;
     st \<leftarrow> parse_lines fn 0 lines
       \<lparr>ps_frec = frec, mfg_id_seen = False, model_name_seen = False, product_code_seen = False,
        cur_feature_metadata = None, cur_feature_values = None, parse_errors = []\<rparr>;
     let st = final_checks fn st;
     Some (if parse_errors st \<noteq> [] then Inl (parse_errors st) else Inr (Dfr_Parse.ps_frec st))
   }"

section \<open>The parser returns\<close>

lemma first_word_nonempty: "tk_word (first_word s) = Some w \<Longrightarrow> w \<noteq> []"
  by (auto simp: first_word_def Let_def split: option.splits list.splits)

lemma first_word_rest: "tk_word (first_word (tk_rest t)) = Some w \<Longrightarrow> \<exists>r. tk_rest t = Some r"
  by (cases "tk_rest t") (auto simp: first_word_def)

lemma str_to_int_total: "base \<in> {0, 10, 16} \<Longrightarrow> \<exists>r. str_to_int s base = Some r"
  by (auto simp: str_to_int_def str_to_long_def)

lemma canonicalize_total: "s \<noteq> [] \<Longrightarrow> \<exists>r. canonicalize_possible_hex_value s = Some r"
  by (auto simp: canonicalize_possible_hex_value_def)

lemma product_code_line_total: "\<exists>st'. product_code_line fn n w st = Some st'"
  using str_to_int_total [of 10 "Some w"] by (auto simp: product_code_line_def Let_def)

lemma feature_code_line_total:
  assumes "w \<noteq> []"
  shows "\<exists>st'. feature_code_line fn n line w r st = Some st'"
proof -
  obtain can where "canonicalize_possible_hex_value w = Some can" using canonicalize_total [OF assms] by blast
  moreover obtain v where "str_to_int (Some can) 16 = Some v" using str_to_int_total [of 16 "Some can"] by auto
  ultimately show ?thesis by (cases r) (simp_all add: feature_code_line_def Let_def)
qed

lemma value_line_total:
  assumes "w \<noteq> []"
  shows "\<exists>st'. value_line fn n line w r st = Some st'"
proof -
  obtain can where "canonicalize_possible_hex_value w = Some can" using canonicalize_total [OF assms] by blast
  moreover obtain v where "str_to_int (Some can) 0 = Some v" using str_to_int_total [of 0 "Some can"] by auto
  ultimately show ?thesis by (cases r) (simp_all add: value_line_def Let_def)
qed

lemmas line_total = product_code_line_total feature_code_line_total value_line_total

lemma parse_line_cases:
  obtains (same) "parse_line fn n line st = Some st"
  | (invalid) "parse_line fn n line st = Some (add_error fn n (''Invalid data '' @ quoted line) st)"
  | (keyword) w1 w2 rest1 rest2 where "w2 \<noteq> []" "parse_line fn n line st =
      (if w1 = ''PRODUCT_CODE'' then product_code_line fn n w2 st
       else if w1 = ''MFG_ID'' then Some (mfg_id_line fn n w2 st)
       else if w1 = ''MODEL'' then Some (model_line fn n rest1 st)
       else if w1 = ''MCCS_VERSION'' \<or> w1 = ''VCP_VERSION'' then Some (mccs_version_line fn n rest1 st)
       else if w1 = ''ATTRS'' then Some (attrs_line fn n rest1 st)
       else if w1 = ''FEATURE_CODE'' then feature_code_line fn n line w2 rest2 st
       else if w1 = ''VALUE'' then value_line fn n line w2 rest2 st
       else Some (add_error fn n (''Unexpected field '' @ quoted w1) st))"
proof (cases "tk_word (first_word (Some line))")
  case None
  then show ?thesis using same by (simp add: parse_line_def)
next
  case (Some w1)
  let ?t1 = "first_word (Some line)"
  let ?t2 = "first_word (tk_rest ?t1)"
  show ?thesis
  proof (cases "tk_word ?t2")
    case None
    show ?thesis
    proof (cases "hd w1 = CHR ''*'' \<or> hd w1 = CHR ''#''")
      case True
      then show ?thesis using Some same by (simp add: parse_line_def)
    next
      case False
      then show ?thesis using Some None by (intro invalid) (simp add: parse_line_def)
    qed
  next
    case w2: (Some w2)
    obtain rest1 where r: "tk_rest ?t1 = Some rest1" using first_word_rest [OF w2] by blast
    show ?thesis
    proof (cases "hd w1 = CHR ''*'' \<or> hd w1 = CHR ''#''")
      case True
      then show ?thesis using Some same by (simp add: parse_line_def)
    next
      case False
      show ?thesis
        using first_word_nonempty [OF w2] Some w2 r False
        by (intro keyword [of w2 w1 rest1 "tk_rest ?t2"]) (simp_all add: parse_line_def)
    qed
  qed
qed

lemma parse_line_total: "\<exists>st'. parse_line fn n line st = Some st'"
  by (cases rule: parse_line_cases [of fn n line st]) (auto simp: line_total)

lemma parse_lines_total: "\<exists>st'. parse_lines fn n lines st = Some st'"
proof (induction lines arbitrary: n st)
  case (Cons line lines)
  then show ?case using parse_line_total [of fn "n + 1" line st] by auto
qed simp

section \<open>Errors are never dropped\<close>

text \<open>What holds of a state without errors.\<close>

definition feature_ok :: "Dyn_Feature_Metadata \<Rightarrow> bool" where
  "feature_ok m \<longleftrightarrow>
     dyn_feature_name m \<noteq> None \<and>
     dyn_global_feature_flags m = DDCA_USER_DEFINED OR DDCA_PERSISTENT_METADATA \<and>
     \<not> flag_set (dyn_version_feature_flags m) DDCA_COMPLEX_NC"

definition final_feature_ok :: "Dyn_Feature_Metadata \<Rightarrow> bool" where
  "final_feature_ok m \<longleftrightarrow>
     feature_ok m \<and>
     (flag_set (dyn_version_feature_flags m) (DDCA_RO OR DDCA_WO) \<longrightarrow> flag_set (dyn_version_feature_flags m) DDCA_RW) \<and>
     (dyn_sl_values m \<noteq> None \<longrightarrow>
        \<not> flag_set (dyn_version_feature_flags m) (DDCA_COMPLEX_CONT OR DDCA_STD_CONT OR DDCA_TABLE))"

definition parse_ok :: "string \<Rightarrow> string \<Rightarrow> 16 word \<Rightarrow> Dfr_Parse \<Rightarrow> bool" where
  "parse_ok mfg name pcode st \<longleftrightarrow>
     dfr_mfg_id (ps_frec st) = mfg \<and> dfr_model_name (ps_frec st) = name \<and> dfr_product_code (ps_frec st) = pcode \<and>
     (\<exists>fs. dfr_features (ps_frec st) = Some fs \<and>
        (parse_errors st = [] \<longrightarrow>
           distinct (map fst fs) \<and> (\<forall>(c, m) \<in> set fs. dyn_feature_code m = c \<and> final_feature_ok m) \<and>
           (case cur_feature_metadata st of None \<Rightarrow> True | Some m \<Rightarrow> feature_ok m \<and> dyn_sl_values m = None)))"

lemma parse_ok_add_error [simp]: "parse_ok mfg name pcode st \<Longrightarrow> parse_ok mfg name pcode (add_error fn n msg st)"
  by (auto simp: parse_ok_def add_error_def)

lemma attr_flags_not_complex: "map_of attr_flags w = Some f \<Longrightarrow> \<not> flag_set f DDCA_COMPLEX_NC"
  by (auto simp: attr_flags_def flag_set_def DDCA_TABLE_def split: if_splits)

lemma attr_keyword_ok:
  "feature_ok m \<Longrightarrow> feature_ok (snd (attr_keyword m w)) \<and> dyn_sl_values (snd (attr_keyword m w)) = dyn_sl_values m"
  by (auto simp: attr_keyword_def feature_ok_def flag_set_or1 attr_flags_not_complex split: option.split)

lemma parse_attrs_ok:
  "parse_ok mfg name pcode st \<Longrightarrow>
   parse_errors st = [] \<longrightarrow> feature_ok m \<and> dyn_sl_values m = None \<Longrightarrow>
   parse_ok mfg name pcode (parse_attrs fn n s m st)"
proof (induction fn n s m st rule: parse_attrs.induct)
  case (1 fn n s m st)
  show ?case
  proof (cases "tk_word (first_word s)")
    case None
    then show ?thesis using 1(2,3) by (subst parse_attrs.simps) (auto simp: parse_ok_def)
  next
    case (Some w)
    have "parse_ok mfg name pcode (parse_attrs fn n (tk_rest (first_word s)) (snd (attr_keyword m w))
       (if fst (attr_keyword m w) then st else add_error fn n (''Invalid attribute '' @ quoted w) st))"
      using 1(2,3) attr_keyword_ok [of m w] by (intro 1(1) [OF refl Some]) (auto simp: add_error_def parse_ok_def)
    then show ?thesis using Some by (subst parse_attrs.simps) simp
  qed
qed

lemma finalize_access_cases: "finalize_access f = f OR DDCA_RW \<or> finalize_access f = f"
  by (simp add: finalize_access_def)

lemma flag_RW_other: "\<not> flag_set DDCA_RW DDCA_COMPLEX_NC" "flag_set DDCA_RW DDCA_RW"
  "\<not> flag_set DDCA_RW DDCA_RO" "\<not> flag_set DDCA_RW DDCA_WO"
  by (simp_all add: flag_set_def)

lemma finalize_access_complex: "flag_set (finalize_access f) DDCA_COMPLEX_NC \<longleftrightarrow> flag_set f DDCA_COMPLEX_NC"
  using finalize_access_cases [of f] by (auto simp: flag_set_or1 flag_RW_other)

lemma finalize_access_RW:
  "flag_set (finalize_access f) (DDCA_RO OR DDCA_WO) \<Longrightarrow> flag_set (finalize_access f) DDCA_RW"
  unfolding finalize_access_def flag_set_or by (auto simp: flag_set_or1 flag_RW_other split: if_splits)

lemma no_table_and_wo: "f AND DDCA_NORMAL_TABLE AND DDCA_WO = 0"
  by (simp add: and.assoc)

lemma finalize_feature_record:
  "let f = fst (finalize_feature fr m v fn errors)
   in dfr_mfg_id f = dfr_mfg_id fr \<and> dfr_model_name f = dfr_model_name fr \<and>
      dfr_product_code f = dfr_product_code fr \<and> (\<exists>fs. dfr_features f = Some fs \<and> fs \<noteq> [])"
  by (simp add: finalize_feature_def Let_def split: prod.split)

lemma finalize_feature_errors: "\<exists>es. snd (finalize_feature fr m v fn errors) = errors @ es"
  by (auto simp: finalize_feature_def Let_def split: prod.split)

lemma finalize_feature_eq:
  assumes "feature_ok m" "dyn_sl_values m = None"
  shows "finalize_feature fr m vals fn errors =
    (let m' = m\<lparr>dyn_sl_values := vals, dyn_version_feature_flags := finalize_access (dyn_version_feature_flags m)\<rparr>
     in (fr\<lparr>dfr_features := Some ((dyn_feature_code m, m') #
            filter (\<lambda>(c, _). c \<noteq> dyn_feature_code m) (case dfr_features fr of None \<Rightarrow> [] | Some fs \<Rightarrow> fs))\<rparr>,
         if vals \<noteq> None \<and> flag_set (finalize_access (dyn_version_feature_flags m)) (DDCA_COMPLEX_CONT OR DDCA_STD_CONT OR DDCA_TABLE)
         then errors @ [error_text fn (-1) ''Feature values specified for Continuous or Table feature''] else errors))"
proof -
  have nc: "\<not> flag_set (finalize_access (dyn_version_feature_flags m)) DDCA_COMPLEX_NC"
    using assms(1) by (simp add: feature_ok_def finalize_access_complex)
  show ?thesis
    using assms(2) nc unfolding finalize_feature_def no_table_and_wo
    by (cases vals) (simp_all add: Let_def)
qed

lemma finish_feature_ok:
  assumes "parse_ok mfg name pcode st"
  shows "parse_ok mfg name pcode (finish_feature fn st)"
    and "parse_errors (finish_feature fn st) = [] \<Longrightarrow> parse_errors st = []"
proof -
  note fin = finalize_feature_errors
  show grow: "parse_errors (finish_feature fn st) = [] \<Longrightarrow> parse_errors st = []"
    using fin by (auto simp: finish_feature_def Let_def split: option.splits prod.splits)
      (metis append_is_Nil_conv snd_conv)
  show "parse_ok mfg name pcode (finish_feature fn st)"
  proof (cases "cur_feature_metadata st")
    case None
    then show ?thesis using assms by (simp add: finish_feature_def)
  next
    case (Some m)
    obtain f errors where f: "finalize_feature (ps_frec st) m (cur_feature_values st) fn (parse_errors st) = (f, errors)"
      by (cases "finalize_feature (ps_frec st) m (cur_feature_values st) fn (parse_errors st)")
    have st': "finish_feature fn st = st\<lparr>ps_frec := f, parse_errors := errors, cur_feature_values := None\<rparr>"
      by (simp add: finish_feature_def Some f)
    have same: "dfr_mfg_id f = mfg" "dfr_model_name f = name" "dfr_product_code f = pcode" "\<exists>fs. dfr_features f = Some fs"
      using finalize_feature_record [of "ps_frec st" m "cur_feature_values st" fn "parse_errors st"] assms
      by (auto simp: f parse_ok_def Let_def)
    show ?thesis
    proof (cases "parse_errors st = []")
      case False
      then show ?thesis using same grow by (auto simp: parse_ok_def st')
    next
      case True
      obtain fs where fs: "dfr_features (ps_frec st) = Some fs" and d: "distinct (map fst fs)"
        and all: "\<forall>(c, m) \<in> set fs. dyn_feature_code m = c \<and> final_feature_ok m"
        and m: "feature_ok m" "dyn_sl_values m = None"
        using assms True Some by (auto simp: parse_ok_def)
      have all': "dyn_feature_code x = c \<and> final_feature_ok x" if "(c, x) \<in> set fs" for c x using all that by auto
      have d': "distinct (map fst (filter (\<lambda>(c, _). c \<noteq> dyn_feature_code m) fs))"
        using d by (simp add: distinct_map_filter)
      have new: "final_feature_ok (m\<lparr>dyn_sl_values := cur_feature_values st,
          dyn_version_feature_flags := finalize_access (dyn_version_feature_flags m)\<rparr>)" if "errors = []"
        using f m that finalize_access_RW finalize_access_complex
        by (auto simp: finalize_feature_eq [OF m] Let_def final_feature_ok_def feature_ok_def split: if_splits)
      show ?thesis
        using f same d' all' new m Some unfolding finalize_feature_eq [OF m] Let_def
        by (auto simp: parse_ok_def st' fs)
    qed
  qed
qed

section \<open>Every line keeps this\<close>

lemma parse_ok_seen [simp]:
  "parse_ok mfg name pcode (st\<lparr>product_code_seen := b\<rparr>) = parse_ok mfg name pcode st"
  "parse_ok mfg name pcode (st\<lparr>mfg_id_seen := b\<rparr>) = parse_ok mfg name pcode st"
  "parse_ok mfg name pcode (st\<lparr>model_name_seen := b\<rparr>) = parse_ok mfg name pcode st"
  "parse_ok mfg name pcode (st\<lparr>cur_feature_values := v\<rparr>) = parse_ok mfg name pcode st"
  "parse_ok mfg name pcode (st\<lparr>ps_frec := (ps_frec st)\<lparr>dfr_vspec := w\<rparr>\<rparr>) = parse_ok mfg name pcode st"
  by (simp_all add: parse_ok_def)

lemma parse_ok_bad_feature:
  "parse_ok mfg name pcode st \<Longrightarrow> parse_ok mfg name pcode (add_error fn n msg (st\<lparr>cur_feature_metadata := c\<rparr>))"
  by (auto simp: parse_ok_def add_error_def)

lemma parse_ok_new_feature:
  "parse_ok mfg name pcode st \<Longrightarrow> feature_ok m \<Longrightarrow> dyn_sl_values m = None \<Longrightarrow>
   parse_ok mfg name pcode (st\<lparr>cur_feature_metadata := Some m\<rparr>)"
  by (auto simp: parse_ok_def)

lemma product_code_line_ok:
  "parse_ok mfg name pcode st \<Longrightarrow> product_code_line fn n w st = Some st' \<Longrightarrow> parse_ok mfg name pcode st'"
  by (auto simp: product_code_line_def Let_def bind_eq_Some_conv split: option.splits if_splits)

lemma other_lines_ok:
  "parse_ok mfg name pcode st \<Longrightarrow> parse_ok mfg name pcode (mfg_id_line fn n w st)"
  "parse_ok mfg name pcode st \<Longrightarrow> parse_ok mfg name pcode (model_line fn n w st)"
  "parse_ok mfg name pcode st \<Longrightarrow> parse_ok mfg name pcode (mccs_version_line fn n w st)"
  by (simp_all add: mfg_id_line_def model_line_def mccs_version_line_def Let_def)

lemma attrs_line_ok: "parse_ok mfg name pcode st \<Longrightarrow> parse_ok mfg name pcode (attrs_line fn n w st)"
  by (auto simp: attrs_line_def intro!: parse_attrs_ok split: option.split) (auto simp: parse_ok_def)

lemma feature_code_line_ok:
  "parse_ok mfg name pcode st \<Longrightarrow> feature_code_line fn n line w r st = Some st' \<Longrightarrow> parse_ok mfg name pcode st'"
  using finish_feature_ok(1) [of mfg name pcode st fn]
  by (auto simp: feature_code_line_def Let_def bind_eq_Some_conv parse_ok_bad_feature feature_ok_def new_feature_def
      flag_set_def intro!: parse_ok_new_feature split: option.splits)

lemma value_line_ok:
  "parse_ok mfg name pcode st \<Longrightarrow> value_line fn n line w r st = Some st' \<Longrightarrow> parse_ok mfg name pcode st'"
  by (auto simp: value_line_def bind_eq_Some_conv split: option.splits if_splits)

lemmas lines_ok = product_code_line_ok other_lines_ok attrs_line_ok feature_code_line_ok value_line_ok

lemma parse_line_ok:
  assumes ok: "parse_ok mfg name pcode st" and line: "parse_line fn n line st = Some st'"
  shows "parse_ok mfg name pcode st'"
proof -
  show ?thesis
  proof (cases rule: parse_line_cases [of fn n line st])
    case (keyword w1 w2 rest1 rest2)
    have split: "Q (if b then x else y)" if "Q x" "Q y" for Q b and x y :: "Dfr_Parse option"
      using that by simp
    let ?Q = "\<lambda>x. \<forall>st'. x = Some st' \<longrightarrow> parse_ok mfg name pcode st'"
    have "?Q (parse_line fn n line st)"
      unfolding keyword(2)
      by (intro split [of ?Q])
        (use product_code_line_ok [OF ok] feature_code_line_ok [OF ok] value_line_ok [OF ok]
          other_lines_ok [OF ok] attrs_line_ok [OF ok] parse_ok_add_error [OF ok] in auto)
    then show ?thesis using line by blast
  qed (use ok line in auto)
qed

lemma parse_lines_ok:
  "parse_ok mfg name pcode st \<Longrightarrow> parse_lines fn n lines st = Some st' \<Longrightarrow> parse_ok mfg name pcode st'"
  by (induction lines arbitrary: n st) (auto simp: bind_eq_Some_conv dest: parse_line_ok)

lemma final_checks_ok:
  assumes "parse_ok mfg name pcode st"
  shows "parse_ok mfg name pcode (final_checks fn st)"
    "parse_errors (final_checks fn st) = [] \<Longrightarrow> dfr_features (ps_frec (final_checks fn st)) \<noteq> Some []"
  using finish_feature_ok [OF assms, of fn]
  by (simp_all add: final_checks_def Let_def) (simp add: add_error_def split: if_splits)

lemma create_dynamic_features_rec_ok:
  "case create_dynamic_features_rec mfg name pcode lines fn of
     None \<Rightarrow> False
   | Some (Inl errors) \<Rightarrow> errors \<noteq> []
   | Some (Inr r) \<Rightarrow>
       dfr_mfg_id r = mfg \<and> dfr_model_name r = name \<and> dfr_product_code r = pcode \<and>
       (case dfr_features r of None \<Rightarrow> False
        | Some fs \<Rightarrow> fs \<noteq> [] \<and> distinct (map fst fs) \<and>
            list_all (\<lambda>(c, m). dyn_feature_code m = c \<and> final_feature_ok m) fs)"
proof -
  let ?st = "\<lparr>ps_frec = (dfr_new mfg name pcode fn)\<lparr>dfr_features := Some []\<rparr>, mfg_id_seen = False,
     model_name_seen = False, product_code_seen = False, cur_feature_metadata = None,
     cur_feature_values = None, parse_errors = []\<rparr>"
  obtain st where st: "parse_lines fn 0 lines ?st = Some st" using parse_lines_total by blast
  have "parse_ok mfg name pcode ?st" by (simp add: parse_ok_def dfr_new_def)
  then have ok: "parse_ok mfg name pcode st" using st by (rule parse_lines_ok)
  note fin = final_checks_ok [OF ok, of fn]
  show ?thesis
  proof (cases "parse_errors (final_checks fn st) = []")
    case True
    with fin show ?thesis
      by (auto simp: create_dynamic_features_rec_def st Let_def parse_ok_def list_all_iff)
  qed (simp add: create_dynamic_features_rec_def st Let_def)
qed

lemma accepted_features:
  "create_dynamic_features_rec mfg name pcode lines fn = Some (Inr r) \<Longrightarrow>
   \<exists>fs. dfr_features r = Some fs \<and> list_all (\<lambda>(c, m). dyn_feature_code m = c \<and> final_feature_ok m) fs"
  using create_dynamic_features_rec_ok [of mfg name pcode lines fn] by (auto split: option.splits)

text \<open>C25 (feature_definitions_well_formed): Reading a feature definition file returns, with the texts of
  its errors or with a record for the monitor that was asked for. The record has at least one
  feature, one for each code; every feature has a name and the marks of a user-defined one, has a
  list of values only if it is neither continuous nor a table, and if it was declared read-only or
  write-only it can, all the same, be read and written.
\<close>

theorem feature_definitions_well_formed:
  "case create_dynamic_features_rec mfg name pcode lines fn of
     None \<Rightarrow> False
   | Some (Inl errors) \<Rightarrow> errors \<noteq> []
   | Some (Inr r) \<Rightarrow>
       dfr_mfg_id r = mfg \<and> dfr_model_name r = name \<and> dfr_product_code r = pcode \<and>
       (case dfr_features r of None \<Rightarrow> False
        | Some fs \<Rightarrow> fs \<noteq> [] \<and> distinct (map fst fs) \<and>
            list_all (\<lambda>(c, m). dyn_feature_code m = c \<and> final_feature_ok m) fs)"
  by (rule create_dynamic_features_rec_ok)

text \<open>A read-only feature becomes writable.\<close>

lemma read_only_becomes_writable:
  "flag_set f DDCA_RO \<Longrightarrow> flag_set (finalize_access f) DDCA_WRITABLE"
  unfolding finalize_access_def DDCA_WRITABLE_def flag_set_or by (simp add: flag_set_or1 flag_RW_other)

text \<open>A feature code is not checked to be a byte: \<open>1ff\<close> is code 255.\<close>

lemma feature_code_truncated:
  "map_option (\<lambda>st. map_option dyn_feature_code (cur_feature_metadata st))
     (feature_code_line None 1 ''FEATURE_CODE 1ff Name'' ''1ff'' (Some ''Name'')
       \<lparr>ps_frec = dfr_new ''DEL'' ''U3011'' 1 None, mfg_id_seen = True, model_name_seen = True,
        product_code_seen = True, cur_feature_metadata = None, cur_feature_values = None, parse_errors = []\<rparr>)
   = Some (Some 0xff)"
  by code_simp

end
