(* ===== verification/Vcp_Table_Facts.thy ===== *)
theory Vcp_Table_Facts
  imports Vcp_Formatters
begin

text \<open>
  Facts of the whole feature table, \<^verbatim>\<open>vcp_code_table\<close>: the codes are distinct, every version
  of an entry has well-formed flags, and the function chosen to format a value is one that accepts
  the feature.
\<close>


section \<open>Versions that the table tells apart\<close>

text \<open>The functions on an entry read a version only up to this.\<close>

definition canonical_version :: "DDCA_MCCS_Version_Spec \<Rightarrow> DDCA_MCCS_Version_Spec" where
  "canonical_version v =
     (if major v \<ge> 3 then DDCA_VSPEC_V30
      else if major v = 2 \<and> minor v \<ge> 2 then DDCA_VSPEC_V22
      else if major v = 2 \<and> minor v = 1 then DDCA_VSPEC_V21
      else DDCA_VSPEC_V20)"

lemma byte_minor_1: "minor (v :: DDCA_MCCS_Version_Spec) \<ge> 1 \<longleftrightarrow> minor v = 1 \<or> minor v \<ge> 2"
proof -
  have "1 \<le> unat (minor v) \<longleftrightarrow> unat (minor v) = 1 \<or> 2 \<le> unat (minor v)" by linarith
  then show ?thesis by (simp add: word_le_nat_alt word_unat_eq_iff)
qed

lemma byte_2_1: "\<not> (2 :: byte) \<le> 1" "\<not> (3 :: byte) \<le> 2" "\<not> (3 :: byte) \<le> 0"
  by (simp_all add: word_le_nat_alt)

lemma canonical_cases3:
  obtains (3) "major v \<ge> 3" "canonical_version v = DDCA_VSPEC_V30"
  | (22) "\<not> major v \<ge> 3" "major v = 2" "minor v \<ge> 2" "minor v \<noteq> 1" "canonical_version v = DDCA_VSPEC_V22"
  | (21) "\<not> major v \<ge> 3" "major v = 2" "minor v = 1" "canonical_version v = DDCA_VSPEC_V21"
  | (20) "\<not> major v \<ge> 3" "major v = 2 \<longrightarrow> \<not> minor v \<ge> 2 \<and> minor v \<noteq> 1" "canonical_version v = DDCA_VSPEC_V20"
  using byte_2_1 unfolding canonical_version_def
  by (cases "major v \<ge> 3"; cases "major v = 2"; cases "minor v \<ge> 2"; cases "minor v = 1") auto

lemma canonical_flags:
  "get_version_specific_feature_flags e (canonical_version v) = get_version_specific_feature_flags e v"
  by (cases v rule: canonical_cases3)
    (auto simp: get_version_specific_feature_flags_def byte_minor_1 byte_2_1 vspec_defs Let_def)

lemma canonical_sl_values:
  "get_version_specific_sl_values e (canonical_version v) = get_version_specific_sl_values e v"
  by (cases v rule: canonical_cases3)
    (auto simp: get_version_specific_sl_values_def byte_2_1 vspec_defs Let_def)

lemma canonical_sensitive_flags:
  "get_version_sensitive_feature_flags e (canonical_version v) = get_version_sensitive_feature_flags e v"
  by (simp add: get_version_sensitive_feature_flags_def canonical_flags)

lemma canonical_function:
  "get_nontable_feature_detail_function e (canonical_version v) = get_nontable_feature_detail_function e v"
  by (simp add: get_nontable_feature_detail_function_def canonical_sensitive_flags)

lemma canonical_cases: "canonical_version v \<in> set [DDCA_VSPEC_V20, DDCA_VSPEC_V21, DDCA_VSPEC_V30, DDCA_VSPEC_V22]"
  by (simp add: canonical_version_def)

section \<open>Facts of the whole table\<close>

text \<open>What a formatting function asks of the entry it is chosen for.\<close>

definition versioned_formatters :: "Format_Normal_Feature_Detail_Function list" where
  "versioned_formatters =
     [format_feature_detail_x14_select_color_preset, format_feature_detail_x62_audio_speaker_volume,
      format_feature_detail_x8f_x91_audio_treble_bass, format_feature_detail_x93_audio_balance]"

definition lookup_formatters :: "Format_Normal_Feature_Detail_Function list" where
  "lookup_formatters = [format_feature_detail_sl_lookup, format_feature_detail_sl_lookup_with_sh]"

fun formatter_of_code :: "Format_Normal_Feature_Detail_Function \<Rightarrow> byte \<Rightarrow> bool" where
  "formatter_of_code format_feature_detail_x62_audio_speaker_volume c = (c = 0x62)"
| "formatter_of_code format_feature_detail_x72_gamma c = (c = 0x72)"
| "formatter_of_code format_feature_detail_x8d_mute_audio_blank_screen c = (c = 0x8d)"
| "formatter_of_code format_feature_detail_x8f_x91_audio_treble_bass c = (c = 0x8f \<or> c = 0x91)"
| "formatter_of_code format_feature_detail_x93_audio_balance c = (c = 0x93)"
| "formatter_of_code format_feature_detail_xac_horizontal_frequency c = (c = 0xac)"
| "formatter_of_code format_feature_detail_6_axis_hue c = (0x9b \<le> c \<and> c \<le> 0xa0)"
| "formatter_of_code format_feature_detail_xae_vertical_frequency c = (c = 0xae)"
| "formatter_of_code format_feature_detail_xc0_display_usage_time c = (c = 0xc0)"
| "formatter_of_code format_feature_detail_x6c_application_enable_key c = (c = 0xc6)"
| "formatter_of_code format_feature_detail_xc8_display_controller_type c = (c = 0xc8)"
| "formatter_of_code format_feature_detail_xce_aux_display_size c = (c = 0xce)"
| "formatter_of_code _ c = True"

definition entry_formats :: "VCP_Feature_Table_Entry \<Rightarrow> DDCA_MCCS_Version_Spec \<Rightarrow> bool" where
  "entry_formats e w =
     (case get_nontable_feature_detail_function e w of
        Some (Some f) \<Rightarrow>
          formatter_of_code f (vfte_code e) \<and>
          (f = format_feature_detail_sl_lookup \<or> f = format_feature_detail_sl_lookup_with_sh \<longrightarrow>
             get_version_specific_sl_values e w \<noteq> None) \<and>
          (f \<in> set versioned_formatters \<longrightarrow> w = DDCA_VSPEC_V30 \<or> w = DDCA_VSPEC_V22)
      | Some None \<Rightarrow> True
      | None \<Rightarrow>
          (case get_version_sensitive_feature_flags e w of None \<Rightarrow> True | Some fl \<Rightarrow> flag_set fl DDCA_TABLE))"



abbreviation table_versions :: "DDCA_MCCS_Version_Spec list" where
  "table_versions \<equiv> [DDCA_VSPEC_V20, DDCA_VSPEC_V21, DDCA_VSPEC_V30, DDCA_VSPEC_V22]"

text \<open>One access flag and one type flag; a feature is write-only by both or by neither.\<close>

definition access_flags :: "DDCA_Feature_Flags list" where
  "access_flags = [DDCA_RO, DDCA_WO, DDCA_RW]"

definition type_flags :: "DDCA_Feature_Flags list" where
  "type_flags =
     [DDCA_STD_CONT, DDCA_COMPLEX_CONT, DDCA_SIMPLE_NC, DDCA_EXTENDED_NC, DDCA_COMPLEX_NC,
      DDCA_NC_CONT, DDCA_WO_NC, DDCA_NORMAL_TABLE, DDCA_WO_TABLE]"

definition well_typed_flags :: "DDCA_Feature_Flags \<Rightarrow> bool" where
  "well_typed_flags f \<longleftrightarrow>
     count_flags f access_flags = 1 \<and> count_flags f type_flags = 1 \<and>
     flag_set f DDCA_WO = flag_set f (DDCA_WO_NC OR DDCA_WO_TABLE)"

definition has_name :: "VCP_Feature_Table_Entry \<Rightarrow> bool" where
  "has_name e \<longleftrightarrow> v20_name e \<noteq> None \<or> v21_name e \<noteq> None \<or> v30_name e \<noteq> None \<or> v22_name e \<noteq> None"

definition entry_ok :: "VCP_Feature_Table_Entry \<Rightarrow> bool" where
  "entry_ok e \<longleftrightarrow>
     has_name e \<and> list_ex (\<lambda>f. f \<noteq> 0) (entry_flags e) \<and>
     list_all (\<lambda>f. f = 0 \<or> well_typed_flags f) (entry_flags e) \<and>
     list_all (\<lambda>f. nontable_formatter e \<noteq> Some f) lookup_formatters \<and>
     list_all (entry_formats e) table_versions"

text \<open>
  The part of an entry these facts depend on, without the texts: the check of the table runs on
  this form.
\<close>

definition chosen_formatter ::
    "DDCA_Feature_Flags \<Rightarrow> Format_Normal_Feature_Detail_Function option \<Rightarrow>
     Format_Normal_Feature_Detail_Function option option" where
  "chosen_formatter f nf =
     (if f = 0 \<or> \<not> flag_set f DDCA_NON_TABLE then None
      else if flag_set f DDCA_STD_CONT then Some (Some format_feature_detail_standard_continuous)
      else if flag_set f DDCA_SIMPLE_NC then Some (Some format_feature_detail_sl_lookup)
      else if flag_set f DDCA_EXTENDED_NC then Some (Some format_feature_detail_sl_lookup_with_sh)
      else if flag_set f DDCA_WO_NC then Some None
      else if flag_set f (DDCA_COMPLEX_CONT OR DDCA_COMPLEX_NC OR DDCA_NC_CONT) \<and> nf \<noteq> None then Some nf
      else None)"

definition shape_formats ::
    "byte \<Rightarrow> Format_Normal_Feature_Detail_Function option \<Rightarrow> DDCA_Feature_Flags \<Rightarrow> bool \<Rightarrow> bool \<Rightarrow> bool" where
  "shape_formats c nf f has_values after_v21 =
     (case chosen_formatter f nf of
        Some (Some g) \<Rightarrow>
          formatter_of_code g c \<and>
          (g = format_feature_detail_sl_lookup \<or> g = format_feature_detail_sl_lookup_with_sh \<longrightarrow> has_values) \<and>
          (g \<in> set versioned_formatters \<longrightarrow> after_v21)
      | Some None \<Rightarrow> True
      | None \<Rightarrow> f = 0 \<or> flag_set f DDCA_TABLE)"

definition first_flags :: "DDCA_Feature_Flags list \<Rightarrow> DDCA_Feature_Flags" where
  "first_flags fs = (case dropWhile (\<lambda>f. f = 0) fs of [] \<Rightarrow> 0 | f # _ \<Rightarrow> f)"

definition shape_ok ::
    "byte \<Rightarrow> Format_Normal_Feature_Detail_Function option \<Rightarrow> DDCA_Feature_Flags \<Rightarrow> DDCA_Feature_Flags \<Rightarrow>
     DDCA_Feature_Flags \<Rightarrow> DDCA_Feature_Flags \<Rightarrow> bool \<Rightarrow> bool \<Rightarrow> bool \<Rightarrow> bool \<Rightarrow> bool" where
  "shape_ok c nf f20 f21 f30 f22 s20 s21 s30 s22 \<longleftrightarrow>
     list_ex (\<lambda>f. f \<noteq> 0) [f20, f21, f30, f22] \<and>
     list_all (\<lambda>f. f = 0 \<or> well_typed_flags f) [f20, f21, f30, f22] \<and>
     list_all (\<lambda>f. nf \<noteq> Some f) lookup_formatters \<and>
     shape_formats c nf (first_flags [f20, f21, f30, f22]) s20 False \<and>
     shape_formats c nf (first_flags [f21, f20, f30, f22]) (s21 \<or> s20) False \<and>
     shape_formats c nf (first_flags [f30, f21, f20, f22]) (s30 \<or> s21 \<or> s20) True \<and>
     shape_formats c nf (first_flags [f22, f21, f20, f30]) (s22 \<or> s20) True"

lemma nontable_function_eq:
  "get_nontable_feature_detail_function e w =
     (case get_version_sensitive_feature_flags e w of None \<Rightarrow> None
      | Some f \<Rightarrow> chosen_formatter f (nontable_formatter e))"
  by (auto simp: get_nontable_feature_detail_function_def chosen_formatter_def c_assert_def
      split: Option.bind_split option.split)

lemma sensitive_flags_eq:
  "get_version_sensitive_feature_flags e DDCA_VSPEC_V20 =
     (let f = first_flags [v20_flags e, v21_flags e, v30_flags e, v22_flags e] in if f = 0 then None else Some f)"
  "get_version_sensitive_feature_flags e DDCA_VSPEC_V21 =
     (let f = first_flags [v21_flags e, v20_flags e, v30_flags e, v22_flags e] in if f = 0 then None else Some f)"
  "get_version_sensitive_feature_flags e DDCA_VSPEC_V30 =
     (let f = first_flags [v30_flags e, v21_flags e, v20_flags e, v22_flags e] in if f = 0 then None else Some f)"
  "get_version_sensitive_feature_flags e DDCA_VSPEC_V22 =
     (let f = first_flags [v22_flags e, v21_flags e, v20_flags e, v30_flags e] in if f = 0 then None else Some f)"
  by (simp_all add: get_version_sensitive_feature_flags_def get_version_specific_feature_flags_def
      vspec_defs first_flags_def byte_2_1)

lemma sensitive_flags_in:
  "get_version_sensitive_feature_flags e w = Some f \<Longrightarrow> f \<in> set (entry_flags e) \<and> f \<noteq> 0"
  by (auto simp: get_version_sensitive_feature_flags_def get_version_specific_feature_flags_def
      entry_flags_def Let_def split: if_splits)

lemma sensitive_not_0: "get_version_sensitive_feature_flags e w \<noteq> Some 0"
  using sensitive_flags_in by blast

lemma sensitive_flags_None:
  "get_version_sensitive_feature_flags e w = None \<Longrightarrow> f \<in> set (entry_flags e) \<Longrightarrow> f = 0"
  by (auto simp: get_version_sensitive_feature_flags_def get_version_specific_feature_flags_def
      entry_flags_def Let_def split: if_splits)

lemma entry_formats_eq:
  "entry_formats e w = (case get_version_sensitive_feature_flags e w of None \<Rightarrow> True
     | Some f \<Rightarrow> shape_formats (vfte_code e) (nontable_formatter e) f
         (get_version_specific_sl_values e w \<noteq> None) (w = DDCA_VSPEC_V30 \<or> w = DDCA_VSPEC_V22))"
  using sensitive_not_0 [of e w]
  by (auto simp: entry_formats_def nontable_function_eq shape_formats_def lookup_formatters_def split: option.split)

lemma entry_ok_shape:
  "entry_ok e \<longleftrightarrow> has_name e \<and> shape_ok (vfte_code e) (nontable_formatter e)
     (v20_flags e) (v21_flags e) (v30_flags e) (v22_flags e)
     (default_sl_values e \<noteq> None) (v21_sl_values e \<noteq> None) (v30_sl_values e \<noteq> None) (v22_sl_values e \<noteq> None)"
proof -
  have z: "shape_formats c nf 0 b b'" for c nf b b' by (simp add: shape_formats_def chosen_formatter_def)
  have sl: "get_version_specific_sl_values e DDCA_VSPEC_V20 \<noteq> None \<longleftrightarrow> default_sl_values e \<noteq> None"
    "get_version_specific_sl_values e DDCA_VSPEC_V21 \<noteq> None \<longleftrightarrow> v21_sl_values e \<noteq> None \<or> default_sl_values e \<noteq> None"
    "get_version_specific_sl_values e DDCA_VSPEC_V30 \<noteq> None \<longleftrightarrow>
       v30_sl_values e \<noteq> None \<or> v21_sl_values e \<noteq> None \<or> default_sl_values e \<noteq> None"
    "get_version_specific_sl_values e DDCA_VSPEC_V22 \<noteq> None \<longleftrightarrow> v22_sl_values e \<noteq> None \<or> default_sl_values e \<noteq> None"
    by (auto simp: get_version_specific_sl_values_def vspec_defs byte_2_1 Let_def)
  show ?thesis
    unfolding entry_ok_def shape_ok_def entry_formats_eq list.pred_inject sensitive_flags_eq sl entry_flags_def
    by (auto simp: z Let_def)
qed

lemma entry_ok_record:
  "entry_ok \<lparr>vfte_code = c, vfte_desc = d, nontable_formatter = nf, table_formatter = tf, vcp_global_flags = gf,
      vcp_spec_groups = sg, vcp_subsets = su, v20_name = n20, v21_name = n21, v30_name = n30,
      v22_name = n22, v20_flags = f20, v21_flags = f21, v30_flags = f30, v22_flags = f22,
      default_sl_values = s20, v21_sl_values = s21, v30_sl_values = s30, v22_sl_values = s22\<rparr> \<longleftrightarrow>
   (n20 \<noteq> None \<or> n21 \<noteq> None \<or> n30 \<noteq> None \<or> n22 \<noteq> None) \<and>
   shape_ok c nf f20 f21 f30 f22 (s20 \<noteq> None) (s21 \<noteq> None) (s30 \<noteq> None) (s22 \<noteq> None)"
  by (simp add: entry_ok_shape has_name_def)

lemmas entry_ok_simps = vcp_entry_defs vfte_def entry_ok_record

lemma table_part_a: "list_all entry_ok (take 25 (drop 0 vcp_code_table))"
  by (simp add: vcp_code_table_def entry_ok_simps) code_simp

lemma table_part_b: "list_all entry_ok (take 25 (drop 25 vcp_code_table))"
  by (simp add: vcp_code_table_def entry_ok_simps) code_simp

lemma table_part_c: "list_all entry_ok (take 25 (drop 50 vcp_code_table))"
  by (simp add: vcp_code_table_def entry_ok_simps) code_simp

lemma table_part_d: "list_all entry_ok (take 25 (drop 75 vcp_code_table))"
  by (simp add: vcp_code_table_def entry_ok_simps) code_simp

lemma table_part_e: "list_all entry_ok (take 25 (drop 100 vcp_code_table))"
  by (simp add: vcp_code_table_def entry_ok_simps) code_simp

lemma table_part_f: "list_all entry_ok (take 25 (drop 125 vcp_code_table))"
  by (simp add: vcp_code_table_def entry_ok_simps) code_simp

lemma table_in_parts:
  "vcp_code_table = take 25 (drop 0 vcp_code_table) @ take 25 (drop 25 vcp_code_table) @
     take 25 (drop 50 vcp_code_table) @ take 25 (drop 75 vcp_code_table) @
     take 25 (drop 100 vcp_code_table) @ take 25 (drop 125 vcp_code_table)"
  by (simp add: vcp_code_table_def)

lemma table_ok: "list_all entry_ok vcp_code_table"
  by (subst table_in_parts) (simp only: list_all_append table_part_a table_part_b table_part_c table_part_d
      table_part_e table_part_f simp_thms)

lemma find_entry_Some: "find_entry es c = Some e \<Longrightarrow> e \<in> set es \<and> vfte_code e = c"
  by (induction es) (auto split: if_splits)

lemma found_entry_ok: "vcp_find_feature_by_hexid c = Some e \<Longrightarrow> entry_ok e \<and> vfte_code e = c"
  using find_entry_Some [of vcp_code_table c e] table_ok
  by (auto simp: vcp_find_feature_by_hexid_def list_all_iff)

lemma find_entry_distinct:
  "distinct (map vfte_code es) \<Longrightarrow> e \<in> set es \<Longrightarrow> find_entry es (vfte_code e) = Some e"
  by (induction es) (auto simp: image_iff)

text \<open>The codes are in ascending order, so that every entry is the one for its code.\<close>

lemma table_codes_sorted: "sorted_wrt (<) (map vfte_code vcp_code_table)"
proof -
  have "successively (<) (map vfte_code vcp_code_table)"
    by (simp add: vcp_code_table_def vcp_entry_defs vfte_def word_less_nat_alt)
  then show ?thesis by (simp add: successively_conv_sorted_wrt)
qed

lemma table_codes_distinct: "distinct (map vfte_code vcp_code_table)"
  using table_codes_sorted by (simp add: strict_sorted_iff)

section \<open>The validation of the table\<close>

text \<open>An entry that one of the checks rejects makes the validation fail.\<close>

lemma inner_fold_False:
  "fst (foldl (\<lambda>(ok, total) f. let cur_ct = g f in if cur_ct < 0 then (False, total) else (ok, total + k f)) (b, t) fs)
   \<longleftrightarrow> b \<and> (\<forall>f \<in> set fs. 0 \<le> g f)" for g k :: "'a \<Rightarrow> int"
  by (induction fs arbitrary: b t) (auto simp: Let_def not_less)

lemma validate_entry_rejects:
  assumes "\<not> ok2 \<or> (\<exists>f \<in> set (entry_flags e). check_one_version_flags f e < 0)"
  shows "\<exists>ok' t'. validate_entry e (ok, ok2, t) = (ok', False, t')"
proof -
  have "\<not> fst (foldl (\<lambda>(ok2, total) f. let cur_ct = check_one_version_flags f e
      in if cur_ct < 0 then (False, total) else (ok2, total + 1)) (ok2, 0 :: int) (entry_flags e))"
    using assms inner_fold_False [of "\<lambda>f. check_one_version_flags f e" "\<lambda>_. 1" ok2 0 "entry_flags e"]
    by (auto simp: not_le)
  then show ?thesis by (auto simp: validate_entry_def Let_def split: prod.split)
qed

lemma validate_stays_rejected:
  "\<exists>ok' t'. foldl (\<lambda>st e. validate_entry e st) (ok, False, t) es = (ok', False, t')"
proof (induction es arbitrary: ok t)
  case (Cons e es)
  then show ?case using validate_entry_rejects [of False e ok t] by auto
qed simp

lemma validate_rejects:
  assumes "e \<in> set es" "f \<in> set (entry_flags e)" "check_one_version_flags f e < 0"
  shows "\<exists>ok' t'. foldl (\<lambda>st e. validate_entry e st) st es = (ok', False, t')"
  using assms(1)
proof (induction es arbitrary: st)
  case (Cons d es)
  obtain ok ok2 t where st: "st = (ok, ok2, t)" by (cases st)
  show ?case
  proof (cases "d = e")
    case True
    obtain ok' t' where "validate_entry e (ok, ok2, t) = (ok', False, t')"
      using validate_entry_rejects [of ok2 e ok t] assms(2,3) by blast
    then show ?thesis using validate_stays_rejected [of ok' t' es] True by (simp add: st)
  qed (use Cons in auto)
qed simp

text \<open>
  The flag of a feature that is continuous apart from reserved values, \<open>DDCA_NC_CONT\<close>, is not
  among the flags that are counted, and the features that have it are rejected.
\<close>

lemma feature_table_fails_validation: "\<not> validate_vcp_feature_table"
proof -
  have 1: "vcp_entry_62 \<in> set vcp_code_table" by (simp add: vcp_code_table_def)
  have 2: "v30_flags vcp_entry_62 \<in> set (entry_flags vcp_entry_62)" by (simp add: entry_flags_def)
  have 3: "check_one_version_flags (v30_flags vcp_entry_62) vcp_entry_62 < 0" by code_simp
  show ?thesis
    using validate_rejects [OF 1 2 3, of "(True, True, 0)"]
    by (auto simp: validate_vcp_feature_table_def)
qed

section \<open>The entry for a code\<close>

lemma find_feature_iff: "vcp_find_feature_by_hexid c = Some e \<longleftrightarrow> e \<in> set vcp_code_table \<and> vfte_code e = c"
  using find_entry_distinct [OF table_codes_distinct, of e] find_entry_Some [of vcp_code_table c e]
  by (auto simp: vcp_find_feature_by_hexid_def)

lemma feature_names_known: "get_feature_name_by_id_only c \<noteq> None \<and> get_feature_name_by_id_and_vcp_version c v \<noteq> None"
proof -
  have "get_version_sensitive_feature_name e w \<noteq> None" if "vcp_find_feature_by_hexid c = Some e" for e w
  proof -
    have "has_name e" using found_entry_ok [OF that] by (simp add: entry_ok_def)
    then show ?thesis
      by (auto simp: has_name_def get_version_sensitive_feature_name_def get_version_specific_feature_name_def Let_def)
  qed
  then show ?thesis
    by (auto simp: get_feature_name_by_id_only_def get_feature_name_by_id_and_vcp_version_def
        get_non_version_specific_feature_name_def split: option.split)
qed

text \<open>The names of the groups fit in the 100 bytes the caller provides.\<close>

lemma cat_group_names_total:
  "length buf + sum_list (map (\<lambda>(m, s). length s + 2) ts) < bufsz \<Longrightarrow> cat_group_names ts groups buf bufsz \<noteq> None"
proof (induction ts groups buf bufsz rule: cat_group_names.induct)
  case (2 m s rest groups buf bufsz)
  then show ?case by (auto simp: str_comma_cat_r_def c_assert_def)
qed simp

lemma spec_group_names_fit: "spec_group_names_r e 100 \<noteq> None"
  using cat_group_names_total [of "[]" spec_group_table 100]
  by (simp add: spec_group_names_r_def spec_group_table_def)

section \<open>The formatting functions return\<close>

definition fits :: "nat \<Rightarrow> formatted \<Rightarrow> bool" where
  "fits bufsz r = (case r of None \<Rightarrow> False | Some (ok, s) \<Rightarrow> length s \<le> bufsz - 1)"

lemma fits_simps [simp]:
  "fits bufsz (printed bufsz s)" "fits bufsz (Some (ok, snprintf bufsz s))" "\<not> fits bufsz None"
  by (simp_all add: fits_def printed_def snprintf_def)

lemma length_dec_digits: "10 \<le> n \<Longrightarrow> 2 \<le> length (dec_digits n)"
  by (subst dec_digits.simps) (cases "dec_digits (n div 10)", simp_all)

lemma x72_fits: "nv_code info = 0x72 \<Longrightarrow> fits bufsz (x72_gamma_fmt info v bufsz)"
  using length_dec_digits [of "unat (sh info) + 100"]
  by (auto simp: x72_gamma_fmt_def Let_def snprintf_def [of 10] substr_def)

lemma le_V21: "vcp_version_le v DDCA_VSPEC_V21 = None \<longleftrightarrow> v \<notin> mccs_versions"
  by (simp add: le_None_iff mccs_versions_def doubleton_eq_iff)

lemma canonical_constants [simp]:
  "canonical_version DDCA_VSPEC_V10 = DDCA_VSPEC_V20" "canonical_version DDCA_VSPEC_V20 = DDCA_VSPEC_V20"
  "canonical_version DDCA_VSPEC_V21 = DDCA_VSPEC_V21" "canonical_version DDCA_VSPEC_V30 = DDCA_VSPEC_V30"
  "canonical_version DDCA_VSPEC_V22 = DDCA_VSPEC_V22"
  by code_simp+

lemma gt_V21:
  assumes "canonical_version v = DDCA_VSPEC_V30 \<or> canonical_version v = DDCA_VSPEC_V22"
  shows "vcp_version_le v DDCA_VSPEC_V21 = (if v \<in> mccs_versions then Some False else None)"
    "vcp_version_gt v DDCA_VSPEC_V21 = (if v \<in> mccs_versions then Some True else None)"
proof -
  have "v = DDCA_VSPEC_V30 \<or> v = DDCA_VSPEC_V22" if "v \<in> mccs_versions"
    using that assms by (auto simp: mccs_versions_def)
  then show le: "vcp_version_le v DDCA_VSPEC_V21 = (if v \<in> mccs_versions then Some False else None)"
    using le_V21 [of v] by auto
  then show "vcp_version_gt v DDCA_VSPEC_V21 = (if v \<in> mccs_versions then Some True else None)"
    by (simp add: vcp_version_gt_def)
qed

lemmas fmt_defs = x62_audio_speaker_volume_fmt_def x8d_mute_audio_blank_screen_fmt_def
  x8f_x91_audio_treble_bass_fmt_def x93_audio_balance_fmt_def xac_horizontal_frequency_fmt_def
  six_axis_hue_fmt_def xae_vertical_frequency_fmt_def xc0_display_usage_time_fmt_def
  x6c_application_enable_key_fmt_def xc8_display_controller_type_fmt_def xce_aux_display_size_fmt_def
  debug_sl_sh_fmt_def debug_continuous_fmt_def debug_bytes_fmt_def sl_byte_fmt_def sh_sl_bytes_fmt_def
  standard_continuous_fmt_def ushort_fmt_def x02_new_control_value_fmt_def
  x0b_color_temperature_increment_fmt_def x0c_color_temperature_request_fmt_def
  xbe_link_control_fmt_def xc9_xdf_version_fmt_def xca_osd_button_control_fmt_def

text \<open>Those that read a version only by its numbers.\<close>

lemma formatter_fits:
  assumes "formatter_of_code f (nv_code info)" "f \<notin> set versioned_formatters"
    "f \<noteq> format_feature_detail_sl_lookup" "f \<noteq> format_feature_detail_sl_lookup_with_sh"
  shows "fits bufsz (apply_nontable_formatter f info v bufsz)"
  using assms by (cases f) (simp_all add: fmt_defs x72_fits versioned_formatters_def Let_def split: prod.split)

text \<open>Those that compare versions.\<close>

lemma versioned_formatter_fits:
  assumes "formatter_of_code f (nv_code info)" "f \<in> set versioned_formatters"
    "canonical_version v = DDCA_VSPEC_V30 \<or> canonical_version v = DDCA_VSPEC_V22"
  shows "if v \<in> mccs_versions then fits bufsz (apply_nontable_formatter f info v bufsz)
    else apply_nontable_formatter f info v bufsz = None"
  using assms gt_V21 [OF assms(3)]
  by (auto simp: versioned_formatters_def fmt_defs x14_select_color_preset_fmt_def Let_def split: prod.split)

lemma lookup_value_name_total:
  assumes "vcp_find_feature_by_hexid c = Some e" "get_version_sensitive_feature_flags e v = Some f"
    "flag_set f DDCA_SIMPLE_NC \<or> flag_set f DDCA_EXTENDED_NC" "get_version_specific_sl_values e v \<noteq> None"
  shows "lookup_value_name c v b \<noteq> None"
proof -
  obtain es where es: "get_version_specific_sl_values e v = Some es" using assms(4) by blast
  have "flag_set f (DDCA_SIMPLE_NC OR DDCA_EXTENDED_NC)" "f \<noteq> 0"
    using assms(3) unfolding flag_set_or by (auto simp: flag_set_def)
  then show ?thesis using assms(1,2) es by (simp add: lookup_value_name_def find_feature_value_table_def)
qed

lemma lookup_formatter_fits:
  assumes "vcp_find_feature_by_hexid (nv_code info) = Some e" "get_version_sensitive_feature_flags e v = Some f"
    "flag_set f DDCA_SIMPLE_NC \<or> flag_set f DDCA_EXTENDED_NC" "get_version_specific_sl_values e v \<noteq> None"
  shows "fits bufsz (sl_lookup_fmt info v bufsz)" "fits bufsz (sl_lookup_with_sh_fmt info v bufsz)"
  using lookup_value_name_total [OF assms, of "sl info"]
  by (auto simp: sl_lookup_fmt_def sl_lookup_with_sh_fmt_def)

lemma chosen_lookup:
  assumes "chosen_formatter f nf = Some (Some g)" "g \<in> set lookup_formatters" "\<forall>h \<in> set lookup_formatters. nf \<noteq> Some h"
  shows "flag_set f DDCA_SIMPLE_NC \<or> flag_set f DDCA_EXTENDED_NC"
  using assms by (auto simp: chosen_formatter_def lookup_formatters_def split: if_splits)

text \<open>What holds of the function that is chosen for an entry of the table.\<close>

lemma chosen_function_cases:
  assumes e: "vcp_find_feature_by_hexid c = Some e"
    and f: "get_nontable_feature_detail_function e v = Some (Some f)"
  obtains (lookup) flags where "f \<in> set lookup_formatters" "get_version_sensitive_feature_flags e v = Some flags"
      "flag_set flags DDCA_SIMPLE_NC \<or> flag_set flags DDCA_EXTENDED_NC" "get_version_specific_sl_values e v \<noteq> None"
  | (versioned) "f \<in> set versioned_formatters" "formatter_of_code f c"
      "canonical_version v = DDCA_VSPEC_V30 \<or> canonical_version v = DDCA_VSPEC_V22"
  | (other) "f \<notin> set lookup_formatters" "f \<notin> set versioned_formatters" "formatter_of_code f c"
proof -
  have ok: "entry_ok e" and c: "vfte_code e = c" using found_entry_ok [OF e] by auto
  have ef: "entry_formats e (canonical_version v)"
    using ok canonical_cases [of v] by (auto simp: entry_ok_def)
  then have code: "formatter_of_code f c" and vals: "f \<in> set lookup_formatters \<longrightarrow> get_version_specific_sl_values e v \<noteq> None"
    and ver: "f \<in> set versioned_formatters \<longrightarrow> canonical_version v = DDCA_VSPEC_V30 \<or> canonical_version v = DDCA_VSPEC_V22"
    using f by (simp_all add: entry_formats_def canonical_function canonical_sl_values c lookup_formatters_def)
  show ?thesis
  proof (cases "f \<in> set lookup_formatters")
    case True
    obtain flags where "get_version_sensitive_feature_flags e v = Some flags"
      "chosen_formatter flags (nontable_formatter e) = Some (Some f)"
      using f by (auto simp: nontable_function_eq split: option.splits)
    with chosen_lookup [OF this(2) True] ok True vals lookup show ?thesis by (auto simp: entry_ok_def list_all_iff)
  next
    case False
    then show ?thesis using code ver versioned other by blast
  qed
qed

text \<open>C28 (formatting_ends_normally): A value of a feature of the table, formatted with the function that
  the table gives for the display's version. In every version that MCCS defines the function ends normally,
  whatever the bytes of the value are, and its text fits the buffer. In any other version, such as 2.3 or
  3.1, the functions of the five features that compare versions end the program by an assertion, and only
  they do; the text of all others fits the buffer there too.
\<close>

theorem formatting_ends_normally:
  assumes e: "vcp_find_feature_by_hexid (nv_code info) = Some e"
    and f: "get_nontable_feature_detail_function e v = Some (Some f)"
  shows "(v \<in> mccs_versions \<longrightarrow>
            (\<exists>ok s. vcp_format_nontable_feature_detail e v info bufsz = Some (ok, s) \<and> length s \<le> bufsz - 1)) \<and>
         (v \<notin> mccs_versions \<longrightarrow>
            (case vcp_format_nontable_feature_detail e v info bufsz of
               None \<Rightarrow> f \<in> set versioned_formatters
             | Some (ok, s) \<Rightarrow> f \<notin> set versioned_formatters \<and> length s \<le> bufsz - 1))"
proof -
  have call: "vcp_format_nontable_feature_detail e v info bufsz = apply_nontable_formatter f info v bufsz"
    using f by (simp add: vcp_format_nontable_feature_detail_def)
  have "if v \<in> mccs_versions \<or> f \<notin> set versioned_formatters then fits bufsz (apply_nontable_formatter f info v bufsz)
    else apply_nontable_formatter f info v bufsz = None"
    using e f
  proof (cases rule: chosen_function_cases)
    case (lookup flags)
    then show ?thesis
      using lookup_formatter_fits [OF e] by (auto simp: lookup_formatters_def versioned_formatters_def)
  next
    case versioned
    then show ?thesis using versioned_formatter_fits by force
  next
    case other
    then show ?thesis using formatter_fits by (auto simp: lookup_formatters_def)
  qed
  then show ?thesis
    unfolding call by (auto simp: fits_def split: option.splits if_splits)
qed

theorem formatting_ends_normally_witness:
  "let info = \<lparr>nv_code = 0x14, max_value = 255, cur_value = 7, mh = 0, ml = 255, sh = 0, sl = 7\<rparr>
   in (\<exists>ok s. vcp_format_nontable_feature_detail vcp_entry_14 DDCA_VSPEC_V22 info 200 = Some (ok, s) \<and> length s \<le> 199) \<and>
      vcp_format_nontable_feature_detail vcp_entry_14 \<lparr>major = 2, minor = 3\<rparr> info 200 = None"
proof -
  let ?info = "\<lparr>nv_code = 0x14, max_value = 255, cur_value = 7, mh = 0, ml = 255, sh = 0, sl = 7\<rparr>"
  let ?v = "\<lparr>major = 2, minor = 3\<rparr> :: DDCA_MCCS_Version_Spec"
  have e: "vcp_find_feature_by_hexid (nv_code ?info) = Some vcp_entry_14"
    by code_simp
  have f: "get_nontable_feature_detail_function vcp_entry_14 ?v = Some (Some format_feature_detail_x14_select_color_preset)"
    "get_nontable_feature_detail_function vcp_entry_14 DDCA_VSPEC_V22 =
       Some (Some format_feature_detail_x14_select_color_preset)"
    by code_simp+
  have v: "?v \<notin> mccs_versions" "DDCA_VSPEC_V22 \<in> mccs_versions" by (simp_all add: mccs_versions_def vspec_defs)
  show ?thesis
    using formatting_ends_normally [OF e f(1), of 200] formatting_ends_normally [OF e f(2), of 200] v
    by (auto simp: versioned_formatters_def split: option.splits)
qed

lemma one_access_flag:
  "count_flags f access_flags = 1 \<Longrightarrow> \<not> flag_set f DDCA_WO \<Longrightarrow> flag_set f DDCA_READABLE"
  unfolding DDCA_READABLE_def flag_set_or by (auto simp: count_flags_def access_flags_def split: if_splits)

lemma one_type_flag:
  assumes "count_flags f type_flags = 1" "a \<in> set type_flags" "b \<in> set type_flags" "flag_set f a" "flag_set f b"
  shows "a = b"
proof -
  have "length (filter (flag_set f) type_flags) = Suc 0" using assms(1) unfolding count_flags_def by linarith
  then obtain x where x: "filter (flag_set f) type_flags = [x]" unfolding length_Suc_conv by auto
  have "a \<in> set (filter (flag_set f) type_flags)" "b \<in> set (filter (flag_set f) type_flags)" using assms by simp_all
  then show ?thesis unfolding x by simp
qed

lemma non_table_flags: "flag_set f DDCA_NON_TABLE \<longleftrightarrow>
   flag_set f DDCA_STD_CONT \<or> flag_set f DDCA_COMPLEX_CONT \<or> flag_set f DDCA_EXTENDED_NC \<or> flag_set f DDCA_SIMPLE_NC \<or>
   flag_set f DDCA_COMPLEX_NC \<or> flag_set f DDCA_WO_NC \<or> flag_set f DDCA_NC_CONT"
  unfolding DDCA_NON_TABLE_def DDCA_CONT_def DDCA_NC_def flag_set_or by blast

lemma readable_if_chosen:
  assumes "well_typed_flags f" "chosen_formatter f nf = Some (Some g)"
  shows "flag_set f DDCA_NON_TABLE \<and> flag_set f DDCA_READABLE"
proof -
  have nt: "flag_set f DDCA_NON_TABLE" and wo: "flag_set f DDCA_WO_NC \<Longrightarrow> flag_set f DDCA_STD_CONT \<or> flag_set f DDCA_SIMPLE_NC \<or> flag_set f DDCA_EXTENDED_NC"
    using assms(2) by (auto simp: chosen_formatter_def split: if_splits)
  have one: "count_flags f type_flags = 1" using assms(1) by (simp add: well_typed_flags_def)
  note same = one_type_flag [OF one]
  have only: "flag_set f a \<Longrightarrow> a \<in> set type_flags \<Longrightarrow> flag_set f b \<Longrightarrow> b \<in> set type_flags \<Longrightarrow> a \<noteq> b \<Longrightarrow> False" for a b
    using same by blast
  have "\<not> flag_set f DDCA_WO_NC"
    using wo only [of DDCA_WO_NC DDCA_STD_CONT] only [of DDCA_WO_NC DDCA_SIMPLE_NC] only [of DDCA_WO_NC DDCA_EXTENDED_NC]
    by (simp add: type_flags_def) blast
  moreover have "\<not> flag_set f DDCA_WO_TABLE"
    using nt only [of DDCA_WO_TABLE DDCA_STD_CONT] only [of DDCA_WO_TABLE DDCA_COMPLEX_CONT]
      only [of DDCA_WO_TABLE DDCA_EXTENDED_NC] only [of DDCA_WO_TABLE DDCA_SIMPLE_NC]
      only [of DDCA_WO_TABLE DDCA_COMPLEX_NC] only [of DDCA_WO_TABLE DDCA_WO_NC] only [of DDCA_WO_TABLE DDCA_NC_CONT]
    unfolding non_table_flags by (simp add: type_flags_def) blast
  ultimately have "\<not> flag_set f DDCA_WO" using assms(1) unfolding well_typed_flags_def flag_set_or by blast
  then show ?thesis using nt one_access_flag assms(1) by (auto simp: well_typed_flags_def)
qed

text \<open>C29 (table_features_well_typed): Every feature of the table has, in every version a display may
  report, flags with exactly one access flag and exactly one type flag, write-only by both or by
  neither; a function that formats values exists if the feature is readable and not a table, the
  null pointer stands for write-only features, and no other case arises.
\<close>

theorem table_features_well_typed:
  assumes "vcp_find_feature_by_hexid c = Some e"
  shows "\<exists>flags. get_version_sensitive_feature_flags e v = Some flags \<and> well_typed_flags flags \<and>
    (case get_nontable_feature_detail_function e v of
       None \<Rightarrow> flag_set flags DDCA_TABLE
     | Some None \<Rightarrow> flag_set flags DDCA_WO_NC
     | Some (Some f) \<Rightarrow> flag_set flags DDCA_NON_TABLE \<and> flag_set flags DDCA_READABLE)"
proof -
  have ok: "entry_ok e" using found_entry_ok [OF assms] by auto
  obtain flags where flags: "get_version_sensitive_feature_flags e v = Some flags"
    using ok sensitive_flags_None [of e v]
    by (cases "get_version_sensitive_feature_flags e v") (auto simp: entry_ok_def list_ex_iff)
  have wt: "well_typed_flags flags"
    using ok sensitive_flags_in [OF flags] by (auto simp: entry_ok_def list_all_iff)
  have ef: "entry_formats e (canonical_version v)"
    using ok canonical_cases [of v] by (auto simp: entry_ok_def)
  have chosen: "get_nontable_feature_detail_function e v = chosen_formatter flags (nontable_formatter e)"
    by (simp add: nontable_function_eq flags)
  have "case chosen_formatter flags (nontable_formatter e) of
       None \<Rightarrow> flag_set flags DDCA_TABLE
     | Some None \<Rightarrow> flag_set flags DDCA_WO_NC
     | Some (Some f) \<Rightarrow> flag_set flags DDCA_NON_TABLE \<and> flag_set flags DDCA_READABLE"
  proof (cases "chosen_formatter flags (nontable_formatter e)")
    case None
    then show ?thesis
      using ef flags by (simp add: entry_formats_def canonical_function canonical_sensitive_flags chosen)
  next
    case (Some r)
    show ?thesis
    proof (cases r)
      case None
      then have "flag_set flags DDCA_WO_NC" using Some by (simp add: chosen_formatter_def split: if_splits)
      then show ?thesis using Some None by simp
    next
      case (Some g)
      then show ?thesis using readable_if_chosen [OF wt, of "nontable_formatter e" g] \<open>chosen_formatter flags _ = Some r\<close> by simp
    qed
  qed
  then show ?thesis using flags wt chosen by simp
qed

theorem table_features_well_typed_witness:
  "\<exists>flags. get_version_sensitive_feature_flags vcp_entry_14 DDCA_VSPEC_V21 = Some flags \<and> well_typed_flags flags"
proof -
  have "vcp_find_feature_by_hexid 0x14 = Some vcp_entry_14" by code_simp
  from table_features_well_typed [OF this, of DDCA_VSPEC_V21] show ?thesis by blast
qed

end
