(* ===== verification/Dyn_Feature_Codes.thy ===== *)
theory Dyn_Feature_Codes
  imports Dynamic_Features Vcp_Table_Facts
begin

text \<open>
  The metadata of a feature from a user's definition or from the feature table, and the
  formatting of its values: \<^verbatim>\<open>src/src/dynvcp/dyn_feature_codes.c\<close>, and the loading of a
  definition, \<^verbatim>\<open>src/src/dynvcp/dyn_feature_files.c\<close>.
\<close>

section \<open>Definition files\<close>

abbreviation DDCRC_NOT_FOUND :: int where "DDCRC_NOT_FOUND \<equiv> -3024"

text \<open>
  What the file system has under a name in the data directories: nothing, or the full name of a file
  and either the error of reading it or its lines.
\<close>

type_synonym data_files = "string \<Rightarrow> (string \<times> (int + string list)) option"

text \<open>An error is its status code and its texts.\<close>

type_synonym Dfr_Error = "int \<times> string list"

definition dfr_find_feature_def_file :: "data_files \<Rightarrow> string \<Rightarrow> (string \<times> (int + string list)) option" where
  "dfr_find_feature_def_file files simple_fn = files (simple_fn @ ''.mccs'')"

text \<open>After an error the record is a dummy, so that the file is not searched for again.\<close>

definition dfr_load_by_mmk :: "data_files \<Rightarrow> Monitor_Model_Key \<Rightarrow> (Dfr_Error option \<times> Dynamic_Features_Rec) option" where
  "dfr_load_by_mmk files mmk = do {
     let simple_fn = mmk_model_id_string (mmk_mfg mmk) (mmk_model mmk) (mmk_product mmk);
     r \<leftarrow> (case dfr_find_feature_def_file files simple_fn of
             Some (fqfn, Inl rc) \<Rightarrow> Some (Inl (rc, []))
           | Some (fqfn, Inr lines) \<Rightarrow> do {
               r \<leftarrow> create_dynamic_features_rec (mmk_mfg mmk) (mmk_model mmk) (mmk_product mmk) lines (Some fqfn);
               Some (case r of Inl msgs \<Rightarrow> Inl (DDCRC_CONFIG_ERROR, msgs) | Inr dfr \<Rightarrow> Inr dfr)
             }
           | None \<Rightarrow> Some (Inl (DDCRC_NOT_FOUND, [''Feature definition file not found: '' @ simple_fn @ ''.mccs''])));
     Some (case r of
             Inl errs \<Rightarrow>
               (Some errs,
                (dfr_new (mmk_mfg mmk) (mmk_model mmk) (mmk_product mmk) None)\<lparr>dfr_flags := [DFR_FLAGS_NOT_FOUND]\<rparr>)
           | Inr dfr \<Rightarrow> (None, dfr))
   }"

text \<open>The part of a display reference that the check reads and writes.\<close>

record Dref_Dfr =
  dref_mmk :: Monitor_Model_Key
  dref_dfr :: "Dynamic_Features_Rec option"
  DREF_DYNAMIC_FEATURES_CHECKED :: bool

definition dfr_check_by_dref ::
    "data_files \<Rightarrow> bool \<Rightarrow> Dref_Dfr \<Rightarrow> (Dfr_Error option \<times> Dref_Dfr) option" where
  "dfr_check_by_dref files enable_dynamic_features dref = do {
     c_assert (DREF_DYNAMIC_FEATURES_CHECKED dref = (dref_dfr dref \<noteq> None));
     (if enable_dynamic_features \<and> \<not> DREF_DYNAMIC_FEATURES_CHECKED dref then do {
        (errs, dfr) \<leftarrow> dfr_load_by_mmk files (dref_mmk dref);
        Some (errs, dref\<lparr>dref_dfr := Some dfr, DREF_DYNAMIC_FEATURES_CHECKED := True\<rparr>)
      }
      else Some (None, dref))
   }"

section \<open>Formatting with a list of values\<close>

definition dyn_sl_lookup_fmt ::
    "Nontable_Vcp_Value \<Rightarrow> DDCA_Feature_Value_Entry list option \<Rightarrow> nat \<Rightarrow> formatted" where
  "dyn_sl_lookup_fmt info value_table bufsz =
     (case value_table of
        Some es \<Rightarrow>
          printed bufsz ((case sl_value_table_lookup es (sl info) of Some s \<Rightarrow> s | None \<Rightarrow> ''Unrecognized value'') @
            '' (sl=0x'' @ format_02x (sl info) @ '')'')
      | None \<Rightarrow> printed bufsz (''0x'' @ format_02x (sl info)))"

definition dyn_sl_lookup_with_sh_fmt ::
    "Nontable_Vcp_Value \<Rightarrow> DDCA_Feature_Value_Entry list option \<Rightarrow> nat \<Rightarrow> formatted" where
  "dyn_sl_lookup_with_sh_fmt info value_table bufsz =
     (case value_table of
        Some es \<Rightarrow>
          printed bufsz ((case sl_value_table_lookup es (sl info) of Some s \<Rightarrow> s | None \<Rightarrow> ''Unrecognized value'') @
            '' (sl=0x'' @ format_02x (sl info) @ ''), sh=0x'' @ format_02x (sh info))
      | None \<Rightarrow> printed bufsz (''sh=0x'' @ format_02x (sh info) @ '', sl=0x'' @ format_02x (sl info)))"

fun apply_nontable_formatter_sl ::
    "Format_Normal_Feature_Detail_Function2 \<Rightarrow> Nontable_Vcp_Value \<Rightarrow> DDCA_Feature_Value_Entry list option \<Rightarrow>
     nat \<Rightarrow> formatted" where
  "apply_nontable_formatter_sl dyn_format_feature_detail_sl_lookup = dyn_sl_lookup_fmt"
| "apply_nontable_formatter_sl dyn_format_feature_detail_sl_lookup_with_sh = dyn_sl_lookup_with_sh_fmt"

section \<open>Metadata\<close>

definition user_defined_formatter :: "Dyn_Feature_Metadata \<Rightarrow> Display_Feature_Metadata \<Rightarrow> Display_Feature_Metadata" where
  "user_defined_formatter dyn_meta dfm =
     (let flags = dyn_version_feature_flags dyn_meta
      in if flag_set flags DDCA_SIMPLE_NC then
           (if dyn_sl_values dyn_meta \<noteq> None
            then dfm\<lparr>dfm_nontable_formatter_sl := Some dyn_format_feature_detail_sl_lookup\<rparr>
            else dfm\<lparr>dfm_nontable_formatter := Some format_feature_detail_sl_byte\<rparr>)
         else if flag_set flags DDCA_EXTENDED_NC then
           (if dyn_sl_values dyn_meta \<noteq> None
            then dfm\<lparr>dfm_nontable_formatter_sl := Some dyn_format_feature_detail_sl_lookup_with_sh\<rparr>
            else dfm\<lparr>dfm_nontable_formatter := Some format_feature_detail_sl_byte\<rparr>)
         else if flag_set flags DDCA_STD_CONT then
           dfm\<lparr>dfm_nontable_formatter := Some format_feature_detail_standard_continuous\<rparr>
         else if flag_set flags DDCA_TABLE then
           dfm\<lparr>dfm_table_formatter := Some default_table_feature_detail_function\<rparr>
         else dfm\<lparr>dfm_nontable_formatter := Some format_feature_detail_debug_bytes\<rparr>)"

definition table_defined_formatter ::
    "VCP_Feature_Table_Entry \<Rightarrow> Display_Feature_Metadata \<Rightarrow> Display_Feature_Metadata option" where
  "table_defined_formatter pentry dfm =
     (let flags = version_feature_flags dfm
      in if flag_set flags DDCA_TABLE then
           Some (case table_formatter pentry of
                   Some f \<Rightarrow> dfm\<lparr>dfm_table_formatter := Some f\<rparr>
                 | None \<Rightarrow>
                     if flag_set flags DDCA_NORMAL_TABLE
                     then dfm\<lparr>dfm_table_formatter := Some default_table_feature_detail_function\<rparr>
                     else if flag_set flags DDCA_WO_TABLE then dfm\<lparr>dfm_table_formatter := None\<rparr>
                     else dfm)
         else if flag_set flags DDCA_NON_TABLE then
           if flag_set flags DDCA_STD_CONT
           then Some (dfm\<lparr>dfm_nontable_formatter := Some format_feature_detail_standard_continuous\<rparr>)
           else if flag_set flags DDCA_SIMPLE_NC
           then Some (dfm\<lparr>dfm_nontable_formatter :=
                  Some (if dfm_sl_values dfm \<noteq> None then format_feature_detail_sl_lookup else format_feature_detail_sl_byte)\<rparr>)
           else if flag_set flags DDCA_EXTENDED_NC
           then Some (dfm\<lparr>dfm_nontable_formatter :=
                  Some (if dfm_sl_values dfm \<noteq> None then format_feature_detail_sl_lookup_with_sh
                        else format_feature_detail_sh_sl_bytes)\<rparr>)
           else if flag_set flags DDCA_WO_NC then Some (dfm\<lparr>dfm_nontable_formatter := None\<rparr>)
           else do {
             c_assert (flag_set flags (DDCA_COMPLEX_CONT OR DDCA_COMPLEX_NC OR DDCA_NC_CONT));
             Some (dfm\<lparr>dfm_nontable_formatter :=
                     (case nontable_formatter pentry of
                        Some f \<Rightarrow> Some f
                      | None \<Rightarrow> Some format_feature_detail_debug_bytes)\<rparr>)
           }
         else do {
           c_assert (flag_set flags DDCA_DEPRECATED);
           Some (dfm\<lparr>dfm_nontable_formatter := Some format_feature_detail_debug_bytes\<rparr>)
         })"

definition dyn_get_feature_metadata_by_dfr_and_vspec_dfm ::
    "byte \<Rightarrow> Dynamic_Features_Rec option \<Rightarrow> DDCA_MCCS_Version_Spec \<Rightarrow> bool \<Rightarrow>
     Display_Feature_Metadata option option" where
  "dyn_get_feature_metadata_by_dfr_and_vspec_dfm fcode dfr vspec with_default =
     (case dyn_get_dynamic_feature_metadata dfr fcode of
        Some dfr_metadata \<Rightarrow> do {
          dfm \<leftarrow> dfm_from_dyn_feature_metadata dfr_metadata;
          Some (Some (user_defined_formatter dfr_metadata (dfm\<lparr>vcp_version := vspec\<rparr>)))
        }
      | None \<Rightarrow>
          (case (if with_default then Some (vcp_find_feature_by_hexid_w_default fcode)
                 else vcp_find_feature_by_hexid fcode) of
             None \<Rightarrow> Some None
           | Some pentry \<Rightarrow> do {
               dfm \<leftarrow> extract_version_feature_info_from_feature_table_entry pentry vspec True;
               dfm \<leftarrow> table_defined_formatter pentry dfm;
               Some (Some dfm)
             }))"

definition dyn_get_feature_metadata_by_mmk_and_vspec ::
    "data_files \<Rightarrow> byte \<Rightarrow> Monitor_Model_Key \<Rightarrow> DDCA_MCCS_Version_Spec \<Rightarrow> bool \<Rightarrow> bool \<Rightarrow>
     Display_Feature_Metadata option option" where
  "dyn_get_feature_metadata_by_mmk_and_vspec files fcode mmk vspec check_udf with_default = do {
     dfr \<leftarrow> (if check_udf then map_option (\<lambda>(_, dfr). Some dfr) (dfr_load_by_mmk files mmk) else Some None);
     dyn_get_feature_metadata_by_dfr_and_vspec_dfm fcode dfr vspec with_default
   }"

section \<open>Formatting\<close>

definition dyn_format_nontable_feature_detail ::
    "Display_Feature_Metadata \<Rightarrow> Nontable_Vcp_Value \<Rightarrow> nat \<Rightarrow> formatted" where
  "dyn_format_nontable_feature_detail dfm code_info bufsz =
     (case dfm_nontable_formatter dfm of
        Some ffd_func \<Rightarrow> apply_nontable_formatter ffd_func code_info (vcp_version dfm) bufsz
      | None \<Rightarrow>
          (case dfm_nontable_formatter_sl dfm of
             Some ffd_func \<Rightarrow> apply_nontable_formatter_sl ffd_func code_info (dfm_sl_values dfm) bufsz
           | None \<Rightarrow> Some (False, [])))"

definition dyn_format_table_feature_detail :: "Display_Feature_Metadata \<Rightarrow> Buffer \<Rightarrow> formatted" where
  "dyn_format_table_feature_detail dfm accumulated_value = do {
     ffd_func \<leftarrow> dfm_table_formatter dfm;
     apply_table_formatter ffd_func accumulated_value (vcp_version dfm)
   }"

definition dyn_format_feature_detail ::
    "Display_Feature_Metadata \<Rightarrow> DDCA_Any_Vcp_Value \<Rightarrow> (bool \<times> string option) option" where
  "dyn_format_feature_detail dfm valrec =
     (case val valrec of
        C_nc _ \<Rightarrow> do {
          nontable_value \<leftarrow> single_vcp_value_to_nontable_vcp_value valrec;
          (ok, workbuf) \<leftarrow> dyn_format_nontable_feature_detail dfm nontable_value 200;
          Some (ok, if ok then Some workbuf else None)
        }
      | C_table bytes \<Rightarrow> do {
          buf \<leftarrow> buffer_new_with_value bytes;
          (ok, txt) \<leftarrow> dyn_format_table_feature_detail dfm buf;
          c_assert ok;
          Some (True, Some txt)
        })"

text \<open>A null display reference has no version.\<close>

definition dyn_get_feature_name ::
    "byte \<Rightarrow> (Dynamic_Features_Rec option \<times> DDCA_MCCS_Version_Spec) option \<Rightarrow> string option" where
  "dyn_get_feature_name fcode dref =
     (case dref of
        None \<Rightarrow> get_feature_name_by_id_only fcode
      | Some (dfr, vspec) \<Rightarrow>
          (case dyn_get_dynamic_feature_metadata dfr fcode of
             Some m \<Rightarrow>
               (case dyn_feature_name m of
                  Some s \<Rightarrow> Some s
                | None \<Rightarrow> get_feature_name_by_id_and_vcp_version fcode vspec)
           | None \<Rightarrow> get_feature_name_by_id_and_vcp_version fcode vspec))"

section \<open>User-defined features\<close>

lemma dfm_from_definition:
  assumes "final_feature_ok m"
  shows "dfm_from_dyn_feature_metadata m = Some
    ((dfm_new (dyn_feature_code m))
      \<lparr>feature_desc := dyn_feature_desc m, feature_name := dyn_feature_name m,
       global_feature_flags := DDCA_USER_DEFINED OR DDCA_PERSISTENT_METADATA,
       version_feature_flags := dyn_version_feature_flags m, vcp_version := DDCA_VSPEC_UNQUERIED,
       dfm_sl_values := dyn_sl_values m\<rparr>)"
  using assms
  by (simp add: final_feature_ok_def feature_ok_def dfm_from_dyn_feature_metadata_def flag_set_def
      DDCA_SYNTHETIC_VCP_FEATURE_TABLE_ENTRY_def copy_sl_value_table_id dfm_new_def)

lemma plain_formatters_fit [simp]:
  "fits bufsz (sl_byte_fmt info v bufsz)" "fits bufsz (standard_continuous_fmt info v bufsz)"
  "fits bufsz (debug_bytes_fmt info v bufsz)" "fits bufsz (dyn_sl_lookup_fmt info es bufsz)"
  "fits bufsz (dyn_sl_lookup_with_sh_fmt info es bufsz)" "fits bufsz (Some (False, []))"
  by (simp_all add: fmt_defs dyn_sl_lookup_fmt_def dyn_sl_lookup_with_sh_fmt_def fits_def [of bufsz "Some _"]
      split: option.split)

lemma user_defined_formatter_fits:
  assumes "dfm_nontable_formatter dfm = None" "dfm_nontable_formatter_sl dfm = None"
  shows "fits bufsz (dyn_format_nontable_feature_detail (user_defined_formatter m dfm) info bufsz)"
  using assms by (auto simp: user_defined_formatter_def dyn_format_nontable_feature_detail_def Let_def)

text \<open>C26 (user_defined_features_format): A feature that an accepted definition file defines has metadata
  with the name and the values of the file, for every version of the display, and every value that
  is not a table is formatted with them, in the room of the buffer.
\<close>

theorem user_defined_features_format:
  assumes "create_dynamic_features_rec mfg name pcode lines fn = Some (Inr r)"
    and "dyn_get_dynamic_feature_metadata (Some r) c = Some m"
  shows "\<exists>dfm. dyn_get_feature_metadata_by_dfr_and_vspec_dfm c (Some r) v with_default = Some (Some dfm) \<and>
    feature_code dfm = c \<and> feature_name dfm = dyn_feature_name m \<and> dfm_sl_values dfm = dyn_sl_values m \<and>
    vcp_version dfm = v \<and> (\<forall>info bufsz. fits bufsz (dyn_format_nontable_feature_detail dfm info bufsz))"
proof -
  obtain fs where fs: "dfr_features r = Some fs"
    "list_all (\<lambda>(c, m). dyn_feature_code m = c \<and> final_feature_ok m) fs"
    using accepted_features [OF assms(1)] by blast
  then have m: "final_feature_ok m" "dyn_feature_code m = c"
    using assms(2) by (auto simp: dyn_get_dynamic_feature_metadata_def list_all_iff dest!: map_of_SomeD)
  have "\<forall>info bufsz. fits bufsz (dyn_format_nontable_feature_detail (user_defined_formatter m dfm) info bufsz)"
    if "dfm_nontable_formatter dfm = None" "dfm_nontable_formatter_sl dfm = None" for dfm
    using user_defined_formatter_fits that by blast
  moreover have "feature_code (user_defined_formatter m dfm) = feature_code dfm \<and>
      feature_name (user_defined_formatter m dfm) = feature_name dfm \<and>
      dfm_sl_values (user_defined_formatter m dfm) = dfm_sl_values dfm \<and>
      vcp_version (user_defined_formatter m dfm) = vcp_version dfm" for dfm
    by (simp add: user_defined_formatter_def Let_def)
  ultimately show ?thesis
    unfolding dyn_get_feature_metadata_by_dfr_and_vspec_dfm_def assms(2)
    using m(2) by (simp add: dfm_from_definition [OF m(1)]) (simp add: dfm_new_def)
qed

definition sample_definition :: "string list" where
  "sample_definition =
     [''MFG_ID DEL'', ''MODEL U'', ''PRODUCT_CODE 7'', ''FEATURE_CODE e0 X'', ''ATTRS RO NC'', ''VALUE x01 On'']"

definition sample_metadata :: Dyn_Feature_Metadata where
  "sample_metadata =
     \<lparr>dyn_feature_code = 0xe0, dyn_vcp_version = \<lparr>major = 0, minor = 0\<rparr>, dyn_feature_name = Some ''X'',
      dyn_feature_desc = None, dyn_sl_values = Some [sl_value 0x01 ''On''],
      dyn_global_feature_flags = 0x5000, dyn_version_feature_flags = 0x0520\<rparr>"

lemma sample_definition_read:
  "create_dynamic_features_rec ''DEL'' ''U'' 7 sample_definition None =
     Some (Inr ((dfr_new ''DEL'' ''U'' 7 None)\<lparr>dfr_features := Some [(0xe0, sample_metadata)]\<rparr>))"
  by code_simp

theorem user_defined_features_format_witness:
  "case dyn_get_feature_metadata_by_dfr_and_vspec_dfm 0xe0
      (Some ((dfr_new ''DEL'' ''U'' 7 None)\<lparr>dfr_features := Some [(0xe0, sample_metadata)]\<rparr>)) DDCA_VSPEC_V22 False of
     Some (Some dfm) \<Rightarrow> feature_name dfm = Some ''X'' \<and> fits 200 (dyn_format_nontable_feature_detail dfm
        \<lparr>nv_code = 0xe0, max_value = 0, cur_value = 1, mh = 0, ml = 0, sh = 0, sl = 1\<rparr> 200)
   | _ \<Rightarrow> False"
proof -
  let ?r = "(dfr_new ''DEL'' ''U'' 7 None)\<lparr>dfr_features := Some [(0xe0, sample_metadata)]\<rparr>"
  have "dyn_get_dynamic_feature_metadata (Some ?r) 0xe0 = Some sample_metadata"
    by (simp add: dyn_get_dynamic_feature_metadata_def)
  from user_defined_features_format [OF sample_definition_read this, of DDCA_VSPEC_V22 False]
  show ?thesis by (auto simp: sample_metadata_def)
qed

end
