(* ===== verification/Capabilities.thy ===== *)
theory Capabilities
  imports Vcp_Table_Facts Byte_Sets
begin

text \<open>
  The parser of the capabilities string, \<^verbatim>\<open>src/src/vcp/parse_capabilities.c\<close> and
  \<^verbatim>\<open>src/src/vcp/parsed_capabilities_feature.c\<close>. A start pointer and a length, which the parser
  passes around, are the list of the characters between; the offsets that error messages report are
  carried along. No function reads behind its end except to compare the character there, the
  parenthesis that closes the segment or the terminating 0, with a blank and with an opening
  parenthesis, which it is not.
\<close>

datatype Parsed_Capabilities_Validity = CAPABILITIES_VALID | CAPABILITIES_USABLE | CAPABILITIES_INVALID

definition capabilities_validity_name :: "Parsed_Capabilities_Validity \<Rightarrow> string" where
  "capabilities_validity_name v =
     (case v of CAPABILITIES_VALID \<Rightarrow> ''CAPABILITIES_VALID''
      | CAPABILITIES_USABLE \<Rightarrow> ''CAPABILITIES_USABLE''
      | CAPABILITIES_INVALID \<Rightarrow> ''CAPABILITIES_INVALID'')"

definition update_validity ::
    "Parsed_Capabilities_Validity \<Rightarrow> Parsed_Capabilities_Validity \<Rightarrow> Parsed_Capabilities_Validity" where
  "update_validity validity cur_validity =
     (if validity = CAPABILITIES_INVALID \<or> cur_validity = CAPABILITIES_INVALID then CAPABILITIES_INVALID
      else if validity = CAPABILITIES_VALID \<and> cur_validity = CAPABILITIES_VALID then CAPABILITIES_VALID
      else CAPABILITIES_USABLE)"

record Capabilities_Feature_Record =
  feature_id :: byte
  cfr_values :: "Byte_Value_Array option"
  value_string :: "string option"
  valid_values :: bool

record Parsed_Capabilities =
  raw_value :: string
  raw_value_synthesized :: bool
  model :: "string option"
  mccs_version_string :: "string option"
  parsed_mccs_version :: DDCA_MCCS_Version_Spec
  raw_cmds_segment_seen :: bool
  raw_cmds_segment_valid :: bool
  commands :: "Byte_Value_Array option"
  raw_vcp_features_seen :: bool
  vcp_features :: "Capabilities_Feature_Record list"
  caps_validity :: Parsed_Capabilities_Validity
  messages :: "string list"

section \<open>Scanning\<close>

definition is_blank :: "char \<Rightarrow> bool" where "is_blank c \<longleftrightarrow> c = CHR '' ''"
definition is_open :: "char \<Rightarrow> bool" where "is_open c \<longleftrightarrow> c = CHR ''(''"
definition is_close :: "char \<Rightarrow> bool" where "is_close c \<longleftrightarrow> c = CHR '')''"

definition ltrim :: "string \<Rightarrow> string" where
  "ltrim s = dropWhile is_blank s"

text \<open>
  The search for the closing parenthesis, from the character after the opening one: what is before
  it and what follows it, \<open>None\<close> if there is none. \<open>depth\<close> is one less than in the loop.
\<close>

fun closing_paren :: "string \<Rightarrow> nat \<Rightarrow> (string \<times> string) option" where
  "closing_paren [] depth = None"
| "closing_paren (c # cs) depth =
     (if is_open c then map_option (\<lambda>(v, r). (c # v, r)) (closing_paren cs (Suc depth))
      else if is_close c then
        (case depth of
           0 \<Rightarrow> Some ([], cs)
         | Suc d \<Rightarrow> map_option (\<lambda>(v, r). (c # v, r)) (closing_paren cs d))
      else map_option (\<lambda>(v, r). (c # v, r)) (closing_paren cs depth))"

definition find_closing_paren :: "string \<Rightarrow> (string \<times> string) option" where
  "find_closing_paren s = closing_paren (tl s) 0"

section \<open>The cmds segment\<close>

definition parse_cmds_segment :: "string \<Rightarrow> string list \<Rightarrow> Byte_Value_Array option \<times> string list" where
  "parse_cmds_segment s msgs =
     (let (ok, cmd_ids) = bva_store_bytehex_list bva_create s
      in if ok then (Some cmd_ids, msgs)
         else (None, msgs @ [''Error processing commands list: '' @ s]))"

section \<open>The vcp segment\<close>

definition parse_capabilities_feature ::
    "byte \<Rightarrow> string option \<Rightarrow> string list \<Rightarrow> Capabilities_Feature_Record \<times> string list" where
  "parse_capabilities_feature fid vs msgs =
     (case vs of
        None \<Rightarrow> (\<lparr>feature_id = fid, cfr_values = None, value_string = None, valid_values = False\<rparr>, msgs)
      | Some v \<Rightarrow>
          let (ok, bva) = bva_store_bytehex_list bva_create v
          in (\<lparr>feature_id = fid, cfr_values = Some bva, value_string = Some v, valid_values = ok\<rparr>,
              if ok then msgs
              else msgs @ [''Invalid VCP value in list for feature x'' @ format_02x fid @ '': '' @ v]))"

record Vcp_Parse =
  vp_result :: Parsed_Capabilities_Validity
  vp_features :: "Capabilities_Feature_Record list"
  vp_messages :: "string list"

definition usable_if_valid :: "Vcp_Parse \<Rightarrow> Vcp_Parse" where
  "usable_if_valid st =
     (if vp_result st = CAPABILITIES_VALID then st\<lparr>vp_result := CAPABILITIES_USABLE\<rparr> else st)"

definition vcp_message :: "string \<Rightarrow> Vcp_Parse \<Rightarrow> Vcp_Parse" where
  "vcp_message msg st = st\<lparr>vp_messages := vp_messages st @ [msg]\<rparr>"

text \<open>The two digits of a feature code and what follows them; a longer token has no blanks between codes.\<close>

definition feature_code_token :: "string \<Rightarrow> string \<times> string" where
  "feature_code_token p =
     (let tok = takeWhile (\<lambda>c. \<not> is_blank c \<and> \<not> is_open c) p
      in if length tok > 2 then (take 2 tok, drop 2 p) else (tok, drop (length tok) p))"

definition feature_code_of :: "string \<Rightarrow> byte option" where
  "feature_code_of tok = (if length tok = 2 then hhc_to_byte_in_buf (tok ! 0) (tok ! 1) else None)"

definition add_feature :: "byte option \<Rightarrow> string option \<Rightarrow> Vcp_Parse \<Rightarrow> Vcp_Parse" where
  "add_feature code values st =
     (case code of
        None \<Rightarrow> st
      | Some fid \<Rightarrow>
          let (vfr, msgs) = parse_capabilities_feature fid values (vp_messages st);
              st = st\<lparr>vp_messages := msgs\<rparr>;
              st = (if \<not> valid_values vfr then usable_if_valid st else st)
          in st\<lparr>vp_features := vp_features st @ [vfr]\<rparr>)"

text \<open>One pass of the loop at a character that is not blank: the state, and the rest or the fatal error.\<close>

definition vcp_step :: "string \<Rightarrow> Vcp_Parse \<Rightarrow> string option \<times> Vcp_Parse" where
  "vcp_step p st =
     (let (tok, q) = feature_code_token p;
          code = feature_code_of tok;
          st = (if code = None
                then usable_if_valid (vcp_message (''Feature '' @ take 1 p @ '' (Invalid code)'') st)
                else st)
      in if q \<noteq> [] \<and> is_open (hd q) then
           (case find_closing_paren q of
              None \<Rightarrow>
                (None, (vcp_message ''Value parse terminated without closing parenthesis'' st)
                         \<lparr>vp_result := CAPABILITIES_INVALID\<rparr>)
            | Some (vs, r) \<Rightarrow> (Some r, add_feature code (Some vs) st))
         else (Some q, add_feature code None st))"

lemma closing_paren_split:
  "closing_paren s d = Some (v, r) \<Longrightarrow> s = v @ CHR '')'' # r"
  by (induction s d arbitrary: v r rule: closing_paren.induct)
    (auto simp: is_close_def split: if_splits nat.splits)

lemma vcp_step_shorter:
  assumes "p \<noteq> []" "\<not> is_blank (hd p)" "fst (vcp_step p st) = Some r"
  shows "length r < length p"
proof -
  obtain tok q where tq: "feature_code_token p = (tok, q)" by (cases "feature_code_token p")
  have len: "length q \<le> length p" "\<not> is_open (hd p) \<Longrightarrow> length q < length p"
    using tq assms(1,2) by (auto simp: feature_code_token_def Let_def neq_Nil_conv split: if_splits)
  have "hd q = hd p" if "is_open (hd p)"
    using tq that assms(1) by (auto simp: feature_code_token_def Let_def neq_Nil_conv split: if_splits)
  moreover have "q \<noteq> []" if "is_open (hd p)"
    using tq that assms(1) by (auto simp: feature_code_token_def Let_def neq_Nil_conv split: if_splits)
  moreover have "length r < length q" if "find_closing_paren q = Some (vs, r)" "q \<noteq> []" for vs
    using closing_paren_split [of "tl q" 0 vs r] that by (cases q) (auto simp: find_closing_paren_def)
  ultimately show ?thesis
    using assms(3) len tq by (fastforce simp: vcp_step_def Let_def split: if_splits option.splits)
qed

lemma length_ltrim: "length (ltrim p) \<le> length p"
  by (simp add: ltrim_def length_dropWhile_le)

lemma hd_ltrim: "ltrim p \<noteq> [] \<Longrightarrow> \<not> is_blank (hd (ltrim p))"
  unfolding ltrim_def by (rule hd_dropWhile)

lemma vcp_step_ltrim_shorter:
  "ltrim p \<noteq> [] \<Longrightarrow> fst (vcp_step (ltrim p) st) = Some r \<Longrightarrow> length r < length p"
  using vcp_step_shorter [OF _ hd_ltrim] length_ltrim [of p] by (meson less_le_trans)

function vcp_loop :: "string \<Rightarrow> Vcp_Parse \<Rightarrow> Vcp_Parse" where
  "vcp_loop p st =
     (let p = ltrim p
      in if p = [] then st
         else (case fst (vcp_step p st) of
                 None \<Rightarrow> snd (vcp_step p st)
               | Some r \<Rightarrow> vcp_loop r (snd (vcp_step p st))))"
  by pat_completeness auto

termination
  by (relation "measure (\<lambda>(p, st). length p)") (simp_all add: vcp_step_ltrim_shorter)

declare vcp_loop.simps [simp del]

definition parse_vcp_segment ::
    "string \<Rightarrow> Capabilities_Feature_Record list \<Rightarrow> string list \<Rightarrow> Vcp_Parse" where
  "parse_vcp_segment s vcp_array msgs =
     vcp_loop s \<lparr>vp_result = CAPABILITIES_VALID, vp_features = vcp_array, vp_messages = msgs\<rparr>"

section \<open>Segments\<close>

record Capabilities_Segment =
  seg_name :: string
  seg_value :: string
  remainder :: string
  remainder_offset :: nat

datatype Next_Segment = No_Segment | Segment_Error string | Segment Capabilities_Segment

definition segment_error :: "string \<Rightarrow> nat \<Rightarrow> Next_Segment" where
  "segment_error msg ofs = Segment_Error (msg @ '' at offset '' @ dec_digits ofs)"

text \<open>The name of a segment that is returned includes the blanks before the parenthesis.\<close>

definition next_capabilities_segment :: "string \<Rightarrow> nat \<Rightarrow> Next_Segment" where
  "next_capabilities_segment s ofs =
     (let t = ltrim s; t_ofs = ofs + (length s - length t)
      in if t = [] then No_Segment
         else if is_open (hd t) then segment_error ''Missing segment name'' t_ofs
         else
           let name = takeWhile (\<lambda>c. \<not> is_open c \<and> \<not> is_blank c) t;
               r1 = drop (length name) t; r1_ofs = t_ofs + length name
           in if r1 = [] then segment_error ''Nothing follows segment name'' r1_ofs
              else
                let r2 = ltrim r1; r2_ofs = r1_ofs + (length r1 - length r2)
                in if r2 = [] then segment_error (''Nothing follows segment name (2) '' @ name) r2_ofs
                   else
                     let name = take (length t - length r2) t
                     in if \<not> is_open (hd r2)
                        then segment_error (''Missing parenthesized value for segment '' @ name) r2_ofs
                        else (case find_closing_paren r2 of
                                None \<Rightarrow>
                                  segment_error (''No closing parenthesis for segment '' @ name) (ofs + length s)
                              | Some (v, r) \<Rightarrow>
                                  if v = [] then segment_error ''zero length value'' (r2_ofs + 1)
                                  else Segment \<lparr>seg_name = name, seg_value = v, remainder = r,
                                                 remainder_offset = r2_ofs + length v + 2\<rparr>))"

section \<open>The whole string\<close>

definition use_segment :: "string \<Rightarrow> string \<Rightarrow> Parsed_Capabilities \<Rightarrow> Parsed_Capabilities" where
  "use_segment name v pcaps =
     (if name = ''cmds'' then
        let (cmds, msgs) = parse_cmds_segment v (messages pcaps);
            pcaps = pcaps\<lparr>raw_cmds_segment_seen := True, commands := cmds,
                          raw_cmds_segment_valid := (cmds \<noteq> None), messages := msgs\<rparr>
        in if cmds = None \<and> caps_validity pcaps = CAPABILITIES_VALID
           then pcaps\<lparr>caps_validity := CAPABILITIES_USABLE\<rparr> else pcaps
      else if name = ''vcp'' \<or> name = ''VCP'' then
        let st = parse_vcp_segment v (vcp_features pcaps) (messages pcaps)
        in pcaps\<lparr>raw_vcp_features_seen := True, vcp_features := vp_features st, messages := vp_messages st,
                 caps_validity := update_validity (caps_validity pcaps) (vp_result st)\<rparr>
      else if name = ''mccs_ver'' then
        let vspec = parse_vspec v;
            pcaps = pcaps\<lparr>mccs_version_string := Some v, parsed_mccs_version := vspec\<rparr>
        in if vcp_version_eq vspec DDCA_VSPEC_UNKNOWN
           then pcaps\<lparr>caps_validity := (if caps_validity pcaps = CAPABILITIES_VALID then CAPABILITIES_USABLE
                                        else caps_validity pcaps),
                      messages := messages pcaps @ [''Invalid mccs_ver: '' @ [CHR 0x22] @ v @ [CHR 0x22]]\<rparr>
           else pcaps
      else if name = ''model'' then pcaps\<lparr>model := Some v\<rparr>
      else pcaps)"

lemma segment_shorter:
  assumes "next_capabilities_segment s ofs = Segment seg"
  shows "length (remainder seg) < length s"
proof -
  obtain r1 v where r1: "find_closing_paren (ltrim r1) = Some (v, remainder seg)" "ltrim r1 \<noteq> []"
    "length r1 \<le> length s"
    using assms length_ltrim [of s]
    by (auto simp: next_capabilities_segment_def segment_error_def Let_def split: if_splits option.splits)
  then have "length (remainder seg) < length (ltrim r1)"
    using closing_paren_split [of "tl (ltrim r1)" 0 v "remainder seg"]
    by (cases "ltrim r1") (auto simp: find_closing_paren_def)
  then show ?thesis using length_ltrim [of r1] r1(3) by linarith
qed

text \<open>
  The loop. When only blanks are left there is no segment, the pointer to it is null, and the
  program reads through it.
\<close>

function caps_loop :: "string \<Rightarrow> nat \<Rightarrow> Parsed_Capabilities \<Rightarrow> Parsed_Capabilities option" where
  "caps_loop s ofs pcaps =
     (if s = [] then Some pcaps
      else (case next_capabilities_segment s ofs of
              No_Segment \<Rightarrow> None
            | Segment_Error msg \<Rightarrow>
                Some (pcaps\<lparr>messages := messages pcaps @ [msg], caps_validity := CAPABILITIES_INVALID\<rparr>)
            | Segment seg \<Rightarrow>
                caps_loop (remainder seg) (remainder_offset seg) (use_segment (seg_name seg) (seg_value seg) pcaps)))"
  by pat_completeness auto

termination
  by (relation "measure (\<lambda>(s, ofs, pcaps). length s)") (auto dest: segment_shorter)

declare caps_loop.simps [simp del]

definition rtrim_blanks :: "string \<Rightarrow> string" where
  "rtrim_blanks s = rev (dropWhile is_blank (rev s))"

definition parsed_capabilities_new :: "string \<Rightarrow> Parsed_Capabilities" where
  "parsed_capabilities_new s =
     \<lparr>raw_value = s, raw_value_synthesized = False, model = None, mccs_version_string = None,
      parsed_mccs_version = DDCA_VSPEC_UNQUERIED, raw_cmds_segment_seen = False,
      raw_cmds_segment_valid = False, commands = None, raw_vcp_features_seen = False,
      vcp_features = [], caps_validity = CAPABILITIES_VALID, messages = []\<rparr>"

definition parse_capabilities :: "string \<Rightarrow> Parsed_Capabilities option" where
  "parse_capabilities buf =
     (let buf = rtrim_blanks buf; pcaps = parsed_capabilities_new buf
      in if buf \<noteq> [] \<and> is_open (hd buf) then
           if \<not> is_close (last buf) then
             Some (pcaps\<lparr>messages := [''Capabilities string lacks closing parenthesis''],
                         caps_validity := CAPABILITIES_INVALID\<rparr>)
           else caps_loop (butlast (tl buf)) 1 pcaps
         else caps_loop buf 0 pcaps)"

definition parse_capabilities_string :: "string \<Rightarrow> Parsed_Capabilities option" where
  "parse_capabilities_string caps = parse_capabilities caps"

section \<open>Queries\<close>

fun collect_feature_ids ::
    "Capabilities_Feature_Record list \<Rightarrow> DDCA_MCCS_Version_Spec \<Rightarrow> bool \<Rightarrow> Bit_Set_256 \<Rightarrow> Bit_Set_256 option" where
  "collect_feature_ids [] v readable_only flags = Some flags"
| "collect_feature_ids (frec # frecs) v readable_only flags = do {
     add \<leftarrow> (if readable_only
             then is_feature_readable_by_vcp_version (vcp_find_feature_by_hexid_w_default (feature_id frec)) v
             else Some True);
     collect_feature_ids frecs v readable_only (if add then bs256_insert flags (feature_id frec) else flags)
   }"

definition get_parsed_capabilities_feature_ids :: "Parsed_Capabilities \<Rightarrow> bool \<Rightarrow> Bit_Set_256 option" where
  "get_parsed_capabilities_feature_ids pcaps readable_only =
     collect_feature_ids (vcp_features pcaps) (parsed_mccs_version pcaps) readable_only EMPTY_BIT_SET_256"

text \<open>Whether or not the commands are declared, the result is false.\<close>

definition parsed_capabilities_supports_table_commands :: "Parsed_Capabilities option \<Rightarrow> bool" where
  "parsed_capabilities_supports_table_commands pcaps =
     (case pcaps of
        None \<Rightarrow> False
      | Some p \<Rightarrow>
          (case commands p of
             None \<Rightarrow> False
           | Some cmds \<Rightarrow>
               if raw_cmds_segment_seen p \<and> bva_contains cmds 0xe2 \<and> bva_contains cmds 0xe4 then False else False))"

section \<open>When the parser returns\<close>

lemma next_segment_suffix:
  assumes "next_capabilities_segment s ofs = Segment seg"
  shows "\<exists>pre. s = pre @ remainder seg"
proof -
  obtain r1 v n where r1: "find_closing_paren (ltrim r1) = Some (v, remainder seg)" "ltrim r1 \<noteq> []"
    "r1 = drop n (ltrim s)"
    using assms
    by (auto simp: next_capabilities_segment_def segment_error_def Let_def split: if_splits option.splits)
  obtain p1 where p1: "s = p1 @ r1" using takeWhile_dropWhile_id [of is_blank s] append_take_drop_id [of n "ltrim s"]
    unfolding r1(3) ltrim_def by (metis append_assoc)
  obtain p2 where p2: "r1 = p2 @ ltrim r1" using takeWhile_dropWhile_id [of is_blank r1] unfolding ltrim_def by metis
  obtain c cs where c: "ltrim r1 = c # cs" using r1(2) by (cases "ltrim r1") auto
  have "cs = v @ CHR '')'' # remainder seg"
    using r1(1) closing_paren_split [of cs 0 v "remainder seg"] by (simp add: c find_closing_paren_def)
  then have "s = (p1 @ p2 @ c # v @ '')'') @ remainder seg" using p1 p2 c by simp
  then show ?thesis by blast
qed

lemma all_blank_last: "s \<noteq> [] \<Longrightarrow> ltrim s = [] \<Longrightarrow> is_blank (last s)"
  by (simp add: ltrim_def)

lemma caps_loop_None: "caps_loop s ofs pcaps = None \<Longrightarrow> s \<noteq> [] \<and> is_blank (last s)"
proof (induction s ofs pcaps rule: caps_loop.induct)
  case (1 s ofs pcaps)
  show ?case
  proof (cases "next_capabilities_segment s ofs")
    case No_Segment
    then have "ltrim s = []"
      by (auto simp: next_capabilities_segment_def segment_error_def Let_def split: if_splits option.splits)
    then show ?thesis using 1(2) all_blank_last by (subst (asm) caps_loop.simps) (auto split: if_splits)
  next
    case (Segment_Error x2)
    then show ?thesis using 1(2) by (subst (asm) caps_loop.simps) (auto split: if_splits)
  next
    case (Segment seg)
    have "s \<noteq> []" using 1(2) by (subst (asm) caps_loop.simps) (auto split: if_splits)
    with 1 Segment have "remainder seg \<noteq> [] \<and> is_blank (last (remainder seg))"
      by (subst (asm) (2) caps_loop.simps) (simp split: if_splits)
    then show ?thesis using next_segment_suffix [OF Segment] by auto
  qed
qed

lemma rtrim_blanks_last: "rtrim_blanks s \<noteq> [] \<Longrightarrow> \<not> is_blank (last (rtrim_blanks s))"
  using hd_dropWhile [of is_blank "rev s"] by (simp add: rtrim_blanks_def last_rev)

lemma parse_capabilities_None:
  assumes "parse_capabilities s = None"
  shows "\<exists>t. rtrim_blanks s = ''('' @ t @ '' )''"
proof -
  let ?b = "rtrim_blanks s"
  have b: "?b \<noteq> []" "is_open (hd ?b)" "is_close (last ?b)" and n: "caps_loop (butlast (tl ?b)) 1 (parsed_capabilities_new ?b) = None"
    using assms caps_loop_None [of ?b] rtrim_blanks_last [of s]
    by (auto simp: parse_capabilities_def Let_def split: if_splits)
  have m: "butlast (tl ?b) \<noteq> []" "is_blank (last (butlast (tl ?b)))" using caps_loop_None [OF n] by auto
  have "?b = hd ?b # tl ?b" using b(1) by simp
  also have "tl ?b = butlast (tl ?b) @ [last (tl ?b)]" using m(1) by (metis append_butlast_last_id butlast.simps(1))
  also have "butlast (tl ?b) = butlast (butlast (tl ?b)) @ [last (butlast (tl ?b))]" using m(1) by simp
  finally have "?b = hd ?b # butlast (butlast (tl ?b)) @ [last (butlast (tl ?b)), last (tl ?b)]" by simp
  moreover have "last (tl ?b) = last ?b" using b(1) m(1) by (metis butlast.simps(1) last_tl)
  ultimately show ?thesis using b m by (metis append_Cons append_Nil is_blank_def is_close_def is_open_def)
qed

section \<open>Segments that are written are found\<close>

fun balanced :: "string \<Rightarrow> nat \<Rightarrow> bool" where
  "balanced [] depth = (depth = 0)"
| "balanced (c # cs) depth =
     (if is_open c then balanced cs (Suc depth)
      else if is_close c then (case depth of 0 \<Rightarrow> False | Suc d \<Rightarrow> balanced cs d)
      else balanced cs depth)"

lemma closing_paren_balanced: "balanced v d \<Longrightarrow> closing_paren (v @ CHR '')'' # r) d = Some (v, r)"
  by (induction v d rule: balanced.induct) (auto simp: is_open_def is_close_def split: nat.splits if_splits)

lemma balanced_plain: "list_all (\<lambda>c. \<not> is_open c \<and> \<not> is_close c) v \<Longrightarrow> balanced v d \<longleftrightarrow> d = 0"
  by (induction v) auto

lemma balanced_append: "balanced v 0 \<Longrightarrow> balanced (v @ w) d \<longleftrightarrow> balanced w d"
proof -
  have "balanced v e \<Longrightarrow> balanced (v @ w) (d + e) \<longleftrightarrow> balanced w d" for e
    by (induction v e rule: balanced.induct) (auto split: nat.splits if_splits)
  from this [of 0] show "balanced v 0 \<Longrightarrow> ?thesis" by simp
qed

definition segment_ok :: "string \<times> string \<Rightarrow> bool" where
  "segment_ok seg \<longleftrightarrow>
     (case seg of (name, v) \<Rightarrow>
        name \<noteq> [] \<and> list_all (\<lambda>c. \<not> is_open c \<and> \<not> is_blank c) name \<and> v \<noteq> [] \<and> balanced v 0)"

definition render_segment :: "string \<times> string \<Rightarrow> string" where
  "render_segment seg = fst seg @ ''('' @ snd seg @ '')''"

lemma next_segment_rendered:
  assumes "segment_ok (name, v)"
  shows "next_capabilities_segment (render_segment (name, v) @ r) ofs =
    Segment \<lparr>seg_name = name, seg_value = v, remainder = r, remainder_offset = ofs + length name + length v + 2\<rparr>"
proof -
  obtain c cs where name: "name = c # cs" "\<not> is_open c" "\<not> is_blank c"
    using assms by (cases name) (auto simp: segment_ok_def)
  let ?s = "name @ CHR ''('' # v @ CHR '')'' # r"
  have t: "ltrim ?s = ?s" using name by (simp add: ltrim_def)
  have tw: "takeWhile (\<lambda>c. \<not> is_open c \<and> \<not> is_blank c) ?s = name"
    using assms by (subst takeWhile_append2) (auto simp: segment_ok_def list_all_iff is_open_def)
  have o: "ltrim (CHR ''('' # x) = CHR ''('' # x" "is_open (CHR ''('')" for x
    by (simp_all add: ltrim_def is_blank_def is_open_def)
  show ?thesis
    using assms name closing_paren_balanced [of v 0 r]
    unfolding next_capabilities_segment_def Let_def render_segment_def fst_conv snd_conv append_assoc append_Cons append_Nil t tw
    by (simp add: o segment_ok_def find_closing_paren_def)
qed

definition use_segments :: "(string \<times> string) list \<Rightarrow> Parsed_Capabilities \<Rightarrow> Parsed_Capabilities" where
  "use_segments segs = fold (\<lambda>(name, v). use_segment name v) segs"

lemma caps_loop_segment:
  assumes "segment_ok (name, v)"
  shows "caps_loop (render_segment (name, v) @ r) ofs pcaps =
    caps_loop r (ofs + length name + length v + 2) (use_segment name v pcaps)"
  by (subst caps_loop.simps) (simp add: next_segment_rendered [OF assms], simp add: render_segment_def)

lemma caps_loop_rendered:
  "list_all segment_ok segs \<Longrightarrow> ltrim blanks = [] \<Longrightarrow>
   caps_loop (concat (map render_segment segs) @ blanks) ofs pcaps =
     (if blanks = [] then Some (use_segments segs pcaps) else None)"
proof (induction segs arbitrary: ofs pcaps)
  case Nil
  then show ?case
    by (subst caps_loop.simps) (auto simp: next_capabilities_segment_def use_segments_def Let_def)
next
  case (Cons seg segs)
  then show ?case by (cases seg) (simp add: caps_loop_segment use_segments_def)
qed

section \<open>A whole string that is written is read\<close>

fun render_feature :: "byte \<times> byte list option \<Rightarrow> string" where
  "render_feature (c, None) = byte_to_hex c"
| "render_feature (c, Some vs) = byte_to_hex c @ ''('' @ join_hex vs @ '')''"

fun render_features :: "(byte \<times> byte list option) list \<Rightarrow> string" where
  "render_features [] = []"
| "render_features (f # fs) = render_feature f @ (if fs = [] then [] else CHR '' '' # render_features fs)"

fun feature_record :: "byte \<times> byte list option \<Rightarrow> Capabilities_Feature_Record" where
  "feature_record (c, None) = \<lparr>feature_id = c, cfr_values = None, value_string = None, valid_values = False\<rparr>"
| "feature_record (c, Some vs) =
     \<lparr>feature_id = c, cfr_values = Some vs, value_string = Some (join_hex vs), valid_values = True\<rparr>"

definition features_parsed :: "(byte \<times> byte list option) list \<Rightarrow> Vcp_Parse \<Rightarrow> Vcp_Parse" where
  "features_parsed fs st =
     st\<lparr>vp_result := (if list_all (\<lambda>f. snd f \<noteq> None) fs then vp_result st
                      else if vp_result st = CAPABILITIES_VALID then CAPABILITIES_USABLE else vp_result st),
        vp_features := vp_features st @ map feature_record fs\<rparr>"

lemma hex_digit_plain: "is_hex c \<Longrightarrow> \<not> is_open c \<and> \<not> is_close c \<and> \<not> is_blank c"
  by (auto simp: is_hex_def is_open_def is_close_def is_blank_def hex_digit_def)

lemma byte_to_hex_two: "\<exists>a b. byte_to_hex c = [a, b] \<and> is_hex a \<and> is_hex b"
  using byte_to_hex_chars [of c] by (auto simp: byte_to_hex_def)

lemma join_hex_plain: "list_all (\<lambda>c. \<not> is_open c \<and> \<not> is_close c) (join_hex bs)"
proof (induction bs)
  case (Cons b bs)
  have "list_all (\<lambda>c. \<not> is_open c \<and> \<not> is_close c) (byte_to_hex b)"
    using byte_to_hex_chars [of b] hex_digit_plain by (auto simp: list_all_iff)
  then show ?case using Cons by (simp add: is_open_def is_close_def)
qed simp

lemma join_hex_balanced: "balanced (join_hex bs) 0"
  using balanced_plain [OF join_hex_plain] by simp

lemma code_of_hex: "feature_code_of (byte_to_hex c) = Some c"
  using bytehex_token_value_hex [of c] hhs_roundtrip [of c] byte_to_hex_chars [of c]
  by (simp add: feature_code_of_def byte_to_hex_def hhc_to_byte_in_buf_def)

lemma feature_token_rendered:
  assumes "r = [] \<or> is_blank (hd r) \<or> is_open (hd r)"
  shows "feature_code_token (byte_to_hex c @ r) = (byte_to_hex c, r)"
proof -
  obtain a b where ab: "byte_to_hex c = [a, b]" "is_hex a" "is_hex b" using byte_to_hex_two by blast
  have "takeWhile (\<lambda>c. \<not> is_blank c \<and> \<not> is_open c) r = []" using assms by (cases r) auto
  then show ?thesis using ab hex_digit_plain by (simp add: feature_code_token_def)
qed

lemma add_feature_rendered:
  "add_feature (Some c) (map_option join_hex vs) st = features_parsed [(c, vs)] st"
  by (cases vs)
    (simp_all add: add_feature_def parse_capabilities_feature_def bva_store_roundtrip usable_if_valid_def features_parsed_def)

lemma vcp_step_rendered:
  assumes "r = [] \<or> is_blank (hd r)"
  shows "vcp_step (render_feature f @ r) st = (Some r, features_parsed [f] st)"
proof (cases f)
  case (Pair c vs)
  show ?thesis
  proof (cases vs)
    case None
    have "\<not> (r \<noteq> [] \<and> is_open (hd r))" using assms by (auto simp: is_blank_def is_open_def)
    moreover have "feature_code_token (byte_to_hex c @ r) = (byte_to_hex c, r)"
      using assms by (intro feature_token_rendered) auto
    ultimately show ?thesis
      using add_feature_rendered [of c None st] by (auto simp: Pair None vcp_step_def code_of_hex)
  next
    case (Some l)
    have "find_closing_paren (CHR ''('' # join_hex l @ CHR '')'' # r) = Some (join_hex l, r)"
      using closing_paren_balanced [OF join_hex_balanced] by (simp add: find_closing_paren_def)
    moreover have "feature_code_token (byte_to_hex c @ CHR ''('' # join_hex l @ CHR '')'' # r) =
        (byte_to_hex c, CHR ''('' # join_hex l @ CHR '')'' # r)"
      by (intro feature_token_rendered) (simp add: is_open_def)
    ultimately show ?thesis
      using add_feature_rendered [of c "Some l" st] by (simp add: Pair Some vcp_step_def code_of_hex is_open_def)
  qed
qed

lemma ltrim_feature: "ltrim (render_feature f @ r) = render_feature f @ r" "render_feature f @ r \<noteq> []"
proof -
  obtain c vs where f: "f = (c, vs)" by (cases f)
  obtain a b where ab: "byte_to_hex c = [a, b]" "is_hex a" using byte_to_hex_two by blast
  then have "\<not> is_blank a" using hex_digit_plain by blast
  then show "ltrim (render_feature f @ r) = render_feature f @ r" "render_feature f @ r \<noteq> []"
    using ab by (cases vs; simp add: f ltrim_def)+
qed

lemma vcp_loop_rendered:
  "vcp_loop (render_features fs) st = features_parsed fs st"
proof (induction fs arbitrary: st)
  case Nil
  then show ?case by (subst vcp_loop.simps) (simp add: ltrim_def features_parsed_def)
next
  case (Cons f fs)
  let ?r = "if fs = [] then [] else CHR '' '' # render_features fs"
  have s: "vcp_step (render_feature f @ ?r) st = (Some ?r, features_parsed [f] st)"
    by (intro vcp_step_rendered) (simp add: is_blank_def)
  have "vcp_loop (CHR '' '' # x) st = vcp_loop x st" for x st
    by (subst (1 2) vcp_loop.simps) (simp add: ltrim_def is_blank_def)
  then have "vcp_loop ?r st = features_parsed fs st" for st
    using Cons by (cases fs) simp_all
  moreover have "features_parsed fs (features_parsed [f] st) = features_parsed (f # fs) st"
    by (cases "snd f") (auto simp: features_parsed_def)
  moreover have "vcp_loop (render_feature f @ ?r) st = vcp_loop ?r (features_parsed [f] st)"
    by (subst vcp_loop.simps) (simp only: ltrim_feature s Let_def fst_conv snd_conv option.case if_False)
  ultimately show ?case by simp
qed

lemma render_features_balanced: "balanced (render_features fs) 0"
proof (induction fs)
  case (Cons f fs)
  obtain c vs where f: "f = (c, vs)" by (cases f)
  obtain a b where ab: "byte_to_hex c = [a, b]" "is_hex a" "is_hex b" using byte_to_hex_two by blast
  have "balanced (join_hex l @ '')'') (Suc 0)" for l
  proof -
    have "list_all (\<lambda>c. \<not> is_open c \<and> \<not> is_close c) v \<Longrightarrow> balanced (v @ '')'') (Suc 0)" for v
      by (induction v) (auto simp: is_close_def is_open_def)
    then show ?thesis using join_hex_plain by blast
  qed
  then have "balanced (render_feature f) 0"
    using ab hex_digit_plain by (cases vs) (simp_all add: f is_open_def is_close_def)
  then show ?case using Cons by (simp add: balanced_append is_open_def is_close_def)
qed simp


lemma use_segment_raw_value: "raw_value (use_segment name v pcaps) = raw_value pcaps"
  by (simp add: use_segment_def Let_def split: prod.split)

lemma caps_loop_raw_value: "caps_loop s ofs pcaps = Some p \<Longrightarrow> raw_value p = raw_value pcaps"
proof (induction s ofs pcaps rule: caps_loop.induct)
  case (1 s ofs pcaps)
  then show ?case
    by (subst (asm) (2) caps_loop.simps) (auto simp: use_segment_raw_value split: if_splits Next_Segment.splits)
qed

lemma parse_capabilities_raw_value: "parse_capabilities s = Some p \<Longrightarrow> raw_value p = rtrim_blanks s"
  by (auto simp: parse_capabilities_def Let_def parsed_capabilities_new_def dest!: caps_loop_raw_value split: if_splits)

text \<open>The capabilities of a monitor in the form that monitors report them.\<close>

record Monitor_Caps =
  mc_model :: string
  mc_cmds :: "byte list"
  mc_features :: "(byte \<times> byte list option) list"
  mc_version :: DDCA_MCCS_Version_Spec

definition caps_segments :: "Monitor_Caps \<Rightarrow> (string \<times> string) list" where
  "caps_segments mc =
     [(''prot'', ''monitor''), (''type'', ''LCD''), (''model'', mc_model mc), (''cmds'', join_hex (mc_cmds mc)),
      (''vcp'', render_features (mc_features mc)), (''mccs_ver'', format_vspec (mc_version mc))]"

definition render_capabilities :: "Monitor_Caps \<Rightarrow> string" where
  "render_capabilities mc = ''('' @ concat (map render_segment (caps_segments mc)) @ '')''"

definition monitor_caps_ok :: "Monitor_Caps \<Rightarrow> bool" where
  "monitor_caps_ok mc \<longleftrightarrow>
     mc_model mc \<noteq> [] \<and> balanced (mc_model mc) 0 \<and> mc_cmds mc \<noteq> [] \<and> mc_features mc \<noteq> [] \<and>
     vcp_version_is_valid (mc_version mc) False"

lemma valid_version_text:
  assumes "vcp_version_is_valid v False"
  shows "format_vspec v \<noteq> [] \<and> balanced (format_vspec v) 0 \<and> parse_vspec (format_vspec v) = v \<and>
    \<not> vcp_version_eq v DDCA_VSPEC_UNKNOWN"
proof -
  have "v \<in> {DDCA_VSPEC_V10, DDCA_VSPEC_V20, DDCA_VSPEC_V21, DDCA_VSPEC_V30, DDCA_VSPEC_V22}"
    using assms by (auto simp: vcp_version_is_valid_def vcp_version_eq_iff)
  moreover have "list_all (\<lambda>v. format_vspec v \<noteq> [] \<and> balanced (format_vspec v) 0 \<and> parse_vspec (format_vspec v) = v \<and>
      \<not> vcp_version_eq v DDCA_VSPEC_UNKNOWN)
     [DDCA_VSPEC_V10, DDCA_VSPEC_V20, DDCA_VSPEC_V21, DDCA_VSPEC_V30, DDCA_VSPEC_V22]"
    by code_simp
  ultimately show ?thesis by auto
qed

lemma join_hex_Nil: "join_hex bs = [] \<longleftrightarrow> bs = []"
  using byte_to_hex_two by (cases bs) (auto, metis list.distinct(1))

lemma render_features_Nil: "render_features fs = [] \<longleftrightarrow> fs = []"
  using ltrim_feature(2) by (cases fs) auto

lemma caps_segments_ok: "monitor_caps_ok mc \<Longrightarrow> list_all segment_ok (caps_segments mc)"
  using valid_version_text [of "mc_version mc"] join_hex_balanced render_features_balanced
  by (simp add: caps_segments_def segment_ok_def monitor_caps_ok_def join_hex_Nil render_features_Nil
      is_open_def is_close_def is_blank_def)

definition caps_read :: "Monitor_Caps \<Rightarrow> Parsed_Capabilities" where
  "caps_read mc =
     \<lparr>raw_value = render_capabilities mc, raw_value_synthesized = False, model = Some (mc_model mc),
      mccs_version_string = Some (format_vspec (mc_version mc)), parsed_mccs_version = mc_version mc,
      raw_cmds_segment_seen = True, raw_cmds_segment_valid = True, commands = Some (mc_cmds mc),
      raw_vcp_features_seen = True, vcp_features = map feature_record (mc_features mc),
      caps_validity = (if list_all (\<lambda>f. snd f \<noteq> None) (mc_features mc)
                       then CAPABILITIES_VALID else CAPABILITIES_USABLE), messages = []\<rparr>"

lemma use_caps_segments:
  assumes "monitor_caps_ok mc"
  shows "use_segments (caps_segments mc) (parsed_capabilities_new (render_capabilities mc)) = caps_read mc"
  using valid_version_text [of "mc_version mc"] assms
  by (simp add: use_segments_def caps_segments_def use_segment_def parse_cmds_segment_def bva_store_roundtrip
      parse_vcp_segment_def vcp_loop_rendered features_parsed_def update_validity_def parsed_capabilities_new_def
      caps_read_def monitor_caps_ok_def Let_def)

lemma rtrim_paren: "rtrim_blanks (s @ '')'') = s @ '')''"
  by (simp add: rtrim_blanks_def is_blank_def)

lemma parse_rendered_segments:
  assumes "list_all segment_ok segs" "ltrim blanks = []"
  shows "parse_capabilities (''('' @ concat (map render_segment segs) @ blanks @ '')'') =
    (if blanks = []
     then Some (use_segments segs (parsed_capabilities_new (''('' @ concat (map render_segment segs) @ '')'')))
     else None)"
  using rtrim_paren [of "''('' @ concat (map render_segment segs) @ blanks"]
    caps_loop_rendered [OF assms, of 1 "parsed_capabilities_new (''('' @ concat (map render_segment segs) @ '')'')"]
    caps_loop_rendered [OF assms]
  by (simp add: parse_capabilities_def Let_def is_open_def is_close_def butlast_append)

text \<open>C23 (capabilities_parser_returns): The parser of a capabilities string returns the trimmed string
  with what it found, unless a blank stands between the last segment and the closing parenthesis of
  the string. There the program reads through a null pointer.
\<close>

theorem capabilities_parser_returns:
  "case parse_capabilities s of
     None \<Rightarrow> \<exists>t. rtrim_blanks s = ''('' @ t @ '' )''
   | Some pcaps \<Rightarrow> raw_value pcaps = rtrim_blanks s"
  using parse_capabilities_None [of s] parse_capabilities_raw_value [of s] by (simp split: option.split)

text \<open>C24 (blank_before_closing_paren_crashes): Whatever segments a display reports, blanks
  before the closing parenthesis end the program abnormally.
\<close>

theorem blank_before_closing_paren_crashes:
  assumes "list_all segment_ok segs" "n > 0"
  shows "parse_capabilities (''('' @ concat (map render_segment segs) @ replicate n (CHR '' '') @ '')'') = None"
proof -
  have "ltrim (replicate n (CHR '' '')) = []" by (simp add: ltrim_def is_blank_def)
  from parse_rendered_segments [OF assms(1) this] show ?thesis using assms(2) by simp
qed

theorem blank_before_closing_paren_crashes_witness:
  "parse_capabilities ''(prot(monitor)vcp(10 12) )'' = None"
  using blank_before_closing_paren_crashes [of "[(''prot'', ''monitor''), (''vcp'', ''10 12'')]" 1]
  by (simp add: segment_ok_def render_segment_def is_open_def is_close_def is_blank_def)

text \<open>C22 (capabilities_roundtrip): A capabilities string that states protocol, type, model, commands,
  features with or without their values, and MCCS version, is read back as written, without
  messages; it is valid if every feature lists its values and usable otherwise.
\<close>

theorem capabilities_roundtrip:
  assumes "monitor_caps_ok mc"
  shows "parse_capabilities (render_capabilities mc) = Some (caps_read mc)"
  using parse_rendered_segments [OF caps_segments_ok [OF assms], of "[]"] use_caps_segments [OF assms]
  by (simp add: render_capabilities_def ltrim_def)

theorem capabilities_roundtrip_witness:
  "parse_capabilities ''(prot(monitor)type(LCD)model(U3011)cmds(01 02)vcp(02 60(01 0F))mccs_ver(2.1))'' =
     Some \<lparr>raw_value = ''(prot(monitor)type(LCD)model(U3011)cmds(01 02)vcp(02 60(01 0F))mccs_ver(2.1))'',
       raw_value_synthesized = False, model = Some ''U3011'', mccs_version_string = Some ''2.1'',
       parsed_mccs_version = DDCA_VSPEC_V21, raw_cmds_segment_seen = True, raw_cmds_segment_valid = True,
       commands = Some [0x01, 0x02], raw_vcp_features_seen = True,
       vcp_features =
         [\<lparr>feature_id = 0x02, cfr_values = None, value_string = None, valid_values = False\<rparr>,
          \<lparr>feature_id = 0x60, cfr_values = Some [0x01, 0x0f], value_string = Some ''01 0F'', valid_values = True\<rparr>],
       caps_validity = CAPABILITIES_USABLE, messages = []\<rparr>"
proof -
  let ?mc = "\<lparr>mc_model = ''U3011'', mc_cmds = [0x01, 0x02], mc_features = [(0x02, None), (0x60, Some [0x01, 0x0f])],
    mc_version = DDCA_VSPEC_V21\<rparr>"
  have "monitor_caps_ok ?mc"
    by (simp add: monitor_caps_ok_def is_open_def is_close_def vcp_version_is_valid_def vcp_version_eq_iff)
  from capabilities_roundtrip [OF this] show ?thesis
    unfolding caps_read_def
    by (simp add: render_capabilities_def caps_segments_def render_segment_def) code_simp
qed

end
