(* ===== verification/Vcp_Access.thy ===== *)
theory Vcp_Access
  imports Multi_Part_IO Vcp_Values Dyn_Feature_Codes
begin

text \<open>
  Reading and writing the value of a feature, \<^verbatim>\<open>src/src/ddc/ddc_vcp.c\<close>, and the version of MCCS that a
  display reports, \<^verbatim>\<open>src/src/ddc/ddc_vcp_version.c\<close>. The state is an open display handle with the
  display reference behind it, and the settings of the thread. USB displays and messages are left out.
\<close>

abbreviation DDCRC_VERIFY :: int where "DDCRC_VERIFY \<equiv> -3023"

section \<open>State\<close>

text \<open>The flags of a display reference; the one for user-defined features is in \<open>Dref_Dfr\<close>.\<close>

record Dref_Flags =
  DREF_DDC_COMMUNICATION_CHECKED :: bool
  DREF_DDC_COMMUNICATION_WORKING :: bool
  DREF_DDC_IS_MONITOR_CHECKED :: bool
  DREF_DDC_IS_MONITOR :: bool
  DREF_UNSUPPORTED_CHECKED :: bool
  DREF_DDC_USES_NULL_RESPONSE_FOR_UNSUPPORTED :: bool
  DREF_DDC_USES_MH_ML_SH_SL_ZERO_FOR_UNSUPPORTED :: bool
  DREF_DDC_USES_DDC_FLAG_FOR_UNSUPPORTED :: bool
  DREF_DDC_DOES_NOT_INDICATE_UNSUPPORTED :: bool
  DREF_OPEN :: bool
  DREF_DDC_BUSY :: bool
  DREF_REMOVED :: bool
  DREF_DDC_DISABLED :: bool

record 'w Vcp_State =
  ddc :: "'w Ddc_State"
  dflags :: Dref_Flags
  dh_testing_unsupported_feature_active :: bool
  vcp_version_xdf :: DDCA_MCCS_Version_Spec
  vcp_version_cmdline :: DDCA_MCCS_Version_Spec
  dref_definition :: Dref_Dfr
  thread_vcp_settings :: "bool option"

text \<open>The settings of the program, and what an exchange depends on; two of its flags are those of the state.\<close>

record 'w Vcp_Env =
  ddc_env :: "'w Ddc_Env"
  multi_part_null_adjustment_millis :: int
  alt_source_addr :: byte
  enable_mock_data :: bool
  setvcp_verify_default :: bool
  max_setvcp_verify_tries :: nat

definition exchange_env :: "'w Vcp_Env \<Rightarrow> 'w Vcp_State \<Rightarrow> 'w Ddc_Env" where
  "exchange_env env st = (ddc_env env)
     \<lparr>null_response_means_unsupported := DREF_DDC_USES_NULL_RESPONSE_FOR_UNSUPPORTED (dflags st),
      testing_unsupported_feature_active := dh_testing_unsupported_feature_active st\<rparr>"

definition err_new :: "int \<Rightarrow> Error_Info" where
  "err_new rc = \<lparr>status_code = rc, causes = []\<rparr>"

section \<open>Settings of the thread\<close>

text \<open>They are created when first used.\<close>

definition get_thread_vcp_settings :: "'w Vcp_Env \<Rightarrow> 'w Vcp_State \<Rightarrow> bool \<times> 'w Vcp_State" where
  "get_thread_vcp_settings env st =
     (case thread_vcp_settings st of
        Some v \<Rightarrow> (v, st)
      | None \<Rightarrow> (setvcp_verify_default env, st\<lparr>thread_vcp_settings := Some (setvcp_verify_default env)\<rparr>))"

definition ddc_set_verify_setvcp :: "'w Vcp_Env \<Rightarrow> bool \<Rightarrow> 'w Vcp_State \<Rightarrow> bool \<times> 'w Vcp_State" where
  "ddc_set_verify_setvcp env onoff st =
     (let (old_value, st) = get_thread_vcp_settings env st
      in (old_value, st\<lparr>thread_vcp_settings := Some onoff\<rparr>))"

definition ddc_get_verify_setvcp :: "'w Vcp_Env \<Rightarrow> 'w Vcp_State \<Rightarrow> bool \<times> 'w Vcp_State" where
  "ddc_get_verify_setvcp env st = get_thread_vcp_settings env st"

section \<open>Reading\<close>

definition create_all_zero_response :: "byte \<Rightarrow> Parsed_Nontable_Vcp_Response" where
  "create_all_zero_response fcode =
     \<lparr>vcp_code = fcode, valid_response = True, supported_opcode = True, rmh = 0, rml = 0, rsh = 0, rsl = 0\<rparr>"

definition mock_get_nontable_vcp_value ::
    "'w Vcp_Env \<Rightarrow> byte \<Rightarrow> Error_Info option \<times> Parsed_Nontable_Vcp_Response option" where
  "mock_get_nontable_vcp_value env fcode =
     (if enable_mock_data env then
        (if fcode = 0x10 \<or> fcode = 0x41 then Some (err_new DDCRC_INTERNAL_ERROR) else None,
         if fcode = 0x00 then Some (create_all_zero_response fcode) else None)
      else (None, None))"

text \<open>After an error the display reference forgets what the bus no longer confirms.\<close>

definition clear_dref_flags :: "'w Vcp_State \<Rightarrow> 'w Vcp_State" where
  "clear_dref_flags st =
     (let fl = dflags st;
          fl = (if \<not> bus_has_edid (bus_info (ddc st))
                then fl\<lparr>DREF_DDC_IS_MONITOR := False, DREF_DDC_COMMUNICATION_CHECKED := False\<rparr> else fl);
          fl = (if \<not> bus_addr_x37 (bus_info (ddc st)) then fl\<lparr>DREF_DDC_COMMUNICATION_WORKING := False\<rparr> else fl)
      in st\<lparr>dflags := fl\<rparr>)"

text \<open>The error a response stands for.\<close>

definition response_error :: "Dref_Flags \<Rightarrow> Parsed_Nontable_Vcp_Response \<Rightarrow> int" where
  "response_error fl r =
     (if \<not> valid_response r then DDCRC_DDC_DATA
      else if \<not> supported_opcode r then DDCRC_REPORTED_UNSUPPORTED
      else if value_bytes_zero r \<and> DREF_DDC_USES_MH_ML_SH_SL_ZERO_FOR_UNSUPPORTED fl
      then DDCRC_DETERMINED_UNSUPPORTED
      else 0)"

definition ddc_get_nontable_vcp_value ::
    "'w Vcp_Env \<Rightarrow> byte \<Rightarrow> 'w Vcp_State \<Rightarrow>
     (Error_Info option \<times> Parsed_Nontable_Vcp_Response option \<times> 'w Vcp_State) option" where
  "ddc_get_nontable_vcp_value env fcode st =
     (let (mock_errinfo, mock) = mock_get_nontable_vcp_value env fcode
      in if mock_errinfo \<noteq> None \<or> mock \<noteq> None then Some (mock_errinfo, mock, st)
         else do {
           req \<leftarrow> create_ddc_getvcp_request_packet fcode ''ddc_get_nontable_vcp_value:request packet'';
           (excp, response, d) \<leftarrow>
             ddc_write_read_with_retry (exchange_env env st) req MAX_DDC_PACKET_SIZE
               DDC_PACKET_TYPE_QUERY_VCP_RESPONSE fcode Write_Read_Flags_None (ddc st);
           c_assert ((excp \<noteq> None) = (response = None));
           let st = st\<lparr>ddc := d\<rparr>;
           (case excp of
              Some e \<Rightarrow> Some (Some e, None, clear_dref_flags st)
            | None \<Rightarrow> do {
                packet \<leftarrow> response;
                (psc, parsed_response) \<leftarrow> get_interpreted_vcp_code packet;
                (if psc = 0 then do {
                   r \<leftarrow> parsed_response;
                   let rc = response_error (dflags st) r;
                   Some (if rc = 0 then (None, Some r, st) else (Some (err_new rc), None, st))
                 }
                 else Some (Some (err_new psc), None, st))
              })
         })"

definition ddc_get_table_vcp_value ::
    "'w Vcp_Env \<Rightarrow> byte \<Rightarrow> 'w Vcp_State \<Rightarrow> (Error_Info option \<times> Buffer option \<times> 'w Vcp_State) option" where
  "ddc_get_table_vcp_value env fcode st = do {
     (ddc_excp, buf, d) \<leftarrow>
       multi_part_read_with_retry (exchange_env env st) (multi_part_null_adjustment_millis env)
         DDC_PACKET_TYPE_TABLE_READ_REQUEST fcode
         \<lparr>all_zero_response_ok = True, flag_capabilities = False, flag_table_read = True\<rparr> (ddc st);
     let st = st\<lparr>ddc := d\<rparr>;
     Some (case ddc_excp of
             None \<Rightarrow> (None, buf, st)
           | Some e \<Rightarrow>
               (Some (if status_code e = DDCRC_NULL_RESPONSE \<or> status_code e = DDCRC_ALL_RESPONSES_NULL
                      then \<lparr>status_code = DDCRC_DETERMINED_UNSUPPORTED, causes = [status_code e]\<rparr> else e),
                None, st))
   }"

definition ddc_get_vcp_value ::
    "'w Vcp_Env \<Rightarrow> byte \<Rightarrow> DDCA_Vcp_Value_Type \<Rightarrow> 'w Vcp_State \<Rightarrow>
     (Error_Info option \<times> DDCA_Any_Vcp_Value option \<times> 'w Vcp_State) option" where
  "ddc_get_vcp_value env fcode call_type st = do {
     (excp, valrec, st) \<leftarrow>
       (case call_type of
          DDCA_NON_TABLE_VCP_VALUE \<Rightarrow> do {
            (excp, resp, st) \<leftarrow> ddc_get_nontable_vcp_value env fcode st;
            (case excp of
               Some e \<Rightarrow> Some (Some e, None, st)
             | None \<Rightarrow> do {
                 r \<leftarrow> resp;
                 Some (None, Some (create_nontable_vcp_value fcode (rmh r) (rml r) (rsh r) (rsl r)), st)
               })
          }
        | DDCA_TABLE_VCP_VALUE \<Rightarrow> do {
            (excp, buf, st) \<leftarrow> ddc_get_table_vcp_value env fcode st;
            (case excp of
               Some e \<Rightarrow> Some (Some e, None, st)
             | None \<Rightarrow> do {
                 b \<leftarrow> buf;
                 Some (None, Some (create_table_vcp_value_by_buffer fcode b), st)
               })
          });
     c_assert ((excp = None) = (valrec \<noteq> None));
     Some (excp, valrec, st)
   }"

section \<open>The version of MCCS\<close>

definition set_vcp_version_xdf_by_dh ::
    "'w Vcp_Env \<Rightarrow> 'w Vcp_State \<Rightarrow> (DDCA_MCCS_Version_Spec \<times> 'w Vcp_State) option" where
  "set_vcp_version_xdf_by_dh env st = do {
     let st = st\<lparr>vcp_version_xdf := DDCA_VSPEC_UNKNOWN\<rparr>;
     (excp, resp, st) \<leftarrow> ddc_get_nontable_vcp_value env 0xdf st;
     c_assert ((excp = None) = (resp \<noteq> None));
     let st = (case resp of
                 None \<Rightarrow> st
               | Some r \<Rightarrow>
                   if valid_response r \<and> supported_opcode r
                   then st\<lparr>vcp_version_xdf := \<lparr>major = rsh r, minor = rsl r\<rparr>\<rparr> else st);
     c_assert (\<not> vcp_version_eq (vcp_version_xdf st) DDCA_VSPEC_UNQUERIED);
     Some (vcp_version_xdf st, st)
   }"

definition get_overriding_vcp_version :: "'w Vcp_State \<Rightarrow> DDCA_MCCS_Version_Spec" where
  "get_overriding_vcp_version dref =
     (if vcp_version_is_valid (vcp_version_cmdline dref) False then vcp_version_cmdline dref
      else (case dref_dfr (dref_definition dref) of
              None \<Rightarrow> DDCA_VSPEC_UNQUERIED
            | Some dfr \<Rightarrow> if vcp_version_is_valid (dfr_vspec dfr) False then dfr_vspec dfr else DDCA_VSPEC_UNQUERIED))"

definition get_saved_vcp_version :: "'w Vcp_State \<Rightarrow> DDCA_MCCS_Version_Spec" where
  "get_saved_vcp_version dref =
     (let result = get_overriding_vcp_version dref
      in if vcp_version_eq result DDCA_VSPEC_UNQUERIED then vcp_version_xdf dref else result)"

definition get_vcp_version_by_dh ::
    "'w Vcp_Env \<Rightarrow> 'w Vcp_State \<Rightarrow> (DDCA_MCCS_Version_Spec \<times> 'w Vcp_State) option" where
  "get_vcp_version_by_dh env st =
     (let result = get_saved_vcp_version st
      in if vcp_version_eq result DDCA_VSPEC_UNQUERIED then set_vcp_version_xdf_by_dh env st
         else Some (result, st))"

definition dyn_get_feature_metadata_by_dh ::
    "'w Vcp_Env \<Rightarrow> byte \<Rightarrow> bool \<Rightarrow> bool \<Rightarrow> 'w Vcp_State \<Rightarrow>
     (Display_Feature_Metadata option \<times> 'w Vcp_State) option" where
  "dyn_get_feature_metadata_by_dh env fcode check_udf with_default st = do {
     (vspec, st) \<leftarrow> get_vcp_version_by_dh env st;
     result \<leftarrow> dyn_get_feature_metadata_by_dfr_and_vspec_dfm fcode
       (if check_udf then dref_dfr (dref_definition st) else None) vspec with_default;
     Some (result, st)
   }"

section \<open>Verification\<close>

definition is_rereadable_feature :: "'w Vcp_Env \<Rightarrow> byte \<Rightarrow> 'w Vcp_State \<Rightarrow> (bool \<times> 'w Vcp_State) option" where
  "is_rereadable_feature env fcode st =
     (if fcode \<in> set [0x02, 0x03, 0x60] then Some (False, st)
      else do {
        (dfm, st) \<leftarrow> dyn_get_feature_metadata_by_dh env fcode True False st;
        Some (case dfm of None \<Rightarrow> True | Some m \<Rightarrow> flag_set (version_feature_flags m) DDCA_READABLE, st)
      })"

definition is_unreadable_sl_value :: "byte \<Rightarrow> byte \<Rightarrow> bool" where
  "is_unreadable_sl_value fcode b \<longleftrightarrow> fcode = 0xd6 \<and> b = 5"

text \<open>Of a value that is not a table only the last byte is compared.\<close>

definition single_vcp_value_equal :: "DDCA_Any_Vcp_Value \<Rightarrow> DDCA_Any_Vcp_Value \<Rightarrow> bool" where
  "single_vcp_value_equal vrec1 vrec2 \<longleftrightarrow>
     opcode vrec1 = opcode vrec2 \<and>
     (case (val vrec1, val vrec2) of
        (C_nc v, C_nc w) \<Rightarrow> c_sl v = c_sl w
      | (C_table bs, C_table cs) \<Rightarrow> bs = cs
      | _ \<Rightarrow> False)"

text \<open>A value that cannot be read after it was written.\<close>

definition unreadable_value :: "DDCA_Any_Vcp_Value \<Rightarrow> bool" where
  "unreadable_value vrec =
     (case val vrec of C_nc v \<Rightarrow> is_unreadable_sl_value (opcode vrec) (c_sl v) | C_table _ \<Rightarrow> False)"

section \<open>Writing\<close>

definition ddc_set_nontable_vcp_value ::
    "'w Vcp_Env \<Rightarrow> byte \<Rightarrow> nat \<Rightarrow> 'w Vcp_State \<Rightarrow> (Error_Info option \<times> 'w Vcp_State) option" where
  "ddc_set_nontable_vcp_value env fcode new_value st = do {
     req \<leftarrow> create_ddc_setvcp_request_packet (alt_source_addr env) fcode new_value ''set_vcp:request packet'';
     (ddc_excp, d) \<leftarrow> ddc_write_only_with_retry (exchange_env env st) req (ddc st);
     Some (ddc_excp, st\<lparr>ddc := d\<rparr>)
   }"

definition set_table_vcp_value ::
    "'w Vcp_Env \<Rightarrow> byte \<Rightarrow> byte list \<Rightarrow> 'w Vcp_State \<Rightarrow> (Error_Info option \<times> 'w Vcp_State) option" where
  "set_table_vcp_value env fcode bytes st = do {
     new_value \<leftarrow> buffer_new_with_value bytes;
     (ddc_excp, d) \<leftarrow> multi_part_write_with_retry (exchange_env env st) fcode new_value (ddc st);
     Some (ddc_excp, st\<lparr>ddc := d\<rparr>)
   }"

text \<open>The read after a write, and the error if another value is read.\<close>

definition verify_new_value ::
    "'w Vcp_Env \<Rightarrow> DDCA_Any_Vcp_Value \<Rightarrow> 'w Vcp_State \<Rightarrow>
     (Error_Info option \<times> DDCA_Any_Vcp_Value option \<times> 'w Vcp_State) option" where
  "verify_new_value env vrec st = do {
     (ddc_excp, newval, st) \<leftarrow> ddc_get_vcp_value env (opcode vrec) (value_type vrec) st;
     (case ddc_excp of
        Some e \<Rightarrow> Some (Some e, None, st)
      | None \<Rightarrow> do {
          new \<leftarrow> newval;
          Some (if single_vcp_value_equal vrec new then None else Some (err_new DDCRC_VERIFY), Some new, st)
        })
   }"

definition ddc_set_vcp_value ::
    "'w Vcp_Env \<Rightarrow> DDCA_Any_Vcp_Value \<Rightarrow> 'w Vcp_State \<Rightarrow>
     (Error_Info option \<times> DDCA_Any_Vcp_Value option \<times> 'w Vcp_State) option" where
  "ddc_set_vcp_value env vrec st = do {
     (ddc_excp, st) \<leftarrow>
       (case val vrec of
          C_nc v \<Rightarrow> ddc_set_nontable_vcp_value env (opcode vrec) (VALREC_CUR_VAL v) st
        | C_table bytes \<Rightarrow> set_table_vcp_value env (opcode vrec) bytes st);
     (if ddc_excp = None
      then do {
        let (verify, st) = ddc_get_verify_setvcp env st;
        (if verify
         then do {
           (rereadable, st) \<leftarrow> is_rereadable_feature env (opcode vrec) st;
           (if rereadable \<and> \<not> unreadable_value vrec then verify_new_value env vrec st
            else do {
              (_, st) \<leftarrow> is_rereadable_feature env (opcode vrec) st;
              Some (None, None, st)
            })
         }
         else Some (None, None, st))
      }
      else Some (ddc_excp, None, st))
   }"

text \<open>The loop of the writes, with the tries left; it goes on after \<^verbatim>\<open>DDCRC_VERIFY\<close> only.\<close>

fun set_verified_loop ::
    "'w Vcp_Env \<Rightarrow> byte \<Rightarrow> nat \<Rightarrow> nat \<Rightarrow> Error_Info option \<Rightarrow> int list \<Rightarrow> 'w Vcp_State \<Rightarrow>
     (Error_Info option \<times> int list \<times> 'w Vcp_State) option" where
  "set_verified_loop env fcode new_value 0 erec failures st = Some (erec, failures, st)"
| "set_verified_loop env fcode new_value (Suc n) erec failures st = do {
     (erec, st) \<leftarrow> ddc_set_nontable_vcp_value env fcode new_value st;
     (case erec of
        None \<Rightarrow> Some (None, failures, st)
      | Some e \<Rightarrow>
          if status_code e \<noteq> DDCRC_VERIFY then Some (erec, failures, st)
          else set_verified_loop env fcode new_value n erec (failures @ [status_code e]) st)
   }"

definition ddc_set_verified_vcp_value_with_retry ::
    "'w Vcp_Env \<Rightarrow> DDCA_Any_Vcp_Value \<Rightarrow> 'w Vcp_State \<Rightarrow>
     (Error_Info option \<times> DDCA_Any_Vcp_Value option \<times> 'w Vcp_State) option" where
  "ddc_set_verified_vcp_value_with_retry env vrec st = do {
     let (verification_enabled, st) = ddc_get_verify_setvcp env st;
     (rereadable, st) \<leftarrow>
       (if value_type vrec = DDCA_NON_TABLE_VCP_VALUE \<and> verification_enabled
        then is_rereadable_feature env (opcode vrec) st else Some (False, st));
     (case val vrec of
        C_nc v \<Rightarrow>
          if verification_enabled \<and> rereadable \<and> \<not> is_unreadable_sl_value (opcode vrec) (c_sl v)
          then do {
            (erec, failures, st) \<leftarrow>
              set_verified_loop env (opcode vrec) (VALREC_CUR_VAL v) (max_setvcp_verify_tries env) None [] st;
            Some (case erec of
                    Some e \<Rightarrow>
                      if status_code e = DDCRC_VERIFY then Some \<lparr>status_code = DDCRC_VERIFY, causes = failures\<rparr> else erec
                  | None \<Rightarrow> None, None, st)
          }
          else ddc_set_vcp_value env vrec st
      | C_table _ \<Rightarrow> ddc_set_vcp_value env vrec st)
   }"

section \<open>Reading a value\<close>

text \<open>
  What is assumed of the environment and kept of the state: the device behaves as documented, mock
  data are off, and the definitions of the user are ones the parser accepts.
\<close>

definition vcp_env_ok :: "'w Vcp_Env \<Rightarrow> bool" where
  "vcp_env_ok env \<longleftrightarrow> driver_ok (driver (ddc_env env)) \<and> edid_config_ok (edid_cfg (ddc_env env)) \<and>
     \<not> deferred_sleep_enabled (sleep_cfg (ddc_env env)) \<and> \<not> enable_mock_data env"

definition dfr_ok :: "Dynamic_Features_Rec option \<Rightarrow> bool" where
  "dfr_ok dfr \<longleftrightarrow>
     (case dfr of None \<Rightarrow> True
      | Some r \<Rightarrow>
          (case dfr_features r of None \<Rightarrow> True
           | Some fs \<Rightarrow> list_all (\<lambda>(c, m). dyn_feature_code m = c \<and> final_feature_ok m) fs))"

definition vcp_ok :: "'w Vcp_State \<Rightarrow> bool" where
  "vcp_ok st \<longleftrightarrow> ddc_ok (ddc st) \<and> dfr_ok (dref_dfr (dref_definition st)) \<and>
     \<not> (dh_testing_unsupported_feature_active st \<and> DREF_DDC_USES_NULL_RESPONSE_FOR_UNSUPPORTED (dflags st))"

text \<open>The state after an exchange: as before but for the device, the statistics, and flags that are cleared.\<close>

definition vcp_next :: "'w Vcp_State \<Rightarrow> 'w Vcp_State \<Rightarrow> bool" where
  "vcp_next st st' \<longleftrightarrow>
     (\<exists>d. ddc_ok d \<and> limits d = limits (ddc st) \<and> (st' = st\<lparr>ddc := d\<rparr> \<or> st' = clear_dref_flags (st\<lparr>ddc := d\<rparr>)))"

lemma clear_dref_flags_fields [simp]:
  "ddc (clear_dref_flags st) = ddc st"
  "dh_testing_unsupported_feature_active (clear_dref_flags st) = dh_testing_unsupported_feature_active st"
  "vcp_version_xdf (clear_dref_flags st) = vcp_version_xdf st"
  "vcp_version_cmdline (clear_dref_flags st) = vcp_version_cmdline st"
  "dref_definition (clear_dref_flags st) = dref_definition st"
  "thread_vcp_settings (clear_dref_flags st) = thread_vcp_settings st"
  "DREF_DDC_USES_NULL_RESPONSE_FOR_UNSUPPORTED (dflags (clear_dref_flags st)) =
     DREF_DDC_USES_NULL_RESPONSE_FOR_UNSUPPORTED (dflags st)"
  "DREF_DDC_USES_MH_ML_SH_SL_ZERO_FOR_UNSUPPORTED (dflags (clear_dref_flags st)) =
     DREF_DDC_USES_MH_ML_SH_SL_ZERO_FOR_UNSUPPORTED (dflags st)"
  "DREF_DDC_USES_DDC_FLAG_FOR_UNSUPPORTED (dflags (clear_dref_flags st)) =
     DREF_DDC_USES_DDC_FLAG_FOR_UNSUPPORTED (dflags st)"
  "DREF_DDC_DOES_NOT_INDICATE_UNSUPPORTED (dflags (clear_dref_flags st)) =
     DREF_DDC_DOES_NOT_INDICATE_UNSUPPORTED (dflags st)"
  "DREF_UNSUPPORTED_CHECKED (dflags (clear_dref_flags st)) = DREF_UNSUPPORTED_CHECKED (dflags st)"
  "DREF_DDC_BUSY (dflags (clear_dref_flags st)) = DREF_DDC_BUSY (dflags st)"
  "DREF_REMOVED (dflags (clear_dref_flags st)) = DREF_REMOVED (dflags st)"
  by (simp_all add: clear_dref_flags_def Let_def)

lemma vcp_next_ok: "vcp_next st st' \<Longrightarrow> vcp_ok st \<Longrightarrow> vcp_ok st' \<and> limits (ddc st') = limits (ddc st)"
  by (auto simp: vcp_next_def vcp_ok_def)

lemma vcp_next_fields:
  "vcp_next st st' \<Longrightarrow>
     vcp_version_xdf st' = vcp_version_xdf st \<and> vcp_version_cmdline st' = vcp_version_cmdline st \<and>
     dref_definition st' = dref_definition st \<and> thread_vcp_settings st' = thread_vcp_settings st \<and>
     dh_testing_unsupported_feature_active st' = dh_testing_unsupported_feature_active st"
  by (auto simp: vcp_next_def)

lemma exchange_env_ok: "vcp_env_ok env \<Longrightarrow> vcp_ok st \<Longrightarrow> env_ok (exchange_env env st)"
  by (auto simp: vcp_env_ok_def vcp_ok_def env_ok_def exchange_env_def)

lemma read_from_device_exchange [simp]:
  "read_from_device (exchange_env env st) = read_from_device (ddc_env env)"
  by (intro ext) (simp add: read_from_device_def exchange_env_def)

text \<open>A reply to the request for a feature that the device sent.\<close>

definition vcp_reply :: "'w Vcp_Env \<Rightarrow> byte \<Rightarrow> Parsed_Nontable_Vcp_Response \<Rightarrow> bool" where
  "vcp_reply env fcode r \<longleftrightarrow>
     (\<exists>buf. read_from_device (ddc_env env) 40 buf \<and> vcp_response_ok (skip_double_6e buf) fcode \<and>
        r = nontable_of (skip_double_6e buf))"

lemma vcp_reply_valid: "vcp_reply env fcode r \<Longrightarrow> valid_response r \<and> vcp_code r = fcode"
  by (auto simp: vcp_reply_def nontable_of_def vcp_response_ok_def)

lemma packet_vcp_reply:
  assumes "packet_from_device (exchange_env env st) 40 DDC_PACKET_TYPE_QUERY_VCP_RESPONSE fcode p"
  shows "\<exists>r. get_interpreted_vcp_code p = Some (DDCRC_OK, Some r) \<and> vcp_reply env fcode r"
  using assms
  by (auto simp: packet_from_device_def typed_response_spec_def is_multi_part_type_def vcp_reply_def
      get_interpreted_vcp_code_def response_packet_def vcp_response_ok_def split: if_splits)

text \<open>The errors of a read.\<close>

definition get_error_ok :: "'w Vcp_Env \<Rightarrow> byte \<Rightarrow> 'w Vcp_State \<Rightarrow> Error_Info \<Rightarrow> bool" where
  "get_error_ok env fcode st x \<longleftrightarrow>
     exchange_error_ok Write_Read_Flags_None (limits (ddc st) ! 1) x \<or>
     x = err_new DDCRC_REPORTED_UNSUPPORTED \<and> (\<exists>r. vcp_reply env fcode r \<and> \<not> supported_opcode r) \<or>
     x = err_new DDCRC_DETERMINED_UNSUPPORTED \<and>
       DREF_DDC_USES_MH_ML_SH_SL_ZERO_FOR_UNSUPPORTED (dflags st) \<and> (\<exists>r. vcp_reply env fcode r \<and> value_bytes_zero r)"

lemma get_nontable_good:
  assumes e: "vcp_env_ok env" and st: "vcp_ok st"
  shows "\<exists>excp resp st'. ddc_get_nontable_vcp_value env fcode st = Some (excp, resp, st') \<and> vcp_next st st' \<and>
    (excp = None \<longleftrightarrow> resp \<noteq> None) \<and>
    (\<forall>r. resp = Some r \<longrightarrow> vcp_reply env fcode r \<and> supported_opcode r \<and> dflags st' = dflags st \<and>
       \<not> (value_bytes_zero r \<and> DREF_DDC_USES_MH_ML_SH_SL_ZERO_FOR_UNSUPPORTED (dflags st))) \<and>
    (\<forall>x. excp = Some x \<longrightarrow> get_error_ok env fcode st x)"
proof -
  have m: "mock_get_nontable_vcp_value env fcode = (None, None)"
    using e by (simp add: mock_get_nontable_vcp_value_def vcp_env_ok_def)
  have d: "ddc_ok (ddc st)" using st by (simp add: vcp_ok_def)
  let ?req = "request_packet 0x51 [DDC_PACKET_TYPE_QUERY_VCP_REQUEST, fcode] ''ddc_get_nontable_vcp_value:request packet''"
  have q: "create_ddc_getvcp_request_packet fcode ''ddc_get_nontable_vcp_value:request packet'' = Some ?req"
    by (simp add: create_ddc_getvcp_request_packet_def base_request_eq)
  have n: "38 \<le> (39::nat)" "39 + 1 = (40::nat)" and k: "known_type DDC_PACKET_TYPE_QUERY_VCP_RESPONSE"
    by (simp_all add: known_type_def)
  have q': "request_ok ?req" by (rule request_packet_ok)
  from write_read_with_retry_good [where subtype = fcode and flags = Write_Read_Flags_None,
      OF exchange_env_ok [OF e st] d q' n(1) k, unfolded n(2)]
  obtain err resp d' where
    x: "ddc_write_read_with_retry (exchange_env env st) ?req 39 DDC_PACKET_TYPE_QUERY_VCP_RESPONSE fcode
          Write_Read_Flags_None (ddc st) = Some (err, resp, d')"
       "ddc_ok d'" "limits d' = limits (ddc st)" "err = None \<longleftrightarrow> resp \<noteq> None"
       "\<forall>p. resp = Some p \<longrightarrow> packet_from_device (exchange_env env st) 40 DDC_PACKET_TYPE_QUERY_VCP_RESPONSE fcode p"
       "\<forall>x. err = Some x \<longrightarrow> exchange_error_ok Write_Read_Flags_None (limits (ddc st) ! 1) x"
    by (auto simp: good_next_def)
  show ?thesis
  proof (cases err)
    case (Some er)
    then show ?thesis
      using x by (auto simp: ddc_get_nontable_vcp_value_def m q vcp_next_def get_error_ok_def)
  next
    case None
    then obtain p where p: "resp = Some p" using x(4) by auto
    obtain r where r: "get_interpreted_vcp_code p = Some (DDCRC_OK, Some r)" "vcp_reply env fcode r"
      using packet_vcp_reply x(5) p by blast
    show ?thesis
      using x None p r vcp_reply_valid [OF r(2)]
      by (auto simp: ddc_get_nontable_vcp_value_def m q vcp_next_def get_error_ok_def response_error_def Let_def
          split: if_splits)
  qed
qed

section \<open>Metadata and version\<close>

lemma table_flags:
  assumes "vcp_find_feature_by_hexid c = Some e"
  shows "\<exists>flags. get_version_sensitive_feature_flags e v = Some flags \<and> well_typed_flags flags"
proof -
  have ok: "entry_ok e" using found_entry_ok [OF assms] by auto
  then obtain flags where flags: "get_version_sensitive_feature_flags e v = Some flags"
    using sensitive_flags_None [of e v]
    by (cases "get_version_sensitive_feature_flags e v") (auto simp: entry_ok_def list_ex_iff)
  then show ?thesis using ok sensitive_flags_in [OF flags] by (auto simp: entry_ok_def list_all_iff)
qed

lemma well_typed_some_type:
  "well_typed_flags f \<Longrightarrow> flag_set f DDCA_TABLE \<or> flag_set f DDCA_NON_TABLE"
  unfolding well_typed_flags_def count_flags_def type_flags_def non_table_flags DDCA_TABLE_def flag_set_or
  by (auto split: if_splits)

lemma table_metadata_total:
  assumes "vcp_find_feature_by_hexid c = Some e"
  shows "\<exists>dfm dfm'. extract_version_feature_info_from_feature_table_entry e v True = Some dfm \<and>
    table_defined_formatter e dfm = Some dfm'"
proof -
  obtain flags where flags: "get_version_sensitive_feature_flags e v = Some flags" "well_typed_flags flags"
    using table_flags [OF assms] by blast
  obtain dfm where dfm: "extract_version_feature_info_from_feature_table_entry e v True = Some dfm"
    "version_feature_flags dfm = flags"
    by (auto simp: extract_version_feature_info_from_feature_table_entry_def flags(1) Let_def)
  have c: "flag_set flags (DDCA_COMPLEX_CONT OR DDCA_COMPLEX_NC OR DDCA_NC_CONT) \<longleftrightarrow>
      flag_set flags DDCA_COMPLEX_CONT \<or> flag_set flags DDCA_COMPLEX_NC \<or> flag_set flags DDCA_NC_CONT"
    unfolding flag_set_or by blast
  have "\<exists>x. table_defined_formatter e dfm = Some x"
    using well_typed_some_type [OF flags(2)]
    unfolding table_defined_formatter_def Let_def dfm(2) c non_table_flags c_assert_def
    by (elim disjE) simp_all
  then show ?thesis using dfm(1) by blast
qed

lemma metadata_total:
  assumes "dfr_ok dfr"
  shows "\<exists>r. dyn_get_feature_metadata_by_dfr_and_vspec_dfm c dfr v False = Some r"
proof (cases "dyn_get_dynamic_feature_metadata dfr c")
  case None
  show ?thesis
  proof (cases "vcp_find_feature_by_hexid c")
    case (Some e)
    then show ?thesis using table_metadata_total [OF Some, of v] None
      by (auto simp: dyn_get_feature_metadata_by_dfr_and_vspec_dfm_def)
  qed (simp add: dyn_get_feature_metadata_by_dfr_and_vspec_dfm_def None)
next
  case (Some m)
  then have "final_feature_ok m"
    using assms
    by (auto simp: dyn_get_dynamic_feature_metadata_def dfr_ok_def list_all_iff split: option.splits dest!: map_of_SomeD)
  then show ?thesis using Some by (simp add: dyn_get_feature_metadata_by_dfr_and_vspec_dfm_def dfm_from_definition)
qed

text \<open>The device says that its version is 255.255, which stands for a version not yet asked for.\<close>

definition reports_unqueried :: "'w Vcp_Env \<Rightarrow> bool" where
  "reports_unqueried env \<longleftrightarrow> (\<exists>r. vcp_reply env 0xdf r \<and> supported_opcode r \<and> rsh r = 0xff \<and> rsl r = 0xff)"

text \<open>The state after the version was asked for.\<close>

definition version_next :: "'w Vcp_State \<Rightarrow> 'w Vcp_State \<Rightarrow> bool" where
  "version_next st st' \<longleftrightarrow> vcp_next st (st'\<lparr>vcp_version_xdf := vcp_version_xdf st\<rparr>)"

lemma version_next_ok: "version_next st st' \<Longrightarrow> vcp_ok st \<Longrightarrow> vcp_ok st' \<and> limits (ddc st') = limits (ddc st)"
  by (auto simp: version_next_def dest!: vcp_next_ok) (simp add: vcp_ok_def)

lemma vcp_next_refl: "vcp_ok st \<Longrightarrow> vcp_next st st"
  by (auto simp: vcp_next_def vcp_ok_def intro!: exI [of _ "ddc st"])

lemma version_next_refl: "vcp_ok st \<Longrightarrow> version_next st st"
  by (simp add: version_next_def vcp_next_refl)

lemma set_version_good:
  assumes e: "vcp_env_ok env" and st: "vcp_ok st"
  shows "case set_vcp_version_xdf_by_dh env st of
     None \<Rightarrow> reports_unqueried env
   | Some (v, st') \<Rightarrow> v = vcp_version_xdf st' \<and> v \<noteq> DDCA_VSPEC_UNQUERIED \<and> version_next st st' \<and>
       (v = DDCA_VSPEC_UNKNOWN \<or> (\<exists>r. vcp_reply env 0xdf r \<and> v = \<lparr>major = rsh r, minor = rsl r\<rparr>))"
proof -
  let ?s = "st\<lparr>vcp_version_xdf := DDCA_VSPEC_UNKNOWN\<rparr>"
  have s: "vcp_ok ?s" using st by (simp add: vcp_ok_def)
  obtain excp resp st1 where g: "ddc_get_nontable_vcp_value env 0xdf ?s = Some (excp, resp, st1)" "vcp_next ?s st1"
      "excp = None \<longleftrightarrow> resp \<noteq> None" "\<forall>r. resp = Some r \<longrightarrow> vcp_reply env 0xdf r \<and> supported_opcode r"
    using get_nontable_good [where fcode = "0xdf", OF e s] by blast
  have n: "version_next st (st1\<lparr>vcp_version_xdf := v\<rparr>)" for v
    using g(2) by (auto simp: version_next_def vcp_next_def clear_dref_flags_def Let_def)
  have n1: "version_next st st1" using n [of "vcp_version_xdf st1"] by simp
  have u: "vcp_version_xdf st1 = DDCA_VSPEC_UNKNOWN" using vcp_next_fields [OF g(2)] by simp
  have uu: "DDCA_VSPEC_UNKNOWN \<noteq> DDCA_VSPEC_UNQUERIED" by (simp add: vspec_defs)
  show ?thesis
  proof (cases resp)
    case None
    then show ?thesis
      using g n1 u uu
      by (auto simp: set_vcp_version_xdf_by_dh_def c_assert_def vcp_version_eq_iff)
  next
    case (Some r)
    then show ?thesis
      using g n vcp_reply_valid [of env "0xdf" r]
      by (auto simp: set_vcp_version_xdf_by_dh_def c_assert_def vcp_version_eq_iff reports_unqueried_def
          DDCA_VSPEC_UNQUERIED_def)
  qed
qed

lemma version_by_dh_good:
  assumes e: "vcp_env_ok env" and st: "vcp_ok st"
  shows "case get_vcp_version_by_dh env st of
     None \<Rightarrow> reports_unqueried env
   | Some (v, st') \<Rightarrow> v \<noteq> DDCA_VSPEC_UNQUERIED \<and> v = get_saved_vcp_version st' \<and> version_next st st'"
proof (cases "get_saved_vcp_version st = DDCA_VSPEC_UNQUERIED")
  case True
  then have o: "get_overriding_vcp_version st = DDCA_VSPEC_UNQUERIED"
    by (auto simp: get_saved_vcp_version_def vcp_version_eq_iff Let_def split: if_splits)
  have "version_next st st' \<Longrightarrow> get_overriding_vcp_version st' = get_overriding_vcp_version st" for st'
    by (auto simp: version_next_def get_overriding_vcp_version_def dest!: vcp_next_fields)
  then show ?thesis
    using set_version_good [OF e st] True o
    by (auto simp: get_vcp_version_by_dh_def vcp_version_eq_iff get_saved_vcp_version_def Let_def split: option.splits)
next
  case False
  then show ?thesis using st by (simp add: get_vcp_version_by_dh_def vcp_version_eq_iff version_next_refl)
qed

lemma rereadable_good:
  assumes e: "vcp_env_ok env" and st: "vcp_ok st"
  shows "case is_rereadable_feature env c st of
     None \<Rightarrow> reports_unqueried env
   | Some (_, st') \<Rightarrow> version_next st st'"
proof -
  have m: "\<exists>r. dyn_get_feature_metadata_by_dfr_and_vspec_dfm c (dref_dfr (dref_definition st')) v False = Some r"
    if "version_next st st'" for st' v
    using version_next_ok [OF that st] by (intro metadata_total) (simp add: vcp_ok_def)
  show ?thesis
  proof (cases "get_vcp_version_by_dh env st")
    case None
    then show ?thesis
      using version_by_dh_good [OF e st] version_next_refl [OF st]
      by (simp add: is_rereadable_feature_def dyn_get_feature_metadata_by_dh_def)
  next
    case (Some x)
    obtain v st1 where x: "x = (v, st1)" by (cases x)
    then have n: "version_next st st1" using version_by_dh_good [OF e st] Some by simp
    then obtain r where "dyn_get_feature_metadata_by_dfr_and_vspec_dfm c (dref_dfr (dref_definition st1)) v False = Some r"
      using m by blast
    then show ?thesis
      using version_next_refl [OF st] n
      by (simp add: is_rereadable_feature_def dyn_get_feature_metadata_by_dh_def Some x)
  qed
qed

section \<open>What callers rely on\<close>

lemma write_only_next:
  assumes "env_ok env" "ddc_ok d"
  shows "case ddc_write_only_with_retry env req d of None \<Rightarrow> True
     | Some (err, d') \<Rightarrow> good_next d d' \<and>
         (\<forall>x. err = Some x \<longrightarrow> status_code x = - EBUSY \<or> status_code x = DDCRC_RETRIES)"
  using write_only_with_retry_good [OF assms, of req]
  by (cases "ddc_write_only_with_retry env req d") (auto split: if_splits)

lemma set_nontable_good:
  assumes e: "vcp_env_ok env" and st: "vcp_ok st"
  shows "case ddc_set_nontable_vcp_value env c n st of
     None \<Rightarrow> True
   | Some (err, st') \<Rightarrow> vcp_next st st' \<and>
       (\<forall>x. err = Some x \<longrightarrow> status_code x = - EBUSY \<or> status_code x = DDCRC_RETRIES)"
proof -
  let ?data = "[DDC_PACKET_TYPE_SET_VCP_REQUEST, c, byte_of_shr8 n, byte_of n]"
  let ?req = "request_packet (if alt_source_addr env \<noteq> 0 then alt_source_addr env else 0x51) ?data ''set_vcp:request packet''"
  have q: "create_ddc_setvcp_request_packet (alt_source_addr env) c n ''set_vcp:request packet'' = Some ?req"
    by (simp add: create_ddc_setvcp_request_packet_def base_request_eq)
  have d: "ddc_ok (ddc st)" using st by (simp add: vcp_ok_def)
  note w = write_only_next [OF exchange_env_ok [OF e st] d, of ?req]
  show ?thesis using w
    by (cases "ddc_write_only_with_retry (exchange_env env st) ?req (ddc st)")
      (auto simp: ddc_set_nontable_vcp_value_def q good_next_def vcp_next_def)
qed

lemma get_nontable_value_good:
  assumes e: "vcp_env_ok env" and st: "vcp_ok st"
  shows "\<exists>excp valrec st'. ddc_get_vcp_value env c DDCA_NON_TABLE_VCP_VALUE st = Some (excp, valrec, st') \<and> vcp_next st st' \<and>
    (excp = None \<longleftrightarrow> valrec \<noteq> None) \<and>
    (\<forall>w. valrec = Some w \<longrightarrow> (\<exists>r. vcp_reply env c r \<and> supported_opcode r \<and>
       w = create_nontable_vcp_value c (rmh r) (rml r) (rsh r) (rsl r))) \<and>
    (\<forall>x. excp = Some x \<longrightarrow> get_error_ok env c st x)"
proof -
  obtain excp resp st1 where g: "ddc_get_nontable_vcp_value env c st = Some (excp, resp, st1)" "vcp_next st st1"
      "excp = None \<longleftrightarrow> resp \<noteq> None" "\<forall>r. resp = Some r \<longrightarrow> vcp_reply env c r \<and> supported_opcode r"
      "\<forall>x. excp = Some x \<longrightarrow> get_error_ok env c st x"
    using get_nontable_good [where fcode = c, OF e st] by blast
  then show ?thesis
    by (cases excp) (auto simp: ddc_get_vcp_value_def c_assert_def)
qed

text \<open>C31 (read_value_is_from_device): Reading a feature that is not a table returns, with a value exactly
  if there is no error. The value is made of the bytes of a valid reply of the device for
  this feature; an error is one of the exchange, or the device said that the feature is
  not supported, by the flag of its reply or by four zero bytes where it is known to do so.
\<close>

theorem read_value_is_from_device:
  assumes "vcp_env_ok env" "vcp_ok st"
  shows "\<exists>excp valrec st'. ddc_get_vcp_value env c DDCA_NON_TABLE_VCP_VALUE st = Some (excp, valrec, st') \<and>
    vcp_ok st' \<and> (excp = None \<longleftrightarrow> valrec \<noteq> None) \<and>
    (\<forall>w. valrec = Some w \<longrightarrow> (\<exists>r. vcp_reply env c r \<and> supported_opcode r \<and>
       w = create_nontable_vcp_value c (rmh r) (rml r) (rsh r) (rsl r))) \<and>
    (\<forall>x. excp = Some x \<longrightarrow> get_error_ok env c st x)"
  using get_nontable_value_good [where c = c, OF assms] vcp_next_ok [OF _ assms(2)] by blast

definition example_vcp_env :: "'w I2C_Driver \<Rightarrow> 'w Vcp_Env" where
  "example_vcp_env drv =
     \<lparr>ddc_env = example_env drv, multi_part_null_adjustment_millis = 0, alt_source_addr = 0,
      enable_mock_data = False, setvcp_verify_default = True, max_setvcp_verify_tries = 1\<rparr>"

definition no_flags :: Dref_Flags where
  "no_flags =
     \<lparr>DREF_DDC_COMMUNICATION_CHECKED = False, DREF_DDC_COMMUNICATION_WORKING = False,
      DREF_DDC_IS_MONITOR_CHECKED = False, DREF_DDC_IS_MONITOR = False, DREF_UNSUPPORTED_CHECKED = False,
      DREF_DDC_USES_NULL_RESPONSE_FOR_UNSUPPORTED = False,
      DREF_DDC_USES_MH_ML_SH_SL_ZERO_FOR_UNSUPPORTED = False, DREF_DDC_USES_DDC_FLAG_FOR_UNSUPPORTED = False,
      DREF_DDC_DOES_NOT_INDICATE_UNSUPPORTED = False, DREF_OPEN = True, DREF_DDC_BUSY = False,
      DREF_REMOVED = False, DREF_DDC_DISABLED = False\<rparr>"

definition example_vcp :: "'w \<Rightarrow> 'w Vcp_State" where
  "example_vcp w =
     \<lparr>ddc = example_ddc w, dflags = no_flags, dh_testing_unsupported_feature_active = False,
      vcp_version_xdf = DDCA_VSPEC_V21, vcp_version_cmdline = DDCA_VSPEC_UNQUERIED,
      dref_definition = \<lparr>dref_mmk = mmk_undefined_value, dref_dfr = None, DREF_DYNAMIC_FEATURES_CHECKED = False\<rparr>,
      thread_vcp_settings = None\<rparr>"

lemma example_vcp_env_ok: "driver_ok drv \<Longrightarrow> vcp_env_ok (example_vcp_env drv)"
  using example_env_ok [of drv] by (simp add: vcp_env_ok_def example_vcp_env_def env_ok_def)

lemma example_vcp_ok: "vcp_ok (example_vcp w)"
  using example_ddc_ok by (simp add: vcp_ok_def example_vcp_def dfr_ok_def)

theorem read_value_is_from_device_witness:
  "\<exists>excp valrec st'. ddc_get_vcp_value (example_vcp_env nvidia_driver) 0x10 DDCA_NON_TABLE_VCP_VALUE (example_vcp ()) =
     Some (excp, valrec, st') \<and> vcp_ok st' \<and> (excp = None \<longleftrightarrow> valrec \<noteq> None)"
  using read_value_is_from_device [OF example_vcp_env_ok [OF nvidia_driver_ok] example_vcp_ok] by fastforce

text \<open>A feature that is not read again after it was written.\<close>

definition not_reread :: "byte \<Rightarrow> Dynamic_Features_Rec option \<Rightarrow> bool" where
  "not_reread c dfr \<longleftrightarrow> c \<in> {0x02, 0x03, 0x60} \<or>
     (\<exists>vspec m. dyn_get_feature_metadata_by_dfr_and_vspec_dfm c dfr vspec False = Some (Some m) \<and>
        \<not> flag_set (version_feature_flags m) DDCA_READABLE)"

lemma rereadable_False:
  assumes "is_rereadable_feature env c st = Some (False, st')" "version_next st st'"
  shows "not_reread c (dref_dfr (dref_definition st))"
proof (cases "c \<in> set [0x02, 0x03, 0x60]")
  case True
  then show ?thesis by (simp add: not_reread_def)
next
  case False
  have d: "dref_definition st' = dref_definition st"
    using assms(2) by (auto simp: version_next_def dest!: vcp_next_fields)
  from False assms(1) obtain dfm where
    m: "dyn_get_feature_metadata_by_dh env c True False st = Some (dfm, st')"
       "(case dfm of None \<Rightarrow> True | Some m \<Rightarrow> flag_set (version_feature_flags m) DDCA_READABLE) = False"
    unfolding is_rereadable_feature_def by (auto split: Option.bind_splits)
  from m(1) obtain v where v: "dyn_get_feature_metadata_by_dfr_and_vspec_dfm c (dref_dfr (dref_definition st')) v False = Some dfm"
    unfolding dyn_get_feature_metadata_by_dh_def by (auto split: Option.bind_splits)
  obtain x where x: "dfm = Some x" "\<not> flag_set (version_feature_flags x) DDCA_READABLE"
    using m(2) by (cases dfm) auto
  show ?thesis unfolding not_reread_def using v [unfolded x(1) d] x(2) by blast
qed

text \<open>C30 (written_value_is_verified): Setting a value that is not a table, with verification on. If no error
  is returned, the value was written without an error, and then either the feature is not one to be read
  again, or its value cannot be read any more, or it was read: the read started in the state that the write
  and the look-up of the feature left, and gave a reply of the display whose low byte is that of the value
  written. Only the low byte is compared; the high byte may differ. If an error is returned together with a
  value, the low bytes differ. The program ends abnormally only in the write itself or if the device claims
  to have version 255.255.
\<close>

theorem written_value_is_verified:
  assumes "vcp_env_ok env" "vcp_ok st" "val vrec = C_nc v" "fst (ddc_get_verify_setvcp env st)"
  shows "case ddc_set_vcp_value env vrec st of
     None \<Rightarrow> reports_unqueried env \<or> ddc_set_nontable_vcp_value env (opcode vrec) (VALREC_CUR_VAL v) st = None
   | Some (Some err, newval, st') \<Rightarrow> vcp_ok st' \<and>
       (case newval of
          None \<Rightarrow> True
        | Some w \<Rightarrow> status_code err = DDCRC_VERIFY \<and> (\<exists>u. val w = C_nc u \<and> c_sl u \<noteq> c_sl v))
   | Some (None, newval, st') \<Rightarrow> vcp_ok st' \<and>
       (\<exists>st1. ddc_set_nontable_vcp_value env (opcode vrec) (VALREC_CUR_VAL v) st = Some (None, st1) \<and>
          (case newval of
             None \<Rightarrow> unreadable_value vrec \<or> not_reread (opcode vrec) (dref_dfr (dref_definition st))
           | Some w \<Rightarrow> \<exists>st3 r.
               is_rereadable_feature env (opcode vrec) (snd (ddc_get_verify_setvcp env st1)) = Some (True, st3) \<and>
               ddc_get_vcp_value env (opcode vrec) DDCA_NON_TABLE_VCP_VALUE st3 = Some (None, Some w, st') \<and>
               vcp_reply env (opcode vrec) r \<and> rsl r = c_sl v \<and>
               w = create_nontable_vcp_value (opcode vrec) (rmh r) (rml r) (rsh r) (rsl r)))"
proof (cases "ddc_set_nontable_vcp_value env (opcode vrec) (VALREC_CUR_VAL v) st")
  case None
  then show ?thesis using assms(3) by (simp add: ddc_set_vcp_value_def)
next
  case (Some x)
  obtain err st1 where x: "x = (err, st1)" by (cases x)
  have n1: "vcp_next st st1"
    using set_nontable_good [where c = "opcode vrec" and n = "VALREC_CUR_VAL v", OF assms(1,2)] Some x by simp
  have ok1: "vcp_ok st1" using vcp_next_ok [OF n1 assms(2)] by blast
  show ?thesis
  proof (cases err)
    case (Some er)
    then show ?thesis using \<open>ddc_set_nontable_vcp_value _ _ _ _ = _\<close> x ok1 assms(3) by (simp add: ddc_set_vcp_value_def)
  next
    case None
    obtain st2 where s2: "ddc_get_verify_setvcp env st1 = (True, st2)" "vcp_ok st2"
        "dref_definition st2 = dref_definition st"
      using assms(4) ok1 vcp_next_fields [OF n1]
      by (auto simp: ddc_get_verify_setvcp_def get_thread_vcp_settings_def vcp_ok_def split: option.splits)
    have w: "ddc_set_vcp_value env vrec st = do {
         (rereadable, st) \<leftarrow> is_rereadable_feature env (opcode vrec) st2;
         (if rereadable \<and> \<not> unreadable_value vrec then verify_new_value env vrec st
          else do {
            (_, st) \<leftarrow> is_rereadable_feature env (opcode vrec) st;
            Some (None, None, st)
          })}"
      using \<open>ddc_set_nontable_vcp_value _ _ _ _ = _\<close> x None s2(1) assms(3) by (simp add: ddc_set_vcp_value_def)
    show ?thesis
    proof (cases "is_rereadable_feature env (opcode vrec) st2")
      case None
      then show ?thesis using rereadable_good [where c = "opcode vrec", OF assms(1) s2(2)] w by simp
    next
      case (Some y)
      obtain b st3 where y: "y = (b, st3)" by (cases y)
      have n3: "version_next st2 st3"
        using rereadable_good [where c = "opcode vrec", OF assms(1) s2(2)] Some y by simp
      have ok3: "vcp_ok st3" using version_next_ok [OF n3 s2(2)] by blast
      have d3: "dref_definition st3 = dref_definition st2"
        using n3 by (auto simp: version_next_def dest!: vcp_next_fields)
      show ?thesis
      proof (cases "b \<and> \<not> unreadable_value vrec")
        case True
        have t: "value_type vrec = DDCA_NON_TABLE_VCP_VALUE" using assms(3) by (simp add: value_type_def)
        have sl: "single_vcp_value_equal vrec (create_nontable_vcp_value (opcode vrec) a b' d z) \<longleftrightarrow> z = c_sl v" for a b' d z
          using assms(3) by (auto simp: single_vcp_value_equal_def create_nontable_vcp_value_def)
        obtain excp valrec st4 where g:
            "ddc_get_vcp_value env (opcode vrec) DDCA_NON_TABLE_VCP_VALUE st3 = Some (excp, valrec, st4)" "vcp_next st3 st4"
            "excp = None \<longleftrightarrow> valrec \<noteq> None"
            "\<forall>w. valrec = Some w \<longrightarrow> (\<exists>r. vcp_reply env (opcode vrec) r \<and> supported_opcode r \<and>
               w = create_nontable_vcp_value (opcode vrec) (rmh r) (rml r) (rsh r) (rsl r))"
          using get_nontable_value_good [where c = "opcode vrec", OF assms(1) ok3] by blast
        have "vcp_ok st4" using vcp_next_ok [OF g(2) ok3] by blast
        show ?thesis
        proof (cases valrec)
          case None
          then show ?thesis using g w Some y True \<open>vcp_ok st4\<close> by (auto simp: verify_new_value_def t)
        next
          case got: (Some nv)
          obtain r where r: "vcp_reply env (opcode vrec) r"
              "nv = create_nontable_vcp_value (opcode vrec) (rmh r) (rml r) (rsh r) (rsl r)"
            using g(4) got by blast
          have "ddc_set_vcp_value env vrec st =
              Some (if rsl r = c_sl v then None else Some (err_new DDCRC_VERIFY), Some nv, st4)"
            using g(1,3) w Some y True got sl r(2) by (simp add: verify_new_value_def t)
          then show ?thesis
            using r \<open>vcp_ok st4\<close> \<open>ddc_set_nontable_vcp_value _ _ _ _ = _\<close> x None s2(1) Some y True g(1,3) got
            by (auto simp: create_nontable_vcp_value_def err_new_def)
        qed
      next
        case False
        show ?thesis
        proof (cases "is_rereadable_feature env (opcode vrec) st3")
          case None
          then show ?thesis
            using rereadable_good [where c = "opcode vrec", OF assms(1) ok3] w Some y False by simp
        next
          case again: (Some z)
          obtain b' st4 where z: "z = (b', st4)" by (cases z)
          have "vcp_ok st4"
            using rereadable_good [where c = "opcode vrec", OF assms(1) ok3] again z version_next_ok [OF _ ok3] by auto
          moreover have "\<not> b \<Longrightarrow> not_reread (opcode vrec) (dref_dfr (dref_definition st))"
            using rereadable_False [OF _ n3, of env "opcode vrec"] Some y s2(3) by simp
          ultimately show ?thesis
            using w Some y False again z \<open>ddc_set_nontable_vcp_value _ _ _ _ = _\<close> x None by auto
        qed
      qed
    qed
  qed
qed

theorem written_value_is_verified_witness:
  "case ddc_set_vcp_value (example_vcp_env nvidia_driver) (create_cont_vcp_value 0x10 100 50) (example_vcp ()) of
     None \<Rightarrow> reports_unqueried (example_vcp_env nvidia_driver) \<or>
       ddc_set_nontable_vcp_value (example_vcp_env nvidia_driver) 0x10 50 (example_vcp ()) = None
   | Some (Some err, newval, st') \<Rightarrow> vcp_ok st'
   | Some (None, newval, st') \<Rightarrow> vcp_ok st' \<and>
       (\<exists>st1. ddc_set_nontable_vcp_value (example_vcp_env nvidia_driver) 0x10 50 (example_vcp ()) = Some (None, st1) \<and>
          (case newval of
             None \<Rightarrow> not_reread 0x10 None
           | Some w \<Rightarrow> \<exists>st3 r.
               ddc_get_vcp_value (example_vcp_env nvidia_driver) 0x10 DDCA_NON_TABLE_VCP_VALUE st3 = Some (None, Some w, st') \<and>
               vcp_reply (example_vcp_env nvidia_driver) 0x10 r \<and> rsl r = 50))"
proof -
  let ?v = "create_cont_vcp_value 0x10 100 50"
  have v: "val ?v = C_nc \<lparr>c_mh = 0, c_ml = 100, c_sh = 0, c_sl = 50\<rparr>" "opcode ?v = 0x10"
    by (simp_all add: create_cont_vcp_value_def byte_of_def byte_of_shr8_def)
  have f: "fst (ddc_get_verify_setvcp (example_vcp_env nvidia_driver) (example_vcp ()))"
    by (simp add: ddc_get_verify_setvcp_def get_thread_vcp_settings_def example_vcp_def example_vcp_env_def)
  have u: "\<not> unreadable_value ?v" by (simp add: unreadable_value_def v is_unreadable_sl_value_def)
  have n: "VALREC_CUR_VAL \<lparr>c_mh = 0, c_ml = 100, c_sh = 0, c_sl = 50\<rparr> = 50" by (simp add: VALREC_CUR_VAL_def hi_lo_def)
  have d: "dref_dfr (dref_definition (example_vcp ())) = None" by (simp add: example_vcp_def)
  from written_value_is_verified [OF example_vcp_env_ok [OF nvidia_driver_ok] example_vcp_ok v(1) f]
  show ?thesis unfolding n v(2) d by (auto simp: u split: option.splits)
qed

text \<open>C32 (verified_set_never_verifies): The function that the command setvcp, the loading of settings and
  the API use to set and verify a value never reads it back when verification is on and the
  feature can be read again: it makes a single write, returns the error of that write only,
  and no value. A display that kept its old value is not noticed.
\<close>

theorem verified_set_never_verifies:
  assumes "vcp_env_ok env" "vcp_ok st" "val vrec = C_nc v" "0 < max_setvcp_verify_tries env"
    and "ddc_get_verify_setvcp env st = (True, st1)"
    and "is_rereadable_feature env (opcode vrec) st1 = Some (True, st2)"
    and "\<not> is_unreadable_sl_value (opcode vrec) (c_sl v)"
  shows "ddc_set_verified_vcp_value_with_retry env vrec st =
    map_option (\<lambda>(err, st'). (err, None, st')) (ddc_set_nontable_vcp_value env (opcode vrec) (VALREC_CUR_VAL v) st2)"
proof -
  obtain n where n: "max_setvcp_verify_tries env = Suc n" using assms(4) by (cases "max_setvcp_verify_tries env") auto
  have ok1: "vcp_ok st1" using assms(2,5)
    by (auto simp: ddc_get_verify_setvcp_def get_thread_vcp_settings_def vcp_ok_def split: option.splits)
  have ok2: "vcp_ok st2"
    using rereadable_good [where c = "opcode vrec", OF assms(1) ok1] assms(6) version_next_ok [OF _ ok1] by auto
  have t: "value_type vrec = DDCA_NON_TABLE_VCP_VALUE" using assms(3) by (simp add: value_type_def)
  note w = set_nontable_good [where c = "opcode vrec" and n = "VALREC_CUR_VAL v", OF assms(1) ok2]
  show ?thesis
  proof (cases "ddc_set_nontable_vcp_value env (opcode vrec) (VALREC_CUR_VAL v) st2")
    case None
    then show ?thesis using assms by (simp add: ddc_set_verified_vcp_value_with_retry_def t n)
  next
    case (Some x)
    obtain err st3 where x: "x = (err, st3)" by (cases x)
    have "\<forall>e. err = Some e \<longrightarrow> status_code e \<noteq> DDCRC_VERIFY" using w Some x by auto
    then show ?thesis using assms Some x
      by (cases err) (simp_all add: ddc_set_verified_vcp_value_with_retry_def t n)
  qed
qed

lemma feature_10_readable:
  "map_option (map_option (\<lambda>m. flag_set (version_feature_flags m) DDCA_READABLE))
     (dyn_get_feature_metadata_by_dfr_and_vspec_dfm 0x10 None DDCA_VSPEC_V21 False) = Some (Some True)"
  by code_simp

theorem verified_set_never_verifies_witness:
  "ddc_set_verified_vcp_value_with_retry (example_vcp_env nvidia_driver) (create_cont_vcp_value 0x10 100 50) (example_vcp ()) =
     map_option (\<lambda>(err, st'). (err, None, st'))
       (ddc_set_nontable_vcp_value (example_vcp_env nvidia_driver) 0x10 50
          ((example_vcp ())\<lparr>thread_vcp_settings := Some True\<rparr>))"
proof -
  let ?env = "example_vcp_env nvidia_driver" and ?v = "create_cont_vcp_value 0x10 100 50"
  let ?st1 = "(example_vcp ())\<lparr>thread_vcp_settings := Some True\<rparr>"
  have v: "val ?v = C_nc \<lparr>c_mh = 0, c_ml = 100, c_sh = 0, c_sl = 50\<rparr>" "opcode ?v = 0x10"
    by (simp_all add: create_cont_vcp_value_def byte_of_def byte_of_shr8_def)
  have f: "ddc_get_verify_setvcp ?env (example_vcp ()) = (True, ?st1)"
    by (simp add: ddc_get_verify_setvcp_def get_thread_vcp_settings_def example_vcp_def example_vcp_env_def)
  have n: "VALREC_CUR_VAL \<lparr>c_mh = 0, c_ml = 100, c_sh = 0, c_sl = 50\<rparr> = 50" by (simp add: VALREC_CUR_VAL_def hi_lo_def)
  have ver: "get_saved_vcp_version ?st1 = DDCA_VSPEC_V21"
    by (simp add: get_saved_vcp_version_def get_overriding_vcp_version_def example_vcp_def vcp_version_is_valid_def
        vcp_version_eq_iff Let_def vspec_defs)
  obtain m where m: "dyn_get_feature_metadata_by_dfr_and_vspec_dfm 0x10 None DDCA_VSPEC_V21 False = Some (Some m)"
      "flag_set (version_feature_flags m) DDCA_READABLE"
    using feature_10_readable by auto
  have r: "is_rereadable_feature ?env (opcode ?v) ?st1 = Some (True, ?st1)"
    using m unfolding v(2)
    by (simp add: is_rereadable_feature_def dyn_get_feature_metadata_by_dh_def get_vcp_version_by_dh_def ver
        vcp_version_eq_iff vspec_defs)
      (simp add: example_vcp_def vspec_defs)
  have t: "0 < max_setvcp_verify_tries ?env" by (simp add: example_vcp_env_def)
  have u: "\<not> is_unreadable_sl_value (opcode ?v) (c_sl \<lparr>c_mh = 0, c_ml = 100, c_sh = 0, c_sl = 50\<rparr>)"
    by (simp add: v is_unreadable_sl_value_def)
  from verified_set_never_verifies [OF example_vcp_env_ok [OF nvidia_driver_ok] example_vcp_ok v(1) t f r u]
  show ?thesis unfolding n v(2) .
qed

end
