(* ===== verification/Initial_Checks.thy ===== *)
theory Initial_Checks
  imports Vcp_Access
begin

text \<open>
  The checks made when a display is found, \<^verbatim>\<open>src/src/ddc/ddc_initial_checks.c\<close>: does it talk DDC,
  how does it say that a feature is not supported, and what is its version of MCCS. Messages, and the
  exploration of the monitor state that a debugging option asks for, are left out.
\<close>

section \<open>State\<close>

text \<open>
  What the checks depend on besides the device. The text of the last communication error is kept as the
  error it is made from; \<open>Some None\<close> is the text for no error.
\<close>

record 'w Check_Env =
  vcp_env :: "'w Vcp_Env"
  display_edid :: Parsed_Edid
  I2C_BUS_LVDS_OR_EDP :: bool
  i2c_force_bus :: bool
  ddc_never_uses_null_response_for_unsupported :: bool
  enable_write_detect_to_status :: bool
  connector_driver :: "string \<Rightarrow> string option"
  write_detect :: "string \<Rightarrow> 'w \<Rightarrow> (int + unit) \<times> 'w"

record 'w Check_State =
  dh :: "'w Vcp_State"
  communication_error_summary :: "Error_Info option option"

definition ERRINFO_STATUS :: "Error_Info option \<Rightarrow> int" where
  "ERRINFO_STATUS erec = (case erec of None \<Rightarrow> 0 | Some e \<Rightarrow> status_code e)"

definition set_dynamic_sleep :: "bool \<Rightarrow> 'w Vcp_State \<Rightarrow> 'w Vcp_State" where
  "set_dynamic_sleep onoff st =
     st\<lparr>ddc := (ddc st)\<lparr>display_pdd := snd (pdd_set_dynamic_sleep_active onoff (display_pdd (ddc st)))\<rparr>\<rparr>"

definition pdd_is_dynamic_sleep_active :: "'w Vcp_State \<Rightarrow> bool" where
  "pdd_is_dynamic_sleep_active st = dynamic_sleep_active (display_pdd (ddc st))"

definition value_bytes_zero_for_nontable_value :: "Parsed_Nontable_Vcp_Response \<Rightarrow> bool" where
  "value_bytes_zero_for_nontable_value valrec \<longleftrightarrow> rmh valrec = 0 \<and> rml valrec = 0 \<and> rsh valrec = 0 \<and> rsl valrec = 0"

section \<open>Features that are not supported\<close>

text \<open>From the label \<^verbatim>\<open>retry\<close>, with the passes left: the error, whether dynamic sleep was turned off, and the state.\<close>

fun retry_unsupported_feature ::
    "'w Vcp_Env \<Rightarrow> byte \<Rightarrow> nat \<Rightarrow> Error_Info option \<Rightarrow> Parsed_Nontable_Vcp_Response option \<Rightarrow> bool \<Rightarrow> 'w Vcp_State \<Rightarrow>
     (Error_Info option \<times> bool \<times> 'w Vcp_State) option" where
  "retry_unsupported_feature env c 0 ddc_excp response was_active st = None"
| "retry_unsupported_feature env c (Suc n) ddc_excp response was_active st =
     (case ddc_excp of
        None \<Rightarrow> do {
          r \<leftarrow> response;
          Some (if value_bytes_zero_for_nontable_value r
                then (Some (err_new DDCRC_DETERMINED_UNSUPPORTED), was_active,
                      st\<lparr>dflags := (dflags st)\<lparr>DREF_DDC_USES_MH_ML_SH_SL_ZERO_FOR_UNSUPPORTED := True\<rparr>\<rparr>)
                else (None, was_active, st))
        }
      | Some e \<Rightarrow>
          if status_code e = DDCRC_RETRIES
          then if errinfo_all_causes_same_status ddc_excp DDCRC_NULL_RESPONSE
               then Some (Some (err_new DDCRC_ALL_RESPONSES_NULL), was_active,
                          st\<lparr>dflags := (dflags st)\<lparr>DREF_DDC_USES_NULL_RESPONSE_FOR_UNSUPPORTED := True\<rparr>\<rparr>)
               else if pdd_is_dynamic_sleep_active st
               then do {
                 let st = set_dynamic_sleep False st;
                 (ddc_excp, response, st) \<leftarrow> ddc_get_nontable_vcp_value env c st;
                 retry_unsupported_feature env c n ddc_excp response True st
               }
               else Some (ddc_excp, was_active, st)
          else Some (ddc_excp, was_active, st))"

definition read_unsupported_feature ::
    "'w Vcp_Env \<Rightarrow> byte \<Rightarrow> 'w Vcp_State \<Rightarrow> (Error_Info option \<times> 'w Vcp_State) option" where
  "read_unsupported_feature env c st = do {
     m \<leftarrow> pdd_get_adjusted_sleep_multiplier (dsa2_state (ddc st)) (display_pdd (ddc st));
     let st = st\<lparr>dh_testing_unsupported_feature_active := True\<rparr>;
     (ddc_excp, response, st) \<leftarrow> ddc_get_nontable_vcp_value env c st;
     (ddc_excp, dynamic_sleep_was_active, st) \<leftarrow>
       retry_unsupported_feature env c 2 ddc_excp response False st;
     let st = (if dynamic_sleep_was_active then set_dynamic_sleep True st else st);
     Some (ddc_excp, st\<lparr>dh_testing_unsupported_feature_active := False\<rparr>)
   }"

text \<open>The flags for the status with which the last of these reads ended.\<close>

definition note_how_unsupported :: "'w Check_Env \<Rightarrow> int \<Rightarrow> Dref_Flags \<Rightarrow> Dref_Flags" where
  "note_how_unsupported env rc fl =
     (if rc = 0 then fl\<lparr>DREF_DDC_DOES_NOT_INDICATE_UNSUPPORTED := True\<rparr>
      else if rc = DDCRC_RETRIES then fl\<lparr>DREF_DDC_USES_DDC_FLAG_FOR_UNSUPPORTED := True\<rparr>
      else if rc = DDCRC_DETERMINED_UNSUPPORTED then fl
      else if rc = DDCRC_REPORTED_UNSUPPORTED then fl\<lparr>DREF_DDC_USES_DDC_FLAG_FOR_UNSUPPORTED := True\<rparr>
      else if (rc = DDCRC_NULL_RESPONSE \<or> rc = DDCRC_ALL_RESPONSES_NULL) \<and>
              \<not> ddc_never_uses_null_response_for_unsupported env
      then fl\<lparr>DREF_DDC_USES_NULL_RESPONSE_FOR_UNSUPPORTED := True\<rparr>
      else fl)"

definition check_how_unsupported_reported :: "'w Check_Env \<Rightarrow> 'w Vcp_State \<Rightarrow> 'w Vcp_State option" where
  "check_how_unsupported_reported env st = do {
     (erec, st) \<leftarrow> read_unsupported_feature (vcp_env env) 0xdd st;
     (erec, st) \<leftarrow>
       (if (erec = None \<or> ERRINFO_STATUS erec = DDCRC_RETRIES) \<and> is_input_digital (display_edid env)
        then read_unsupported_feature (vcp_env env) 0x41 st else Some (erec, st));
     (erec, st) \<leftarrow>
       (if erec = None \<or> ERRINFO_STATUS erec = DDCRC_RETRIES
        then read_unsupported_feature (vcp_env env) 0x00 st else Some (erec, st));
     let fl = note_how_unsupported env (ERRINFO_STATUS erec) (dflags st);
     Some (st\<lparr>dflags := fl\<lparr>DREF_UNSUPPORTED_CHECKED := True\<rparr>\<rparr>)
   }"

section \<open>A feature that is supported\<close>

text \<open>The error, the value of the feature, and the state.\<close>

definition check_supported_feature ::
    "'w Vcp_Env \<Rightarrow> bool \<Rightarrow> byte \<Rightarrow> 'w Check_State \<Rightarrow> (Error_Info option \<times> nat \<times> 'w Check_State) option" where
  "check_supported_feature env newly_added c st = do {
     initial_multiplier \<leftarrow>
       pdd_get_adjusted_sleep_multiplier (dsa2_state (ddc (dh st))) (display_pdd (ddc (dh st)));
     (ddc_excp, response, h) \<leftarrow> ddc_get_nontable_vcp_value env c (dh st);
     let st = st\<lparr>dh := h\<rparr>;
     (case ddc_excp of
        None \<Rightarrow> do { r \<leftarrow> response; Some (None, hi_lo (rsh r) (rsl r), st) }
      | Some e \<Rightarrow> do {
          let st = st\<lparr>communication_error_summary := Some (Some e)\<rparr>;
          let active = pdd_is_dynamic_sleep_active (dh st);
          (if status_code e \<noteq> DDCRC_DISCONNECTED \<and>
              (newly_added \<or> status_code e = DDCRC_RETRIES \<and> active \<and> initial_multiplier < 1)
           then do {
             let st = (if newly_added then st\<lparr>dh := (dh st)\<lparr>ddc := advance 1000 (ddc (dh st))\<rparr>\<rparr> else st);
             (if active
              then do {
                (ddc_excp, response, h) \<leftarrow> ddc_get_nontable_vcp_value env 0x10 (set_dynamic_sleep False (dh st));
                let st = st\<lparr>dh := h, communication_error_summary := Some ddc_excp\<rparr>;
                (case ddc_excp of
                   None \<Rightarrow> do { r \<leftarrow> response; Some (None, hi_lo (rsh r) (rsl r), st) }
                 | Some _ \<Rightarrow> Some (ddc_excp, 0, st))
              }
              else Some (ddc_excp, 0, st))
           }
           else Some (ddc_excp, 0, st))
        })
   }"

section \<open>The checks\<close>

definition no_dref_flags :: Dref_Flags where
  "no_dref_flags =
     \<lparr>DREF_DDC_COMMUNICATION_CHECKED = False, DREF_DDC_COMMUNICATION_WORKING = False,
      DREF_DDC_IS_MONITOR_CHECKED = False, DREF_DDC_IS_MONITOR = False, DREF_UNSUPPORTED_CHECKED = False,
      DREF_DDC_USES_NULL_RESPONSE_FOR_UNSUPPORTED = False,
      DREF_DDC_USES_MH_ML_SH_SL_ZERO_FOR_UNSUPPORTED = False, DREF_DDC_USES_DDC_FLAG_FOR_UNSUPPORTED = False,
      DREF_DDC_DOES_NOT_INDICATE_UNSUPPORTED = False, DREF_OPEN = False, DREF_DDC_BUSY = False,
      DREF_REMOVED = False, DREF_DDC_DISABLED = False\<rparr>"

text \<open>
  The flags for the status of the read of feature 10. \<^verbatim>\<open>dref->flags = DREF_REMOVED\<close> clears all other
  flags, also the one for user-defined features, which is in the record of the definition.
\<close>

definition note_communication :: "int \<Rightarrow> 'w Vcp_State \<Rightarrow> 'w Vcp_State" where
  "note_communication rc st =
     (let st = (if rc = 0 \<or> rc = DDCRC_REPORTED_UNSUPPORTED \<or> rc = DDCRC_DETERMINED_UNSUPPORTED
                then st\<lparr>dflags := (dflags st)\<lparr>DREF_DDC_COMMUNICATION_WORKING := True\<rparr>\<rparr>
                else if rc = DDCRC_DISCONNECTED
                then st\<lparr>dflags := no_dref_flags\<lparr>DREF_REMOVED := True\<rparr>,
                        dref_definition := (dref_definition st)\<lparr>DREF_DYNAMIC_FEATURES_CHECKED := False\<rparr>\<rparr>
                else if rc = - EBUSY then st\<lparr>dflags := (dflags st)\<lparr>DREF_DDC_BUSY := True\<rparr>\<rparr>
                else st)
      in if rc \<noteq> - EBUSY then st\<lparr>dflags := (dflags st)\<lparr>DREF_DDC_COMMUNICATION_CHECKED := True\<rparr>\<rparr> else st)"

text \<open>
  Of \<^verbatim>\<open>src/src/sysfs/sysfs_base.c\<close>: with the option on, and with the driver of nvidia, the word detect is written
  to the status file of the connector, to make the driver look at it again.
\<close>

definition possibly_write_detect_to_status_by_connector_name :: "'w Check_Env \<Rightarrow> string \<Rightarrow> 'w Io \<Rightarrow> 'w Io" where
  "possibly_write_detect_to_status_by_connector_name env connector io =
     (if enable_write_detect_to_status env \<and> connector_driver env connector = Some ''nvidia''
      then snd (syscall (write_detect env connector) io) else io)"

definition refresh_connector :: "'w Check_Env \<Rightarrow> 'w Vcp_State \<Rightarrow> 'w Vcp_State" where
  "refresh_connector env st =
     (case drm_connector_name (bus_info (ddc st)) of
        None \<Rightarrow> st
      | Some name \<Rightarrow>
          st\<lparr>ddc := (ddc st)\<lparr>io_state :=
            possibly_write_detect_to_status_by_connector_name env name (io_state (ddc st))\<rparr>\<rparr>)"

definition check_communication ::
    "'w Check_Env \<Rightarrow> bool \<Rightarrow> 'w Check_State \<Rightarrow> (Error_Info option \<times> 'w Check_State) option" where
  "check_communication env newly_added st = do {
     c_assert (drm_connector_checked (bus_info (ddc (dh st))));
     let st = st\<lparr>dh := refresh_connector env (dh st)\<rparr>;
     (if I2C_BUS_LVDS_OR_EDP env \<or> \<not> bus_addr_x37 (bus_info (ddc (dh st)))
      then Some (None, st\<lparr>dh := (dh st)\<lparr>dflags := (dflags (dh st))\<lparr>DREF_DDC_COMMUNICATION_CHECKED := True\<rparr>\<rparr>\<rparr>)
      else do {
        (ddc_excp, shsl, st) \<leftarrow> check_supported_feature (vcp_env env) newly_added 0x10 st;
        let st = st\<lparr>dh := note_communication (ERRINFO_STATUS ddc_excp) (dh st)\<rparr>;
        (if DREF_DDC_COMMUNICATION_WORKING (dflags (dh st))
         then do {
           h \<leftarrow> check_how_unsupported_reported env (dh st);
           let h = (if i2c_force_bus env
                    then h\<lparr>dflags := (dflags h)\<lparr>DREF_DDC_COMMUNICATION_WORKING := True,
                                              DREF_DDC_USES_DDC_FLAG_FOR_UNSUPPORTED := True\<rparr>\<rparr> else h);
           Some (ddc_excp, st\<lparr>dh := h\<rparr>)
         }
         else Some (ddc_excp, st))
      })
   }"

definition ddc_initial_checks_by_dh ::
    "'w Check_Env \<Rightarrow> bool \<Rightarrow> 'w Check_State \<Rightarrow> (Error_Info option \<times> 'w Check_State) option" where
  "ddc_initial_checks_by_dh env newly_added st = do {
     let saved_dynamic_sleep_active = pdd_is_dynamic_sleep_active (dh st);
     (ddc_excp, st) \<leftarrow>
       (if \<not> DREF_DDC_COMMUNICATION_CHECKED (dflags (dh st)) then check_communication env newly_added st
        else Some (None, st));
     h \<leftarrow>
       (if DREF_DDC_COMMUNICATION_WORKING (dflags (dh st)) \<and>
           vcp_version_eq (vcp_version_xdf (dh st)) DDCA_VSPEC_UNQUERIED
        then do { (_, h) \<leftarrow> set_vcp_version_xdf_by_dh (vcp_env env) (dh st); Some h }
        else Some (dh st));
     Some (ddc_excp, st\<lparr>dh := set_dynamic_sleep saved_dynamic_sleep_active h\<rparr>)
   }"

section \<open>Dynamic sleep is turned on and off by these checks only\<close>

text \<open>An operation on the state of the display leaves the flag for dynamic sleep as it was.\<close>

abbreviation same_sleep :: "'w Ddc_State \<Rightarrow> 'w Ddc_State \<Rightarrow> bool" where
  "same_sleep st st' \<equiv> dynamic_sleep_active (display_pdd st') = dynamic_sleep_active (display_pdd st)"

lemma advance_sleep [simp]: "same_sleep st (advance n st)"
  by (simp add: advance_def)

lemma deferred_sleep_same [simp]: "same_sleep st (CHECK_DEFERRED_SLEEP st)"
  by (auto simp: CHECK_DEFERRED_SLEEP_def check_deferred_sleep_def advance_def Let_def split: prod.splits if_splits)

lemma tuned_sleep_same:
  "SPECIAL_TUNED_SLEEP_WITH_TRACE env ev sp st = Some st' \<Longrightarrow> same_sleep st st'"
  by (auto simp: SPECIAL_TUNED_SLEEP_WITH_TRACE_def tuned_sleep_with_trace_def advance_def Let_def
      split: Option.bind_splits prod.splits if_splits)

lemma write_packet_same: "write_packet env p st = Some (rc, st') \<Longrightarrow> same_sleep st st'"
  by (auto simp: write_packet_def split: Option.bind_splits)

lemma read_bytes_same: "read_bytes env b n buf st = Some (rc, buf', st') \<Longrightarrow> same_sleep st st'"
  by (auto simp: read_bytes_def split: Option.bind_splits)

lemma write_read_raw_same:
  assumes "ddc_i2c_write_read_raw env p b n buf st = Some (rc, buf', st')"
  shows "same_sleep st st'"
  using assms
  by (auto simp: ddc_i2c_write_read_raw_def split: Option.bind_splits if_splits
      dest!: write_packet_same tuned_sleep_same read_bytes_same)

lemma write_read_same:
  assumes "ddc_write_read env p b n ty sub st = Some (rc, resp, st')"
  shows "same_sleep st st'"
  using assms unfolding ddc_write_read_def Let_def
  by (auto split: Option.bind_split_asm dest!: write_read_raw_same)

lemma check_alive_same: "check_alive env rc st = Some (err, st') \<Longrightarrow> same_sleep st st'"
  by (auto simp: check_alive_def split: Option.bind_splits if_splits)

lemma note_failure_same: "note_retryable_failure rc n st = Some st' \<Longrightarrow> same_sleep st st'"
  by (auto simp: note_retryable_failure_def pdd_note_retryable_failure_def split: Option.bind_splits if_splits
      dest!: record_multiplier_fields)

lemma record_final_same: "record_final rc n st = Some st' \<Longrightarrow> same_sleep st st'"
  by (auto simp: record_final_def pdd_record_final_def split: Option.bind_splits if_splits
      dest!: record_multiplier_fields)

lemma record_tries_same: "record_tries op rc n st = Some st' \<Longrightarrow> same_sleep st st'"
  by (auto simp: record_tries_def split: Option.bind_splits)

lemma try_once_same:
  assumes "try_once env p n ty sub flags k v st = Some (r, st')"
  shows "same_sleep st st'"
  using assms unfolding try_once_def Let_def
  by (auto split: Option.bind_split_asm option.splits if_splits
      dest!: write_read_same check_alive_same note_failure_same)

lemma try_loop_same:
  "try_loop env p n ty sub flags k m v resp st = Some (r, st') \<Longrightarrow> same_sleep st st'"
proof (induction m arbitrary: v resp st)
  case (Suc m)
  show ?case
  proof (cases "psc v < 0 \<and> retryable v")
    case True
    with Suc.prems obtain r1 st1 where t: "try_once env p n ty sub flags k v st = Some (r1, st1)"
      by (auto split: Option.bind_split_asm)
    show ?thesis
      using Suc.prems Suc.IH True t try_once_same [OF t] by (cases r1) auto
  next
    case False
    then show ?thesis using Suc.prems by auto
  qed
qed simp

lemma finish_same: "finish_write_read env ty flags k v st = Some (err, st') \<Longrightarrow> same_sleep st st'"
  unfolding finish_write_read_def Let_def
  by (auto split: Option.bind_split_asm dest!: record_final_same record_tries_same)

lemma exchange_same:
  assumes "ddc_write_read_with_retry env p n ty sub flags st = Some (err, resp, st')"
  shows "same_sleep st st'"
proof -
  obtain r st1 where l: "try_loop env p n ty sub flags (try_data_get_maxtries2 WRITE_READ_TRIES_OP (try_state st))
      (try_data_get_maxtries2 WRITE_READ_TRIES_OP (try_state st)) initial_vars None st = Some (r, st1)"
    using assms unfolding ddc_write_read_with_retry_def Let_def by (auto split: Option.bind_split_asm)
  show ?thesis
    using assms try_loop_same [OF l] unfolding ddc_write_read_with_retry_def Let_def l
    by (cases r) (auto split: Option.bind_split_asm dest!: finish_same)
qed

lemma get_nontable_same:
  assumes "ddc_get_nontable_vcp_value env c st = Some (excp, resp, st')"
  shows "pdd_is_dynamic_sleep_active st' = pdd_is_dynamic_sleep_active st"
  using assms unfolding ddc_get_nontable_vcp_value_def Let_def pdd_is_dynamic_sleep_active_def
  by (auto split: Option.bind_split_asm option.splits if_splits prod.splits dest!: exchange_same)

section \<open>Reads while testing\<close>

text \<open>While a feature is tested that should not exist, null responses are not counted.\<close>

lemma try_once_null_count:
  assumes "try_once env req n ty sub flags k v st = Some (Inr (v', resp), st')" "testing_unsupported_feature_active env"
  shows "ddcrc_null_response_ct v' = ddcrc_null_response_ct v"
  using assms unfolding try_once_def Let_def
  by (auto simp: classify_error_def split: Option.bind_split_asm option.splits if_splits)

lemma try_loop_null_count:
  assumes "testing_unsupported_feature_active env"
  shows "try_loop env req n ty sub flags k m v resp st = Some (Inr (v', resp'), st') \<Longrightarrow>
    ddcrc_null_response_ct v' = ddcrc_null_response_ct v"
proof (induction m arbitrary: v resp st)
  case (Suc m)
  show ?case
  proof (cases "psc v < 0 \<and> retryable v")
    case True
    with Suc.prems obtain v1 r1 st1 where
      t: "try_once env req n ty sub flags k v st = Some (Inr (v1, r1), st1)"
         "try_loop env req n ty sub flags k m v1 r1 st1 = Some (Inr (v', resp'), st')"
      by (auto split: Option.bind_split_asm sum.splits)
    show ?thesis using Suc.IH [OF t(2)] try_once_null_count [OF t(1) assms] by simp
  next
    case False
    then show ?thesis using Suc.prems by auto
  qed
qed simp

text \<open>The errors of such a read.\<close>

definition test_errors :: "int set" where
  "test_errors = insert DDCRC_RETRIES (hard_errors \<union> bus_errors)"

lemma test_errors_eq:
  "test_errors = {DDCRC_RETRIES, - EIO, - EBADF, - ENXIO, - EBUSY, DDCRC_DISCONNECTED, DDCRC_OTHER, DDCRC_DPMS_ASLEEP}"
  by (auto simp: test_errors_def hard_errors_def bus_errors_def)

lemma finish_test_error:
  assumes "finish_write_read env ty Write_Read_Flags_None k v st = Some (Some x, st')"
    and "failed_vars Write_Read_Flags_None v" "ddcrc_null_response_ct v = 0" "tryctr v \<le> k"
  shows "status_code x \<in> test_errors"
proof -
  have p: "psc v < 0" "0 < tryctr v"
    using assms(1,2) by (auto simp: finish_write_read_def failed_vars_def c_assert_def split: Option.bind_splits if_splits)
  have s: "status_code x = final_status k False v"
    using assms(1,3) p by (auto simp: finish_write_read_def Let_def split: Option.bind_splits)
  have h: "\<not> retryable v \<Longrightarrow> psc v \<in> hard_errors"
    using assms(2,3) by (auto simp: failed_vars_def Write_Read_Flags_None_def)
  have ne: "try_errors v \<noteq> []" and l: "last (try_errors v) = psc v" "length (try_errors v) = tryctr v"
    using assms(2) p(2) by (auto simp: failed_vars_def)
  have "psc v \<in> hard_errors \<Longrightarrow> ddcrc_read_all_zero_ct v < k"
    using count_list_last [OF ne, of DDCRC_READ_ALL_ZERO] l assms(2,4)
    by (auto simp: failed_vars_def hard_errors_def)
  then show ?thesis using h s assms(3) by (auto simp: final_status_def test_errors_def)
qed

lemma testing_exchange_error:
  assumes e: "env_ok env" and st: "ddc_ok st" and req: "request_ok req" and n: "38 \<le> n" and ty: "known_type ty"
    and t: "testing_unsupported_feature_active env"
    and x: "ddc_write_read_with_retry env req n ty sub Write_Read_Flags_None st = Some (Some x, resp, st')"
  shows "status_code x \<in> test_errors"
proof -
  let ?max = "limits st ! 1"
  have mx: "try_data_get_maxtries2 WRITE_READ_TRIES_OP (try_state st) = ?max" "1 \<le> ?max"
    using maxtries_limits [OF st, of WRITE_READ_TRIES_OP] limits_range [OF st, of WRITE_READ_TRIES_OP] by simp_all
  from try_loop_good [OF e req n ty st initial_vars_failed, of ?max ?max sub Write_Read_Flags_None] obtain r st1 where
    l: "try_loop env req n ty sub Write_Read_Flags_None ?max ?max initial_vars None st = Some (r, st1)"
       "loop_result_ok env n ty sub Write_Read_Flags_None ?max r"
    by (auto simp: initial_vars_def)
  show ?thesis
  proof (cases r)
    case (Inl err)
    then show ?thesis
      using l mx x by (auto simp: ddc_write_read_with_retry_def loop_result_ok_def test_errors_def split: Option.bind_splits)
  next
    case (Inr q)
    obtain v resp1 where q: "q = (v, resp1)" by force
    have ct: "ddcrc_null_response_ct v = 0"
      using try_loop_null_count [OF t l(1) [unfolded Inr q]] by (simp add: initial_vars_def)
    obtain st2 where f: "finish_write_read env ty Write_Read_Flags_None ?max v st1 = Some (Some x, st2)" "resp1 = None"
      using l(1) mx x Inr q by (auto simp: ddc_write_read_with_retry_def c_assert_def split: Option.bind_splits if_splits)
    show ?thesis
      using finish_test_error [OF f(1) _ ct] l(2) Inr q f(2) by (auto simp: loop_result_ok_def)
  qed
qed

lemma testing_get_error:
  assumes e: "vcp_env_ok env" and st: "vcp_ok st" and t: "dh_testing_unsupported_feature_active st"
    and g: "ddc_get_nontable_vcp_value env c st = Some (Some x, resp, st')"
  shows "status_code x \<in> test_errors \<or>
    status_code x = DDCRC_REPORTED_UNSUPPORTED \<and> (\<exists>r. vcp_reply env c r \<and> \<not> supported_opcode r) \<or>
    status_code x = DDCRC_DETERMINED_UNSUPPORTED \<and> DREF_DDC_USES_MH_ML_SH_SL_ZERO_FOR_UNSUPPORTED (dflags st) \<and>
      (\<exists>r. vcp_reply env c r \<and> value_bytes_zero r)"
proof -
  have ok: "get_error_ok env c st x"
    using get_nontable_good [where fcode = c, OF e st] g by auto
  have m: "mock_get_nontable_vcp_value env c = (None, None)"
    using e by (simp add: mock_get_nontable_vcp_value_def vcp_env_ok_def)
  have d: "ddc_ok (ddc st)" using st by (simp add: vcp_ok_def)
  let ?req = "request_packet 0x51 [DDC_PACKET_TYPE_QUERY_VCP_REQUEST, c] ''ddc_get_nontable_vcp_value:request packet''"
  have q: "create_ddc_getvcp_request_packet c ''ddc_get_nontable_vcp_value:request packet'' = Some ?req"
    by (simp add: create_ddc_getvcp_request_packet_def base_request_eq)
  have n: "38 \<le> (39::nat)" and k: "known_type DDC_PACKET_TYPE_QUERY_VCP_RESPONSE"
    by (simp_all add: known_type_def)
  have q': "request_ok ?req" by (rule request_packet_ok)
  have ta: "testing_unsupported_feature_active (exchange_env env st)" using t by (simp add: exchange_env_def)
  obtain err resp1 d1 where w: "ddc_write_read_with_retry (exchange_env env st) ?req 39 DDC_PACKET_TYPE_QUERY_VCP_RESPONSE c
      Write_Read_Flags_None (ddc st) = Some (err, resp1, d1)"
    using g by (auto simp: ddc_get_nontable_vcp_value_def m q split: Option.bind_splits)
  show ?thesis
  proof (cases err)
    case (Some y)
    have "x = y" using g w Some by (auto simp: ddc_get_nontable_vcp_value_def m q split: Option.bind_splits)
    then show ?thesis
      using testing_exchange_error [OF exchange_env_ok [OF e st] d request_packet_ok n k ta w [unfolded Some]] by blast
  next
    case None
    have p: "\<forall>p. resp1 = Some p \<longrightarrow>
        packet_from_device (exchange_env env st) (39 + 1) DDC_PACKET_TYPE_QUERY_VCP_RESPONSE c p"
      using write_read_with_retry_good [where subtype = c and flags = Write_Read_Flags_None,
        OF exchange_env_ok [OF e st] d q' n k] w by auto
    obtain pk where "resp1 = Some pk"
      using g w None by (auto simp: ddc_get_nontable_vcp_value_def m q c_assert_def split: Option.bind_splits if_splits)
    with p obtain r where r: "get_interpreted_vcp_code pk = Some (DDCRC_OK, Some r)" "vcp_reply env c r"
      using packet_vcp_reply [of env st c pk] by auto
    have "x = err_new (response_error (dflags st) r)" "response_error (dflags st) r \<noteq> 0"
      using g w None \<open>resp1 = Some pk\<close> r(1)
      by (auto simp: Let_def ddc_get_nontable_vcp_value_def m q split: Option.bind_splits if_splits)
    then show ?thesis
      using r(2) vcp_reply_valid [OF r(2)] by (auto simp: response_error_def err_new_def split: if_splits)
  qed
qed

section \<open>How a display says that a feature is not supported\<close>

text \<open>The flags in question, and the state between the checks.\<close>

definition how_flags :: "Dref_Flags \<Rightarrow> bool list" where
  "how_flags fl =
     [DREF_DDC_USES_NULL_RESPONSE_FOR_UNSUPPORTED fl, DREF_DDC_USES_MH_ML_SH_SL_ZERO_FOR_UNSUPPORTED fl,
      DREF_DDC_USES_DDC_FLAG_FOR_UNSUPPORTED fl, DREF_DDC_DOES_NOT_INDICATE_UNSUPPORTED fl]"

definition check_next :: "'w Vcp_State \<Rightarrow> 'w Vcp_State \<Rightarrow> bool" where
  "check_next st st' \<longleftrightarrow>
     ddc_ok (ddc st') \<and> limits (ddc st') = limits (ddc st) \<and>
     dref_dfr (dref_definition st') = dref_dfr (dref_definition st) \<and> vcp_version_xdf st' = vcp_version_xdf st \<and>
     vcp_version_cmdline st' = vcp_version_cmdline st \<and> thread_vcp_settings st' = thread_vcp_settings st"

lemma check_next_trans [trans]: "check_next a b \<Longrightarrow> check_next b c \<Longrightarrow> check_next a c"
  by (simp add: check_next_def)

lemma vcp_next_check:
  "vcp_next st st' \<Longrightarrow> check_next st st' \<and> how_flags (dflags st') = how_flags (dflags st) \<and>
     dh_testing_unsupported_feature_active st' = dh_testing_unsupported_feature_active st"
  by (auto simp: vcp_next_def check_next_def how_flags_def)

lemma check_next_ok:
  "check_next st st' \<Longrightarrow> dfr_ok (dref_dfr (dref_definition st)) \<Longrightarrow>
     \<not> (dh_testing_unsupported_feature_active st' \<and> DREF_DDC_USES_NULL_RESPONSE_FOR_UNSUPPORTED (dflags st')) \<Longrightarrow> vcp_ok st'"
  by (simp add: check_next_def vcp_ok_def)

lemma set_sleep_check:
  "ddc_ok (ddc st) \<Longrightarrow> check_next st (set_dynamic_sleep b st)"
  "dflags (set_dynamic_sleep b st) = dflags st"
  "dh_testing_unsupported_feature_active (set_dynamic_sleep b st) = dh_testing_unsupported_feature_active st"
  "pdd_is_dynamic_sleep_active (set_dynamic_sleep b st) = b"
  by (simp_all add: set_dynamic_sleep_def check_next_def pdd_set_dynamic_sleep_active_def ddc_ok_def pdd_ok_def
      limits_def pdd_is_dynamic_sleep_active_def)

text \<open>What a test of a feature that should not exist can end with, by the flags before and after it.\<close>

definition test_result :: "'w Vcp_Env \<Rightarrow> byte \<Rightarrow> Dref_Flags \<Rightarrow> Dref_Flags \<Rightarrow> Error_Info option \<Rightarrow> bool" where
  "test_result env c fl fl' err \<longleftrightarrow>
     (case err of
        None \<Rightarrow> how_flags fl' = how_flags fl \<and> (\<exists>r. vcp_reply env c r \<and> supported_opcode r \<and> \<not> value_bytes_zero r)
      | Some e \<Rightarrow>
          status_code e \<in> test_errors \<and> how_flags fl' = how_flags fl \<or>
          status_code e = DDCRC_REPORTED_UNSUPPORTED \<and> how_flags fl' = how_flags fl \<and>
            (\<exists>r. vcp_reply env c r \<and> \<not> supported_opcode r) \<or>
          status_code e = DDCRC_DETERMINED_UNSUPPORTED \<and> how_flags fl' = (how_flags fl)[1 := True] \<and>
            (\<exists>r. vcp_reply env c r \<and> value_bytes_zero r) \<or>
          status_code e = DDCRC_ALL_RESPONSES_NULL \<and> how_flags fl' = (how_flags fl)[0 := True])"

lemma status_disjoint:
  "x \<in> test_errors \<Longrightarrow> x \<noteq> 0 \<and> x \<noteq> DDCRC_REPORTED_UNSUPPORTED \<and> x \<noteq> DDCRC_DETERMINED_UNSUPPORTED \<and>
     x \<noteq> DDCRC_ALL_RESPONSES_NULL \<and> x \<noteq> DDCRC_NULL_RESPONSE"
  by (auto simp: test_errors_eq)

text \<open>One read, and what the code after the label makes of it.\<close>

lemma testing_read:
  assumes e: "vcp_env_ok env" and st: "vcp_ok st" and t: "dh_testing_unsupported_feature_active st"
  obtains excp resp st' where "ddc_get_nontable_vcp_value env c st = Some (excp, resp, st')"
    "check_next st st'" "how_flags (dflags st') = how_flags (dflags st)" "dh_testing_unsupported_feature_active st'"
    "pdd_is_dynamic_sleep_active st' = pdd_is_dynamic_sleep_active st"
    "excp = None \<longleftrightarrow> resp \<noteq> None"
    "\<And>r. resp = Some r \<Longrightarrow> vcp_reply env c r \<and> supported_opcode r"
    "\<And>x. excp = Some x \<Longrightarrow> test_result env c (dflags st) (dflags st') (Some x)"
proof -
  obtain excp resp st' where g: "ddc_get_nontable_vcp_value env c st = Some (excp, resp, st')" "vcp_next st st'"
      "excp = None \<longleftrightarrow> resp \<noteq> None" "\<forall>r. resp = Some r \<longrightarrow> vcp_reply env c r \<and> supported_opcode r"
    using get_nontable_good [where fcode = c, OF e st] by blast
  have n: "check_next st st'" "how_flags (dflags st') = how_flags (dflags st)" "dh_testing_unsupported_feature_active st'"
    using vcp_next_check [OF g(2)] t by auto
  have "test_result env c (dflags st) (dflags st') (Some x)" if "excp = Some x" for x
    using testing_get_error [OF e st t g(1) [unfolded that]] n(2)
    by (auto simp: test_result_def how_flags_def)
  then show thesis using that [OF g(1) n get_nontable_same [OF g(1)] g(3)] g(4) by blast
qed

lemma test_result_how:
  "how_flags fl = how_flags fl0 \<Longrightarrow> test_result env c fl fl' err = test_result env c fl0 fl' err"
  by (cases err) (simp_all add: test_result_def)

lemma retry_pass:
  assumes "ddc_ok (ddc st)" "excp = None \<longleftrightarrow> resp \<noteq> None"
    and r: "\<And>r. resp = Some r \<Longrightarrow> vcp_reply env c r \<and> supported_opcode r"
    and x: "\<And>x. excp = Some x \<Longrightarrow> test_result env c (dflags st) (dflags st) (Some x)"
  shows "(\<exists>err st'. retry_unsupported_feature env c (Suc n) excp resp was st = Some (err, was, st') \<and>
      check_next st st' \<and> test_result env c (dflags st) (dflags st') err \<and>
      pdd_is_dynamic_sleep_active st' = pdd_is_dynamic_sleep_active st) \<or>
    (pdd_is_dynamic_sleep_active st \<and>
      retry_unsupported_feature env c (Suc n) excp resp was st = do {
        (excp, resp, st) \<leftarrow> ddc_get_nontable_vcp_value env c (set_dynamic_sleep False st);
        retry_unsupported_feature env c n excp resp True st
      })"
proof -
  have c: "check_next st (st\<lparr>dflags := fl\<rparr>)" for fl using assms(1) by (simp add: check_next_def)
  have p: "pdd_is_dynamic_sleep_active (st\<lparr>dflags := fl\<rparr>) = pdd_is_dynamic_sleep_active st" for fl
    by (simp add: pdd_is_dynamic_sleep_active_def)
  show ?thesis
  proof (cases excp)
    case None
    then obtain w where w: "resp = Some w" using assms(2) by auto
    have z: "value_bytes_zero_for_nontable_value w = value_bytes_zero w"
      by (simp add: value_bytes_zero_for_nontable_value_def value_bytes_zero_def)
    show ?thesis
      using None w r [OF w] c [of "dflags st"] c p z
      by (cases "value_bytes_zero w") (auto simp: test_result_def how_flags_def err_new_def)
  next
    case (Some e)
    then show ?thesis
      using x [OF Some] c [of "dflags st"] c p
      by (auto simp: test_result_def how_flags_def err_new_def Let_def)
  qed
qed

lemma read_unsupported_good:
  assumes e: "vcp_env_ok env" and st: "vcp_ok st" "\<not> DREF_DDC_USES_NULL_RESPONSE_FOR_UNSUPPORTED (dflags st)"
  shows "\<exists>err st'. read_unsupported_feature env c st = Some (err, st') \<and> check_next st st' \<and>
    test_result env c (dflags st) (dflags st') err \<and> \<not> dh_testing_unsupported_feature_active st' \<and>
    pdd_is_dynamic_sleep_active st' = pdd_is_dynamic_sleep_active st"
proof -
  let ?s = "st\<lparr>dh_testing_unsupported_feature_active := True\<rparr>"
  have d: "dfr_ok (dref_dfr (dref_definition st))" and o: "ddc_ok (ddc st)" using st by (simp_all add: vcp_ok_def)
  have s: "vcp_ok ?s" "check_next st ?s" using st by (simp_all add: vcp_ok_def check_next_def)
  have sp: "pdd_is_dynamic_sleep_active ?s = pdd_is_dynamic_sleep_active st" by (simp add: pdd_is_dynamic_sleep_active_def)
  obtain m where m: "pdd_get_adjusted_sleep_multiplier (dsa2_state (ddc st)) (display_pdd (ddc st)) = Some m"
    using get_mult_Some o by (auto simp: ddc_ok_def)
  obtain excp resp st1 where g: "ddc_get_nontable_vcp_value env c ?s = Some (excp, resp, st1)"
    "check_next ?s st1" "how_flags (dflags st1) = how_flags (dflags ?s)" "dh_testing_unsupported_feature_active st1"
    "pdd_is_dynamic_sleep_active st1 = pdd_is_dynamic_sleep_active ?s" "excp = None \<longleftrightarrow> resp \<noteq> None"
    "\<And>r. resp = Some r \<Longrightarrow> vcp_reply env c r \<and> supported_opcode r"
    "\<And>x. excp = Some x \<Longrightarrow> test_result env c (dflags ?s) (dflags st1) (Some x)"
    by (rule testing_read [where c = c, OF e s(1)]) auto
  have n1: "check_next st st1" using check_next_trans [OF s(2) g(2)] .
  have o1: "ddc_ok (ddc st1)" using n1 by (simp add: check_next_def)
  have f1: "how_flags (dflags st1) = how_flags (dflags st)" using g(3) by simp
  have fin: ?thesis if "read_unsupported_feature env c st =
        Some (err, st'\<lparr>dh_testing_unsupported_feature_active := False\<rparr>)" "check_next st1 st'"
      "test_result env c (dflags st1) (dflags st') err" "pdd_is_dynamic_sleep_active st' = pdd_is_dynamic_sleep_active st"
    for err st'
  proof -
    have "check_next st (st'\<lparr>dh_testing_unsupported_feature_active := False\<rparr>)"
      using check_next_trans [OF n1 that(2)] by (simp add: check_next_def)
    then show ?thesis
      using that f1 test_result_how [of "dflags st1" "dflags st" env c] by (auto simp: pdd_is_dynamic_sleep_active_def)
  qed
  have x1: "test_result env c (dflags st1) (dflags st1) (Some x)" if "excp = Some x" for x
    using g(8) [OF that] test_result_how [OF f1, of env c] by simp
  from retry_pass [where n = 1 and was = False, OF o1 g(6,7) x1]
  consider (one) err st2 where "retry_unsupported_feature env c (Suc 1) excp resp False st1 = Some (err, False, st2)"
      "check_next st1 st2" "test_result env c (dflags st1) (dflags st2) err"
      "pdd_is_dynamic_sleep_active st2 = pdd_is_dynamic_sleep_active st1"
    | (again) "pdd_is_dynamic_sleep_active st1"
      "retry_unsupported_feature env c (Suc 1) excp resp False st1 = do {
        (excp, resp, st) \<leftarrow> ddc_get_nontable_vcp_value env c (set_dynamic_sleep False st1);
        retry_unsupported_feature env c 1 excp resp True st
      }" by blast
  then show ?thesis
  proof cases
    case one
    then show ?thesis
      using g(1,5) m sp by (intro fin [of err st2]) (simp_all add: read_unsupported_feature_def numeral_2_eq_2)
  next
    case again
    let ?t = "set_dynamic_sleep False st1"
    have nu: "\<not> DREF_DDC_USES_NULL_RESPONSE_FOR_UNSUPPORTED (dflags st1)" using f1 st(2) by (simp add: how_flags_def)
    have nt: "check_next st1 ?t" by (rule set_sleep_check(1) [OF o1])
    have t: "vcp_ok ?t" "dh_testing_unsupported_feature_active ?t"
      using check_next_trans [OF n1 nt] d nu g(4) by (auto simp: vcp_ok_def check_next_def set_sleep_check)
    obtain excp2 resp2 st2 where h: "ddc_get_nontable_vcp_value env c ?t = Some (excp2, resp2, st2)"
      "check_next ?t st2" "how_flags (dflags st2) = how_flags (dflags ?t)" "dh_testing_unsupported_feature_active st2"
      "pdd_is_dynamic_sleep_active st2 = pdd_is_dynamic_sleep_active ?t" "excp2 = None \<longleftrightarrow> resp2 \<noteq> None"
      "\<And>r. resp2 = Some r \<Longrightarrow> vcp_reply env c r \<and> supported_opcode r"
      "\<And>x. excp2 = Some x \<Longrightarrow> test_result env c (dflags ?t) (dflags st2) (Some x)"
      by (rule testing_read [where c = c, OF e t]) auto
    have o2: "ddc_ok (ddc st2)" using h(2) by (simp add: check_next_def)
    have x2: "test_result env c (dflags st2) (dflags st2) (Some x)" if "excp2 = Some x" for x
      using h(8) [OF that] test_result_how [OF h(3), of env c] by simp
    have "\<not> pdd_is_dynamic_sleep_active st2" using h(5) by (simp add: set_sleep_check)
    with retry_pass [where n = 0 and was = True, OF o2 h(6,7) x2] obtain err st3 where
      r: "retry_unsupported_feature env c (Suc 0) excp2 resp2 True st2 = Some (err, True, st3)"
        "check_next st2 st3" "test_result env c (dflags st2) (dflags st3) err" by blast
    have o3: "ddc_ok (ddc st3)" using r(2) by (simp add: check_next_def)
    have "test_result env c (dflags st1) (dflags st3) err"
      using r(3) h(3) test_result_how [of "dflags st2" "dflags st1" env c] by (simp add: set_sleep_check)
    moreover have "check_next st1 (set_dynamic_sleep True st3)"
      using check_next_trans [OF nt check_next_trans [OF h(2) check_next_trans [OF r(2) set_sleep_check(1) [OF o3]]]] .
    ultimately show ?thesis
      using g(1,5) m sp again h(1) r(1)
      by (intro fin [of err "set_dynamic_sleep True st3"])
        (simp_all add: read_unsupported_feature_def numeral_2_eq_2 set_sleep_check del: retry_unsupported_feature.simps)
  qed
qed

text \<open>
  What the flags say after the checks: at most one way, and the ways that rest on what was read are
  ones the device showed.
\<close>

definition how_ok :: "'w Vcp_Env \<Rightarrow> Dref_Flags \<Rightarrow> bool" where
  "how_ok env fl \<longleftrightarrow>
     length (filter (\<lambda>b. b) (how_flags fl)) \<le> 1 \<and>
     (DREF_DDC_USES_MH_ML_SH_SL_ZERO_FOR_UNSUPPORTED fl \<longrightarrow>
       (\<exists>c \<in> {0xdd, 0x41, 0x00}. \<exists>r. vcp_reply env c r \<and> value_bytes_zero r)) \<and>
     (DREF_DDC_DOES_NOT_INDICATE_UNSUPPORTED fl \<longrightarrow>
       (\<exists>r. vcp_reply env 0x00 r \<and> supported_opcode r \<and> \<not> value_bytes_zero r))"

abbreviation no_how :: "Dref_Flags \<Rightarrow> bool" where
  "no_how fl \<equiv> how_flags fl = [False, False, False, False]"

lemma no_how_ok: "no_how fl \<Longrightarrow> how_ok env fl"
  by (simp add: how_ok_def how_flags_def)

lemma how_ok_cong: "how_flags fl' = how_flags fl \<Longrightarrow> how_ok env fl' = how_ok env fl"
  by (simp add: how_ok_def how_flags_def)

text \<open>The tests one after the other.\<close>

definition probed :: "'w Vcp_Env \<Rightarrow> byte \<Rightarrow> 'w Vcp_State \<Rightarrow> Error_Info option \<Rightarrow> 'w Vcp_State \<Rightarrow> bool" where
  "probed env c st err st' \<longleftrightarrow> check_next st st' \<and> test_result env c (dflags st) (dflags st') err \<and>
     \<not> dh_testing_unsupported_feature_active st' \<and>
     pdd_is_dynamic_sleep_active st' = pdd_is_dynamic_sleep_active st"

lemma probe_next:
  assumes "vcp_env_ok env" "vcp_ok st" "no_how (dflags st)"
  shows "\<exists>err st'. read_unsupported_feature env c st = Some (err, st') \<and> probed env c st err st'"
  using read_unsupported_good [where c = c, OF assms(1,2)] assms(3) by (auto simp: how_flags_def probed_def)

text \<open>A test that settled nothing leaves the flags alone.\<close>

lemma probe_again:
  assumes "probed env c st err st'" "vcp_ok st" "no_how (dflags st)" "err = None \<or> ERRINFO_STATUS err = DDCRC_RETRIES"
  shows "vcp_ok st' \<and> no_how (dflags st')"
proof -
  have "no_how (dflags st')"
    using assms(1,3,4) by (cases err) (auto simp: probed_def test_result_def ERRINFO_STATUS_def)
  then show ?thesis
    using assms(1,2) by (auto simp: probed_def check_next_def vcp_ok_def how_flags_def)
qed

lemma probed_trans:
  assumes "probed env c st err st1" "vcp_ok st" "no_how (dflags st)" "err = None \<or> ERRINFO_STATUS err = DDCRC_RETRIES"
    "probed env c' st1 err' st2"
  shows "probed env c' st err' st2"
proof -
  have h: "how_flags (dflags st1) = how_flags (dflags st)" using probe_again [OF assms(1-4)] assms(3) by simp
  show ?thesis
    using assms(1,5) check_next_trans [of st st1 st2] test_result_how [OF h, of env c'] by (auto simp: probed_def)
qed

lemma noted_how_ok:
  assumes "test_result (vcp_env env) c fl0 fl err" "no_how fl0" "c \<in> {0xdd, 0x41, 0x00}" "err = None \<longrightarrow> c = 0x00"
  shows "how_ok (vcp_env env) (note_how_unsupported env (ERRINFO_STATUS err) fl)"
  using assms
  by (cases err)
    (auto simp: test_result_def note_how_unsupported_def ERRINFO_STATUS_def how_ok_def how_flags_def test_errors_eq)

lemma check_how_good:
  assumes e: "vcp_env_ok (vcp_env env)" and st: "vcp_ok st" "no_how (dflags st)"
  shows "\<exists>st'. check_how_unsupported_reported env st = Some st' \<and> check_next st st' \<and>
    \<not> dh_testing_unsupported_feature_active st' \<and>
    pdd_is_dynamic_sleep_active st' = pdd_is_dynamic_sleep_active st \<and>
    DREF_UNSUPPORTED_CHECKED (dflags st') \<and> how_ok (vcp_env env) (dflags st')"
proof -
  let ?e = "vcp_env env"
  let ?open = "\<lambda>erec. erec = None \<or> ERRINFO_STATUS erec = DDCRC_RETRIES"
  obtain e1 s1 where p1: "read_unsupported_feature ?e 0xdd st = Some (e1, s1)" "probed ?e 0xdd st e1 s1"
    using probe_next [OF e st, of "0xdd"] by blast
  obtain e2 s2 c2 where p2: "(if ?open e1 \<and> is_input_digital (display_edid env)
        then read_unsupported_feature ?e 0x41 s1 else Some (e1, s1)) = Some (e2, s2)"
      "probed ?e c2 st e2 s2" "c2 \<in> {0xdd, 0x41}"
  proof (cases "?open e1 \<and> is_input_digital (display_edid env)")
    case True
    then obtain e2 s2 where "read_unsupported_feature ?e 0x41 s1 = Some (e2, s2)" "probed ?e 0x41 s1 e2 s2"
      using probe_again [OF p1(2) st] probe_next [OF e, of s1 "0x41"] by blast
    then show thesis using probed_trans [OF p1(2) st] True that [of e2 s2 "0x41"] by simp
  next
    case False
    then show thesis using that [of e1 s1 "0xdd"] p1(2) by auto
  qed
  obtain e3 s3 c3 where p3: "(if ?open e2 then read_unsupported_feature ?e 0x00 s2 else Some (e2, s2)) = Some (e3, s3)"
      "probed ?e c3 st e3 s3" "c3 \<in> {0xdd, 0x41, 0x00}" "e3 = None \<longrightarrow> c3 = 0x00"
  proof (cases "?open e2")
    case True
    then obtain e3 s3 where "read_unsupported_feature ?e 0x00 s2 = Some (e3, s3)" "probed ?e 0x00 s2 e3 s3"
      using probe_again [OF p2(2) st] probe_next [OF e, of s2 "0x00"] by blast
    then show thesis using probed_trans [OF p2(2) st] True that [of e3 s3 "0x00"] by simp
  next
    case False
    then show thesis using that [of e2 s2 c2] p2(2,3) by auto
  qed
  let ?fl = "note_how_unsupported env (ERRINFO_STATUS e3) (dflags s3)"
  have "how_ok ?e ?fl"
    using noted_how_ok [of env c3 "dflags st" "dflags s3" e3] st(2) p3(2-4) by (simp add: probed_def)
  then have "how_ok ?e (?fl\<lparr>DREF_UNSUPPORTED_CHECKED := True\<rparr>)"
    by (simp add: how_ok_def how_flags_def)
  then show ?thesis
    using p1(1) p2(1) p3(1,2)
    by (simp add: check_how_unsupported_reported_def probed_def check_next_def pdd_is_dynamic_sleep_active_def)
qed

section \<open>The checks as a whole\<close>

lemma check_supported_good:
  assumes e: "vcp_env_ok env" and st: "vcp_ok (dh st)"
  shows "\<exists>err shsl st'. check_supported_feature env newly 0x10 st = Some (err, shsl, st') \<and>
    check_next (dh st) (dh st') \<and> how_flags (dflags (dh st')) = how_flags (dflags (dh st)) \<and>
    dh_testing_unsupported_feature_active (dh st') = dh_testing_unsupported_feature_active (dh st) \<and>
    (err = None \<longrightarrow> (\<exists>r. vcp_reply env 0x10 r \<and> supported_opcode r)) \<and>
    (\<forall>x. err = Some x \<longrightarrow> get_error_ok env 0x10 (dh st) x)"
proof -
  have o: "ddc_ok (ddc (dh st))" using st by (simp add: vcp_ok_def)
  obtain m where m: "pdd_get_adjusted_sleep_multiplier (dsa2_state (ddc (dh st))) (display_pdd (ddc (dh st))) = Some m"
    using get_mult_Some o by (auto simp: ddc_ok_def)
  obtain excp resp h where g: "ddc_get_nontable_vcp_value env 0x10 (dh st) = Some (excp, resp, h)" "vcp_next (dh st) h"
      "excp = None \<longleftrightarrow> resp \<noteq> None" "\<forall>r. resp = Some r \<longrightarrow> vcp_reply env 0x10 r \<and> supported_opcode r"
      "\<forall>x. excp = Some x \<longrightarrow> get_error_ok env 0x10 (dh st) x"
    using get_nontable_good [where fcode = "0x10", OF e st] by blast
  note n = vcp_next_check [OF g(2)]
  show ?thesis
  proof (cases excp)
    case None
    then show ?thesis using m g n by (auto simp: check_supported_feature_def)
  next
    case (Some x)
    let ?h = "if newly then h\<lparr>ddc := advance 1000 (ddc h)\<rparr> else h"
    let ?t = "set_dynamic_sleep False ?h"
    have ht: "check_next (dh st) ?h" "how_flags (dflags ?h) = how_flags (dflags (dh st))"
        "dh_testing_unsupported_feature_active ?h = dh_testing_unsupported_feature_active (dh st)"
      using n by (auto simp: check_next_def advance_def ddc_ok_def limits_def)
    then have oh: "ddc_ok (ddc ?h)" by (simp add: check_next_def)
    have nt: "check_next (dh st) ?t" using check_next_trans [OF ht(1) set_sleep_check(1) [OF oh]] .
    have t: "vcp_ok ?t"
      using check_next_ok [OF nt] st ht(2,3) by (simp add: vcp_ok_def set_sleep_check how_flags_def)
    obtain excp2 resp2 h2 where g2: "ddc_get_nontable_vcp_value env 0x10 ?t = Some (excp2, resp2, h2)" "vcp_next ?t h2"
      "excp2 = None \<longleftrightarrow> resp2 \<noteq> None" "\<forall>r. resp2 = Some r \<longrightarrow> vcp_reply env 0x10 r \<and> supported_opcode r"
      "\<forall>x. excp2 = Some x \<longrightarrow> get_error_ok env 0x10 ?t x"
      using get_nontable_good [where fcode = "0x10", OF e t] by blast
    have n2: "check_next (dh st) h2" "how_flags (dflags h2) = how_flags (dflags (dh st))"
        "dh_testing_unsupported_feature_active h2 = dh_testing_unsupported_feature_active (dh st)"
      using vcp_next_check [OF g2(2)] check_next_trans [OF nt] ht(2,3) by (simp_all add: set_sleep_check)
    have x2: "\<forall>x. excp2 = Some x \<longrightarrow> get_error_ok env 0x10 (dh st) x"
      using g2(5) nt ht(2) by (simp add: get_error_ok_def check_next_def set_sleep_check how_flags_def)
    show ?thesis
      using m g(1,5) Some n ht g2(1,3,4) n2 x2
      by (cases excp2; cases newly) (auto simp: check_supported_feature_def Let_def)
  qed
qed

lemma note_communication_check:
  assumes "ddc_ok (ddc st)" "no_how (dflags st)"
  shows "check_next st (note_communication rc st)" "no_how (dflags (note_communication rc st))"
    "dh_testing_unsupported_feature_active (note_communication rc st) = dh_testing_unsupported_feature_active st"
  using assms by (auto simp: note_communication_def Let_def check_next_def how_flags_def no_dref_flags_def)

text \<open>The display answered, or said that the feature is not supported.\<close>

definition talks :: "Error_Info option \<Rightarrow> bool" where
  "talks err \<longleftrightarrow> ERRINFO_STATUS err \<in> {0, DDCRC_REPORTED_UNSUPPORTED, DDCRC_DETERMINED_UNSUPPORTED}"

definition check_env_ok :: "'w Check_Env \<Rightarrow> bool" where
  "check_env_ok env \<longleftrightarrow> vcp_env_ok (vcp_env env) \<and> (\<forall>name. good_call (\<lambda>_. True) (write_detect env name))"

lemma write_detect_same:
  "check_env_ok env \<Longrightarrow> same_settings io (possibly_write_detect_to_status_by_connector_name env name io)"
  using syscall_good [of "\<lambda>_. True" "write_detect env name" io]
  by (auto simp: possibly_write_detect_to_status_by_connector_name_def check_env_ok_def split: prod.splits sum.splits)

text \<open>What the write leaves alone.\<close>

lemma refresh_connector_same [simp]:
  "dflags (refresh_connector env st) = dflags st"
  "dh_testing_unsupported_feature_active (refresh_connector env st) = dh_testing_unsupported_feature_active st"
  "vcp_version_xdf (refresh_connector env st) = vcp_version_xdf st"
  "vcp_version_cmdline (refresh_connector env st) = vcp_version_cmdline st"
  "dref_definition (refresh_connector env st) = dref_definition st"
  "thread_vcp_settings (refresh_connector env st) = thread_vcp_settings st"
  "bus_info (ddc (refresh_connector env st)) = bus_info (ddc st)"
  "limits (ddc (refresh_connector env st)) = limits (ddc st)"
  "pdd_is_dynamic_sleep_active (refresh_connector env st) = pdd_is_dynamic_sleep_active st"
  by (simp_all add: refresh_connector_def limits_def pdd_is_dynamic_sleep_active_def split: option.split)

lemma refresh_connector_ok:
  assumes "check_env_ok env" "vcp_ok st"
  shows "vcp_ok (refresh_connector env st) \<and> check_next st (refresh_connector env st)"
proof -
  have "ddc_ok (ddc st)" using assms(2) by (simp add: vcp_ok_def)
  then have "ddc_ok (ddc (refresh_connector env st))"
    using io_ready_same [OF _ write_detect_same [OF assms(1)]]
    by (simp add: refresh_connector_def ddc_ok_def split: option.split)
  then show ?thesis using assms(2) by (simp add: vcp_ok_def check_next_def)
qed

lemma check_communication_good:
  assumes e: "check_env_ok env" and st: "vcp_ok (dh st)" "no_how (dflags (dh st))"
    and t: "\<not> dh_testing_unsupported_feature_active (dh st)"
    and c: "drm_connector_checked (bus_info (ddc (dh st)))" and f: "\<not> i2c_force_bus env"
  shows "\<exists>err st'. check_communication env newly st = Some (err, st') \<and> check_next (dh st) (dh st') \<and>
    \<not> dh_testing_unsupported_feature_active (dh st') \<and> how_ok (vcp_env env) (dflags (dh st')) \<and>
    (\<not> I2C_BUS_LVDS_OR_EDP env \<and> bus_addr_x37 (bus_info (ddc (dh st))) \<longrightarrow>
      (err = None \<longrightarrow> (\<exists>r. vcp_reply (vcp_env env) 0x10 r \<and> supported_opcode r)) \<and>
      (\<forall>x. err = Some x \<longrightarrow> get_error_ok (vcp_env env) 0x10 (dh st) x) \<and>
      (talks err \<longrightarrow> DREF_UNSUPPORTED_CHECKED (dflags (dh st'))))"
proof -
  let ?d = "refresh_connector env (dh st)"
  let ?st = "st\<lparr>dh := ?d\<rparr>"
  have ev: "vcp_env_ok (vcp_env env)" using e by (simp add: check_env_ok_def)
  note d = refresh_connector_ok [OF e st(1)]
  show ?thesis
  proof (cases "I2C_BUS_LVDS_OR_EDP env \<or> \<not> bus_addr_x37 (bus_info (ddc (dh st)))")
    case True
    have "how_ok (vcp_env env) ((dflags (dh st))\<lparr>DREF_DDC_COMMUNICATION_CHECKED := True\<rparr>)"
      by (rule no_how_ok) (use st(2) in \<open>simp add: how_flags_def\<close>)
    then show ?thesis
      using True c d t by (auto simp: check_communication_def c_assert_def check_next_def)
  next
    case False
    have "vcp_ok (dh ?st)" using d by simp
    from check_supported_good [where newly = newly, OF ev this]
    have "\<exists>err shsl st1. check_supported_feature (vcp_env env) newly 0x10 ?st = Some (err, shsl, st1) \<and>
      check_next ?d (dh st1) \<and> how_flags (dflags (dh st1)) = how_flags (dflags (dh st)) \<and>
      dh_testing_unsupported_feature_active (dh st1) = dh_testing_unsupported_feature_active (dh st) \<and>
      (err = None \<longrightarrow> (\<exists>r. vcp_reply (vcp_env env) 0x10 r \<and> supported_opcode r)) \<and>
      (\<forall>x. err = Some x \<longrightarrow> get_error_ok (vcp_env env) 0x10 ?d x)" by simp
    then obtain err shsl st1 where s: "check_supported_feature (vcp_env env) newly 0x10 ?st = Some (err, shsl, st1)"
      "check_next ?d (dh st1)" "how_flags (dflags (dh st1)) = how_flags (dflags (dh st))"
      "dh_testing_unsupported_feature_active (dh st1) = dh_testing_unsupported_feature_active (dh st)"
      "err = None \<longrightarrow> (\<exists>r. vcp_reply (vcp_env env) 0x10 r \<and> supported_opcode r)"
      "\<forall>x. err = Some x \<longrightarrow> get_error_ok (vcp_env env) 0x10 ?d x" by blast
    have ge: "get_error_ok (vcp_env env) 0x10 ?d x = get_error_ok (vcp_env env) 0x10 (dh st) x" for x
      by (simp add: get_error_ok_def)
    let ?h = "note_communication (ERRINFO_STATUS err) (dh st1)"
    have o1: "ddc_ok (ddc (dh st1))" "no_how (dflags (dh st1))" using s(2,3) st(2) by (simp_all add: check_next_def)
    note n = note_communication_check [OF o1, of "ERRINFO_STATUS err"]
    have nh: "check_next (dh st) ?h" using check_next_trans [OF conjunct2 [OF d] check_next_trans [OF s(2) n(1)]] .
    have tk: "talks err \<Longrightarrow> DREF_DDC_COMMUNICATION_WORKING (dflags ?h)"
      by (auto simp: talks_def note_communication_def Let_def)
    have hok: "vcp_ok ?h"
      using check_next_ok [OF nh] st n(2) by (simp add: vcp_ok_def how_flags_def)
    show ?thesis
    proof (cases "DREF_DDC_COMMUNICATION_WORKING (dflags ?h)")
      case True
      obtain h where h: "check_how_unsupported_reported env ?h = Some h" "check_next ?h h"
        "\<not> dh_testing_unsupported_feature_active h" "DREF_UNSUPPORTED_CHECKED (dflags h)"
        "how_ok (vcp_env env) (dflags h)"
        using check_how_good [OF ev hok n(2)] by blast
      then show ?thesis
        using True False c f s check_next_trans [OF nh h(2)]
        by (simp add: check_communication_def c_assert_def ge)
    next
      case nw: False
      then show ?thesis
        using False c s nh n t tk no_how_ok [OF n(2), of "vcp_env env"]
        by (auto simp: check_communication_def c_assert_def ge)
    qed
  qed
qed

lemma vcp_next_checked:
  "vcp_next st st' \<Longrightarrow> DREF_UNSUPPORTED_CHECKED (dflags st') = DREF_UNSUPPORTED_CHECKED (dflags st)"
  by (auto simp: vcp_next_def)

text \<open>The state after the version was asked for.\<close>

lemma version_next_check:
  assumes "version_next st st'"
  shows "ddc_ok (ddc st') \<and> dref_dfr (dref_definition st') = dref_dfr (dref_definition st) \<and>
    how_flags (dflags st') = how_flags (dflags st) \<and>
    DREF_UNSUPPORTED_CHECKED (dflags st') = DREF_UNSUPPORTED_CHECKED (dflags st) \<and>
    dh_testing_unsupported_feature_active st' = dh_testing_unsupported_feature_active st"
  using vcp_next_check [OF assms [unfolded version_next_def]] vcp_next_checked [OF assms [unfolded version_next_def]]
  by (simp add: check_next_def)


definition example_check_env :: "'w I2C_Driver \<Rightarrow> Parsed_Edid \<Rightarrow> 'w Check_Env" where
  "example_check_env drv edid =
     \<lparr>vcp_env = example_vcp_env drv, display_edid = edid, I2C_BUS_LVDS_OR_EDP = False, i2c_force_bus = False,
      ddc_never_uses_null_response_for_unsupported = False,
      enable_write_detect_to_status = True, connector_driver = \<lambda>_. Some ''nvidia'',
      write_detect = \<lambda>_ w. (Inl 13, w)\<rparr>"


end
