(* ===== verification/Display_Locks.thy ===== *)
theory Display_Locks
  imports Prelude
begin

text \<open>
  The locks that keep two threads of the program from opening the same display,
  \<^verbatim>\<open>src/src/base/display_lock.c\<close>. A thread in a call is at one of the points between which another thread can
  run: before and after each call on a mutex. The steps of a thread are a function of the state, the
  interleaving of the threads is a step relation. The Linux thread id of a lock record, which is used in
  messages only, and the sleeps between the attempts are left out.
\<close>

section \<open>State\<close>

datatype DDCA_IO_Path = DDCA_IO_I2C nat | DDCA_IO_USB nat

text \<open>A mutex is the thread that holds it. \<open>display_mutex_thread\<close> is what the program notes.\<close>

record Display_Lock_Record =
  io_path :: DDCA_IO_Path
  display_mutex :: "nat option"
  display_mutex_thread :: "nat option"

datatype Lock_Call = Lock_Display bool | Unlock_Display

datatype Call_Result = No_Call | Returned int | Unlocked_Count nat

text \<open>
  Where a thread is. \<open>Search\<close>, \<open>Found\<close> and \<open>Repr\<close> hold the mutex of the records; \<open>Repr\<close> is the second time,
  when \<^verbatim>\<open>lockrec_repr_t\<close> writes the record for the trace message at the end of the lookup. \<open>Lock_Check\<close>,
  \<open>Lock_Checked\<close> and all points of unlocking after \<open>Unlock_Enter\<close> the master mutex. \<open>Lock_Own\<close> has just taken
  the mutex of the display, \<open>Unlock_Release\<close> and \<open>All_Release\<close> are about to give it back.
\<close>

datatype Pc =
  Idle Call_Result
| Lookup Lock_Call DDCA_IO_Path
| Search Lock_Call DDCA_IO_Path
| Found Lock_Call nat
| Repr_Enter Lock_Call nat
| Repr Lock_Call nat
| Lock_Enter nat bool
| Lock_Check nat bool
| Lock_Checked nat bool bool
| Lock_Wait nat
| Lock_Try nat int
| Lock_Own nat
| Unlock_Enter nat
| Unlock_Check nat
| Unlock_Release nat
| Unlock_Leave int
| All_Enter
| All_Loop nat nat
| All_Release nat nat
| All_Leave nat

record Lock_State =
  lock_records :: "Display_Lock_Record list"
  descriptors_mutex :: "nat option"
  master_display_lock_mutex :: "nat option"
  pcs :: "Pc list"

abbreviation DEFAULT_OPEN_MAX_WAIT_MILLISEC :: int where "DEFAULT_OPEN_MAX_WAIT_MILLISEC \<equiv> 1000"
abbreviation DEFAULT_OPEN_WAIT_INTERVAL_MILLISEC :: int where "DEFAULT_OPEN_WAIT_INTERVAL_MILLISEC \<equiv> 100"
abbreviation DDCRC_LOCKED :: int where "DDCRC_LOCKED \<equiv> -3025"
abbreviation DDCRC_ALREADY_OPEN :: int where "DDCRC_ALREADY_OPEN \<equiv> -3026"

section \<open>Steps of a thread\<close>

text \<open>A thread is blocked, does what the library leaves undefined, or moves.\<close>

datatype Outcome = Blocked | Undefined | Moved Lock_State

definition goto_pc :: "nat \<Rightarrow> Pc \<Rightarrow> Lock_State \<Rightarrow> Lock_State" where
  "goto_pc t p s = s\<lparr>pcs := (pcs s)[t := p]\<rparr>"

definition create_display_lock_record :: "DDCA_IO_Path \<Rightarrow> Display_Lock_Record" where
  "create_display_lock_record path = \<lparr>io_path = path, display_mutex = None, display_mutex_thread = None\<rparr>"

fun find_lock_record :: "DDCA_IO_Path \<Rightarrow> nat \<Rightarrow> Display_Lock_Record list \<Rightarrow> nat option" where
  "find_lock_record path ndx [] = None"
| "find_lock_record path ndx (d # ds) = (if io_path d = path then Some ndx else find_lock_record path (ndx + 1) ds)"

definition set_record :: "nat \<Rightarrow> Display_Lock_Record \<Rightarrow> Lock_State \<Rightarrow> Lock_State" where
  "set_record k d s = s\<lparr>lock_records := (lock_records s)[k := d]\<rparr>"

definition record_at :: "nat \<Rightarrow> Lock_State \<Rightarrow> Display_Lock_Record" where
  "record_at k s = lock_records s ! k"

text \<open>Unlocking a mutex that the thread does not hold is undefined.\<close>

definition display_mutex_unlock :: "nat \<Rightarrow> nat \<Rightarrow> Pc \<Rightarrow> Lock_State \<Rightarrow> Outcome" where
  "display_mutex_unlock t k p s =
     (if display_mutex (record_at k s) = Some t
      then Moved (goto_pc t p (set_record k ((record_at k s)\<lparr>display_mutex := None\<rparr>) s))
      else Undefined)"

definition master_unlock :: "nat \<Rightarrow> Pc \<Rightarrow> Lock_State \<Rightarrow> Outcome" where
  "master_unlock t p s =
     (if master_display_lock_mutex s = Some t then Moved (goto_pc t p (s\<lparr>master_display_lock_mutex := None\<rparr>))
      else Undefined)"

definition descriptors_unlock :: "nat \<Rightarrow> Pc \<Rightarrow> Lock_State \<Rightarrow> Outcome" where
  "descriptors_unlock t p s =
     (if descriptors_mutex s = Some t then Moved (goto_pc t p (s\<lparr>descriptors_mutex := None\<rparr>)) else Undefined)"

text \<open>The mutex of the records or the master mutex is taken, or the thread waits for it.\<close>

definition descriptors_lock :: "nat \<Rightarrow> Pc \<Rightarrow> Lock_State \<Rightarrow> Outcome" where
  "descriptors_lock t p s =
     (if descriptors_mutex s = None then Moved (goto_pc t p (s\<lparr>descriptors_mutex := Some t\<rparr>)) else Blocked)"

definition master_lock :: "nat \<Rightarrow> Pc \<Rightarrow> Lock_State \<Rightarrow> Outcome" where
  "master_lock t p s =
     (if master_display_lock_mutex s = None
      then Moved (goto_pc t p (s\<lparr>master_display_lock_mutex := Some t\<rparr>)) else Blocked)"

text \<open>The search for the record of a path, which adds a record if there is none.\<close>

definition search_record :: "nat \<Rightarrow> Lock_Call \<Rightarrow> DDCA_IO_Path \<Rightarrow> Lock_State \<Rightarrow> Outcome" where
  [simp]: "search_record t c path s =
     (case find_lock_record path 0 (lock_records s) of
        Some k \<Rightarrow> Moved (goto_pc t (Found c k) s)
      | None \<Rightarrow>
          Moved (goto_pc t (Found c (length (lock_records s)))
            (s\<lparr>lock_records := lock_records s @ [create_display_lock_record path]\<rparr>)))"

text \<open>One attempt of the loop of \<^verbatim>\<open>lock_display\<close>.\<close>

definition try_display_mutex :: "nat \<Rightarrow> nat \<Rightarrow> int \<Rightarrow> Lock_State \<Rightarrow> Outcome" where
  [simp]: "try_display_mutex t k total_wait_millisec s =
     (if total_wait_millisec < DEFAULT_OPEN_MAX_WAIT_MILLISEC
      then if display_mutex (record_at k s) = None
           then Moved (goto_pc t (Lock_Own k) (set_record k ((record_at k s)\<lparr>display_mutex := Some t\<rparr>) s))
           else Moved (goto_pc t (Lock_Try k (total_wait_millisec + DEFAULT_OPEN_WAIT_INTERVAL_MILLISEC)) s)
      else Moved (goto_pc t (Idle (Returned DDCRC_LOCKED)) s))"

definition unlock_owned :: "nat \<Rightarrow> nat \<Rightarrow> Lock_State \<Rightarrow> Outcome" where
  [simp]: "unlock_owned t k s =
     (if display_mutex_thread (record_at k s) \<noteq> Some t then Moved (goto_pc t (Unlock_Leave DDCRC_LOCKED) s)
      else Moved (goto_pc t (Unlock_Release k)
             (set_record k ((record_at k s)\<lparr>display_mutex_thread := None\<rparr>) s)))"

text \<open>One pass of the loop of \<^verbatim>\<open>unlock_all_displays_for_current_thread\<close>.\<close>

definition unlock_next :: "nat \<Rightarrow> nat \<Rightarrow> nat \<Rightarrow> Lock_State \<Rightarrow> Outcome" where
  [simp]: "unlock_next t ndx unlocked_ct s =
     (if ndx < length (lock_records s)
      then if display_mutex_thread (record_at ndx s) = Some t
           then Moved (goto_pc t (All_Release ndx (unlocked_ct + 1))
                  (set_record ndx ((record_at ndx s)\<lparr>display_mutex_thread := None\<rparr>) s))
           else Moved (goto_pc t (All_Loop (ndx + 1) unlocked_ct) s)
      else Moved (goto_pc t (All_Leave unlocked_ct) s))"

text \<open>
  The step of thread \<open>t\<close> at a point: \<^verbatim>\<open>get_display_lock_record_by_dpath\<close> up to \<open>Repr\<close>, then
  \<^verbatim>\<open>lock_display\<close> or \<^verbatim>\<open>unlock_display\<close>; the last points are \<^verbatim>\<open>unlock_all_displays_for_current_thread\<close>.
\<close>

fun step_pc :: "nat \<Rightarrow> Pc \<Rightarrow> Lock_State \<Rightarrow> Outcome" where
  "step_pc t (Idle r) s = Blocked"
| "step_pc t (Lookup c path) s = descriptors_lock t (Search c path) s"
| "step_pc t (Search c path) s = search_record t c path s"
| "step_pc t (Found c k) s = descriptors_unlock t (Repr_Enter c k) s"
| "step_pc t (Repr_Enter c k) s = descriptors_lock t (Repr c k) s"
| "step_pc t (Repr c k) s =
     descriptors_unlock t (case c of Lock_Display wait \<Rightarrow> Lock_Enter k wait | Unlock_Display \<Rightarrow> Unlock_Enter k) s"
| "step_pc t (Lock_Enter k wait) s = master_lock t (Lock_Check k wait) s"
| "step_pc t (Lock_Check k wait) s =
     Moved (goto_pc t (Lock_Checked k wait (display_mutex_thread (record_at k s) = Some t)) s)"
| "step_pc t (Lock_Checked k wait self_thread) s =
     master_unlock t
       (if self_thread then Idle (Returned DDCRC_ALREADY_OPEN) else if wait then Lock_Wait k else Lock_Try k 0) s"
| "step_pc t (Lock_Wait k) s =
     (if display_mutex (record_at k s) = None
      then Moved (goto_pc t (Lock_Own k) (set_record k ((record_at k s)\<lparr>display_mutex := Some t\<rparr>) s))
      else Blocked)"
| "step_pc t (Lock_Try k total_wait_millisec) s = try_display_mutex t k total_wait_millisec s"
| "step_pc t (Lock_Own k) s =
     Moved (goto_pc t (Idle (Returned 0))
       (set_record k ((record_at k s)\<lparr>display_mutex_thread := Some t\<rparr>) s))"
| "step_pc t (Unlock_Enter k) s = master_lock t (Unlock_Check k) s"
| "step_pc t (Unlock_Check k) s = unlock_owned t k s"
| "step_pc t (Unlock_Release k) s = display_mutex_unlock t k (Unlock_Leave 0) s"
| "step_pc t (Unlock_Leave rc) s = master_unlock t (Idle (Returned rc)) s"
| "step_pc t All_Enter s = descriptors_lock t (All_Loop 0 0) s"
| "step_pc t (All_Loop ndx unlocked_ct) s = unlock_next t ndx unlocked_ct s"
| "step_pc t (All_Release ndx unlocked_ct) s = display_mutex_unlock t ndx (All_Loop (ndx + 1) unlocked_ct) s"
| "step_pc t (All_Leave unlocked_ct) s = descriptors_unlock t (Idle (Unlocked_Count unlocked_ct)) s"

definition step_thread :: "nat \<Rightarrow> Lock_State \<Rightarrow> Outcome" where
  "step_thread t s = step_pc t (pcs s ! t) s"

section \<open>Runs\<close>

text \<open>The functions a thread may call.\<close>

definition lock_display_by_dpath :: "DDCA_IO_Path \<Rightarrow> bool \<Rightarrow> Pc" where
  "lock_display_by_dpath dpath wait = Lookup (Lock_Display wait) dpath"

definition unlock_display_by_dpath :: "DDCA_IO_Path \<Rightarrow> Pc" where
  "unlock_display_by_dpath dpath = Lookup Unlock_Display dpath"

definition unlock_all_displays_for_current_thread :: Pc where
  "unlock_all_displays_for_current_thread = All_Enter"

definition init_i2c_display_lock :: "nat \<Rightarrow> Lock_State" where
  "init_i2c_display_lock n =
     \<lparr>lock_records = [], descriptors_mutex = None, master_display_lock_mutex = None,
      pcs = replicate n (Idle No_Call)\<rparr>"

inductive lock_step :: "Lock_State \<Rightarrow> Lock_State \<Rightarrow> bool" where
  run: "t < length (pcs s) \<Longrightarrow> step_thread t s = Moved s' \<Longrightarrow> lock_step s s'"

inductive lock_call :: "Lock_State \<Rightarrow> Lock_State \<Rightarrow> bool" where
  lock: "t < length (pcs s) \<Longrightarrow> pcs s ! t = Idle r \<Longrightarrow> lock_call s (goto_pc t (lock_display_by_dpath dpath wait) s)"
| unlock: "t < length (pcs s) \<Longrightarrow> pcs s ! t = Idle r \<Longrightarrow> lock_call s (goto_pc t (unlock_display_by_dpath dpath) s)"
| unlock_all: "t < length (pcs s) \<Longrightarrow> pcs s ! t = Idle r \<Longrightarrow>
    lock_call s (goto_pc t unlock_all_displays_for_current_thread s)"

text \<open>The states of a program with \<open>n\<close> threads.\<close>

inductive lock_reachable :: "nat \<Rightarrow> Lock_State \<Rightarrow> bool" for n where
  start: "lock_reachable n (init_i2c_display_lock n)"
| call: "lock_reachable n s \<Longrightarrow> lock_call s s' \<Longrightarrow> lock_reachable n s'"
| step: "lock_reachable n s \<Longrightarrow> lock_step s s' \<Longrightarrow> lock_reachable n s'"

section \<open>Invariant\<close>

fun holds_master :: "Pc \<Rightarrow> bool" where
  "holds_master (Lock_Check _ _) = True"
| "holds_master (Lock_Checked _ _ _) = True"
| "holds_master (Unlock_Check _) = True"
| "holds_master (Unlock_Release _) = True"
| "holds_master (Unlock_Leave _) = True"
| "holds_master _ = False"

fun holds_descriptors :: "Pc \<Rightarrow> bool" where
  "holds_descriptors (Search _ _) = True"
| "holds_descriptors (Found _ _) = True"
| "holds_descriptors (Repr _ _) = True"
| "holds_descriptors (All_Loop _ _) = True"
| "holds_descriptors (All_Release _ _) = True"
| "holds_descriptors (All_Leave _) = True"
| "holds_descriptors _ = False"

text \<open>The record a point is about, and the points at which the mutex is held but no thread is noted.\<close>

fun record_of :: "Pc \<Rightarrow> nat option" where
  "record_of (Found _ k) = Some k"
| "record_of (Repr_Enter _ k) = Some k"
| "record_of (Repr _ k) = Some k"
| "record_of (Lock_Enter k _) = Some k"
| "record_of (Lock_Check k _) = Some k"
| "record_of (Lock_Checked k _ _) = Some k"
| "record_of (Lock_Wait k) = Some k"
| "record_of (Lock_Try k _) = Some k"
| "record_of (Lock_Own k) = Some k"
| "record_of (Unlock_Enter k) = Some k"
| "record_of (Unlock_Check k) = Some k"
| "record_of (Unlock_Release k) = Some k"
| "record_of (All_Release k _) = Some k"
| "record_of _ = None"

fun between :: "Pc \<Rightarrow> nat option" where
  "between (Lock_Own k) = Some k"
| "between (Unlock_Release k) = Some k"
| "between (All_Release k _) = Some k"
| "between _ = None"

text \<open>The points from which the thread goes on to take the mutex of a display.\<close>

fun about_to_take :: "Pc \<Rightarrow> nat option" where
  "about_to_take (Lock_Checked k _ False) = Some k"
| "about_to_take (Lock_Wait k) = Some k"
| "about_to_take (Lock_Try k _) = Some k"
| "about_to_take _ = None"

text \<open>A mutex of the whole module is held by the thread at a point that holds it.\<close>

definition module_mutex_ok :: "(Pc \<Rightarrow> bool) \<Rightarrow> nat option \<Rightarrow> Pc list \<Rightarrow> bool" where
  "module_mutex_ok holds m ps \<longleftrightarrow> (\<forall>t < length ps. holds (ps ! t) \<longleftrightarrow> m = Some t) \<and> (\<forall>t. m = Some t \<longrightarrow> t < length ps)"

definition record_ok :: "Pc list \<Rightarrow> nat \<Rightarrow> Display_Lock_Record \<Rightarrow> bool" where
  "record_ok ps k d \<longleftrightarrow>
     (case display_mutex d of
        None \<Rightarrow> display_mutex_thread d = None \<and> (\<forall>t < length ps. between (ps ! t) \<noteq> Some k)
      | Some h \<Rightarrow> h < length ps \<and> (\<forall>t < length ps. t \<noteq> h \<longrightarrow> between (ps ! t) \<noteq> Some k) \<and>
          display_mutex_thread d = (if between (ps ! h) = Some k then None else Some h) \<and>
          about_to_take (ps ! h) \<noteq> Some k)"

definition locks_ok :: "Lock_State \<Rightarrow> bool" where
  "locks_ok s \<longleftrightarrow>
     module_mutex_ok holds_master (master_display_lock_mutex s) (pcs s) \<and>
     module_mutex_ok holds_descriptors (descriptors_mutex s) (pcs s) \<and>
     (\<forall>t < length (pcs s). \<forall>k. record_of (pcs s ! t) = Some k \<longrightarrow> k < length (lock_records s)) \<and>
     (\<forall>k < length (lock_records s). record_ok (pcs s) k (lock_records s ! k)) \<and>
     distinct (map io_path (lock_records s))"

lemma module_mutex_keep:
  "module_mutex_ok holds m ps \<Longrightarrow> t < length ps \<Longrightarrow> holds p = holds (ps ! t) \<Longrightarrow> module_mutex_ok holds m (ps[t := p])"
  by (auto simp: module_mutex_ok_def nth_list_update)

lemma module_mutex_take:
  "module_mutex_ok holds None ps \<Longrightarrow> t < length ps \<Longrightarrow> holds p \<Longrightarrow> module_mutex_ok holds (Some t) (ps[t := p])"
  by (auto simp: module_mutex_ok_def nth_list_update)

lemma module_mutex_give:
  "module_mutex_ok holds (Some t) ps \<Longrightarrow> t < length ps \<Longrightarrow> \<not> holds p \<Longrightarrow> module_mutex_ok holds None (ps[t := p])"
  by (auto simp: module_mutex_ok_def nth_list_update)

lemma record_holder:
  "record_ok ps k d \<Longrightarrow> between (ps ! t) = Some k \<Longrightarrow> t < length ps \<Longrightarrow> display_mutex d = Some t"
  by (auto simp: record_ok_def split: option.splits)

lemma record_owner:
  "record_ok ps k d \<Longrightarrow> display_mutex_thread d = Some t \<Longrightarrow> display_mutex d = Some t"
  by (auto simp: record_ok_def split: option.splits if_splits)

text \<open>A thread moves to a point that is as before for a record.\<close>

lemma record_keep:
  assumes "record_ok ps k d" "t < length ps" "between p = Some k \<longleftrightarrow> between (ps ! t) = Some k"
    "about_to_take p = Some k \<Longrightarrow> about_to_take (ps ! t) = Some k \<or> display_mutex d \<noteq> Some t"
  shows "record_ok (ps[t := p]) k d"
  using assms by (auto simp: record_ok_def nth_list_update split: option.splits)

lemma record_take:
  assumes "record_ok ps k d" "t < length ps" "display_mutex d = None" "between p = Some k" "about_to_take p \<noteq> Some k"
  shows "record_ok (ps[t := p]) k (d\<lparr>display_mutex := Some t\<rparr>)"
  using assms by (auto simp: record_ok_def nth_list_update split: option.splits)

lemma record_note:
  assumes "record_ok ps k d" "t < length ps" "between (ps ! t) = Some k" "between p \<noteq> Some k" "about_to_take p \<noteq> Some k"
  shows "record_ok (ps[t := p]) k (d\<lparr>display_mutex_thread := Some t\<rparr>)"
proof -
  have "display_mutex d = Some t" using record_holder [OF assms(1,3,2)] .
  then show ?thesis using assms by (auto simp: record_ok_def nth_list_update)
qed

lemma record_forget:
  assumes "record_ok ps k d" "t < length ps" "display_mutex_thread d = Some t" "between p = Some k" "about_to_take p \<noteq> Some k"
  shows "record_ok (ps[t := p]) k (d\<lparr>display_mutex_thread := None\<rparr>)"
proof -
  have "display_mutex d = Some t" using record_owner [OF assms(1,3)] .
  then show ?thesis using assms by (auto simp: record_ok_def nth_list_update)
qed

lemma record_give:
  assumes "record_ok ps k d" "t < length ps" "between (ps ! t) = Some k" "between p \<noteq> Some k"
  shows "display_mutex d = Some t \<and> record_ok (ps[t := p]) k (d\<lparr>display_mutex := None\<rparr>)"
proof -
  have "display_mutex d = Some t" using record_holder [OF assms(1,3,2)] .
  then show ?thesis using assms by (auto simp: record_ok_def nth_list_update)
qed

lemma find_record_Some:
  "find_lock_record path n ds = Some k \<Longrightarrow> \<exists>i < length ds. k = n + i \<and> io_path (ds ! i) = path"
proof (induction ds arbitrary: n)
  case (Cons d ds)
  show ?case
  proof (cases "io_path d = path")
    case False
    with Cons obtain i where "i < length ds" "k = n + 1 + i" "io_path (ds ! i) = path" by fastforce
    then show ?thesis by (intro exI [of _ "Suc i"]) simp
  qed (use Cons.prems in auto)
qed simp

lemma find_record_None: "find_lock_record path n ds = None \<longleftrightarrow> path \<notin> io_path ` set ds"
  by (induction ds arbitrary: n) auto

text \<open>The effects a step can have, each keeping the invariant.\<close>

lemma keeps_records:
  assumes "locks_ok s" "t < length (pcs s)" "between p = between (pcs s ! t)"
    "\<And>k. about_to_take p = Some k \<Longrightarrow> about_to_take (pcs s ! t) = Some k \<or>
      (k < length (lock_records s) \<longrightarrow> display_mutex (record_at k s) \<noteq> Some t)"
    "\<And>k. record_of p = Some k \<Longrightarrow> k < length (lock_records s)"
    "module_mutex_ok holds_master mm ((pcs s)[t := p])" "module_mutex_ok holds_descriptors dm ((pcs s)[t := p])"
  shows "locks_ok (goto_pc t p (s\<lparr>master_display_lock_mutex := mm, descriptors_mutex := dm\<rparr>))"
  using assms record_keep [of "pcs s" _ _ t p]
  by (auto simp: locks_ok_def goto_pc_def record_at_def nth_list_update)

lemma changes_record:
  assumes "locks_ok s" "t < length (pcs s)" "k < length (lock_records s)"
    "\<And>j. j \<noteq> k \<Longrightarrow> between p \<noteq> Some j \<and> between (pcs s ! t) \<noteq> Some j \<and> about_to_take p \<noteq> Some j"
    "record_ok ((pcs s)[t := p]) k d" "io_path d = io_path (record_at k s)"
    "\<And>k. record_of p = Some k \<Longrightarrow> k < length (lock_records s)"
    "holds_master p = holds_master (pcs s ! t)" "holds_descriptors p = holds_descriptors (pcs s ! t)"
  shows "locks_ok (goto_pc t p (set_record k d s))"
proof -
  have "map io_path ((lock_records s)[k := d]) = map io_path (lock_records s)"
    using assms(3,6) by (auto intro!: nth_equalityI simp: nth_list_update record_at_def)
  moreover have "record_ok ((pcs s)[t := p]) j (lock_records s ! j)" if "j < length (lock_records s)" "j \<noteq> k" for j
    using record_keep [of "pcs s" j "lock_records s ! j" t p] assms(1,2,4) that by (auto simp: locks_ok_def)
  ultimately show ?thesis
    using assms by (auto simp: locks_ok_def goto_pc_def set_record_def nth_list_update module_mutex_keep)
qed

lemma adds_record:
  assumes "locks_ok s" "t < length (pcs s)" "pcs s ! t = Search c path" "path \<notin> io_path ` set (lock_records s)"
  shows "locks_ok (goto_pc t (Found c (length (lock_records s)))
    (s\<lparr>lock_records := lock_records s @ [create_display_lock_record path]\<rparr>))"
proof -
  have b: "between (pcs s ! u) \<noteq> Some (length (lock_records s))" if "u < length (pcs s)" for u
  proof
    assume "between (pcs s ! u) = Some (length (lock_records s))"
    then have "record_of (pcs s ! u) = Some (length (lock_records s))" by (cases "pcs s ! u") auto
    then show False using assms(1) that by (auto simp: locks_ok_def)
  qed
  have "record_ok ((pcs s)[t := Found c (length (lock_records s))]) k
      ((lock_records s @ [create_display_lock_record path]) ! k)" if "k < Suc (length (lock_records s))" for k
  proof (cases "k = length (lock_records s)")
    case True
    have "between ((pcs s)[t := Found c k] ! u) \<noteq> Some k" if "u < length (pcs s)" for u
      using b [OF that] True assms(2) by (auto simp: nth_list_update)
    then show ?thesis using True by (simp add: record_ok_def create_display_lock_record_def)
  next
    case False
    then show ?thesis
      using that assms(1-3) record_keep [of "pcs s" k "lock_records s ! k" t "Found c (length (lock_records s))"]
      by (auto simp: locks_ok_def nth_append)
  qed
  then show ?thesis
    using assms by (auto simp: locks_ok_def goto_pc_def nth_list_update module_mutex_keep create_display_lock_record_def
        intro: less_SucI)
qed

text \<open>A step keeps the invariant, and does not unlock what the thread does not hold.\<close>

lemma step_thread_ok:
  assumes ok: "locks_ok s" and t: "t < length (pcs s)"
  shows "case step_thread t s of Blocked \<Rightarrow> True | Undefined \<Rightarrow> False | Moved s' \<Rightarrow> locks_ok s'"
proof -
  note facts = ok [unfolded locks_ok_def]
  have mm: "module_mutex_ok holds_master (master_display_lock_mutex s) (pcs s)"
    and dm: "module_mutex_ok holds_descriptors (descriptors_mutex s) (pcs s)"
    and rl: "\<And>k. record_of (pcs s ! t) = Some k \<Longrightarrow> k < length (lock_records s)"
    and ro: "\<And>k. k < length (lock_records s) \<Longrightarrow> record_ok (pcs s) k (record_at k s)"
    using facts t by (auto simp: record_at_def)
  have hm: "holds_master (pcs s ! t) \<longleftrightarrow> master_display_lock_mutex s = Some t"
    and hd: "holds_descriptors (pcs s ! t) \<longleftrightarrow> descriptors_mutex s = Some t"
    using mm dm t by (auto simp: module_mutex_ok_def)
  have same: "s = s\<lparr>master_display_lock_mutex := master_display_lock_mutex s, descriptors_mutex := descriptors_mutex s\<rparr>"
    by simp
  note kr = keeps_records [OF ok t] and cr = changes_record [OF ok t]
  note kp = kr [where mm = "master_display_lock_mutex s" and dm = "descriptors_mutex s", folded same]
  show ?thesis
  proof (cases "pcs s ! t")
    case (Lookup c path)
    then show ?thesis
      using kr [of "Search c path" "master_display_lock_mutex s" "Some t"] mm dm t
      by (auto simp: step_thread_def descriptors_lock_def module_mutex_keep module_mutex_take)
  next
    case (Search c path)
    show ?thesis
    proof (cases "find_lock_record path 0 (lock_records s)")
      case None
      then show ?thesis
        using adds_record [OF ok t Search None [unfolded find_record_None]] Search by (simp add: step_thread_def)
    next
      case (Some k)
      then show ?thesis
        using kp [of "Found c k"] Search mm dm t find_record_Some [OF Some]
        by (auto simp: step_thread_def module_mutex_keep)
    qed
  next
    case (Found c k)
    then show ?thesis
      using kr [of "Repr_Enter c k" "master_display_lock_mutex s" None] mm dm hd rl t
      by (auto simp: step_thread_def descriptors_unlock_def module_mutex_keep module_mutex_give)
  next
    case (Repr_Enter c k)
    then show ?thesis
      using kr [of "Repr c k" "master_display_lock_mutex s" "Some t"] mm dm rl t
      by (auto simp: step_thread_def descriptors_lock_def module_mutex_keep module_mutex_take)
  next
    case (Repr c k)
    let ?p = "case c of Lock_Display wait \<Rightarrow> Lock_Enter k wait | Unlock_Display \<Rightarrow> Unlock_Enter k"
    show ?thesis
      using kr [of ?p "master_display_lock_mutex s" None] Repr mm dm hd rl t
      by (cases c) (auto simp: step_thread_def descriptors_unlock_def module_mutex_keep module_mutex_give)
  next
    case (Lock_Enter k wait)
    then show ?thesis
      using kr [of "Lock_Check k wait" "Some t" "descriptors_mutex s"] mm dm rl t
      by (auto simp: step_thread_def master_lock_def module_mutex_keep module_mutex_take)
  next
    case (Lock_Check k wait)
    have "display_mutex (record_at k s) \<noteq> Some t" if "display_mutex_thread (record_at k s) \<noteq> Some t"
      using ro [OF rl] Lock_Check that t by (auto simp: record_ok_def)
    then show ?thesis
      using kp [of "Lock_Checked k wait (display_mutex_thread (record_at k s) = Some t)"] Lock_Check mm dm rl t
      by (cases "display_mutex_thread (record_at k s) = Some t")
        (auto simp: step_thread_def module_mutex_keep)
  next
    case (Lock_Checked k wait self_thread)
    let ?p = "if self_thread then Idle (Returned DDCRC_ALREADY_OPEN) else if wait then Lock_Wait k else Lock_Try k 0"
    show ?thesis
      using kr [of ?p None "descriptors_mutex s"] Lock_Checked mm dm hm rl t
      by (cases self_thread; cases wait) (auto simp: step_thread_def master_unlock_def module_mutex_keep module_mutex_give)
  next
    case (Lock_Wait k)
    then show ?thesis
      using cr [of k "Lock_Own k" "(record_at k s)\<lparr>display_mutex := Some t\<rparr>"] record_take [OF ro t] rl
      by (auto simp: step_thread_def)
  next
    case (Lock_Try k n)
    then show ?thesis
      using cr [of k "Lock_Own k" "(record_at k s)\<lparr>display_mutex := Some t\<rparr>"] record_take [OF ro t] rl
        kp [of "Idle (Returned DDCRC_LOCKED)"] kp [of "Lock_Try k (n + DEFAULT_OPEN_WAIT_INTERVAL_MILLISEC)"] mm dm t
      by (auto simp: step_thread_def module_mutex_keep)
  next
    case (Lock_Own k)
    then show ?thesis
      using cr [of k "Idle (Returned 0)" "(record_at k s)\<lparr>display_mutex_thread := Some t\<rparr>"] record_note [OF ro t] rl
      by (auto simp: step_thread_def)
  next
    case (Unlock_Enter k)
    then show ?thesis
      using kr [of "Unlock_Check k" "Some t" "descriptors_mutex s"] mm dm rl t
      by (auto simp: step_thread_def master_lock_def module_mutex_keep module_mutex_take)
  next
    case (Unlock_Check k)
    then show ?thesis
      using cr [of k "Unlock_Release k" "(record_at k s)\<lparr>display_mutex_thread := None\<rparr>"] record_forget [OF ro t] rl
        kp [of "Unlock_Leave DDCRC_LOCKED"] mm dm t
      by (auto simp: step_thread_def module_mutex_keep)
  next
    case (Unlock_Release k)
    then show ?thesis
      using cr [of k "Unlock_Leave 0" "(record_at k s)\<lparr>display_mutex := None\<rparr>"] record_give [OF ro t, of k "Unlock_Leave 0"] rl
      by (auto simp: step_thread_def display_mutex_unlock_def)
  next
    case (Unlock_Leave rc)
    then show ?thesis
      using kr [of "Idle (Returned rc)" None "descriptors_mutex s"] mm dm hm t
      by (auto simp: step_thread_def master_unlock_def module_mutex_keep module_mutex_give)
  next
    case All_Enter
    then show ?thesis
      using kr [of "All_Loop 0 0" "master_display_lock_mutex s" "Some t"] mm dm t
      by (auto simp: step_thread_def descriptors_lock_def module_mutex_keep module_mutex_take)
  next
    case (All_Loop n ct)
    then show ?thesis
      using cr [of n "All_Release n (ct + 1)" "(record_at n s)\<lparr>display_mutex_thread := None\<rparr>"] record_forget [OF ro t]
        kp [of "All_Loop (n + 1) ct"] kp [of "All_Leave ct"] mm dm t
      by (auto simp: step_thread_def module_mutex_keep)
  next
    case (All_Release n ct)
    then show ?thesis
      using cr [of n "All_Loop (n + 1) ct" "(record_at n s)\<lparr>display_mutex := None\<rparr>"] record_give [OF ro t, of n "All_Loop (n + 1) ct"] rl
      by (auto simp: step_thread_def display_mutex_unlock_def)
  next
    case (All_Leave ct)
    then show ?thesis
      using kr [of "Idle (Unlocked_Count ct)" "master_display_lock_mutex s" None] mm dm hd t
      by (auto simp: step_thread_def descriptors_unlock_def module_mutex_keep module_mutex_give)
  qed (simp add: step_thread_def)
qed

lemma init_locks_ok: "locks_ok (init_i2c_display_lock n)"
  by (simp add: locks_ok_def init_i2c_display_lock_def module_mutex_ok_def)

lemma call_locks_ok:
  assumes "locks_ok s" "t < length (pcs s)" "pcs s ! t = Idle r" "p = All_Enter \<or> (\<exists>c path. p = Lookup c path)"
  shows "locks_ok (goto_pc t p s)"
proof -
  have "locks_ok (goto_pc t p (s\<lparr>master_display_lock_mutex := master_display_lock_mutex s,
      descriptors_mutex := descriptors_mutex s\<rparr>))"
    by (rule keeps_records [OF assms(1,2)])
      (use assms in \<open>auto simp: locks_ok_def module_mutex_keep\<close>)
  then show ?thesis by simp
qed

lemma goto_pc_length: "length (pcs (goto_pc t p s)) = length (pcs s)"
  by (simp add: goto_pc_def)

lemma step_pcs_length:
  "step_thread t s = Moved s' \<Longrightarrow> length (pcs s') = length (pcs s)"
  unfolding step_thread_def
  by (cases "pcs s ! t")
    (auto simp: goto_pc_def set_record_def descriptors_lock_def descriptors_unlock_def master_lock_def master_unlock_def
      display_mutex_unlock_def split: if_splits option.splits)

lemma reachable_ok: "lock_reachable n s \<Longrightarrow> locks_ok s \<and> length (pcs s) = n"
proof (induction rule: lock_reachable.induct)
  case start
  then show ?case by (simp add: init_locks_ok) (simp add: init_i2c_display_lock_def)
next
  case (call s s')
  from call.hyps(2) call.IH show ?case
    by cases (auto simp: lock_display_by_dpath_def unlock_display_by_dpath_def unlock_all_displays_for_current_thread_def
        call_locks_ok goto_pc_length)
next
  case (step s s')
  from step.hyps(2) step.IH show ?case
    by cases (use step_thread_ok [of s] step_pcs_length [of _ s] in \<open>fastforce\<close>)
qed

section \<open>What the locks implement\<close>

text \<open>The abstract state: the thread that has a display locked, if any.\<close>

definition display_owner :: "Lock_State \<Rightarrow> DDCA_IO_Path \<Rightarrow> nat option" where
  "display_owner s path =
     (case find_lock_record path 0 (lock_records s) of None \<Rightarrow> None | Some k \<Rightarrow> display_mutex (record_at k s))"

text \<open>A thread leaves it as it is, takes a display that is free, or gives back one of its own.\<close>

inductive owner_step :: "nat \<Rightarrow> (DDCA_IO_Path \<Rightarrow> nat option) \<Rightarrow> (DDCA_IO_Path \<Rightarrow> nat option) \<Rightarrow> bool" where
  same: "owner_step t m m"
| take: "m path = None \<Longrightarrow> owner_step t m (m(path := Some t))"
| give: "m path = Some t \<Longrightarrow> owner_step t m (m(path := None))"

lemma find_record_cong:
  "map io_path ds = map io_path ds' \<Longrightarrow> find_lock_record path n ds = find_lock_record path n ds'"
proof (induction ds arbitrary: n ds')
  case (Cons d ds)
  then show ?case by (cases ds') auto
qed simp

lemma find_record_eq:
  assumes "distinct (map io_path ds)" "k < length ds"
  shows "find_lock_record path 0 ds = Some k \<longleftrightarrow> io_path (ds ! k) = path"
proof
  assume "find_lock_record path 0 ds = Some k"
  then show "io_path (ds ! k) = path" using find_record_Some by fastforce
next
  assume p: "io_path (ds ! k) = path"
  then have "find_lock_record path 0 ds \<noteq> None" using assms(2) by (auto simp: find_record_None)
  then obtain j where j: "find_lock_record path 0 ds = Some j" by blast
  then have "j < length ds" "io_path (ds ! j) = path" using find_record_Some by fastforce+
  then have "j = k" using assms p nth_eq_iff_index_eq [OF assms(1), of j k] by simp
  then show "find_lock_record path 0 ds = Some k" using j by simp
qed

lemma owner_at:
  assumes "locks_ok s" "k < length (lock_records s)"
  shows "display_owner s (io_path (record_at k s)) = display_mutex (record_at k s)"
  using find_record_eq [of "lock_records s" k "io_path (record_at k s)"] assms
  by (simp add: display_owner_def locks_ok_def) (simp add: record_at_def)

lemma owner_set_record:
  assumes "locks_ok s" "k < length (lock_records s)" "io_path d = io_path (record_at k s)"
  shows "display_owner (goto_pc t p (set_record k d s)) = (display_owner s)(io_path (record_at k s) := display_mutex d)"
proof
  fix path
  have "map io_path ((lock_records s)[k := d]) = map io_path (lock_records s)"
    using assms(2,3) by (auto intro!: nth_equalityI simp: nth_list_update record_at_def)
  from find_record_cong [OF this] have
    f: "find_lock_record path 0 ((lock_records s)[k := d]) = find_lock_record path 0 (lock_records s)" .
  show "display_owner (goto_pc t p (set_record k d s)) path =
      ((display_owner s)(io_path (record_at k s) := display_mutex d)) path"
  proof (cases "find_lock_record path 0 (lock_records s)")
    case None
    then have "path \<noteq> io_path (record_at k s)" using assms(2) by (auto simp: find_record_None record_at_def)
    then show ?thesis using None f by (simp add: display_owner_def goto_pc_def set_record_def)
  next
    case (Some j)
    then have "j < length (lock_records s)" using find_record_Some by fastforce
    then have "io_path (record_at k s) = path \<longleftrightarrow> j = k"
      using Some find_record_eq [of "lock_records s" k path] assms(1,2) by (auto simp: locks_ok_def record_at_def)
    then show ?thesis
      using Some f assms(2) by (auto simp: display_owner_def goto_pc_def set_record_def record_at_def nth_list_update)
  qed
qed

lemma owner_goto [simp]:
  "display_owner (goto_pc t p s) = display_owner s"
  "display_owner (s\<lparr>master_display_lock_mutex := m\<rparr>) = display_owner s"
  "display_owner (s\<lparr>descriptors_mutex := m\<rparr>) = display_owner s"
  by (auto simp: display_owner_def goto_pc_def record_at_def fun_eq_iff split: option.splits)

lemma find_append:
  "find_lock_record path n (ds @ [d]) =
     (case find_lock_record path n ds of Some k \<Rightarrow> Some k
      | None \<Rightarrow> if io_path d = path then Some (n + length ds) else None)"
  by (induction ds arbitrary: n) (auto split: option.splits)

lemma owner_add:
  "display_owner (s\<lparr>lock_records := lock_records s @ [create_display_lock_record path]\<rparr>) = display_owner s"
proof
  fix q
  show "display_owner (s\<lparr>lock_records := lock_records s @ [create_display_lock_record path]\<rparr>) q =
      display_owner s q"
  proof (cases "find_lock_record q 0 (lock_records s)")
    case (Some k)
    then have "k < length (lock_records s)" using find_record_Some by fastforce
    then show ?thesis using Some by (simp add: display_owner_def goto_pc_def find_append record_at_def nth_append)
  qed (simp add: display_owner_def goto_pc_def find_append record_at_def nth_append create_display_lock_record_def)
qed

text \<open>The step of a thread on the abstract state.\<close>

lemma step_owner:
  assumes ok: "locks_ok s" and t: "t < length (pcs s)" and m: "step_thread t s = Moved s'"
  shows "owner_step t (display_owner s) (display_owner s')"
proof -
  have rl: "\<And>k. record_of (pcs s ! t) = Some k \<Longrightarrow> k < length (lock_records s)"
    using ok t by (auto simp: locks_ok_def)
  have take: "owner_step t (display_owner s)
      (display_owner (goto_pc t p (set_record k ((record_at k s)\<lparr>display_mutex := Some t\<rparr>) s)))"
    if "k < length (lock_records s)" "display_mutex (record_at k s) = None" for k p
    using owner_set_record [OF ok that(1)] owner_at [OF ok that(1)] that(2) by (auto intro: owner_step.take)
  have give: "owner_step t (display_owner s)
      (display_owner (goto_pc t p (set_record k ((record_at k s)\<lparr>display_mutex := None\<rparr>) s)))"
    if "k < length (lock_records s)" "display_mutex (record_at k s) = Some t" for k p
    using owner_set_record [OF ok that(1)] owner_at [OF ok that(1)] that(2) by (auto intro: owner_step.give)
  have note_: "owner_step t (display_owner s)
      (display_owner (goto_pc t p (set_record k ((record_at k s)\<lparr>display_mutex_thread := x\<rparr>) s)))"
    if "k < length (lock_records s)" for k p x
    using owner_set_record [OF ok that] owner_at [OF ok that] owner_step.same by (simp add: fun_upd_idem)
  show ?thesis
    using m take give note_ rl unfolding step_thread_def
    by (cases "pcs s ! t")
      (auto simp: descriptors_lock_def descriptors_unlock_def master_lock_def master_unlock_def
        display_mutex_unlock_def owner_add owner_step.same split: if_splits option.splits)
qed

text \<open>C33 (display_locks_refine_owner_map): In every state that any number of threads can reach by
  calling the functions for locks in any order and interleaving, a thread never unlocks a mutex it
  does not hold, and its step implements a step on the map of owners: nothing changes, the thread
  takes a display nobody has locked, or it gives back a display that it has locked itself.
\<close>

theorem display_locks_refine_owner_map:
  assumes "lock_reachable n s" "t < n"
  shows "case step_thread t s of
     Blocked \<Rightarrow> True
   | Undefined \<Rightarrow> False
   | Moved s' \<Rightarrow> owner_step t (display_owner s) (display_owner s')"
  using step_thread_ok [of s t] step_owner [of s t] reachable_ok [OF assms(1)] assms(2)
  by (auto split: Outcome.splits)

theorem display_locks_refine_owner_map_witness:
  "case step_thread 0 (goto_pc 0 (lock_display_by_dpath (DDCA_IO_I2C 4) False) (init_i2c_display_lock 2)) of
     Blocked \<Rightarrow> True
   | Undefined \<Rightarrow> False
   | Moved s' \<Rightarrow> owner_step 0
       (display_owner (goto_pc 0 (lock_display_by_dpath (DDCA_IO_I2C 4) False) (init_i2c_display_lock 2)))
       (display_owner s')"
proof (rule display_locks_refine_owner_map)
  show "lock_reachable 2 (goto_pc 0 (lock_display_by_dpath (DDCA_IO_I2C 4) False) (init_i2c_display_lock 2))"
    by (rule lock_reachable.call [OF lock_reachable.start], rule lock_call.lock [where r = No_Call])
      (simp_all add: init_i2c_display_lock_def)
qed simp

section \<open>Every call ends\<close>

text \<open>Threads that may still add a record.\<close>

fun may_add :: "Pc \<Rightarrow> bool" where
  "may_add (Lookup _ _) = True"
| "may_add (Search _ _) = True"
| "may_add _ = False"

fun goes_through :: "Pc \<Rightarrow> bool" where
  "goes_through (All_Loop _ _) = True"
| "goes_through (All_Release _ _) = True"
| "goes_through _ = False"

text \<open>The attempts left, and a bound for the steps a thread still makes.\<close>

definition attempts_left :: "int \<Rightarrow> nat" where
  "attempts_left n = nat ((1099 - n) div 100)"

fun steps_left :: "nat \<Rightarrow> nat \<Rightarrow> Pc \<Rightarrow> nat" where
  "steps_left len bound (Idle _) = 0"
| "steps_left len bound (Lookup _ _) = 20"
| "steps_left len bound (Search _ _) = 19"
| "steps_left len bound (Found _ _) = 18"
| "steps_left len bound (Repr_Enter _ _) = 17"
| "steps_left len bound (Repr _ _) = 16"
| "steps_left len bound (Lock_Enter _ _) = 15"
| "steps_left len bound (Lock_Check _ _) = 14"
| "steps_left len bound (Lock_Checked _ _ _) = 13"
| "steps_left len bound (Lock_Wait _) = 2"
| "steps_left len bound (Lock_Try _ n) = attempts_left n + 2"
| "steps_left len bound (Lock_Own _) = 1"
| "steps_left len bound (Unlock_Enter _) = 5"
| "steps_left len bound (Unlock_Check _) = 4"
| "steps_left len bound (Unlock_Release _) = 3"
| "steps_left len bound (Unlock_Leave _) = 2"
| "steps_left len bound All_Enter = 2 * bound + 4"
| "steps_left len bound (All_Loop i _) = 2 * (len - i) + 3"
| "steps_left len bound (All_Release i _) = 2 * (len - i) + 2"
| "steps_left len bound (All_Leave _) = 1"

definition pending :: "Lock_State \<Rightarrow> nat" where
  "pending s = (\<Sum>t < length (pcs s). if may_add (pcs s ! t) then 1 else 0)"

definition record_bound :: "Lock_State \<Rightarrow> nat" where
  "record_bound s = length (lock_records s) + pending s"

definition work_left :: "Lock_State \<Rightarrow> nat" where
  "work_left s = (\<Sum>t < length (pcs s). steps_left (length (lock_records s)) (record_bound s) (pcs s ! t))"

lemma attempts_left_next: "n < 1000 \<Longrightarrow> attempts_left n = Suc (attempts_left (n + 100))"
  by (simp add: attempts_left_def)

lemma steps_left_mono:
  "bound' \<le> bound \<Longrightarrow> len' = len \<or> \<not> goes_through p \<Longrightarrow> steps_left len' bound' p \<le> steps_left len bound p"
  by (cases p) auto

lemma pending_moved:
  assumes "t < length (pcs s)" "pcs s' = (pcs s)[t := p]"
  shows "pending s' + (if may_add (pcs s ! t) then 1 else 0) = pending s + (if may_add p then 1 else 0)"
proof -
  let ?I = "{..<length (pcs s)}"
  let ?f = "\<lambda>u. if may_add (pcs s ! u) then 1 else (0::nat)"
  let ?g = "\<lambda>u. if may_add ((pcs s)[t := p] ! u) then 1 else (0::nat)"
  have f: "finite ?I" "t \<in> ?I" using assms(1) by simp_all
  have "sum ?g (?I - {t}) = sum ?f (?I - {t})" by (rule sum.cong) auto
  then have "sum ?g ?I + ?f t = sum ?f ?I + ?g t"
    using sum.remove [OF f, of ?f] sum.remove [OF f, of ?g] by simp
  then show ?thesis unfolding pending_def assms(2) using assms(1) by simp
qed

lemma work_less:
  assumes t: "t < length (pcs s)" and p: "pcs s' = (pcs s)[t := p]"
    and b: "record_bound s' \<le> record_bound s"
    and l: "length (lock_records s') = length (lock_records s) \<or>
      (\<forall>u < length (pcs s). u \<noteq> t \<longrightarrow> \<not> goes_through (pcs s ! u))"
    and d: "steps_left (length (lock_records s')) (record_bound s') p <
      steps_left (length (lock_records s)) (record_bound s) (pcs s ! t)"
  shows "work_left s' < work_left s"
proof -
  have len: "length (pcs s') = length (pcs s)" using p by simp
  show ?thesis
    unfolding work_left_def len
  proof (rule sum_strict_mono_ex1)
    show "\<forall>u \<in> {..<length (pcs s)}. steps_left (length (lock_records s')) (record_bound s') (pcs s' ! u) \<le>
        steps_left (length (lock_records s)) (record_bound s) (pcs s ! u)"
    proof
      fix u assume u: "u \<in> {..<length (pcs s)}"
      show "steps_left (length (lock_records s')) (record_bound s') (pcs s' ! u) \<le>
          steps_left (length (lock_records s)) (record_bound s) (pcs s ! u)"
        using d p t u l steps_left_mono [OF b] by (cases "u = t") auto
    qed
    show "\<exists>u \<in> {..<length (pcs s)}. steps_left (length (lock_records s')) (record_bound s') (pcs s' ! u) <
        steps_left (length (lock_records s)) (record_bound s) (pcs s ! u)"
      using d p t by (intro bexI [of _ t]) auto
  qed simp
qed

text \<open>A step that leaves the number of records alone.\<close>

lemma work_less_move:
  assumes "t < length (pcs s)" "pcs s' = (pcs s)[t := p]" "length (lock_records s') = length (lock_records s)"
    "may_add p \<longrightarrow> may_add (pcs s ! t)"
    "\<forall>b b'. b' \<le> b \<and> length (lock_records s) \<le> b \<longrightarrow>
      steps_left (length (lock_records s)) b' p < steps_left (length (lock_records s)) b (pcs s ! t)"
  shows "work_left s' < work_left s"
proof (rule work_less [OF assms(1,2)])
  show b: "record_bound s' \<le> record_bound s"
    using pending_moved [OF assms(1,2)] assms(3,4) by (auto simp: record_bound_def split: if_splits)
  show "steps_left (length (lock_records s')) (record_bound s') p <
      steps_left (length (lock_records s)) (record_bound s) (pcs s ! t)"
    using assms(5) b assms(3) by (simp add: record_bound_def)
qed (use assms(3) in simp)

lemma work_less_goto:
  assumes "t < length (pcs s)" "may_add p \<longrightarrow> may_add (pcs s ! t)"
    "\<forall>b b'. b' \<le> b \<and> length (lock_records s) \<le> b \<longrightarrow>
      steps_left (length (lock_records s)) b' p < steps_left (length (lock_records s)) b (pcs s ! t)"
  shows "work_left (goto_pc t p s) < work_left s" "work_left (goto_pc t p (s\<lparr>master_display_lock_mutex := m\<rparr>)) < work_left s"
    "work_left (goto_pc t p (s\<lparr>descriptors_mutex := m\<rparr>)) < work_left s" "work_left (goto_pc t p (set_record k d s)) < work_left s"
  using assms by (auto intro!: work_less_move simp: goto_pc_def set_record_def)

lemma step_work:
  assumes ok: "locks_ok s" and t: "t < length (pcs s)" and m: "step_thread t s = Moved s'"
  shows "work_left s' < work_left s"
proof (cases "pcs s ! t")
  case (Search c path)
  show ?thesis
  proof (cases "find_lock_record path 0 (lock_records s)")
    case None
    have h: "descriptors_mutex s = Some t" "\<forall>u < length (pcs s). goes_through (pcs s ! u) \<longrightarrow> u = t"
    proof -
      have "module_mutex_ok holds_descriptors (descriptors_mutex s) (pcs s)" using ok by (simp add: locks_ok_def)
      then have e: "holds_descriptors (pcs s ! u) \<longleftrightarrow> descriptors_mutex s = Some u" if "u < length (pcs s)" for u
        using that by (simp add: module_mutex_ok_def)
      show d: "descriptors_mutex s = Some t" using e [OF t] Search by simp
      show "\<forall>u < length (pcs s). goes_through (pcs s ! u) \<longrightarrow> u = t"
      proof (intro allI impI)
        fix u assume u: "u < length (pcs s)" "goes_through (pcs s ! u)"
        then have "holds_descriptors (pcs s ! u)" by (cases "pcs s ! u") auto
        then show "u = t" using e [OF u(1)] d by simp
      qed
    qed
    show ?thesis
    proof (rule work_less [OF t])
      show p: "pcs s' = (pcs s)[t := Found c (length (lock_records s))]"
        using m Search None by (auto simp: step_thread_def goto_pc_def)
      show "record_bound s' \<le> record_bound s"
        using pending_moved [OF t p] m Search None by (auto simp: step_thread_def goto_pc_def record_bound_def)
    qed (use h Search in auto)
  next
    case (Some k)
    then show ?thesis
      using m Search t by (auto simp: step_thread_def work_less_goto)
  qed
next
  case (Lock_Try k n)
  then show ?thesis
    using m t attempts_left_next [of n] by (auto simp: step_thread_def work_less_goto split: if_splits)
next
  case (All_Loop i ct)
  have "i < length (lock_records s) \<Longrightarrow> length (lock_records s) - Suc i < length (lock_records s) - i" by simp
  then show ?thesis
    using m t All_Loop by (auto simp: step_thread_def work_less_goto split: if_splits)
next
  case (All_Release i ct)
  then have "i < length (lock_records s)" using ok t by (simp add: locks_ok_def)
  then have "2 * (length (lock_records s) - Suc i) + 3 < 2 * (length (lock_records s) - i) + 2" by arith
  then show ?thesis
    using m t All_Release by (auto simp: step_thread_def display_mutex_unlock_def work_less_goto split: if_splits)
qed (use m t in \<open>auto simp: step_thread_def work_less_goto descriptors_lock_def descriptors_unlock_def
      master_lock_def master_unlock_def display_mutex_unlock_def attempts_left_def split: if_splits Lock_Call.splits\<close>)

text \<open>A thread that holds a mutex of the module can move.\<close>

lemma holder_moves:
  assumes "locks_ok s" "t < length (pcs s)" "holds_master (pcs s ! t) \<or> holds_descriptors (pcs s ! t)"
  shows "\<exists>s'. step_thread t s = Moved s'"
  using step_thread_ok [OF assms(1,2)] assms(3)
  by (cases "pcs s ! t")
    (auto simp: step_thread_def descriptors_unlock_def master_unlock_def display_mutex_unlock_def split: option.splits if_splits)

text \<open>Where a thread is when no thread can move.\<close>

definition waits_for_other :: "nat \<Rightarrow> Lock_State \<Rightarrow> bool" where
  "waits_for_other t s \<longleftrightarrow>
     (\<exists>k u. pcs s ! t = Lock_Wait k \<and> u \<noteq> t \<and> display_owner s (io_path (record_at k s)) = Some u)"

lemma stuck_idle:
  assumes ok: "locks_ok s"
    and stuck: "\<And>t s'. t < length (pcs s) \<Longrightarrow> step_thread t s \<noteq> Moved s'" and t: "t < length (pcs s)"
  shows "(\<exists>r. pcs s ! t = Idle r) \<or> waits_for_other t s"
proof -
  have mm: "module_mutex_ok holds_master (master_display_lock_mutex s) (pcs s)"
    and dm: "module_mutex_ok holds_descriptors (descriptors_mutex s) (pcs s)"
    using ok by (simp_all add: locks_ok_def)
  have m: "master_display_lock_mutex s = None"
  proof (rule ccontr)
    assume "master_display_lock_mutex s \<noteq> None"
    then obtain u where "master_display_lock_mutex s = Some u" "u < length (pcs s)" "holds_master (pcs s ! u)"
      using mm by (auto simp: module_mutex_ok_def)
    then show False using holder_moves [OF ok, of u] stuck by blast
  qed
  have d: "descriptors_mutex s = None"
  proof (rule ccontr)
    assume "descriptors_mutex s \<noteq> None"
    then obtain u where "descriptors_mutex s = Some u" "u < length (pcs s)" "holds_descriptors (pcs s ! u)"
      using dm by (auto simp: module_mutex_ok_def)
    then show False using holder_moves [OF ok, of u] stuck by blast
  qed
  have nh: "\<not> holds_master (pcs s ! t)" "\<not> holds_descriptors (pcs s ! t)"
    using holder_moves [OF ok t] stuck [OF t] by blast+
  show ?thesis
  proof (cases "pcs s ! t")
    case (Lock_Wait k)
    then have k: "k < length (lock_records s)" using ok t by (simp add: locks_ok_def)
    have "display_mutex (record_at k s) \<noteq> None"
    proof
      assume "display_mutex (record_at k s) = None"
      then have "\<exists>s'. step_thread t s = Moved s'" using Lock_Wait by (simp add: step_thread_def)
      then show False using stuck [OF t] by blast
    qed
    then obtain u where u: "display_mutex (record_at k s) = Some u" by blast
    have "record_ok (pcs s) k (record_at k s)" using ok k by (simp add: locks_ok_def record_at_def)
    then have "u \<noteq> t" using u Lock_Wait by (auto simp: record_ok_def)
    then show ?thesis using Lock_Wait u owner_at [OF ok k] by (auto simp: waits_for_other_def)
  next
    case (Lock_Try k i)
    then have "\<exists>s'. step_thread t s = Moved s'" by (simp add: step_thread_def)
    then show ?thesis using stuck [OF t] by blast
  qed (use stuck [OF t] m d nh in \<open>auto simp: step_thread_def descriptors_lock_def master_lock_def split: if_splits\<close>)
qed

text \<open>A run of \<open>k\<close> steps, in which no further function is called.\<close>

inductive lock_run :: "Lock_State \<Rightarrow> nat \<Rightarrow> Lock_State \<Rightarrow> bool" where
  stop: "lock_run s 0 s"
| more: "lock_step s s' \<Longrightarrow> lock_run s' k s'' \<Longrightarrow> lock_run s (Suc k) s''"

lemma lock_run_good:
  "lock_run s k s' \<Longrightarrow> locks_ok s \<Longrightarrow>
     locks_ok s' \<and> length (pcs s') = length (pcs s) \<and> k + work_left s' \<le> work_left s"
proof (induction rule: lock_run.induct)
  case (stop s)
  then show ?case by simp
next
  case (more s s1 k s2)
  from more.hyps(1) obtain t where t: "t < length (pcs s)" "step_thread t s = Moved s1" by (auto elim: lock_step.cases)
  have ok: "locks_ok s1" using step_thread_ok [OF more.prems t(1)] t(2) by simp
  show ?case using more.IH [OF ok] step_pcs_length [OF t(2)] step_work [OF more.prems t] by simp
qed

text \<open>C34 (lock_calls_end): From every state that the threads can reach, every run of the calls in progress
  ends, whatever the interleaving, after at most \<open>work_left\<close> steps. When no thread can move any more, every
  call has returned, but for those that were told to wait without limit (\<^verbatim>\<open>DDISP_WAIT\<close>) for a display that
  another thread has locked. So no thread ever waits for itself, and the two mutexes of the module, which a
  lookup takes twice, are never in a deadlock.
\<close>

theorem lock_calls_end:
  assumes "lock_reachable n s" "lock_run s k s'"
  shows "k \<le> work_left s \<and>
    ((\<nexists>s''. lock_step s' s'') \<longrightarrow> (\<forall>t < n. (\<exists>r. pcs s' ! t = Idle r) \<or> waits_for_other t s'))"
proof -
  have ok: "locks_ok s" "length (pcs s) = n" using reachable_ok [OF assms(1)] by simp_all
  have g: "locks_ok s'" "length (pcs s') = n" "k + work_left s' \<le> work_left s"
    using lock_run_good [OF assms(2) ok(1)] ok(2) by simp_all
  have "(\<exists>r. pcs s' ! t = Idle r) \<or> waits_for_other t s'" if "\<nexists>s''. lock_step s' s''" "t < n" for t
  proof (rule stuck_idle [OF g(1)])
    show "step_thread u s' \<noteq> Moved x" if "u < length (pcs s')" for u x
      using \<open>\<nexists>s''. lock_step s' s''\<close> lock_step.run [OF that] by blast
    show "t < length (pcs s')" using that(2) g(2) by simp
  qed
  then show ?thesis using g(3) by simp
qed

text \<open>Two threads that lock the same display.\<close>

definition two_callers :: Lock_State where
  "two_callers =
     goto_pc 1 (lock_display_by_dpath (DDCA_IO_I2C 4) False)
       (goto_pc 0 (lock_display_by_dpath (DDCA_IO_I2C 4) False) (init_i2c_display_lock 2))"

lemma two_callers_pcs:
  "pcs two_callers = [Lookup (Lock_Display False) (DDCA_IO_I2C 4), Lookup (Lock_Display False) (DDCA_IO_I2C 4)]"
  by (simp add: two_callers_def goto_pc_def init_i2c_display_lock_def lock_display_by_dpath_def numeral_2_eq_2)

lemma two_callers_reachable: "lock_reachable 2 two_callers"
  unfolding two_callers_def
  by (rule lock_reachable.call [OF lock_reachable.call [OF lock_reachable.start]];
      rule lock_call.lock [where r = No_Call])
    (simp_all add: goto_pc_def init_i2c_display_lock_def)

theorem lock_calls_end_witness:
  "\<exists>s'. lock_run two_callers 1 s' \<and> 1 \<le> work_left two_callers"
proof -
  obtain s' where s': "step_thread 0 two_callers = Moved s'"
    by (simp add: step_thread_def two_callers_pcs descriptors_lock_def)
      (simp add: two_callers_def goto_pc_def init_i2c_display_lock_def)
  have "lock_run two_callers 1 s'"
    using lock_run.more [OF lock_step.run [OF _ s'] lock_run.stop] by (simp add: two_callers_pcs)
  then show ?thesis
    using lock_calls_end [OF two_callers_reachable] by blast
qed

section \<open>What a call for a lock returns\<close>

text \<open>A thread that found itself as the owner still is.\<close>

definition self_noted :: "Lock_State \<Rightarrow> bool" where
  "self_noted s \<longleftrightarrow> (\<forall>t < length (pcs s). \<forall>k wait.
     pcs s ! t = Lock_Checked k wait True \<longrightarrow> display_mutex_thread (record_at k s) = Some t)"

lemma noted_elsewhere:
  assumes "locks_ok s" "u < length (pcs s)" "k < length (lock_records s)" "display_mutex_thread (record_at k s) = Some t"
    "between (pcs s ! u) = Some k"
  shows "u = t"
proof -
  have "record_ok (pcs s) k (record_at k s)" using assms(1,3) by (simp add: locks_ok_def record_at_def)
  from record_holder [OF this assms(5,2)] record_owner [OF this assms(4)] show ?thesis by simp
qed

lemma nth_update_if: "k < length xs \<Longrightarrow> xs[j := d] ! k = (if j = k then d else xs ! k)"
  by (cases "j = k") auto

lemma step_self_noted:
  assumes ok: "locks_ok s" and u: "u < length (pcs s)" and m: "step_thread u s = Moved s'" and n: "self_noted s"
  shows "self_noted s'"
  unfolding self_noted_def
proof (intro allI impI)
  fix t k wait assume t: "t < length (pcs s')" and p: "pcs s' ! t = Lock_Checked k wait True"
  have t': "t < length (pcs s)" using t step_pcs_length [OF m] by simp
  show "display_mutex_thread (record_at k s') = Some t"
  proof (cases "t = u")
    case True
    then show ?thesis
      using m p t' unfolding step_thread_def
      by (cases "pcs s ! u")
        (auto simp: goto_pc_def set_record_def record_at_def descriptors_lock_def descriptors_unlock_def master_lock_def
          master_unlock_def display_mutex_unlock_def split: if_splits option.splits Lock_Call.splits)
  next
    case False
    then have q: "pcs s ! t = Lock_Checked k wait True"
      using m p t' unfolding step_thread_def
      by (cases "pcs s ! u")
        (auto simp: goto_pc_def set_record_def descriptors_lock_def descriptors_unlock_def master_lock_def
          master_unlock_def display_mutex_unlock_def split: if_splits option.splits Lock_Call.splits)
    then have k: "k < length (lock_records s)" using ok t' by (simp add: locks_ok_def)
    have o: "display_mutex_thread (record_at k s) = Some t" using n q t' by (auto simp: self_noted_def)
    have b: "between (pcs s ! u) \<noteq> Some k" using noted_elsewhere [OF ok u k o] False by blast
    show ?thesis
      using m o b k False unfolding step_thread_def
      by (cases "pcs s ! u")
        (auto simp: goto_pc_def set_record_def record_at_def descriptors_lock_def descriptors_unlock_def master_lock_def
          master_unlock_def display_mutex_unlock_def nth_update_if nth_append split: if_splits option.splits)
  qed
qed

lemma reachable_self_noted: "lock_reachable n s \<Longrightarrow> self_noted s"
proof (induction rule: lock_reachable.induct)
  case start
  then show ?case by (simp add: self_noted_def init_i2c_display_lock_def)
next
  case (call s s')
  from call.hyps(2) call.IH show ?case
    by cases (auto simp: self_noted_def goto_pc_def record_at_def nth_list_update lock_display_by_dpath_def
        unlock_display_by_dpath_def unlock_all_displays_for_current_thread_def split: if_splits)
next
  case (step s s')
  from step.hyps(2) step.IH reachable_ok [OF step.hyps(1)] show ?case
    by (auto elim!: lock_step.cases intro: step_self_noted)
qed

text \<open>C35 (lock_call_results): A call that locks a display returns 0 when the thread has just become
  the owner of the display, \<^verbatim>\<open>DDCRC_ALREADY_OPEN\<close> when it was the owner already, and
  \<^verbatim>\<open>DDCRC_LOCKED\<close> when it is not the owner; in the last two cases the owners do not change.
\<close>

theorem lock_call_results:
  assumes "lock_reachable n s" "t < n" "step_thread t s = Moved s'"
    "record_of (pcs s ! t) = Some k" "pcs s' ! t = Idle (Returned rc)"
  shows "let path = io_path (record_at k s) in
    rc = 0 \<and> display_owner s' path = Some t \<or>
    rc = DDCRC_ALREADY_OPEN \<and> display_owner s path = Some t \<and> display_owner s' = display_owner s \<or>
    rc = DDCRC_LOCKED \<and> display_owner s path \<noteq> Some t \<and> display_owner s' = display_owner s"
proof -
  have ok: "locks_ok s" and t: "t < length (pcs s)" using reachable_ok [OF assms(1)] assms(2) by simp_all
  have k: "k < length (lock_records s)" using ok t assms(4) by (simp add: locks_ok_def)
  have r: "record_ok (pcs s) k (record_at k s)" using ok k by (simp add: locks_ok_def record_at_def)
  note o = owner_at [OF ok k]
  show ?thesis
  proof (cases "pcs s ! t")
    case (Lock_Checked j w self_thread)
    then have j: "j = k" "self_thread" "rc = DDCRC_ALREADY_OPEN"
      "s' = goto_pc t (Idle (Returned DDCRC_ALREADY_OPEN)) (s\<lparr>master_display_lock_mutex := None\<rparr>)"
      using assms(3-5) t by (auto simp: step_thread_def master_unlock_def goto_pc_def split: if_splits)
    then have "display_mutex_thread (record_at k s) = Some t"
      using reachable_self_noted [OF assms(1)] Lock_Checked t by (auto simp: self_noted_def)
    then show ?thesis using record_owner [OF r] o j by (simp add: Let_def)
  next
    case (Lock_Try j i)
    then have "display_mutex (record_at k s) \<noteq> Some t" "rc = DDCRC_LOCKED" "s' = goto_pc t (Idle (Returned DDCRC_LOCKED)) s"
      using assms(3-5) r t by (auto simp: step_thread_def goto_pc_def set_record_def record_ok_def split: if_splits)
    then show ?thesis using o by (simp add: Let_def)
  next
    case (Lock_Own j)
    then have j: "j = k" "rc = 0"
      "s' = goto_pc t (Idle (Returned 0)) (set_record k ((record_at k s)\<lparr>display_mutex_thread := Some t\<rparr>) s)"
      using assms(3-5) t by (auto simp: step_thread_def goto_pc_def set_record_def)
    have "display_mutex (record_at k s) = Some t" using record_holder [OF r, of t] Lock_Own j(1) t by simp
    then show ?thesis using owner_set_record [OF ok k, of "(record_at k s)\<lparr>display_mutex_thread := Some t\<rparr>" t] j
      by (simp add: Let_def)
  qed (use assms(3-5) t in \<open>auto simp: step_thread_def goto_pc_def set_record_def descriptors_lock_def descriptors_unlock_def
      master_lock_def master_unlock_def display_mutex_unlock_def split: if_splits option.splits Lock_Call.splits\<close>)
qed

text \<open>A thread that runs alone.\<close>

fun steps_alone :: "nat \<Rightarrow> nat \<Rightarrow> Lock_State \<Rightarrow> Lock_State option" where
  "steps_alone t 0 s = Some s"
| "steps_alone t (Suc k) s = (case step_thread t s of Moved s' \<Rightarrow> steps_alone t k s' | _ \<Rightarrow> None)"

lemma alone_reachable:
  "lock_reachable n s \<Longrightarrow> t < n \<Longrightarrow> steps_alone t k s = Some s' \<Longrightarrow> lock_reachable n s'"
proof (induction k arbitrary: s)
  case (Suc k)
  then obtain s1 where s1: "step_thread t s = Moved s1" "steps_alone t k s1 = Some s'"
    by (auto split: Outcome.splits)
  have "lock_reachable n s1"
    using Suc.prems(1,2) reachable_ok [OF Suc.prems(1)] s1(1) by (auto intro: lock_reachable.step lock_step.run)
  then show ?case using Suc.IH Suc.prems(2) s1(2) by blast
qed simp

text \<open>Thread 0 is about to note that it has the display.\<close>

definition taken_display :: Lock_State where
  "taken_display =
     \<lparr>lock_records = [\<lparr>io_path = DDCA_IO_I2C 4, display_mutex = Some 0, display_mutex_thread = None\<rparr>],
      descriptors_mutex = None, master_display_lock_mutex = None,
      pcs = [Lock_Own 0, Lookup (Lock_Display False) (DDCA_IO_I2C 4)]\<rparr>"

lemma taken_display_reachable: "lock_reachable 2 taken_display"
proof (rule alone_reachable [OF two_callers_reachable])
  show "steps_alone 0 9 two_callers = Some taken_display" by code_simp
qed simp

theorem lock_call_results_witness:
  "case step_thread 0 taken_display of
     Moved s' \<Rightarrow> pcs s' ! 0 = Idle (Returned 0) \<and> display_owner s' (DDCA_IO_I2C 4) = Some 0
   | _ \<Rightarrow> False"
proof -
  obtain s' where s': "step_thread 0 taken_display = Moved s'" "pcs s' ! 0 = Idle (Returned 0)"
    by (simp add: step_thread_def taken_display_def goto_pc_def set_record_def)
  have "record_of (pcs taken_display ! 0) = Some 0" "io_path (record_at 0 taken_display) = DDCA_IO_I2C 4"
    by (simp_all add: taken_display_def record_at_def)
  then show ?thesis
    using lock_call_results [OF taken_display_reachable _ s'(1) _ s'(2)] s' by (simp add: Let_def)
qed

end
