(* ===== verification/Display_Open.thy ===== *)
theory Display_Open
  imports Initial_Checks Display_Locks
begin

text \<open>
  Opening and closing of displays: the I2C device with its two locks
  (\<^verbatim>\<open>i2c_open_bus\<close> and \<^verbatim>\<open>i2c_close_bus\<close> in \<^verbatim>\<open>src/src/i2c/i2c_bus_core.c\<close>, \<^verbatim>\<open>src/src/base/flock.c\<close>), the display
  handles and the tables of open displays (\<^verbatim>\<open>src/src/ddc/ddc_packet_io.c\<close>), and the functions that open a display
  for a while. The locks of displays are the map of owners that \<open>Display_Locks\<close> implements, seen from one
  thread; the others take and give back locks whenever this one asks for or gives back one. USB displays, sleeps and the writing of \<^verbatim>\<open>detect\<close> to sysfs, an option off by default, are left out.
\<close>

abbreviation ENOENT :: int where "ENOENT \<equiv> 2"
abbreviation EACCES :: int where "EACCES \<equiv> 13"
abbreviation EWOULDBLOCK :: int where "EWOULDBLOCK \<equiv> 11"
abbreviation DDCRC_INVALID_OPERATION :: int where "DDCRC_INVALID_OPERATION \<equiv> -3014"
abbreviation DDCRC_FLOCKED :: int where "DDCRC_FLOCKED \<equiv> -3031"

section \<open>State\<close>

text \<open>
  The calls of the operating system: a file descriptor or the errno for \<^verbatim>\<open>open()\<close> (for reading only if the
  flag is set), 0 or the errno for \<^verbatim>\<open>close()\<close> and \<^verbatim>\<open>flock()\<close>, and the attribute \<^verbatim>\<open>status\<close> of a DRM
  connector, by the number of the attempt to read it. \<open>other_threads\<close> is what the other threads do with the
  locks of displays while this thread, the first argument, is at a call for a lock.
\<close>

record 'w File_Ops =
  open_device :: "nat \<Rightarrow> bool \<Rightarrow> 'w \<Rightarrow> (int + nat) \<times> 'w"
  close_device :: "nat \<Rightarrow> 'w \<Rightarrow> int \<times> 'w"
  flock_exclusive :: "nat \<Rightarrow> 'w \<Rightarrow> int \<times> 'w"
  flock_unlock :: "nat \<Rightarrow> 'w \<Rightarrow> int \<times> 'w"
  connector_status :: "string \<Rightarrow> nat \<Rightarrow> 'w \<Rightarrow> string option"
  other_threads :: "nat \<Rightarrow> (nat \<Rightarrow> nat option) \<Rightarrow> 'w \<Rightarrow> (nat \<Rightarrow> nat option) \<times> 'w"

record Open_Config =
  cross_instance_locks_enabled :: bool
  flock_poll_millisec :: int
  flock_max_wait_millisec :: int

record Call_Options =
  CALLOPT_RDONLY :: bool
  CALLOPT_WAIT :: bool

record Display_Ref =
  dref_busno :: nat
  dref_flags :: Dref_Flags
  detail :: "Bus_Info option"
  bus_edid :: bool
  bus_driver :: "string option"
  drm_connector :: "string option"

text \<open>A handle whose file descriptor is \<open>None\<close> is closed; \<open>dh_dref\<close> is the place of its display reference.\<close>

record Display_Handle =
  dh_fd :: "nat option"
  dh_dref :: nat

text \<open>
  What one thread works on. \<open>handles\<close> are the handles ever created, \<open>None\<close> when freed; the two tables
  hold places of handles.
\<close>

record 'w Session =
  sdev :: 'w
  self_thread :: nat
  display_locks :: "nat \<Rightarrow> nat option"
  drefs :: "Display_Ref list"
  handles :: "Display_Handle option list"
  open_displays :: "nat list"
  open_displays_for_thread :: "nat list option"

section \<open>Locks\<close>

definition others_act :: "'w File_Ops \<Rightarrow> 'w Session \<Rightarrow> 'w Session" where
  "others_act ops s =
     (case other_threads ops (self_thread s) (display_locks s) (sdev s) of
        (locks, w) \<Rightarrow> s\<lparr>display_locks := locks, sdev := w\<rparr>)"

text \<open>
  The attempts of \<^verbatim>\<open>lock_display\<close> to get the mutex of the display, with the number left; as \<open>step_pc\<close> says, with
  the steps of this thread on the map of owners.
\<close>

fun lock_attempts :: "'w File_Ops \<Rightarrow> nat \<Rightarrow> nat \<Rightarrow> 'w Session \<Rightarrow> int \<times> 'w Session" where
  "lock_attempts ops bus 0 s = (DDCRC_LOCKED, s)"
| "lock_attempts ops bus (Suc n) s =
     (let s = others_act ops s
      in if display_locks s bus = None
         then (0, s\<lparr>display_locks := (display_locks s)(bus := Some (self_thread s))\<rparr>)
         else lock_attempts ops bus n s)"

definition lock_bus :: "'w File_Ops \<Rightarrow> nat \<Rightarrow> 'w Session \<Rightarrow> int \<times> 'w Session" where
  "lock_bus ops bus s =
     (let s = others_act ops s
      in if display_locks s bus = Some (self_thread s) then (DDCRC_ALREADY_OPEN, s) else lock_attempts ops bus 10 s)"

definition unlock_bus :: "'w File_Ops \<Rightarrow> nat \<Rightarrow> 'w Session \<Rightarrow> int \<times> 'w Session" where
  "unlock_bus ops bus s =
     (let s = others_act ops s
      in if display_locks s bus = Some (self_thread s)
         then (0, s\<lparr>display_locks := (display_locks s)(bus := None)\<rparr>) else (DDCRC_LOCKED, s))"

text \<open>
  The loop of \<^verbatim>\<open>flock_lock_by_fd\<close>; it may not end if the time to poll is not positive. The time waited is
  compared with a 64 bit unsigned number.
\<close>

partial_function (option) flock_loop ::
    "'w File_Ops \<Rightarrow> Open_Config \<Rightarrow> nat \<Rightarrow> int \<Rightarrow> int \<Rightarrow> 'w \<Rightarrow> (int \<times> 'w) option" where
  "flock_loop ops cfg fd max_wait_millisec total_wait_millisec w =
     (case flock_exclusive ops fd w of (errsv, w) \<Rightarrow>
        if errsv = 0 then Some (0, w)
        else if total_wait_millisec mod 2 ^ 64 > max_wait_millisec mod 2 ^ 64 then Some (DDCRC_FLOCKED, w)
        else if errsv \<noteq> EWOULDBLOCK then Some (- errsv, w)
        else flock_loop ops cfg fd max_wait_millisec (total_wait_millisec + flock_poll_millisec cfg) w)"

definition flock_lock_by_fd ::
    "'w File_Ops \<Rightarrow> Open_Config \<Rightarrow> nat \<Rightarrow> bool \<Rightarrow> 'w \<Rightarrow> (int \<times> 'w) option" where
  "flock_lock_by_fd ops cfg fd wait w =
     flock_loop ops cfg fd (if wait then flock_max_wait_millisec cfg else 0) 0 w"

text \<open>The result is the errno, not its negative.\<close>

definition flock_unlock_by_fd :: "'w File_Ops \<Rightarrow> Open_Config \<Rightarrow> nat \<Rightarrow> 'w \<Rightarrow> (int \<times> 'w) option" where
  "flock_unlock_by_fd ops cfg fd w = do {
     c_assert (cross_instance_locks_enabled cfg);
     Some (flock_unlock ops fd w)
   }"

section \<open>The I2C device\<close>

definition i2c_open_bus_basic ::
    "'w File_Ops \<Rightarrow> nat \<Rightarrow> Call_Options \<Rightarrow> 'w Session \<Rightarrow> (Error_Info option \<times> nat option) \<times> 'w Session" where
  "i2c_open_bus_basic ops bus callopts s =
     (case open_device ops bus (CALLOPT_RDONLY callopts) (sdev s) of
        (Inl errsv, w) \<Rightarrow> ((Some (err_new (- errsv)), None), s\<lparr>sdev := w\<rparr>)
      | (Inr fd, w) \<Rightarrow> ((None, Some fd), s\<lparr>sdev := w\<rparr>))"

text \<open>
  The body of the loop: the error, the file descriptor if there is none, and whether the loop is
  to end because the device cannot be opened at all.
\<close>

definition try_open ::
    "'w File_Ops \<Rightarrow> Open_Config \<Rightarrow> nat \<Rightarrow> Call_Options \<Rightarrow> 'w Session \<Rightarrow>
     ((Error_Info option \<times> nat option \<times> bool) \<times> 'w Session) option" where
  "try_open ops cfg bus callopts s = do {
     let (lock_rc, s) = lock_bus ops bus s;
     (if lock_rc \<noteq> 0 then Some ((Some (err_new lock_rc), None, False), s)
      else do {
        let ((cur_error, fd), s) = i2c_open_bus_basic ops bus callopts s;
        let give_up = (case cur_error of None \<Rightarrow> False
                       | Some e \<Rightarrow> status_code e = - EACCES \<or> status_code e = - ENOENT);
        (cur_error, s) \<leftarrow>
          (case fd of
             None \<Rightarrow> Some (cur_error, s)
           | Some f \<Rightarrow>
               if cross_instance_locks_enabled cfg
               then do {
                 (flockrc, w) \<leftarrow> flock_lock_by_fd ops cfg f (CALLOPT_WAIT callopts) (sdev s);
                 Some (if flockrc \<noteq> 0 then Some (err_new flockrc) else None, s\<lparr>sdev := w\<rparr>)
               }
               else Some (None, s));
        (if cur_error = None then Some ((None, fd, False), s)
         else do {
           let s = (case fd of None \<Rightarrow> s | Some f \<Rightarrow> s\<lparr>sdev := snd (close_device ops f (sdev s))\<rparr>);
           let (unlock_rc, s) = unlock_bus ops bus s;
           c_assert (unlock_rc = 0);
           Some ((cur_error, None, give_up), s)
         })
      })
   }"

definition add_open_error :: "Error_Info option \<Rightarrow> Error_Info \<Rightarrow> Error_Info" where
  "add_open_error master_error cur_error =
     (case master_error of None \<Rightarrow> cur_error
      | Some m \<Rightarrow> m\<lparr>causes := causes m @ [status_code cur_error]\<rparr>)"

text \<open>The loop, with the time waited; at most eleven attempts.\<close>

function open_loop ::
    "'w File_Ops \<Rightarrow> Open_Config \<Rightarrow> nat \<Rightarrow> Call_Options \<Rightarrow> int \<Rightarrow> Error_Info option \<Rightarrow> 'w Session \<Rightarrow>
     ((Error_Info option \<times> nat option) \<times> 'w Session) option" where
  "open_loop ops cfg bus callopts total_wait_millisec master_error s =
     (if total_wait_millisec > DEFAULT_OPEN_MAX_WAIT_MILLISEC then Some ((master_error, None), s)
      else do {
        ((cur_error, fd, give_up), s) \<leftarrow> try_open ops cfg bus callopts s;
        (case cur_error of
           None \<Rightarrow> Some ((None, fd), s)
         | Some e \<Rightarrow>
             open_loop ops cfg bus callopts
               ((if give_up then DEFAULT_OPEN_MAX_WAIT_MILLISEC + 1 else total_wait_millisec) +
                DEFAULT_OPEN_WAIT_INTERVAL_MILLISEC)
               (Some (add_open_error master_error e)) s)
      })"
  by pat_completeness auto
termination
  by (relation "measure (\<lambda>(ops, cfg, b, c, total, m, s). nat (1001 - total))") auto

definition i2c_open_bus ::
    "'w File_Ops \<Rightarrow> Open_Config \<Rightarrow> nat \<Rightarrow> Call_Options \<Rightarrow> 'w Session \<Rightarrow>
     ((Error_Info option \<times> nat option) \<times> 'w Session) option" where
  "i2c_open_bus ops cfg bus callopts s = open_loop ops cfg bus callopts 0 None s"

definition i2c_close_bus_basic :: "'w File_Ops \<Rightarrow> nat \<Rightarrow> 'w Session \<Rightarrow> int \<times> 'w Session" where
  "i2c_close_bus_basic ops fd s = (case close_device ops fd (sdev s) of (errsv, w) \<Rightarrow> (- errsv, s\<lparr>sdev := w\<rparr>))"

definition i2c_close_bus ::
    "'w File_Ops \<Rightarrow> Open_Config \<Rightarrow> nat \<Rightarrow> nat \<Rightarrow> 'w Session \<Rightarrow> (int \<times> 'w Session) option" where
  "i2c_close_bus ops cfg bus fd s = do {
     s \<leftarrow> (if cross_instance_locks_enabled cfg
           then do { (rc, w) \<leftarrow> flock_unlock_by_fd ops cfg fd (sdev s); Some (s\<lparr>sdev := w\<rparr>) }
           else Some s);
     let (result, s) = i2c_close_bus_basic ops fd s;
     c_assert (result = 0);
     let (erec, s) = unlock_bus ops bus s;
     Some (result, s)
   }"

section \<open>Display handles\<close>

definition add_open_display_for_current_thread :: "nat \<Rightarrow> 'w Session \<Rightarrow> bool \<times> 'w Session" where
  "add_open_display_for_current_thread ix s =
     (case open_displays_for_thread s of
        None \<Rightarrow> (True, s\<lparr>open_displays_for_thread := Some [ix]\<rparr>)
      | Some ixs \<Rightarrow> if ix \<in> set ixs then (False, s) else (True, s\<lparr>open_displays_for_thread := Some (ixs @ [ix])\<rparr>))"

text \<open>The table is freed when it becomes empty.\<close>

definition remove_open_display_for_current_thread :: "nat \<Rightarrow> 'w Session \<Rightarrow> bool \<times> 'w Session" where
  "remove_open_display_for_current_thread ix s =
     (case open_displays_for_thread s of
        None \<Rightarrow> (False, s)
      | Some ixs \<Rightarrow>
          (ix \<in> set ixs,
           s\<lparr>open_displays_for_thread := (if remove1 ix ixs = [] then None else Some (remove1 ix ixs))\<rparr>))"

definition is_drm_conformant_driver :: "string \<Rightarrow> bool" where
  "is_drm_conformant_driver driver_name \<longleftrightarrow> driver_name = ''amdgpu'' \<or> driver_name = ''i915''"

definition dref_get_i2c_driver :: "Display_Ref \<Rightarrow> string option" where
  "dref_get_i2c_driver dref = (if detail dref = None then None else bus_driver dref)"

definition set_dref_flags :: "nat \<Rightarrow> (Dref_Flags \<Rightarrow> Dref_Flags) \<Rightarrow> 'w Session \<Rightarrow> 'w Session" where
  "set_dref_flags d f s =
     s\<lparr>drefs := (drefs s)[d := (drefs s ! d)\<lparr>dref_flags := f (dref_flags (drefs s ! d))\<rparr>]\<rparr>"

text \<open>
  The status that sysfs shows, asked again after a second if it is \<^verbatim>\<open>disconnected\<close>; it is looked at only for
  drivers that are known to set it.
\<close>

definition connector_disconnected :: "'w File_Ops \<Rightarrow> Display_Ref \<Rightarrow> 'w \<Rightarrow> bool" where
  "connector_disconnected ops dref w =
     (case (dref_get_i2c_driver dref, drm_connector dref) of
        (Some drv, Some conn) \<Rightarrow>
          is_drm_conformant_driver drv \<and> conn \<noteq> [] \<and>
          connector_status ops conn 0 w = Some ''disconnected'' \<and> connector_status ops conn 1 w = Some ''disconnected''
      | _ \<Rightarrow> False)"

text \<open>The error or the handle.\<close>

definition ddc_open_display ::
    "'w File_Ops \<Rightarrow> Open_Config \<Rightarrow> nat \<Rightarrow> Call_Options \<Rightarrow> 'w Session \<Rightarrow>
     ((Error_Info option \<times> nat option) \<times> 'w Session) option" where
  "ddc_open_display ops cfg d callopts s = do {
     let dref = drefs s ! d;
     (if DREF_REMOVED (dref_flags dref) then Some ((Some (err_new DDCRC_DISCONNECTED), None), s)
      else (case detail dref of
        None \<Rightarrow> Some ((Some (err_new DDCRC_DISCONNECTED), None),
                       set_dref_flags d (\<lambda>fl. fl\<lparr>DREF_REMOVED := True\<rparr>) s)
      | Some businfo \<Rightarrow>
          if connector_disconnected ops dref (sdev s)
          then Some ((Some (err_new DDCRC_DISCONNECTED), None), s)
          else if \<not> bus_edid dref then Some ((Some (err_new DDCRC_EDID), None), s)
          else do {
            ((err2, fd), s) \<leftarrow> i2c_open_bus ops cfg (dref_busno dref) callopts s;
            (case err2 of
               Some e \<Rightarrow> Some ((Some \<lparr>status_code = status_code e, causes = [status_code e]\<rparr>, None), s)
             | None \<Rightarrow> do {
                 let ix = length (handles s);
                 let s = s\<lparr>handles := handles s @ [Some \<lparr>dh_fd = fd, dh_dref = d\<rparr>]\<rparr>;
                 let s = set_dref_flags d (\<lambda>fl. fl\<lparr>DREF_OPEN := True\<rparr>) s;
                 let s = s\<lparr>open_displays := List.insert ix (open_displays s)\<rparr>;
                 Some ((None, Some ix), snd (add_open_display_for_current_thread ix s))
               })
          }))
   }"

text \<open>The use of a handle that was freed is the abnormal end.\<close>

definition handle_at :: "nat \<Rightarrow> 'w Session \<Rightarrow> Display_Handle option" where
  "handle_at ix s = (if ix < length (handles s) then handles s ! ix else None)"

definition ddc_close_display ::
    "'w File_Ops \<Rightarrow> Open_Config \<Rightarrow> nat \<Rightarrow> 'w Session \<Rightarrow> (Error_Info option \<times> 'w Session) option" where
  "ddc_close_display ops cfg ix s = do {
     h \<leftarrow> handle_at ix s;
     (err, s) \<leftarrow>
       (case dh_fd h of
          None \<Rightarrow> Some (Some (err_new DDCRC_INVALID_OPERATION), s)
        | Some fd \<Rightarrow> do {
            (rc, s) \<leftarrow> i2c_close_bus ops cfg (dref_busno (drefs s ! dh_dref h)) fd s;
            Some (if rc \<noteq> 0 then Some (err_new rc) else None, s)
          });
     let s = set_dref_flags (dh_dref h) (\<lambda>fl. fl\<lparr>DREF_OPEN := False\<rparr>) s;
     let s = s\<lparr>open_displays := removeAll ix (open_displays s)\<rparr>;
     let s = snd (remove_open_display_for_current_thread ix s);
     Some (err, s\<lparr>handles := (handles s)[ix := None]\<rparr>)
   }"

definition ddc_close_display_wo_return ::
    "'w File_Ops \<Rightarrow> Open_Config \<Rightarrow> nat \<Rightarrow> 'w Session \<Rightarrow> 'w Session option" where
  "ddc_close_display_wo_return ops cfg ix s = map_option snd (ddc_close_display ops cfg ix s)"

text \<open>The keys of the table are listed before the first handle is closed.\<close>

fun close_handles :: "'w File_Ops \<Rightarrow> Open_Config \<Rightarrow> nat list \<Rightarrow> 'w Session \<Rightarrow> 'w Session option" where
  "close_handles ops cfg [] s = Some s"
| "close_handles ops cfg (ix # ixs) s = do {
     s \<leftarrow> ddc_close_display_wo_return ops cfg ix s;
     close_handles ops cfg ixs s
   }"

definition ddc_close_all_displays :: "'w File_Ops \<Rightarrow> Open_Config \<Rightarrow> 'w Session \<Rightarrow> 'w Session option" where
  "ddc_close_all_displays ops cfg s = do {
     s \<leftarrow> close_handles ops cfg (open_displays s) s;
     c_assert (open_displays s = []);
     Some s
   }"

text \<open>
  The loop over the table of the thread, with the passes left: the condition reads the table, which
  closing a handle changes and may free; reading a table that was freed is the abnormal end.
\<close>

fun close_thread_loop :: "'w File_Ops \<Rightarrow> Open_Config \<Rightarrow> nat \<Rightarrow> nat \<Rightarrow> 'w Session \<Rightarrow> 'w Session option" where
  "close_thread_loop ops cfg 0 ndx s = None"
| "close_thread_loop ops cfg (Suc n) ndx s = do {
     ixs \<leftarrow> open_displays_for_thread s;
     (if ndx < length ixs
      then do {
        s \<leftarrow> ddc_close_display_wo_return ops cfg (ixs ! ndx) s;
        close_thread_loop ops cfg n (ndx + 1) s
      }
      else Some s)
   }"

definition ddc_close_all_displays_for_current_thread ::
    "'w File_Ops \<Rightarrow> Open_Config \<Rightarrow> 'w Session \<Rightarrow> 'w Session option" where
  "ddc_close_all_displays_for_current_thread ops cfg s =
     (case open_displays_for_thread s of
        None \<Rightarrow> Some s
      | Some ixs \<Rightarrow> close_thread_loop ops cfg (length ixs + 1) 0 s)"

definition ddc_validate_display_handle2 :: "nat \<Rightarrow> 'w Session \<Rightarrow> int option" where
  "ddc_validate_display_handle2 ix s = do {
     h \<leftarrow> handle_at ix s;
     Some (if DREF_REMOVED (dref_flags (drefs s ! dh_dref h)) then DDCRC_DISCONNECTED
           else if ix \<notin> set (open_displays s) then DDCRC_ARG else 0)
   }"

section \<open>Functions of a display reference\<close>

text \<open>
  A display reference together with what the exchanges of an open handle work on. Both know the device,
  the flags and the bus; the functions below hand them over when a handle is opened and closed.
\<close>

record 'w Dref_State =
  session :: "'w Session"
  checks :: "'w Check_State"
  I2C_BUS_DDC_CHECKS_IGNORABLE :: bool

record 'w Dref_Env =
  check_env :: "'w Check_Env"
  file_ops :: "'w File_Ops"
  open_cfg :: Open_Config
  skip_ddc_checks :: bool
  ignored_mmk_table :: "Monitor_Model_Key list"

definition enter_handle :: "nat \<Rightarrow> 'w Dref_State \<Rightarrow> 'w Check_State" where
  "enter_handle d s =
     (let v = dh (checks s);
          g = ddc v;
          r = drefs (session s) ! d
      in (checks s)\<lparr>dh := v\<lparr>dflags := dref_flags r, dh_testing_unsupported_feature_active := False,
                             ddc := g\<lparr>io_state := (io_state g)\<lparr>dev := sdev (session s)\<rparr>,
                                      bus_info := (case detail r of None \<Rightarrow> bus_info g | Some b \<Rightarrow> b)\<rparr>\<rparr>\<rparr>)"

definition leave_handle :: "nat \<Rightarrow> 'w Check_State \<Rightarrow> 'w Dref_State \<Rightarrow> 'w Dref_State" where
  "leave_handle d c s =
     (let g = ddc (dh c);
          r = drefs (session s) ! d
      in s\<lparr>checks := c,
           session := (session s)\<lparr>sdev := dev (io_state g),
             drefs := (drefs (session s))[d := r\<lparr>dref_flags := dflags (dh c),
                          detail := map_option (\<lambda>_. bus_info g) (detail r)\<rparr>]\<rparr>\<rparr>)"

definition is_ignored_mmk :: "Monitor_Model_Key list \<Rightarrow> Monitor_Model_Key \<Rightarrow> bool" where
  "is_ignored_mmk ignored mmk \<longleftrightarrow> list_ex (\<lambda>p. monitor_model_key_eq mmk p) ignored"

abbreviation no_callopts :: Call_Options where
  "no_callopts \<equiv> \<lparr>CALLOPT_RDONLY = False, CALLOPT_WAIT = False\<rparr>"

definition update_flags :: "nat \<Rightarrow> (Dref_Flags \<Rightarrow> Dref_Flags) \<Rightarrow> 'w Dref_State \<Rightarrow> 'w Dref_State" where
  "update_flags d f s = s\<lparr>session := set_dref_flags d f (session s)\<rparr>"

definition set_xdf :: "DDCA_MCCS_Version_Spec \<Rightarrow> 'w Dref_State \<Rightarrow> 'w Dref_State" where
  "set_xdf v s = s\<lparr>checks := (checks s)\<lparr>dh := (dh (checks s))\<lparr>vcp_version_xdf := v\<rparr>\<rparr>\<rparr>"

text \<open>Opens the display, works on the handle, and closes it; the error of opening or of the work.\<close>

definition with_open_display ::
    "'w Dref_Env \<Rightarrow> nat \<Rightarrow> ('w Check_State \<Rightarrow> (Error_Info option \<times> 'w Check_State) option) \<Rightarrow> 'w Dref_State \<Rightarrow>
     (Error_Info option \<times> 'w Dref_State) option" where
  "with_open_display env d work s = do {
     ((err, handle), ses) \<leftarrow> ddc_open_display (file_ops env) (open_cfg env) d no_callopts (session s);
     let s = s\<lparr>session := ses\<rparr>;
     (case err of
        Some e \<Rightarrow> Some (Some e, s)
      | None \<Rightarrow> do {
          h \<leftarrow> handle;
          (err, c) \<leftarrow> work (enter_handle d s);
          let s = leave_handle d c s;
          ses \<leftarrow> ddc_close_display_wo_return (file_ops env) (open_cfg env) h (session s);
          Some (err, s\<lparr>session := ses\<rparr>)
        })
   }"

definition ddc_initial_checks_by_dref ::
    "'w Dref_Env \<Rightarrow> nat \<Rightarrow> bool \<Rightarrow> 'w Dref_State \<Rightarrow> (Error_Info option \<times> 'w Dref_State) option" where
  "ddc_initial_checks_by_dref env d newly_added s =
     (if is_ignored_mmk (ignored_mmk_table env) (dref_mmk (dref_definition (dh (checks s))))
      then Some (None, update_flags d
             (\<lambda>fl. fl\<lparr>DREF_DDC_DISABLED := True, DREF_DDC_COMMUNICATION_CHECKED := True\<rparr>) s)
      else do {
        businfo \<leftarrow> detail (drefs (session s) ! d);
        let skip = skip_ddc_checks env \<or> I2C_BUS_DDC_CHECKS_IGNORABLE s;
        (err, s) \<leftarrow>
          (if skip
           then Some (None, set_xdf DDCA_VSPEC_UNKNOWN (update_flags d
                  (\<lambda>fl. fl\<lparr>DREF_DDC_COMMUNICATION_CHECKED := True, DREF_DDC_COMMUNICATION_WORKING := True,
                           DREF_DDC_USES_DDC_FLAG_FOR_UNSUPPORTED := True\<rparr>) s))
           else do {
             (err, s) \<leftarrow> with_open_display env d (ddc_initial_checks_by_dh (check_env env) newly_added) s;
             let s = update_flags d
               (\<lambda>fl. if \<not> DREF_REMOVED fl then fl\<lparr>DREF_DDC_COMMUNICATION_CHECKED := True\<rparr> else fl) s;
             let s = update_flags d
               (\<lambda>fl. if ERRINFO_STATUS err = - EBUSY then fl\<lparr>DREF_DDC_BUSY := True\<rparr> else fl) s;
             Some (err, s)
           });
        Some (err, s\<lparr>I2C_BUS_DDC_CHECKS_IGNORABLE :=
          skip \<and> DREF_DDC_USES_DDC_FLAG_FOR_UNSUPPORTED (dref_flags (drefs (session s) ! d))\<rparr>)
      })"

text \<open>If the display cannot be opened, the null handle is dereferenced: the abnormal end.\<close>

definition get_vcp_version_by_dref ::
    "'w Dref_Env \<Rightarrow> nat \<Rightarrow> 'w Dref_State \<Rightarrow> (DDCA_MCCS_Version_Spec \<times> 'w Dref_State) option" where
  "get_vcp_version_by_dref env d s = do {
     let saved = get_saved_vcp_version (dh (checks s));
     (if \<not> vcp_version_eq saved DDCA_VSPEC_UNQUERIED then Some (saved, s)
      else if \<not> DREF_DDC_COMMUNICATION_WORKING (dref_flags (drefs (session s) ! d))
      then Some (DDCA_VSPEC_UNKNOWN, s)
      else do {
        ((err, handle), ses) \<leftarrow> ddc_open_display (file_ops env) (open_cfg env) d no_callopts (session s);
        h \<leftarrow> handle;
        let s = s\<lparr>session := ses\<rparr>;
        let c = enter_handle d s;
        (version, v) \<leftarrow> set_vcp_version_xdf_by_dh (vcp_env (check_env env)) (dh c);
        c_assert (\<not> vcp_version_eq (vcp_version_xdf v) DDCA_VSPEC_UNQUERIED);
        let s = leave_handle d (c\<lparr>dh := v\<rparr>) s;
        ses \<leftarrow> ddc_close_display_wo_return (file_ops env) (open_cfg env) h (session s);
        c_assert (\<not> vcp_version_eq version DDCA_VSPEC_UNQUERIED);
        Some (version, s\<lparr>session := ses\<rparr>)
      })
   }"

section \<open>Opening takes everything or nothing\<close>

text \<open>
  The documented behaviour of the calls, with the set of the file descriptors that the thread has open:
  \<^verbatim>\<open>open()\<close> returns one that is not in use; \<^verbatim>\<open>close()\<close> of an open one releases it also if it reports an error;
  locking changes neither. The other threads open and close only descriptors of their own, and they
  neither take the locks of this thread away nor give it any.
\<close>

definition file_ops_ok :: "'w File_Ops \<Rightarrow> ('w \<Rightarrow> nat set) \<Rightarrow> bool" where
  "file_ops_ok ops fds \<longleftrightarrow>
     (\<forall>bus ro w. case open_device ops bus ro w of
        (Inl e, w') \<Rightarrow> e > 0 \<and> fds w' = fds w
      | (Inr fd, w') \<Rightarrow> fd \<notin> fds w \<and> fds w' = insert fd (fds w)) \<and>
     (\<forall>fd w. fd \<in> fds w \<longrightarrow> fst (close_device ops fd w) \<ge> 0 \<and> fds (snd (close_device ops fd w)) = fds w - {fd}) \<and>
     (\<forall>fd w. fst (flock_exclusive ops fd w) \<ge> 0 \<and> fds (snd (flock_exclusive ops fd w)) = fds w \<and>
        fds (snd (flock_unlock ops fd w)) = fds w) \<and>
     (\<forall>t locks w. fds (snd (other_threads ops t locks w)) = fds w \<and>
        (\<forall>bus. fst (other_threads ops t locks w) bus = Some t \<longleftrightarrow> locks bus = Some t))"

text \<open>The buses whose lock the thread has.\<close>

definition owned :: "'w Session \<Rightarrow> nat set" where
  "owned s = {bus. display_locks s bus = Some (self_thread s)}"

text \<open>A state that differs in the device and the locks only.\<close>

definition same_but :: "'w Session \<Rightarrow> 'w Session \<Rightarrow> bool" where
  "same_but s s' \<longleftrightarrow> self_thread s' = self_thread s \<and> drefs s' = drefs s \<and> handles s' = handles s \<and>
     open_displays s' = open_displays s \<and> open_displays_for_thread s' = open_displays_for_thread s"

lemma same_but_refl [simp]: "same_but s s"
  by (simp add: same_but_def)

lemma same_but_trans [trans]: "same_but a b \<Longrightarrow> same_but b c \<Longrightarrow> same_but a c"
  by (simp add: same_but_def)

lemma same_but_update [simp]: "same_but s (s\<lparr>sdev := w\<rparr>)" "same_but s (s\<lparr>display_locks := l\<rparr>)"
  "same_but s (s\<lparr>sdev := w, display_locks := l\<rparr>)" "same_but s (s\<lparr>display_locks := l, sdev := w\<rparr>)"
  by (simp_all add: same_but_def)

lemma same_but_fields:
  assumes "same_but s s'"
  shows "self_thread s' = self_thread s" "drefs s' = drefs s" "handles s' = handles s"
    "open_displays s' = open_displays s" "open_displays_for_thread s' = open_displays_for_thread s"
  using assms by (simp_all add: same_but_def)

lemma same_but_eq: "same_but s s' \<Longrightarrow> s' = s\<lparr>sdev := sdev s', display_locks := display_locks s'\<rparr>"
  by (cases s; cases s') (simp add: same_but_def)

lemma others_act_ok:
  assumes "file_ops_ok ops fds"
  shows "same_but s (others_act ops s) \<and> owned (others_act ops s) = owned s \<and> fds (sdev (others_act ops s)) = fds (sdev s)"
proof -
  have "fds (snd (other_threads ops t l w)) = fds w \<and>
      (\<forall>bus. fst (other_threads ops t l w) bus = Some t \<longleftrightarrow> l bus = Some t)" for t l w
    using assms unfolding file_ops_ok_def by blast
  from this [of "self_thread s" "display_locks s" "sdev s"] show ?thesis
    by (auto simp: others_act_def owned_def split: prod.split)
qed

text \<open>What a call for a lock does: it takes one that nobody has, or none.\<close>

definition locked_state :: "('w \<Rightarrow> nat set) \<Rightarrow> nat \<Rightarrow> 'w Session \<Rightarrow> int \<Rightarrow> 'w Session \<Rightarrow> bool" where
  "locked_state fds bus s rc s' \<longleftrightarrow> same_but s s' \<and> fds (sdev s') = fds (sdev s) \<and>
     (if rc = 0 then bus \<notin> owned s \<and> owned s' = insert bus (owned s) else owned s' = owned s)"

lemma lock_attempts_ok:
  assumes ok: "file_ops_ok ops fds"
  shows "lock_attempts ops bus n s = (rc, s') \<Longrightarrow> locked_state fds bus s rc s'"
proof (induction n arbitrary: s)
  case 0
  then show ?case by (simp add: locked_state_def)
next
  case (Suc n)
  let ?s = "others_act ops s"
  note o = others_act_ok [OF ok, of s]
  show ?case
  proof (cases "display_locks ?s bus = None")
    case True
    then have "bus \<notin> owned ?s" by (simp add: owned_def)
    moreover have "owned (?s\<lparr>display_locks := (display_locks ?s)(bus := Some (self_thread ?s))\<rparr>) = insert bus (owned ?s)"
      by (auto simp: owned_def)
    ultimately show ?thesis using Suc.prems True o same_but_trans [of s ?s] by (auto simp: Let_def locked_state_def)
  next
    case False
    then have "lock_attempts ops bus n ?s = (rc, s')"
      using Suc.prems unfolding lock_attempts.simps Let_def by (simp only: if_False)
    from Suc.IH [OF this] have "locked_state fds bus ?s rc s'" .
    then show ?thesis using o same_but_trans [of s ?s s'] by (auto simp: locked_state_def split: if_splits)
  qed
qed

lemma lock_bus_ok:
  assumes ok: "file_ops_ok ops fds" and l: "lock_bus ops bus s = (rc, s')"
  shows "locked_state fds bus s rc s'"
proof -
  let ?s = "others_act ops s"
  note o = others_act_ok [OF ok, of s]
  have "locked_state fds bus ?s rc s'"
    using l lock_attempts_ok [OF ok, of bus 10 ?s rc s'] by (auto simp: lock_bus_def Let_def locked_state_def split: if_splits)
  then show ?thesis using o same_but_trans [of s ?s s'] by (auto simp: locked_state_def split: if_splits)
qed

lemma unlock_bus_ok:
  assumes ok: "file_ops_ok ops fds" and b: "bus \<in> owned s"
  shows "\<exists>s'. unlock_bus ops bus s = (0, s') \<and> same_but s s' \<and> fds (sdev s') = fds (sdev s) \<and> owned s' = owned s - {bus}"
proof -
  let ?s = "others_act ops s"
  note o = others_act_ok [OF ok, of s]
  have "bus \<in> owned ?s" using o b by simp
  then have "unlock_bus ops bus s = (0, ?s\<lparr>display_locks := (display_locks ?s)(bus := None)\<rparr>)"
    by (simp add: unlock_bus_def Let_def owned_def)
  moreover have "owned (?s\<lparr>display_locks := (display_locks ?s)(bus := None)\<rparr>) = owned ?s - {bus}"
    by (auto simp: owned_def)
  ultimately show ?thesis using o same_but_trans [of s ?s] by auto
qed

lemma open_device_ok:
  assumes "file_ops_ok ops fds"
  shows "open_device ops bus ro w = (Inl e, w') \<Longrightarrow> e > 0 \<and> fds w' = fds w"
    "open_device ops bus ro w = (Inr fd, w') \<Longrightarrow> fd \<notin> fds w \<and> fds w' = insert fd (fds w)"
proof -
  have c: "case open_device ops bus ro w of
        (Inl e, w') \<Rightarrow> e > 0 \<and> fds w' = fds w
      | (Inr fd, w') \<Rightarrow> fd \<notin> fds w \<and> fds w' = insert fd (fds w)"
    by (rule assms [unfolded file_ops_ok_def, THEN conjunct1, rule_format])
  show "e > 0 \<and> fds w' = fds w" if a: "open_device ops bus ro w = (Inl e, w')"
    using c unfolding a by simp
  show "fd \<notin> fds w \<and> fds w' = insert fd (fds w)" if a: "open_device ops bus ro w = (Inr fd, w')"
    using c unfolding a by simp
qed

definition flock_times_ok :: "Open_Config \<Rightarrow> bool" where
  "flock_times_ok cfg \<longleftrightarrow>
     flock_poll_millisec cfg > 0 \<and> flock_max_wait_millisec cfg \<ge> 0 \<and>
     flock_max_wait_millisec cfg + flock_poll_millisec cfg < 2 ^ 31"

lemma flock_returns:
  assumes ok: "file_ops_ok ops fds" and p: "flock_poll_millisec cfg > 0"
    and m: "0 \<le> max_wait" "max_wait + flock_poll_millisec cfg < 2 ^ 31"
  shows "0 \<le> waited \<Longrightarrow> waited \<le> max_wait + flock_poll_millisec cfg \<Longrightarrow>
    \<exists>rc w'. flock_loop ops cfg fd max_wait waited w = Some (rc, w') \<and> fds w' = fds w"
proof (induction "nat (max_wait + 1 - waited)" arbitrary: waited w rule: less_induct)
  case less
  have u: "waited mod 2 ^ 64 > max_wait mod 2 ^ 64 \<longleftrightarrow> waited > max_wait" using less.prems m p by simp
  obtain e w1 where e: "flock_exclusive ops fd w = (e, w1)" by force
  have f: "fds w1 = fds w" using ok e unfolding file_ops_ok_def by (metis snd_conv)
  show ?case
  proof (cases "e = 0 \<or> waited > max_wait \<or> e \<noteq> EWOULDBLOCK")
    case True
    then show ?thesis using e f u by (subst flock_loop.simps) auto
  next
    case False
    then have "nat (max_wait + 1 - (waited + flock_poll_millisec cfg)) < nat (max_wait + 1 - waited)" using p by auto
    moreover have "0 \<le> waited + flock_poll_millisec cfg" "waited + flock_poll_millisec cfg \<le> max_wait + flock_poll_millisec cfg"
      using False less.prems p by auto
    ultimately show ?thesis using less.hyps [of "waited + flock_poll_millisec cfg" w1] False e f u
      by (subst flock_loop.simps) auto
  qed
qed

lemma flock_lock_returns:
  assumes "file_ops_ok ops fds" "flock_times_ok cfg"
  shows "\<exists>rc w'. flock_lock_by_fd ops cfg fd wait w = Some (rc, w') \<and> fds w' = fds w"
  using flock_returns [OF assms(1), of cfg "if wait then flock_max_wait_millisec cfg else 0" 0] assms(2)
  by (cases wait) (auto simp: flock_lock_by_fd_def flock_times_ok_def)

text \<open>An attempt to open: the device and its lock are taken, or nothing is.\<close>

definition opened :: "('w \<Rightarrow> nat set) \<Rightarrow> nat \<Rightarrow> 'w Session \<Rightarrow> Error_Info option \<Rightarrow> nat option \<Rightarrow> 'w Session \<Rightarrow> bool" where
  "opened fds bus s err fd s' \<longleftrightarrow> same_but s s' \<and>
     (case err of
        Some _ \<Rightarrow> fd = None \<and> fds (sdev s') = fds (sdev s) \<and> owned s' = owned s
      | None \<Rightarrow> \<exists>f. fd = Some f \<and> f \<notin> fds (sdev s) \<and> fds (sdev s') = insert f (fds (sdev s)) \<and>
          bus \<notin> owned s \<and> owned s' = insert bus (owned s))"

lemma owned_sdev [simp]: "owned (s\<lparr>sdev := w\<rparr>) = owned s"
  by (simp add: owned_def)

lemma try_open_spec:
  assumes ok: "file_ops_ok ops fds" and p: "flock_times_ok cfg"
  shows "\<exists>err fd give_up s'. try_open ops cfg bus callopts s = Some ((err, fd, give_up), s') \<and> opened fds bus s err fd s'"
proof -
  obtain rc s1 where l: "lock_bus ops bus s = (rc, s1)" by force
  note k = lock_bus_ok [OF ok l]
  show ?thesis
  proof (cases "rc = 0")
    case False
    then show ?thesis using l k by (auto simp: try_open_def opened_def locked_state_def)
  next
    case True
    have s1: "same_but s s1" "fds (sdev s1) = fds (sdev s)" "bus \<notin> owned s" "owned s1 = insert bus (owned s)"
      using k True by (simp_all add: locked_state_def)
    have un: "\<exists>s2. unlock_bus ops bus (s1\<lparr>sdev := w\<rparr>) = (0, s2) \<and> same_but s s2 \<and> fds (sdev s2) = fds w \<and>
        owned s2 = owned s" for w
      using unlock_bus_ok [OF ok, of bus "s1\<lparr>sdev := w\<rparr>"] s1 same_but_trans [OF s1(1)] same_but_trans [of s1 "s1\<lparr>sdev := w\<rparr>"]
      by (auto intro: same_but_trans)
    obtain r w1 where o: "open_device ops bus (CALLOPT_RDONLY callopts) (sdev s1) = (r, w1)" by force
    show ?thesis
    proof (cases r)
      case (Inl e)
      have "e > 0" "fds w1 = fds (sdev s)" using open_device_ok(1) [OF ok o [unfolded Inl]] s1(2) by simp_all
      then show ?thesis
        using l True o Inl un [of w1]
        by (auto simp: try_open_def i2c_open_bus_basic_def c_assert_def opened_def)
    next
      case (Inr f)
      have f: "f \<notin> fds (sdev s)" "fds w1 = insert f (fds (sdev s))"
        using open_device_ok(2) [OF ok o [unfolded Inr]] s1(2) by simp_all
      have sb: "same_but s (s1\<lparr>sdev := w\<rparr>)" for w using same_but_trans [OF s1(1)] by simp
      show ?thesis
      proof (cases "cross_instance_locks_enabled cfg")
        case False
        then show ?thesis
          using l True o Inr f s1 sb by (auto simp: try_open_def i2c_open_bus_basic_def opened_def)
      next
        case locks: True
        obtain frc w2 where fl: "flock_lock_by_fd ops cfg f (CALLOPT_WAIT callopts) w1 = Some (frc, w2)" "fds w2 = fds w1"
          using flock_lock_returns [OF ok p] by blast
        have c: "fds (snd (close_device ops f w2)) = fds (sdev s)"
          using ok f fl(2) unfolding file_ops_ok_def by auto
        show ?thesis
        proof (cases "frc = 0")
          case fz: True
          then show ?thesis
            using l True o Inr f fl locks s1 sb by (auto simp: try_open_def i2c_open_bus_basic_def opened_def)
        next
          case fz: False
          then show ?thesis
            using l True o Inr f fl locks c un [of "snd (close_device ops f w2)"]
            by (auto simp: try_open_def i2c_open_bus_basic_def c_assert_def opened_def)
        qed
      qed
    qed
  qed
qed

declare open_loop.simps [simp del]

lemma opened_after_failure:
  assumes "opened fds bus s (Some e) fd s1" "opened fds bus s1 err fd' s'"
  shows "opened fds bus s err fd' s'"
  using assms same_but_trans [of s s1 s'] by (cases err) (auto simp: opened_def)

lemma open_loop_spec:
  assumes ok: "file_ops_ok ops fds" and p: "flock_times_ok cfg"
  shows "waited \<le> 1000 \<or> m \<noteq> None \<Longrightarrow>
    \<exists>err fd s'. open_loop ops cfg bus callopts waited m s = Some ((err, fd), s') \<and> opened fds bus s err fd s'"
proof (induction "nat (1001 - waited)" arbitrary: waited m s rule: less_induct)
  case less
  show ?case
  proof (cases "waited > 1000")
    case True
    then show ?thesis using less.prems by (subst open_loop.simps) (auto simp: opened_def)
  next
    case False
    obtain err fd give_up s1 where t: "try_open ops cfg bus callopts s = Some ((err, fd, give_up), s1)"
      "opened fds bus s err fd s1"
      using try_open_spec [OF ok p] by blast
    show ?thesis
    proof (cases err)
      case None
      then show ?thesis using t False by (subst open_loop.simps) simp
    next
      case (Some e)
      let ?t = "(if give_up then 1001 else waited) + 100"
      have "nat (1001 - ?t) < nat (1001 - waited)" using False by auto
      from less.hyps [OF this, of "Some (add_open_error m e)" s1] obtain err' fd' s' where
        l: "open_loop ops cfg bus callopts ?t (Some (add_open_error m e)) s1 = Some ((err', fd'), s')"
           "opened fds bus s1 err' fd' s'" by blast
      have "opened fds bus s err' fd' s'"
        using opened_after_failure [OF t(2) [unfolded Some] l(2)] .
      then show ?thesis using t(1) Some False l(1) by (subst open_loop.simps) auto
    qed
  qed
qed

lemma set_dref_flags_fields [simp]:
  "sdev (set_dref_flags d f s) = sdev s" "self_thread (set_dref_flags d f s) = self_thread s"
  "display_locks (set_dref_flags d f s) = display_locks s" "handles (set_dref_flags d f s) = handles s"
  "open_displays (set_dref_flags d f s) = open_displays s"
  "open_displays_for_thread (set_dref_flags d f s) = open_displays_for_thread s"
  "length (drefs (set_dref_flags d f s)) = length (drefs s)"
  by (simp_all add: set_dref_flags_def)

lemma set_dref_flags_dref:
  "dref_busno (drefs (set_dref_flags d f s) ! e) = dref_busno (drefs s ! e)"
  "d < length (drefs s) \<Longrightarrow> dref_flags (drefs (set_dref_flags d f s) ! d) = f (dref_flags (drefs s ! d))"
proof -
  show "dref_busno (drefs (set_dref_flags d f s) ! e) = dref_busno (drefs s ! e)"
    by (cases "d < length (drefs s) \<and> e = d") (auto simp: set_dref_flags_def list_update_beyond)
  show "d < length (drefs s) \<Longrightarrow> dref_flags (drefs (set_dref_flags d f s) ! d) = f (dref_flags (drefs s ! d))"
    by (simp add: set_dref_flags_def)
qed

lemma add_display_fields [simp]:
  "sdev (snd (add_open_display_for_current_thread i s)) = sdev s"
  "self_thread (snd (add_open_display_for_current_thread i s)) = self_thread s"
  "display_locks (snd (add_open_display_for_current_thread i s)) = display_locks s"
  "handles (snd (add_open_display_for_current_thread i s)) = handles s"
  "open_displays (snd (add_open_display_for_current_thread i s)) = open_displays s"
  "drefs (snd (add_open_display_for_current_thread i s)) = drefs s"
  by (auto simp: add_open_display_for_current_thread_def split: option.splits)

lemma remove_display_fields [simp]:
  "sdev (snd (remove_open_display_for_current_thread i s)) = sdev s"
  "self_thread (snd (remove_open_display_for_current_thread i s)) = self_thread s"
  "display_locks (snd (remove_open_display_for_current_thread i s)) = display_locks s"
  "handles (snd (remove_open_display_for_current_thread i s)) = handles s"
  "open_displays (snd (remove_open_display_for_current_thread i s)) = open_displays s"
  "drefs (snd (remove_open_display_for_current_thread i s)) = drefs s"
  by (auto simp: remove_open_display_for_current_thread_def split: option.splits)

text \<open>What both functions leave alone or restore.\<close>

definition same_resources :: "('w \<Rightarrow> nat set) \<Rightarrow> 'w Session \<Rightarrow> 'w Session \<Rightarrow> bool" where
  "same_resources fds s s' \<longleftrightarrow> fds (sdev s') = fds (sdev s) \<and> owned s' = owned s \<and>
     open_displays s' = open_displays s \<and> open_displays_for_thread s' = open_displays_for_thread s \<and>
     (\<forall>i < length (handles s). handle_at i s' = handle_at i s)"

lemma same_resources_but: "same_but s s' \<Longrightarrow> fds (sdev s') = fds (sdev s) \<Longrightarrow> owned s' = owned s \<Longrightarrow> same_resources fds s s'"
  using same_but_fields [of s s'] by (simp add: same_resources_def handle_at_def)

text \<open>The state after a display was opened, with the device and the locks as they are then.\<close>

definition opened_session :: "nat \<Rightarrow> nat \<Rightarrow> 'w \<Rightarrow> (nat \<Rightarrow> nat option) \<Rightarrow> 'w Session \<Rightarrow> 'w Session" where
  "opened_session d f w locks s =
     (let s1 = s\<lparr>sdev := w, display_locks := locks, handles := handles s @ [Some \<lparr>dh_fd = Some f, dh_dref = d\<rparr>]\<rparr>;
          s2 = set_dref_flags d (\<lambda>fl. fl\<lparr>DREF_OPEN := True\<rparr>) s1
      in snd (add_open_display_for_current_thread (length (handles s))
           (s2\<lparr>open_displays := List.insert (length (handles s)) (open_displays s2)\<rparr>)))"

lemma owned_add [simp]: "owned (snd (add_open_display_for_current_thread i s)) = owned s"
  by (simp add: owned_def)

lemma owned_remove [simp]: "owned (snd (remove_open_display_for_current_thread i s)) = owned s"
  by (simp add: owned_def)

lemma opened_session_fields [simp]:
  "sdev (opened_session d f w locks s) = w" "self_thread (opened_session d f w locks s) = self_thread s"
  "display_locks (opened_session d f w locks s) = locks"
  "handles (opened_session d f w locks s) = handles s @ [Some \<lparr>dh_fd = Some f, dh_dref = d\<rparr>]"
  "open_displays (opened_session d f w locks s) = List.insert (length (handles s)) (open_displays s)"
  "length (drefs (opened_session d f w locks s)) = length (drefs s)"
  "dref_busno (drefs (opened_session d f w locks s) ! e) = dref_busno (drefs s ! e)"
  "owned (opened_session d f w locks s) = {bus. locks bus = Some (self_thread s)}"
  by (simp_all add: opened_session_def Let_def set_dref_flags_dref owned_def)

lemma open_display_spec:
  assumes ok: "file_ops_ok ops fds" and p: "flock_times_ok cfg"
  shows "\<exists>err h s'. ddc_open_display ops cfg d callopts s = Some ((err, h), s') \<and>
    (case h of
       None \<Rightarrow> err \<noteq> None \<and> same_resources fds s s'
     | Some i \<Rightarrow> err = None \<and> i = length (handles s) \<and> dref_busno (drefs s ! d) \<notin> owned s \<and>
         owned s' = insert (dref_busno (drefs s ! d)) (owned s) \<and>
         (\<exists>f w locks. s' = opened_session d f w locks s \<and> f \<notin> fds (sdev s) \<and> fds w = insert f (fds (sdev s))))"
proof (cases "DREF_REMOVED (dref_flags (drefs s ! d)) \<or> detail (drefs s ! d) = None")
  case True
  then show ?thesis
    by (auto simp: ddc_open_display_def Let_def same_resources_def handle_at_def owned_def)
next
  case False
  then obtain b where b: "detail (drefs s ! d) = Some b" by auto
  show ?thesis
  proof (cases "connector_disconnected ops (drefs s ! d) (sdev s) \<or> \<not> bus_edid (drefs s ! d)")
    case True
    then show ?thesis using False b
      by (auto simp: ddc_open_display_def Let_def same_resources_def handle_at_def)
  next
    case nd: False
    have "(0::int) \<le> 1000" by simp
    then obtain err fd s1 where o: "i2c_open_bus ops cfg (dref_busno (drefs s ! d)) callopts s = Some ((err, fd), s1)"
      "opened fds (dref_busno (drefs s ! d)) s err fd s1"
      using open_loop_spec [OF ok p] unfolding i2c_open_bus_def by blast
    have sb: "same_but s s1" using o(2) by (simp add: opened_def)
    note h = same_but_fields [OF sb]
    show ?thesis
    proof (cases err)
      case None
      then obtain f where f: "fd = Some f" "f \<notin> fds (sdev s)" "fds (sdev s1) = insert f (fds (sdev s))"
          "dref_busno (drefs s ! d) \<notin> owned s" "owned s1 = insert (dref_busno (drefs s ! d)) (owned s)"
        using o(2) by (auto simp: opened_def)
      let ?s' = "opened_session d f (sdev s1) (display_locks s1) s"
      note s1 = same_but_eq [OF sb]
      have "s1\<lparr>handles := hs\<rparr> = s\<lparr>sdev := sdev s1, display_locks := display_locks s1, handles := hs\<rparr>" for hs
        by (subst s1) simp
      then have e: "snd (add_open_display_for_current_thread (length (handles s))
          ((set_dref_flags d (\<lambda>fl. fl\<lparr>DREF_OPEN := True\<rparr>) (s1\<lparr>handles := handles s @ [Some \<lparr>dh_fd = Some f, dh_dref = d\<rparr>]\<rparr>))
             \<lparr>open_displays := List.insert (length (handles s)) (open_displays s)\<rparr>)) = ?s'"
        by (simp add: opened_session_def Let_def)
      have "ddc_open_display ops cfg d callopts s = Some ((None, Some (length (handles s))), ?s')"
        using False b nd o(1) None f(1) h e by (simp add: ddc_open_display_def Let_def)
      moreover have "owned ?s' = owned s1" using h(1) by (simp add: owned_def)
      ultimately show ?thesis using f(2-5) by auto
    next
      case (Some e)
      then have "same_resources fds s s1" using o(2) by (simp add: opened_def same_resources_but)
      then show ?thesis using False b nd o(1) Some by (simp add: ddc_open_display_def)
    qed
  qed
qed

text \<open>The tables hold handles that exist, and the table of the thread is not empty.\<close>

definition tables_ok :: "'w Session \<Rightarrow> bool" where
  "tables_ok s \<longleftrightarrow> (\<forall>i \<in> set (open_displays s). i < length (handles s)) \<and> open_displays_for_thread s \<noteq> Some [] \<and>
     (\<forall>ixs. open_displays_for_thread s = Some ixs \<longrightarrow> (\<forall>i \<in> set ixs. i < length (handles s)))"

text \<open>C37 (open_display_all_or_nothing): With a polling time of the file lock that is positive, as it is by default,
  and a limit for the wait in the range of \<^verbatim>\<open>int\<close>, opening a display returns, whatever errors the operating
  system reports, whatever the other threads do with the locks meanwhile, and however often the device or its
  locks are tried again. With an error, this thread has the same file descriptors open and the same locks as
  before, and the handles and the tables of open displays are unchanged. Without one, it has one more file
  descriptor and one more lock, that of the bus, and the new handle, which holds the descriptor, is in both
  tables. (With a polling time of 0 the wait for the file lock may not end.)
\<close>

theorem open_display_all_or_nothing:
  assumes "file_ops_ok ops fds" "flock_times_ok cfg"
  shows "\<exists>err h s'. ddc_open_display ops cfg d callopts s = Some ((err, h), s') \<and>
    (case h of
       None \<Rightarrow> err \<noteq> None \<and> same_resources fds s s'
     | Some i \<Rightarrow> err = None \<and> dref_busno (drefs s ! d) \<notin> owned s \<and>
         owned s' = insert (dref_busno (drefs s ! d)) (owned s) \<and>
         (\<exists>f. handle_at i s' = Some \<lparr>dh_fd = Some f, dh_dref = d\<rparr> \<and> f \<notin> fds (sdev s) \<and>
            fds (sdev s') = insert f (fds (sdev s))) \<and>
         (\<forall>j < length (handles s). handle_at j s' = handle_at j s) \<and>
         set (open_displays s') = insert i (set (open_displays s)) \<and>
         (\<exists>ixs. open_displays_for_thread s' = Some ixs \<and>
            set ixs = insert i (case open_displays_for_thread s of None \<Rightarrow> {} | Some ixs \<Rightarrow> set ixs)))"
proof -
  have t: "\<exists>ixs. open_displays_for_thread (opened_session d f w locks s) = Some ixs \<and>
      set ixs = insert (length (handles s)) (case open_displays_for_thread s of None \<Rightarrow> {} | Some ixs \<Rightarrow> set ixs)" for f w locks
    by (auto simp: opened_session_def Let_def add_open_display_for_current_thread_def split: option.splits)
  obtain err h s' where o: "ddc_open_display ops cfg d callopts s = Some ((err, h), s')"
    "case h of
       None \<Rightarrow> err \<noteq> None \<and> same_resources fds s s'
     | Some i \<Rightarrow> err = None \<and> i = length (handles s) \<and> dref_busno (drefs s ! d) \<notin> owned s \<and>
         owned s' = insert (dref_busno (drefs s ! d)) (owned s) \<and>
         (\<exists>f w locks. s' = opened_session d f w locks s \<and> f \<notin> fds (sdev s) \<and> fds w = insert f (fds (sdev s)))"
    using open_display_spec [OF assms] by blast
  show ?thesis
  proof (cases h)
    case None
    then show ?thesis using o by auto
  next
    case (Some i)
    then obtain f w locks where i: "err = None" "i = length (handles s)" "s' = opened_session d f w locks s"
        "f \<notin> fds (sdev s)" "fds w = insert f (fds (sdev s))"
        "dref_busno (drefs s ! d) \<notin> owned s" "owned s' = insert (dref_busno (drefs s ! d)) (owned s)"
      using o(2) by auto
    have hd: "handle_at i s' = Some \<lparr>dh_fd = Some f, dh_dref = d\<rparr>" "\<forall>j < length (handles s). handle_at j s' = handle_at j s"
      by (simp_all add: i(2,3) handle_at_def nth_append)
    have ft: "set (open_displays s') = insert i (set (open_displays s))" "fds (sdev s') = insert f (fds (sdev s))"
      by (simp_all add: i(2,3,5))
    show ?thesis
      using o(1) i(1,4,6,7) hd ft t [of f w locks] by (intro exI [of _ err] exI [of _ h] exI [of _ s']) (simp add: Some i(2,3))
  qed
qed

text \<open>Every call fails.\<close>

definition failing_ops :: "nat File_Ops" where
  "failing_ops =
     \<lparr>open_device = \<lambda>bus ro w. (Inl EBUSY, w), close_device = \<lambda>fd w. (0, w),
      flock_exclusive = \<lambda>fd w. (EWOULDBLOCK, w), flock_unlock = \<lambda>fd w. (EINVAL, w), connector_status = \<lambda>c n w. None,
      other_threads = \<lambda>t locks w. (locks, w)\<rparr>"

lemma failing_ops_ok: "file_ops_ok failing_ops (\<lambda>w. {})"
  by (simp add: file_ops_ok_def failing_ops_def)

text \<open>Files are opened and closed, and a set of descriptors is the state.\<close>

definition set_ops :: "nat list File_Ops" where
  "set_ops =
     \<lparr>open_device = \<lambda>bus ro w. (Inr (Suc (Max (insert 0 (set w)))), Suc (Max (insert 0 (set w))) # w),
      close_device = \<lambda>fd w. (0, removeAll fd w),
      flock_exclusive = \<lambda>fd w. (0, w), flock_unlock = \<lambda>fd w. (0, w), connector_status = \<lambda>c n w. None,
      other_threads = \<lambda>t locks w. (locks, w)\<rparr>"

lemma set_ops_ok: "file_ops_ok set_ops set"
proof -
  have "Suc (Max (insert 0 (set w))) \<notin> set w" for w :: "nat list"
  proof
    assume "Suc (Max (insert 0 (set w))) \<in> set w"
    then have "Suc (Max (insert 0 (set w))) \<le> Max (insert 0 (set w))" by (intro Max_ge) auto
    then show False by simp
  qed
  then show ?thesis by (simp add: file_ops_ok_def set_ops_def)
qed

definition default_open_config :: Open_Config where
  "default_open_config =
     \<lparr>cross_instance_locks_enabled = True, flock_poll_millisec = 100, flock_max_wait_millisec = 3000\<rparr>"

definition example_dref :: "nat \<Rightarrow> Display_Ref" where
  "example_dref bus =
     \<lparr>dref_busno = bus, dref_flags = no_dref_flags,
      detail = Some \<lparr>bus_exists = True, bus_probed = True, bus_has_edid = True, bus_addr_x37 = True,
        drm_connector_checked = True, drm_connector_name = None\<rparr>,
      bus_edid = True, bus_driver = Some ''amdgpu'', drm_connector = None\<rparr>"

definition example_session :: "'w \<Rightarrow> 'w Session" where
  "example_session w =
     \<lparr>sdev = w, self_thread = 1, display_locks = (\<lambda>_. None), drefs = [example_dref 4, example_dref 5], handles = [],
      open_displays = [], open_displays_for_thread = None\<rparr>"

theorem open_display_all_or_nothing_witness:
  "\<exists>err h s'. ddc_open_display failing_ops default_open_config 0 no_callopts (example_session 3) = Some ((err, h), s') \<and>
    (h = None \<longleftrightarrow> err \<noteq> None)"
proof -
  have "flock_times_ok default_open_config" by (simp add: flock_times_ok_def default_open_config_def)
  from open_display_all_or_nothing [OF failing_ops_ok this, of 0 no_callopts "example_session 3"]
  show ?thesis by (fastforce split: option.splits)
qed

text \<open>C38 (close_undoes_open): Closing a handle that was opened, after any use of the device and whatever the other
  threads did meanwhile. It ends abnormally, by an assertion, exactly if \<^verbatim>\<open>close()\<close> reports an error, as it
  does when it is interrupted. Otherwise it succeeds and restores what opening took: the thread's file
  descriptors, its locks and both tables are as before opening, and the handle is freed.
\<close>

theorem close_undoes_open:
  assumes "file_ops_ok ops fds" "flock_times_ok cfg" "d < length (drefs s)" "tables_ok s"
    and "ddc_open_display ops cfg d callopts s = Some ((None, Some i), s1)"
    and "same_but s1 s2" "fds (sdev s2) = fds (sdev s1)" "owned s2 = owned s1"
  shows "\<exists>f. handle_at i s2 = Some \<lparr>dh_fd = Some f, dh_dref = d\<rparr> \<and>
    (let w = (if cross_instance_locks_enabled cfg then snd (flock_unlock ops f (sdev s2)) else sdev s2)
     in case ddc_close_display ops cfg i s2 of
          None \<Rightarrow> fst (close_device ops f w) \<noteq> 0
        | Some (err, s3) \<Rightarrow> fst (close_device ops f w) = 0 \<and> err = None \<and> same_resources fds s s3 \<and>
            handle_at i s3 = None \<and> \<not> DREF_OPEN (dref_flags (drefs s3 ! d)))"
proof -
  let ?bus = "dref_busno (drefs s ! d)"
  obtain f w locks where o: "i = length (handles s)" "?bus \<notin> owned s" "owned s1 = insert ?bus (owned s)"
    "s1 = opened_session d f w locks s" "f \<notin> fds (sdev s)" "fds w = insert f (fds (sdev s))"
    using open_display_spec [OF assms(1,2), of d callopts s] assms(5) by auto
  note eq = same_but_fields [OF assms(6)]
  have h: "handle_at i s2 = Some \<lparr>dh_fd = Some f, dh_dref = d\<rparr>" by (simp add: handle_at_def eq(3) o(1,4))
  have b: "dref_busno (drefs s2 ! d) = ?bus" "d < length (drefs s2)" using assms(3) by (simp_all add: eq(2) o(4))
  define w1 where "w1 = (if cross_instance_locks_enabled cfg then snd (flock_unlock ops f (sdev s2)) else sdev s2)"
  have w1: "fds w1 = insert f (fds (sdev s))" using assms(1,7) o(4,6) by (simp add: w1_def file_ops_ok_def)
  obtain e w2 where c: "close_device ops f w1 = (e, w2)" by force
  have fw: "fds w2 = fds (sdev s)"
  proof -
    have "f \<in> fds w1" using w1 by simp
    then have "fds (snd (close_device ops f w1)) = fds w1 - {f}" using assms(1) unfolding file_ops_ok_def by blast
    then show ?thesis using c w1 o(5) by simp
  qed
  have "?bus \<in> owned (s2\<lparr>sdev := w2\<rparr>)" using assms(8) o(3) by simp
  from unlock_bus_ok [OF assms(1) this] obtain s3 where
    s3: "unlock_bus ops ?bus (s2\<lparr>sdev := w2\<rparr>) = (0, s3)" "same_but (s2\<lparr>sdev := w2\<rparr>) s3"
      "fds (sdev s3) = fds (sdev s)" "owned s3 = owned s1 - {?bus}"
    using assms(8) fw by auto
  have cb: "i2c_close_bus ops cfg ?bus f s2 = (if e = 0 then Some (0, s3) else None)"
    using c s3(1)
    by (cases "flock_unlock ops f (sdev s2)"; cases "cross_instance_locks_enabled cfg")
      (simp_all add: i2c_close_bus_def flock_unlock_by_fd_def i2c_close_bus_basic_def c_assert_def w1_def)
  show ?thesis
  proof (cases "e = 0")
    case False
    then have "ddc_close_display ops cfg i s2 = None" using h b(1) cb by (simp add: ddc_close_display_def)
    then show ?thesis using h c False by (auto simp: w1_def Let_def)
  next
    case True
    have sb: "same_but s1 s3" using assms(6) s3(2) by (simp add: same_but_def)
    note e3 = same_but_fields [OF sb]
    define s4 where "s4 = (set_dref_flags d (\<lambda>fl. fl\<lparr>DREF_OPEN := False\<rparr>) s3)
        \<lparr>open_displays := removeAll i (open_displays s1)\<rparr>"
    define s5 where "s5 = snd (remove_open_display_for_current_thread i s4)"
    have cl: "ddc_close_display ops cfg i s2 = Some (None, s5\<lparr>handles := (handles s5)[i := None]\<rparr>)"
      using h b(1) cb True e3(4) by (simp add: ddc_close_display_def Let_def s4_def s5_def)
    have ni: "i \<notin> set (open_displays s)" "\<And>ixs. open_displays_for_thread s = Some ixs \<Longrightarrow> i \<notin> set ixs"
      using assms(4) o(1) unfolding tables_ok_def by blast+
    have t: "open_displays_for_thread s1 = Some (case open_displays_for_thread s of None \<Rightarrow> [i] | Some ixs \<Rightarrow> ixs @ [i])"
      using o(1,4) ni(2)
      by (auto simp: opened_session_def Let_def add_open_display_for_current_thread_def split: option.splits)
    have t4: "open_displays_for_thread s4 = open_displays_for_thread s1" by (simp add: s4_def e3(5))
    have t5: "open_displays_for_thread s5 = open_displays_for_thread s"
      using t t4 ni(2) assms(4)
      by (auto simp: s5_def remove_open_display_for_current_thread_def remove1_append tables_ok_def split: option.splits)
    have od: "open_displays s5 = open_displays s" using ni(1) by (simp add: s5_def s4_def o(1,4))
    have hs: "handles s5 = handles s @ [Some \<lparr>dh_fd = Some f, dh_dref = d\<rparr>]" by (simp add: s5_def s4_def e3(3) o(4))
    have ow: "fds (sdev s5) = fds (sdev s)" "owned s5 = owned s"
      using s3(3,4) o(2,3) by (auto simp: s5_def s4_def owned_def)
    have "d < length (drefs s3)" using assms(3) by (simp add: e3(2) o(4))
    then have "\<not> DREF_OPEN (dref_flags (drefs s5 ! d))" by (simp add: s5_def s4_def set_dref_flags_dref)
    moreover have "same_resources fds s (s5\<lparr>handles := (handles s5)[i := None]\<rparr>)"
      using hs t5 od ow o(1) by (auto simp: same_resources_def handle_at_def nth_append owned_def)
    moreover have "handle_at i (s5\<lparr>handles := (handles s5)[i := None]\<rparr>) = None"
      using o(1) by (simp add: handle_at_def hs)
    ultimately show ?thesis using cl h c True by (auto simp: w1_def Let_def)
  qed
qed

text \<open>The same calls, but \<^verbatim>\<open>close()\<close> reports \<^verbatim>\<open>EIO\<close>.\<close>

definition eio_ops :: "nat list File_Ops" where
  "eio_ops = set_ops\<lparr>close_device := \<lambda>fd w. (5, removeAll fd w)\<rparr>"

lemma eio_ops_ok: "file_ops_ok eio_ops set"
  using set_ops_ok unfolding file_ops_ok_def by (simp add: eio_ops_def set_ops_def)

lemma example_opens:
  assumes "ops = set_ops \<or> ops = eio_ops"
  shows "ddc_open_display ops default_open_config 0 no_callopts (example_session []) =
    Some ((None, Some 0), opened_session 0 1 [1] ((\<lambda>_. None)(4 := Some 1)) (example_session []))"
proof -
  have f: "open_device ops = open_device set_ops" "flock_exclusive ops = flock_exclusive set_ops"
    "other_threads ops = other_threads set_ops" "connector_status ops = connector_status set_ops"
    using assms by (auto simp: eio_ops_def)
  have "others_act ops s = s" for s by (simp add: others_act_def f set_ops_def)
  then have "lock_bus ops 4 (example_session []) = (0, (example_session [])\<lparr>display_locks := (\<lambda>_. None)(4 := Some 1)\<rparr>)"
    by (simp add: lock_bus_def example_session_def numeral_eq_Suc)
  moreover have "flock_lock_by_fd ops default_open_config 1 False [1] = Some (0, [1])"
    by (simp add: flock_lock_by_fd_def flock_loop.simps f set_ops_def)
  ultimately have "i2c_open_bus ops default_open_config 4 no_callopts (example_session []) =
      Some ((None, Some 1), (example_session [1])\<lparr>display_locks := (\<lambda>_. None)(4 := Some 1)\<rparr>)"
    unfolding i2c_open_bus_def
    by (subst open_loop.simps)
      (simp add: try_open_def i2c_open_bus_basic_def example_session_def f set_ops_def default_open_config_def)
  then show ?thesis
    by (simp add: ddc_open_display_def example_session_def example_dref_def no_dref_flags_def connector_disconnected_def
        dref_get_i2c_driver_def Let_def opened_session_def)
qed

theorem close_undoes_open_witness:
  "\<exists>s1 s2. ddc_open_display set_ops default_open_config 0 no_callopts (example_session []) = Some ((None, Some 0), s1) \<and>
    owned s1 = {4} \<and> ddc_close_display set_ops default_open_config 0 s1 = Some (None, s2) \<and> owned s2 = {} \<and>
    ddc_open_display eio_ops default_open_config 0 no_callopts (example_session []) = Some ((None, Some 0), s1) \<and>
    ddc_close_display eio_ops default_open_config 0 s1 = None"
proof -
  have p: "flock_times_ok default_open_config" by (simp add: flock_times_ok_def default_open_config_def)
  have t: "tables_ok (example_session [])" "0 < length (drefs (example_session ([] :: nat list)))"
    by (simp_all add: tables_ok_def example_session_def)
  define s1 :: "nat list Session" where "s1 = opened_session 0 1 [1] ((\<lambda>_. None)(4 := Some 1)) (example_session [])"
  have o: "ddc_open_display set_ops default_open_config 0 no_callopts (example_session []) = Some ((None, Some 0), s1)"
    "ddc_open_display eio_ops default_open_config 0 no_callopts (example_session []) = Some ((None, Some 0), s1)"
    using example_opens by (simp_all add: s1_def)
  have w: "owned s1 = {4}" by (auto simp: s1_def example_session_def)
  have c: "fst (close_device set_ops f x) = 0" "fst (close_device eio_ops f x) \<noteq> 0" for f x
    by (simp_all add: set_ops_def eio_ops_def)
  obtain s2 where s2: "ddc_close_display set_ops default_open_config 0 s1 = Some (None, s2)"
      "same_resources set (example_session []) s2"
    using close_undoes_open [OF set_ops_ok p t(2,1) o(1) same_but_refl refl refl]
    by (auto simp: c Let_def split: option.splits)
  have "ddc_close_display eio_ops default_open_config 0 s1 = None"
    using close_undoes_open [OF eio_ops_ok p t(2,1) o(2) same_but_refl refl refl]
    by (cases "ddc_close_display eio_ops default_open_config 0 s1") (auto simp: c Let_def)
  moreover have "owned s2 = {}" using s2(2) by (simp add: same_resources_def) (simp add: owned_def example_session_def)
  ultimately show ?thesis using o w s2(1) by blast
qed

section \<open>Closing all displays of a thread\<close>

lemma unlock_bus_table: "unlock_bus ops bus s = (rc, s') \<Longrightarrow> open_displays_for_thread s' = open_displays_for_thread s"
  by (auto simp: unlock_bus_def others_act_def Let_def split: prod.splits if_splits)

lemma close_bus_table:
  "i2c_close_bus ops cfg bus fd s = Some (rc, s') \<Longrightarrow> open_displays_for_thread s' = open_displays_for_thread s"
  by (auto simp: i2c_close_bus_def i2c_close_bus_basic_def flock_unlock_by_fd_def
      split: Option.bind_splits if_splits prod.splits dest!: unlock_bus_table)

lemma close_display_table:
  assumes "ddc_close_display_wo_return ops cfg i s = Some s'" "open_displays_for_thread s = Some ixs"
  shows "open_displays_for_thread s' = (if remove1 i ixs = [] then None else Some (remove1 i ixs))"
  using assms
  by (auto simp: ddc_close_display_wo_return_def ddc_close_display_def Let_def remove_open_display_for_current_thread_def
      dest!: close_bus_table split: Option.bind_splits option.splits)

fun every_second :: "'a list \<Rightarrow> 'a list" where
  "every_second [] = []"
| "every_second [x] = []"
| "every_second (x # y # zs) = y # every_second zs"

text \<open>\<open>pre\<close> are the handles that were passed over.\<close>

lemma close_thread_loop_table:
  assumes "close_thread_loop ops cfg n (length pre) s = Some s'" "open_displays_for_thread s = Some (pre @ post)"
    "distinct (pre @ post)"
  shows "open_displays_for_thread s' = Some (pre @ every_second post)"
  using assms
proof (induction post arbitrary: pre n s rule: every_second.induct)
  case 1
  then show ?case by (cases n) auto
next
  case (2 x)
  then obtain k s1 where k: "n = Suc k" "ddc_close_display_wo_return ops cfg x s = Some s1"
      "close_thread_loop ops cfg k (length pre + 1) s1 = Some s'"
    by (cases n) (auto simp: nth_append split: Option.bind_splits)
  have t: "open_displays_for_thread s1 = (if pre = [] then None else Some pre)"
    using close_display_table [OF k(2) 2(2)] 2(3) by (simp add: remove1_append)
  show ?case
    using k(3) t by (cases k; cases "pre = []") auto
next
  case (3 x y zs)
  then obtain k s1 where k: "n = Suc k" "ddc_close_display_wo_return ops cfg x s = Some s1"
      "close_thread_loop ops cfg k (length pre + 1) s1 = Some s'"
    by (cases n) (auto simp: nth_append split: Option.bind_splits)
  have t: "open_displays_for_thread s1 = Some ((pre @ [y]) @ zs)"
    using close_display_table [OF k(2) 3(3)] 3(4) by (simp add: remove1_append)
  show ?case using 3(1) [of k "pre @ [y]" s1] k(3) t 3(4) by simp
qed

text \<open>C39 (thread_close_skips_displays): The function that closes all displays a thread has left open closes only
  every second one, because its loop counts up while closing removes the handle from the table it
  goes through. If exactly one display is open, the program always ends abnormally: closing it frees the
  table, which the condition of the loop reads again.
\<close>

theorem thread_close_skips_displays:
  assumes "open_displays_for_thread s = Some ixs" "distinct ixs"
  shows "(length ixs = 1 \<longrightarrow> ddc_close_all_displays_for_current_thread ops cfg s = None) \<and>
    (\<forall>s'. ddc_close_all_displays_for_current_thread ops cfg s = Some s' \<longrightarrow>
       open_displays_for_thread s' = Some (every_second ixs))"
proof (intro conjI impI allI)
  fix s' assume "ddc_close_all_displays_for_current_thread ops cfg s = Some s'"
  then show "open_displays_for_thread s' = Some (every_second ixs)"
    using close_thread_loop_table [of ops cfg "length ixs + 1" "[]" s s' ixs] assms
    by (simp add: ddc_close_all_displays_for_current_thread_def)
next
  assume "length ixs = 1"
  then obtain i where i: "ixs = [i]" by (cases ixs) auto
  show "ddc_close_all_displays_for_current_thread ops cfg s = None"
  proof (cases "ddc_close_display_wo_return ops cfg i s")
    case (Some s1)
    have "open_displays_for_thread s1 = None" using close_display_table [OF Some] assms(1) i by simp
    then show ?thesis
      using assms(1) i Some by (simp add: ddc_close_all_displays_for_current_thread_def)
  qed (use assms(1) i in \<open>simp add: ddc_close_all_displays_for_current_thread_def\<close>)
qed

text \<open>Two displays that a thread has open.\<close>

definition two_open :: "nat list Session" where
  "two_open = (example_session [2, 1])
     \<lparr>display_locks := (\<lambda>_. None)(4 := Some 1, 5 := Some 1),
      handles := [Some \<lparr>dh_fd = Some 1, dh_dref = 0\<rparr>, Some \<lparr>dh_fd = Some 2, dh_dref = 1\<rparr>],
      open_displays := [1, 0], open_displays_for_thread := Some [0, 1]\<rparr>"

lemma two_open_closes: "\<exists>s'. ddc_close_all_displays_for_current_thread set_ops default_open_config two_open = Some s'"
  by (simp add: ddc_close_all_displays_for_current_thread_def two_open_def example_session_def example_dref_def
      ddc_close_display_wo_return_def ddc_close_display_def handle_at_def i2c_close_bus_def flock_unlock_by_fd_def
      i2c_close_bus_basic_def unlock_bus_def others_act_def c_assert_def set_ops_def default_open_config_def set_dref_flags_def
      remove_open_display_for_current_thread_def Let_def numeral_eq_Suc)

theorem thread_close_skips_displays_witness:
  "\<exists>s'. ddc_close_all_displays_for_current_thread set_ops default_open_config two_open = Some s' \<and>
    open_displays_for_thread s' = Some [1]"
proof -
  obtain s' where s': "ddc_close_all_displays_for_current_thread set_ops default_open_config two_open = Some s'"
    using two_open_closes by blast
  have "open_displays_for_thread two_open = Some [0, 1]" by (simp add: two_open_def)
  from thread_close_skips_displays [OF this, of set_ops default_open_config] s' show ?thesis by simp
qed

section \<open>The version of a display reference\<close>

text \<open>C40 (version_needs_open_display): Asking for the version of a display reference whose version is not known
  yet ends the program abnormally whenever the display cannot be opened, for instance when its bus is
  locked or busy: the handle that was not created is used to note that the version is unknown.
\<close>

theorem version_needs_open_display:
  assumes "file_ops_ok (file_ops env) fds" "flock_times_ok (open_cfg env)"
    and "get_saved_vcp_version (dh (checks s)) = DDCA_VSPEC_UNQUERIED"
    and "DREF_DDC_COMMUNICATION_WORKING (dref_flags (drefs (session s) ! d))"
    and "ddc_open_display (file_ops env) (open_cfg env) d no_callopts (session s) = Some ((Some e, h), ses)"
  shows "get_vcp_version_by_dref env d s = None"
proof -
  have "h = None"
    using open_display_spec [OF assms(1,2), of d no_callopts "session s"] assms(5) by (auto split: option.splits)
  then show ?thesis using assms(3-5) by (simp add: get_vcp_version_by_dref_def vcp_version_eq_iff)
qed

definition unopenable :: "nat Dref_State" where
  "unopenable =
     \<lparr>session = set_dref_flags 0 (\<lambda>fl. fl\<lparr>DREF_DDC_COMMUNICATION_WORKING := True, DREF_REMOVED := True\<rparr>) (example_session 0),
      checks = \<lparr>dh = (example_vcp 0)\<lparr>vcp_version_xdf := DDCA_VSPEC_UNQUERIED\<rparr>, communication_error_summary = None\<rparr>,
      I2C_BUS_DDC_CHECKS_IGNORABLE = False\<rparr>"

definition example_dref_env :: "'w Vcp_Env \<Rightarrow> 'w File_Ops \<Rightarrow> Parsed_Edid \<Rightarrow> 'w Dref_Env" where
  "example_dref_env venv ops edid =
     \<lparr>check_env = \<lparr>vcp_env = venv, display_edid = edid, I2C_BUS_LVDS_OR_EDP = False, i2c_force_bus = False,
        ddc_never_uses_null_response_for_unsupported = False,
        enable_write_detect_to_status = False, connector_driver = \<lambda>_. None, write_detect = \<lambda>_ w. (Inr (), w)\<rparr>,
      file_ops = ops, open_cfg = default_open_config, skip_ddc_checks = False, ignored_mmk_table = []\<rparr>"

theorem version_needs_open_display_witness:
  "\<forall>venv edid. get_vcp_version_by_dref (example_dref_env venv failing_ops edid) 0 unopenable = None"
proof (intro allI)
  fix venv :: "nat Vcp_Env" and edid
  let ?env = "example_dref_env venv failing_ops edid"
  show "get_vcp_version_by_dref ?env 0 unopenable = None"
  proof (rule version_needs_open_display)
    show "file_ops_ok (file_ops ?env) (\<lambda>w. {})" using failing_ops_ok by (simp add: example_dref_env_def)
    show "flock_times_ok (open_cfg ?env)" by (simp add: flock_times_ok_def example_dref_env_def default_open_config_def)
    show "get_saved_vcp_version (dh (checks unopenable)) = DDCA_VSPEC_UNQUERIED"
      by (simp add: unopenable_def get_saved_vcp_version_def get_overriding_vcp_version_def example_vcp_def
          vcp_version_is_valid_def vcp_version_eq_iff vspec_defs)
    show "DREF_DDC_COMMUNICATION_WORKING (dref_flags (drefs (session unopenable) ! 0))"
      by (simp add: unopenable_def set_dref_flags_def example_session_def)
    show "ddc_open_display (file_ops ?env) (open_cfg ?env) 0 no_callopts (session unopenable) =
        Some ((Some (err_new DDCRC_DISCONNECTED), None), session unopenable)"
      by (simp add: unopenable_def set_dref_flags_def example_session_def ddc_open_display_def)
  qed
qed

end
