(* ===== verification/Spec2Isabelle.thy ===== *)
theory Spec2Isabelle
  imports Status_Codes Byte_Buffer Hex_Strings Byte_Sets Ddc_Packets Circular_Buffers Try_Data Tuned_Sleep
    Packet_IO Multi_Part_IO Vcp_Values Dyn_Feature_Codes Capabilities Display_Open
begin

text \<open>
  A verification development for \<^bold>\<open>ddcutil\<close>, the program and library that query and change monitor
  settings over the DDC/CI protocol on an I2C bus.

  \<^bold>\<open>The program.\<close> A request is built as a DDC packet (base/ddc_packets.c), written to the bus and its
  answer read back (i2c/i2c_execute.c, chosen by i2c/i2c_strategy_dispatcher.c), and the answer is
  checked and interpreted by the packet code again. Before and between these steps the program sleeps
  (base/tuned_sleep.c); how long depends on the sleep multiplier of the display
  (base/per_display_data.c), which the dynamic sleep algorithm (base/dsa2.c) moves along a table of steps
  according to how many tries each exchange took. The tries are limited and counted by
  ddc/ddc_try_data.c and base/display_retry_data.c. Results are status codes
  (base/status_code_mgt.c); bytes are collected in the containers of util/data_structures.c
  and read from text by util/string_util.c. On top of the exchanges, ddc/ddc_vcp.c reads and writes the
  values of features, ddc/ddc_vcp_version.c finds out the version of MCCS, and ddc/ddc_initial_checks.c how
  a display reports features it does not have. Before, ddc/ddc_packet_io.c opens the display: a lock
  between threads (base/display_lock.c), the device (i2c/i2c_bus_core.c) and a lock between processes
  (base/flock.c). All paths here are relative to \<^verbatim>\<open>src/src\<close>.

  \<^bold>\<open>The theories.\<close>
  \<^item> \<^verbatim>\<open>Prelude\<close>: bytes, byte arrays, assertions, exclusive or, and the shared lemma collections
    \<^verbatim>\<open>byte_simps\<close> and \<^verbatim>\<open>mem_simps\<close>.
  \<^item> \<^verbatim>\<open>Status_Codes\<close>: the codes, their ranges and modulation (base/status_code_mgt.c).
  \<^item> \<^verbatim>\<open>Byte_Buffer\<close>: \<^verbatim>\<open>Buffer\<close> of util/data_structures.c as a record of allocated bytes, length and
    growth increment; refinement of append to list append.
  \<^item> \<^verbatim>\<open>Hex_Strings\<close>: the hex parsers of util/string_util.c over the C library's \<^verbatim>\<open>strtol\<close>.
  \<^item> \<^verbatim>\<open>Byte_Sets\<close>: \<^verbatim>\<open>Byte_Value_Array\<close>, \<^verbatim>\<open>Bit_Set_256\<close> with its iterator, \<^verbatim>\<open>Bit_Set_32\<close> and the
    reader of hex lists; the locale \<^verbatim>\<open>byte_collection\<close> is what the reader needs of a collection, and
    both collections interpret it.
  \<^item> \<^verbatim>\<open>Ddc_Packets\<close>: base/ddc_packets.c; requests are characterised byte for byte and the typed parse of a
    response is equal to a reference definition on the bytes of the frame.
  \<^item> \<^verbatim>\<open>Circular_Buffers\<close>: the buffer of last lines of util/data_structures.c; the locale
    \<^verbatim>\<open>bounded_history\<close> is the contract of a buffer that keeps the last entries, interpreted by it and by
    the invocation buffer of base/dsa2.c.
  \<^item> \<^verbatim>\<open>Dsa2\<close>: the algorithm of base/dsa2.c on one results table, with its invariant.
  \<^item> \<^verbatim>\<open>Per_Display\<close>: the global table of results tables with an explicit store, so that the pointer each
    display holds can dangle, and base/per_display_data.c on top of it. Sleep multipliers are
    rationals, rounded to C's \<^verbatim>\<open>float\<close> and \<^verbatim>\<open>double\<close> where the code does.
  \<^item> \<^verbatim>\<open>Tuned_Sleep\<close>: base/tuned_sleep.c, immediate and deferred sleeps.
  \<^item> \<^verbatim>\<open>Try_Data\<close>: ddc/ddc_try_data.c and base/display_retry_data.c.
  \<^item> \<^verbatim>\<open>I2c_Execute\<close>: i2c/i2c_execute.c and i2c/i2c_strategy_dispatcher.c; the system calls are the
    fields of a record. \<^verbatim>\<open>calls_ok\<close> states their documented behaviour, \<^verbatim>\<open>fd_named\<close> that the link of
    the open descriptor in \<^verbatim>\<open>/proc/self/fd\<close> gives the number of the bus; \<^verbatim>\<open>driver_ok\<close> is both. Without the
    second the program can stop by an assertion after \<^verbatim>\<open>EINVAL\<close>, which \<^verbatim>\<open>i2c_calls_return\<close> states exactly;
    the theories above assume it.
  \<^item> \<^verbatim>\<open>Edid\<close>, \<^verbatim>\<open>I2c_Edid\<close>: util/edid.c, the bytes of an EDID and the record parsed from them; and
    i2c/i2c_edid.c, the ways to read it, with the checks of an open bus in i2c/i2c_bus_core.c.
  \<^item> \<^verbatim>\<open>Packet_IO\<close>: ddc/ddc_packet_io.c, one exchange with a display and its retry loop, over the theories
    above; a state holds everything the parts change.
  \<^item> \<^verbatim>\<open>Multi_Part_IO\<close>: ddc/ddc_multi_part_io.c, values longer than a packet; the locale
    \<^verbatim>\<open>fragment_source\<close> is what assembling a value needs of a source of fragments, interpreted by the
    exchange with a display.
  \<^item> \<^verbatim>\<open>C_Text\<close>, \<^verbatim>\<open>String_Util\<close>: what the program uses of \<^verbatim>\<open>printf\<close>, \<^verbatim>\<open>scanf\<close> and \<^verbatim>\<open>strtol\<close>, and the
    string functions of util/string_util.c.
  \<^item> \<^verbatim>\<open>Vcp_Version\<close>: base/vcp_version.c.
  \<^item> \<^verbatim>\<open>Feature_Metadata\<close>: base/feature_metadata.c, flags, tables of values, metadata records.
  \<^item> \<^verbatim>\<open>Vcp_Value_Tables\<close>, \<^verbatim>\<open>Vcp_Code_Table\<close>: the tables of vcp/vcp_feature_codes.c, entry for entry;
    \<^verbatim>\<open>Vcp_Feature_Codes\<close>: its lookups and the choice by version; \<^verbatim>\<open>Vcp_Formatters\<close>: its functions that
    write a value as text; \<^verbatim>\<open>Vcp_Table_Facts\<close>: what holds for every entry of the table, evaluated
    once entry by entry, and what follows for values and versions in general.
  \<^item> \<^verbatim>\<open>Vcp_Values\<close>: vcp/vcp_feature_values.c.
  \<^item> \<^verbatim>\<open>Monitor_Model_Key\<close>, \<^verbatim>\<open>Dynamic_Features\<close>, \<^verbatim>\<open>Dyn_Feature_Codes\<close>: base/monitor_model_key.c, the parser
    of feature definition files base/dynamic_features.c, and the merge of user-defined features with the
    table in dynvcp/dyn_feature_codes.c and dynvcp/dyn_feature_files.c.
  \<^item> \<^verbatim>\<open>Capabilities\<close>: vcp/parse_capabilities.c and vcp/parsed_capabilities_feature.c, the parser of the
    capabilities string; it returns except on one kind of string, and reads back what is rendered.
  \<^item> \<^verbatim>\<open>Vcp_Access\<close>: ddc/ddc_vcp.c and ddc/ddc_vcp_version.c. A state holds that of the exchange, the
    flags and the saved version of the display, its feature definitions and the settings of the thread.
    Values that were read come from a reply of the device; what verification does, and does not.
  \<^item> \<^verbatim>\<open>Initial_Checks\<close>: ddc/ddc_initial_checks.c on an open display, with the writing of \<^verbatim>\<open>detect\<close> to sysfs
    (sysfs/sysfs_base.c) that an option asks for. The checks return and leave at most one flag.
  \<^item> \<^verbatim>\<open>Display_Locks\<close>: base/display_lock.c for any number of threads. A thread is at a point of the code
    (\<^verbatim>\<open>Pc\<close>), and a step goes from one access of shared state or operation of a mutex to the next
    (\<^verbatim>\<open>step_pc\<close>). The states that can be reached satisfy \<^verbatim>\<open>locks_ok\<close>; they implement a map from displays to
    the threads that own them; every run of calls in progress ends, and the results of the calls say who
    owns the display.
  \<^item> \<^verbatim>\<open>Display_Open\<close>: opening and closing displays, and the functions that open one for a while. The
    session is what one thread works on: device, locks, references, handles and the two tables. The calls
    of the operating system are a record, and \<^verbatim>\<open>file_ops_ok\<close> states their documented behaviour: \<^verbatim>\<open>close()\<close>
    may report an error but releases the descriptor. The map of owners of \<^verbatim>\<open>Display_Locks\<close> is seen from
    this thread: the others may change it, by an unknown function, before each attempt of this thread to
    get a lock and before it gives one back, but they neither take its locks away nor give it any, as
    \<^verbatim>\<open>display_locks_refine_owner_map\<close> shows. That other threads change the flags of a display reference or
    the table of all open displays meanwhile is not modelled.

  \<^bold>\<open>Conventions.\<close> \<open>None\<close> is an abnormal end: a failed assertion, a null or dangling pointer, an access
  outside an object, or a loop that does not end. Status codes are integers, 0 for success. A C \<^verbatim>\<open>int\<close> whose values are bounded far
  below its range is an integer; bytes and 16 bit counters are words. A message of the trace or of
  \<^verbatim>\<open>PROGRAM_LOGIC_ERROR\<close>, which reports and continues, has no effect in the model; system calls made only to
  build its arguments are left out, but the lock that the message at the end of a lookup of a lock record takes
  is a step of \<^verbatim>\<open>Display_Locks\<close>. Loops recurse on their
  data where they can; fuel appears in the retry loops and in the loop over fragments, and is proved to be enough:
  two passes for the dispatcher, the limit of tries for an exchange, the size of the buffer for fragments, two
  passes of the retry of a feature that should not exist, one more pass than there are handles for
  the loop that closes the displays of a thread. The wait for the file lock is a \<^verbatim>\<open>partial_function\<close>, since with a
  polling time of 0 it may not end; \<^verbatim>\<open>flock_times_ok\<close> excludes that. Opening makes at most eleven attempts, each
  with ten for the lock of the display; \<^verbatim>\<open>work_left\<close> bounds the steps of the threads.

  \<^bold>\<open>Not modelled.\<close> Command line, reports and tracing, USB displays, the watch thread for hotplug
  events, detection and numbering of displays, files of settings, sysfs and X11 inspection, and the public API
  layer: they are input and output, or glue over
  the parts above. Of the modelled files, the exploration of the monitor state in
  ddc/ddc_initial_checks.c, a report for debugging, and the writing of \<^verbatim>\<open>detect\<close> before a display is opened are
  left out. Memory that is only freed is not modelled, except for results tables.
\<close>

end
